(* ===== verification/Prelude.thy ===== *)
theory Prelude
  imports Complex_Main "HOL-Library.Char_ord" "HOL-Library.List_Lexorder"
begin

text \<open>
  Shared vocabulary of the development: the types that name the rows and the
  clock, strings as lists of code units, a database table as a list of row
  records with the four Prisma operations the services use, and the
  result-with-state type every service method is written in.
\<close>

named_theorems table_simps \<open>facts about table operations\<close>
named_theorems op_simps \<open>unfolding of the result-with-state combinators\<close>

section \<open>Names\<close>

text \<open>A UUID column is its 128-bit value, so it is a natural number with the
  database's order on it; an instant is its epoch milliseconds.\<close>

type_synonym uuid = nat
type_synonym instant = int

section \<open>Results with state\<close>

text \<open>A service method takes the state and returns either the exception it
  throws or its value, together with the state it leaves. The state is returned
  on both sides, since a write that precedes a throw stays written unless a
  transaction rolls it back.\<close>

type_synonym ('s, 'e, 'a) oper = "'s \<Rightarrow> ('e + 'a) \<times> 's"

definition ok :: "'a \<Rightarrow> ('s, 'e, 'a) oper" where
  [op_simps]: "ok x s = (Inr x, s)"

definition throw :: "'e \<Rightarrow> ('s, 'e, 'a) oper" where
  [op_simps]: "throw e s = (Inl e, s)"

fun bindO :: "('s, 'e, 'a) oper \<Rightarrow> ('a \<Rightarrow> ('s, 'e, 'b) oper) \<Rightarrow> ('s, 'e, 'b) oper" where
  "bindO m f s = (case m s of (Inl e, s') \<Rightarrow> (Inl e, s') | (Inr x, s') \<Rightarrow> f x s')"

definition modifyO :: "('s \<Rightarrow> 's) \<Rightarrow> ('s, 'e, unit) oper" where
  [op_simps]: "modifyO f s = (Inr (), f s)"

text \<open>A database transaction: what it wrote is undone when it throws.\<close>

definition transactionO :: "('s, 'e, 'a) oper \<Rightarrow> ('s, 'e, 'a) oper" where
  "transactionO m s = (case m s of (Inl e, s') \<Rightarrow> (Inl e, s) | (Inr x, s') \<Rightarrow> (Inr x, s'))"

lemma bindO_Inr [simp]: "m s = (Inr x, s') \<Longrightarrow> bindO m f s = f x s'"
  by simp

lemma bindO_Inl [simp]: "m s = (Inl e, s') \<Longrightarrow> bindO m f s = (Inl e, s')"
  by simp

lemma transactionO_Inl: "fst (transactionO m s) = Inl e \<Longrightarrow> snd (transactionO m s) = s"
  by (auto simp: transactionO_def split: prod.splits sum.splits)

lemma transactionO_Inr: "m s = (Inr x, s') \<Longrightarrow> transactionO m s = (Inr x, s')"
  by (simp add: transactionO_def)

lemma transactionO_cases:
  obtains (rolled_back) e where "transactionO m s = (Inl e, s)"
  | (committed) x s' where "m s = (Inr x, s')" "transactionO m s = (Inr x, s')"
  by (cases "m s"; cases "fst (m s)") (auto simp: transactionO_def)

text \<open>An operation keeps an invariant when every state it leaves, thrown or
  not, satisfies it again.\<close>

definition keeps :: "('s \<Rightarrow> bool) \<Rightarrow> ('s, 'e, 'a) oper \<Rightarrow> bool" where
  "keeps I m \<longleftrightarrow> (\<forall>s. I s \<longrightarrow> I (snd (m s)))"

lemma keepsI [intro?]: "(\<And>s. I s \<Longrightarrow> I (snd (m s))) \<Longrightarrow> keeps I m"
  by (simp add: keeps_def)

lemma keepsD: "keeps I m \<Longrightarrow> I s \<Longrightarrow> I (snd (m s))"
  by (simp add: keeps_def)

lemma keeps_transactionO: "keeps I m \<Longrightarrow> keeps I (transactionO m)"
  unfolding keeps_def
  by (metis snd_conv transactionO_cases)

section \<open>Tables\<close>

text \<open>A table is the list of its rows in physical order.\<close>

definition findFirst :: "('r \<Rightarrow> bool) \<Rightarrow> 'r list \<Rightarrow> 'r option" where
  "findFirst p rows = List.find p rows"

definition updateMany :: "('r \<Rightarrow> bool) \<Rightarrow> ('r \<Rightarrow> 'r) \<Rightarrow> 'r list \<Rightarrow> 'r list" where
  "updateMany p f rows = map (\<lambda>r. if p r then f r else r) rows"

definition deleteMany :: "('r \<Rightarrow> bool) \<Rightarrow> 'r list \<Rightarrow> 'r list" where
  "deleteMany p rows = filter (\<lambda>r. \<not> p r) rows"

definition countWhere :: "('r \<Rightarrow> bool) \<Rightarrow> 'r list \<Rightarrow> nat" where
  "countWhere p rows = length (filter p rows)"

lemma findFirst_Nil [simp]: "findFirst p [] = None"
  by (simp add: findFirst_def)

lemma findFirst_Cons [simp]: "findFirst p (r # rs) = (if p r then Some r else findFirst p rs)"
  by (simp add: findFirst_def)

lemma findFirst_SomeD: "findFirst p rows = Some r \<Longrightarrow> r \<in> set rows \<and> p r"
  by (induction rows) (auto split: if_splits)

lemma findFirst_None_iff [table_simps]: "findFirst p rows = None \<longleftrightarrow> (\<forall>r\<in>set rows. \<not> p r)"
  by (induction rows) auto

lemma findFirst_append [table_simps]:
  "findFirst p (xs @ ys) = (case findFirst p xs of None \<Rightarrow> findFirst p ys | Some r \<Rightarrow> Some r)"
  by (induction xs) auto

lemma findFirst_ex: "r \<in> set rows \<Longrightarrow> p r \<Longrightarrow> \<exists>r'. findFirst p rows = Some r'"
  by (induction rows) auto

lemma updateMany_Nil [simp]: "updateMany p f [] = []"
  by (simp add: updateMany_def)

lemma updateMany_Cons [simp]:
  "updateMany p f (r # rs) = (if p r then f r else r) # updateMany p f rs"
  by (simp add: updateMany_def)

lemma updateMany_append [simp]: "updateMany p f (xs @ ys) = updateMany p f xs @ updateMany p f ys"
  by (simp add: updateMany_def)

lemma length_updateMany [simp]: "length (updateMany p f rows) = length rows"
  by (simp add: updateMany_def)

lemma set_updateMany: "set (updateMany p f rows) = (\<lambda>r. if p r then f r else r) ` set rows"
  by (simp add: updateMany_def)

lemma map_updateMany [table_simps]:
  "(\<And>r. g (f r) = g r) \<Longrightarrow> map g (updateMany p f rows) = map g rows"
  by (induction rows) auto

lemma updateMany_none [table_simps]: "\<forall>r\<in>set rows. \<not> p r \<Longrightarrow> updateMany p f rows = rows"
  by (induction rows) auto

lemma countWhere_Nil [simp]: "countWhere p [] = 0"
  by (simp add: countWhere_def)

lemma countWhere_Cons [simp]: "countWhere p (r # rs) = (if p r then Suc (countWhere p rs) else countWhere p rs)"
  by (simp add: countWhere_def)

lemma countWhere_append [simp]: "countWhere p (xs @ ys) = countWhere p xs + countWhere p ys"
  by (simp add: countWhere_def)

lemma countWhere_0_iff: "countWhere p rows = 0 \<longleftrightarrow> (\<forall>r\<in>set rows. \<not> p r)"
  by (simp add: countWhere_def filter_empty_conv)

lemma countWhere_pos: "r \<in> set rows \<Longrightarrow> p r \<Longrightarrow> 0 < countWhere p rows"
  by (metis countWhere_0_iff gr0I)

lemma countWhere_updateMany_same [table_simps]:
  "(\<And>r. r \<in> set rows \<Longrightarrow> q r \<Longrightarrow> p (f r) = p r) \<Longrightarrow>
   countWhere p (updateMany q f rows) = countWhere p rows"
  by (induction rows) auto

lemma countWhere_cong: "(\<And>r. r \<in> set rows \<Longrightarrow> p r = q r) \<Longrightarrow> countWhere p rows = countWhere q rows"
  by (induction rows) auto

lemma countWhere_mono: "(\<And>r. r \<in> set rows \<Longrightarrow> p r \<Longrightarrow> q r) \<Longrightarrow> countWhere p rows \<le> countWhere q rows"
  by (induction rows) (auto simp: le_Suc_eq)

lemma countWhere_strict:
  "x \<in> set rows \<Longrightarrow> q x \<Longrightarrow> \<not> p x \<Longrightarrow> (\<And>r. r \<in> set rows \<Longrightarrow> p r \<Longrightarrow> q r) \<Longrightarrow>
   countWhere p rows < countWhere q rows"
proof (induction rows)
  case (Cons a rows)
  have "countWhere p rows \<le> countWhere q rows"
    using Cons.prems by (intro countWhere_mono) auto
  then show ?case using Cons by (auto simp: less_Suc_eq_le)
qed simp

text \<open>An update of one row, known by a key no other row has.\<close>

lemma countWhere_update_one:
  assumes "distinct (map k rows)" "r \<in> set rows"
  shows "countWhere p (updateMany (\<lambda>x. k x = k r) f rows) + (if p r then 1 else 0)
       = countWhere p rows + (if p (f r) then 1 else 0)"
  using assms
proof (induction rows)
  case (Cons a rows)
  have none: "\<forall>x\<in>set rows. k x \<noteq> k a" using Cons.prems(1) by (auto simp: rev_image_eqI)
  show ?case
  proof (cases "a = r")
    case True
    then have "updateMany (\<lambda>x. k x = k r) f rows = rows"
      using none by (intro updateMany_none) auto
    then show ?thesis using True by simp
  next
    case False
    then have "k a \<noteq> k r" using Cons.prems none by auto
    then show ?thesis using Cons False by auto
  qed
qed simp

lemma findFirst_updateMany:
  "(\<And>r. q r \<Longrightarrow> p (f r) = p r) \<Longrightarrow>
   findFirst p (updateMany q f rows) = map_option (\<lambda>r. if q r then f r else r) (findFirst p rows)"
  by (induction rows) auto

lemma countWhere_deleteMany_same [table_simps]:
  "(\<And>r. r \<in> set rows \<Longrightarrow> q r \<Longrightarrow> \<not> p r) \<Longrightarrow> countWhere p (deleteMany q rows) = countWhere p rows"
  by (induction rows) (auto simp: deleteMany_def countWhere_def)

lemma set_deleteMany [simp]: "set (deleteMany p rows) = {r \<in> set rows. \<not> p r}"
  by (auto simp: deleteMany_def)

lemma deleteMany_Nil [simp]: "deleteMany p [] = []"
  by (simp add: deleteMany_def)

lemma deleteMany_Cons [simp]: "deleteMany p (r # rs) = (if p r then deleteMany p rs else r # deleteMany p rs)"
  by (simp add: deleteMany_def)

lemma deleteMany_append [simp]: "deleteMany p (xs @ ys) = deleteMany p xs @ deleteMany p ys"
  by (simp add: deleteMany_def)

lemma countWhere_delete_one:
  assumes "distinct (map k rows)" "r \<in> set rows"
  shows "countWhere p (deleteMany (\<lambda>x. k x = k r) rows) + (if p r then 1 else 0) = countWhere p rows"
  using assms
proof (induction rows)
  case (Cons a rows)
  have none: "\<forall>x\<in>set rows. k x \<noteq> k a" using Cons.prems(1) by (auto simp: rev_image_eqI)
  show ?case
  proof (cases "a = r")
    case True
    then have "deleteMany (\<lambda>x. k x = k r) rows = rows"
      using none by (auto simp: deleteMany_def filter_id_conv)
    then show ?thesis using True by simp
  next
    case False
    then have "k a \<noteq> k r" using Cons.prems none by auto
    then show ?thesis using Cons False by auto
  qed
qed simp

lemma distinct_map_deleteMany: "distinct (map k rows) \<Longrightarrow> distinct (map k (deleteMany p rows))"
  by (simp add: deleteMany_def distinct_map_filter)

end
