(* ===== verification/Js_Value.thy ===== *)
theory Js_Value
  imports Prelude
begin

text \<open>
  The part of JavaScript's run-time values the program computes with: strings
  as lists of code units (below 256, so that case mapping is the Latin-1 one),
  the string methods the source calls, numbers as exact rationals with the two
  infinities and NaN, and dynamic values with property access, which the rule
  engine uses on its context and the validators use on request bodies.
\<close>

section \<open>Strings\<close>

definition code :: "char \<Rightarrow> nat" where
  "code c = of_char c"

definition isSpace :: "char \<Rightarrow> bool" where
  "isSpace c \<longleftrightarrow> code c \<in> {9, 10, 11, 12, 13, 32, 160}"

definition isDigit :: "char \<Rightarrow> bool" where
  "isDigit c \<longleftrightarrow> 48 \<le> code c \<and> code c \<le> 57"

definition isWordChar :: "char \<Rightarrow> bool" where
  "isWordChar c \<longleftrightarrow> isDigit c \<or> (65 \<le> code c \<and> code c \<le> 90) \<or> (97 \<le> code c \<and> code c \<le> 122) \<or> code c = 95"

definition lowerChar :: "char \<Rightarrow> char" where
  "lowerChar c = (let n = code c in
     if (65 \<le> n \<and> n \<le> 90) \<or> (192 \<le> n \<and> n \<le> 222 \<and> n \<noteq> 215) then char_of (n + 32) else c)"

definition toLowerCase :: "string \<Rightarrow> string" where
  "toLowerCase s = List.map lowerChar s"

definition trimStart :: "string \<Rightarrow> string" where
  "trimStart s = dropWhile isSpace s"

definition trimEnd :: "string \<Rightarrow> string" where
  "trimEnd s = rev (dropWhile isSpace (rev s))"

definition trim :: "string \<Rightarrow> string" where
  "trim s = trimEnd (trimStart s)"

fun startsWith :: "string \<Rightarrow> string \<Rightarrow> bool" where
  "startsWith s [] = True"
| "startsWith [] (p # ps) = False"
| "startsWith (c # cs) (p # ps) = (c = p \<and> startsWith cs ps)"

fun strIncludes :: "string \<Rightarrow> string \<Rightarrow> bool" where
  "strIncludes [] p = (p = [])"
| "strIncludes (c # cs) p = (startsWith (c # cs) p \<or> strIncludes cs p)"

definition endsWith :: "string \<Rightarrow> string \<Rightarrow> bool" where
  "endsWith s p = startsWith (rev s) (rev p)"

fun splitOn :: "char \<Rightarrow> string \<Rightarrow> string list" where
  "splitOn d [] = [[]]"
| "splitOn d (c # cs) =
     (if c = d then [] # splitOn d cs
      else case splitOn d cs of [] \<Rightarrow> [[c]] | w # ws \<Rightarrow> (c # w) # ws)"

fun joinWith :: "string \<Rightarrow> string list \<Rightarrow> string" where
  "joinWith sep [] = []"
| "joinWith sep [w] = w"
| "joinWith sep (w # v # ws) = w @ sep @ joinWith sep (v # ws)"

fun natDigits :: "nat \<Rightarrow> string" where
  "natDigits n = (if n < 10 then [char_of (48 + n)] else natDigits (n div 10) @ [char_of (48 + n mod 10)])"

declare natDigits.simps [simp del]

definition intDigits :: "int \<Rightarrow> string" where
  "intDigits i = (if i < 0 then CHR ''-'' # natDigits (nat (- i)) else natDigits (nat i))"

fun digitsVal :: "nat \<Rightarrow> string \<Rightarrow> nat" where
  "digitsVal acc [] = acc"
| "digitsVal acc (c # cs) = digitsVal (acc * 10 + (code c - 48)) cs"

lemma startsWith_iff: "startsWith s p \<longleftrightarrow> (\<exists>t. s = p @ t)"
  by (induction s p rule: startsWith.induct) auto

lemma strIncludes_append: "strIncludes (a @ p @ b) p"
proof (induction a)
  case Nil
  have "startsWith (p @ b) p" by (auto simp: startsWith_iff)
  then show ?case by (cases "p @ b") auto
qed auto

lemma strIncludesD: "strIncludes s p \<Longrightarrow> \<exists>a b. s = a @ p @ b"
proof (induction s)
  case (Cons c cs)
  then show ?case
    by (auto simp: startsWith_iff) (metis append_Nil, metis append_Cons)
qed simp

lemma strIncludes_iff: "strIncludes s p \<longleftrightarrow> (\<exists>a b. s = a @ p @ b)"
  using strIncludesD strIncludes_append by blast

lemma strIncludes_Nil [simp]: "strIncludes s []"
  by (cases s) auto

lemma splitOn_not_Nil [simp]: "splitOn d s \<noteq> []"
  by (induction s) (auto split: list.splits)

lemma joinWith_Cons: "joinWith sep (w # ws) = w @ (if ws = [] then [] else sep @ joinWith sep ws)"
  by (cases ws) auto

lemma joinWith_splitOn: "joinWith [d] (splitOn d s) = s"
  by (induction s) (auto simp: joinWith_Cons split: list.splits)

lemma splitOn_no_sep: "w \<in> set (splitOn d s) \<Longrightarrow> d \<notin> set w"
  by (induction s arbitrary: w) (auto split: if_splits list.splits)

lemma splitOn_single: "d \<notin> set s \<Longrightarrow> splitOn d s = [s]"
  by (induction s) auto

lemma splitOn_append: "d \<notin> set a \<Longrightarrow> splitOn d (a @ d # b) = a # splitOn d b"
  by (induction a) auto

lemma trim_clean:
  "trim s = [] \<or> \<not> isSpace (hd (trim s)) \<and> \<not> isSpace (last (trim s))"
proof (cases "trim s = []")
  case False
  define u where "u = dropWhile isSpace s"
  have u: "u \<noteq> [] \<Longrightarrow> \<not> isSpace (hd u)"
    unfolding u_def by (simp add: hd_dropWhile)
  have t: "trim s = rev (dropWhile isSpace (rev u))"
    by (simp add: trim_def trimStart_def trimEnd_def u_def)
  obtain p where p: "u = trim s @ p"
    unfolding t by (metis rev_append rev_rev_ident takeWhile_dropWhile_id)
  then have "hd (trim s) = hd u" "u \<noteq> []"
    using False by auto
  moreover have "\<not> isSpace (last (trim s))"
    using False unfolding t by (metis hd_dropWhile last_rev rev.simps(1) rev_rev_ident)
  ultimately show ?thesis using u by simp
qed simp

lemma length_toLowerCase [simp]: "length (toLowerCase s) = length s"
  by (simp add: toLowerCase_def)

section \<open>Numbers\<close>

datatype jsnum = NaN | PosInf | NegInf | Fin rat

fun numLess :: "jsnum \<Rightarrow> jsnum \<Rightarrow> bool" where
  "numLess (Fin a) (Fin b) = (a < b)"
| "numLess (Fin _) PosInf = True"
| "numLess NegInf (Fin _) = True"
| "numLess NegInf PosInf = True"
| "numLess _ _ = False"

fun numEq :: "jsnum \<Rightarrow> jsnum \<Rightarrow> bool" where
  "numEq NaN _ = False"
| "numEq a b = (a = b)"

definition numLeq :: "jsnum \<Rightarrow> jsnum \<Rightarrow> bool" where
  "numLeq a b = (numLess a b \<or> numEq a b)"

text \<open>\<open>Number(s)\<close> on a string: blanks around are dropped, the empty string is 0,
  and a decimal literal with an optional sign, fraction and exponent is read;
  everything else is NaN. The literals with a radix prefix are read as well.\<close>

definition digitsOnly :: "string \<Rightarrow> bool" where
  "digitsOnly s \<longleftrightarrow> list_all isDigit s"

definition parseExponent :: "string \<Rightarrow> int option" where
  "parseExponent s = (case s of
      [] \<Rightarrow> None
    | c # cs \<Rightarrow>
        if c = CHR ''+'' then (if cs \<noteq> [] \<and> digitsOnly cs then Some (int (digitsVal 0 cs)) else None)
        else if c = CHR ''-'' then (if cs \<noteq> [] \<and> digitsOnly cs then Some (- int (digitsVal 0 cs)) else None)
        else if digitsOnly s then Some (int (digitsVal 0 s)) else None)"

definition scale10 :: "rat \<Rightarrow> int \<Rightarrow> rat" where
  "scale10 r e = (if 0 \<le> e then r * 10 ^ nat e else r / 10 ^ nat (- e))"

definition parseMantissa :: "string \<Rightarrow> rat option" where
  "parseMantissa s = (case splitOn (CHR ''.'') s of
      [a] \<Rightarrow> if a \<noteq> [] \<and> digitsOnly a then Some (of_nat (digitsVal 0 a)) else None
    | [a, b] \<Rightarrow> if (a \<noteq> [] \<or> b \<noteq> []) \<and> digitsOnly a \<and> digitsOnly b
                then Some (scale10 (of_nat (digitsVal 0 (a @ b))) (- int (length b))) else None
    | _ \<Rightarrow> None)"

definition parseUnsigned :: "string \<Rightarrow> jsnum" where
  "parseUnsigned s =
     (if s = ''Infinity'' then PosInf
      else case splitOn (CHR ''e'') (List.map (\<lambda>c. if c = CHR ''E'' then CHR ''e'' else c) s) of
        [m] \<Rightarrow> (case parseMantissa m of Some r \<Rightarrow> Fin r | None \<Rightarrow> NaN)
      | [m, x] \<Rightarrow> (case (parseMantissa m, parseExponent x) of
                     (Some r, Some e) \<Rightarrow> Fin (scale10 r e) | _ \<Rightarrow> NaN)
      | _ \<Rightarrow> NaN)"

definition negNum :: "jsnum \<Rightarrow> jsnum" where
  "negNum n = (case n of NaN \<Rightarrow> NaN | PosInf \<Rightarrow> NegInf | NegInf \<Rightarrow> PosInf | Fin r \<Rightarrow> Fin (- r))"

definition hexVal :: "char \<Rightarrow> nat option" where
  "hexVal c = (let n = code c in
     if 48 \<le> n \<and> n \<le> 57 then Some (n - 48)
     else if 97 \<le> n \<and> n \<le> 102 then Some (n - 87)
     else if 65 \<le> n \<and> n \<le> 70 then Some (n - 55) else None)"

fun radixVal :: "nat \<Rightarrow> nat \<Rightarrow> string \<Rightarrow> nat option" where
  "radixVal b acc [] = Some acc"
| "radixVal b acc (c # cs) = (case hexVal c of
     Some d \<Rightarrow> if d < b then radixVal b (acc * b + d) cs else None | None \<Rightarrow> None)"

definition parseRadix :: "nat \<Rightarrow> string \<Rightarrow> jsnum" where
  "parseRadix b s = (if s = [] then NaN
     else case radixVal b 0 s of Some n \<Rightarrow> Fin (of_nat n) | None \<Rightarrow> NaN)"

definition toNumber :: "string \<Rightarrow> jsnum" where
  "toNumber s = (case trim s of
      [] \<Rightarrow> Fin 0
    | c # cs \<Rightarrow>
        if c = CHR ''+'' then parseUnsigned cs
        else if c = CHR ''-'' then negNum (parseUnsigned cs)
        else if c = CHR ''0'' \<and> cs \<noteq> [] \<and> hd cs \<in> {CHR ''x'', CHR ''X''} then parseRadix 16 (tl cs)
        else if c = CHR ''0'' \<and> cs \<noteq> [] \<and> hd cs \<in> {CHR ''o'', CHR ''O''} then parseRadix 8 (tl cs)
        else if c = CHR ''0'' \<and> cs \<noteq> [] \<and> hd cs \<in> {CHR ''b'', CHR ''B''} then parseRadix 2 (tl cs)
        else parseUnsigned (c # cs))"

subsection \<open>Decimal text reads back\<close>

lemma isDigit_not: "isDigit c \<Longrightarrow> \<not> isDigit d \<Longrightarrow> c \<noteq> d"
  by auto

lemma isDigit_simps [simp]:
  "\<not> isDigit (CHR ''+'')" "\<not> isDigit (CHR ''-'')" "\<not> isDigit (CHR ''.'')" "\<not> isDigit (CHR ''e'')"
  "\<not> isDigit (CHR ''E'')" "\<not> isDigit (CHR ''x'')" "\<not> isDigit (CHR ''X'')" "\<not> isDigit (CHR ''o'')"
  "\<not> isDigit (CHR ''O'')" "\<not> isDigit (CHR ''b'')" "\<not> isDigit (CHR ''B'')" "\<not> isDigit (CHR ''I'')"
  "\<not> isDigit (CHR '':'')"
  by code_simp+

lemma isDigit_not_space: "isDigit c \<Longrightarrow> \<not> isSpace c"
  by (auto simp: isDigit_def isSpace_def)

lemma dropWhile_none: "\<forall>c\<in>set s. \<not> P c \<Longrightarrow> dropWhile P s = s"
  by (cases s) auto

lemma trim_none: "\<forall>c\<in>set s. \<not> isSpace c \<Longrightarrow> trim s = s"
  by (simp add: trim_def trimStart_def trimEnd_def dropWhile_none)

lemma digits_no_char: "list_all isDigit s \<Longrightarrow> \<not> isDigit d \<Longrightarrow> d \<notin> set s"
  by (auto simp: list_all_iff)

lemma parseUnsigned_digits:
  assumes "s \<noteq> []" "list_all isDigit s"
  shows "parseUnsigned s = Fin (of_nat (digitsVal 0 s))"
proof -
  have "s \<noteq> ''Infinity''" using assms by auto
  moreover have "List.map (\<lambda>c. if c = CHR ''E'' then CHR ''e'' else c) s = s"
    using digits_no_char [OF assms(2), of "CHR ''E''"] by (auto intro!: map_idI)
  moreover have "splitOn (CHR ''e'') s = [s]" "splitOn (CHR ''.'') s = [s]"
    using assms(2) digits_no_char by (simp_all add: splitOn_single)
  ultimately show ?thesis
    using assms by (simp add: parseUnsigned_def parseMantissa_def digitsOnly_def)
qed

lemma toNumber_digits:
  assumes "s \<noteq> []" "list_all isDigit s"
  shows "toNumber s = Fin (of_nat (digitsVal 0 s))"
proof -
  obtain c cs where s: "s = c # cs" "isDigit c" using assms by (cases s) auto
  have "trim s = s" using assms by (intro trim_none) (auto simp: list_all_iff isDigit_not_space)
  moreover have "cs \<noteq> [] \<Longrightarrow> isDigit (hd cs)" using assms s by (cases cs) auto
  then have "\<not> (cs \<noteq> [] \<and> hd cs \<in> {CHR ''x'', CHR ''X''})" "\<not> (cs \<noteq> [] \<and> hd cs \<in> {CHR ''o'', CHR ''O''})"
    "\<not> (cs \<noteq> [] \<and> hd cs \<in> {CHR ''b'', CHR ''B''})"
    by (auto dest: isDigit_not)
  moreover have "c \<noteq> CHR ''+''" "c \<noteq> CHR ''-''" using s(2) by auto
  ultimately show ?thesis
    using parseUnsigned_digits [OF assms] s(1) by (auto simp: toNumber_def)
qed

lemma code_digit [simp]: "k < (10::nat) \<Longrightarrow> code (char_of (48 + k)) = 48 + k"
  by (simp add: code_def)

lemma isDigit_digit [simp]: "k < (10::nat) \<Longrightarrow> isDigit (char_of (48 + k))"
  by (simp add: isDigit_def)

lemma natDigits_digits: "list_all isDigit (natDigits n) \<and> natDigits n \<noteq> []"
proof (induction n rule: natDigits.induct)
  case (1 n)
  then show ?case by (subst (1 2) natDigits.simps) auto
qed

lemma digitsVal_append: "digitsVal a (xs @ ys) = digitsVal (digitsVal a xs) ys"
  by (induction xs arbitrary: a) auto

lemma digitsVal_natDigits: "digitsVal 0 (natDigits n) = n"
proof (induction n rule: natDigits.induct)
  case (1 n)
  then show ?case by (subst natDigits.simps) (auto simp: digitsVal_append)
qed

lemma digitsVal_zeros: "digitsVal 0 (replicate k (CHR ''0'') @ s) = digitsVal 0 s"
proof (induction k)
  case (Suc k)
  have "code (CHR ''0'') = 48" by code_simp
  then show ?case using Suc by simp
qed simp

lemma toNumber_natDigits: "toNumber (natDigits n) = Fin (of_nat n)"
  using toNumber_digits natDigits_digits digitsVal_natDigits by simp

section \<open>Dynamic values\<close>

text \<open>\<open>JFun\<close> is a function value, named; \<open>JProto True\<close> is \<open>Array.prototype\<close> and
  \<open>JProto False\<close> is \<open>Object.prototype\<close>, which a dotted path can reach.\<close>

datatype jsval = JUndef | JNull | JBool bool | JNum jsnum | JStr string
  | JArr "jsval list" | JObj "(string \<times> jsval) list" | JFun string | JProto bool

definition nullish :: "jsval \<Rightarrow> bool" where
  "nullish v \<longleftrightarrow> v = JUndef \<or> v = JNull"

fun isObjectType :: "jsval \<Rightarrow> bool" where
  "isObjectType JNull = True"
| "isObjectType (JArr _) = True"
| "isObjectType (JObj _) = True"
| "isObjectType (JProto _) = True"
| "isObjectType _ = False"

definition objectMethods :: "string list" where
  "objectMethods = [''constructor'', ''__defineGetter__'', ''__defineSetter__'', ''hasOwnProperty'',
     ''__lookupGetter__'', ''__lookupSetter__'', ''isPrototypeOf'', ''propertyIsEnumerable'',
     ''toString'', ''valueOf'', ''toLocaleString'']"

definition arrayMethods :: "string list" where
  "arrayMethods = [''at'', ''concat'', ''copyWithin'', ''entries'', ''every'', ''fill'', ''filter'',
     ''find'', ''findIndex'', ''findLast'', ''findLastIndex'', ''flat'', ''flatMap'', ''forEach'',
     ''includes'', ''indexOf'', ''join'', ''keys'', ''lastIndexOf'', ''map'', ''pop'', ''push'',
     ''reduce'', ''reduceRight'', ''reverse'', ''shift'', ''slice'', ''some'', ''sort'', ''splice'',
     ''toReversed'', ''toSorted'', ''toSpliced'', ''unshift'', ''values'', ''with'']"

definition getObjProto :: "string \<Rightarrow> jsval" where
  "getObjProto k = (if k \<in> set objectMethods then JFun (''Object.'' @ k)
     else if k = ''__proto__'' then JProto False else JUndef)"

definition getArrProto :: "string \<Rightarrow> jsval" where
  "getArrProto k = (if k \<in> set arrayMethods \<or> k \<in> {''constructor'', ''toString'', ''toLocaleString''}
     then JFun (''Array.'' @ k)
     else if k = ''__proto__'' then JProto True else getObjProto k)"

text \<open>A canonical array index: digits without a leading zero.\<close>

definition arrayIndex :: "string \<Rightarrow> nat option" where
  "arrayIndex k = (if k \<noteq> [] \<and> digitsOnly k \<and> (hd k \<noteq> CHR ''0'' \<or> k = ''0'')
     then Some (digitsVal 0 k) else None)"

definition getProp :: "jsval \<Rightarrow> string \<Rightarrow> jsval" where
  "getProp v k = (case v of
      JObj kvs \<Rightarrow> (case map_of kvs k of Some x \<Rightarrow> x | None \<Rightarrow> getObjProto k)
    | JArr xs \<Rightarrow>
        if k = ''length'' then JNum (Fin (of_nat (length xs)))
        else (case arrayIndex k of
            Some i \<Rightarrow> if i < length xs then xs ! i else JUndef
          | None \<Rightarrow> getArrProto k)
    | JProto True \<Rightarrow>
        if k = ''length'' then JNum (Fin 0)
        else if k = ''__proto__'' then JProto False else getArrProto k
    | JProto False \<Rightarrow> if k = ''__proto__'' then JNull else getObjProto k
    | _ \<Rightarrow> JUndef)"

text \<open>Strict equality, on the values a JSON document can hold on one side: two
  objects are equal only when they are the same object, which a parsed document
  and the context never share.\<close>

fun strictEq :: "jsval \<Rightarrow> jsval \<Rightarrow> bool" where
  "strictEq JUndef JUndef = True"
| "strictEq JNull JNull = True"
| "strictEq (JBool a) (JBool b) = (a = b)"
| "strictEq (JNum a) (JNum b) = numEq a b"
| "strictEq (JStr a) (JStr b) = (a = b)"
| "strictEq _ _ = False"

text \<open>\<open>String(v)\<close>: an array joins its elements with commas, a nullish element as
  the empty string. The text of a function is the engine's, a parameter; of the
  numbers, integers are written out and the rest are the engine's too.\<close>

fun toStringJs :: "(string \<Rightarrow> string) \<Rightarrow> (rat \<Rightarrow> string) \<Rightarrow> jsval \<Rightarrow> string" where
  "toStringJs ft nt JUndef = ''undefined''"
| "toStringJs ft nt JNull = ''null''"
| "toStringJs ft nt (JBool b) = (if b then ''true'' else ''false'')"
| "toStringJs ft nt (JNum NaN) = ''NaN''"
| "toStringJs ft nt (JNum PosInf) = ''Infinity''"
| "toStringJs ft nt (JNum NegInf) = ''-Infinity''"
| "toStringJs ft nt (JNum (Fin r)) =
     (if r = of_int \<lfloor>r\<rfloor> \<and> \<bar>r\<bar> < 10 ^ 21 then intDigits \<lfloor>r\<rfloor> else nt r)"
| "toStringJs ft nt (JStr s) = s"
| "toStringJs ft nt (JArr xs) =
     joinWith '','' (List.map (\<lambda>x. if x = JUndef \<or> x = JNull then [] else toStringJs ft nt x) xs)"
| "toStringJs ft nt (JObj _) = ''[object Object]''"
| "toStringJs ft nt (JFun f) = ft f"
| "toStringJs ft nt (JProto b) = (if b then [] else ''[object Object]'')"

definition truthy :: "jsval \<Rightarrow> bool" where
  "truthy v = (case v of JUndef \<Rightarrow> False | JNull \<Rightarrow> False | JBool b \<Rightarrow> b
     | JNum n \<Rightarrow> n \<noteq> NaN \<and> n \<noteq> Fin 0 | JStr s \<Rightarrow> s \<noteq> [] | _ \<Rightarrow> True)"

section \<open>Instants and identifiers as text\<close>

text \<open>\<open>toISOString\<close>: the proleptic Gregorian date of an instant, by the usual
  era arithmetic, four-digit years (every instant the database can hold in the
  years 0 to 9999).\<close>

definition pad :: "nat \<Rightarrow> nat \<Rightarrow> string" where
  "pad w n = (let d = natDigits n in replicate (w - length d) (CHR ''0'') @ d)"

definition civil :: "int \<Rightarrow> int \<times> int \<times> int" where
  "civil days = (let z = days + 719468; era = z div 146097; doe = z mod 146097;
     yoe = (doe - doe div 1460 + doe div 36524 - doe div 146096) div 365;
     doy = doe - (365 * yoe + yoe div 4 - yoe div 100);
     mp = (5 * doy + 2) div 153;
     d = doy - (153 * mp + 2) div 5 + 1;
     m = (if mp < 10 then mp + 3 else mp - 9)
   in (yoe + era * 400 + (if m \<le> 2 then 1 else 0), m, d))"

definition toISOString :: "instant \<Rightarrow> string" where
  "toISOString t = (let (y, m, d) = civil (t div 86400000); r = t mod 86400000 in
     pad 4 (nat y) @ ''-'' @ pad 2 (nat m) @ ''-'' @ pad 2 (nat d) @ ''T'' @
     pad 2 (nat (r div 3600000)) @ '':'' @ pad 2 (nat (r div 60000 mod 60)) @ '':'' @
     pad 2 (nat (r div 1000 mod 60)) @ ''.'' @ pad 3 (nat (r mod 1000)) @ ''Z'')"

definition hexDigit :: "nat \<Rightarrow> char" where
  "hexDigit n = char_of (if n < 10 then 48 + n else 87 + n)"

fun hexFixed :: "nat \<Rightarrow> nat \<Rightarrow> string" where
  "hexFixed 0 n = []"
| "hexFixed (Suc w) n = hexFixed w (n div 16) @ [hexDigit (n mod 16)]"

text \<open>The 8-4-4-4-12 form of a UUID.\<close>

definition uuidText :: "uuid \<Rightarrow> string" where
  "uuidText u = (let h = hexFixed 32 u in
     take 8 h @ ''-'' @ take 4 (drop 8 h) @ ''-'' @ take 4 (drop 12 h) @ ''-'' @
     take 4 (drop 16 h) @ ''-'' @ drop 20 h)"

lemma pad_digits: "list_all isDigit (pad w n) \<and> pad w n \<noteq> []"
proof -
  have "isDigit (CHR ''0'')" by code_simp
  then show ?thesis using natDigits_digits [of n] by (auto simp: pad_def Let_def list_all_iff)
qed

lemma toNumber_pad: "toNumber (pad w n) = Fin (of_nat n)"
  using pad_digits [of w n] toNumber_digits [of "pad w n"]
  by (simp add: pad_def Let_def digitsVal_zeros digitsVal_natDigits)

lemma toISOString_example: "toISOString 1700000000123 = ''2023-11-14T22:13:20.123Z''"
  by code_simp

lemma uuidText_example: "uuidText 255 = ''00000000-0000-0000-0000-0000000000ff''"
  by code_simp

lemma toNumber_examples:
  "toNumber '' 4.50 '' = Fin (9 / 2)" "toNumber ''1e2'' = Fin 100" "toNumber [] = Fin 0"
  "toNumber ''x'' = NaN" "toNumber ''0x1F'' = Fin 31"
  by code_simp+

end
