(* ===== verification/Automation_Engine.thy ===== *)
theory Automation_Engine
  imports Js_Value
begin

text \<open>
  The rule engine of \<open>packages/automation-engine\<close>: the context object a rule is
  evaluated against, condition trees, variable interpolation, silent hours, and
  the sequential action chain over injected ports.
\<close>

section \<open>Silent hours\<close>

record NotificationPreferenceInput =
  silentHoursStart :: "string option"
  silentHoursEnd :: "string option"
  vipOverrideEnabled :: bool
  keywordAlerts :: "string list"

text \<open>\<open>(h ?? 0) * 60 + (m ?? 0)\<close>, where a part that is not a number makes the
  whole NaN; an infinite part is left as the number type computes it.\<close>

fun addNum :: "jsnum \<Rightarrow> jsnum \<Rightarrow> jsnum" where
  "addNum (Fin a) (Fin b) = Fin (a + b)"
| "addNum NaN _ = NaN"
| "addNum _ NaN = NaN"
| "addNum PosInf NegInf = NaN"
| "addNum NegInf PosInf = NaN"
| "addNum PosInf _ = PosInf"
| "addNum NegInf _ = NegInf"
| "addNum (Fin _) b = b"

fun times60 :: "jsnum \<Rightarrow> jsnum" where
  "times60 (Fin a) = Fin (a * 60)"
| "times60 n = n"

definition toMinutes :: "string \<Rightarrow> jsnum" where
  "toMinutes hhmm = (case List.map toNumber (splitOn (CHR '':'') hhmm) of
      [] \<Rightarrow> Fin 0
    | [h] \<Rightarrow> addNum (times60 h) (Fin 0)
    | h # m # _ \<Rightarrow> addNum (times60 h) m)"

text \<open>The local wall-clock text of an instant is the \<open>Intl\<close> time-zone data of the
  host, a parameter.\<close>

type_synonym zone_clock = "string \<Rightarrow> instant \<Rightarrow> string"

definition nonEmpty :: "string option \<Rightarrow> bool" where
  "nonEmpty s \<longleftrightarrow> s \<noteq> None \<and> s \<noteq> Some []"

definition inWindow :: "jsnum \<Rightarrow> jsnum \<Rightarrow> jsnum \<Rightarrow> bool" where
  "inWindow current start stop =
     (if numEq start stop then False
      else if numLess start stop then numLeq start current \<and> numLess current stop
      else numLeq start current \<or> numLess current stop)"

definition isSilentHoursActive ::
  "zone_clock \<Rightarrow> NotificationPreferenceInput option \<Rightarrow> string \<Rightarrow> instant \<Rightarrow> bool" where
  "isSilentHoursActive clock pref timezone now = (case pref of
      None \<Rightarrow> False
    | Some p \<Rightarrow>
        if \<not> nonEmpty (silentHoursStart p) \<or> \<not> nonEmpty (silentHoursEnd p) then False
        else inWindow (toMinutes (clock timezone now))
               (toMinutes (the (silentHoursStart p))) (toMinutes (the (silentHoursEnd p))))"

definition isVipOverrideActive ::
  "zone_clock \<Rightarrow> NotificationPreferenceInput option \<Rightarrow> string \<Rightarrow> bool \<Rightarrow> instant \<Rightarrow> bool" where
  "isVipOverrideActive clock pref timezone senderIsVip now = (case pref of
      None \<Rightarrow> False
    | Some p \<Rightarrow> if \<not> vipOverrideEnabled p then False
               else isSilentHoursActive clock pref timezone now \<and> senderIsVip)"

definition matchesAnyKeyword :: "string \<Rightarrow> string list \<Rightarrow> bool" where
  "matchesAnyKeyword bodyText keywords =
     (if keywords = [] then False
      else let lowerBody = toLowerCase bodyText in
        list_ex (\<lambda>k. 0 < length (trim k) \<and> strIncludes lowerBody (toLowerCase k)) keywords)"

section \<open>Triggers and the context object\<close>

text \<open>A stored trigger, in the parts that are read: the scope's \<open>providerKey\<close> whatever
  value it has, and \<open>params.hours\<close> when it is a number.\<close>

record RuleTrigger =
  trigType :: string
  scopeProviderKey :: jsval
  paramHours :: "jsnum option"

record TriggerDescriptor =
  td_type :: string
  td_category :: string
  td_contextGuarantees :: "string list"

definition TRIGGER_REGISTRY :: "TriggerDescriptor list" where
  "TRIGGER_REGISTRY =
    [\<lparr>td_type = ''message.received'', td_category = ''message'',
      td_contextGuarantees = [''message'', ''conversation'', ''sender'']\<rparr>,
     \<lparr>td_type = ''time.no_reply_after'', td_category = ''time'',
      td_contextGuarantees = [''conversation'']\<rparr>]"

definition matchesTriggerScope :: "RuleTrigger \<Rightarrow> string option \<Rightarrow> bool" where
  "matchesTriggerScope trigger eventProviderKey =
     (if \<not> truthy (scopeProviderKey trigger) then True
      else strictEq (scopeProviderKey trigger)
             (case eventProviderKey of None \<Rightarrow> JUndef | Some k \<Rightarrow> JStr k))"

definition isRegisteredTrigger :: "string \<Rightarrow> bool" where
  "isRegisteredTrigger ty = list_ex (\<lambda>t. td_type t = ty) TRIGGER_REGISTRY"

definition isConversationStale :: "instant option \<Rightarrow> jsnum \<Rightarrow> instant \<Rightarrow> bool" where
  "isConversationStale lastMessageAt hours now = (case lastMessageAt of
      None \<Rightarrow> False
    | Some t \<Rightarrow> numLeq hours (Fin (of_int (now - t) / 3600000)))"

datatype direction = Inbound | Outbound

fun directionText :: "direction \<Rightarrow> string" where
  "directionText Inbound = ''inbound''"
| "directionText Outbound = ''outbound''"

record ctx_conversation =
  cc_id :: string
  cc_title :: "string option"
  cc_tags :: "string list"
  cc_lastMessageAt :: "instant option"

record ctx_message =
  cm_id :: string
  cm_bodyText :: string
  cm_direction :: direction
  cm_receivedAt :: instant

record ctx_sender =
  cs_id :: string
  cs_displayName :: string
  cs_isVip :: bool

record ctx_ai =
  ca_sentiment :: string
  ca_classification :: string

text \<open>The sections a field path can reach are the JavaScript objects the code
  builds; \<open>isStale\<close> closes over \<open>lastMessageAt\<close>, which is kept beside them.\<close>

record ContextObject =
  c_message :: jsval
  c_conversation :: jsval
  c_sender :: jsval
  c_workspace :: jsval
  c_ai :: jsval
  c_lastMessageAt :: "instant option"
  c_ruleId :: string
  c_ruleVersion :: nat
  c_triggerEventId :: string

record buildContext_input =
  bi_ruleId :: string
  bi_ruleVersion :: nat
  bi_triggerEventId :: string
  bi_workspaceId :: string
  bi_workspaceTimezone :: "string option"
  bi_notificationPreference :: "NotificationPreferenceInput option"
  bi_conversation :: ctx_conversation
  bi_message :: "ctx_message option"
  bi_sender :: "ctx_sender option"
  bi_ai :: "ctx_ai option"

fun strOrNull :: "string option \<Rightarrow> jsval" where
  "strOrNull None = JNull"
| "strOrNull (Some s) = JStr s"

definition buildContext :: "zone_clock \<Rightarrow> instant \<Rightarrow> buildContext_input \<Rightarrow> ContextObject" where
  "buildContext clock now input =
    (let timezone = (case bi_workspaceTimezone input of None \<Rightarrow> ''UTC'' | Some z \<Rightarrow> z);
         pref = bi_notificationPreference input;
         conv = bi_conversation input in
     \<lparr>c_message = (case bi_message input of None \<Rightarrow> JUndef | Some m \<Rightarrow> JObj
        [(''id'', JStr (cm_id m)), (''bodyText'', JStr (cm_bodyText m)),
         (''direction'', JStr (directionText (cm_direction m))),
         (''receivedAt'', JStr (toISOString (cm_receivedAt m))),
         (''matchesKeywordAlert'', JBool (matchesAnyKeyword (cm_bodyText m)
            (case pref of None \<Rightarrow> [] | Some p \<Rightarrow> keywordAlerts p)))]),
      c_conversation = JObj
        [(''id'', JStr (cc_id conv)), (''title'', strOrNull (cc_title conv)),
         (''tags'', JArr (List.map JStr (cc_tags conv))),
         (''lastMessageAt'', strOrNull (map_option toISOString (cc_lastMessageAt conv))),
         (''isStale'', JFun ''isStale'')],
      c_sender = (case bi_sender input of None \<Rightarrow> JUndef | Some s \<Rightarrow> JObj
        [(''id'', JStr (cs_id s)), (''displayName'', JStr (cs_displayName s)),
         (''isVip'', JBool (cs_isVip s))]),
      c_workspace = JObj
        [(''id'', JStr (bi_workspaceId input)),
         (''isSilentHours'', JBool (isSilentHoursActive clock pref timezone now)),
         (''isVipOverrideActive'', JBool (isVipOverrideActive clock pref timezone
            (case bi_sender input of None \<Rightarrow> False | Some s \<Rightarrow> cs_isVip s) now))],
      c_ai = (case bi_ai input of None \<Rightarrow> JUndef | Some a \<Rightarrow> JObj
        [(''sentiment'', JStr (ca_sentiment a)), (''classification'', JStr (ca_classification a))]),
      c_lastMessageAt = cc_lastMessageAt conv,
      c_ruleId = bi_ruleId input,
      c_ruleVersion = bi_ruleVersion input,
      c_triggerEventId = bi_triggerEventId input\<rparr>)"

section \<open>Conditions\<close>

datatype ConditionOperator = Equals | NotEquals | Contains | NotContains | MatchesRegex
  | GreaterThan | LessThan | IsTrue | IsFalse | OtherOperator string

datatype group_op = AND | OR | NOT

datatype ConditionNode =
    ConditionLeaf string ConditionOperator jsval
  | ConditionGroup group_op "ConditionNode list"

definition contextSection :: "ContextObject \<Rightarrow> string \<Rightarrow> jsval option" where
  "contextSection ctx s =
     (if s = ''message'' then Some (c_message ctx)
      else if s = ''conversation'' then Some (c_conversation ctx)
      else if s = ''sender'' then Some (c_sender ctx)
      else if s = ''workspace'' then Some (c_workspace ctx)
      else if s = ''ai'' then Some (c_ai ctx)
      else None)"

definition stepPath :: "jsval \<Rightarrow> string \<Rightarrow> jsval" where
  "stepPath acc key = (if nullish acc \<or> \<not> isObjectType acc then JUndef else getProp acc key)"

definition walkPath :: "jsval \<Rightarrow> string list \<Rightarrow> jsval" where
  "walkPath sect path = foldl stepPath sect path"

text \<open>\<open>rest.join(".").split(".")\<close> is the rest itself, or one empty key when there
  is none.\<close>

definition pathKeys :: "string list \<Rightarrow> string list" where
  "pathKeys rest = (if rest = [] then [[]] else rest)"

definition isStalePrefix :: string where
  "isStalePrefix = ''conversation.isStale:''"

definition resolveField :: "instant \<Rightarrow> string \<Rightarrow> ContextObject \<Rightarrow> jsval" where
  "resolveField now field context =
     (if startsWith field isStalePrefix
      then JBool (isConversationStale (c_lastMessageAt context)
                    (toNumber (splitOn (CHR '':'') field ! 1)) now)
      else case splitOn (CHR ''.'') field of
          [] \<Rightarrow> JUndef
        | section # rest \<Rightarrow>
            (case contextSection context section of
               None \<Rightarrow> JUndef
             | Some sect \<Rightarrow> if nullish sect then JUndef else walkPath sect (pathKeys rest)))"

text \<open>Regular expressions are the engine's, a parameter: \<open>None\<close> is the
  \<open>SyntaxError\<close> that \<open>new RegExp\<close> throws on an invalid pattern.\<close>

type_synonym regex_engine = "string \<Rightarrow> string \<Rightarrow> bool option"

definition bothStrings :: "jsval \<Rightarrow> jsval \<Rightarrow> (string \<Rightarrow> string \<Rightarrow> bool) \<Rightarrow> bool" where
  "bothStrings a e f = (case (a, e) of (JStr x, JStr y) \<Rightarrow> f x y | _ \<Rightarrow> False)"

definition bothNumbers :: "jsval \<Rightarrow> jsval \<Rightarrow> (jsnum \<Rightarrow> jsnum \<Rightarrow> bool) \<Rightarrow> bool" where
  "bothNumbers a e f = (case (a, e) of (JNum x, JNum y) \<Rightarrow> f x y | _ \<Rightarrow> False)"

definition containsText :: "string \<Rightarrow> string \<Rightarrow> bool" where
  "containsText x y = strIncludes (toLowerCase x) (toLowerCase y)"

fun evaluateOperator :: "regex_engine \<Rightarrow> ConditionOperator \<Rightarrow> jsval \<Rightarrow> jsval \<Rightarrow> bool option" where
  "evaluateOperator re Equals actual expected = Some (strictEq actual expected)"
| "evaluateOperator re NotEquals actual expected = Some (\<not> strictEq actual expected)"
| "evaluateOperator re Contains actual expected = Some (bothStrings actual expected containsText)"
| "evaluateOperator re NotContains actual expected = Some (\<not> bothStrings actual expected containsText)"
| "evaluateOperator re MatchesRegex actual expected =
     (case (actual, expected) of (JStr a, JStr e) \<Rightarrow> re e a | _ \<Rightarrow> Some False)"
| "evaluateOperator re GreaterThan actual expected = Some (bothNumbers actual expected (\<lambda>a e. numLess e a))"
| "evaluateOperator re LessThan actual expected = Some (bothNumbers actual expected numLess)"
| "evaluateOperator re IsTrue actual expected = Some (strictEq actual (JBool True))"
| "evaluateOperator re IsFalse actual expected = Some (strictEq actual (JBool False))"
| "evaluateOperator re (OtherOperator _) actual expected = Some False"

text \<open>\<open>every\<close> and \<open>some\<close> stop at the first child that decides, and an exception
  of a child that is reached leaves the whole evaluation.\<close>

fun evaluateConditionTree ::
    "regex_engine \<Rightarrow> instant \<Rightarrow> ContextObject \<Rightarrow> ConditionNode \<Rightarrow> bool option"
  and everyChild :: "regex_engine \<Rightarrow> instant \<Rightarrow> ContextObject \<Rightarrow> ConditionNode list \<Rightarrow> bool option"
  and someChild :: "regex_engine \<Rightarrow> instant \<Rightarrow> ContextObject \<Rightarrow> ConditionNode list \<Rightarrow> bool option"
where
  "evaluateConditionTree re now ctx (ConditionLeaf field operator value) =
     evaluateOperator re operator (resolveField now field ctx) value"
| "evaluateConditionTree re now ctx (ConditionGroup op children) =
     (case op of
        AND \<Rightarrow> everyChild re now ctx children
      | OR \<Rightarrow> someChild re now ctx children
      | NOT \<Rightarrow> map_option Not (everyChild re now ctx children))"
| "everyChild re now ctx [] = Some True"
| "everyChild re now ctx (c # cs) = (case evaluateConditionTree re now ctx c of
     None \<Rightarrow> None | Some False \<Rightarrow> Some False | Some True \<Rightarrow> everyChild re now ctx cs)"
| "someChild re now ctx [] = Some False"
| "someChild re now ctx (c # cs) = (case evaluateConditionTree re now ctx c of
     None \<Rightarrow> None | Some True \<Rightarrow> Some True | Some False \<Rightarrow> someChild re now ctx cs)"

section \<open>Interpolation\<close>

definition isRefChar :: "char \<Rightarrow> bool" where
  "isRefChar c \<longleftrightarrow> isWordChar c \<or> c = CHR ''.''"

text \<open>A match of \<open>{{\s*([\w.]+)\s*}}\<close> at the head of the text: the field and what
  follows. The three character classes are disjoint, so the greedy match is the
  only one.\<close>

definition matchReference :: "string \<Rightarrow> (string \<times> string) option" where
  "matchReference s =
     (if \<not> startsWith s ''{{'' then None
      else let t = dropWhile isSpace (drop 2 s);
               field = takeWhile isRefChar t;
               u = dropWhile isSpace (dropWhile isRefChar t)
           in if field \<noteq> [] \<and> startsWith u ''}}'' then Some (field, drop 2 u) else None)"

definition referenceValue :: "ContextObject \<Rightarrow> string \<Rightarrow> jsval" where
  "referenceValue ctx field = (case splitOn (CHR ''.'') field of
      [] \<Rightarrow> JUndef
    | section # rest \<Rightarrow>
        (case contextSection ctx section of
           None \<Rightarrow> JUndef
         | Some sect \<Rightarrow> if nullish sect then JUndef else walkPath sect (pathKeys rest)))"

type_synonym text_of = "jsval \<Rightarrow> string"

function interpolate :: "text_of \<Rightarrow> ContextObject \<Rightarrow> string \<Rightarrow> string" where
  "interpolate toText ctx [] = []"
| "interpolate toText ctx (c # cs) = (case matchReference (c # cs) of
      None \<Rightarrow> c # interpolate toText ctx cs
    | Some (field, rest) \<Rightarrow>
        (let value = referenceValue ctx field in
         (if nullish value then take (length (c # cs) - length rest) (c # cs) else toText value)
           @ interpolate toText ctx rest))"
  by pat_completeness auto

lemma matchReference_length:
  assumes "matchReference s = Some (field, rest)"
  shows "length rest < length s"
proof -
  define t where "t = dropWhile isSpace (drop 2 s)"
  define u where "u = dropWhile isSpace (dropWhile isRefChar t)"
  have u: "rest = drop 2 u" "startsWith u ''}}''"
    using assms by (auto simp: matchReference_def t_def u_def Let_def split: if_splits)
  have "length u \<le> length t" "length t \<le> length s"
    using length_dropWhile_le le_trans unfolding t_def u_def
    by (blast, metis (no_types, lifting) diff_le_self le_trans length_drop length_dropWhile_le)
  moreover have "2 \<le> length u"
    using u(2) by (auto simp: startsWith_iff)
  ultimately show ?thesis using u(1) by simp
qed

termination interpolate
  by (relation "measure (\<lambda>(toText, ctx, s). length s)") (auto dest: matchReference_length)

section \<open>Actions\<close>

record ActionStep =
  step_type :: string
  step_params :: jsval

datatype action_status = ActionSuccess | ActionError

record ActionResult =
  res_type :: string
  res_status :: action_status
  res_output :: "jsval option"
  res_error :: "string option"

datatype chain_status = Success | PartialFailure | Failure

text \<open>What a port throws: an \<open>Error\<close> with its message, or another value.\<close>

datatype thrown = ErrorObject string | OtherThrown

fun thrownMessage :: "thrown \<Rightarrow> string" where
  "thrownMessage (ErrorObject m) = m"
| "thrownMessage OtherThrown = ''Action failed''"

text \<open>The four injected side effects, each a step on the caller's state \<open>'w\<close>.\<close>

record 'w ActionPorts =
  sendNotification :: "string \<Rightarrow> string \<Rightarrow> ('w, thrown, jsval) oper"
  applyTag :: "string \<Rightarrow> ('w, thrown, jsval) oper"
  sendMessage :: "string \<Rightarrow> ('w, thrown, jsval) oper"
  callWebhook :: "string \<Rightarrow> string \<Rightarrow> ('w, thrown, jsval) oper"

text \<open>\<open>Object.entries\<close>, which throws on undefined and null and lists the own
  enumerable properties of anything else.\<close>

definition objectEntries :: "jsval \<Rightarrow> (string \<times> jsval) list option" where
  "objectEntries v = (case v of
      JUndef \<Rightarrow> None
    | JNull \<Rightarrow> None
    | JObj kvs \<Rightarrow> Some kvs
    | JArr xs \<Rightarrow> Some (zip (List.map natDigits [0..<length xs]) xs)
    | JStr s \<Rightarrow> Some (zip (List.map natDigits [0..<length s]) (List.map (\<lambda>c. JStr [c]) s))
    | _ \<Rightarrow> Some [])"

text \<open>Rendering the parameters calls \<open>value.replace\<close>, a TypeError on a value that
  is not a string.\<close>

fun renderParams :: "text_of \<Rightarrow> ContextObject \<Rightarrow> (string \<times> jsval) list \<Rightarrow> (string \<times> string) list option" where
  "renderParams toText ctx [] = Some []"
| "renderParams toText ctx ((k, JStr s) # kvs) =
     map_option ((#) (k, interpolate toText ctx s)) (renderParams toText ctx kvs)"
| "renderParams toText ctx ((k, _) # kvs) = None"

definition paramOr :: "string \<Rightarrow> (string \<times> string) list \<Rightarrow> string \<Rightarrow> string" where
  "paramOr dflt params k = (case map_of params k of Some v \<Rightarrow> v | None \<Rightarrow> dflt)"

definition actionOk :: "string \<Rightarrow> jsval \<Rightarrow> ActionResult" where
  "actionOk ty out = \<lparr>res_type = ty, res_status = ActionSuccess, res_output = Some out, res_error = None\<rparr>"

definition actionFail :: "string \<Rightarrow> string \<Rightarrow> ActionResult" where
  "actionFail ty msg = \<lparr>res_type = ty, res_status = ActionError, res_output = None, res_error = Some msg\<rparr>"

definition settle :: "string \<Rightarrow> ('w, thrown, jsval) oper \<Rightarrow> 'w \<Rightarrow> ActionResult \<times> 'w" where
  "settle ty m w = (case m w of
      (Inl e, w') \<Rightarrow> (actionFail ty (thrownMessage e), w')
    | (Inr out, w') \<Rightarrow> (actionOk ty out, w'))"

definition runStep ::
  "string \<Rightarrow> (string \<times> string) list \<Rightarrow> 'w ActionPorts \<Rightarrow> 'w \<Rightarrow> ActionResult \<times> 'w" where
  "runStep ty params ports w =
     (if ty = ''notification.send'' then
        settle ty (sendNotification ports (paramOr ''Automation'' params ''title'') (paramOr [] params ''body'')) w
      else if ty = ''tag.apply'' then
        (if paramOr [] params ''tag'' = [] then (actionFail ty ''tag param is required'', w)
         else settle ty (applyTag ports (paramOr [] params ''tag'')) w)
      else if ty = ''message.send'' then
        (if paramOr [] params ''bodyText'' = [] then (actionFail ty ''bodyText param is required'', w)
         else settle ty (sendMessage ports (paramOr [] params ''bodyText'')) w)
      else if ty = ''webhook.call'' then
        (if paramOr [] params ''url'' = [] then (actionFail ty ''url param is required'', w)
         else settle ty (callWebhook ports (paramOr [] params ''url'') (paramOr [] params ''body'')) w)
      else (actionFail ty (''Unregistered action type '' @ [CHR 0x22] @ ty @ [CHR 0x22]), w))"

text \<open>The rendering stands before the \<open>try\<close>, so its TypeError leaves the step;
  \<open>None\<close> is that exception.\<close>

definition executeStep ::
  "text_of \<Rightarrow> ActionStep \<Rightarrow> ContextObject \<Rightarrow> 'w ActionPorts \<Rightarrow> 'w \<Rightarrow> ActionResult option \<times> 'w" where
  "executeStep toText step ctx ports w =
     (case Option.bind (objectEntries (step_params step)) (renderParams toText ctx) of
        None \<Rightarrow> (None, w)
      | Some params \<Rightarrow> (case runStep (step_type step) params ports w of (r, w') \<Rightarrow> (Some r, w')))"

fun executeSteps ::
  "text_of \<Rightarrow> ActionStep list \<Rightarrow> ContextObject \<Rightarrow> 'w ActionPorts \<Rightarrow> 'w \<Rightarrow> ActionResult list option \<times> 'w" where
  "executeSteps toText [] ctx ports w = (Some [], w)"
| "executeSteps toText (step # steps) ctx ports w =
     (case executeStep toText step ctx ports w of
        (None, w') \<Rightarrow> (None, w')
      | (Some r, w') \<Rightarrow> 
          (case executeSteps toText steps ctx ports w' of (rs, w'') \<Rightarrow> (map_option ((#) r) rs, w'')))"

definition chainStatus :: "ActionResult list \<Rightarrow> chain_status" where
  "chainStatus results =
     (let successCount = length (filter (\<lambda>a. res_status a = ActionSuccess) results) in
      if successCount = length results then Success
      else if successCount = 0 then Failure else PartialFailure)"

definition executeActions ::
  "text_of \<Rightarrow> ActionStep list \<Rightarrow> ContextObject \<Rightarrow> 'w ActionPorts \<Rightarrow> 'w
    \<Rightarrow> (chain_status \<times> ActionResult list) option \<times> 'w" where
  "executeActions toText steps ctx ports w =
     (case executeSteps toText steps ctx ports w of
        (rs, w') \<Rightarrow> (map_option (\<lambda>rs. (chainStatus rs, rs)) rs, w'))"

section \<open>Silent hours as a window on the circle of minutes\<close>

definition hhmm :: "nat \<Rightarrow> nat \<Rightarrow> string" where
  "hhmm h m = pad 2 h @ '':'' @ pad 2 m"

lemma toMinutes_hhmm: "toMinutes (hhmm h m) = Fin (of_nat (h * 60 + m))"
proof -
  have "CHR '':'' \<notin> set (pad 2 n)" for n
    using pad_digits [of 2 n] digits_no_char by simp
  then have "splitOn (CHR '':'') (hhmm h m) = [pad 2 h, pad 2 m]"
    by (simp add: hhmm_def splitOn_append splitOn_single)
  then show ?thesis by (simp add: toMinutes_def toNumber_pad)
qed

lemma hhmm_nonEmpty [simp]: "hhmm h m \<noteq> []"
  by (simp add: hhmm_def)

lemma inWindow_nat:
  "inWindow (Fin (of_nat c)) (Fin (of_nat s)) (Fin (of_nat e)) \<longleftrightarrow>
     s \<noteq> e \<and> (if s < e then s \<le> c \<and> c < e else s \<le> c \<or> c < e)"
  by (auto simp: inWindow_def numLeq_def)

lemma circular_window:
  fixes s e c :: int
  assumes "0 \<le> s" "s < n" "0 \<le> e" "e < n" "0 \<le> c" "c < n"
  shows "(s \<noteq> e \<and> (if s < e then s \<le> c \<and> c < e else s \<le> c \<or> c < e))
           \<longleftrightarrow> (c - s) mod n < (e - s) mod n"
proof -
  have shift: "x mod n = (if 0 \<le> x then x else x + n)" if "- n < x" "x < n" for x :: int
  proof (cases "0 \<le> x")
    case False
    then have "(x + n) mod n = x + n" using that by (intro mod_pos_pos_trivial) auto
    then show ?thesis using False by simp
  qed (use that in simp)
  show ?thesis
    using assms by (subst (1 2) shift) auto
qed

section \<open>Condition trees against their reading as formulas\<close>

fun satisfies :: "regex_engine \<Rightarrow> instant \<Rightarrow> ContextObject \<Rightarrow> ConditionNode \<Rightarrow> bool" where
  "satisfies re now ctx (ConditionLeaf field operator value) =
     (evaluateOperator re operator (resolveField now field ctx) value = Some True)"
| "satisfies re now ctx (ConditionGroup AND cs) = (\<forall>c\<in>set cs. satisfies re now ctx c)"
| "satisfies re now ctx (ConditionGroup OR cs) = (\<exists>c\<in>set cs. satisfies re now ctx c)"
| "satisfies re now ctx (ConditionGroup NOT cs) = (\<exists>c\<in>set cs. \<not> satisfies re now ctx c)"

text \<open>The patterns of a tree compile.\<close>

fun patternsCompile :: "regex_engine \<Rightarrow> ConditionNode \<Rightarrow> bool" where
  "patternsCompile re (ConditionLeaf field operator value) =
     (\<forall>p. operator = MatchesRegex \<and> value = JStr p \<longrightarrow> (\<forall>s. re p s \<noteq> None))"
| "patternsCompile re (ConditionGroup op cs) = (\<forall>c\<in>set cs. patternsCompile re c)"

lemma evaluateOperator_total:
  "(\<And>p. operator = MatchesRegex \<Longrightarrow> expected = JStr p \<Longrightarrow> \<forall>s. re p s \<noteq> None) \<Longrightarrow>
   evaluateOperator re operator actual expected \<noteq> None"
  by (cases operator) (auto split: jsval.splits)

lemma evaluate_satisfies:
  "patternsCompile re node \<Longrightarrow> evaluateConditionTree re now ctx node = Some (satisfies re now ctx node)"
  "\<forall>c\<in>set cs. patternsCompile re c \<Longrightarrow>
     everyChild re now ctx cs = Some (\<forall>c\<in>set cs. satisfies re now ctx c)"
  "\<forall>c\<in>set cs. patternsCompile re c \<Longrightarrow>
     someChild re now ctx cs = Some (\<exists>c\<in>set cs. satisfies re now ctx c)"
proof (induction re now ctx node and re now ctx cs and re now ctx cs
    rule: evaluateConditionTree_everyChild_someChild.induct)
  case (1 re now ctx field operator val)
  then have "evaluateOperator re operator (resolveField now field ctx) val \<noteq> None"
    by (intro evaluateOperator_total) auto
  then show ?case by auto
next
  case (2 re now ctx op children)
  then show ?case by (cases op) auto
qed (auto split: option.splits bool.splits)

section \<open>Interpolation of text with one reference\<close>

lemma interpolate_plain:
  "CHR ''{'' \<notin> set a \<Longrightarrow> interpolate toText ctx (a @ b) = a @ interpolate toText ctx b"
  by (induction a) (auto simp: matchReference_def)

lemma takeWhile_all: "\<forall>x\<in>set f. P x \<Longrightarrow> \<not> P c \<Longrightarrow> takeWhile P (f @ c # b) = f"
  by (simp add: takeWhile_append2)

lemma isRefChar_not_space: "isRefChar c \<Longrightarrow> \<not> isSpace c"
  by (auto simp: isRefChar_def isWordChar_def isSpace_def isDigit_def code_def)

lemma brace_classes: "\<not> isRefChar (CHR ''}'')" "\<not> isSpace (CHR ''}'')"
  by code_simp+

lemma matchReference_exact:
  assumes "f \<noteq> []" "\<forall>c\<in>set f. isRefChar c"
  shows "matchReference (''{{'' @ f @ ''}}'' @ b) = Some (f, b)"
proof -
  have "\<not> isSpace (hd f)" using assms by (simp add: isRefChar_not_space)
  then have f: "dropWhile isSpace (f @ CHR ''}'' # CHR ''}'' # b) = f @ CHR ''}'' # CHR ''}'' # b"
    using assms(1) by (cases f) auto
  have t: "takeWhile isRefChar (f @ CHR ''}'' # CHR ''}'' # b) = f"
    "dropWhile isRefChar (f @ CHR ''}'' # CHR ''}'' # b) = CHR ''}'' # CHR ''}'' # b"
    using assms(2) brace_classes by (auto simp: takeWhile_append2 dropWhile_append2)
  show ?thesis
    using assms(1) f t brace_classes by (simp add: matchReference_def Let_def)
qed

lemma interpolate_reference:
  assumes "f \<noteq> []" "\<forall>c\<in>set f. isRefChar c"
  shows "interpolate toText ctx (''{{'' @ f @ ''}}'' @ b) =
    (if nullish (referenceValue ctx f) then ''{{'' @ f @ ''}}'' else toText (referenceValue ctx f))
      @ interpolate toText ctx b"
proof -
  define p where "p = ''{{'' @ f @ ''}}''"
  have m: "matchReference (p @ b) = Some (f, b)"
    unfolding p_def using matchReference_exact [OF assms, of b] by simp
  obtain p' where p: "p = CHR ''{'' # p'" by (simp add: p_def)
  have "take (length (p @ b) - length b) (p @ b) = p" by simp
  then have "interpolate toText ctx (p @ b) =
      (if nullish (referenceValue ctx f) then p else toText (referenceValue ctx f))
        @ interpolate toText ctx b"
    using m unfolding p by (simp add: Let_def)
  then show ?thesis by (simp add: p_def)
qed

section \<open>The action chain\<close>

definition wellFormedStep :: "ActionStep \<Rightarrow> bool" where
  "wellFormedStep step = (case step_params step of
     JObj kvs \<Rightarrow> list_all (\<lambda>(k, v). case v of JStr _ \<Rightarrow> True | _ \<Rightarrow> False) kvs | _ \<Rightarrow> False)"

lemma renderParams_strings:
  "list_all (\<lambda>(k, v). case v of JStr _ \<Rightarrow> True | _ \<Rightarrow> False) kvs \<Longrightarrow> renderParams toText ctx kvs \<noteq> None"
  by (induction toText ctx kvs rule: renderParams.induct) auto

lemma executeStep_wellFormed:
  "wellFormedStep step \<Longrightarrow> \<exists>r w'. executeStep toText step ctx ports w = (Some r, w')"
proof -
  assume "wellFormedStep step"
  then obtain kvs where k: "step_params step = JObj kvs"
    "list_all (\<lambda>(k, v). case v of JStr _ \<Rightarrow> True | _ \<Rightarrow> False) kvs"
    by (auto simp: wellFormedStep_def split: jsval.splits)
  then obtain params where "renderParams toText ctx kvs = Some params"
    using renderParams_strings by blast
  then show ?thesis
    using k(1) by (simp add: executeStep_def objectEntries_def split: prod.split)
qed

lemma runStep_type: "res_type (fst (runStep ty params ports w)) = ty"
  by (simp add: runStep_def settle_def actionOk_def actionFail_def split: prod.split sum.split)

lemma executeStep_type:
  "executeStep toText step ctx ports w = (Some r, w') \<Longrightarrow> res_type r = step_type step"
  by (auto simp: executeStep_def split: option.splits prod.splits)
     (metis fst_conv runStep_type)

lemma executeSteps_types:
  "executeSteps toText steps ctx ports w = (Some rs, w') \<Longrightarrow> List.map res_type rs = List.map step_type steps"
proof (induction steps arbitrary: w rs)
  case (Cons step steps)
  obtain r w1 where r: "executeStep toText step ctx ports w = (Some r, w1)"
    using Cons.prems by (auto split: prod.splits option.splits)
  obtain rs' where "executeSteps toText steps ctx ports w1 = (Some rs', w')" "rs = r # rs'"
    using Cons.prems r by (auto split: prod.splits)
  then show ?case
    using Cons.IH executeStep_type [OF r] by simp
qed simp

lemma executeSteps_wellFormed:
  "list_all wellFormedStep steps \<Longrightarrow> \<exists>rs w'. executeSteps toText steps ctx ports w = (Some rs, w')"
proof (induction steps arbitrary: w)
  case (Cons step steps)
  obtain r w1 where r: "executeStep toText step ctx ports w = (Some r, w1)"
    using Cons.prems executeStep_wellFormed [of step toText ctx ports w] by auto
  obtain rs w2 where "executeSteps toText steps ctx ports w1 = (Some rs, w2)"
    using Cons.IH [of w1] Cons.prems by auto
  then show ?case using r by simp
qed simp

lemma executeSteps_append:
  "executeSteps toText xs ctx ports w = (Some rs, w') \<Longrightarrow>
   executeSteps toText (xs @ ys) ctx ports w =
     (case executeSteps toText ys ctx ports w' of (rs', w'') \<Rightarrow> (map_option ((@) rs) rs', w''))"
proof (induction xs arbitrary: w rs)
  case Nil
  then show ?case by (auto split: prod.split intro: option.expand)
next
  case (Cons step xs)
  obtain r w1 where r: "executeStep toText step ctx ports w = (Some r, w1)"
    using Cons.prems by (auto split: prod.splits option.splits)
  obtain rs1 where "executeSteps toText xs ctx ports w1 = (Some rs1, w')" "rs = r # rs1"
    using Cons.prems r by (auto split: prod.splits)
  then show ?case
    using Cons.IH r by (auto simp: option.map_comp comp_def split: prod.split)
qed

lemma successes_all:
  "length (filter P xs) = length xs \<longleftrightarrow> (\<forall>x\<in>set xs. P x)"
proof
  assume "length (filter P xs) = length xs"
  then show "\<forall>x\<in>set xs. P x" using length_filter_less [of _ xs P] by fastforce
qed simp

lemma not_success: "res_status r \<noteq> ActionSuccess \<longleftrightarrow> res_status r = ActionError"
  by (cases "res_status r") auto

lemma chainStatus_Success: "chainStatus rs = Success \<longleftrightarrow> (\<forall>r\<in>set rs. res_status r = ActionSuccess)"
  by (simp add: chainStatus_def Let_def successes_all)

lemma chainStatus_Failure:
  "chainStatus rs = Failure \<longleftrightarrow> rs \<noteq> [] \<and> (\<forall>r\<in>set rs. res_status r = ActionError)"
  unfolding chainStatus_def Let_def successes_all
  by (cases rs) (auto simp: filter_empty_conv not_success)

text \<open>The state a step starts from is the one the steps before it left.\<close>

definition stateBefore ::
  "text_of \<Rightarrow> ActionStep list \<Rightarrow> ContextObject \<Rightarrow> 'w ActionPorts \<Rightarrow> 'w \<Rightarrow> nat \<Rightarrow> 'w" where
  "stateBefore toText steps ctx ports w i =
     foldl (\<lambda>w step. snd (executeStep toText step ctx ports w)) w (take i steps)"

lemma executeSteps_nth:
  "executeSteps toText steps ctx ports w = (Some rs, w') \<Longrightarrow>
   w' = stateBefore toText steps ctx ports w (length steps) \<and>
   (\<forall>i<length steps. fst (executeStep toText (steps ! i) ctx ports (stateBefore toText steps ctx ports w i))
      = Some (rs ! i))"
proof (induction steps arbitrary: w rs)
  case (Cons step steps)
  obtain r w1 where r: "executeStep toText step ctx ports w = (Some r, w1)"
    using Cons.prems by (auto split: prod.splits option.splits)
  obtain rs' where rs: "executeSteps toText steps ctx ports w1 = (Some rs', w')" "rs = r # rs'"
    using Cons.prems r by (auto split: prod.splits)
  have "stateBefore toText (step # steps) ctx ports w (Suc i) = stateBefore toText steps ctx ports w1 i" for i
    using r by (simp add: stateBefore_def)
  then show ?case
    using Cons.IH [OF rs(1)] r rs(2)
    by (auto simp: nth_Cons stateBefore_def split: nat.split)
qed (simp add: stateBefore_def)

text \<open>A context to evaluate on.\<close>

definition sampleContext :: ContextObject where
  "sampleContext = buildContext (\<lambda>_ _. ''12:00'') 0
     \<lparr>bi_ruleId = ''r'', bi_ruleVersion = 1, bi_triggerEventId = ''e'', bi_workspaceId = ''w'',
      bi_workspaceTimezone = None, bi_notificationPreference = None,
      bi_conversation = \<lparr>cc_id = ''c'', cc_title = None, cc_tags = [], cc_lastMessageAt = None\<rparr>,
      bi_message = None, bi_sender = Some \<lparr>cs_id = ''s'', cs_displayName = ''Ada'', cs_isVip = True\<rparr>,
      bi_ai = None\<rparr>"

section \<open>Properties\<close>

text \<open>Silent hours are the arc of the 24-hour circle from the start to the end.
  With the preference's times and the local clock in HH:mm form, the window is
  active exactly when the minutes from the start to the present, going forward
  round the clock, are fewer than the minutes from the start to the end; so a
  window that crosses midnight is one window and an empty one is never active.\<close>

theorem silent_hours_circular:
  assumes "h1 < 24" "m1 < 60" "h2 < 24" "m2 < 60" "hc < 24" "mc < 60"
    and "clock timezone now = hhmm hc mc"
    and "silentHoursStart p = Some (hhmm h1 m1)" "silentHoursEnd p = Some (hhmm h2 m2)"
  shows "isSilentHoursActive clock (Some p) timezone now \<longleftrightarrow>
    (int (hc * 60 + mc) - int (h1 * 60 + m1)) mod 1440 < (int (h2 * 60 + m2) - int (h1 * 60 + m1)) mod 1440"
proof -
  have "isSilentHoursActive clock (Some p) timezone now \<longleftrightarrow>
      inWindow (Fin (of_nat (hc * 60 + mc))) (Fin (of_nat (h1 * 60 + m1))) (Fin (of_nat (h2 * 60 + m2)))"
    using assms(7-9) by (simp add: isSilentHoursActive_def nonEmpty_def toMinutes_hhmm)
  then show ?thesis
    using assms(1-6) circular_window [of "int (h1 * 60 + m1)" 1440 "int (h2 * 60 + m2)" "int (hc * 60 + mc)"]
    unfolding inWindow_nat by auto
qed

theorem silent_hours_circular_witness:
  "isSilentHoursActive (\<lambda>_ _. hhmm 2 30)
     (Some \<lparr>silentHoursStart = Some (hhmm 22 0), silentHoursEnd = Some (hhmm 6 0),
            vipOverrideEnabled = True, keywordAlerts = []\<rparr>) ''UTC'' 0"
  by (subst silent_hours_circular [of 22 0 6 0 2 30]) simp_all



text \<open>An action chain never stops early. When every step's parameters are
  strings, the chain returns one result per step in order; each step runs on
  the state the steps before it left, whether they failed or not, so the chain
  leaves the state after all of them; and its status is success when all
  succeeded, failure when there were steps and all failed, partial otherwise.\<close>

theorem executeActions_runs_every_step:
  assumes "list_all wellFormedStep steps"
  shows "\<exists>rs. executeActions toText steps ctx ports w =
      (Some (chainStatus rs, rs), stateBefore toText steps ctx ports w (length steps))
    \<and> List.map res_type rs = List.map step_type steps
    \<and> (\<forall>i<length steps. fst (executeStep toText (steps ! i) ctx ports
          (stateBefore toText steps ctx ports w i)) = Some (rs ! i))
    \<and> (chainStatus rs = Success \<longleftrightarrow> (\<forall>r\<in>set rs. res_status r = ActionSuccess))
    \<and> (chainStatus rs = Failure \<longleftrightarrow> rs \<noteq> [] \<and> (\<forall>r\<in>set rs. res_status r = ActionError))"
proof -
  obtain rs w' where r: "executeSteps toText steps ctx ports w = (Some rs, w')"
    using executeSteps_wellFormed [OF assms, of toText ctx ports w] by blast
  show ?thesis
    using r executeSteps_nth [OF r] executeSteps_types [OF r]
    by (intro exI [of _ rs]) (auto simp: executeActions_def chainStatus_Success chainStatus_Failure)
qed

theorem executeActions_runs_every_step_witness:
  "\<exists>rs. executeActions (\<lambda>_. []) [\<lparr>step_type = ''tag.apply'', step_params = JObj [(''tag'', JStr ''x'')]\<rparr>]
      sampleContext \<lparr>sendNotification = \<lambda>_ _ w. (Inl OtherThrown, w), applyTag = \<lambda>t w. (Inr JNull, w @ [t]),
           sendMessage = \<lambda>_ w. (Inl OtherThrown, w), callWebhook = \<lambda>_ _ w. (Inl OtherThrown, w)\<rparr> []
    = (Some (chainStatus rs, rs), [''x''])"
  using executeActions_runs_every_step
    [of "[\<lparr>step_type = ''tag.apply'', step_params = JObj [(''tag'', JStr ''x'')]\<rparr>]" "\<lambda>_. []" sampleContext
       "\<lparr>sendNotification = \<lambda>_ _ w. (Inl OtherThrown, w), applyTag = \<lambda>t w. (Inr JNull, w @ [t]),
         sendMessage = \<lambda>_ w. (Inl OtherThrown, w), callWebhook = \<lambda>_ _ w. (Inl OtherThrown, w)\<rparr>" "[]"]
  by (auto simp: wellFormedStep_def stateBefore_def executeStep_def objectEntries_def runStep_def
      settle_def paramOr_def matchReference_def)

end
