(* ===== verification/Database.thy ===== *)
theory Database
  imports Automation_Engine
begin

text \<open>
  The rows of \<open>packages/database/prisma/schema.prisma\<close> as records, the database
  as a record of tables, and the state around it that the API process keeps:
  Redis, the job queue, the realtime events emitted and the mail sent. The
  soft-delete client extension (\<open>packages/database/src/soft-delete.ts\<close>) and the
  audit log are here too, since every service uses them.
\<close>

section \<open>Rows\<close>

datatype role = Owner | Admin | Member

record Organization =
  org_id :: uuid
  org_name :: string
  org_slug :: string
  org_planTier :: string
  org_deletedAt :: "instant option"

record Workspace =
  ws_id :: uuid
  ws_organizationId :: uuid
  ws_name :: string
  ws_timezone :: string
  ws_aiEnabled :: bool
  ws_createdAt :: instant
  ws_deletedAt :: "instant option"

record User =
  usr_id :: uuid
  usr_email :: string
  usr_displayName :: "string option"
  usr_avatarUrl :: "string option"
  usr_createdAt :: instant
  usr_deletedAt :: "instant option"

record UserCredentials =
  cred_userId :: uuid
  cred_passwordHash :: "string option"

record WorkspaceMember =
  mem_id :: uuid
  mem_workspaceId :: uuid
  mem_userId :: uuid
  mem_role :: role
  mem_invitedByUserId :: "uuid option"
  mem_joinedAt :: instant
  mem_deletedAt :: "instant option"

record Session =
  ses_id :: uuid
  ses_userId :: uuid
  ses_workspaceId :: uuid
  ses_refreshTokenHash :: string
  ses_familyId :: uuid
  ses_userAgent :: "string option"
  ses_ipAddress :: "string option"
  ses_expiresAt :: instant
  ses_revokedAt :: "instant option"
  ses_createdAt :: instant

record PasswordResetToken =
  prt_id :: uuid
  prt_userId :: uuid
  prt_tokenHash :: string
  prt_expiresAt :: instant
  prt_usedAt :: "instant option"

record WorkspaceInvite =
  inv_id :: uuid
  inv_workspaceId :: uuid
  inv_email :: "string option"
  inv_role :: role
  inv_codeHash :: string
  inv_invitedByUserId :: "uuid option"
  inv_expiresAt :: instant
  inv_usedAt :: "instant option"
  inv_usedByUserId :: "uuid option"
  inv_revokedAt :: "instant option"

record AuditLog =
  aud_id :: uuid
  aud_workspaceId :: "uuid option"
  aud_organizationId :: "uuid option"
  aud_actorUserId :: "uuid option"
  aud_actorType :: string
  aud_action :: string
  aud_resourceType :: "string option"
  aud_resourceId :: "uuid option"
  aud_ipAddress :: "string option"

record Provider =
  prov_id :: uuid
  prov_key :: string

text \<open>The lifecycle states of a connected account (\<open>lifecycle.ts\<close>); the column is a
  text holding one of them.\<close>

datatype LifecycleState = Registered | Authenticating | SyncingInitial | Active | Degraded
  | ReauthRequired | ErrorState | Disconnecting | Disconnected

text \<open>The cursor column holds a text of the connector's own: Telegram's next update
  offset, the channel list and position of Slack and Discord, or the last IMAP UID; the
  model keeps what the text encodes.\<close>

datatype sync_cursor = OffsetCursor int | ChannelsCursor "string list" nat | UidCursor nat

record LinkedAccount =
  la_id :: uuid
  la_workspaceId :: uuid
  la_providerId :: uuid
  la_externalAccountId :: string
  la_displayLabel :: "string option"
  la_status :: LifecycleState
  la_credentialsRef :: uuid
  la_webhookSecret :: "string option"
  la_syncCursor :: "sync_cursor option"
  la_lastSyncedAt :: "instant option"
  la_lastError :: "string option"
  la_createdAt :: instant
  la_deletedAt :: "instant option"

record SecretRecord =
  sec_id :: uuid
  sec_ciphertext :: string
  sec_iv :: string
  sec_authTag :: string
  sec_keyVersion :: nat

record Contact =
  con_id :: uuid
  con_workspaceId :: uuid
  con_displayName :: string
  con_isVip :: bool
  con_createdAt :: instant
  con_deletedAt :: "instant option"

datatype match_type = ExactMatch | ConfirmedManual

record ContactIdentity =
  cid_id :: uuid
  cid_contactId :: uuid
  cid_workspaceId :: uuid
  cid_providerId :: uuid
  cid_externalId :: string
  cid_handle :: "string option"
  cid_matchType :: match_type
  cid_confidenceScore :: "nat option"

datatype suggestion_status = Pending | Approved | Rejected | Expired

text \<open>The evidence of a candidate pair (\<open>matching.ts\<close>), a JSON column.\<close>

record MatchingSignals =
  mts_reason :: string
  mts_normalizedNameA :: string
  mts_normalizedNameB :: string

record IdentityMergeSuggestion =
  ims_id :: uuid
  ims_workspaceId :: uuid
  ims_candidateContactIdA :: uuid
  ims_candidateContactIdB :: uuid
  ims_confidenceScore :: nat
  ims_matchingSignals :: MatchingSignals
  ims_status :: suggestion_status
  ims_reviewedByUserId :: "uuid option"
  ims_reviewedAt :: "instant option"
  ims_expiresAt :: instant
  ims_createdAt :: instant

record IdentityMergeLog =
  iml_id :: uuid
  iml_workspaceId :: uuid
  iml_primaryContactId :: uuid
  iml_mergedContactId :: uuid
  iml_mergedByUserId :: uuid
  iml_confidenceScoreAtMerge :: "nat option"
  iml_matchingSignals :: MatchingSignals

record IdentitySplitLog =
  isl_id :: uuid
  isl_workspaceId :: uuid
  isl_originalContactId :: uuid
  isl_resultingContactIds :: "uuid list"
  isl_splitByUserId :: uuid
  isl_reason :: "string option"

record Conversation =
  cnv_id :: uuid
  cnv_workspaceId :: uuid
  cnv_providerId :: uuid
  cnv_linkedAccountId :: "uuid option"
  cnv_externalId :: string
  cnv_title :: "string option"
  cnv_lastMessageAt :: "instant option"
  cnv_priorityScore :: int
  cnv_isArchived :: bool
  cnv_category :: "string option"
  cnv_tags :: "string list"
  cnv_lastReadAt :: "instant option"
  cnv_createdAt :: instant
  cnv_deletedAt :: "instant option"

record Message =
  msg_id :: uuid
  msg_workspaceId :: uuid
  msg_conversationId :: uuid
  msg_externalId :: string
  msg_senderContactId :: "uuid option"
  msg_direction :: direction
  msg_bodyText :: string
  msg_receivedAt :: instant
  msg_deletedAt :: "instant option"

record Notification =
  ntf_id :: uuid
  ntf_workspaceId :: uuid
  ntf_messageId :: "uuid option"
  ntf_type :: string
  ntf_title :: string
  ntf_body :: string
  ntf_createdAt :: instant

record NotificationPreference =
  npf_id :: uuid
  npf_workspaceId :: uuid
  npf_userId :: uuid
  npf_silentHoursStart :: "string option"
  npf_silentHoursEnd :: "string option"
  npf_vipOverrideEnabled :: bool
  npf_keywordAlerts :: "string list"
  npf_version :: nat

record Rule =
  rul_id :: uuid
  rul_workspaceId :: uuid
  rul_createdByUserId :: uuid
  rul_name :: string
  rul_isEnabled :: bool
  rul_priority :: int
  rul_triggerType :: string
  rul_trigger :: RuleTrigger
  rul_conditions :: ConditionNode
  rul_actions :: "ActionStep list"
  rul_version :: nat
  rul_createdAt :: instant
  rul_updatedAt :: instant
  rul_deletedAt :: "instant option"

record RuleExecutionLog =
  rel_id :: uuid
  rel_workspaceId :: uuid
  rel_ruleId :: uuid
  rel_ruleVersion :: nat
  rel_triggerEventId :: string
  rel_messageId :: "uuid option"
  rel_matchedAt :: instant
  rel_actionsExecuted :: "ActionResult list"
  rel_status :: chain_status
  rel_errorDetail :: "string option"

datatype job_status = JobPending | JobCompleted | JobCancelled

record ScheduledJob =
  sj_id :: uuid
  sj_workspaceId :: uuid
  sj_ruleId :: uuid
  sj_conversationId :: uuid
  sj_scheduledFor :: instant
  sj_status :: job_status
  sj_completedAt :: "instant option"

datatype scheduled_status = SchedPending | SchedSent | SchedCancelled | SchedFailed

record ScheduledMessage =
  sm_id :: uuid
  sm_workspaceId :: uuid
  sm_conversationId :: uuid
  sm_createdByUserId :: uuid
  sm_bodyText :: string
  sm_sendAt :: instant
  sm_status :: scheduled_status
  sm_sentMessageId :: "uuid option"
  sm_lastError :: "string option"

record AiCreditLedger =
  acl_id :: uuid
  acl_organizationId :: uuid
  acl_entryType :: string
  acl_amount :: int
  acl_balanceAfter :: int
  acl_feature :: "string option"
  acl_relatedMessageId :: "uuid option"
  acl_createdAt :: instant

record MessageAiSummary =
  mas_id :: uuid
  mas_workspaceId :: uuid
  mas_messageId :: "uuid option"
  mas_conversationId :: "uuid option"
  mas_summaryText :: string
  mas_modelUsed :: string
  mas_generatedAt :: instant

record PushSubscription =
  psub_id :: uuid
  psub_workspaceId :: uuid
  psub_userId :: uuid
  psub_endpoint :: string
  psub_p256dh :: string
  psub_auth :: string

section \<open>The state\<close>

text \<open>A Redis value with the instant it expires at, if one was set.\<close>

datatype redis_value = RInt int | RStr string

record redis_entry =
  rv_value :: redis_value
  rv_expiresAt :: "instant option"

text \<open>The payload of a \<open>message.received\<close> event (\<open>InboundMessagePayload\<close>), which the job
  carries whole since the message has no row yet.\<close>

record InboundMessagePayload =
  pl_workspaceId :: uuid
  pl_providerKey :: string
  pl_conversationExternalId :: string
  pl_conversationTitle :: "string option"
  pl_senderExternalId :: string
  pl_senderHandle :: "string option"
  pl_senderDisplayName :: "string option"
  pl_messageExternalId :: string
  pl_bodyText :: string
  pl_receivedAt :: instant
  pl_direction :: direction
  pl_linkedAccountId :: "uuid option"

text \<open>A job's data: an inbound message, a due no-reply rule (the job row, rule,
  conversation and workspace) or a due scheduled message.\<close>

datatype job_data = MessageReceived InboundMessagePayload
  | FireNoReply uuid uuid uuid uuid
  | FireScheduledMessage uuid

text \<open>A job of a queue: its BullMQ id, queue name, state, due time, workspace and data.\<close>

datatype bull_state = JWaiting | JDelayed | JActive | JDone | JFailed

record queue_job =
  qj_id :: string
  qj_queue :: string
  qj_state :: bull_state
  qj_runAt :: instant
  qj_workspaceId :: uuid
  qj_data :: job_data

text \<open>A realtime event: the workspace room it went to, its name, its subject row.\<close>

record realtime_event =
  re_workspaceId :: uuid
  re_event :: string
  re_subject :: uuid

record db =
  organizations :: "Organization list"
  workspaces :: "Workspace list"
  users :: "User list"
  credentials :: "UserCredentials list"
  members :: "WorkspaceMember list"
  sessions :: "Session list"
  resetTokens :: "PasswordResetToken list"
  invites :: "WorkspaceInvite list"
  auditLogs :: "AuditLog list"
  providers :: "Provider list"
  linkedAccounts :: "LinkedAccount list"
  secretRecords :: "SecretRecord list"
  contacts :: "Contact list"
  contactIdentities :: "ContactIdentity list"
  mergeSuggestions :: "IdentityMergeSuggestion list"
  mergeLogs :: "IdentityMergeLog list"
  splitLogs :: "IdentitySplitLog list"
  conversations :: "Conversation list"
  messages :: "Message list"
  notifications :: "Notification list"
  notificationPreferences :: "NotificationPreference list"
  rules :: "Rule list"
  executionLogs :: "RuleExecutionLog list"
  scheduledJobs :: "ScheduledJob list"
  scheduledMessages :: "ScheduledMessage list"
  creditLedger :: "AiCreditLedger list"
  aiSummaries :: "MessageAiSummary list"
  pushSubscriptions :: "PushSubscription list"

text \<open>Around the database: how many identifiers and random texts were drawn, Redis,
  the job queue, the events emitted, the mail sent (recipient and link), and the
  connected realtime clients (workspace and user), and the linked accounts with a
  running Discord gateway.\<close>

record world = db +
  idsDrawn :: nat
  randomsDrawn :: nat
  redis :: "string \<Rightarrow> redis_entry option"
  queueJobs :: "queue_job list"
  realtime :: "realtime_event list"
  outbox :: "(string \<times> string) list"
  sockets :: "(uuid \<times> uuid) list"
  gateways :: "uuid list"

text \<open>The environment variables of the credential store's key ring.\<close>

record key_env =
  ke_key1 :: "string option"
  ke_key2 :: "string option"
  ke_activeVersion :: "string option"
  ke_nodeEnv :: "string option"

text \<open>What the code calls outside \<open>src/\<close>: the UUID package, \<open>node:crypto\<close>, argon2,
  the JWT library, the breached-password service (the body of a successful range
  query, or nothing), the mail service (whether the send succeeded), and AES-256-GCM
  (key, iv and plaintext to ciphertext and tag, and back if the tag fits). \<open>uid\<close>,
  \<open>randomText\<close> and \<open>randomHex\<close> are indexed by the draw.\<close>

record jwt_claims =
  jwt_sub :: uuid
  jwt_workspaceId :: uuid
  jwt_orgId :: uuid
  jwt_role :: role

record env =
  uid :: "nat \<Rightarrow> uuid"
  randomText :: "nat \<Rightarrow> string"
  randomHex :: "nat \<Rightarrow> string"
  sha256 :: "string \<Rightarrow> string"
  sha1 :: "string \<Rightarrow> string"
  pwnedRange :: "string \<Rightarrow> string option"
  sendMail :: "string \<Rightarrow> string \<Rightarrow> bool"
  argonHash :: "nat \<Rightarrow> string \<Rightarrow> string"
  argonVerify :: "string \<Rightarrow> string \<Rightarrow> bool"
  signJwt :: "jwt_claims \<Rightarrow> instant \<Rightarrow> string"
  verifyJwt :: "string \<Rightarrow> instant \<Rightarrow> jwt_claims option"
  gcmEncrypt :: "string \<Rightarrow> string \<Rightarrow> string \<Rightarrow> string \<times> string"
  gcmDecrypt :: "string \<Rightarrow> string \<Rightarrow> string \<Rightarrow> string \<Rightarrow> string option"
  scryptDevKey :: string
  keyEnv :: key_env

text \<open>The exceptions of the HTTP layer: \<open>httpError(status, code, message)\<close> keeps its
  status and code; an uncaught \<open>Error\<close> is a 500.\<close>

datatype exn = HttpError nat string | PlainError string

definition draw :: "env \<Rightarrow> world \<Rightarrow> uuid" where
  "draw E s = uid E (idsDrawn s)"

definition drawn :: "nat \<Rightarrow> world \<Rightarrow> world" where
  "drawn n s = s\<lparr>idsDrawn := idsDrawn s + n\<rparr>"

definition drawNth :: "env \<Rightarrow> nat \<Rightarrow> world \<Rightarrow> uuid" where
  "drawNth E k s = uid E (idsDrawn s + k)"

definition randomDraw :: "env \<Rightarrow> world \<Rightarrow> string" where
  "randomDraw E s = randomText E (randomsDrawn s)"

definition randomUsed :: "world \<Rightarrow> world" where
  "randomUsed s = s\<lparr>randomsDrawn := randomsDrawn s + 1\<rparr>"

section \<open>Redis\<close>

definition redisGet :: "instant \<Rightarrow> string \<Rightarrow> world \<Rightarrow> redis_value option" where
  "redisGet now k s = (case redis s k of
      None \<Rightarrow> None
    | Some r \<Rightarrow> (case rv_expiresAt r of
        None \<Rightarrow> Some (rv_value r)
      | Some t \<Rightarrow> if now < t then Some (rv_value r) else None))"

definition redisSet :: "string \<Rightarrow> redis_value \<Rightarrow> instant option \<Rightarrow> world \<Rightarrow> world" where
  "redisSet k v ex s = s\<lparr>redis := (redis s)(k := Some \<lparr>rv_value = v, rv_expiresAt = ex\<rparr>)\<rparr>"

definition redisDel :: "string \<Rightarrow> world \<Rightarrow> world" where
  "redisDel k s = s\<lparr>redis := (redis s)(k := None)\<rparr>"

definition counterOf :: "redis_value option \<Rightarrow> int" where
  "counterOf v = (case v of Some (RInt i) \<Rightarrow> i | _ \<Rightarrow> 0)"

definition redisCount :: "instant \<Rightarrow> string \<Rightarrow> world \<Rightarrow> int" where
  "redisCount now k s = counterOf (redisGet now k s)"

definition redisExpiry :: "instant \<Rightarrow> string \<Rightarrow> world \<Rightarrow> instant option" where
  "redisExpiry now k s =
     (if redisGet now k s = None then None else Option.bind (redis s k) rv_expiresAt)"

text \<open>\<open>INCR\<close> keeps the key's expiry and starts an expired or absent key at 1.\<close>

definition redisIncr :: "instant \<Rightarrow> string \<Rightarrow> world \<Rightarrow> int \<times> world" where
  "redisIncr now k s = (let c = redisCount now k s + 1 in
     (c, redisSet k (RInt c) (redisExpiry now k s) s))"

definition redisExpire :: "string \<Rightarrow> instant \<Rightarrow> world \<Rightarrow> world" where
  "redisExpire k t s = (case redis s k of
      None \<Rightarrow> s
    | Some r \<Rightarrow> s\<lparr>redis := (redis s)(k := Some (r\<lparr>rv_expiresAt := Some t\<rparr>))\<rparr>)"

section \<open>The audit log\<close>

record audit_entry =
  ae_workspaceId :: "uuid option"
  ae_organizationId :: "uuid option"
  ae_actorUserId :: "uuid option"
  ae_actorType :: string
  ae_action :: string
  ae_resourceType :: "string option"
  ae_resourceId :: "uuid option"
  ae_ipAddress :: "string option"

definition auditLog :: "env \<Rightarrow> audit_entry \<Rightarrow> world \<Rightarrow> world" where
  "auditLog E entry s = (drawn 1 s)\<lparr>auditLogs := auditLogs s @
     [\<lparr>aud_id = draw E s, aud_workspaceId = ae_workspaceId entry,
       aud_organizationId = ae_organizationId entry, aud_actorUserId = ae_actorUserId entry,
       aud_actorType = ae_actorType entry, aud_action = ae_action entry,
       aud_resourceType = ae_resourceType entry, aud_resourceId = ae_resourceId entry,
       aud_ipAddress = ae_ipAddress entry\<rparr>]\<rparr>"

lemma auditLog_frame [simp]:
  "organizations (auditLog E e s) = organizations s" "workspaces (auditLog E e s) = workspaces s"
  "users (auditLog E e s) = users s" "credentials (auditLog E e s) = credentials s"
  "members (auditLog E e s) = members s" "sessions (auditLog E e s) = sessions s"
  "resetTokens (auditLog E e s) = resetTokens s" "invites (auditLog E e s) = invites s"
  "linkedAccounts (auditLog E e s) = linkedAccounts s" "secretRecords (auditLog E e s) = secretRecords s"
  "contacts (auditLog E e s) = contacts s" "contactIdentities (auditLog E e s) = contactIdentities s"
  "conversations (auditLog E e s) = conversations s" "messages (auditLog E e s) = messages s"
  "rules (auditLog E e s) = rules s" "redis (auditLog E e s) = redis s"
  "creditLedger (auditLog E e s) = creditLedger s" "outbox (auditLog E e s) = outbox s"
  "randomsDrawn (auditLog E e s) = randomsDrawn s"
  "notificationPreferences (auditLog E e s) = notificationPreferences s"
  "providers (auditLog E e s) = providers s" "scheduledMessages (auditLog E e s) = scheduledMessages s"
  "scheduledJobs (auditLog E e s) = scheduledJobs s" "queueJobs (auditLog E e s) = queueJobs s"
  "realtime (auditLog E e s) = realtime s" "executionLogs (auditLog E e s) = executionLogs s"
  "aiSummaries (auditLog E e s) = aiSummaries s" "notifications (auditLog E e s) = notifications s"
  "mergeSuggestions (auditLog E e s) = mergeSuggestions s" "sockets (auditLog E e s) = sockets s"
  by (simp_all add: auditLog_def drawn_def)

lemma drawn_frame [simp]:
  "organizations (drawn n s) = organizations s" "workspaces (drawn n s) = workspaces s"
  "users (drawn n s) = users s" "credentials (drawn n s) = credentials s"
  "members (drawn n s) = members s" "sessions (drawn n s) = sessions s"
  "resetTokens (drawn n s) = resetTokens s" "invites (drawn n s) = invites s"
  "linkedAccounts (drawn n s) = linkedAccounts s" "conversations (drawn n s) = conversations s"
  "contacts (drawn n s) = contacts s" "messages (drawn n s) = messages s"
  "rules (drawn n s) = rules s" "redis (drawn n s) = redis s"
  by (simp_all add: drawn_def)

section \<open>Soft deletion\<close>

text \<open>The models the client extension covers, and what it does to each call:
  \<open>findMany\<close>, \<open>findFirst\<close> and \<open>count\<close> see live rows only unless the caller's own
  filter names \<open>deletedAt\<close>; \<open>delete\<close> and \<open>deleteMany\<close> become an update of
  \<open>deletedAt\<close>; \<open>findUnique\<close> is not intercepted. A model is given by its name and
  the accessors of its \<open>deletedAt\<close> column.\<close>

definition SOFT_DELETE_MODELS :: "string list" where
  "SOFT_DELETE_MODELS = [''Organization'', ''Workspace'', ''Contact'', ''Conversation'',
     ''Message'', ''User'', ''WorkspaceMember'', ''LinkedAccount'', ''Rule'']"

record 'r where_clause =
  wc_pred :: "'r \<Rightarrow> bool"
  wc_namesDeletedAt :: bool

definition effectiveWhere :: "string \<Rightarrow> ('r \<Rightarrow> instant option) \<Rightarrow> 'r where_clause \<Rightarrow> 'r \<Rightarrow> bool" where
  "effectiveWhere model deletedAt w r =
     ((model \<in> set SOFT_DELETE_MODELS \<and> \<not> wc_namesDeletedAt w \<longrightarrow> deletedAt r = None) \<and> wc_pred w r)"

definition softFindMany :: "string \<Rightarrow> ('r \<Rightarrow> instant option) \<Rightarrow> 'r where_clause \<Rightarrow> 'r list \<Rightarrow> 'r list" where
  "softFindMany model deletedAt w rows = filter (effectiveWhere model deletedAt w) rows"

definition softFindFirst :: "string \<Rightarrow> ('r \<Rightarrow> instant option) \<Rightarrow> 'r where_clause \<Rightarrow> 'r list \<Rightarrow> 'r option" where
  "softFindFirst model deletedAt w rows = findFirst (effectiveWhere model deletedAt w) rows"

definition softCount :: "string \<Rightarrow> ('r \<Rightarrow> instant option) \<Rightarrow> 'r where_clause \<Rightarrow> 'r list \<Rightarrow> nat" where
  "softCount model deletedAt w rows = countWhere (effectiveWhere model deletedAt w) rows"

definition softDeleteMany ::
  "string \<Rightarrow> (instant \<Rightarrow> 'r \<Rightarrow> 'r) \<Rightarrow> instant \<Rightarrow> 'r where_clause \<Rightarrow> 'r list \<Rightarrow> 'r list" where
  "softDeleteMany model setDeletedAt now w rows =
     (if model \<in> set SOFT_DELETE_MODELS then updateMany (wc_pred w) (setDeletedAt now) rows
      else deleteMany (wc_pred w) rows)"

text \<open>A deleted row is invisible to every default read, and stays in the table.\<close>

lemma softDeleteMany_hides:
  assumes "model \<in> set SOFT_DELETE_MODELS" "\<And>r. deletedAt (setDeletedAt now r) = Some now"
    and "r \<in> set (softFindMany model deletedAt w' (softDeleteMany model setDeletedAt now w rows))"
    and "\<not> wc_namesDeletedAt w'"
  shows "r \<in> set rows \<and> \<not> wc_pred w r"
  using assms by (auto simp: softFindMany_def softDeleteMany_def effectiveWhere_def set_updateMany
      split: if_splits)

lemma softDeleteMany_keeps_rows:
  "model \<in> set SOFT_DELETE_MODELS \<Longrightarrow> length (softDeleteMany model f now w rows) = length rows"
  by (simp add: softDeleteMany_def)

definition live :: "('r \<Rightarrow> instant option) \<Rightarrow> 'r \<Rightarrow> bool" where
  "live deletedAt r = (deletedAt r = None)"

lemma effectiveWhere_live:
  "model \<in> set SOFT_DELETE_MODELS \<Longrightarrow>
   effectiveWhere model deletedAt \<lparr>wc_pred = p, wc_namesDeletedAt = False\<rparr> r = (live deletedAt r \<and> p r)"
  by (simp add: effectiveWhere_def live_def)

section \<open>Reads shared by the services\<close>

text \<open>\<open>findFirst\<close> with \<open>orderBy: k asc\<close>.\<close>

fun firstBy :: "('r \<Rightarrow> int) \<Rightarrow> 'r list \<Rightarrow> 'r option" where
  "firstBy k [] = None"
| "firstBy k (r # rs) = (case firstBy k rs of
     None \<Rightarrow> Some r | Some r' \<Rightarrow> if k r \<le> k r' then Some r else Some r')"

lemma firstBy_None [simp]: "firstBy k rs = None \<longleftrightarrow> rs = []"
  by (cases rs) (auto split: option.splits)

lemma firstBy_SomeD: "firstBy k rs = Some r \<Longrightarrow> r \<in> set rs \<and> (\<forall>x\<in>set rs. k r \<le> k x)"
proof (induction rs arbitrary: r)
  case (Cons a rs)
  show ?case
  proof (cases "firstBy k rs")
    case None
    then show ?thesis using Cons.prems by auto
  next
    case (Some r')
    then have "r' \<in> set rs \<and> (\<forall>x\<in>set rs. k r' \<le> k x)" by (rule Cons.IH)
    then show ?thesis using Cons.prems Some by (auto split: if_splits)
  qed
qed simp

definition liveMembership :: "world \<Rightarrow> uuid \<Rightarrow> uuid \<Rightarrow> WorkspaceMember option" where
  "liveMembership s wsId userId = findFirst (\<lambda>m. mem_deletedAt m = None \<and>
     mem_workspaceId m = wsId \<and> mem_userId m = userId) (members s)"

text \<open>The organization of a workspace row; the foreign keys make the row exist.\<close>

definition orgOfWorkspace :: "world \<Rightarrow> uuid \<Rightarrow> uuid" where
  "orgOfWorkspace s wsId = (case findFirst (\<lambda>w. ws_id w = wsId) (workspaces s) of
     Some w \<Rightarrow> ws_organizationId w | None \<Rightarrow> 0)"

text \<open>The key of a provider row, as \<open>include: { provider: true }\<close> reads it.\<close>

definition providerKey :: "world \<Rightarrow> uuid \<Rightarrow> string" where
  "providerKey s provId = (case findFirst (\<lambda>p. prov_id p = provId) (providers s) of
     Some p \<Rightarrow> prov_key p | None \<Rightarrow> [])"

lemma liveMembership_cong: "members s' = members s \<Longrightarrow> liveMembership s' = liveMembership s"
  by (intro ext) (simp add: liveMembership_def)

lemma orgOfWorkspace_cong: "workspaces s' = workspaces s \<Longrightarrow> orgOfWorkspace s' = orgOfWorkspace s"
  by (intro ext) (simp add: orgOfWorkspace_def)

lemma liveMembership_SomeD:
  "liveMembership s w u = Some m \<Longrightarrow>
   m \<in> set (members s) \<and> mem_deletedAt m = None \<and> mem_workspaceId m = w \<and> mem_userId m = u"
  by (auto simp: liveMembership_def dest: findFirst_SomeD)

section \<open>A state and an environment to evaluate on\<close>

definition emptyWorld :: world where
  "emptyWorld = \<lparr>organizations = [], workspaces = [], users = [], credentials = [], members = [],
     sessions = [], resetTokens = [], invites = [], auditLogs = [], providers = [], linkedAccounts = [],
     secretRecords = [], contacts = [], contactIdentities = [], mergeSuggestions = [], mergeLogs = [],
     splitLogs = [], conversations = [], messages = [], notifications = [], notificationPreferences = [],
     rules = [], executionLogs = [], scheduledJobs = [], scheduledMessages = [], creditLedger = [],
     aiSummaries = [], pushSubscriptions = [], idsDrawn = 0, randomsDrawn = 0, redis = Map.empty,
     queueJobs = [], realtime = [], outbox = [], sockets = [], gateways = []\<rparr>"

text \<open>Every external call answered by a simple function: draws are numbered, the
  hashes are injective tags, and no password is known breached.\<close>

definition sampleEnv :: env where
  "sampleEnv = \<lparr>uid = (\<lambda>k. k + 1), randomText = (\<lambda>k. CHR ''t'' # natDigits k),
     randomHex = (\<lambda>k. natDigits k), sha256 = (\<lambda>t. CHR ''h'' # t), sha1 = (\<lambda>t. t),
     pwnedRange = (\<lambda>_. None), sendMail = (\<lambda>_ _. True), argonHash = (\<lambda>k p. CHR ''a'' # p),
     argonVerify = (\<lambda>h p. h = CHR ''a'' # p), signJwt = (\<lambda>c t. uuidText (jwt_sub c)),
     verifyJwt = (\<lambda>t now. None),
     gcmEncrypt = (\<lambda>k iv p. (p, k @ iv)), gcmDecrypt = (\<lambda>k iv tag c. if tag = k @ iv then Some c else None),
     scryptDevKey = replicate 32 (CHR ''k''),
     keyEnv = \<lparr>ke_key1 = None, ke_key2 = None, ke_activeVersion = None, ke_nodeEnv = None\<rparr>\<rparr>"

end
