(* ===== verification/Window_Counter.thy ===== *)
theory Window_Counter
  imports Database
begin

text \<open>
  The contract of a counter that expires a fixed time after its first increment,
  which the login lockout and the request rate limiter both build on Redis
  \<open>INCR\<close> and \<open>EXPIRE\<close>, with the client facts proved from the contract alone.
\<close>

locale window_counter =
  fixes count :: "instant \<Rightarrow> 's \<Rightarrow> int"
    and bump :: "instant \<Rightarrow> 's \<Rightarrow> 's"
    and deadline :: "'s \<Rightarrow> instant option"
    and window :: int
  assumes count_first: "count now s = 0 \<Longrightarrow> t < now + window \<Longrightarrow> count t (bump now s) = 1"
    and deadline_first: "count now s = 0 \<Longrightarrow> deadline (bump now s) = Some (now + window)"
    and count_next: "deadline s = Some d \<Longrightarrow> now < d \<Longrightarrow> 0 < count now s \<Longrightarrow> t < d \<Longrightarrow>
      count t (bump now s) = count now s + 1"
    and deadline_next: "deadline s = Some d \<Longrightarrow> now < d \<Longrightarrow> 0 < count now s \<Longrightarrow>
      deadline (bump now s) = Some d"
    and count_expired: "deadline s = Some d \<Longrightarrow> d \<le> now \<Longrightarrow> count now s = 0"
begin

text \<open>A state in which the window opened at \<open>t0\<close> and holds \<open>n\<close> increments.\<close>

definition holds :: "instant \<Rightarrow> nat \<Rightarrow> 's \<Rightarrow> bool" where
  "holds t0 n s \<longleftrightarrow> deadline s = Some (t0 + window) \<and> (\<forall>t<t0 + window. count t s = int n)"

lemma holds_first: "count t0 s = 0 \<Longrightarrow> holds t0 1 (bump t0 s)"
  by (simp add: holds_def count_first deadline_first)

lemma holds_next: "holds t0 n s \<Longrightarrow> 0 < n \<Longrightarrow> t < t0 + window \<Longrightarrow> holds t0 (Suc n) (bump t s)"
  by (auto simp: holds_def count_next deadline_next)

lemma holds_count: "holds t0 n s \<Longrightarrow> t < t0 + window \<Longrightarrow> count t s = int n"
  by (simp add: holds_def)

lemma holds_over: "holds t0 n s \<Longrightarrow> t0 + window \<le> t \<Longrightarrow> count t s = 0"
  by (auto simp: holds_def intro: count_expired)

text \<open>Increments at the times \<open>ts\<close>, all in the window the first one opens, count up
  to their number; the counter is back at zero when the window is over.\<close>

lemma holds_run:
  assumes "holds t0 n s" "0 < n" "\<forall>t\<in>set ts. t < t0 + window"
  shows "holds t0 (n + length ts) (foldl (\<lambda>s t. bump t s) s ts)"
  using assms
proof (induction ts arbitrary: n s)
  case (Cons t ts)
  then show ?case using Cons.IH [OF holds_next, of n s t] by simp
qed simp

lemma count_run:
  assumes "count t0 s = 0" "\<forall>t\<in>set ts. t < t0 + window" "t < t0 + window"
  shows "count t (foldl (\<lambda>s t. bump t s) s (t0 # ts)) = int (length ts + 1)"
  using holds_run [OF holds_first [OF assms(1)], of ts] assms by (simp add: holds_count)

end

section \<open>Facts about the Redis counter\<close>

definition deadlineKey :: "string \<Rightarrow> world \<Rightarrow> instant option" where
  "deadlineKey key s = Option.bind (redis s key) rv_expiresAt"

lemma redisGet_present: "redisCount now key s \<noteq> 0 \<Longrightarrow> redisGet now key s \<noteq> None"
  by (cases "redisGet now key s") (auto simp: redisCount_def counterOf_def)

lemma redisExpiry_deadline:
  "redisCount now key s \<noteq> 0 \<Longrightarrow> redisExpiry now key s = deadlineKey key s"
  using redisGet_present [of now key s] by (auto simp: redisExpiry_def deadlineKey_def)

lemma redisCount_expired:
  "deadlineKey key s = Some d \<Longrightarrow> d \<le> now \<Longrightarrow> redisCount now key s = 0"
  by (auto simp: redisCount_def redisGet_def deadlineKey_def counterOf_def bind_eq_Some_conv)

text \<open>A step that leaves the key holding the next count with a deadline.\<close>

lemma redisCount_entry:
  "redis s' key = Some \<lparr>rv_value = RInt c, rv_expiresAt = Some d\<rparr> \<Longrightarrow> t < d \<Longrightarrow> redisCount t key s' = c"
  "redis s' key = Some \<lparr>rv_value = RInt c, rv_expiresAt = Some d\<rparr> \<Longrightarrow> deadlineKey key s' = Some d"
  by (simp_all add: redisCount_def redisGet_def counterOf_def deadlineKey_def)

lemma window_counterI:
  assumes "\<And>now s. redisCount now key s = 0 \<Longrightarrow>
      redis (bump now s) key = Some \<lparr>rv_value = RInt 1, rv_expiresAt = Some (now + window)\<rparr>"
    and "\<And>now s d. deadlineKey key s = Some d \<Longrightarrow> 0 < redisCount now key s \<Longrightarrow>
      redis (bump now s) key = Some \<lparr>rv_value = RInt (redisCount now key s + 1), rv_expiresAt = Some d\<rparr>"
  shows "window_counter (\<lambda>now. redisCount now key) bump (deadlineKey key) window"
  using redisCount_entry assms redisCount_expired by unfold_locales blast+

end
