(* ===== verification/Auth_Session.thy ===== *)
theory Auth_Session
  imports Window_Counter
begin

text \<open>
  Authentication (\<open>apps/api/src/auth\<close>): password policy, refresh-token sessions
  with rotation families and reuse detection, registration, login with its
  lockout counters, refresh, workspace switching, logout, and the two guards
  every protected route runs.
\<close>

section \<open>Configuration and utilities\<close>

record authConfig =
  accessTokenTtlSeconds :: int
  refreshTokenTtlDays :: int
  loginLockoutWindowSeconds :: int
  loginLockoutMaxAttempts :: int
  passwordResetTokenTtlMinutes :: int
  passwordResetLockoutWindowSeconds :: int
  passwordResetLockoutMaxAttempts :: int
  webAppBaseUrl :: string

definition defaultAuthConfig :: authConfig where
  "defaultAuthConfig = \<lparr>accessTokenTtlSeconds = 900, refreshTokenTtlDays = 30,
     loginLockoutWindowSeconds = 900, loginLockoutMaxAttempts = 10,
     passwordResetTokenTtlMinutes = 30, passwordResetLockoutWindowSeconds = 900,
     passwordResetLockoutMaxAttempts = 5, webAppBaseUrl = ''http://localhost:3000''\<rparr>"

text \<open>The environment of \<open>resolveJwtSecret\<close> and of the boot check.\<close>

record jwt_env =
  je_JWT_SECRET :: "string option"
  je_NODE_ENV :: "string option"

definition DEV_JWT_SECRET :: string where
  "DEV_JWT_SECRET = ''dev-insecure-secret-change-me''"

definition resolveJwtSecret :: "jwt_env \<Rightarrow> string" where
  "resolveJwtSecret e =
     (if nonEmpty (je_JWT_SECRET e) then the (je_JWT_SECRET e)
      else if je_NODE_ENV e = Some ''production'' then [] else DEV_JWT_SECRET)"

definition assertJwtSecretValid :: "jwt_env \<Rightarrow> exn + unit" where
  "assertJwtSecretValid e =
     (if je_NODE_ENV e \<noteq> Some ''production'' then Inr ()
      else if \<not> nonEmpty (je_JWT_SECRET e) \<or> trim (the (je_JWT_SECRET e)) = []
        then Inl (PlainError ''JWT_SECRET is not set'')
      else if je_JWT_SECRET e = Some DEV_JWT_SECRET
        then Inl (PlainError ''JWT_SECRET is set to the public development value'')
      else Inr ())"

record RequestContext =
  rc_ipAddress :: "string option"
  rc_userAgent :: "string option"

definition normalizeEmail :: "string \<Rightarrow> string" where
  "normalizeEmail email = toLowerCase (trim email)"

definition isSlugChar :: "char \<Rightarrow> bool" where
  "isSlugChar c \<longleftrightarrow> isDigit c \<or> (97 \<le> code c \<and> code c \<le> 122)"

text \<open>\<open>replace(/[^a-z0-9]+/g, "-")\<close>: a maximal run becomes one dash; the flag says
  a dash was just written.\<close>

fun dashRuns :: "bool \<Rightarrow> string \<Rightarrow> string" where
  "dashRuns b [] = []"
| "dashRuns b (c # cs) =
     (if isSlugChar c then c # dashRuns False cs
      else if b then dashRuns True cs else CHR ''-'' # dashRuns True cs)"

definition stripDashes :: "string \<Rightarrow> string" where
  "stripDashes s = rev (dropWhile (\<lambda>c. c = CHR ''-'') (rev (dropWhile (\<lambda>c. c = CHR ''-'') s)))"

definition makeSlug :: "string \<Rightarrow> string \<Rightarrow> string" where
  "makeSlug suffix base = (let cleaned = stripDashes (dashRuns False (toLowerCase base)) in
     (if cleaned = [] then ''workspace'' else cleaned) @ ''-'' @ suffix)"

record PublicUser =
  pu_id :: uuid
  pu_email :: string
  pu_displayName :: "string option"
  pu_avatarUrl :: "string option"
  pu_createdAt :: instant

definition toPublicUser :: "User \<Rightarrow> PublicUser" where
  "toPublicUser u = \<lparr>pu_id = usr_id u, pu_email = usr_email u, pu_displayName = usr_displayName u,
     pu_avatarUrl = usr_avatarUrl u, pu_createdAt = usr_createdAt u\<rparr>"

section \<open>Passwords\<close>

definition validatePolicy :: "string \<Rightarrow> string list" where
  "validatePolicy password =
     (if length password < 12 then [''Password must be at least 12 characters long.''] else []) @
     (if 128 < length password then [''Password must be at most 128 characters long.''] else [])"

definition upperHex :: "string \<Rightarrow> string" where
  "upperHex s = List.map (\<lambda>c. if 97 \<le> code c \<and> code c \<le> 122 then char_of (code c - 32) else c) s"

text \<open>Fails open: no response, or an unsuccessful one, is "not known-breached".\<close>

definition isKnownBreached :: "env \<Rightarrow> string \<Rightarrow> bool" where
  "isKnownBreached E password =
     (let h = upperHex (sha1 E password); prefix = take 5 h; suffix = drop 5 h in
      case pwnedRange E prefix of
        None \<Rightarrow> False
      | Some body \<Rightarrow> list_ex (\<lambda>line. trim (hd (splitOn (CHR '':'') line)) = suffix)
                     (splitOn (CHR 0x0A) body))"

section \<open>Sessions\<close>

type_synonym 'a action = "(world, exn, 'a) oper"

record IssuedSession =
  is_accessToken :: string
  is_refreshToken :: string
  is_session :: Session

definition hashRefreshToken :: "env \<Rightarrow> string \<Rightarrow> string" where
  "hashRefreshToken E token = sha256 E token"

definition signAccessToken :: "env \<Rightarrow> authConfig \<Rightarrow> instant \<Rightarrow> jwt_claims \<Rightarrow> string" where
  "signAccessToken E C now claims = signJwt E claims (now + accessTokenTtlSeconds C * 1000)"

definition sessionExpiry :: "authConfig \<Rightarrow> instant \<Rightarrow> instant" where
  "sessionExpiry C now = now + refreshTokenTtlDays C * 24 * 60 * 60 * 1000"

definition issue :: "env \<Rightarrow> authConfig \<Rightarrow> instant \<Rightarrow> jwt_claims \<Rightarrow> RequestContext \<Rightarrow> world
    \<Rightarrow> IssuedSession \<times> world" where
  "issue E C now claims ctx s =
     (let refreshToken = randomDraw E s;
          session = \<lparr>ses_id = drawNth E 0 s, ses_userId = jwt_sub claims,
            ses_workspaceId = jwt_workspaceId claims,
            ses_refreshTokenHash = hashRefreshToken E refreshToken,
            ses_familyId = drawNth E 1 s, ses_userAgent = rc_userAgent ctx,
            ses_ipAddress = rc_ipAddress ctx, ses_expiresAt = sessionExpiry C now,
            ses_revokedAt = None, ses_createdAt = now\<rparr>
      in (\<lparr>is_accessToken = signAccessToken E C now claims, is_refreshToken = refreshToken,
           is_session = session\<rparr>,
          (drawn 2 (randomUsed s))\<lparr>sessions := sessions s @ [session]\<rparr>))"

record rotated =
  ro_userId :: uuid
  ro_refreshToken :: string
  ro_session :: Session

definition revokeWhere :: "instant \<Rightarrow> (Session \<Rightarrow> bool) \<Rightarrow> world \<Rightarrow> world" where
  "revokeWhere now p s = s\<lparr>sessions := updateMany p (\<lambda>r. r\<lparr>ses_revokedAt := Some now\<rparr>) (sessions s)\<rparr>"

definition sessionAudit :: "uuid \<Rightarrow> string \<Rightarrow> uuid option \<Rightarrow> RequestContext \<Rightarrow> audit_entry" where
  "sessionAudit userId action resId ctx = \<lparr>ae_workspaceId = None, ae_organizationId = None,
     ae_actorUserId = Some userId, ae_actorType = ''user'', ae_action = action,
     ae_resourceType = Some ''session'', ae_resourceId = resId, ae_ipAddress = rc_ipAddress ctx\<rparr>"

text \<open>The rotation proper: the presented row is revoked and kept, and a new row of
  the same family takes its place.\<close>

definition rotateSession ::
  "env \<Rightarrow> authConfig \<Rightarrow> instant \<Rightarrow> RequestContext \<Rightarrow> Session \<Rightarrow> uuid \<Rightarrow> world \<Rightarrow> rotated \<times> world" where
  "rotateSession E C now ctx existing target s =
     (let s1 = revokeWhere now (\<lambda>r. ses_id r = ses_id existing) s;
          refreshToken = randomDraw E s1;
          newSession = \<lparr>ses_id = draw E s1, ses_userId = ses_userId existing,
            ses_workspaceId = target,
            ses_refreshTokenHash = hashRefreshToken E refreshToken,
            ses_familyId = ses_familyId existing, ses_userAgent = rc_userAgent ctx,
            ses_ipAddress = rc_ipAddress ctx, ses_expiresAt = sessionExpiry C now,
            ses_revokedAt = None, ses_createdAt = now\<rparr>
      in (\<lparr>ro_userId = ses_userId existing, ro_refreshToken = refreshToken, ro_session = newSession\<rparr>,
          (drawn 1 (randomUsed s1))\<lparr>sessions := sessions s1 @ [newSession]\<rparr>))"

definition rotate ::
  "env \<Rightarrow> authConfig \<Rightarrow> instant \<Rightarrow> string \<Rightarrow> RequestContext \<Rightarrow> uuid option \<Rightarrow> uuid option
    \<Rightarrow> rotated action" where
  "rotate E C now presentedRefreshToken ctx overrideWorkspaceId expectedUserId s =
     (let presentedHash = hashRefreshToken E presentedRefreshToken in
      case findFirst (\<lambda>r. ses_refreshTokenHash r = presentedHash) (sessions s) of
        None \<Rightarrow> (Inl (HttpError 401 ''REFRESH_TOKEN_INVALID''), s)
      | Some existing \<Rightarrow>
          if expectedUserId \<noteq> None \<and> expectedUserId \<noteq> Some (ses_userId existing)
          then (Inl (HttpError 401 ''SESSION_MISMATCH''), s)
          else if ses_revokedAt existing \<noteq> None then
            (Inl (HttpError 401 ''REFRESH_TOKEN_REUSE_DETECTED''),
             auditLog E (sessionAudit (ses_userId existing) ''session.reuse_detected''
                           (Some (ses_id existing)) ctx)
               (revokeWhere now (\<lambda>r. ses_familyId r = ses_familyId existing \<and> ses_revokedAt r = None) s))
          else if ses_expiresAt existing < now then (Inl (HttpError 401 ''REFRESH_TOKEN_EXPIRED''), s)
          else
            (let target = (case overrideWorkspaceId of Some w \<Rightarrow> w | None \<Rightarrow> ses_workspaceId existing);
                 (r, s1) = rotateSession E C now ctx existing target s
             in (Inr r, auditLog E (sessionAudit (ses_userId existing)
                   (if overrideWorkspaceId \<noteq> None \<and> target \<noteq> ses_workspaceId existing
                    then ''session.workspace_switched'' else ''session.refreshed'')
                   (Some (ses_id (ro_session r))) ctx) s1)))"

definition revoke :: "env \<Rightarrow> instant \<Rightarrow> string \<Rightarrow> world \<Rightarrow> uuid option \<times> world" where
  "revoke E now presentedRefreshToken s =
     (case findFirst (\<lambda>r. ses_refreshTokenHash r = hashRefreshToken E presentedRefreshToken \<and>
                          ses_revokedAt r = None) (sessions s) of
        None \<Rightarrow> (None, s)
      | Some existing \<Rightarrow> (Some (ses_userId existing), revokeWhere now (\<lambda>r. ses_id r = ses_id existing) s))"

definition activeOf :: "uuid \<Rightarrow> Session \<Rightarrow> bool" where
  "activeOf userId r = (ses_userId r = userId \<and> ses_revokedAt r = None)"

definition revokeAllForUser :: "instant \<Rightarrow> uuid \<Rightarrow> world \<Rightarrow> nat \<times> world" where
  "revokeAllForUser now userId s =
     (countWhere (activeOf userId) (sessions s), revokeWhere now (activeOf userId) s)"

text \<open>\<open>orderBy: createdAt desc\<close>, by insertion.\<close>

fun insertDesc :: "('r \<Rightarrow> int) \<Rightarrow> 'r \<Rightarrow> 'r list \<Rightarrow> 'r list" where
  "insertDesc k r [] = [r]"
| "insertDesc k r (x # xs) = (if k x \<le> k r then r # x # xs else x # insertDesc k r xs)"

definition orderDesc :: "('r \<Rightarrow> int) \<Rightarrow> 'r list \<Rightarrow> 'r list" where
  "orderDesc k rows = foldr (insertDesc k) rows []"

definition listActiveForUser :: "instant \<Rightarrow> uuid \<Rightarrow> world \<Rightarrow> Session list" where
  "listActiveForUser now userId s = take 200 (orderDesc ses_createdAt
     (filter (\<lambda>r. activeOf userId r \<and> now < ses_expiresAt r) (sessions s)))"

section \<open>Login lockout counters\<close>

definition loginKey :: "string \<Rightarrow> string \<Rightarrow> string" where
  "loginKey kind v = ''login_attempts:'' @ kind @ '':'' @ v"

definition resetKey :: "string \<Rightarrow> string \<Rightarrow> string" where
  "resetKey kind v = ''password_reset_attempts:'' @ kind @ '':'' @ v"

definition locked :: "(string \<Rightarrow> string \<Rightarrow> string) \<Rightarrow> int \<Rightarrow> instant \<Rightarrow> string \<Rightarrow> string option \<Rightarrow> world \<Rightarrow> bool" where
  "locked key maxAttempts now email ip s =
     ((redisGet now (key ''email'' email) s \<noteq> None \<and> maxAttempts \<le> redisCount now (key ''email'' email) s) \<or>
      (nonEmpty ip \<and> redisGet now (key ''ip'' (the ip)) s \<noteq> None \<and>
         maxAttempts \<le> redisCount now (key ''ip'' (the ip)) s))"

definition incrementWithWindow :: "instant \<Rightarrow> string \<Rightarrow> int \<Rightarrow> world \<Rightarrow> world" where
  "incrementWithWindow now key windowSeconds s = (case redisIncr now key s of
     (c, s') \<Rightarrow> if c = 1 then redisExpire key (now + windowSeconds * 1000) s' else s')"

lemma redis_incrementWithWindow:
  "redis (incrementWithWindow now key W s) =
     (redis s)(key := Some \<lparr>rv_value = RInt (redisCount now key s + 1),
       rv_expiresAt = (if redisCount now key s = 0 then Some (now + W * 1000) else redisExpiry now key s)\<rparr>)"
  by (simp add: incrementWithWindow_def redisIncr_def Let_def redisExpire_def redisSet_def)

interpretation lockout: window_counter
  "\<lambda>now. redisCount now key" "\<lambda>now. incrementWithWindow now key W" "deadlineKey key" "W * 1000" for key W
  by (rule window_counterI) (simp_all add: redis_incrementWithWindow redisExpiry_deadline)

lemma redisCount_incrementWithWindow_other:
  "k \<noteq> key \<Longrightarrow> redisCount t k (incrementWithWindow now key W s) = redisCount t k s"
  "k \<noteq> key \<Longrightarrow> deadlineKey k (incrementWithWindow now key W s) = deadlineKey k s"
  by (simp_all add: redisCount_def redisGet_def deadlineKey_def redis_incrementWithWindow)

definition recordAttempt :: "(string \<Rightarrow> string \<Rightarrow> string) \<Rightarrow> int \<Rightarrow> instant \<Rightarrow> string \<Rightarrow> string option \<Rightarrow> world \<Rightarrow> world" where
  "recordAttempt key window now email ip s =
     (let s1 = incrementWithWindow now (key ''email'' email) window s in
      if nonEmpty ip then incrementWithWindow now (key ''ip'' (the ip)) window s1 else s1)"

definition isLocked :: "authConfig \<Rightarrow> instant \<Rightarrow> string \<Rightarrow> string option \<Rightarrow> world \<Rightarrow> bool" where
  "isLocked C = locked loginKey (loginLockoutMaxAttempts C)"

definition recordFailure :: "authConfig \<Rightarrow> instant \<Rightarrow> string \<Rightarrow> string option \<Rightarrow> world \<Rightarrow> world" where
  "recordFailure C = recordAttempt loginKey (loginLockoutWindowSeconds C)"

definition resetAttempts :: "string \<Rightarrow> string option \<Rightarrow> world \<Rightarrow> world" where
  "resetAttempts email ip s = (let s1 = redisDel (loginKey ''email'' email) s in
     if nonEmpty ip then redisDel (loginKey ''ip'' (the ip)) s1 else s1)"

definition isResetLocked :: "authConfig \<Rightarrow> instant \<Rightarrow> string \<Rightarrow> string option \<Rightarrow> world \<Rightarrow> bool" where
  "isResetLocked C = locked resetKey (passwordResetLockoutMaxAttempts C)"

definition recordResetRequest :: "authConfig \<Rightarrow> instant \<Rightarrow> string \<Rightarrow> string option \<Rightarrow> world \<Rightarrow> world" where
  "recordResetRequest C = recordAttempt resetKey (passwordResetLockoutWindowSeconds C)"

section \<open>Rotation families\<close>

definition liveInFamily :: "uuid \<Rightarrow> Session \<Rightarrow> bool" where
  "liveInFamily fam r = (ses_familyId r = fam \<and> ses_revokedAt r = None)"

text \<open>At most one session of a family is live, and every family id was drawn.\<close>

definition sessInv :: "env \<Rightarrow> world \<Rightarrow> bool" where
  "sessInv E s \<longleftrightarrow> (\<forall>fam. countWhere (liveInFamily fam) (sessions s) \<le> 1) \<and>
     (\<forall>r\<in>set (sessions s). \<exists>k<idsDrawn s. ses_familyId r = uid E k)"

lemma idsDrawn_simps [simp]:
  "idsDrawn (auditLog E e s) = idsDrawn s + 1" "idsDrawn (drawn n s) = idsDrawn s + n"
  "idsDrawn (randomUsed s) = idsDrawn s" "sessions (randomUsed s) = sessions s"
  "idsDrawn (revokeWhere now p s) = idsDrawn s"
  by (simp_all add: auditLog_def drawn_def randomUsed_def revokeWhere_def)

lemma randomUsed_frame [simp]:
  "users (randomUsed s) = users s" "members (randomUsed s) = members s"
  "credentials (randomUsed s) = credentials s" "resetTokens (randomUsed s) = resetTokens s"
  "workspaces (randomUsed s) = workspaces s" "organizations (randomUsed s) = organizations s"
  "redis (randomUsed s) = redis s" "invites (randomUsed s) = invites s"
  by (simp_all add: randomUsed_def)

lemma revokeWhere_frame [simp]:
  "sessions (revokeWhere now p s) = updateMany p (\<lambda>r. r\<lparr>ses_revokedAt := Some now\<rparr>) (sessions s)"
  "users (revokeWhere now p s) = users s" "members (revokeWhere now p s) = members s"
  "credentials (revokeWhere now p s) = credentials s" "resetTokens (revokeWhere now p s) = resetTokens s"
  "workspaces (revokeWhere now p s) = workspaces s" "redis (revokeWhere now p s) = redis s"
  "randomsDrawn (revokeWhere now p s) = randomsDrawn s"
  by (simp_all add: revokeWhere_def)

lemma sessInv_frame:
  "sessInv E s \<Longrightarrow> sessions s' = sessions s \<Longrightarrow> idsDrawn s \<le> idsDrawn s' \<Longrightarrow> sessInv E s'"
  by (auto simp: sessInv_def) (meson order.strict_trans2)

lemma countWhere_revoke:
  "countWhere (liveInFamily fam) (updateMany p (\<lambda>r. r\<lparr>ses_revokedAt := Some now\<rparr>) rows)
     = countWhere (\<lambda>r. liveInFamily fam r \<and> \<not> p r) rows"
  by (induction rows) (auto simp: liveInFamily_def)

lemma sessInv_revokeWhere: "sessInv E s \<Longrightarrow> sessInv E (revokeWhere now p s)"
proof -
  assume i: "sessInv E s"
  have "countWhere (\<lambda>r. liveInFamily fam r \<and> \<not> p r) (sessions s) \<le> countWhere (liveInFamily fam) (sessions s)" for fam
    by (rule countWhere_mono) simp
  then show ?thesis
    using i by (auto simp: sessInv_def countWhere_revoke set_updateMany intro: le_trans)
qed

lemma sessInv_auditLog: "sessInv E s \<Longrightarrow> sessInv E (auditLog E e s)"
  by (auto intro: sessInv_frame)

text \<open>Appending a live session whose family has none.\<close>

lemma sessInv_append:
  assumes "sessInv E s" "countWhere (liveInFamily (ses_familyId r)) (sessions s) = 0"
    and "\<exists>k<idsDrawn s'. ses_familyId r = uid E k"
    and "sessions s' = sessions s @ [r]" "idsDrawn s \<le> idsDrawn s'"
  shows "sessInv E s'"
proof -
  have "countWhere (liveInFamily fam) (sessions s') \<le> 1" for fam
    using assms(1,2,4) by (cases "fam = ses_familyId r") (auto simp: sessInv_def liveInFamily_def)
  moreover have "\<exists>k<idsDrawn s'. ses_familyId x = uid E k" if "x \<in> set (sessions s')" for x
    using that assms by (auto simp: sessInv_def) (meson order.strict_trans2)
  ultimately show ?thesis by (simp add: sessInv_def)
qed

lemma sessInv_issue:
  assumes "inj (uid E)" "sessInv E s"
  shows "sessInv E (snd (issue E C now claims ctx s))"
proof -
  have "ses_familyId r \<noteq> uid E (Suc (idsDrawn s))" if m: "r \<in> set (sessions s)" for r
  proof -
    obtain k where "k < idsDrawn s" "ses_familyId r = uid E k"
      using m assms(2) by (auto simp: sessInv_def)
    then show ?thesis using injD [OF assms(1), of "Suc (idsDrawn s)" k] by auto
  qed
  then have fresh: "countWhere (liveInFamily (uid E (Suc (idsDrawn s)))) (sessions s) = 0"
    by (auto simp: countWhere_0_iff liveInFamily_def)
  show ?thesis
    by (rule sessInv_append [OF assms(2)])
       (auto simp: issue_def Let_def fresh drawn_def randomUsed_def drawNth_def)
qed

lemma sessions_rotateSession:
  "sessions (snd (rotateSession E C now ctx r0 target s)) =
     sessions (revokeWhere now (\<lambda>r. ses_id r = ses_id r0) s) @ [ro_session (fst (rotateSession E C now ctx r0 target s))]"
  by (simp add: rotateSession_def Let_def)

lemma rotateSession_row:
  "ses_familyId (ro_session (fst (rotateSession E C now ctx r0 target s))) = ses_familyId r0"
  "ses_workspaceId (ro_session (fst (rotateSession E C now ctx r0 target s))) = target"
  "ses_userId (ro_session (fst (rotateSession E C now ctx r0 target s))) = ses_userId r0"
  "ro_userId (fst (rotateSession E C now ctx r0 target s)) = ses_userId r0"
  "ses_revokedAt (ro_session (fst (rotateSession E C now ctx r0 target s))) = None"
  by (simp_all add: rotateSession_def Let_def)

lemma rotateSession_frame [simp]:
  "users (snd (rotateSession E C now ctx r0 target s)) = users s"
  "members (snd (rotateSession E C now ctx r0 target s)) = members s"
  "workspaces (snd (rotateSession E C now ctx r0 target s)) = workspaces s"
  "credentials (snd (rotateSession E C now ctx r0 target s)) = credentials s"
  "resetTokens (snd (rotateSession E C now ctx r0 target s)) = resetTokens s"
  "idsDrawn (snd (rotateSession E C now ctx r0 target s)) = idsDrawn s + 1"
  by (simp_all add: rotateSession_def Let_def drawn_def randomUsed_def revokeWhere_def)

lemma rotateSession_spec:
  assumes "rotateSession E C now ctx r0 target s = (r, s')"
  shows "ses_familyId (ro_session r) = ses_familyId r0" "ses_workspaceId (ro_session r) = target"
    "ses_userId (ro_session r) = ses_userId r0" "ro_userId r = ses_userId r0"
    "ses_revokedAt (ro_session r) = None" "users s' = users s" "members s' = members s"
    "workspaces s' = workspaces s"
    "sessions s' = updateMany (\<lambda>x. ses_id x = ses_id r0) (\<lambda>x. x\<lparr>ses_revokedAt := Some now\<rparr>) (sessions s)
       @ [ro_session r]"
  using assms by (auto simp: rotateSession_def Let_def drawn_def randomUsed_def revokeWhere_def)

lemma sessInv_rotateSession:
  assumes "sessInv E s" "r0 \<in> set (sessions s)" "ses_revokedAt r0 = None"
  shows "sessInv E (snd (rotateSession E C now ctx r0 target s))"
proof -
  define s1 where "s1 = revokeWhere now (\<lambda>r. ses_id r = ses_id r0) s"
  have "countWhere (\<lambda>r. liveInFamily (ses_familyId r0) r \<and> \<not> ses_id r = ses_id r0) (sessions s)
      < countWhere (liveInFamily (ses_familyId r0)) (sessions s)"
    using assms by (intro countWhere_strict [of r0]) (auto simp: liveInFamily_def)
  moreover have "countWhere (liveInFamily (ses_familyId r0)) (sessions s) \<le> 1"
    using assms(1) by (simp add: sessInv_def)
  ultimately have zero: "countWhere (liveInFamily (ses_familyId r0)) (sessions s1) = 0"
    by (simp add: s1_def countWhere_revoke)
  obtain k where "k < idsDrawn s" "ses_familyId r0 = uid E k"
    using assms by (auto simp: sessInv_def)
  then have k: "\<exists>k<idsDrawn s + 1. ses_familyId r0 = uid E k" by (auto intro: less_SucI)
  have "sessInv E s1" using assms(1) by (simp add: s1_def sessInv_revokeWhere)
  then show ?thesis
    by (rule sessInv_append [where r = "ro_session (fst (rotateSession E C now ctx r0 target s))"])
       (use zero k in \<open>simp_all add: rotateSession_row sessions_rotateSession s1_def [symmetric]\<close>, simp add: s1_def)
qed

text \<open>The outcomes of presenting a refresh token.\<close>

lemma rotate_cases:
  obtains (refused) e where "rotate E C now tok ctx ov ex s = (Inl e, s)"
      "e \<noteq> HttpError 401 ''REFRESH_TOKEN_REUSE_DETECTED''"
  | (reuse) r0 a where
      "findFirst (\<lambda>r. ses_refreshTokenHash r = hashRefreshToken E tok) (sessions s) = Some r0"
      "ses_revokedAt r0 \<noteq> None"
      "rotate E C now tok ctx ov ex s = (Inl (HttpError 401 ''REFRESH_TOKEN_REUSE_DETECTED''),
         auditLog E a (revokeWhere now (\<lambda>r. ses_familyId r = ses_familyId r0 \<and> ses_revokedAt r = None) s))"
  | (rotated) r0 r s1 a where
      "findFirst (\<lambda>r. ses_refreshTokenHash r = hashRefreshToken E tok) (sessions s) = Some r0"
      "ses_revokedAt r0 = None" "now \<le> ses_expiresAt r0" "ex = None \<or> ex = Some (ses_userId r0)"
      "rotateSession E C now ctx r0 (case ov of Some w \<Rightarrow> w | None \<Rightarrow> ses_workspaceId r0) s = (r, s1)"
      "rotate E C now tok ctx ov ex s = (Inr r, auditLog E a s1)"
proof (cases "findFirst (\<lambda>r. ses_refreshTokenHash r = hashRefreshToken E tok) (sessions s)")
  case None
  then show ?thesis by (intro refused) (auto simp: rotate_def)
next
  case (Some r0)
  consider "ex \<noteq> None \<and> ex \<noteq> Some (ses_userId r0)"
    | "ex = None \<or> ex = Some (ses_userId r0)" "ses_revokedAt r0 \<noteq> None"
    | "ex = None \<or> ex = Some (ses_userId r0)" "ses_revokedAt r0 = None" "ses_expiresAt r0 < now"
    | "ex = None \<or> ex = Some (ses_userId r0)" "ses_revokedAt r0 = None" "now \<le> ses_expiresAt r0"
    by linarith
  then show ?thesis
  proof cases
    case 1
    then show ?thesis using Some by (intro refused) (auto simp: rotate_def)
  next
    case 2
    then show ?thesis using Some by (intro reuse [OF Some]) (auto simp: rotate_def)
  next
    case 3
    then show ?thesis using Some by (intro refused) (auto simp: rotate_def)
  next
    case 4
    obtain r s1 where r: "rotateSession E C now ctx r0 (case ov of Some w \<Rightarrow> w | None \<Rightarrow> ses_workspaceId r0) s = (r, s1)"
      by (cases "rotateSession E C now ctx r0 (case ov of Some w \<Rightarrow> w | None \<Rightarrow> ses_workspaceId r0) s")
    show ?thesis using Some 4 r by (intro rotated [OF Some _ _ _ r]) (auto simp: rotate_def Let_def)
  qed
qed

lemma sessInv_rotate:
  assumes "sessInv E s"
  shows "sessInv E (snd (rotate E C now tok ctx ov ex s))"
proof (cases rule: rotate_cases [of E C now tok ctx ov ex s])
  case (rotated r0 r s1 a)
  then have "sessInv E s1"
    using sessInv_rotateSession [OF assms, of r0] findFirst_SomeD by (metis snd_conv)
  then show ?thesis using rotated by (simp add: sessInv_auditLog)
qed (use assms in \<open>simp_all add: sessInv_auditLog sessInv_revokeWhere\<close>)

lemma sessInv_revoke: "sessInv E s \<Longrightarrow> sessInv E (snd (revoke E now tok s))"
  by (auto simp: revoke_def intro: sessInv_revokeWhere split: option.split)

lemma sessInv_revokeAllForUser: "sessInv E s \<Longrightarrow> sessInv E (snd (revokeAllForUser now userId s))"
  by (simp add: revokeAllForUser_def sessInv_revokeWhere)

lemma redisOps_frame [simp]:
  "sessions (incrementWithWindow now k W s) = sessions s" "idsDrawn (incrementWithWindow now k W s) = idsDrawn s"
  "users (incrementWithWindow now k W s) = users s" "credentials (incrementWithWindow now k W s) = credentials s"
  "members (incrementWithWindow now k W s) = members s"
  "sessions (redisDel k s) = sessions s" "idsDrawn (redisDel k s) = idsDrawn s"
  "users (redisDel k s) = users s" "credentials (redisDel k s) = credentials s"
  "members (redisDel k s) = members s"
  by (simp_all add: incrementWithWindow_def redisIncr_def redisExpire_def redisSet_def redisDel_def Let_def
      split: option.split)

lemma throttle_frame [simp]:
  "sessions (recordAttempt key W now e ip s) = sessions s"
  "idsDrawn (recordAttempt key W now e ip s) = idsDrawn s"
  "users (recordAttempt key W now e ip s) = users s"
  "credentials (recordAttempt key W now e ip s) = credentials s"
  "sessions (resetAttempts e ip s) = sessions s" "idsDrawn (resetAttempts e ip s) = idsDrawn s"
  by (simp_all add: recordAttempt_def resetAttempts_def Let_def)

end
