(* ===== verification/Single_Use.thy ===== *)
theory Single_Use
  imports Prelude
begin

text \<open>
  The contract of a single-use code: redeeming it succeeds only while it is
  unspent and spends it; a spent code changes nothing. Password reset links and
  workspace invites provide it, and a client learns from it alone that no
  sequence of attempts succeeds twice.
\<close>

locale single_use =
  fixes redeem :: "'a \<Rightarrow> 's \<Rightarrow> bool \<times> 's"
    and spent :: "'s \<Rightarrow> bool"
  assumes redeem_ok: "redeem a s = (True, s') \<Longrightarrow> \<not> spent s \<and> spent s'"
    and redeem_spent: "spent s \<Longrightarrow> fst (redeem a s) = False \<and> spent (snd (redeem a s))"
begin

fun redeemAll :: "'a list \<Rightarrow> 's \<Rightarrow> nat \<times> 's" where
  "redeemAll [] s = (0, s)"
| "redeemAll (a # xs) s = (case redeem a s of (b, s') \<Rightarrow>
     (case redeemAll xs s' of (n, s'') \<Rightarrow> ((if b then Suc n else n), s'')))"

lemma spent_run: "spent s \<Longrightarrow> redeemAll xs s = (n, s') \<Longrightarrow> n = 0 \<and> spent s'"
proof (induction xs arbitrary: s n s')
  case (Cons a xs)
  obtain b s1 n1 s2 where r: "redeem a s = (b, s1)" "redeemAll xs s1 = (n1, s2)" by fastforce
  then have "\<not> b" "spent s1" using redeem_spent [OF Cons.prems(1), of a] by auto
  then show ?case using Cons.IH [OF _ r(2)] Cons.prems(2) r by simp
qed simp

lemma at_most_once: "redeemAll xs s = (n, s') \<Longrightarrow> n \<le> 1"
proof (induction xs arbitrary: s n s')
  case (Cons a xs)
  obtain b s1 n1 s2 where r: "redeem a s = (b, s1)" "redeemAll xs s1 = (n1, s2)" by fastforce
  show ?case
  proof (cases b)
    case True
    then have "n1 = 0" using redeem_ok [of a s s1] spent_run [OF _ r(2)] r(1) by simp
    then show ?thesis using Cons.prems r True by simp
  next
    case False
    then show ?thesis using Cons.prems r Cons.IH [OF r(2)] by simp
  qed
qed simp

end

end
