(* ===== verification/Auth_Service.thy ===== *)
theory Auth_Service
  imports Auth_Session Single_Use
begin

text \<open>
  Who may have a session (\<open>auth.service.ts\<close>), the password reset flow
  (\<open>password-reset.service.ts\<close>), the guards, and the refresh cookie of the
  controller (\<open>auth.controller.ts\<close>).
\<close>

section \<open>Registration\<close>

record RegisterDto =
  reg_email :: string
  reg_password :: string
  reg_displayName :: "string option"

record AuthResult =
  ar_user :: PublicUser
  ar_accessToken :: string
  ar_refreshToken :: string

definition starterTrigger :: RuleTrigger where
  "starterTrigger = \<lparr>trigType = ''message.received'', scopeProviderKey = JUndef, paramHours = None\<rparr>"

definition starterConditions :: ConditionNode where
  "starterConditions = ConditionGroup OR
     [ConditionGroup NOT [ConditionLeaf ''workspace.isSilentHours'' IsTrue JUndef],
      ConditionLeaf ''workspace.isVipOverrideActive'' IsTrue JUndef,
      ConditionLeaf ''message.matchesKeywordAlert'' IsTrue JUndef]"

definition starterActions :: "ActionStep list" where
  "starterActions = [\<lparr>step_type = ''notification.send'', step_params = JObj
     [(''title'', JStr ''New message from {{sender.displayName}}''),
      (''body'', JStr ''{{message.bodyText}}'')]\<rparr>]"

record registered =
  rg_user :: User
  rg_organizationId :: uuid
  rg_membership :: WorkspaceMember

text \<open>The transaction of \<open>register\<close>. The unique indexes on \<open>users.email\<close> (deleted
  rows included) and \<open>organizations.slug\<close> make it throw.\<close>

definition registerTx ::
  "env \<Rightarrow> instant \<Rightarrow> string \<Rightarrow> string option \<Rightarrow> string \<Rightarrow> registered action" where
  "registerTx E now email displayName passwordHash s =
     (let user = \<lparr>usr_id = drawNth E 0 s, usr_email = email, usr_displayName = displayName,
            usr_avatarUrl = None, usr_createdAt = now, usr_deletedAt = None\<rparr>;
          slugBase = (case displayName of Some d \<Rightarrow> d | None \<Rightarrow> hd (splitOn (CHR ''@'') email));
          org = \<lparr>org_id = drawNth E 2 s,
            org_name = (if nonEmpty displayName then the displayName @ [CHR 0x27] @ ''s Organization''
                        else ''My Organization''),
            org_slug = makeSlug (randomHex E (randomsDrawn s)) slugBase,
            org_planTier = ''free'', org_deletedAt = None\<rparr>;
          wsp = \<lparr>ws_id = drawNth E 3 s, ws_organizationId = org_id org,
            ws_name = ''Personal Workspace'', ws_timezone = ''UTC'', ws_aiEnabled = True,
            ws_createdAt = now, ws_deletedAt = None\<rparr>;
          mem = \<lparr>mem_id = drawNth E 4 s, mem_workspaceId = ws_id wsp, mem_userId = usr_id user,
            mem_role = Owner, mem_invitedByUserId = None, mem_joinedAt = now, mem_deletedAt = None\<rparr>;
          rule = \<lparr>rul_id = drawNth E 5 s, rul_workspaceId = ws_id wsp, rul_createdByUserId = usr_id user,
            rul_name = ''Notify me on every message'', rul_isEnabled = True, rul_priority = 0,
            rul_triggerType = ''message.received'', rul_trigger = starterTrigger,
            rul_conditions = starterConditions, rul_actions = starterActions, rul_version = 1,
            rul_createdAt = now, rul_updatedAt = now, rul_deletedAt = None\<rparr>;
          credit = \<lparr>acl_id = drawNth E 6 s, acl_organizationId = org_id org, acl_entryType = ''grant'',
            acl_amount = 50, acl_balanceAfter = 50, acl_feature = Some ''signup_grant'',
            acl_relatedMessageId = None, acl_createdAt = now\<rparr>
      in if list_ex (\<lambda>u. usr_email u = email) (users s)
         then (Inl (PlainError ''P2002''), s)
         else if list_ex (\<lambda>g. org_slug g = org_slug org) (organizations s)
         then (Inl (PlainError ''P2002''), randomUsed (drawn 3 s))
         else (Inr \<lparr>rg_user = user, rg_organizationId = org_id org, rg_membership = mem\<rparr>,
               (drawn 7 (randomUsed s))\<lparr>
                 users := users s @ [user],
                 credentials := credentials s @ [\<lparr>cred_userId = usr_id user, cred_passwordHash = Some passwordHash\<rparr>],
                 organizations := organizations s @ [org],
                 workspaces := workspaces s @ [wsp],
                 members := members s @ [mem],
                 rules := rules s @ [rule],
                 creditLedger := creditLedger s @ [credit]\<rparr>))"

definition liveUserByEmail :: "world \<Rightarrow> string \<Rightarrow> User option" where
  "liveUserByEmail s email =
     findFirst (\<lambda>u. usr_deletedAt u = None \<and> usr_email u = email) (users s)"

definition userAudit :: "uuid option \<Rightarrow> uuid option \<Rightarrow> uuid option \<Rightarrow> string \<Rightarrow> uuid option
    \<Rightarrow> RequestContext \<Rightarrow> audit_entry" where
  "userAudit wsId orgId actor action resId ctx = \<lparr>ae_workspaceId = wsId, ae_organizationId = orgId,
     ae_actorUserId = actor, ae_actorType = ''user'', ae_action = action,
     ae_resourceType = Some ''user'', ae_resourceId = resId, ae_ipAddress = rc_ipAddress ctx\<rparr>"

definition register :: "env \<Rightarrow> authConfig \<Rightarrow> instant \<Rightarrow> RegisterDto \<Rightarrow> RequestContext \<Rightarrow> AuthResult action" where
  "register E C now dto ctx s =
     (let email = normalizeEmail (reg_email dto) in
      if validatePolicy (reg_password dto) \<noteq> [] then (Inl (HttpError 400 ''WEAK_PASSWORD''), s)
      else if liveUserByEmail s email \<noteq> None then (Inl (HttpError 409 ''EMAIL_ALREADY_REGISTERED''), s)
      else if isKnownBreached E (reg_password dto) then (Inl (HttpError 422 ''PASSWORD_BREACHED''), s)
      else
        let passwordHash = argonHash E (randomsDrawn s) (reg_password dto) in
        case transactionO (registerTx E now email (reg_displayName dto) passwordHash) (randomUsed s) of
          (Inl e, s1) \<Rightarrow> (Inl e, s1)
        | (Inr created, s1) \<Rightarrow>
            let wsId = mem_workspaceId (rg_membership created);
                (tokens, s2) = issue E C now
                  \<lparr>jwt_sub = usr_id (rg_user created), jwt_workspaceId = wsId,
                   jwt_orgId = rg_organizationId created, jwt_role = mem_role (rg_membership created)\<rparr> ctx s1;
                s3 = auditLog E (userAudit (Some wsId) (Some (rg_organizationId created))
                       (Some (usr_id (rg_user created))) ''user.registered''
                       (Some (usr_id (rg_user created))) ctx) s2
            in (Inr \<lparr>ar_user = toPublicUser (rg_user created), ar_accessToken = is_accessToken tokens,
                     ar_refreshToken = is_refreshToken tokens\<rparr>, s3))"

section \<open>Login\<close>

definition passwordMatches :: "env \<Rightarrow> world \<Rightarrow> User option \<Rightarrow> string \<Rightarrow> bool" where
  "passwordMatches E s user password = (case user of
      None \<Rightarrow> False
    | Some u \<Rightarrow> (case findFirst (\<lambda>c. cred_userId c = usr_id u) (credentials s) of
          None \<Rightarrow> False
        | Some c \<Rightarrow> nonEmpty (cred_passwordHash c) \<and> argonVerify E (the (cred_passwordHash c)) password))"

text \<open>The membership a login lands in: the oldest live one.\<close>

definition oldestMembership :: "world \<Rightarrow> uuid \<Rightarrow> WorkspaceMember option" where
  "oldestMembership s userId =
     firstBy mem_joinedAt (filter (\<lambda>m. mem_deletedAt m = None \<and> mem_userId m = userId) (members s))"

definition claimsFor :: "world \<Rightarrow> uuid \<Rightarrow> WorkspaceMember \<Rightarrow> jwt_claims" where
  "claimsFor s userId m = \<lparr>jwt_sub = userId, jwt_workspaceId = mem_workspaceId m,
     jwt_orgId = orgOfWorkspace s (mem_workspaceId m), jwt_role = mem_role m\<rparr>"

definition login :: "env \<Rightarrow> authConfig \<Rightarrow> instant \<Rightarrow> string \<Rightarrow> string \<Rightarrow> RequestContext \<Rightarrow> AuthResult action" where
  "login E C now dtoEmail password ctx s =
     (let email = normalizeEmail dtoEmail in
      if isLocked C now email (rc_ipAddress ctx) s then (Inl (HttpError 429 ''ACCOUNT_LOCKED''), s)
      else
        let user = liveUserByEmail s email in
        if \<not> passwordMatches E s user password then
          (Inl (HttpError 401 ''INVALID_CREDENTIALS''),
           auditLog E (userAudit None None (map_option usr_id user) ''user.login_failed'' None ctx)
             (recordFailure C now email (rc_ipAddress ctx) s))
        else
          let u = the user; s1 = resetAttempts email (rc_ipAddress ctx) s in
          case oldestMembership s1 (usr_id u) of
            None \<Rightarrow> (Inl (HttpError 403 ''NO_WORKSPACE''), s1)
          | Some m \<Rightarrow>
              let claims = claimsFor s1 (usr_id u) m;
                  (tokens, s2) = issue E C now claims ctx s1;
                  s3 = auditLog E (userAudit (Some (mem_workspaceId m)) (Some (jwt_orgId claims))
                         (Some (usr_id u)) ''user.login_succeeded'' (Some (usr_id u)) ctx) s2
              in (Inr \<lparr>ar_user = toPublicUser u, ar_accessToken = is_accessToken tokens,
                       ar_refreshToken = is_refreshToken tokens\<rparr>, s3))"

section \<open>Refresh, switching workspace, logout\<close>

record refreshed =
  rf_accessToken :: string
  rf_refreshToken :: string
  rf_workspaceId :: uuid

definition refresh :: "env \<Rightarrow> authConfig \<Rightarrow> instant \<Rightarrow> string \<Rightarrow> RequestContext \<Rightarrow> refreshed action" where
  "refresh E C now presented ctx s =
     (case rotate E C now presented ctx None None s of
        (Inl e, s1) \<Rightarrow> (Inl e, s1)
      | (Inr r, s1) \<Rightarrow>
          (case liveMembership s1 (ses_workspaceId (ro_session r)) (ro_userId r) of
             None \<Rightarrow> (Inl (HttpError 401 ''UNAUTHENTICATED''), s1)
           | Some m \<Rightarrow> (Inr \<lparr>rf_accessToken = signAccessToken E C now (claimsFor s1 (ro_userId r) m),
               rf_refreshToken = ro_refreshToken r, rf_workspaceId = mem_workspaceId m\<rparr>, s1)))"

definition switchWorkspace ::
  "env \<Rightarrow> authConfig \<Rightarrow> instant \<Rightarrow> uuid \<Rightarrow> uuid \<Rightarrow> string \<Rightarrow> RequestContext \<Rightarrow> refreshed action" where
  "switchWorkspace E C now userId targetWorkspaceId presented ctx s =
     (case liveMembership s targetWorkspaceId userId of
        None \<Rightarrow> (Inl (HttpError 403 ''NOT_A_WORKSPACE_MEMBER''), s)
      | Some m \<Rightarrow>
          (case rotate E C now presented ctx (Some targetWorkspaceId) (Some userId) s of
             (Inl e, s1) \<Rightarrow> (Inl e, s1)
           | (Inr r, s1) \<Rightarrow>
               (Inr \<lparr>rf_accessToken = signAccessToken E C now (claimsFor s userId m),
                     rf_refreshToken = ro_refreshToken r, rf_workspaceId = targetWorkspaceId\<rparr>, s1)))"

definition logout :: "env \<Rightarrow> instant \<Rightarrow> string \<Rightarrow> RequestContext \<Rightarrow> world \<Rightarrow> world" where
  "logout E now presented ctx s = (case revoke E now presented s of
      (None, s1) \<Rightarrow> s1
    | (Some userId, s1) \<Rightarrow> auditLog E (sessionAudit userId ''user.logout'' None ctx) s1)"

definition logoutAll :: "env \<Rightarrow> instant \<Rightarrow> uuid \<Rightarrow> RequestContext \<Rightarrow> world \<Rightarrow> world" where
  "logoutAll E now userId ctx s =
     auditLog E (userAudit None None (Some userId) ''user.logout_all'' (Some userId) ctx)
       (snd (revokeAllForUser now userId s))"

section \<open>Guards\<close>

definition extractBearerToken :: "string option \<Rightarrow> string option" where
  "extractBearerToken h = (case h of
      None \<Rightarrow> None
    | Some v \<Rightarrow> if startsWith v ''Bearer '' then Some (trim (drop 7 v)) else None)"

definition jwtAuthGuard :: "env \<Rightarrow> instant \<Rightarrow> string option \<Rightarrow> world \<Rightarrow> exn + jwt_claims" where
  "jwtAuthGuard E now authorization s =
     (let token = extractBearerToken authorization in
      if \<not> nonEmpty token then Inl (HttpError 401 ''UNAUTHENTICATED'')
      else case verifyJwt E (the token) now of
          None \<Rightarrow> Inl (HttpError 401 ''UNAUTHENTICATED'')
        | Some claims \<Rightarrow>
            (case liveMembership s (jwt_workspaceId claims) (jwt_sub claims) of
               None \<Rightarrow> Inl (HttpError 401 ''UNAUTHENTICATED'')
             | Some m \<Rightarrow> Inr (claims\<lparr>jwt_role := mem_role m\<rparr>)))"

definition rolesGuard :: "role list option \<Rightarrow> role option \<Rightarrow> exn + unit" where
  "rolesGuard required userRole = (case required of
      None \<Rightarrow> Inr ()
    | Some [] \<Rightarrow> Inr ()
    | Some rs \<Rightarrow> (case userRole of
        None \<Rightarrow> Inl (HttpError 403 ''INSUFFICIENT_ROLE'')
      | Some r \<Rightarrow> if r \<in> set rs then Inr () else Inl (HttpError 403 ''INSUFFICIENT_ROLE'')))"

section \<open>Password reset\<close>

definition requestReset :: "env \<Rightarrow> authConfig \<Rightarrow> instant \<Rightarrow> string \<Rightarrow> RequestContext \<Rightarrow> world \<Rightarrow> world" where
  "requestReset E C now email ctx s =
     (let normalized = normalizeEmail email in
      if isResetLocked C now normalized (rc_ipAddress ctx) s then s
      else
        let s1 = recordResetRequest C now normalized (rc_ipAddress ctx) s in
        case liveUserByEmail s1 normalized of
          None \<Rightarrow> randomUsed s1
        | Some user \<Rightarrow>
            let token = randomDraw E s1;
                record = \<lparr>prt_id = draw E s1, prt_userId = usr_id user, prt_tokenHash = sha256 E token,
                  prt_expiresAt = now + passwordResetTokenTtlMinutes C * 60 * 1000, prt_usedAt = None\<rparr>;
                s2 = (drawn 1 (randomUsed s1))\<lparr>resetTokens := resetTokens s1 @ [record]\<rparr>;
                resetUrl = webAppBaseUrl C @ ''/reset-password?token='' @ token
            in if sendMail E normalized resetUrl then
                 auditLog E (userAudit None None (Some (usr_id user)) ''user.password_reset_requested''
                   (Some (usr_id user)) ctx) (s2\<lparr>outbox := outbox s2 @ [(normalized, resetUrl)]\<rparr>)
               else
                 auditLog E (userAudit None None (Some (usr_id user)) ''user.password_reset_email_not_sent''
                   (Some (usr_id user)) ctx) s2)"

definition invalidReset :: exn where
  "invalidReset = HttpError 400 ''RESET_TOKEN_INVALID''"

text \<open>\<open>userCredentials.upsert\<close>.\<close>

definition upsertCredentials :: "uuid \<Rightarrow> string \<Rightarrow> world \<Rightarrow> world" where
  "upsertCredentials userId passwordHash s =
     (if list_ex (\<lambda>c. cred_userId c = userId) (credentials s)
      then s\<lparr>credentials := updateMany (\<lambda>c. cred_userId c = userId)
             (\<lambda>c. c\<lparr>cred_passwordHash := Some passwordHash\<rparr>) (credentials s)\<rparr>
      else (drawn 1 s)\<lparr>credentials := credentials s @
             [\<lparr>cred_userId = userId, cred_passwordHash = Some passwordHash\<rparr>]\<rparr>)"

text \<open>The transaction: claim the token, the development-only fault, the new hash,
  every session revoked. It returns how many were.\<close>

definition resetTx :: "instant \<Rightarrow> bool \<Rightarrow> PasswordResetToken \<Rightarrow> string \<Rightarrow> nat action" where
  "resetTx now faultArmed record passwordHash s =
     (let p = (\<lambda>t. prt_id t = prt_id record \<and> prt_usedAt t = None);
          claimed = countWhere p (resetTokens s);
          s1 = s\<lparr>resetTokens := updateMany p (\<lambda>t. t\<lparr>prt_usedAt := Some now\<rparr>) (resetTokens s)\<rparr>
      in if claimed = 0 then (Inl invalidReset, s1)
         else if faultArmed then (Inl (PlainError ''Forced test failure''), s1)
         else case revokeAllForUser now (prt_userId record)
                     (upsertCredentials (prt_userId record) passwordHash s1) of
             (n, s2) \<Rightarrow> (Inr n, s2))"

definition resetPassword ::
  "env \<Rightarrow> instant \<Rightarrow> bool \<Rightarrow> string \<Rightarrow> string \<Rightarrow> RequestContext \<Rightarrow> unit action" where
  "resetPassword E now faultArmed presentedToken newPassword ctx s =
     (case findFirst (\<lambda>t. prt_tokenHash t = sha256 E presentedToken) (resetTokens s) of
        None \<Rightarrow> (Inl invalidReset, s)
      | Some record \<Rightarrow>
          if prt_usedAt record \<noteq> None \<or> prt_expiresAt record < now then (Inl invalidReset, s)
          else if validatePolicy newPassword \<noteq> [] then (Inl (HttpError 400 ''WEAK_PASSWORD''), s)
          else if isKnownBreached E newPassword then (Inl (HttpError 422 ''PASSWORD_BREACHED''), s)
          else
            let passwordHash = argonHash E (randomsDrawn s) newPassword in
            case transactionO (resetTx now faultArmed record passwordHash) (randomUsed s) of
              (Inl e, s1) \<Rightarrow> (Inl e, s1)
            | (Inr n, s1) \<Rightarrow> (Inr (), auditLog E (userAudit None None (Some (prt_userId record))
                 ''user.password_reset_completed'' (Some (prt_userId record)) ctx) s1))"

section \<open>The refresh cookie\<close>

text \<open>What a response does to the browser's refresh cookie.\<close>

datatype cookie_effect = KeepCookie | SetCookie string | ClearCookie

definition refreshEndpoint ::
  "env \<Rightarrow> authConfig \<Rightarrow> instant \<Rightarrow> string option \<Rightarrow> RequestContext \<Rightarrow> (string \<times> cookie_effect) action" where
  "refreshEndpoint E C now cookie ctx s =
     (if \<not> nonEmpty cookie then (Inl (HttpError 401 ''REFRESH_TOKEN_MISSING''), s)
      else case refresh E C now (the cookie) ctx s of
          (Inl e, s1) \<Rightarrow> (Inl e, s1)
        | (Inr r, s1) \<Rightarrow> (Inr (rf_accessToken r, SetCookie (rf_refreshToken r)), s1))"

definition switchEndpoint ::
  "env \<Rightarrow> authConfig \<Rightarrow> instant \<Rightarrow> string option \<Rightarrow> string option \<Rightarrow> uuid \<Rightarrow> RequestContext
    \<Rightarrow> (uuid \<times> string \<times> cookie_effect) action" where
  "switchEndpoint E C now authorization cookie target ctx s =
     (case jwtAuthGuard E now authorization s of
        Inl e \<Rightarrow> (Inl e, s)
      | Inr claims \<Rightarrow>
          if \<not> nonEmpty cookie then (Inl (HttpError 401 ''REFRESH_TOKEN_MISSING''), s)
          else case switchWorkspace E C now (jwt_sub claims) target (the cookie) ctx s of
              (Inl e, s1) \<Rightarrow> (Inl e, s1)
            | (Inr r, s1) \<Rightarrow> (Inr (rf_workspaceId r, rf_accessToken r, SetCookie (rf_refreshToken r)), s1))"

definition logoutEndpoint :: "env \<Rightarrow> instant \<Rightarrow> string option \<Rightarrow> RequestContext \<Rightarrow> world \<Rightarrow> cookie_effect \<times> world" where
  "logoutEndpoint E now cookie ctx s =
     (ClearCookie, if nonEmpty cookie then logout E now (the cookie) ctx s else s)"

definition logoutAllEndpoint ::
  "env \<Rightarrow> instant \<Rightarrow> string option \<Rightarrow> RequestContext \<Rightarrow> cookie_effect action" where
  "logoutAllEndpoint E now authorization ctx s =
     (case jwtAuthGuard E now authorization s of
        Inl e \<Rightarrow> (Inl e, s)
      | Inr claims \<Rightarrow> (Inr ClearCookie, logoutAll E now (jwt_sub claims) ctx s))"

section \<open>Session state is kept by every operation\<close>

lemma issue_eq:
  "issue E C now cl ctx s = (t, s') \<Longrightarrow> inj (uid E) \<Longrightarrow> sessInv E s \<Longrightarrow> sessInv E s'"
  using sessInv_issue [of E s C now cl ctx] by simp

lemma registerTx_sessions:
  "registerTx E now em dn pw s = (x, s') \<Longrightarrow> sessions s' = sessions s \<and> idsDrawn s \<le> idsDrawn s'"
  by (auto simp: registerTx_def Let_def drawn_def randomUsed_def split: if_splits)

lemma sessInv_register:
  assumes "inj (uid E)" "sessInv E s"
  shows "sessInv E (snd (register E C now dto ctx s))"
proof -
  have r: "sessInv E (randomUsed s)" using assms(2) by (rule sessInv_frame) auto
  have "sessInv E s1" if "transactionO (registerTx E now em dn pw) (randomUsed s) = (x, s1)" for em dn pw x s1
    using that registerTx_sessions [of E now em dn pw "randomUsed s"] r
    by (cases rule: transactionO_cases [of "registerTx E now em dn pw" "randomUsed s"])
       (auto intro: sessInv_frame)
  then show ?thesis
    using assms r
    by (auto simp: register_def Let_def split: prod.split sum.split intro!: sessInv_auditLog dest: issue_eq)
qed

lemma sessInv_login:
  assumes "inj (uid E)" "sessInv E s"
  shows "sessInv E (snd (login E C now em pw ctx s))"
proof -
  have "sessInv E (resetAttempts e ip s)" "sessInv E (recordFailure C now e ip s)" for e ip
    using assms(2) by (auto intro: sessInv_frame simp: recordFailure_def)
  then show ?thesis
    using assms
    by (auto simp: login_def Let_def split: option.split prod.split intro!: sessInv_auditLog dest: issue_eq)
qed

lemma sessInv_refresh: "sessInv E s \<Longrightarrow> sessInv E (snd (refresh E C now tok ctx s))"
  using sessInv_rotate [of E s C now tok ctx None None]
  by (auto simp: refresh_def split: prod.split sum.split option.split)

lemma sessInv_switchWorkspace: "sessInv E s \<Longrightarrow> sessInv E (snd (switchWorkspace E C now u w tok ctx s))"
  using sessInv_rotate [of E s C now tok ctx "Some w" "Some u"]
  by (auto simp: switchWorkspace_def split: prod.split sum.split option.split)

lemma sessInv_logout: "sessInv E s \<Longrightarrow> sessInv E (logout E now tok ctx s)"
  using sessInv_revoke [of E s now tok]
  by (auto simp: logout_def split: prod.split option.split intro: sessInv_auditLog)

lemma sessInv_logoutAll: "sessInv E s \<Longrightarrow> sessInv E (logoutAll E now u ctx s)"
  by (simp add: logoutAll_def sessInv_auditLog sessInv_revokeAllForUser)

lemma upsertCredentials_frame [simp]:
  "sessions (upsertCredentials u h s) = sessions s" "resetTokens (upsertCredentials u h s) = resetTokens s"
  "idsDrawn s \<le> idsDrawn (upsertCredentials u h s)"
  by (simp_all add: upsertCredentials_def drawn_def)

lemma sessInv_resetTx: "sessInv E s \<Longrightarrow> sessInv E (snd (resetTx now f t h s))"
proof -
  assume i: "sessInv E s"
  have "sessInv E (s\<lparr>resetTokens := x\<rparr>)" for x using i by (rule sessInv_frame) auto
  moreover from this have "sessInv E (upsertCredentials u h (s\<lparr>resetTokens := x\<rparr>))" for x u
    by (rule sessInv_frame) (auto simp: upsertCredentials_def)
  moreover from this have "sessInv E s2"
    if "revokeAllForUser now u (upsertCredentials u h (s\<lparr>resetTokens := x\<rparr>)) = (n, s2)" for x u n s2
    using that sessInv_revokeAllForUser [of E "upsertCredentials u h (s\<lparr>resetTokens := x\<rparr>)" now u] by simp
  ultimately show ?thesis
    by (auto simp: resetTx_def Let_def split: prod.split)
qed

lemma sessInv_resetPassword:
  assumes "sessInv E s"
  shows "sessInv E (snd (resetPassword E now f tok pw ctx s))"
proof -
  have r: "sessInv E (randomUsed s)" using assms by (rule sessInv_frame) auto
  then have "sessInv E s1" if "transactionO (resetTx now f t h) (randomUsed s) = (x, s1)" for t h x s1
    using that sessInv_resetTx [OF r, of now f t h]
    by (cases rule: transactionO_cases [of "resetTx now f t h" "randomUsed s"]) auto
  then show ?thesis
    using assms
    by (auto simp: resetPassword_def Let_def split: option.split prod.split sum.split intro!: sessInv_auditLog)
qed

lemma sessInv_requestReset: "sessInv E s \<Longrightarrow> sessInv E (requestReset E C now em ctx s)"
  by (erule sessInv_frame)
     (auto simp: requestReset_def Let_def recordResetRequest_def drawn_def randomUsed_def auditLog_def
        split: option.split)

section \<open>The reset transaction\<close>

lemma upsertCredentials_hash:
  "map_option cred_passwordHash (findFirst (\<lambda>c. cred_userId c = u) (credentials (upsertCredentials u h x))) = Some (Some h)"
proof (cases "findFirst (\<lambda>c. cred_userId c = u) (credentials x)")
  case None
  then have "\<not> list_ex (\<lambda>c. cred_userId c = u) (credentials x)"
    by (simp add: list_ex_iff findFirst_None_iff)
  then show ?thesis
    using None by (simp add: upsertCredentials_def findFirst_append)
next
  case (Some c)
  then have "list_ex (\<lambda>c. cred_userId c = u) (credentials x)"
    by (auto simp: list_ex_iff dest: findFirst_SomeD)
  then show ?thesis
    using Some findFirst_SomeD [OF Some] by (auto simp: upsertCredentials_def findFirst_updateMany)
qed

lemma resetTx_Inr:
  assumes "resetTx now fault rec h s = (Inr n, s2)"
  shows "map_option cred_passwordHash (findFirst (\<lambda>c. cred_userId c = prt_userId rec) (credentials s2)) = Some (Some h)"
    "\<forall>x\<in>set (sessions s2). ses_userId x = prt_userId rec \<longrightarrow> ses_revokedAt x \<noteq> None"
  using assms upsertCredentials_hash
  by (auto simp: resetTx_def Let_def revokeAllForUser_def set_updateMany activeOf_def split: if_splits)

lemma resetTx_token:
  assumes "resetTx now fault rec h s = (Inr n, s2)" "prt_usedAt rec = None"
    and "findFirst (\<lambda>t. prt_tokenHash t = hash) (resetTokens s) = Some rec"
  shows "findFirst (\<lambda>t. prt_tokenHash t = hash) (resetTokens s2) = Some (rec\<lparr>prt_usedAt := Some now\<rparr>)"
  using assms by (auto simp: resetTx_def Let_def revokeAllForUser_def findFirst_updateMany split: if_splits)

lemma resetPassword_Inr:
  assumes "resetPassword E now fault tok pw ctx s = (Inr u, s1)"
  obtains rec n s2 where "findFirst (\<lambda>t. prt_tokenHash t = sha256 E tok) (resetTokens s) = Some rec"
    "prt_usedAt rec = None" "now \<le> prt_expiresAt rec"
    "resetTx now fault rec (argonHash E (randomsDrawn s) pw) (randomUsed s) = (Inr n, s2)"
    "sessions s1 = sessions s2" "credentials s1 = credentials s2" "resetTokens s1 = resetTokens s2"
  using assms
  by (auto simp: resetPassword_def Let_def transactionO_def not_less split: option.splits if_splits prod.splits sum.splits)

lemma resetPassword_Inl:
  assumes "resetPassword E now fault tok pw ctx s = (Inl e, s1)"
  shows "resetTokens s1 = resetTokens s \<and> credentials s1 = credentials s \<and> sessions s1 = sessions s"
  using assms
  by (auto simp: resetPassword_def Let_def transactionO_def split: option.splits if_splits prod.splits sum.splits)

text \<open>A reset link is a single-use code.\<close>

definition resetSpent :: "env \<Rightarrow> string \<Rightarrow> world \<Rightarrow> bool" where
  "resetSpent E tok s = (case findFirst (\<lambda>t. prt_tokenHash t = sha256 E tok) (resetTokens s) of
     None \<Rightarrow> False | Some t \<Rightarrow> prt_usedAt t \<noteq> None)"

definition resetAttempt :: "env \<Rightarrow> string \<Rightarrow> instant \<times> bool \<times> string \<times> RequestContext \<Rightarrow> world \<Rightarrow> bool \<times> world" where
  "resetAttempt E tok a s = (case a of (now, fault, pw, ctx) \<Rightarrow>
     (case resetPassword E now fault tok pw ctx s of (r, s') \<Rightarrow> (\<not> isl r, s')))"

interpretation resetLink: single_use "resetAttempt E tok" "resetSpent E tok" for E tok
proof unfold_locales
  fix a s s'
  assume r: "resetAttempt E tok a s = (True, s')"
  obtain now fault pw ctx where a: "a = (now, fault, pw, ctx)" by (cases a)
  obtain x where x: "resetPassword E now fault tok pw ctx s = (x, s')" "\<not> isl x"
    using r a by (cases "resetPassword E now fault tok pw ctx s") (simp add: resetAttempt_def)
  then obtain u where "resetPassword E now fault tok pw ctx s = (Inr u, s')"
    by (cases x) simp_all
  then show "\<not> resetSpent E tok s \<and> resetSpent E tok s'"
    by (elim resetPassword_Inr) (auto simp: resetSpent_def dest: resetTx_token)
next
  fix a s
  assume "resetSpent E tok s"
  then show "fst (resetAttempt E tok a s) = False \<and> resetSpent E tok (snd (resetAttempt E tok a s))"
    by (auto simp: resetAttempt_def resetSpent_def resetPassword_def split: prod.splits option.splits)
qed

section \<open>Failed logins\<close>

text \<open>A series of login attempts for one email, all answered INVALID_CREDENTIALS.\<close>

type_synonym attempt = "instant \<times> string \<times> RequestContext"

fun afterAttempts :: "env \<Rightarrow> authConfig \<Rightarrow> string \<Rightarrow> attempt list \<Rightarrow> world \<Rightarrow> world" where
  "afterAttempts E C email [] s = s"
| "afterAttempts E C email ((t, pw, ctx) # xs) s =
     afterAttempts E C email xs (snd (login E C t email pw ctx s))"

fun allRejected :: "env \<Rightarrow> authConfig \<Rightarrow> string \<Rightarrow> attempt list \<Rightarrow> world \<Rightarrow> bool" where
  "allRejected E C email [] s = True"
| "allRejected E C email ((t, pw, ctx) # xs) s =
     (fst (login E C t email pw ctx s) = Inl (HttpError 401 ''INVALID_CREDENTIALS'') \<and>
      allRejected E C email xs (snd (login E C t email pw ctx s)))"

lemma login_rejected:
  assumes "fst (login E C t email pw ctx s) = Inl (HttpError 401 ''INVALID_CREDENTIALS'')"
  shows "redis (snd (login E C t email pw ctx s)) = redis (recordFailure C t (normalizeEmail email) (rc_ipAddress ctx) s)"
  using assms by (auto simp: login_def Let_def split: if_splits option.splits prod.splits)

lemma emailKey_ipKey: "loginKey ''email'' e \<noteq> loginKey ''ip'' i"
  by (simp add: loginKey_def)

lemma holds_redis: "redis s' = redis s \<Longrightarrow>
   lockout.holds (key :: string) W t0 n s' = lockout.holds key W t0 n s"
  by (simp add: lockout.holds_def deadlineKey_def redisCount_def redisGet_def)

lemma holds_other: "k \<noteq> key \<Longrightarrow>
   lockout.holds key W t0 n (incrementWithWindow now k V s) = lockout.holds key W t0 n s"
  by (simp add: lockout.holds_def redisCount_incrementWithWindow_other)

lemma recordFailure_holds:
  "lockout.holds (loginKey ''email'' e) W t0 n (recordFailure C t e ip s)
   = lockout.holds (loginKey ''email'' e) W t0 n
       (incrementWithWindow t (loginKey ''email'' e) (loginLockoutWindowSeconds C) s)"
  using emailKey_ipKey [THEN not_sym] by (simp add: recordFailure_def recordAttempt_def Let_def holds_other)

lemma attempts_hold:
  assumes "allRejected E C email xs s" "\<forall>(t, _)\<in>set xs. t < t0 + loginLockoutWindowSeconds C * 1000"
    and "lockout.holds (loginKey ''email'' (normalizeEmail email)) (loginLockoutWindowSeconds C) t0 n s" "0 < n"
  shows "lockout.holds (loginKey ''email'' (normalizeEmail email)) (loginLockoutWindowSeconds C) t0
           (n + length xs) (afterAttempts E C email xs s)"
  using assms
proof (induction xs arbitrary: n s)
  case (Cons a xs)
  obtain t pw ctx where a: "a = (t, pw, ctx)" by (cases a)
  let ?k = "loginKey ''email'' (normalizeEmail email)" and ?W = "loginLockoutWindowSeconds C"
  have "lockout.holds ?k ?W t0 (Suc n) (incrementWithWindow t ?k ?W s)"
    by (rule lockout.holds_next) (use Cons.prems a in simp_all)
  moreover have rej: "fst (login E C t email pw ctx s) = Inl (HttpError 401 ''INVALID_CREDENTIALS'')"
    using Cons.prems(1) a by simp
  ultimately have "lockout.holds ?k ?W t0 (Suc n) (snd (login E C t email pw ctx s))"
    by (simp only: holds_redis [OF login_rejected [OF rej]] recordFailure_holds)
  then show ?case using Cons.IH [of _ "Suc n"] Cons.prems a by simp
qed simp

lemma locked_when_counted:
  "maxA \<le> redisCount now (key ''email'' e) s \<Longrightarrow> 0 < maxA \<Longrightarrow> locked key maxA now e ip s"
  using redisGet_present [of now "key ''email'' e" s] by (auto simp: locked_def)

subsection \<open>A state to evaluate on\<close>

text \<open>Two users, each the owner of a workspace, each with one live session, and a
  reset token of the first.\<close>

definition sampleCtx :: RequestContext where
  "sampleCtx = \<lparr>rc_ipAddress = None, rc_userAgent = None\<rparr>"

definition sampleUser :: "uuid \<Rightarrow> string \<Rightarrow> User" where
  "sampleUser i e = \<lparr>usr_id = i, usr_email = e, usr_displayName = None, usr_avatarUrl = None,
     usr_createdAt = 0, usr_deletedAt = None\<rparr>"

definition sampleMember :: "uuid \<Rightarrow> uuid \<Rightarrow> uuid \<Rightarrow> role \<Rightarrow> WorkspaceMember" where
  "sampleMember i w u r = \<lparr>mem_id = i, mem_workspaceId = w, mem_userId = u, mem_role = r,
     mem_invitedByUserId = None, mem_joinedAt = 0, mem_deletedAt = None\<rparr>"

definition sampleSession :: "uuid \<Rightarrow> uuid \<Rightarrow> uuid \<Rightarrow> string \<Rightarrow> uuid \<Rightarrow> Session" where
  "sampleSession i u w tok fam = \<lparr>ses_id = i, ses_userId = u, ses_workspaceId = w,
     ses_refreshTokenHash = CHR ''h'' # tok, ses_familyId = fam, ses_userAgent = None,
     ses_ipAddress = None, ses_expiresAt = 1000, ses_revokedAt = None, ses_createdAt = 0\<rparr>"

definition sampleState :: world where
  "sampleState = emptyWorld\<lparr>
     users := [sampleUser 1 ''ada@x'', sampleUser 2 ''bob@x''],
     credentials := [\<lparr>cred_userId = 1, cred_passwordHash = Some ''asecret''\<rparr>],
     workspaces := [\<lparr>ws_id = 11, ws_organizationId = 21, ws_name = ''A'', ws_timezone = ''UTC'',
        ws_aiEnabled = True, ws_createdAt = 0, ws_deletedAt = None\<rparr>],
     members := [sampleMember 31 11 1 Owner, sampleMember 32 11 2 Member],
     sessions := [sampleSession 41 1 11 ''ta'' 51, sampleSession 42 2 11 ''tb'' 52],
     resetTokens := [\<lparr>prt_id = 61, prt_userId = 1, prt_tokenHash = ''hreset'', prt_expiresAt = 1000,
        prt_usedAt = None\<rparr>],
     idsDrawn := 100, randomsDrawn := 5\<rparr>"

lemmas sample_defs = sampleState_def emptyWorld_def sampleCtx_def sampleUser_def sampleMember_def
  sampleSession_def sampleEnv_def defaultAuthConfig_def

section \<open>Properties\<close>

text \<open>C12: a refresh never moves a session to another workspace and never trusts a
  stale role. A successful refresh issues its access token for the workspace the
  presented session was issued for, with the role its user now has there; the
  presented row is revoked and one live row of the same family, user and
  workspace is added.\<close>

theorem refresh_keeps_workspace:
  assumes "refresh E C now tok ctx s = (Inr r, s1)"
  shows "\<exists>r0 m new. findFirst (\<lambda>x. ses_refreshTokenHash x = sha256 E tok) (sessions s) = Some r0
    \<and> ses_revokedAt r0 = None \<and> now \<le> ses_expiresAt r0
    \<and> liveMembership s (ses_workspaceId r0) (ses_userId r0) = Some m
    \<and> rf_accessToken r = signJwt E \<lparr>jwt_sub = ses_userId r0, jwt_workspaceId = ses_workspaceId r0,
          jwt_orgId = orgOfWorkspace s (ses_workspaceId r0), jwt_role = mem_role m\<rparr>
          (now + accessTokenTtlSeconds C * 1000)
    \<and> sessions s1 = updateMany (\<lambda>x. ses_id x = ses_id r0) (\<lambda>x. x\<lparr>ses_revokedAt := Some now\<rparr>) (sessions s) @ [new]
    \<and> ses_workspaceId new = ses_workspaceId r0 \<and> ses_userId new = ses_userId r0
    \<and> ses_familyId new = ses_familyId r0 \<and> ses_revokedAt new = None"
proof (cases rule: rotate_cases [of E C now tok ctx None None s])
  case (rotated r0 r' s' a)
  note sp = rotateSession_spec [OF rotated(5)]
  note cong = liveMembership_cong [OF sp(7)] orgOfWorkspace_cong [OF sp(8)]
    liveMembership_cong [of "auditLog E a s'" s'] orgOfWorkspace_cong [of "auditLog E a s'" s']
  obtain m where m: "liveMembership s (ses_workspaceId r0) (ses_userId r0) = Some m"
    using assms rotated(6) sp by (auto simp: refresh_def cong split: option.splits)
  then have "mem_workspaceId m = ses_workspaceId r0" by (auto dest: liveMembership_SomeD)
  then show ?thesis
    using assms rotated sp m
    by (intro exI [of _ r0] exI [of _ m] exI [of _ "ro_session r'"])
       (auto simp: refresh_def cong hashRefreshToken_def claimsFor_def signAccessToken_def)
qed (use assms in \<open>simp_all add: refresh_def\<close>)

theorem refresh_keeps_workspace_witness:
  "\<exists>r s1. refresh sampleEnv defaultAuthConfig 10 ''ta'' sampleCtx sampleState = (Inr r, s1) \<and>
     rf_workspaceId r = 11 \<and> length (sessions s1) = 3"
proof -
  obtain r s1 where r: "refresh sampleEnv defaultAuthConfig 10 ''ta'' sampleCtx sampleState = (Inr r, s1)"
    "rf_workspaceId r = 11"
    by (simp add: refresh_def rotate_def rotateSession_def revokeWhere_def Let_def sample_defs
        hashRefreshToken_def liveMembership_def auditLog_def drawn_def randomUsed_def)
  then show ?thesis using refresh_keeps_workspace [OF r(1)]
    by (auto simp: sample_defs)
qed

text \<open>C4: a replayed refresh token ends its family. Once a refresh token has been
  rotated, presenting it again at any time is refused as reuse, and leaves no
  live session in its rotation family, the thief's and the owner's newest one
  included, while the sessions of every other family stay as they were.\<close>

theorem replay_revokes_family:
  assumes "rotate E C now tok ctx ov ex s = (Inr r, s1)"
  shows "fst (refresh E C now' tok ctx' s1) = Inl (HttpError 401 ''REFRESH_TOKEN_REUSE_DETECTED'')
    \<and> (\<forall>x\<in>set (sessions (snd (refresh E C now' tok ctx' s1))).
          ses_familyId x = ses_familyId (ro_session r) \<longrightarrow> ses_revokedAt x \<noteq> None)
    \<and> filter (\<lambda>x. ses_familyId x \<noteq> ses_familyId (ro_session r)) (sessions (snd (refresh E C now' tok ctx' s1)))
      = filter (\<lambda>x. ses_familyId x \<noteq> ses_familyId (ro_session r)) (sessions s1)"
proof (cases rule: rotate_cases [of E C now tok ctx ov ex s])
  case (rotated r0 r' s' a)
  have r': "r' = r" "s1 = auditLog E a s'" using assms rotated by auto
  note sp = rotateSession_spec [OF rotated(5)]
  let ?p = "\<lambda>x. ses_refreshTokenHash x = hashRefreshToken E tok"
  have "findFirst ?p (updateMany (\<lambda>x. ses_id x = ses_id r0) (\<lambda>x. x\<lparr>ses_revokedAt := Some now\<rparr>) (sessions s))
      = Some (r0\<lparr>ses_revokedAt := Some now\<rparr>)"
    by (subst findFirst_updateMany) (use rotated(1) in auto)
  then have f: "findFirst ?p (sessions s1) = Some (r0\<lparr>ses_revokedAt := Some now\<rparr>)"
    using r' sp by (simp add: findFirst_append)
  have ref: "refresh E C now' tok ctx' s1 = (Inl (HttpError 401 ''REFRESH_TOKEN_REUSE_DETECTED''),
      auditLog E (sessionAudit (ses_userId r0) ''session.reuse_detected'' (Some (ses_id r0)) ctx')
        (revokeWhere now' (\<lambda>x. ses_familyId x = ses_familyId r0 \<and> ses_revokedAt x = None) s1))"
    using f by (simp add: refresh_def rotate_def)
  have "filter (\<lambda>x. ses_familyId x \<noteq> g) (updateMany (\<lambda>x. ses_familyId x = g \<and> ses_revokedAt x = None) h rows)
      = filter (\<lambda>x. ses_familyId x \<noteq> g) rows" if "\<And>x. ses_familyId (h x) = ses_familyId x" for g h and rows :: "Session list"
    using that by (induction rows) auto
  then show ?thesis
    unfolding ref using sp(1) r' by (auto simp: set_updateMany)
qed (use assms in auto)

theorem replay_revokes_family_witness:
  "fst (refresh sampleEnv defaultAuthConfig 20 ''ta'' sampleCtx
      (snd (refresh sampleEnv defaultAuthConfig 10 ''ta'' sampleCtx sampleState)))
    = Inl (HttpError 401 ''REFRESH_TOKEN_REUSE_DETECTED'')"
proof -
  obtain r s1 where r: "rotate sampleEnv defaultAuthConfig 10 ''ta'' sampleCtx None None sampleState = (Inr r, s1)"
    by (simp add: rotate_def rotateSession_def Let_def sample_defs hashRefreshToken_def)
  then have "snd (refresh sampleEnv defaultAuthConfig 10 ''ta'' sampleCtx sampleState) = s1"
    by (simp add: refresh_def split: option.split)
  then show ?thesis using replay_revokes_family [OF r, of 20 sampleCtx] by simp
qed

text \<open>Switching workspace never touches another user's session. When the
  presented refresh token belongs to a different user than the access token, the
  switch is refused and the whole state is as it was; even a replayed token of
  the other user does not revoke their family.\<close>

theorem switch_leaves_foreign_session:
  assumes "findFirst (\<lambda>x. ses_refreshTokenHash x = sha256 E tok) (sessions s) = Some r0"
    and "ses_userId r0 \<noteq> userId"
  shows "switchWorkspace E C now userId target tok ctx s =
    (Inl (if liveMembership s target userId = None then HttpError 403 ''NOT_A_WORKSPACE_MEMBER''
          else HttpError 401 ''SESSION_MISMATCH''), s)"
  using assms by (auto simp: switchWorkspace_def rotate_def hashRefreshToken_def split: option.split)

theorem switch_leaves_foreign_session_witness:
  "switchWorkspace sampleEnv defaultAuthConfig 10 2 11 ''ta'' sampleCtx sampleState
    = (Inl (HttpError 401 ''SESSION_MISMATCH''), sampleState)"
  by (subst switch_leaves_foreign_session [of _ _ _ "sampleSession 41 1 11 ''ta'' 51"])
     (simp_all add: sample_defs liveMembership_def)

text \<open>C13: a password reset happens completely or not at all, and once. If it
  throws, at any point, the tokens, the passwords and the sessions are as
  before. If it returns, the account has the new hash, none of its sessions is
  live, and the same link is invalid from then on.\<close>

theorem reset_is_atomic_and_single_use:
  "case resetPassword E now fault tok pw ctx s of
     (Inl e, s1) \<Rightarrow> resetTokens s1 = resetTokens s \<and> credentials s1 = credentials s \<and> sessions s1 = sessions s
   | (Inr _, s1) \<Rightarrow>
       (\<exists>rec. findFirst (\<lambda>t. prt_tokenHash t = sha256 E tok) (resetTokens s) = Some rec
         \<and> prt_usedAt rec = None \<and> now \<le> prt_expiresAt rec
         \<and> map_option cred_passwordHash (findFirst (\<lambda>c. cred_userId c = prt_userId rec) (credentials s1))
             = Some (Some (argonHash E (randomsDrawn s) pw))
         \<and> (\<forall>x\<in>set (sessions s1). ses_userId x = prt_userId rec \<longrightarrow> ses_revokedAt x \<noteq> None)
         \<and> (\<forall>now' f' pw' ctx'. resetPassword E now' f' tok pw' ctx' s1 = (Inl invalidReset, s1)))"
proof (cases "resetPassword E now fault tok pw ctx s")
  case (Pair res s1)
  show ?thesis
  proof (cases res)
    case (Inl e)
    then show ?thesis using Pair resetPassword_Inl by fastforce
  next
    case (Inr u)
    obtain rec n s2 where r: "findFirst (\<lambda>t. prt_tokenHash t = sha256 E tok) (resetTokens s) = Some rec"
      "prt_usedAt rec = None" "now \<le> prt_expiresAt rec"
      "resetTx now fault rec (argonHash E (randomsDrawn s) pw) (randomUsed s) = (Inr n, s2)"
      "sessions s1 = sessions s2" "credentials s1 = credentials s2" "resetTokens s1 = resetTokens s2"
      using resetPassword_Inr [OF Pair [unfolded Inr]] .
    note tx = resetTx_Inr [OF r(4)]
    have "findFirst (\<lambda>t. prt_tokenHash t = sha256 E tok) (resetTokens s1) = Some (rec\<lparr>prt_usedAt := Some now\<rparr>)"
      using resetTx_token [OF r(4)] r by simp
    then have "resetPassword E now' f' tok pw' ctx' s1 = (Inl invalidReset, s1)" for now' f' pw' ctx'
      by (simp add: resetPassword_def)
    then show ?thesis using Pair Inr r tx by simp
  qed
qed

theorem reset_is_atomic_and_single_use_witness:
  "\<exists>s1. resetPassword sampleEnv 10 False ''reset'' ''correct horse'' sampleCtx sampleState = (Inr (), s1)
     \<and> resetPassword sampleEnv 11 False ''reset'' ''battery staple'' sampleCtx s1 = (Inl invalidReset, s1)"
proof -
  obtain s1 where r: "resetPassword sampleEnv 10 False ''reset'' ''correct horse'' sampleCtx sampleState = (Inr (), s1)"
    by (simp add: resetPassword_def resetTx_def transactionO_def revokeAllForUser_def validatePolicy_def
        isKnownBreached_def Let_def sample_defs)
  then show ?thesis
    using reset_is_atomic_and_single_use [where E = sampleEnv and now = 10 and fault = False and tok = "''reset''"
        and pw = "''correct horse''" and ctx = sampleCtx and s = sampleState]
    by auto
qed

text \<open>C14: the lockout holds. After as many rejected logins for an email as the
  configuration allows, all within the window the first one opens, every further
  login for it in that window is refused unexamined, the right password
  included, and changes nothing.\<close>

theorem login_locks_out:
  assumes "allRejected E C email ((t0, pw0, ctx0) # xs) s"
    and "redisCount t0 (loginKey ''email'' (normalizeEmail email)) s = 0"
    and "\<forall>(t, _)\<in>set xs. t < t0 + loginLockoutWindowSeconds C * 1000"
    and "loginLockoutMaxAttempts C \<le> int (length xs + 1)" "0 < loginLockoutMaxAttempts C"
    and "t < t0 + loginLockoutWindowSeconds C * 1000"
  shows "login E C t email pw ctx (afterAttempts E C email ((t0, pw0, ctx0) # xs) s)
     = (Inl (HttpError 429 ''ACCOUNT_LOCKED''), afterAttempts E C email ((t0, pw0, ctx0) # xs) s)"
proof -
  let ?k = "loginKey ''email'' (normalizeEmail email)" and ?W = "loginLockoutWindowSeconds C"
  let ?s1 = "snd (login E C t0 email pw0 ctx0 s)"
  have rej: "fst (login E C t0 email pw0 ctx0 s) = Inl (HttpError 401 ''INVALID_CREDENTIALS'')"
    using assms(1) by simp
  have "lockout.holds ?k ?W t0 1 ?s1"
    unfolding holds_redis [OF login_rejected [OF rej]] recordFailure_holds
    by (rule lockout.holds_first [OF assms(2)])
  then have "lockout.holds ?k ?W t0 (1 + length xs) (afterAttempts E C email xs ?s1)"
    using assms(1,3) by (intro attempts_hold) auto
  then have "int (1 + length xs) = redisCount t ?k (afterAttempts E C email xs ?s1)"
    using lockout.holds_count assms(6) by metis
  then have "isLocked C t (normalizeEmail email) (rc_ipAddress ctx) (afterAttempts E C email xs ?s1)"
    using assms(4,5) unfolding isLocked_def by (intro locked_when_counted) auto
  then have "login E C t email pw ctx (afterAttempts E C email xs ?s1)
      = (Inl (HttpError 429 ''ACCOUNT_LOCKED''), afterAttempts E C email xs ?s1)"
    by (subst login_def) simp
  then show ?thesis by simp
qed

theorem login_locks_out_witness:
  "fst (login sampleEnv (defaultAuthConfig\<lparr>loginLockoutMaxAttempts := 2\<rparr>) 9 ''ada@x'' ''secret'' sampleCtx
     (afterAttempts sampleEnv (defaultAuthConfig\<lparr>loginLockoutMaxAttempts := 2\<rparr>) ''ada@x''
        [(0, ''x'', sampleCtx), (5, ''y'', sampleCtx)] sampleState))
   = Inl (HttpError 429 ''ACCOUNT_LOCKED'')"
proof -
  have e: "normalizeEmail ''ada@x'' = ''ada@x''" by code_simp
  show ?thesis
    by (subst login_locks_out)
       (simp_all add: e login_def Let_def isLocked_def locked_def recordFailure_def recordAttempt_def
         passwordMatches_def liveUserByEmail_def sample_defs nonEmpty_def auditLog_def drawn_def
         redisGet_def redisCount_def counterOf_def redis_incrementWithWindow)
qed

end
