(* ===== verification/Credentials_Store.thy ===== *)
theory Credentials_Store
  imports Database
begin

text \<open>
  The connector-credential store (\<open>credentials-store.service.ts\<close>) and its key
  ring (\<open>credentials-store.config.ts\<close>): secrets encrypted under versioned keys,
  readable only by the workspace whose linked account refers to them.
\<close>

section \<open>The key ring\<close>

text \<open>\<open>Buffer.from(hex, "hex")\<close> decodes pairs of digits until one is not.\<close>

fun hexDecode :: "string \<Rightarrow> string" where
  "hexDecode (a # b # cs) = (case (hexVal a, hexVal b) of
     (Some x, Some y) \<Rightarrow> char_of (16 * x + y) # hexDecode cs | _ \<Rightarrow> [])"
| "hexDecode _ = []"

definition parseKey :: "string \<Rightarrow> exn + string" where
  "parseKey h = (let key = hexDecode h in
     if length key \<noteq> 32 then Inl (PlainError ''must decode to exactly 32 bytes'') else Inr key)"

type_synonym key_ring = "(nat \<times> string) list"

definition addKey :: "nat \<Rightarrow> string option \<Rightarrow> key_ring \<Rightarrow> exn + key_ring" where
  "addKey v h ring = (if \<not> nonEmpty h then Inr ring
     else case parseKey (the h) of Inl e \<Rightarrow> Inl e | Inr k \<Rightarrow> Inr (ring @ [(v, k)]))"

definition loadKeyRing :: "env \<Rightarrow> exn + key_ring" where
  "loadKeyRing E = (case addKey 1 (ke_key1 (keyEnv E)) [] of
      Inl e \<Rightarrow> Inl e
    | Inr r1 \<Rightarrow> (case addKey 2 (ke_key2 (keyEnv E)) r1 of
        Inl e \<Rightarrow> Inl e
      | Inr r2 \<Rightarrow>
          if r2 = [] then
            (if ke_nodeEnv (keyEnv E) = Some ''production''
             then Inl (PlainError ''CREDENTIALS_ENCRYPTION_KEY is not set'')
             else Inr [(1, scryptDevKey E)])
          else Inr r2))"

definition activeVersion :: "env \<Rightarrow> key_ring \<Rightarrow> jsnum" where
  "activeVersion E ring =
     (if nonEmpty (ke_activeVersion (keyEnv E)) then toNumber (the (ke_activeVersion (keyEnv E)))
      else Fin (of_nat (Max (set (map fst ring)))))"

definition encryptionKeyForVersion :: "key_ring \<Rightarrow> jsnum \<Rightarrow> exn + nat \<times> string" where
  "encryptionKeyForVersion ring version =
     (case find (\<lambda>(v, _). Fin (of_nat v) = version) ring of
        None \<Rightarrow> Inl (PlainError ''No encryption key configured for version'')
      | Some vk \<Rightarrow> Inr vk)"

section \<open>Secrets\<close>

record CredentialAccessContext =
  cac_workspaceId :: uuid
  cac_actorType :: string
  cac_actorUserId :: "uuid option"
  cac_audit :: bool

definition putSecret :: "env \<Rightarrow> string \<Rightarrow> (world, exn, uuid) oper" where
  "putSecret E plaintext s =
     (case loadKeyRing E of
        Inl e \<Rightarrow> (Inl e, s)
      | Inr ring \<Rightarrow>
          (case encryptionKeyForVersion ring (activeVersion E ring) of
             Inl e \<Rightarrow> (Inl e, s)
           | Inr (v, key) \<Rightarrow>
               let iv = randomDraw E s;
                   (ciphertext, authTag) = gcmEncrypt E key iv plaintext;
                   ref = draw E s
               in (Inr ref, (drawn 1 (randomUsed s))\<lparr>secretRecords := secretRecords s @
                    [\<lparr>sec_id = ref, sec_ciphertext = ciphertext, sec_iv = iv, sec_authTag = authTag,
                      sec_keyVersion = v\<rparr>]\<rparr>)))"

definition ownedByWorkspace :: "world \<Rightarrow> uuid \<Rightarrow> uuid \<Rightarrow> bool" where
  "ownedByWorkspace s ref wsId \<longleftrightarrow> findFirst (\<lambda>a. la_deletedAt a = None \<and> la_credentialsRef a = ref \<and>
     la_workspaceId a = wsId) (linkedAccounts s) \<noteq> None"

definition getSecret :: "env \<Rightarrow> uuid \<Rightarrow> CredentialAccessContext \<Rightarrow> (world, exn, string) oper" where
  "getSecret E ref ctx s =
     (case findFirst (\<lambda>r. sec_id r = ref) (secretRecords s) of
        None \<Rightarrow> (Inl (PlainError ''No secret found for ref''), s)
      | Some record \<Rightarrow>
          if \<not> ownedByWorkspace s ref (cac_workspaceId ctx)
          then (Inl (PlainError ''Secret is not owned by workspace''), s)
          else case loadKeyRing E of
              Inl e \<Rightarrow> (Inl e, s)
            | Inr ring \<Rightarrow>
                (case encryptionKeyForVersion ring (Fin (of_nat (sec_keyVersion record))) of
                   Inl e \<Rightarrow> (Inl e, s)
                 | Inr (_, key) \<Rightarrow>
                     (case gcmDecrypt E key (sec_iv record) (sec_authTag record) (sec_ciphertext record) of
                        None \<Rightarrow> (Inl (PlainError ''Unsupported state or unable to authenticate data''), s)
                      | Some plaintext \<Rightarrow>
                          (Inr plaintext,
                           if cac_audit ctx then auditLog E
                             \<lparr>ae_workspaceId = Some (cac_workspaceId ctx), ae_organizationId = None,
                              ae_actorUserId = cac_actorUserId ctx, ae_actorType = cac_actorType ctx,
                              ae_action = ''credential.retrieved'', ae_resourceType = Some ''secret_record'',
                              ae_resourceId = Some ref, ae_ipAddress = None\<rparr> s
                           else s))))"

definition deleteSecret :: "uuid \<Rightarrow> uuid \<Rightarrow> (world, exn, unit) oper" where
  "deleteSecret ref wsId s =
     (if \<not> ownedByWorkspace s ref wsId then (Inl (PlainError ''Secret is not owned by workspace''), s)
      else (Inr (), s\<lparr>secretRecords := deleteMany (\<lambda>r. sec_id r = ref) (secretRecords s)\<rparr>))"

section \<open>Facts\<close>

lemma getSecret_state:
  assumes "getSecret E ref ctx s = (r, s')"
  shows "\<exists>a. s' = s \<or> s' = auditLog E a s"
  using assms by (auto simp: getSecret_def split: option.splits sum.splits if_splits prod.splits)

lemma getSecret_owned:
  assumes "getSecret E ref ctx s = (Inr p, s')"
  shows "\<exists>a\<in>set (linkedAccounts s). la_credentialsRef a = ref \<and> la_workspaceId a = cac_workspaceId ctx
     \<and> la_deletedAt a = None"
proof -
  have "ownedByWorkspace s ref (cac_workspaceId ctx)"
    using assms by (auto simp: getSecret_def split: option.splits if_splits)
  then show ?thesis by (auto simp: ownedByWorkspace_def dest!: findFirst_SomeD)
qed

lemma putSecret_record:
  assumes "putSecret E plaintext s = (Inr ref, s')"
  shows "\<exists>ring v key. loadKeyRing E = Inr ring \<and> encryptionKeyForVersion ring (Fin (of_nat v)) = Inr (v, key)
    \<and> secretRecords s' = secretRecords s @ [\<lparr>sec_id = uid E (idsDrawn s),
        sec_ciphertext = fst (gcmEncrypt E key (randomText E (randomsDrawn s)) plaintext),
        sec_iv = randomText E (randomsDrawn s),
        sec_authTag = snd (gcmEncrypt E key (randomText E (randomsDrawn s)) plaintext), sec_keyVersion = v\<rparr>]
    \<and> ref = uid E (idsDrawn s)"
proof -
  obtain ring v key where r: "loadKeyRing E = Inr ring"
    "encryptionKeyForVersion ring (activeVersion E ring) = Inr (v, key)"
    using assms by (auto simp: putSecret_def split: sum.splits)
  then have v: "activeVersion E ring = Fin (of_nat v)"
    by (auto simp: encryptionKeyForVersion_def find_Some_iff split: option.splits)
  show ?thesis
    using assms r v[symmetric]
    by (intro exI [of _ ring] exI [of _ v] exI [of _ key])
       (auto simp: putSecret_def draw_def randomDraw_def Let_def split: prod.splits)
qed

section \<open>Properties\<close>

text \<open>C21: a stored credential reads back, and only for the workspace that owns it.
  Given a cipher that decrypts what it encrypted, a secret put under one key
  ring is returned unchanged to a workspace with a live linked account that
  refers to it, also under a later environment whose ring still has the key of
  that version; any other workspace gets an exception and no plaintext.\<close>

theorem secret_roundtrip_isolated:
  assumes gcm: "\<And>key iv p c t. gcmEncrypt E key iv p = (c, t) \<Longrightarrow> gcmDecrypt E' key iv t c = Some p"
    and put: "putSecret E plaintext s = (Inr ref, s1)"
    and fresh: "\<forall>r\<in>set (secretRecords s). sec_id r \<noteq> uid E (idsDrawn s)"
    and rings: "loadKeyRing E = Inr ring" "loadKeyRing E' = Inr ring'"
      "\<And>v k. encryptionKeyForVersion ring v = Inr k \<Longrightarrow> encryptionKeyForVersion ring' v = Inr k"
    and kept: "secretRecords s2 = secretRecords s1 @ later"
  shows "if ownedByWorkspace s2 ref (cac_workspaceId ctx) then fst (getSecret E' ref ctx s2) = Inr plaintext
         else \<exists>e. getSecret E' ref ctx s2 = (Inl e, s2)"
proof -
  obtain v key where r: "encryptionKeyForVersion ring (Fin (of_nat v)) = Inr (v, key)"
    "secretRecords s1 = secretRecords s @ [\<lparr>sec_id = ref,
        sec_ciphertext = fst (gcmEncrypt E key (randomText E (randomsDrawn s)) plaintext),
        sec_iv = randomText E (randomsDrawn s),
        sec_authTag = snd (gcmEncrypt E key (randomText E (randomsDrawn s)) plaintext), sec_keyVersion = v\<rparr>]"
    "ref = uid E (idsDrawn s)"
    using putSecret_record [OF put] rings(1) by auto
  have "findFirst (\<lambda>r. sec_id r = ref) (secretRecords s) = None"
    using fresh r(3) by (simp add: findFirst_None_iff)
  then have f: "findFirst (\<lambda>r. sec_id r = ref) (secretRecords s2) = Some \<lparr>sec_id = ref,
        sec_ciphertext = fst (gcmEncrypt E key (randomText E (randomsDrawn s)) plaintext),
        sec_iv = randomText E (randomsDrawn s),
        sec_authTag = snd (gcmEncrypt E key (randomText E (randomsDrawn s)) plaintext), sec_keyVersion = v\<rparr>"
    using r(2) kept by (simp add: findFirst_append)
  have "gcmDecrypt E' key (randomText E (randomsDrawn s))
      (snd (gcmEncrypt E key (randomText E (randomsDrawn s)) plaintext))
      (fst (gcmEncrypt E key (randomText E (randomsDrawn s)) plaintext)) = Some plaintext"
    by (rule gcm) simp
  then show ?thesis
    using f rings(2) rings(3) [OF r(1)] by (simp add: getSecret_def)
qed

text \<open>A workspace 11 whose linked account refers to the secret that is stored next.\<close>

definition sampleAccounts :: world where
  "sampleAccounts = emptyWorld\<lparr>linkedAccounts := [\<lparr>la_id = 5, la_workspaceId = 11, la_providerId = 7,
     la_externalAccountId = ''x'', la_displayLabel = None, la_status = Active, la_credentialsRef = 1,
     la_webhookSecret = None, la_syncCursor = None, la_lastSyncedAt = None, la_lastError = None, la_createdAt = 0,
     la_deletedAt = None\<rparr>]\<rparr>"

definition sampleAccess :: "uuid \<Rightarrow> CredentialAccessContext" where
  "sampleAccess w = \<lparr>cac_workspaceId = w, cac_actorType = ''user'', cac_actorUserId = None, cac_audit = True\<rparr>"

theorem secret_roundtrip_isolated_witness:
  "\<exists>s1. putSecret sampleEnv ''token'' sampleAccounts = (Inr 1, s1)
     \<and> fst (getSecret sampleEnv 1 (sampleAccess 11) s1) = Inr ''token''
     \<and> (\<exists>e. getSecret sampleEnv 1 (sampleAccess 12) s1 = (Inl e, s1))"
proof -
  define R where "R = [(1::nat, replicate 32 (CHR ''k''))]"
  have ring: "loadKeyRing sampleEnv = Inr R"
    by (simp add: R_def loadKeyRing_def addKey_def sampleEnv_def nonEmpty_def)
  have key: "encryptionKeyForVersion R (activeVersion sampleEnv R) = Inr (1, replicate 32 (CHR ''k''))"
    by (simp add: R_def activeVersion_def encryptionKeyForVersion_def sampleEnv_def nonEmpty_def)
  have u: "uid sampleEnv 0 = 1" by (simp add: sampleEnv_def)
  define s1 where "s1 = snd (putSecret sampleEnv ''token'' sampleAccounts)"
  have put: "putSecret sampleEnv ''token'' sampleAccounts = (Inr 1, s1)"
    unfolding s1_def
    by (simp add: putSecret_def ring key Let_def draw_def sampleAccounts_def emptyWorld_def u split: prod.split)
  have la: "linkedAccounts s1 = linkedAccounts sampleAccounts" and sec: "secretRecords sampleAccounts = []"
    unfolding s1_def
    by (simp_all add: putSecret_def ring key Let_def sampleAccounts_def emptyWorld_def drawn_def randomUsed_def
        split: prod.split)
  have gcm: "gcmEncrypt sampleEnv k iv p = (c, t) \<Longrightarrow> gcmDecrypt sampleEnv k iv t c = Some p" for k iv p c t
    by (auto simp: sampleEnv_def)
  note R = secret_roundtrip_isolated [OF gcm put _ ring ring, of s1 "[]"]
  have "ownedByWorkspace s1 1 11" "\<not> ownedByWorkspace s1 1 12"
    by (simp_all add: ownedByWorkspace_def la sampleAccounts_def)
  then show ?thesis
    using put R [of "sampleAccess 11"] R [of "sampleAccess 12"] sec by (auto simp: sampleAccess_def)
qed

end
