(* ===== verification/Workspaces.thy ===== *)
theory Workspaces
  imports Auth_Service Credentials_Store Single_Use
begin

text \<open>
  Workspaces (\<open>apps/api/src/workspaces\<close>): membership management with its role
  authority, and permanent deletion; and the two process-wide services deletion
  calls, the realtime gateway's sockets (\<open>realtime.gateway.ts\<close>) and the event
  queue's purge (\<open>events.service.ts\<close>).
\<close>

section \<open>Realtime sockets\<close>

definition handleConnection :: "env \<Rightarrow> instant \<Rightarrow> string option \<Rightarrow> string option \<Rightarrow> world \<Rightarrow> bool \<times> world" where
  "handleConnection E now authToken authorization s =
     (let token = (if nonEmpty authToken then authToken else extractBearerToken authorization) in
      if \<not> nonEmpty token then (False, s)
      else case verifyJwt E (the token) now of
          None \<Rightarrow> (False, s)
        | Some claims \<Rightarrow>
            (case liveMembership s (jwt_workspaceId claims) (jwt_sub claims) of
               None \<Rightarrow> (False, s)
             | Some _ \<Rightarrow> (True, s\<lparr>sockets := sockets s @ [(jwt_workspaceId claims, jwt_sub claims)]\<rparr>)))"

definition emitToWorkspace :: "uuid \<Rightarrow> string \<Rightarrow> uuid \<Rightarrow> world \<Rightarrow> world" where
  "emitToWorkspace wsId event subject s = s\<lparr>realtime := realtime s @
     [\<lparr>re_workspaceId = wsId, re_event = event, re_subject = subject\<rparr>]\<rparr>"

definition disconnectWorkspace :: "uuid \<Rightarrow> world \<Rightarrow> world" where
  "disconnectWorkspace wsId s = s\<lparr>sockets := deleteMany (\<lambda>c. fst c = wsId) (sockets s)\<rparr>"

definition disconnectMember :: "uuid \<Rightarrow> uuid \<Rightarrow> world \<Rightarrow> world" where
  "disconnectMember wsId userId s = s\<lparr>sockets := deleteMany (\<lambda>c. c = (wsId, userId)) (sockets s)\<rparr>"

section \<open>The event queue\<close>

definition EVENTS_QUEUE_NAME :: string where
  "EVENTS_QUEUE_NAME = ''events''"

text \<open>\<open>queue.add\<close> with a job id that is present is a no-op.\<close>

definition publish :: "instant \<Rightarrow> string \<Rightarrow> uuid \<Rightarrow> job_data \<Rightarrow> world \<Rightarrow> world" where
  "publish now eventId wsId data s =
     (if list_ex (\<lambda>j. qj_queue j = EVENTS_QUEUE_NAME \<and> qj_id j = eventId) (queueJobs s) then s
      else s\<lparr>queueJobs := queueJobs s @ [\<lparr>qj_id = eventId, qj_queue = EVENTS_QUEUE_NAME,
              qj_state = JWaiting, qj_runAt = now, qj_workspaceId = wsId, qj_data = data\<rparr>]\<rparr>)"

definition purgeable :: "uuid \<Rightarrow> queue_job \<Rightarrow> bool" where
  "purgeable wsId j \<longleftrightarrow> qj_queue j = EVENTS_QUEUE_NAME \<and> qj_state j \<noteq> JActive \<and> qj_workspaceId j = wsId"

definition purgeWorkspaceJobs :: "uuid \<Rightarrow> world \<Rightarrow> nat \<times> world" where
  "purgeWorkspaceJobs wsId s =
     (countWhere (purgeable wsId) (queueJobs s), s\<lparr>queueJobs := deleteMany (purgeable wsId) (queueJobs s)\<rparr>)"

section \<open>Membership\<close>

definition INVITE_TTL_DAYS :: int where
  "INVITE_TTL_DAYS = 7"

definition wsAudit :: "uuid \<Rightarrow> uuid option \<Rightarrow> uuid \<Rightarrow> string \<Rightarrow> string \<Rightarrow> uuid \<Rightarrow> audit_entry" where
  "wsAudit wsId orgId actor action resType resId = \<lparr>ae_workspaceId = Some wsId, ae_organizationId = orgId,
     ae_actorUserId = Some actor, ae_actorType = ''user'', ae_action = action,
     ae_resourceType = Some resType, ae_resourceId = Some resId, ae_ipAddress = None\<rparr>"

definition newMember :: "uuid \<Rightarrow> instant \<Rightarrow> uuid \<Rightarrow> uuid \<Rightarrow> role \<Rightarrow> uuid option \<Rightarrow> WorkspaceMember" where
  "newMember i now wsId userId r inviter = \<lparr>mem_id = i, mem_workspaceId = wsId, mem_userId = userId,
     mem_role = r, mem_invitedByUserId = inviter, mem_joinedAt = now, mem_deletedAt = None\<rparr>"

definition createWorkspaceTx :: "env \<Rightarrow> instant \<Rightarrow> uuid \<Rightarrow> uuid \<Rightarrow> string option \<Rightarrow> uuid action" where
  "createWorkspaceTx E now actorUserId organizationId name s =
     (let wsId = drawNth E 0 s;
          trimmed = (case name of None \<Rightarrow> [] | Some n \<Rightarrow> trim n);
          wsp = \<lparr>ws_id = wsId, ws_organizationId = organizationId,
            ws_name = (if trimmed = [] then ''New Workspace'' else trimmed), ws_timezone = ''UTC'',
            ws_aiEnabled = True, ws_createdAt = now, ws_deletedAt = None\<rparr>
      in (Inr wsId, (drawn 2 s)\<lparr>workspaces := workspaces s @ [wsp],
            members := members s @ [newMember (drawNth E 1 s) now wsId actorUserId Owner None]\<rparr>))"

definition createWorkspace ::
  "env \<Rightarrow> authConfig \<Rightarrow> instant \<Rightarrow> uuid \<Rightarrow> uuid \<Rightarrow> string option \<Rightarrow> RequestContext
    \<Rightarrow> (IssuedSession \<times> uuid) action" where
  "createWorkspace E C now actorUserId organizationId name ctx s =
     (case transactionO (createWorkspaceTx E now actorUserId organizationId name) s of
        (Inl e, s1) \<Rightarrow> (Inl e, s1)
      | (Inr wsId, s1) \<Rightarrow>
          (case issue E C now \<lparr>jwt_sub = actorUserId, jwt_workspaceId = wsId, jwt_orgId = organizationId,
                   jwt_role = Owner\<rparr> ctx s1 of
             (issued, s2) \<Rightarrow> (Inr (issued, wsId),
               auditLog E (wsAudit wsId (Some organizationId) actorUserId ''workspace.created'' ''workspace'' wsId) s2)))"

text \<open>\<open>orderBy: joinedAt asc\<close>, with the user each row joins.\<close>

definition listMembers :: "uuid \<Rightarrow> world \<Rightarrow> (WorkspaceMember \<times> User option) list" where
  "listMembers wsId s = List.map (\<lambda>m. (m, findFirst (\<lambda>u. usr_id u = mem_userId m) (users s)))
     (rev (orderDesc mem_joinedAt (filter (\<lambda>m. mem_deletedAt m = None \<and> mem_workspaceId m = wsId) (members s))))"

text \<open>The request body is validated to a role of admin or member.\<close>

definition invite ::
  "env \<Rightarrow> instant \<Rightarrow> uuid \<Rightarrow> uuid \<Rightarrow> string option \<Rightarrow> role \<Rightarrow> (string \<times> instant) action" where
  "invite E now wsId actorUserId email r s =
     (let inviteCode = randomDraw E s;
          expiresAt = now + INVITE_TTL_DAYS * 24 * 60 * 60 * 1000;
          ivt = \<lparr>inv_id = draw E s, inv_workspaceId = wsId,
            inv_email = (if nonEmpty email then Some (normalizeEmail (the email)) else None),
            inv_role = r, inv_codeHash = sha256 E inviteCode, inv_invitedByUserId = Some actorUserId,
            inv_expiresAt = expiresAt, inv_usedAt = None, inv_usedByUserId = None, inv_revokedAt = None\<rparr>
      in (Inr (inviteCode, expiresAt),
          auditLog E (wsAudit wsId None actorUserId ''workspace.invite_created'' ''workspace_invite'' (inv_id ivt))
            ((drawn 1 (randomUsed s))\<lparr>invites := invites s @ [ivt]\<rparr>)))"

definition inviteInvalid :: exn where
  "inviteInvalid = HttpError 400 ''INVITE_INVALID''"

definition alreadyMember :: exn where
  "alreadyMember = HttpError 409 ''ALREADY_MEMBER''"

text \<open>The claim of the invite and the new membership, in one transaction; the
  unique index on (workspace, user) covers soft-deleted rows too.\<close>

definition acceptInviteTx :: "env \<Rightarrow> instant \<Rightarrow> WorkspaceInvite \<Rightarrow> uuid \<Rightarrow> unit action" where
  "acceptInviteTx E now ivt userId s =
     (let p = (\<lambda>i. inv_id i = inv_id ivt \<and> inv_usedAt i = None \<and> inv_revokedAt i = None);
          s1 = s\<lparr>invites := updateMany p (\<lambda>i. i\<lparr>inv_usedByUserId := Some userId, inv_usedAt := Some now\<rparr>) (invites s)\<rparr>
      in if countWhere p (invites s) = 0 then (Inl inviteInvalid, s1)
         else if list_ex (\<lambda>m. mem_workspaceId m = inv_workspaceId ivt \<and> mem_userId m = userId) (members s1)
         then (Inl alreadyMember, s1)
         else (Inr (), (drawn 1 s1)\<lparr>members := members s1 @
                [newMember (draw E s1) now (inv_workspaceId ivt) userId (inv_role ivt) (inv_invitedByUserId ivt)]\<rparr>))"

definition acceptInvite ::
  "env \<Rightarrow> authConfig \<Rightarrow> instant \<Rightarrow> string \<Rightarrow> uuid \<Rightarrow> RequestContext \<Rightarrow> (IssuedSession \<times> uuid \<times> role) action" where
  "acceptInvite E C now inviteCode userId ctx s =
     (if trim inviteCode = [] then (Inl inviteInvalid, s)
      else case findFirst (\<lambda>i. inv_codeHash i = sha256 E inviteCode) (invites s) of
          None \<Rightarrow> (Inl inviteInvalid, s)
        | Some ivt \<Rightarrow>
            if inv_revokedAt ivt \<noteq> None \<or> inv_usedAt ivt \<noteq> None \<or> inv_expiresAt ivt < now
            then (Inl inviteInvalid, s)
            else case findFirst (\<lambda>u. usr_deletedAt u = None \<and> usr_id u = userId) (users s) of
                None \<Rightarrow> (Inl (HttpError 404 ''USER_NOT_FOUND''), s)
              | Some user \<Rightarrow>
                  if nonEmpty (inv_email ivt) \<and> the (inv_email ivt) \<noteq> normalizeEmail (usr_email user)
                  then (Inl inviteInvalid, s)
                  else case findFirst (\<lambda>w. ws_deletedAt w = None \<and> ws_id w = inv_workspaceId ivt) (workspaces s) of
                      None \<Rightarrow> (Inl inviteInvalid, s)
                    | Some wsp \<Rightarrow>
                        if liveMembership s (inv_workspaceId ivt) userId \<noteq> None then (Inl alreadyMember, s)
                        else case transactionO (acceptInviteTx E now ivt userId) s of
                            (Inl e, s1) \<Rightarrow> (Inl e, s1)
                          | (Inr _, s1) \<Rightarrow>
                              (case issue E C now \<lparr>jwt_sub = userId, jwt_workspaceId = inv_workspaceId ivt,
                                       jwt_orgId = ws_organizationId wsp, jwt_role = inv_role ivt\<rparr> ctx s1 of
                                 (issued, s2) \<Rightarrow> (Inr (issued, inv_workspaceId ivt, inv_role ivt),
                                   auditLog E (wsAudit (inv_workspaceId ivt) None userId ''workspace.invite_accepted''
                                     ''workspace_invite'' (inv_id ivt)) s2)))"

definition memberById :: "world \<Rightarrow> uuid \<Rightarrow> uuid \<Rightarrow> WorkspaceMember option" where
  "memberById s wsId memberId = findFirst (\<lambda>m. mem_deletedAt m = None \<and> mem_id m = memberId \<and>
     mem_workspaceId m = wsId) (members s)"

definition setRole :: "uuid \<Rightarrow> role \<Rightarrow> world \<Rightarrow> world" where
  "setRole memberId r s = s\<lparr>members := updateMany (\<lambda>m. mem_id m = memberId) (\<lambda>m. m\<lparr>mem_role := r\<rparr>) (members s)\<rparr>"

text \<open>The read-and-check half of \<open>changeMemberRole\<close>; the write follows it.\<close>

definition changeMemberRoleCheck ::
  "uuid \<Rightarrow> uuid \<Rightarrow> role \<Rightarrow> uuid \<Rightarrow> world \<Rightarrow> exn + WorkspaceMember" where
  "changeMemberRoleCheck wsId actorUserId actorRole targetMemberId s =
     (case memberById s wsId targetMemberId of
        None \<Rightarrow> Inl (HttpError 404 ''MEMBER_NOT_FOUND'')
      | Some target \<Rightarrow>
          if mem_userId target = actorUserId then Inl (HttpError 400 ''CANNOT_CHANGE_OWN_ROLE'')
          else if mem_role target = Owner then Inl (HttpError 403 ''OWNER_ROLE_IMMUTABLE_HERE'')
          else if actorRole = Admin \<and> mem_role target \<noteq> Member then Inl (HttpError 403 ''INSUFFICIENT_ROLE'')
          else Inr target)"

definition changeMemberRole ::
  "env \<Rightarrow> uuid \<Rightarrow> uuid \<Rightarrow> role \<Rightarrow> uuid \<Rightarrow> role \<Rightarrow> (uuid \<times> role) action" where
  "changeMemberRole E wsId actorUserId actorRole targetMemberId newRole s =
     (case changeMemberRoleCheck wsId actorUserId actorRole targetMemberId s of
        Inl e \<Rightarrow> (Inl e, s)
      | Inr target \<Rightarrow> (Inr (mem_id target, newRole),
          auditLog E (wsAudit wsId None actorUserId ''workspace.member_role_changed'' ''workspace_member''
            (mem_id target)) (setRole (mem_id target) newRole s)))"

definition removeMemberCheck ::
  "uuid \<Rightarrow> uuid \<Rightarrow> role \<Rightarrow> uuid \<Rightarrow> world \<Rightarrow> exn + WorkspaceMember" where
  "removeMemberCheck wsId actorUserId actorRole targetMemberId s =
     (case memberById s wsId targetMemberId of
        None \<Rightarrow> Inl (HttpError 404 ''MEMBER_NOT_FOUND'')
      | Some target \<Rightarrow>
          if mem_userId target = actorUserId then Inl (HttpError 400 ''USE_LEAVE_ENDPOINT'')
          else if mem_role target = Owner then Inl (HttpError 403 ''OWNER_CANNOT_BE_REMOVED'')
          else if actorRole = Admin \<and> mem_role target \<noteq> Member then Inl (HttpError 403 ''INSUFFICIENT_ROLE'')
          else Inr target)"

definition removeMember :: "env \<Rightarrow> uuid \<Rightarrow> uuid \<Rightarrow> role \<Rightarrow> uuid \<Rightarrow> unit action" where
  "removeMember E wsId actorUserId actorRole targetMemberId s =
     (case removeMemberCheck wsId actorUserId actorRole targetMemberId s of
        Inl e \<Rightarrow> (Inl e, s)
      | Inr target \<Rightarrow> (Inr (),
          auditLog E (wsAudit wsId None actorUserId ''workspace.member_removed'' ''workspace_member'' (mem_id target))
            (disconnectMember wsId (mem_userId target)
              (s\<lparr>members := deleteMany (\<lambda>m. mem_id m = mem_id target) (members s)\<rparr>))))"

definition leave :: "env \<Rightarrow> uuid \<Rightarrow> uuid \<Rightarrow> unit action" where
  "leave E wsId userId s =
     (case liveMembership s wsId userId of
        None \<Rightarrow> (Inl (HttpError 404 ''WORKSPACE_NOT_FOUND''), s)
      | Some member \<Rightarrow>
          if mem_role member = Owner then
            (if list_ex (\<lambda>m. mem_deletedAt m = None \<and> mem_workspaceId m = wsId \<and> mem_userId m \<noteq> userId) (members s)
             then (Inl (HttpError 409 ''WORKSPACE_HAS_OTHER_MEMBERS''), s)
             else (Inl (HttpError 400 ''SOLE_OWNER_CANNOT_LEAVE''), s))
          else (Inr (),
            auditLog E (wsAudit wsId None userId ''workspace.member_left'' ''workspace_member'' (mem_id member))
              (disconnectMember wsId userId
                (s\<lparr>members := deleteMany (\<lambda>m. mem_workspaceId m = wsId \<and> mem_userId m = userId) (members s)\<rparr>))))"

definition transferOwnershipTx :: "uuid \<Rightarrow> uuid \<Rightarrow> uuid \<Rightarrow> unit action" where
  "transferOwnershipTx wsId actorUserId newOwnerUserId s =
     (if \<not> list_ex (\<lambda>w. ws_id w = wsId) (workspaces s) then (Inl (HttpError 404 ''WORKSPACE_NOT_FOUND''), s)
      else case findFirst (\<lambda>m. mem_deletedAt m = None \<and> mem_workspaceId m = wsId \<and>
                 mem_userId m = actorUserId \<and> mem_role m = Owner) (members s) of
          None \<Rightarrow> (Inl (HttpError 403 ''OWNER_ROLE_REQUIRED''), s)
        | Some actorMember \<Rightarrow>
            (case liveMembership s wsId newOwnerUserId of
               None \<Rightarrow> (Inl (HttpError 404 ''MEMBER_NOT_FOUND''), s)
             | Some targetMember \<Rightarrow>
                 (Inr (), setRole (mem_id targetMember) Owner (setRole (mem_id actorMember) Admin s))))"

definition transferOwnership :: "env \<Rightarrow> uuid \<Rightarrow> uuid \<Rightarrow> uuid \<Rightarrow> unit action" where
  "transferOwnership E wsId actorUserId newOwnerUserId s =
     (if actorUserId = newOwnerUserId then (Inl (HttpError 400 ''ALREADY_OWNER''), s)
      else case transactionO (transferOwnershipTx wsId actorUserId newOwnerUserId) s of
          (Inl e, s1) \<Rightarrow> (Inl e, s1)
        | (Inr _, s1) \<Rightarrow> (Inr (), auditLog E (wsAudit wsId None actorUserId
             ''workspace.ownership_transferred'' ''workspace'' wsId) s1))"

section \<open>The controller\<close>

text \<open>Every route of the membership controller runs the two guards first.\<close>

definition guarded ::
  "env \<Rightarrow> instant \<Rightarrow> string option \<Rightarrow> role list option \<Rightarrow> (jwt_claims \<Rightarrow> 'a action) \<Rightarrow> 'a action" where
  "guarded E now authorization required handler s =
     (case jwtAuthGuard E now authorization s of
        Inl e \<Rightarrow> (Inl e, s)
      | Inr claims \<Rightarrow> (case rolesGuard required (Some (jwt_role claims)) of
          Inl e \<Rightarrow> (Inl e, s)
        | Inr _ \<Rightarrow> handler claims s))"

definition inviteRoute where
  "inviteRoute E now auth email r = guarded E now auth (Some [Owner, Admin])
     (\<lambda>c. invite E now (jwt_workspaceId c) (jwt_sub c) email r)"

definition acceptInviteRoute where
  "acceptInviteRoute E C now auth inviteCode ctx = guarded E now auth None
     (\<lambda>c. acceptInvite E C now inviteCode (jwt_sub c) ctx)"

definition changeMemberRoleRoute where
  "changeMemberRoleRoute E now auth memberId newRole = guarded E now auth (Some [Owner, Admin])
     (\<lambda>c. changeMemberRole E (jwt_workspaceId c) (jwt_sub c) (jwt_role c) memberId newRole)"

definition removeMemberRoute where
  "removeMemberRoute E now auth memberId = guarded E now auth (Some [Owner, Admin])
     (\<lambda>c. removeMember E (jwt_workspaceId c) (jwt_sub c) (jwt_role c) memberId)"

definition listMembersRoute where
  "listMembersRoute E now auth = guarded E now auth None
     (\<lambda>c s. (Inr (listMembers (jwt_workspaceId c) s), s))"

definition leaveRoute where
  "leaveRoute E now auth = guarded E now auth None (\<lambda>c. leave E (jwt_workspaceId c) (jwt_sub c))"

definition transferOwnershipRoute where
  "transferOwnershipRoute E now auth newOwner = guarded E now auth (Some [Owner])
     (\<lambda>c. transferOwnership E (jwt_workspaceId c) (jwt_sub c) newOwner)"

definition createWorkspaceRoute where
  "createWorkspaceRoute E C now auth name ctx = guarded E now auth None
     (\<lambda>c. createWorkspace E C now (jwt_sub c) (jwt_orgId c) name ctx)"

section \<open>Deletion\<close>

record CleanupResult =
  cr_linkedAccountId :: uuid
  cr_provider :: string
  cr_ok :: bool

text \<open>The best-effort provider cleanup: Telegram's webhook is deleted with the
  account's token (the call is a parameter), Discord's gateway is stopped.\<close>

fun cleanupConnectors ::
  "env \<Rightarrow> (string \<Rightarrow> bool) \<Rightarrow> uuid \<Rightarrow> uuid \<Rightarrow> LinkedAccount list \<Rightarrow> world \<Rightarrow> CleanupResult list \<times> world" where
  "cleanupConnectors E deleteWebhook wsId actor [] s = ([], s)"
| "cleanupConnectors E deleteWebhook wsId actor (a # rest) s =
     (let key = providerKey s (la_providerId a);
          (ok, s1) =
            (if key = ''telegram'' then
               (case getSecret E (la_credentialsRef a) \<lparr>cac_workspaceId = wsId, cac_actorType = ''user'',
                       cac_actorUserId = Some actor, cac_audit = True\<rparr> s of
                  (Inl e, s') \<Rightarrow> (False, s')
                | (Inr token, s') \<Rightarrow> (deleteWebhook token, s'))
             else if key = ''discord'' then (True, s\<lparr>gateways := deleteMany (\<lambda>g. g = la_id a) (gateways s)\<rparr>)
             else (True, s));
          (rs, s2) = cleanupConnectors E deleteWebhook wsId actor rest s1
      in (\<lparr>cr_linkedAccountId = la_id a, cr_provider = key, cr_ok = ok\<rparr> # rs, s2))"

text \<open>Every table with a workspace column loses the workspace's rows.\<close>

definition eraseWorkspace :: "uuid \<Rightarrow> LinkedAccount list \<Rightarrow> world \<Rightarrow> world" where
  "eraseWorkspace w accounts s = s\<lparr>
     notifications := deleteMany (\<lambda>r. ntf_workspaceId r = w) (notifications s),
     aiSummaries := deleteMany (\<lambda>r. mas_workspaceId r = w) (aiSummaries s),
     messages := deleteMany (\<lambda>r. msg_workspaceId r = w) (messages s),
     executionLogs := deleteMany (\<lambda>r. rel_workspaceId r = w) (executionLogs s),
     scheduledJobs := deleteMany (\<lambda>r. sj_workspaceId r = w) (scheduledJobs s),
     scheduledMessages := deleteMany (\<lambda>r. sm_workspaceId r = w) (scheduledMessages s),
     conversations := deleteMany (\<lambda>r. cnv_workspaceId r = w) (conversations s),
     contactIdentities := deleteMany (\<lambda>r. cid_workspaceId r = w) (contactIdentities s),
     mergeSuggestions := deleteMany (\<lambda>r. ims_workspaceId r = w) (mergeSuggestions s),
     mergeLogs := deleteMany (\<lambda>r. iml_workspaceId r = w) (mergeLogs s),
     splitLogs := deleteMany (\<lambda>r. isl_workspaceId r = w) (splitLogs s),
     contacts := deleteMany (\<lambda>r. con_workspaceId r = w) (contacts s),
     rules := deleteMany (\<lambda>r. rul_workspaceId r = w) (rules s),
     secretRecords := deleteMany (\<lambda>r. sec_id r \<in> la_credentialsRef ` set accounts) (secretRecords s),
     linkedAccounts := deleteMany (\<lambda>r. la_workspaceId r = w) (linkedAccounts s),
     notificationPreferences := deleteMany (\<lambda>r. npf_workspaceId r = w) (notificationPreferences s),
     pushSubscriptions := deleteMany (\<lambda>r. psub_workspaceId r = w) (pushSubscriptions s),
     invites := deleteMany (\<lambda>r. inv_workspaceId r = w) (invites s),
     sessions := deleteMany (\<lambda>r. ses_workspaceId r = w) (sessions s),
     members := deleteMany (\<lambda>r. mem_workspaceId r = w) (members s),
     workspaces := deleteMany (\<lambda>r. ws_id r = w) (workspaces s)\<rparr>"

definition deleteWorkspaceTx ::
  "uuid \<Rightarrow> uuid \<Rightarrow> bool \<Rightarrow> uuid \<Rightarrow> LinkedAccount list \<Rightarrow> unit action" where
  "deleteWorkspaceTx w actorUserId requireNoOtherMembers organizationId accounts s =
     (if \<not> list_ex (\<lambda>x. ws_id x = w) (workspaces s) then (Inl (HttpError 404 ''WORKSPACE_NOT_FOUND''), s)
      else if \<not> list_ex (\<lambda>m. mem_deletedAt m = None \<and> mem_workspaceId m = w \<and> mem_userId m = actorUserId \<and>
                 mem_role m = Owner) (members s)
      then (Inl (HttpError 404 ''WORKSPACE_NOT_FOUND''), s)
      else if requireNoOtherMembers \<and>
              list_ex (\<lambda>m. mem_deletedAt m = None \<and> mem_workspaceId m = w \<and> mem_userId m \<noteq> actorUserId) (members s)
      then (Inl (HttpError 409 ''WORKSPACE_HAS_OTHER_MEMBERS''), s)
      else
        let s1 = eraseWorkspace w accounts s in
        if list_ex (\<lambda>x. ws_deletedAt x = None \<and> ws_organizationId x = organizationId) (workspaces s1)
        then (Inr (), s1)
        else (Inr (), s1\<lparr>creditLedger := deleteMany (\<lambda>r. acl_organizationId r = organizationId) (creditLedger s1),
                organizations := deleteMany (\<lambda>r. org_id r = organizationId) (organizations s1)\<rparr>))"

definition deleteWorkspace ::
  "env \<Rightarrow> (string \<Rightarrow> bool) \<Rightarrow> uuid \<Rightarrow> uuid \<Rightarrow> bool \<Rightarrow> unit action" where
  "deleteWorkspace E deleteWebhook w actorUserId requireNoOtherMembers s =
     (case liveMembership s w actorUserId of
        None \<Rightarrow> (Inl (HttpError 404 ''WORKSPACE_NOT_FOUND''), s)
      | Some member \<Rightarrow>
          if mem_role member \<noteq> Owner then (Inl (HttpError 403 ''OWNER_ROLE_REQUIRED''), s)
          else case findFirst (\<lambda>x. ws_deletedAt x = None \<and> ws_id x = w) (workspaces s) of
              None \<Rightarrow> (Inl (HttpError 404 ''WORKSPACE_NOT_FOUND''), s)
            | Some wsp \<Rightarrow>
                let accounts = filter (\<lambda>a. la_deletedAt a = None \<and> la_workspaceId a = w) (linkedAccounts s);
                    s1 = snd (cleanupConnectors E deleteWebhook w actorUserId accounts s)
                in (case transactionO (deleteWorkspaceTx w actorUserId requireNoOtherMembers
                            (ws_organizationId wsp) accounts) s1 of
                      (Inl e, s2) \<Rightarrow> (Inl e, s2)
                    | (Inr _, s2) \<Rightarrow>
                        (Inr (), auditLog E \<lparr>ae_workspaceId = None, ae_organizationId = Some (ws_organizationId wsp),
                            ae_actorUserId = Some actorUserId, ae_actorType = ''user'',
                            ae_action = ''workspace.deleted'', ae_resourceType = Some ''workspace'',
                            ae_resourceId = Some w, ae_ipAddress = None\<rparr>
                          (snd (purgeWorkspaceJobs w (disconnectWorkspace w s2))))))"

definition deleteOwnWorkspace where
  "deleteOwnWorkspace E deleteWebhook now auth = guarded E now auth None
     (\<lambda>c. deleteWorkspace E deleteWebhook (jwt_workspaceId c) (jwt_sub c) False)"

section \<open>The membership invariant\<close>

definition ownerOf :: "uuid \<Rightarrow> WorkspaceMember \<Rightarrow> bool" where
  "ownerOf w m \<longleftrightarrow> mem_deletedAt m = None \<and> mem_workspaceId m = w \<and> mem_role m = Owner"

definition drawnId :: "env \<Rightarrow> nat \<Rightarrow> uuid \<Rightarrow> bool" where
  "drawnId E n i \<longleftrightarrow> (\<exists>k<n. i = uid E k)"

lemma drawnId_mono: assumes "drawnId E n i" "n \<le> n'" shows "drawnId E n' i"
proof -
  obtain k where "k < n" "i = uid E k" using assms(1) by (auto simp: drawnId_def)
  then have "k < n' \<and> i = uid E k" using assms(2) by linarith
  then show ?thesis unfolding drawnId_def by blast
qed

lemma drawnId_fresh: "inj (uid E) \<Longrightarrow> n \<le> k \<Longrightarrow> \<not> drawnId E n (uid E k)"
  by (auto simp: drawnId_def inj_eq)

lemma drawnId_I: "k < n \<Longrightarrow> drawnId E n (uid E k)"
  by (auto simp: drawnId_def)

definition memKey :: "WorkspaceMember \<Rightarrow> uuid \<times> uuid" where
  "memKey m = (mem_workspaceId m, mem_userId m)"

lemma memKey_role [simp]: "memKey (m\<lparr>mem_role := r\<rparr>) = memKey m"
  by (simp add: memKey_def)

text \<open>Identifiers are unique and drawn, a user is a member of a workspace once, every
  membership is of an existing workspace, no invite offers ownership, and every
  workspace has exactly one live owner.\<close>

definition memInv :: "env \<Rightarrow> world \<Rightarrow> bool" where
  "memInv E s \<longleftrightarrow>
     (distinct (List.map mem_id (members s)) \<and> distinct (List.map memKey (members s)) \<and>
      distinct (List.map ws_id (workspaces s))) \<and>
     (\<forall>m\<in>set (members s). drawnId E (idsDrawn s) (mem_id m)) \<and>
     (\<forall>m\<in>set (members s). mem_workspaceId m \<in> ws_id ` set (workspaces s)) \<and>
     (\<forall>w\<in>set (workspaces s). drawnId E (idsDrawn s) (ws_id w)) \<and>
     (\<forall>i\<in>set (invites s). inv_role i \<noteq> Owner) \<and>
     (\<forall>w\<in>set (workspaces s). countWhere (ownerOf (ws_id w)) (members s) = 1)"

lemma memInv_frame:
  assumes "memInv E s" "members s' = members s" "workspaces s' = workspaces s"
    and "\<forall>i\<in>set (invites s'). inv_role i \<noteq> Owner" "idsDrawn s \<le> idsDrawn s'"
  shows "memInv E s'"
  using assms by (auto simp: memInv_def intro: drawnId_mono)

lemma memInv_invites: "memInv E s \<Longrightarrow> \<forall>i\<in>set (invites s). inv_role i \<noteq> Owner"
  by (simp add: memInv_def)

lemma memInv_member_ws: "memInv E s \<Longrightarrow> m \<in> set (members s) \<Longrightarrow> mem_workspaceId m \<in> ws_id ` set (workspaces s)"
  by (simp add: memInv_def)

lemma memInv_distinct: "memInv E s \<Longrightarrow> distinct (List.map mem_id (members s))"
  by (simp add: memInv_def)

text \<open>A fresh workspace with its owner.\<close>

lemma memInv_addWorkspace:
  assumes i: "memInv E s" and inj: "inj (uid E)"
    and ids: "ws_id w = uid E j" "mem_id m = uid E k" "idsDrawn s \<le> j" "idsDrawn s \<le> k" "j < n" "k < n"
    and m: "mem_workspaceId m = ws_id w" "mem_role m = Owner" "mem_deletedAt m = None"
    and s': "members s' = members s @ [m]" "workspaces s' = workspaces s @ [w]" "invites s' = invites s"
      "idsDrawn s' = n"
  shows "memInv E s'"
proof -
  have w: "ws_id x \<noteq> ws_id w" if "x \<in> set (workspaces s)" for x
    using that i drawnId_fresh [OF inj ids(3)] ids(1) by (auto simp: memInv_def)
  have k: "mem_id x \<noteq> mem_id m" if "x \<in> set (members s)" for x
    using that i drawnId_fresh [OF inj ids(4)] ids(2) by (auto simp: memInv_def)
  have mw: "mem_workspaceId x \<noteq> ws_id w" if "x \<in> set (members s)" for x
    using memInv_member_ws [OF i that] w by (metis imageE)
  have z: "countWhere (ownerOf (ws_id w)) (members s) = 0"
    using mw by (auto simp: countWhere_0_iff ownerOf_def)
  have o: "ownerOf (ws_id x) m = (ws_id x = ws_id w)" for x
    using m by (auto simp: ownerOf_def)
  have n: "idsDrawn s \<le> n" using ids by linarith
  have "distinct (List.map mem_id (members s')) \<and> distinct (List.map memKey (members s')) \<and>
      distinct (List.map ws_id (workspaces s'))"
    using i w k mw m(1) by (force simp: s' memInv_def memKey_def)
  moreover have "\<forall>x\<in>set (members s'). drawnId E n (mem_id x)" "\<forall>x\<in>set (workspaces s'). drawnId E n (ws_id x)"
    using i ids n by (auto simp: s' memInv_def intro: drawnId_mono drawnId_I)
  moreover have "\<forall>x\<in>set (members s'). mem_workspaceId x \<in> ws_id ` set (workspaces s')"
    using i m(1) by (auto simp: s' memInv_def)
  moreover have "\<forall>x\<in>set (workspaces s'). countWhere (ownerOf (ws_id x)) (members s') = 1"
    using i w z by (auto simp: s' memInv_def o)
  ultimately show ?thesis
    using memInv_invites [OF i] by (simp add: memInv_def s'(3,4))
qed

lemma memInv_addMember:
  assumes i: "memInv E s" and inj: "inj (uid E)"
    and m: "mem_id m = uid E (idsDrawn s)" "mem_workspaceId m \<in> ws_id ` set (workspaces s)" "mem_role m \<noteq> Owner"
      "\<not> list_ex (\<lambda>x. mem_workspaceId x = mem_workspaceId m \<and> mem_userId x = mem_userId m) (members s)"
    and s': "members s' = members s @ [m]" "workspaces s' = workspaces s"
      "\<forall>i\<in>set (invites s'). inv_role i \<noteq> Owner" "idsDrawn s' = idsDrawn s + 1"
  shows "memInv E s'"
proof -
  have k: "mem_id x \<noteq> mem_id m" if "x \<in> set (members s)" for x
    using that i drawnId_fresh [OF inj order_refl, of "idsDrawn s"] m(1) by (auto simp: memInv_def)
  have "distinct (List.map mem_id (members s'))" "distinct (List.map memKey (members s'))"
    using i k m(4) by (force simp: s' memInv_def memKey_def list_ex_iff)+
  moreover have "\<not> ownerOf w m" for w using m(3) by (simp add: ownerOf_def)
  ultimately show ?thesis
    using i m(1,2) s'(3) by (auto simp: memInv_def s' intro: drawnId_mono drawnId_I)
qed

lemma memInv_deleteMembers:
  assumes i: "memInv E s" and p: "\<And>m. m \<in> set (members s) \<Longrightarrow> p m \<Longrightarrow> mem_role m \<noteq> Owner \<or> mem_deletedAt m \<noteq> None"
    and s': "members s' = deleteMany p (members s)" "workspaces s' = workspaces s" "invites s' = invites s"
      "idsDrawn s \<le> idsDrawn s'"
  shows "memInv E s'"
proof -
  have "countWhere (ownerOf w) (deleteMany p (members s)) = countWhere (ownerOf w) (members s)" for w
    using p by (intro countWhere_deleteMany_same) (auto simp: ownerOf_def)
  then show ?thesis
    using i s'(4) by (auto simp: memInv_def s' distinct_map_deleteMany intro: drawnId_mono)
qed

text \<open>A role change of one row that neither makes nor unmakes an owner, and the
  exchange of the owner's role.\<close>

lemma memInv_setRole:
  assumes i: "memInv E s" and m: "m \<in> set (members s)" "mem_role m \<noteq> Owner" "r \<noteq> Owner"
  shows "memInv E (setRole (mem_id m) r s)"
proof -
  have "countWhere (ownerOf w) (members (setRole (mem_id m) r s)) = countWhere (ownerOf w) (members s)" for w
    using countWhere_update_one [OF memInv_distinct [OF i] m(1), of "ownerOf w" "\<lambda>m. m\<lparr>mem_role := r\<rparr>"] m(2,3)
    by (auto simp: setRole_def ownerOf_def split: if_splits)
  then show ?thesis
    using i by (auto simp: memInv_def setRole_def set_updateMany map_updateMany)
qed

lemma memInv_exchange:
  assumes i: "memInv E s" and a: "a \<in> set (members s)" "ownerOf w a"
    and t: "t \<in> set (members s)" "mem_workspaceId t = w" "mem_deletedAt t = None" "mem_userId t \<noteq> mem_userId a"
  shows "memInv E (setRole (mem_id t) Owner (setRole (mem_id a) Admin s))"
proof -
  let ?fa = "\<lambda>m :: WorkspaceMember. m\<lparr>mem_role := Admin\<rparr>" and ?ft = "\<lambda>m :: WorkspaceMember. m\<lparr>mem_role := Owner\<rparr>"
  let ?rows = "updateMany (\<lambda>m. mem_id m = mem_id a) ?fa (members s)"
  have at: "mem_id t \<noteq> mem_id a"
    using memInv_distinct [OF i] a(1) t(1,4) by (auto simp: distinct_map inj_on_def)
  have one: "countWhere (ownerOf w) (members s) = 1"
    using i a memInv_member_ws [OF i a(1)] by (auto simp: memInv_def ownerOf_def)
  have to: "\<not> ownerOf w t"
    using one a t(1) at countWhere_delete_one [OF memInv_distinct [OF i] a(1), of "ownerOf w"]
      countWhere_pos [of t "deleteMany (\<lambda>m. mem_id m = mem_id a) (members s)" "ownerOf w"] by auto
  have d: "distinct (List.map mem_id ?rows)" and t': "t \<in> set ?rows"
    using memInv_distinct [OF i] t(1) at by (simp add: map_updateMany)
      (use t(1) at in \<open>force simp: set_updateMany\<close>)
  have own: "countWhere (ownerOf v) (updateMany (\<lambda>m. mem_id m = mem_id t) ?ft ?rows) = countWhere (ownerOf v) (members s)" for v
    using countWhere_update_one [OF memInv_distinct [OF i] a(1), of "ownerOf v" ?fa]
      countWhere_update_one [OF d t', of "ownerOf v" ?ft] a(2) t(2,3) to
    by (auto simp: ownerOf_def split: if_splits)
  show ?thesis
    using i own by (auto simp: memInv_def setRole_def set_updateMany map_updateMany)
qed

end
