(* ===== verification/Api_Invariants.thy ===== *)
theory Api_Invariants
  imports Workspaces
begin

text \<open>
  The authentication and workspace operations as one step relation on the state,
  with the invariants every reachable state satisfies: exactly one owner per
  workspace, at most one live session per rotation family.
\<close>

section \<open>Operations that leave memberships alone\<close>

definition mframe :: "world \<Rightarrow> world \<Rightarrow> bool" where
  "mframe s s' \<longleftrightarrow> members s' = members s \<and> workspaces s' = workspaces s \<and> invites s' = invites s
     \<and> idsDrawn s \<le> idsDrawn s'"

lemma mframe_refl [simp]: "mframe s s"
  by (simp add: mframe_def)

lemma mframe_trans: "mframe s t \<Longrightarrow> mframe t u \<Longrightarrow> mframe s u"
  by (auto simp: mframe_def)

lemma mframe_audit: "mframe s s' \<Longrightarrow> mframe s (auditLog E e s')"
  by (simp add: mframe_def)

lemma mframe_memInv: "memInv E s \<Longrightarrow> mframe s s' \<Longrightarrow> memInv E s'"
  using memInv_invites [of E s] by (auto simp: mframe_def intro: memInv_frame)

lemma mframe_revokeWhere: "mframe s s' \<Longrightarrow> mframe s (revokeWhere now p s')"
  by (simp add: mframe_def revokeWhere_def)

lemma mframe_issue: "issue E C now cl ctx s = (t, s') \<Longrightarrow> mframe s s'"
  by (auto simp: mframe_def issue_def Let_def drawn_def randomUsed_def)

lemma memInv_issue: "issue E C now cl ctx s = (t, s') \<Longrightarrow> memInv E s \<Longrightarrow> memInv E s'"
  by (blast intro: mframe_memInv mframe_issue)

lemma mframe_rotate: "mframe s (snd (rotate E C now tok ctx ov ex s))"
proof (cases rule: rotate_cases [of E C now tok ctx ov ex s])
  case (rotated r0 r s1 a)
  then have "mframe s s1"
    by (auto simp: mframe_def rotateSession_def Let_def drawn_def randomUsed_def revokeWhere_def)
  then show ?thesis using rotated by (simp add: mframe_audit)
qed (simp_all add: mframe_audit mframe_revokeWhere)

lemma mframe_rotate_eq: "rotate E C now tok ctx ov ex s = (r, s') \<Longrightarrow> mframe s s'"
  by (metis mframe_rotate snd_conv)

lemma mframe_redis [simp]:
  "mframe s (redisDel k s') = mframe s s'" "mframe s (incrementWithWindow now k W s') = mframe s s'"
  by (simp_all add: mframe_def redisDel_def incrementWithWindow_def redisIncr_def redisExpire_def redisSet_def Let_def
      split: option.split)

lemma mframe_throttle [simp]:
  "mframe s (recordAttempt key W now e ip s') = mframe s s'" "mframe s (resetAttempts e ip s') = mframe s s'"
  by (simp_all add: recordAttempt_def resetAttempts_def Let_def)

lemma mframe_resetAttempts_left [simp]: "mframe (resetAttempts e ip s) s' = mframe s s'"
  by (simp add: mframe_def resetAttempts_def redisDel_def Let_def)

lemma mframe_login: "mframe s (snd (login E C now em pw ctx s))"
  by (auto simp: login_def Let_def recordFailure_def split: option.split prod.split
      intro!: mframe_audit dest: mframe_issue)

lemma mframe_refresh: "mframe s (snd (refresh E C now tok ctx s))"
  by (auto simp: refresh_def split: prod.split sum.split option.split dest: mframe_rotate_eq)

lemma mframe_switch: "mframe s (snd (switchWorkspace E C now u w tok ctx s))"
  by (auto simp: switchWorkspace_def split: prod.split sum.split option.split dest: mframe_rotate_eq)

lemma mframe_logout: "mframe s (logout E now tok ctx s)"
  by (auto simp: logout_def revoke_def split: prod.split option.splits intro!: mframe_audit mframe_revokeWhere)

lemma mframe_logoutAll: "mframe s (logoutAll E now u ctx s)"
  by (simp add: logoutAll_def revokeAllForUser_def mframe_audit mframe_revokeWhere)

lemma mframe_requestReset: "mframe s (requestReset E C now em ctx s)"
  by (auto simp: requestReset_def Let_def recordResetRequest_def split: option.split)
     (auto simp: mframe_def drawn_def randomUsed_def auditLog_def recordAttempt_def Let_def
        incrementWithWindow_def redisIncr_def redisExpire_def redisSet_def split: option.split)

lemma mframe_upsert: "mframe s s' \<Longrightarrow> mframe s (upsertCredentials u h s')"
  by (auto simp: mframe_def upsertCredentials_def drawn_def)

lemma mframe_randomUsed [simp]: "mframe s (randomUsed s') = mframe s s'"
  by (simp add: mframe_def randomUsed_def)

lemma mframe_resetTx: "resetTx now f t h s' = (x, s'') \<Longrightarrow> mframe s s' \<Longrightarrow> mframe s s''"
  by (auto simp: resetTx_def Let_def revokeAllForUser_def split: if_splits
      intro!: mframe_revokeWhere mframe_upsert) (auto simp: mframe_def)

lemma mframe_resetPassword: "mframe s (snd (resetPassword E now f tok pw ctx s))"
proof -
  have "transactionO (resetTx now f t h) (randomUsed s) = (x, s1) \<Longrightarrow> mframe s s1" for t h x s1
    by (cases rule: transactionO_cases [of "resetTx now f t h" "randomUsed s"])
       (auto dest: mframe_resetTx [where s = s])
  then show ?thesis
    by (auto simp: resetPassword_def Let_def split: option.split prod.split sum.split intro!: mframe_audit)
qed

section \<open>Operations on memberships\<close>

lemma memInv_audit: "memInv E s \<Longrightarrow> memInv E (auditLog E e s)"
  by (erule mframe_memInv) (simp add: mframe_audit)

lemma memInv_register:
  assumes inj: "inj (uid E)" and i: "memInv E s"
  shows "memInv E (snd (register E C now dto ctx s))"
proof -
  have r: "memInv E (randomUsed s)" using i by (rule mframe_memInv) simp
  have tx: "memInv E s1" if "registerTx E now em dn pw (randomUsed s) = (Inr x, s1)" for em dn pw x s1
    by (rule memInv_addWorkspace [OF r inj, where w = "last (workspaces s1)" and m = "last (members s1)"
          and j = "idsDrawn s + 3" and k = "idsDrawn s + 4" and n = "idsDrawn s + 7"])
       (use that in \<open>auto simp: registerTx_def Let_def drawn_def randomUsed_def drawNth_def split: if_splits\<close>)
  have "memInv E s1" if "transactionO (registerTx E now em dn pw) (randomUsed s) = (x, s1)" for em dn pw x s1
    using that tx r
    by (cases rule: transactionO_cases [of "registerTx E now em dn pw" "randomUsed s"]) auto
  then show ?thesis
    using i
    by (auto simp: register_def Let_def split: prod.split sum.split intro!: memInv_audit
          intro: memInv_issue)
qed

lemma memInv_createWorkspace:
  assumes inj: "inj (uid E)" and i: "memInv E s"
  shows "memInv E (snd (createWorkspace E C now u org name ctx s))"
proof -
  have tx: "memInv E s1" if "createWorkspaceTx E now u org name s = (Inr x, s1)" for x s1
    by (rule memInv_addWorkspace [OF i inj, where w = "last (workspaces s1)" and m = "last (members s1)"
          and j = "idsDrawn s" and k = "idsDrawn s + 1" and n = "idsDrawn s + 2"])
       (use that in \<open>auto simp: createWorkspaceTx_def newMember_def Let_def drawn_def drawNth_def split: if_splits\<close>)
  have "memInv E s1" if "transactionO (createWorkspaceTx E now u org name) s = (x, s1)" for x s1
    using that tx i by (cases rule: transactionO_cases [of "createWorkspaceTx E now u org name" s]) auto
  then show ?thesis
    by (auto simp: createWorkspace_def Let_def split: prod.split sum.split intro!: memInv_audit
          intro: memInv_issue)
qed

lemma memInv_invite: "memInv E s \<Longrightarrow> r \<noteq> Owner \<Longrightarrow> memInv E (snd (invite E now w u em r s))"
  using memInv_invites [of E s]
  by (auto simp: invite_def Let_def drawn_def randomUsed_def intro!: memInv_audit memInv_frame [of E s])

lemma memInv_acceptInvite:
  assumes inj: "inj (uid E)" and i: "memInv E s"
  shows "memInv E (snd (acceptInvite E C now ic u ctx s))"
proof -
  have tx: "memInv E s1" if "acceptInviteTx E now iv u s = (Inr x, s1)"
    and "iv \<in> set (invites s)" "inv_workspaceId iv \<in> ws_id ` set (workspaces s)" for iv x s1
    by (rule memInv_addMember [OF i inj, where m = "last (members s1)"])
       (use that i in \<open>auto simp: acceptInviteTx_def newMember_def Let_def drawn_def draw_def set_updateMany memInv_def
          split: if_splits\<close>)
  have "memInv E s1" if "transactionO (acceptInviteTx E now iv u) s = (x, s1)"
    and "iv \<in> set (invites s)" "inv_workspaceId iv \<in> ws_id ` set (workspaces s)" for iv x s1
    using that tx i by (cases rule: transactionO_cases [of "acceptInviteTx E now iv u" s]) auto
  moreover have "findFirst (\<lambda>i. inv_codeHash i = h) (invites s) = Some iv \<Longrightarrow> iv \<in> set (invites s)" for h iv
    by (auto dest: findFirst_SomeD)
  moreover have "findFirst (\<lambda>x. ws_deletedAt x = None \<and> ws_id x = v) (workspaces s) = Some y \<Longrightarrow>
      v \<in> ws_id ` set (workspaces s)" for v y
    by (auto dest: findFirst_SomeD)
  ultimately show ?thesis
    using i
    by (auto simp: acceptInvite_def Let_def split: option.split prod.split sum.split intro!: memInv_audit
          intro: memInv_issue)
qed

lemma memberById_SomeD:
  "memberById s w i = Some m \<Longrightarrow> m \<in> set (members s) \<and> mem_id m = i \<and> mem_workspaceId m = w \<and> mem_deletedAt m = None"
  by (auto simp: memberById_def dest: findFirst_SomeD)

lemma changeMemberRoleCheck_Inr:
  "changeMemberRoleCheck w u r i s = Inr t \<Longrightarrow> memberById s w i = Some t \<and> mem_role t \<noteq> Owner \<and>
     mem_userId t \<noteq> u \<and> (r = Admin \<longrightarrow> mem_role t = Member)"
  by (auto simp: changeMemberRoleCheck_def split: option.splits if_splits)

lemma removeMemberCheck_Inr:
  "removeMemberCheck w u r i s = Inr t \<Longrightarrow> memberById s w i = Some t \<and> mem_role t \<noteq> Owner \<and>
     mem_userId t \<noteq> u \<and> (r = Admin \<longrightarrow> mem_role t = Member)"
  by (auto simp: removeMemberCheck_def split: option.splits if_splits)

lemma memInv_changeMemberRole:
  "memInv E s \<Longrightarrow> newRole \<noteq> Owner \<Longrightarrow> memInv E (snd (changeMemberRole E w u r i newRole s))"
  by (auto simp: changeMemberRole_def split: sum.split intro!: memInv_audit memInv_setRole
      dest!: changeMemberRoleCheck_Inr memberById_SomeD)

lemma memInv_removeMember:
  assumes i: "memInv E s"
  shows "memInv E (snd (removeMember E w u r mid s))"
proof (cases "removeMemberCheck w u r mid s")
  case (Inr t)
  then have t: "t \<in> set (members s)" "mem_role t \<noteq> Owner"
    by (auto dest!: removeMemberCheck_Inr memberById_SomeD)
  have "m = t" if "m \<in> set (members s)" "mem_id m = mem_id t" for m
    using that t(1) memInv_distinct [OF i] by (auto simp: distinct_map inj_on_def)
  then have "memInv E (disconnectMember w (mem_userId t)
      (s\<lparr>members := deleteMany (\<lambda>m. mem_id m = mem_id t) (members s)\<rparr>))"
    using t(2) by (intro memInv_deleteMembers [OF i]) (auto simp: disconnectMember_def)
  then show ?thesis using Inr by (simp add: removeMember_def memInv_audit)
qed (use i in \<open>simp add: removeMember_def\<close>)

lemma memInv_leave:
  assumes i: "memInv E s"
  shows "memInv E (snd (leave E w u s))"
proof (cases "liveMembership s w u")
  case (Some m)
  note m = liveMembership_SomeD [OF Some]
  have "x = m" if "x \<in> set (members s)" "mem_workspaceId x = w" "mem_userId x = u" for x
    using that m i by (auto simp: memInv_def distinct_map inj_on_def memKey_def)
  then have "memInv E (disconnectMember w u
      (s\<lparr>members := deleteMany (\<lambda>m. mem_workspaceId m = w \<and> mem_userId m = u) (members s)\<rparr>))"
    if "mem_role m \<noteq> Owner"
    using that by (intro memInv_deleteMembers [OF i]) (auto simp: disconnectMember_def)
  then show ?thesis using Some i by (simp add: leave_def memInv_audit)
qed (use i in \<open>simp add: leave_def\<close>)

lemma transferOwnershipTx_Inr:
  assumes "transferOwnershipTx w u v s = (Inr x, s')"
  obtains a t where "a \<in> set (members s)" "ownerOf w a" "mem_userId a = u"
    "liveMembership s w v = Some t" "s' = setRole (mem_id t) Owner (setRole (mem_id a) Admin s)"
  using assms by (auto simp: transferOwnershipTx_def ownerOf_def split: if_splits option.splits dest!: findFirst_SomeD)

lemma memInv_transferOwnership:
  assumes i: "memInv E s"
  shows "memInv E (snd (transferOwnership E w u v s))"
proof (cases "u = v")
  case False
  have tx: "memInv E s'" if tx: "transferOwnershipTx w u v s = (Inr x, s')" for x s'
  proof -
    obtain a t where a: "a \<in> set (members s)" "ownerOf w a" "mem_userId a = u"
      "liveMembership s w v = Some t" "s' = setRole (mem_id t) Owner (setRole (mem_id a) Admin s)"
      using tx by (rule transferOwnershipTx_Inr)
    then show ?thesis
      using False liveMembership_SomeD [OF a(4)] by (auto intro!: memInv_exchange [OF i])
  qed
  have "memInv E s1" if "transactionO (transferOwnershipTx w u v) s = (x, s1)" for x s1
    using that tx i by (cases rule: transactionO_cases [of "transferOwnershipTx w u v" s]) auto
  then show ?thesis
    using False by (auto simp: transferOwnership_def split: prod.split sum.split intro: memInv_audit)
qed (use i in \<open>simp add: transferOwnership_def\<close>)

section \<open>Deletion\<close>

lemma getSecret_frame:
  "getSecret E ref cx s = (r, s') \<Longrightarrow> mframe s s' \<and> sessions s' = sessions s \<and> linkedAccounts s' = linkedAccounts s"
  by (drule getSecret_state) (auto simp: mframe_audit)

lemma cleanup_frame:
  "cleanupConnectors E f w u as s = (rs, s') \<Longrightarrow> mframe s s' \<and> sessions s' = sessions s"
proof (induction E f w u as s arbitrary: rs s' rule: cleanupConnectors.induct)
  case (2 E f w u a rest s)
  let ?cx = "\<lparr>cac_workspaceId = w, cac_actorType = ''user'', cac_actorUserId = Some u, cac_audit = True\<rparr>"
  define step where "step = (if providerKey s (la_providerId a) = ''telegram'' then
      (case getSecret E (la_credentialsRef a) ?cx s of (Inl e, s') \<Rightarrow> (False, s') | (Inr token, s') \<Rightarrow> (f token, s'))
    else if providerKey s (la_providerId a) = ''discord''
      then (True, s\<lparr>gateways := deleteMany (\<lambda>g. g = la_id a) (gateways s)\<rparr>) else (True, s))"
  obtain b s1 where st: "step = (b, s1)" by (cases step)
  have s1: "mframe s s1 \<and> sessions s1 = sessions s"
    using st getSecret_frame unfolding step_def
    by (auto simp: mframe_def split: if_splits prod.splits sum.splits)
  obtain rs1 s2 where r: "cleanupConnectors E f w u rest s1 = (rs1, s2)" by fastforce
  have "mframe s1 s2 \<and> sessions s2 = sessions s1"
    using "2.IH" [OF refl _ _ r] st[symmetric] unfolding step_def by (metis (no_types, lifting) prod.collapse)
  moreover have "s' = s2"
    using "2.prems" st r unfolding step_def by (auto simp: Let_def split: prod.splits if_splits)
  ultimately show ?case using s1 by (auto intro: mframe_trans)
qed simp

lemma erase_memInv:
  assumes i: "memInv E s"
    and s': "members s' = deleteMany (\<lambda>r. mem_workspaceId r = w) (members s)"
      "workspaces s' = deleteMany (\<lambda>r. ws_id r = w) (workspaces s)"
      "invites s' = deleteMany (\<lambda>r. inv_workspaceId r = w) (invites s)" "idsDrawn s' = idsDrawn s"
  shows "memInv E s'"
proof -
  have "countWhere (ownerOf v) (deleteMany (\<lambda>r. mem_workspaceId r = w) (members s)) = countWhere (ownerOf v) (members s)"
    if "v \<noteq> w" for v
    using that by (intro countWhere_deleteMany_same) (auto simp: ownerOf_def)
  then show ?thesis
    using i by (auto simp: memInv_def s' distinct_map_deleteMany)
qed

lemma erase_sessInv:
  assumes i: "sessInv E s" and s': "sessions s' = deleteMany p (sessions s)" "idsDrawn s \<le> idsDrawn s'"
  shows "sessInv E s'"
proof -
  have "countWhere q (deleteMany p rows) \<le> countWhere q rows" for q and rows :: "Session list"
    by (induction rows) auto
  then have "\<forall>fam. countWhere (liveInFamily fam) (sessions s') \<le> 1"
    using i s'(1) by (auto simp: sessInv_def intro: le_trans)
  then show ?thesis
    using i s' unfolding sessInv_def by (auto intro: less_le_trans) (meson less_le_trans)
qed

lemma deleteWorkspaceTx_Inr:
  assumes "deleteWorkspaceTx w u req org as s = (Inr x, s')"
  shows "members s' = deleteMany (\<lambda>r. mem_workspaceId r = w) (members s)"
    "workspaces s' = deleteMany (\<lambda>r. ws_id r = w) (workspaces s)"
    "invites s' = deleteMany (\<lambda>r. inv_workspaceId r = w) (invites s)" "idsDrawn s' = idsDrawn s"
    "sessions s' = deleteMany (\<lambda>r. ses_workspaceId r = w) (sessions s)"
  using assms by (auto simp: deleteWorkspaceTx_def eraseWorkspace_def Let_def split: if_splits)

lemma deleteWorkspace_inv:
  assumes m: "memInv E s" and t: "sessInv E s"
  shows "memInv E (snd (deleteWorkspace E f w u req s)) \<and> sessInv E (snd (deleteWorkspace E f w u req s))"
proof -
  have tx: "memInv E s2 \<and> sessInv E s2"
    if "transactionO (deleteWorkspaceTx w u req org as) (snd (cleanupConnectors E f w u as' s)) = (x, s2)" for org as as' x s2
  proof -
    obtain rs s1 where c: "cleanupConnectors E f w u as' s = (rs, s1)" by fastforce
    have s1: "memInv E s1" "sessInv E s1"
      using cleanup_frame [OF c] m t by (auto intro: mframe_memInv sessInv_frame simp: mframe_def)
    show ?thesis
    proof (cases rule: transactionO_cases [of "deleteWorkspaceTx w u req org as" s1])
      case (committed y s3)
      then show ?thesis
        using that c s1 deleteWorkspaceTx_Inr [OF committed(1)]
        by (auto intro: erase_memInv erase_sessInv)
    qed (use that c s1 in auto)
  qed
  have "mframe s2 (snd (purgeWorkspaceJobs v (disconnectWorkspace v s2)))"
    "sessions (snd (purgeWorkspaceJobs v (disconnectWorkspace v s2))) = sessions s2" for v s2
    by (simp_all add: mframe_def purgeWorkspaceJobs_def disconnectWorkspace_def)
  then have "memInv E s2 \<and> sessInv E s2 \<Longrightarrow> memInv E (snd (purgeWorkspaceJobs v (disconnectWorkspace v s2))) \<and>
      sessInv E (snd (purgeWorkspaceJobs v (disconnectWorkspace v s2)))" for v s2
    by (auto intro: mframe_memInv sessInv_frame simp: mframe_def)
  then show ?thesis
    using m t tx
    by (auto simp: deleteWorkspace_def Let_def split: option.split prod.split sum.split
        intro!: memInv_audit sessInv_auditLog)
qed

section \<open>The step relation\<close>

lemma sessInv_same: "sessInv E s \<Longrightarrow> sessions s' = sessions s \<Longrightarrow> mframe s s' \<or> idsDrawn s \<le> idsDrawn s' \<Longrightarrow> sessInv E s'"
  by (auto intro: sessInv_frame simp: mframe_def)

lemma sessInv_createWorkspace:
  assumes "inj (uid E)" "sessInv E s"
  shows "sessInv E (snd (createWorkspace E C now u org name ctx s))"
proof -
  have "sessInv E s1" if "transactionO (createWorkspaceTx E now u org name) s = (x, s1)" for x s1
    using that assms(2) by (auto simp: transactionO_def createWorkspaceTx_def Let_def drawn_def elim!: sessInv_frame)
  then show ?thesis
    using assms by (auto simp: createWorkspace_def split: prod.split sum.split intro!: sessInv_auditLog dest: issue_eq)
qed

lemma sessInv_acceptInvite:
  assumes "inj (uid E)" "sessInv E s"
  shows "sessInv E (snd (acceptInvite E C now ic u ctx s))"
proof -
  have "sessInv E s1" if "transactionO (acceptInviteTx E now iv u) s = (x, s1)" for iv x s1
    using that assms(2)
    by (auto simp: transactionO_def acceptInviteTx_def Let_def drawn_def elim!: sessInv_frame split: if_splits)
  then show ?thesis
    using assms
    by (auto simp: acceptInvite_def split: option.split prod.split sum.split intro!: sessInv_auditLog dest: issue_eq)
qed

lemma sessions_membership:
  "sessions (snd (invite E now w u em r s)) = sessions s" "idsDrawn s \<le> idsDrawn (snd (invite E now w u em r s))"
  "sessions (snd (changeMemberRole E w u r i nr s)) = sessions s"
  "idsDrawn s \<le> idsDrawn (snd (changeMemberRole E w u r i nr s))"
  "sessions (snd (removeMember E w u r i s)) = sessions s"
  "idsDrawn s \<le> idsDrawn (snd (removeMember E w u r i s))"
  "sessions (snd (leave E w u s)) = sessions s" "idsDrawn s \<le> idsDrawn (snd (leave E w u s))"
  "sessions (snd (transferOwnership E w u v s)) = sessions s"
  "idsDrawn s \<le> idsDrawn (snd (transferOwnership E w u v s))"
  by (auto simp: invite_def changeMemberRole_def removeMember_def leave_def transferOwnership_def Let_def
      setRole_def disconnectMember_def drawn_def transactionO_def transferOwnershipTx_def randomUsed_def
      split: sum.splits option.splits prod.splits if_splits)

text \<open>One request to the authentication or workspace endpoints, at any time, by
  anyone. The request bodies' role is admin or member, as the DTOs require.\<close>

inductive api_step :: "env \<Rightarrow> authConfig \<Rightarrow> world \<Rightarrow> world \<Rightarrow> bool" for E C where
  step_register: "api_step E C s (snd (register E C now dto ctx s))"
| step_login: "api_step E C s (snd (login E C now em pw ctx s))"
| step_refresh: "api_step E C s (snd (refresh E C now tok ctx s))"
| step_switch: "api_step E C s (snd (switchWorkspace E C now u w tok ctx s))"
| step_logout: "api_step E C s (logout E now tok ctx s)"
| step_logoutAll: "api_step E C s (logoutAll E now u ctx s)"
| step_requestReset: "api_step E C s (requestReset E C now em ctx s)"
| step_resetPassword: "api_step E C s (snd (resetPassword E now fault tok pw ctx s))"
| step_createWorkspace: "api_step E C s (snd (createWorkspace E C now u org name ctx s))"
| step_invite: "r \<noteq> Owner \<Longrightarrow> api_step E C s (snd (invite E now w u email r s))"
| step_acceptInvite: "api_step E C s (snd (acceptInvite E C now ic u ctx s))"
| step_changeRole: "nr \<noteq> Owner \<Longrightarrow> api_step E C s (snd (changeMemberRole E w u r i nr s))"
| step_remove: "api_step E C s (snd (removeMember E w u r i s))"
| step_leave: "api_step E C s (snd (leave E w u s))"
| step_transfer: "api_step E C s (snd (transferOwnership E w u v s))"
| step_delete: "api_step E C s (snd (deleteWorkspace E f w u req s))"

lemma api_step_inv:
  assumes "api_step E C s s'" "inj (uid E)" "memInv E s \<and> sessInv E s"
  shows "memInv E s' \<and> sessInv E s'"
  using assms
proof (induction rule: api_step.induct)
  case (step_delete s f w u req)
  then show ?case using deleteWorkspace_inv by blast
qed (auto intro: memInv_register memInv_createWorkspace memInv_invite memInv_acceptInvite
      memInv_changeMemberRole memInv_removeMember memInv_leave memInv_transferOwnership
      mframe_memInv [OF _ mframe_login] mframe_memInv [OF _ mframe_refresh] mframe_memInv [OF _ mframe_switch]
      mframe_memInv [OF _ mframe_logout] mframe_memInv [OF _ mframe_logoutAll]
      mframe_memInv [OF _ mframe_requestReset] mframe_memInv [OF _ mframe_resetPassword]
      sessInv_register sessInv_login sessInv_refresh sessInv_switchWorkspace sessInv_logout sessInv_logoutAll
      sessInv_requestReset sessInv_resetPassword sessInv_createWorkspace sessInv_acceptInvite
      sessInv_frame [OF _ sessions_membership(1,2)] sessInv_frame [OF _ sessions_membership(3,4)]
      sessInv_frame [OF _ sessions_membership(5,6)] sessInv_frame [OF _ sessions_membership(7,8)]
      sessInv_frame [OF _ sessions_membership(9,10)])

lemma api_reachable_inv:
  assumes "(api_step E C)\<^sup>*\<^sup>* s0 s" "inj (uid E)" "memInv E s0 \<and> sessInv E s0"
  shows "memInv E s \<and> sessInv E s"
  using assms by (induction rule: rtranclp_induct) (auto dest: api_step_inv)

end
