(* ===== verification/Workspace_Properties.thy ===== *)
theory Workspace_Properties
  imports Api_Invariants
begin

text \<open>
  The properties of sessions and workspaces that hold in every reachable state,
  invites as single-use codes, the authority of roles, the ownership race, and
  what deletion erases.
\<close>

section \<open>Invites\<close>

lemma acceptInvite_Inr:
  assumes "acceptInvite E C now ic u ctx s = (Inr x, s1)"
  obtains iv usr wsp s2 where "findFirst (\<lambda>i. inv_codeHash i = sha256 E ic) (invites s) = Some iv"
    "inv_usedAt iv = None" "inv_revokedAt iv = None" "now \<le> inv_expiresAt iv"
    "findFirst (\<lambda>x. usr_deletedAt x = None \<and> usr_id x = u) (users s) = Some usr"
    "nonEmpty (inv_email iv) \<longrightarrow> the (inv_email iv) = normalizeEmail (usr_email usr)"
    "findFirst (\<lambda>w. ws_deletedAt w = None \<and> ws_id w = inv_workspaceId iv) (workspaces s) = Some wsp"
    "liveMembership s (inv_workspaceId iv) u = None"
    "acceptInviteTx E now iv u s = (Inr (), s2)" "members s1 = members s2" "invites s1 = invites s2"
    "snd x = (inv_workspaceId iv, inv_role iv)"
    "is_accessToken (fst x) = signJwt E \<lparr>jwt_sub = u, jwt_workspaceId = inv_workspaceId iv,
       jwt_orgId = ws_organizationId wsp, jwt_role = inv_role iv\<rparr> (now + accessTokenTtlSeconds C * 1000)"
proof (cases "findFirst (\<lambda>i. inv_codeHash i = sha256 E ic) (invites s)")
  case None
  then show ?thesis using assms by (simp add: acceptInvite_def split: if_splits)
next
  case (Some iv)
  note iv = Some
  have live: "inv_usedAt iv = None" "inv_revokedAt iv = None" "now \<le> inv_expiresAt iv" "trim ic \<noteq> []"
    using assms by (auto simp: acceptInvite_def iv split: if_splits)
  obtain usr where usr: "findFirst (\<lambda>x. usr_deletedAt x = None \<and> usr_id x = u) (users s) = Some usr"
    using assms live by (auto simp: acceptInvite_def iv split: if_splits option.splits)
  have em: "nonEmpty (inv_email iv) \<longrightarrow> the (inv_email iv) = normalizeEmail (usr_email usr)"
    using assms live usr by (simp add: acceptInvite_def iv split: if_splits)
  obtain wsp where wsp: "findFirst (\<lambda>w. ws_deletedAt w = None \<and> ws_id w = inv_workspaceId iv) (workspaces s) = Some wsp"
    using assms live usr em by (cases "findFirst (\<lambda>w. ws_deletedAt w = None \<and> ws_id w = inv_workspaceId iv) (workspaces s)")
      (simp_all add: acceptInvite_def iv split: if_splits)
  have lm: "liveMembership s (inv_workspaceId iv) u = None"
    using assms live usr em wsp by (simp add: acceptInvite_def iv split: if_splits)
  obtain r s2 where tx: "acceptInviteTx E now iv u s = (r, s2)" by fastforce
  obtain t s3 where t: "issue E C now \<lparr>jwt_sub = u, jwt_workspaceId = inv_workspaceId iv,
      jwt_orgId = ws_organizationId wsp, jwt_role = inv_role iv\<rparr> ctx s2 = (t, s3)" by fastforce
  have r: "r = Inr ()" and x: "x = (t, inv_workspaceId iv, inv_role iv)"
    and s1: "members s1 = members s3" "invites s1 = invites s3"
    using assms live usr em wsp lm tx t
    by (auto simp: acceptInvite_def iv transactionO_def split: if_splits sum.splits)
  show ?thesis
    by (rule that [OF iv live(1-3) usr em wsp lm tx [unfolded r]])
       (use t s1 x in \<open>auto simp: issue_def signAccessToken_def Let_def\<close>)
qed

lemma acceptInviteTx_Inr:
  assumes "acceptInviteTx E now iv u s = (Inr x, s2)"
  shows "members s2 = members s @ [newMember (draw E s) now (inv_workspaceId iv) u (inv_role iv) (inv_invitedByUserId iv)]"
    "invites s2 = updateMany (\<lambda>i. inv_id i = inv_id iv \<and> inv_usedAt i = None \<and> inv_revokedAt i = None)
       (\<lambda>i. i\<lparr>inv_usedByUserId := Some u, inv_usedAt := Some now\<rparr>) (invites s)"
  using assms by (auto simp: acceptInviteTx_def Let_def draw_def drawn_def split: if_splits)

definition inviteSpent :: "env \<Rightarrow> string \<Rightarrow> world \<Rightarrow> bool" where
  "inviteSpent E ic s = (case findFirst (\<lambda>i. inv_codeHash i = sha256 E ic) (invites s) of
     None \<Rightarrow> False | Some i \<Rightarrow> inv_usedAt i \<noteq> None)"

definition inviteAttempt ::
  "env \<Rightarrow> authConfig \<Rightarrow> string \<Rightarrow> instant \<times> uuid \<times> RequestContext \<Rightarrow> world \<Rightarrow> bool \<times> world" where
  "inviteAttempt E C ic a s = (case a of (now, u, ctx) \<Rightarrow>
     (case acceptInvite E C now ic u ctx s of (r, s') \<Rightarrow> (\<not> isl r, s')))"

interpretation inviteCode: single_use "inviteAttempt E C ic" "inviteSpent E ic" for E C ic
proof unfold_locales
  fix a s s'
  assume r: "inviteAttempt E C ic a s = (True, s')"
  obtain now u ctx where a: "a = (now, u, ctx)" by (cases a)
  obtain x where x: "acceptInvite E C now ic u ctx s = (x, s')" "\<not> isl x"
    using r a by (cases "acceptInvite E C now ic u ctx s") (simp add: inviteAttempt_def)
  then obtain y where y: "acceptInvite E C now ic u ctx s = (Inr y, s')"
    by (cases x) simp_all
  show "\<not> inviteSpent E ic s \<and> inviteSpent E ic s'"
    by (rule acceptInvite_Inr [OF y])
       (auto simp: inviteSpent_def findFirst_updateMany dest!: acceptInviteTx_Inr)
next
  fix a s
  assume "inviteSpent E ic s"
  then show "fst (inviteAttempt E C ic a s) = False \<and> inviteSpent E ic (snd (inviteAttempt E C ic a s))"
    by (auto simp: inviteAttempt_def inviteSpent_def acceptInvite_def split: prod.splits option.splits)
qed

section \<open>What a workspace owns\<close>

text \<open>The rows with a workspace column that belong to one workspace.\<close>

definition workspaceData where
  "workspaceData v s =
    ((filter (\<lambda>r. ntf_workspaceId r = v) (notifications s), filter (\<lambda>r. mas_workspaceId r = v) (aiSummaries s),
      filter (\<lambda>r. msg_workspaceId r = v) (messages s), filter (\<lambda>r. rel_workspaceId r = v) (executionLogs s),
      filter (\<lambda>r. sj_workspaceId r = v) (scheduledJobs s), filter (\<lambda>r. sm_workspaceId r = v) (scheduledMessages s),
      filter (\<lambda>r. cnv_workspaceId r = v) (conversations s)),
     (filter (\<lambda>r. cid_workspaceId r = v) (contactIdentities s), filter (\<lambda>r. ims_workspaceId r = v) (mergeSuggestions s),
      filter (\<lambda>r. iml_workspaceId r = v) (mergeLogs s), filter (\<lambda>r. isl_workspaceId r = v) (splitLogs s),
      filter (\<lambda>r. con_workspaceId r = v) (contacts s), filter (\<lambda>r. rul_workspaceId r = v) (rules s)),
     (filter (\<lambda>r. la_workspaceId r = v) (linkedAccounts s), filter (\<lambda>r. npf_workspaceId r = v) (notificationPreferences s),
      filter (\<lambda>r. psub_workspaceId r = v) (pushSubscriptions s), filter (\<lambda>r. inv_workspaceId r = v) (invites s)),
     (filter (\<lambda>r. ses_workspaceId r = v) (sessions s), filter (\<lambda>r. mem_workspaceId r = v) (members s),
      filter (\<lambda>r. ws_id r = v) (workspaces s)))"

definition noData where
  "noData = (([] :: Notification list, [] :: MessageAiSummary list, [] :: Message list, [] :: RuleExecutionLog list,
      [] :: ScheduledJob list, [] :: ScheduledMessage list, [] :: Conversation list),
     ([] :: ContactIdentity list, [] :: IdentityMergeSuggestion list, [] :: IdentityMergeLog list,
      [] :: IdentitySplitLog list, [] :: Contact list, [] :: Rule list),
     ([] :: LinkedAccount list, [] :: NotificationPreference list, [] :: PushSubscription list, [] :: WorkspaceInvite list),
     ([] :: Session list, [] :: WorkspaceMember list, [] :: Workspace list))"

lemma filter_deleteMany_same: "filter (\<lambda>r. g r = v) (deleteMany (\<lambda>r. g r = v) rows) = []"
  by (induction rows) auto

lemma filter_deleteMany_other: "v \<noteq> w \<Longrightarrow> filter (\<lambda>r. g r = v) (deleteMany (\<lambda>r. g r = w) rows) = filter (\<lambda>r. g r = v) rows"
  by (induction rows) auto

lemma workspaceData_erase:
  "workspaceData w (eraseWorkspace w accounts s) = noData"
  "v \<noteq> w \<Longrightarrow> workspaceData v (eraseWorkspace w accounts s) = workspaceData v s"
  by (simp_all add: workspaceData_def noData_def eraseWorkspace_def filter_deleteMany_same filter_deleteMany_other)

lemma workspaceData_frame [simp]:
  "workspaceData v (auditLog E e s) = workspaceData v s"
  "workspaceData v (s\<lparr>gateways := g\<rparr>) = workspaceData v s"
  "workspaceData v (s\<lparr>creditLedger := c\<rparr>) = workspaceData v s"
  "workspaceData v (s\<lparr>organizations := os\<rparr>) = workspaceData v s"
  "workspaceData v (disconnectWorkspace w s) = workspaceData v s"
  "workspaceData v (snd (purgeWorkspaceJobs w s)) = workspaceData v s"
  by (simp_all add: workspaceData_def auditLog_def drawn_def disconnectWorkspace_def purgeWorkspaceJobs_def)

lemma workspaceData_getSecret: "getSecret E ref cx s = (r, s') \<Longrightarrow> workspaceData v s' = workspaceData v s"
  by (drule getSecret_state) auto

lemma workspaceData_cleanup:
  "workspaceData v (snd (cleanupConnectors E f w u as s)) = workspaceData v s"
proof (induction E f w u as s rule: cleanupConnectors.induct)
  case (2 E f w u a rest s)
  let ?cx = "\<lparr>cac_workspaceId = w, cac_actorType = ''user'', cac_actorUserId = Some u, cac_audit = True\<rparr>"
  obtain r s' where g: "getSecret E (la_credentialsRef a) ?cx s = (r, s')" by fastforce
  have "workspaceData v (snd (cleanupConnectors E f w u rest s')) = workspaceData v s'"
    if "providerKey s (la_providerId a) = ''telegram''"
    using "2.IH" g that by (cases r) auto
  moreover have "workspaceData v (snd (cleanupConnectors E f w u rest s1)) = workspaceData v s1"
    if "providerKey s (la_providerId a) \<noteq> ''telegram''"
      "s1 = (if providerKey s (la_providerId a) = ''discord'' then s\<lparr>gateways := deleteMany (\<lambda>g. g = la_id a) (gateways s)\<rparr> else s)" for s1
    using "2.IH" that by auto
  ultimately show ?case
    using workspaceData_getSecret [OF g] g by (auto simp: Let_def split: prod.split sum.split)
qed simp

lemma eraseWorkspace_secrets:
  "secretRecords (eraseWorkspace w accounts s) =
     deleteMany (\<lambda>r. sec_id r \<in> la_credentialsRef ` set accounts) (secretRecords s)"
  by (simp add: eraseWorkspace_def)

lemma deleteWorkspaceTx_data:
  assumes "deleteWorkspaceTx w u req org accounts s = (Inr x, s')"
  shows "workspaceData w s' = noData" "v \<noteq> w \<Longrightarrow> workspaceData v s' = workspaceData v s"
    "\<forall>r\<in>set (secretRecords s'). sec_id r \<notin> la_credentialsRef ` set accounts"
  using assms
  by (auto simp: deleteWorkspaceTx_def Let_def workspaceData_erase eraseWorkspace_secrets split: if_splits)

lemma deleteWorkspace_Inr:
  assumes "deleteWorkspace E f w u req s = (Inr x, s1)"
  obtains wsp :: Workspace and s2 e where
    "deleteWorkspaceTx w u req (ws_organizationId wsp)
       (filter (\<lambda>a. la_deletedAt a = None \<and> la_workspaceId a = w) (linkedAccounts s))
       (snd (cleanupConnectors E f w u (filter (\<lambda>a. la_deletedAt a = None \<and> la_workspaceId a = w) (linkedAccounts s)) s))
     = (Inr (), s2)"
    "s1 = auditLog E e (snd (purgeWorkspaceJobs w (disconnectWorkspace w s2)))"
    "\<exists>m. liveMembership s w u = Some m \<and> mem_role m = Owner"
proof -
  let ?as = "filter (\<lambda>a. la_deletedAt a = None \<and> la_workspaceId a = w) (linkedAccounts s)"
  obtain m where m: "liveMembership s w u = Some m" "mem_role m = Owner"
    using assms by (auto simp: deleteWorkspace_def split: option.splits if_splits)
  obtain wsp where wsp: "findFirst (\<lambda>x. ws_deletedAt x = None \<and> ws_id x = w) (workspaces s) = Some wsp"
    using assms m by (auto simp: deleteWorkspace_def split: option.splits)
  obtain r s2 where tx: "deleteWorkspaceTx w u req (ws_organizationId wsp) ?as
      (snd (cleanupConnectors E f w u ?as s)) = (r, s2)" by fastforce
  show ?thesis
  proof (cases r)
    case (Inr y)
    then show ?thesis
      using assms m wsp tx by (intro that [of wsp s2]) (auto simp: deleteWorkspace_def transactionO_def Let_def)
  qed (use assms m wsp tx in \<open>auto simp: deleteWorkspace_def transactionO_def Let_def\<close>)
qed

lemma deleteWorkspace_Inl:
  assumes "deleteWorkspace E f w u req s = (Inl e, s1)"
  shows "workspaceData v s1 = workspaceData v s"
  using assms
  by (auto simp: deleteWorkspace_def Let_def transactionO_def workspaceData_cleanup
      split: option.splits if_splits prod.splits sum.splits)

lemma drawnId_sample: "drawnId sampleEnv n i \<longleftrightarrow> 0 < i \<and> i \<le> n"
proof -
  have "0 < i \<Longrightarrow> i \<le> n \<Longrightarrow> i - 1 < n \<and> i = i - 1 + 1" by simp
  then show ?thesis unfolding drawnId_def sampleEnv_def by auto
qed

lemma sampleState_memInv: "memInv sampleEnv sampleState"
proof -
  have "ownerOf 11 (sampleMember 31 11 1 Owner)" "\<not> ownerOf 11 (sampleMember 32 11 2 Member)"
    by (simp_all add: ownerOf_def sampleMember_def)
  then show ?thesis
    by (simp add: memInv_def drawnId_sample sampleState_def emptyWorld_def)
       (simp add: memKey_def sampleMember_def)
qed

text \<open>The sample state with a third user and an open invite.\<close>

definition inviteState :: world where
  "inviteState = sampleState\<lparr>users := [sampleUser 3 ''cyd@x''],
     invites := [\<lparr>inv_id = 71, inv_workspaceId = 11, inv_email = None, inv_role = Admin, inv_codeHash = ''hcode'',
       inv_invitedByUserId = Some 1, inv_expiresAt = 1000, inv_usedAt = None, inv_usedByUserId = None,
       inv_revokedAt = None\<rparr>]\<rparr>"

lemma inviteState_memInv: "memInv sampleEnv inviteState"
  by (rule memInv_frame [OF sampleState_memInv]) (simp_all add: inviteState_def)

lemma emptyWorld_inv: "memInv E emptyWorld \<and> sessInv E emptyWorld"
  by (simp add: memInv_def sessInv_def emptyWorld_def)

section \<open>Properties\<close>





text \<open>C37: a role change is not atomic with its check. If ownership is transferred to
  the member between the check and the write, the write demotes the new owner and
  the workspace is left without any.\<close>

theorem role_change_race_removes_owner:
  assumes i: "memInv E s" and c: "changeMemberRoleCheck w actor actorRole mid s = Inr t"
    and tx: "transferOwnershipTx w owner (mem_userId t) s = (Inr x, s1)" and r: "newRole \<noteq> Owner" "owner \<noteq> mem_userId t"
  shows "countWhere (ownerOf w) (members (setRole (mem_id t) newRole s1)) = 0"
proof -
  have t: "t \<in> set (members s)" "mem_workspaceId t = w" "mem_deletedAt t = None"
    using c by (auto dest!: changeMemberRoleCheck_Inr memberById_SomeD)
  obtain a t' where a: "a \<in> set (members s)" "ownerOf w a" "mem_userId a = owner"
    "liveMembership s w (mem_userId t) = Some t'" "s1 = setRole (mem_id t') Owner (setRole (mem_id a) Admin s)"
    using tx by (rule transferOwnershipTx_Inr)
  have "memKey t' = memKey t" "t' \<in> set (members s)"
    using liveMembership_SomeD [OF a(4)] t by (auto simp: memKey_def)
  then have t': "t' = t" using i t(1) by (auto simp: memInv_def distinct_map inj_on_def)
  have at: "mem_id t \<noteq> mem_id a"
    using memInv_distinct [OF i] a(1,3) t(1) r(2) by (auto simp: distinct_map inj_on_def)
  have "memInv E s1"
    unfolding a(5) t' using memInv_exchange [OF i a(1,2) t] a(3) r(2) by simp
  moreover from this have "countWhere (ownerOf w) (members s1) = 1"
    using memInv_member_ws [OF i t(1)] t(2) a(5) by (auto simp: memInv_def setRole_def)
  moreover have "t\<lparr>mem_role := Owner\<rparr> \<in> set (members s1)"
    using t(1) at unfolding a(5) t' by (force simp: setRole_def set_updateMany)
  ultimately show ?thesis
    using countWhere_update_one [of mem_id "members s1" "t\<lparr>mem_role := Owner\<rparr>" "ownerOf w" "\<lambda>m. m\<lparr>mem_role := newRole\<rparr>"]
      memInv_distinct t r by (auto simp: setRole_def ownerOf_def)
qed

theorem role_change_race_removes_owner_witness:
  "\<exists>s1. transferOwnershipTx 11 1 2 sampleState = (Inr (), s1) \<and>
     countWhere (ownerOf 11) (members (setRole 32 Member s1)) = 0"
proof -
  obtain s1 where tx: "transferOwnershipTx 11 1 2 sampleState = (Inr (), s1)"
    by (simp add: transferOwnershipTx_def liveMembership_def sample_defs)
  note sampleState_memInv
  moreover have "changeMemberRoleCheck 11 1 Owner 32 sampleState = Inr (sampleMember 32 11 2 Member)"
    by (simp add: changeMemberRoleCheck_def memberById_def sample_defs)
  ultimately have "countWhere (ownerOf 11) (members (setRole (mem_id (sampleMember 32 11 2 Member)) Member s1)) = 0"
    using role_change_race_removes_owner [of sampleEnv sampleState 11 1 Owner 32 "sampleMember 32 11 2 Member" 1 "()" s1 Member] tx
    by (simp add: sampleMember_def)
  then show ?thesis using tx by (simp add: sampleMember_def)
qed



text \<open>Joining by invite. A successful acceptance redeems a live invite whose code
  it was given, for an account the invite is addressed to, adds exactly one
  membership, of the invite's workspace with the invite's role and never as owner,
  and issues a token for it; every later use of the code, by anyone, fails.\<close>

theorem invite_admits_once:
  assumes i: "memInv E s" and r: "acceptInvite E C now ic u ctx s = (Inr x, s1)"
  shows "\<exists>iv. findFirst (\<lambda>i. inv_codeHash i = sha256 E ic) (invites s) = Some iv
    \<and> inv_usedAt iv = None \<and> inv_revokedAt iv = None \<and> now \<le> inv_expiresAt iv \<and> inv_role iv \<noteq> Owner
    \<and> liveMembership s (inv_workspaceId iv) u = None
    \<and> (nonEmpty (inv_email iv) \<longrightarrow>
        (\<exists>usr\<in>set (users s). usr_id usr = u \<and> normalizeEmail (usr_email usr) = the (inv_email iv)))
    \<and> members s1 = members s @
        [newMember (draw E s) now (inv_workspaceId iv) u (inv_role iv) (inv_invitedByUserId iv)]
    \<and> (\<forall>now' u' ctx'. acceptInvite E C now' ic u' ctx' s1 = (Inl inviteInvalid, s1))"
proof -
  obtain iv usr wsp s2 where v: "findFirst (\<lambda>i. inv_codeHash i = sha256 E ic) (invites s) = Some iv"
    "inv_usedAt iv = None" "inv_revokedAt iv = None" "now \<le> inv_expiresAt iv"
    "findFirst (\<lambda>x. usr_deletedAt x = None \<and> usr_id x = u) (users s) = Some usr"
    "nonEmpty (inv_email iv) \<longrightarrow> the (inv_email iv) = normalizeEmail (usr_email usr)"
    "findFirst (\<lambda>w. ws_deletedAt w = None \<and> ws_id w = inv_workspaceId iv) (workspaces s) = Some wsp"
    "liveMembership s (inv_workspaceId iv) u = None"
    "acceptInviteTx E now iv u s = (Inr (), s2)" "members s1 = members s2" "invites s1 = invites s2"
    "snd x = (inv_workspaceId iv, inv_role iv)"
    "is_accessToken (fst x) = signJwt E \<lparr>jwt_sub = u, jwt_workspaceId = inv_workspaceId iv,
       jwt_orgId = ws_organizationId wsp, jwt_role = inv_role iv\<rparr> (now + accessTokenTtlSeconds C * 1000)"
    using acceptInvite_Inr [OF r] .
  have role: "inv_role iv \<noteq> Owner" using memInv_invites [OF i] findFirst_SomeD [OF v(1)] by blast
  have "findFirst (\<lambda>i. inv_codeHash i = sha256 E ic) (invites s1) =
      Some (iv\<lparr>inv_usedByUserId := Some u, inv_usedAt := Some now\<rparr>)"
    using acceptInviteTx_Inr(2) [OF v(9)] v(1-3,11) by (simp add: findFirst_updateMany)
  then have "acceptInvite E C now' ic u' ctx' s1 = (Inl inviteInvalid, s1)" for now' u' ctx'
    by (simp add: acceptInvite_def)
  then show ?thesis
    using v role acceptInviteTx_Inr(1) [OF v(9)] findFirst_SomeD [OF v(5)] by force
qed

theorem invite_admits_once_witness:
  "\<exists>x s1. acceptInvite sampleEnv defaultAuthConfig 10 ''code'' 3 sampleCtx inviteState = (Inr x, s1) \<and>
     length (members s1) = 3 \<and> acceptInvite sampleEnv defaultAuthConfig 11 ''code'' 3 sampleCtx s1 = (Inl inviteInvalid, s1)"
proof -
  have w: "trim ''code'' \<noteq> []" by code_simp
  obtain x s1 where r: "acceptInvite sampleEnv defaultAuthConfig 10 ''code'' 3 sampleCtx inviteState = (Inr x, s1)"
    by (simp add: acceptInvite_def acceptInviteTx_def liveMembership_def transactionO_def issue_def Let_def w nonEmpty_def
        inviteState_def sample_defs)
  have "length (members s1) = 3"
    "acceptInvite sampleEnv defaultAuthConfig 11 ''code'' 3 sampleCtx s1 = (Inl inviteInvalid, s1)"
    using invite_admits_once [OF inviteState_memInv r] by (auto simp: inviteState_def sample_defs)
  then show ?thesis using r by blast
qed

text \<open>Who may change whom. A membership changes its role, or ends by removal,
  through the endpoints only for a caller who is an owner or admin of the
  workspace now, never the caller's own, never an owner's, and for an admin only a plain
  member's; no other membership changes.\<close>

theorem role_authority:
  assumes "changeMemberRoleRoute E now auth mid newRole s = (Inr x, s1)
         \<or> removeMemberRoute E now auth mid s = (Inr y, s1)"
  shows "\<exists>claims t. jwtAuthGuard E now auth s = Inr claims \<and> jwt_role claims \<in> {Owner, Admin}
    \<and> memberById s (jwt_workspaceId claims) mid = Some t \<and> mem_userId t \<noteq> jwt_sub claims \<and> mem_role t \<noteq> Owner
    \<and> (jwt_role claims = Admin \<longrightarrow> mem_role t = Member)
    \<and> deleteMany (\<lambda>m. mem_id m = mid) (members s1) = deleteMany (\<lambda>m. mem_id m = mid) (members s)
    \<and> (mid \<notin> mem_id ` set (members s1) \<or>
        members s1 = updateMany (\<lambda>m. mem_id m = mid) (\<lambda>m. m\<lparr>mem_role := newRole\<rparr>) (members s))"
  using assms
proof
  assume "changeMemberRoleRoute E now auth mid newRole s = (Inr x, s1)"
  then obtain claims t where g: "jwtAuthGuard E now auth s = Inr claims" "jwt_role claims \<in> {Owner, Admin}"
    "changeMemberRoleCheck (jwt_workspaceId claims) (jwt_sub claims) (jwt_role claims) mid s = Inr t"
    "members s1 = updateMany (\<lambda>m. mem_id m = mem_id t) (\<lambda>m. m\<lparr>mem_role := newRole\<rparr>) (members s)"
    by (auto simp: changeMemberRoleRoute_def guarded_def rolesGuard_def changeMemberRole_def setRole_def
        split: sum.splits option.splits if_splits)
  moreover have "deleteMany p (updateMany p h rows) = deleteMany p rows" if "\<And>r. p (h r) = p r" for p h and rows :: "WorkspaceMember list"
    using that by (induction rows) auto
  ultimately show ?thesis
    using changeMemberRoleCheck_Inr [OF g(3)] by (auto dest: memberById_SomeD)
next
  assume "removeMemberRoute E now auth mid s = (Inr y, s1)"
  then obtain claims t where g: "jwtAuthGuard E now auth s = Inr claims" "jwt_role claims \<in> {Owner, Admin}"
    "removeMemberCheck (jwt_workspaceId claims) (jwt_sub claims) (jwt_role claims) mid s = Inr t"
    "members s1 = deleteMany (\<lambda>m. mem_id m = mem_id t) (members s)"
    by (auto simp: removeMemberRoute_def guarded_def rolesGuard_def removeMember_def disconnectMember_def
        split: sum.splits option.splits if_splits)
  then show ?thesis
    using removeMemberCheck_Inr [OF g(3)] by (auto simp: deleteMany_def dest: memberById_SomeD)
qed

theorem role_authority_witness:
  "\<exists>s1. removeMemberRoute (sampleEnv\<lparr>verifyJwt := \<lambda>_ _. Some \<lparr>jwt_sub = 1, jwt_workspaceId = 11, jwt_orgId = 21,
      jwt_role = Owner\<rparr>\<rparr>) 10 (Some ''Bearer t'') 32 sampleState = (Inr (), s1) \<and>
    deleteMany (\<lambda>m. mem_id m = 32) (members s1) = deleteMany (\<lambda>m. mem_id m = 32) (members sampleState)"
proof -
  let ?E = "sampleEnv\<lparr>verifyJwt := \<lambda>_ _. Some \<lparr>jwt_sub = 1, jwt_workspaceId = 11, jwt_orgId = 21, jwt_role = Owner\<rparr>\<rparr>"
  have t: "extractBearerToken (Some ''Bearer t'') = Some ''t''" by code_simp
  obtain s1 where r: "removeMemberRoute ?E 10 (Some ''Bearer t'') 32 sampleState = (Inr (), s1)"
    by (simp add: removeMemberRoute_def guarded_def jwtAuthGuard_def rolesGuard_def removeMember_def t Let_def nonEmpty_def
        removeMemberCheck_def memberById_def liveMembership_def sample_defs)
  then show ?thesis
    using role_authority [OF disjI2 [OF r]] by blast
qed

text \<open>What an invite may grant is not bounded by the inviter's own role: an
  admin, who may change or remove only plain members, may invite another admin.\<close>

theorem admin_may_invite_admin:
  assumes "jwtAuthGuard E now auth s = Inr claims" "jwt_role claims = Admin"
  shows "\<exists>res s1. inviteRoute E now auth email Admin s = (Inr res, s1)
    \<and> (\<exists>iv. invites s1 = invites s @ [iv] \<and> inv_role iv = Admin \<and> inv_workspaceId iv = jwt_workspaceId claims)"
  using assms by (simp add: inviteRoute_def guarded_def rolesGuard_def invite_def Let_def)

theorem admin_may_invite_admin_witness:
  "\<exists>res s1. inviteRoute (sampleEnv\<lparr>verifyJwt := \<lambda>_ _. Some \<lparr>jwt_sub = 2, jwt_workspaceId = 11, jwt_orgId = 21,
      jwt_role = Member\<rparr>\<rparr>) 10 (Some ''Bearer t'') None Admin
      (setRole 32 Admin sampleState) = (Inr res, s1)"
proof -
  let ?E = "sampleEnv\<lparr>verifyJwt := \<lambda>_ _. Some \<lparr>jwt_sub = 2, jwt_workspaceId = 11, jwt_orgId = 21, jwt_role = Member\<rparr>\<rparr>"
  have t: "extractBearerToken (Some ''Bearer t'') = Some ''t''" by code_simp
  have g: "jwtAuthGuard ?E 10 (Some ''Bearer t'') (setRole 32 Admin sampleState)
      = Inr \<lparr>jwt_sub = 2, jwt_workspaceId = 11, jwt_orgId = 21, jwt_role = Admin\<rparr>"
    by (simp add: jwtAuthGuard_def t liveMembership_def setRole_def Let_def nonEmpty_def sample_defs)
  show ?thesis using admin_may_invite_admin [OF g, where email = None] by auto
qed

end
