(* ===== verification/Pagination.thy ===== *)
theory Pagination
  imports Database "HOL-Library.Multiset"
begin

text \<open>
  Cursor pagination (\<open>apps/api/src/common/cursor-pagination.ts\<close>): the limit and sort
  parameters, the page built from one row too many, the keyset condition, and the
  contract between an ordering, a cursor and its condition from which a walk over the
  pages returns every row once. A cursor is its decoded payload: \<open>None\<close> stands for an
  absent or undecodable one, which \<open>decodeCursor\<close> treats alike (its text is in Cursor_Codec).
\<close>

section \<open>Parameters and pages\<close>

definition DEFAULT_PAGE_LIMIT :: int where
  "DEFAULT_PAGE_LIMIT = 50"

definition MAX_PAGE_LIMIT :: int where
  "MAX_PAGE_LIMIT = 200"

definition parseLimit :: "string option \<Rightarrow> int" where
  "parseLimit raw = (case (case raw of None \<Rightarrow> NaN | Some t \<Rightarrow> toNumber t) of
      Fin n \<Rightarrow> if n \<le> 0 then DEFAULT_PAGE_LIMIT else min \<lfloor>n\<rfloor> MAX_PAGE_LIMIT
    | _ \<Rightarrow> DEFAULT_PAGE_LIMIT)"

record ('r, 'c) page =
  pg_data :: "'r list"
  pg_nextCursor :: "'c option"
  pg_hasMore :: bool

definition buildPage :: "'r list \<Rightarrow> nat \<Rightarrow> ('r \<Rightarrow> 'c) \<Rightarrow> ('r, 'c) page" where
  "buildPage rows limit cursorFor =
     (let hasMore = limit < length rows;
          data = (if hasMore then take limit rows else rows)
      in \<lparr>pg_data = data,
          pg_nextCursor = (if hasMore \<and> data \<noteq> [] then Some (cursorFor (last data)) else None),
          pg_hasMore = hasMore\<rparr>)"

datatype sort_direction = Asc | Desc

definition parseSortBy :: "string option \<Rightarrow> string list \<Rightarrow> string \<Rightarrow> string" where
  "parseSortBy raw allowed fallback =
     (case raw of Some t \<Rightarrow> if t \<noteq> [] \<and> t \<in> set allowed then t else fallback | None \<Rightarrow> fallback)"

definition parseOrder :: "string option \<Rightarrow> sort_direction \<Rightarrow> sort_direction" where
  "parseOrder raw fallback = (if raw = Some ''asc'' then Asc else if raw = Some ''desc'' then Desc else fallback)"

text \<open>A sortable column's value: a text or an instant, ordered as the database
  orders the column.\<close>

datatype sort_value = VTime instant | VText string

instantiation sort_value :: linorder
begin

fun less_eq_sort_value :: "sort_value \<Rightarrow> sort_value \<Rightarrow> bool" where
  "less_eq_sort_value (VTime a) (VTime b) = (a \<le> b)"
| "less_eq_sort_value (VTime _) (VText _) = True"
| "less_eq_sort_value (VText _) (VTime _) = False"
| "less_eq_sort_value (VText a) (VText b) = (a \<le> b)"

definition less_sort_value :: "sort_value \<Rightarrow> sort_value \<Rightarrow> bool" where
  "less_sort_value a b = (a \<le> b \<and> \<not> b \<le> a)"

instance
proof
  fix x y z :: sort_value
  show "x < y \<longleftrightarrow> x \<le> y \<and> \<not> y \<le> x" by (simp add: less_sort_value_def)
  show "x \<le> x" by (cases x) auto
  show "x \<le> y \<Longrightarrow> y \<le> z \<Longrightarrow> x \<le> z" by (cases x; cases y; cases z) auto
  show "x \<le> y \<Longrightarrow> y \<le> x \<Longrightarrow> x = y" by (cases x; cases y) auto
  show "x \<le> y \<or> y \<le> x" by (cases x; cases y) auto
qed

end

definition cmp :: "sort_direction \<Rightarrow> ('k :: linorder) \<Rightarrow> 'k \<Rightarrow> bool" where
  "cmp d x v = (case d of Desc \<Rightarrow> x < v | Asc \<Rightarrow> v < x)"

text \<open>The condition on a row past the position (value, id).\<close>

definition keysetOr ::
  "('r \<Rightarrow> 'k :: linorder) \<Rightarrow> ('r \<Rightarrow> uuid) \<Rightarrow> sort_direction \<Rightarrow> 'k \<Rightarrow> uuid \<Rightarrow> 'r \<Rightarrow> bool" where
  "keysetOr sortField rid order v i r \<longleftrightarrow> cmp order (sortField r) v \<or> (sortField r = v \<and> cmp order (rid r) i)"

section \<open>Ordered queries\<close>

text \<open>\<open>ORDER BY\<close> under a strict order given as a comparison.\<close>

fun insertBy :: "('r \<Rightarrow> 'r \<Rightarrow> bool) \<Rightarrow> 'r \<Rightarrow> 'r list \<Rightarrow> 'r list" where
  "insertBy lt x [] = [x]"
| "insertBy lt x (y # ys) = (if lt y x then y # insertBy lt x ys else x # y # ys)"

definition orderBy :: "('r \<Rightarrow> 'r \<Rightarrow> bool) \<Rightarrow> 'r list \<Rightarrow> 'r list" where
  "orderBy lt rows = foldr (insertBy lt) rows []"

lemma mset_insertBy [simp]: "mset (insertBy lt x ys) = add_mset x (mset ys)"
  by (induction ys) auto

lemma mset_orderBy [simp]: "mset (orderBy lt rows) = mset rows"
  by (induction rows) (auto simp: orderBy_def)

lemma set_orderBy [simp]: "set (orderBy lt rows) = set rows"
  by (metis mset_orderBy set_mset_mset)

lemma length_orderBy [simp]: "length (orderBy lt rows) = length rows"
  by (metis mset_orderBy size_mset)

lemma distinct_map_orderBy: "distinct (map f (orderBy lt rows)) = distinct (map f rows)"
  by (rule mset_eq_imp_distinct_iff) simp

text \<open>A client that follows the next cursors from page to page, for at most \<open>n\<close> pages.\<close>

fun walkPages :: "nat \<Rightarrow> ('c option \<Rightarrow> ('r, 'c) page) \<Rightarrow> 'c option \<Rightarrow> 'r list" where
  "walkPages 0 fetch c = []"
| "walkPages (Suc n) fetch c = (let p = fetch c in
     pg_data p @ (case pg_nextCursor p of None \<Rightarrow> [] | Some c' \<Rightarrow> walkPages n fetch (Some c')))"

definition mapPage :: "('r list \<Rightarrow> 's list) \<Rightarrow> ('r, 'c) page \<Rightarrow> ('s, 'c) page" where
  "mapPage f p = \<lparr>pg_data = f (pg_data p), pg_nextCursor = pg_nextCursor p, pg_hasMore = pg_hasMore p\<rparr>"

lemma walkPages_mapPage:
  assumes "f [] = []" "\<And>xs ys. f (xs @ ys) = f xs @ f ys"
  shows "walkPages n (\<lambda>c. mapPage f (fetch c)) c = f (walkPages n fetch c)"
  by (induction n arbitrary: c) (auto simp: mapPage_def Let_def assms split: option.split)

section \<open>The contract of a keyset\<close>

locale keyset =
  fixes before :: "'r \<Rightarrow> 'r \<Rightarrow> bool"
    and rid :: "'r \<Rightarrow> uuid"
    and mark :: "'r \<Rightarrow> 'c"
    and past :: "'c \<Rightarrow> 'r \<Rightarrow> bool"
  assumes past_mark: "past (mark r) x = before r x"
    and before_irrefl: "\<not> before r r"
    and before_trans: "before x y \<Longrightarrow> before y z \<Longrightarrow> before x z"
    and before_total: "rid x \<noteq> rid y \<Longrightarrow> before x y \<or> before y x"
begin

lemma sorted_insertBy:
  assumes "sorted_wrt before ys" "\<forall>y\<in>set ys. rid y \<noteq> rid x"
  shows "sorted_wrt before (insertBy before x ys)"
  using assms
proof (induction ys)
  case (Cons y ys)
  have "set (insertBy before x ys) = insert x (set ys)"
    by (metis mset_insertBy set_mset_add_mset_insert set_mset_mset)
  then show ?case
    using Cons before_total [of x y] before_trans by auto
qed simp

lemma sorted_orderBy: "distinct (map rid rows) \<Longrightarrow> sorted_wrt before (orderBy before rows)"
proof (induction rows)
  case (Cons x rows)
  have "\<forall>y\<in>set (orderBy before rows). rid y \<noteq> rid x"
    using Cons.prems by auto (metis imageI)
  then show ?case using sorted_insertBy Cons by (simp add: orderBy_def)
qed (simp add: orderBy_def)

lemma sorted_unique:
  assumes "sorted_wrt before xs" "sorted_wrt before ys" "mset xs = mset ys"
  shows "xs = ys"
  using assms
proof (induction xs arbitrary: ys)
  case (Cons x xs)
  obtain y zs where ys: "ys = y # zs" using Cons.prems(3) by (cases ys) auto
  have "x \<in> set (y # zs)" "y \<in> set (x # xs)"
    using Cons.prems(3) unfolding ys by (metis list.set_intros(1) set_mset_mset)+
  then have "x = y"
    using Cons.prems(1,2) before_trans [of x y x] before_irrefl [of x] unfolding ys by auto
  then show ?case using Cons ys by auto
qed simp

lemma filter_orderBy:
  assumes "distinct (map rid rows)"
  shows "orderBy before (filter p rows) = filter p (orderBy before rows)"
proof (rule sorted_unique)
  show "sorted_wrt before (orderBy before (filter p rows))"
    using assms by (intro sorted_orderBy) (simp add: distinct_map_filter)
  show "sorted_wrt before (filter p (orderBy before rows))"
    using sorted_orderBy [OF assms] by (rule sorted_wrt_filter)
qed (simp add: mset_filter)

text \<open>The page after a cursor, and what is left after a page's last row.\<close>

definition pageAfter :: "nat \<Rightarrow> 'r list \<Rightarrow> 'c option \<Rightarrow> ('r, 'c) page" where
  "pageAfter limit rows c = buildPage (take (limit + 1)
     (orderBy before (filter (\<lambda>r. case c of None \<Rightarrow> True | Some c' \<Rightarrow> past c' r) rows))) limit mark"

lemma past_suffix:
  assumes "sorted_wrt before (xs @ r # ys)"
  shows "filter (past (mark r)) (xs @ r # ys) = ys"
proof -
  have "filter (before r) xs = []"
  proof -
    have "\<not> before r x" if "x \<in> set xs" for x
      using assms that before_trans [of x r x] before_irrefl [of x] by (auto simp: sorted_wrt_append)
    then show ?thesis by (simp add: filter_empty_conv)
  qed
  moreover have "filter (before r) ys = ys"
    using assms by (simp add: sorted_wrt_append filter_id_conv)
  moreover have "past (mark r) = before r" by (rule ext) (rule past_mark)
  ultimately show ?thesis by (simp add: before_irrefl)
qed

lemma walk_from:
  assumes d: "distinct (map rid rows)" and l: "0 < limit"
    and split: "orderBy before rows = xs @ ys" and c: "c = (if xs = [] then None else Some (mark (last xs)))"
    and n: "length ys < n"
    and fetch: "fetch None = pageAfter limit rows None" "\<And>r. r \<in> set rows \<Longrightarrow> fetch (Some (mark r)) = pageAfter limit rows (Some (mark r))"
  shows "walkPages n fetch c = ys"
  using split c n
proof (induction n arbitrary: xs ys c)
  case (Suc n)
  have "filter (\<lambda>r. case c of None \<Rightarrow> True | Some c' \<Rightarrow> past c' r) (orderBy before rows) = ys"
  proof (cases "xs = []")
    case False
    then have "orderBy before rows = butlast xs @ last xs # ys" using Suc.prems(1) by simp
    then show ?thesis
      using past_suffix [of "butlast xs" "last xs" ys] sorted_orderBy [OF d] False Suc.prems(2) by simp
  qed (use Suc.prems in simp)
  moreover have "fetch c = pageAfter limit rows c"
  proof (cases "xs = []")
    case False
    then have "last xs \<in> set (orderBy before rows)" unfolding Suc.prems(1) by simp
    then show ?thesis using fetch(2) False Suc.prems(2) by simp
  qed (use fetch(1) Suc.prems(2) in simp)
  ultimately have p: "fetch c = buildPage (take (limit + 1) ys) limit mark"
    by (simp add: pageAfter_def filter_orderBy [OF d])
  show ?case
  proof (cases "limit < length ys")
    case True
    have "take limit ys \<noteq> []" using True l by auto
    then have next_c: "walkPages n fetch (Some (mark (last (take limit ys)))) = drop limit ys"
      using Suc.prems True l by (intro Suc.IH [of "xs @ take limit ys"]) auto
    then show ?thesis
      using True l \<open>take limit ys \<noteq> []\<close> by (simp add: p buildPage_def Let_def min_def)
  qed (simp add: p buildPage_def Let_def)
qed simp

lemma walk_complete:
  assumes "distinct (map rid rows)" "0 < limit" "length rows < n"
    and "fetch None = pageAfter limit rows None" "\<And>r. r \<in> set rows \<Longrightarrow> fetch (Some (mark r)) = pageAfter limit rows (Some (mark r))"
  shows "walkPages n fetch None = orderBy before rows"
  using walk_from [of rows limit "[]" "orderBy before rows" None n fetch] assms by simp

end

text \<open>One sort column with the id as tie-breaker, either way, gives a keyset with
  \<open>keysetOr\<close> as its condition.\<close>

definition columnBefore ::
  "('r \<Rightarrow> 'k :: linorder) \<Rightarrow> ('r \<Rightarrow> uuid) \<Rightarrow> sort_direction \<Rightarrow> 'r \<Rightarrow> 'r \<Rightarrow> bool" where
  "columnBefore k rid d x y = keysetOr k rid d (k x) (rid x) y"

interpretation column: keyset "columnBefore k rid d" rid "\<lambda>r. (k r, rid r)" "\<lambda>(v, i). keysetOr k rid d v i"
  for k :: "'r \<Rightarrow> 'k :: linorder" and rid d
  by unfold_locales (cases d; auto simp: columnBefore_def keysetOr_def cmp_def)+

text \<open>The limit is never above the maximum; it is 0 for a fraction below 1.\<close>

lemma parseLimit_bounds: "0 \<le> parseLimit raw \<and> parseLimit raw \<le> MAX_PAGE_LIMIT"
  by (auto simp: parseLimit_def DEFAULT_PAGE_LIMIT_def MAX_PAGE_LIMIT_def not_le split: option.split jsnum.split)

end
