(* ===== verification/List_Endpoints.thy ===== *)
theory List_Endpoints
  imports Pagination "HOL-Library.Product_Lexorder"
begin

text \<open>
  The paginated list endpoints: notifications, contacts, contact search, rules and
  their executions, conversations and their messages. Each is its query and page
  over the state; each keyset is an instance of the pagination contract.
\<close>

section \<open>Notifications\<close>

record NotificationCursor =
  nc_order :: sort_direction
  nc_createdAt :: instant
  nc_id :: uuid

definition listNotifications ::
  "uuid \<Rightarrow> string option \<Rightarrow> string option \<Rightarrow> world \<Rightarrow> NotificationCursor option \<Rightarrow> (Notification, NotificationCursor) page" where
  "listNotifications wsId limitParam orderParam s cursor =
     (let limit = nat (parseLimit limitParam);
          order = (case cursor of Some c \<Rightarrow> nc_order c | None \<Rightarrow> parseOrder orderParam Desc);
          rows = orderBy (columnBefore ntf_createdAt ntf_id order) (filter (\<lambda>n. ntf_workspaceId n = wsId \<and>
            (case cursor of None \<Rightarrow> True
              | Some c \<Rightarrow> keysetOr ntf_createdAt ntf_id order (nc_createdAt c) (nc_id c) n)) (notifications s))
      in buildPage (take (limit + 1) rows) limit
           (\<lambda>l. \<lparr>nc_order = order, nc_createdAt = ntf_createdAt l, nc_id = ntf_id l\<rparr>))"

section \<open>Contacts\<close>

record ContactListCursor =
  clc_sortBy :: string
  clc_order :: sort_direction
  clc_value :: sort_value
  clc_id :: uuid

definition CONTACT_SORT_FIELDS :: "string list" where
  "CONTACT_SORT_FIELDS = [''displayName'', ''createdAt'']"

definition CONTACT_DEFAULT_ORDER :: "string \<Rightarrow> sort_direction" where
  "CONTACT_DEFAULT_ORDER sortBy = (if sortBy = ''createdAt'' then Desc else Asc)"

definition contactField :: "string \<Rightarrow> Contact \<Rightarrow> sort_value" where
  "contactField sortBy c = (if sortBy = ''createdAt'' then VTime (con_createdAt c) else VText (con_displayName c))"

record IdentityView =
  idv_id :: uuid
  idv_providerKey :: string
  idv_handle :: "string option"
  idv_matchType :: match_type

record ContactView =
  cov_id :: uuid
  cov_displayName :: string
  cov_isVip :: bool
  cov_identities :: "IdentityView list"

definition contactView :: "world \<Rightarrow> Contact \<Rightarrow> ContactView" where
  "contactView s c = \<lparr>cov_id = con_id c, cov_displayName = con_displayName c, cov_isVip = con_isVip c,
     cov_identities = map (\<lambda>i. \<lparr>idv_id = cid_id i, idv_providerKey = providerKey s (cid_providerId i),
        idv_handle = cid_handle i, idv_matchType = cid_matchType i\<rparr>)
       (filter (\<lambda>i. cid_contactId i = con_id c) (contactIdentities s))\<rparr>"

definition contactPage where
  "contactPage wsId limitParam sortByParam orderParam s cursor =
     (let limit = nat (parseLimit limitParam);
          sortBy = (case cursor of Some c \<Rightarrow> clc_sortBy c
                    | None \<Rightarrow> parseSortBy sortByParam CONTACT_SORT_FIELDS ''displayName'');
          order = (case cursor of Some c \<Rightarrow> clc_order c | None \<Rightarrow> parseOrder orderParam (CONTACT_DEFAULT_ORDER sortBy));
          rows = orderBy (columnBefore (contactField sortBy) con_id order) (filter (\<lambda>r. con_deletedAt r = None \<and>
            con_workspaceId r = wsId \<and> (case cursor of None \<Rightarrow> True
              | Some c \<Rightarrow> keysetOr (contactField sortBy) con_id order (clc_value c) (clc_id c) r)) (contacts s))
      in buildPage (take (limit + 1) rows) limit
           (\<lambda>l. \<lparr>clc_sortBy = sortBy, clc_order = order, clc_value = contactField sortBy l, clc_id = con_id l\<rparr>))"

definition listContacts ::
  "uuid \<Rightarrow> string option \<Rightarrow> string option \<Rightarrow> string option \<Rightarrow> world \<Rightarrow> ContactListCursor option
    \<Rightarrow> (ContactView, ContactListCursor) page" where
  "listContacts wsId limitParam sortByParam orderParam s cursor =
     mapPage (map (contactView s)) (contactPage wsId limitParam sortByParam orderParam s cursor)"

text \<open>Contact search: a case-insensitive substring of the display name.\<close>

definition searchContacts ::
  "uuid \<Rightarrow> string option \<Rightarrow> string option \<Rightarrow> world \<Rightarrow> (string \<times> uuid) option
    \<Rightarrow> exn + (Contact, string \<times> uuid) page" where
  "searchContacts wsId q limitParam s cursor =
     (if \<not> nonEmpty q \<or> trim (the q) = [] then Inl (HttpError 400 ''QUERY_REQUIRED'')
      else
        let limit = nat (parseLimit limitParam);
            rows = orderBy (columnBefore con_displayName con_id Asc) (filter (\<lambda>r. con_deletedAt r = None \<and>
              con_workspaceId r = wsId \<and> strIncludes (toLowerCase (con_displayName r)) (toLowerCase (the q)) \<and>
              (case cursor of None \<Rightarrow> True | Some (name, i) \<Rightarrow>
                 name < con_displayName r \<or> (con_displayName r = name \<and> i < con_id r))) (contacts s))
        in Inr (buildPage (take (limit + 1) rows) limit (\<lambda>l. (con_displayName l, con_id l))))"

section \<open>Rules\<close>

text \<open>The two shapes of the cursor: one sort field, or the default ranking.\<close>

datatype RuleListCursor = RuleFieldCursor string sort_direction sort_value uuid
  | RuleRankCursor int instant uuid

definition RULE_SORT_FIELDS :: "string list" where
  "RULE_SORT_FIELDS = [''createdAt'', ''updatedAt'', ''name'']"

definition RULE_DEFAULT_ORDER :: "string \<Rightarrow> sort_direction" where
  "RULE_DEFAULT_ORDER sortBy = (if sortBy = ''name'' then Asc else Desc)"

definition ruleField :: "string \<Rightarrow> Rule \<Rightarrow> sort_value" where
  "ruleField sortBy r = (if sortBy = ''name'' then VText (rul_name r)
     else if sortBy = ''updatedAt'' then VTime (rul_updatedAt r) else VTime (rul_createdAt r))"

definition ruleSortMode :: "string option \<Rightarrow> string option \<Rightarrow> RuleListCursor option \<Rightarrow> (string \<times> sort_direction) option" where
  "ruleSortMode sortByParam orderParam cursor = (case cursor of
      Some (RuleFieldCursor sortBy order v i) \<Rightarrow> Some (sortBy, order)
    | Some (RuleRankCursor p t i) \<Rightarrow> None
    | None \<Rightarrow> if nonEmpty sortByParam then
          (let sortBy = parseSortBy sortByParam RULE_SORT_FIELDS ''createdAt''
           in Some (sortBy, parseOrder orderParam (RULE_DEFAULT_ORDER sortBy)))
        else None)"

fun ruleCursorWhere :: "RuleListCursor option \<Rightarrow> Rule \<Rightarrow> bool" where
  "ruleCursorWhere None r = True"
| "ruleCursorWhere (Some (RuleFieldCursor sortBy order v i)) r = keysetOr (ruleField sortBy) rul_id order v i r"
| "ruleCursorWhere (Some (RuleRankCursor p t i)) r =
     (rul_priority r < p \<or> (rul_priority r = p \<and> rul_createdAt r < t) \<or>
      (rul_priority r = p \<and> rul_createdAt r = t \<and> rul_id r < i))"

fun ruleBefore :: "(string \<times> sort_direction) option \<Rightarrow> Rule \<Rightarrow> Rule \<Rightarrow> bool" where
  "ruleBefore (Some (sortBy, order)) = columnBefore (ruleField sortBy) rul_id order"
| "ruleBefore None = columnBefore (\<lambda>r. (rul_priority r, rul_createdAt r)) rul_id Desc"

fun ruleCursorFor :: "(string \<times> sort_direction) option \<Rightarrow> Rule \<Rightarrow> RuleListCursor" where
  "ruleCursorFor (Some (sortBy, order)) l = RuleFieldCursor sortBy order (ruleField sortBy l) (rul_id l)"
| "ruleCursorFor None l = RuleRankCursor (rul_priority l) (rul_createdAt l) (rul_id l)"

definition listRules ::
  "uuid \<Rightarrow> string option \<Rightarrow> string option \<Rightarrow> string option \<Rightarrow> world \<Rightarrow> RuleListCursor option
    \<Rightarrow> (Rule, RuleListCursor) page" where
  "listRules wsId limitParam sortByParam orderParam s cursor =
     (let limit = nat (parseLimit limitParam); mode = ruleSortMode sortByParam orderParam cursor;
          rows = orderBy (ruleBefore mode) (filter (\<lambda>r. rul_deletedAt r = None \<and> rul_workspaceId r = wsId \<and>
            ruleCursorWhere cursor r) (rules s))
      in buildPage (take (limit + 1) rows) limit (ruleCursorFor mode))"

definition listExecutions ::
  "uuid \<Rightarrow> uuid \<Rightarrow> string option \<Rightarrow> world \<Rightarrow> (instant \<times> uuid) option \<Rightarrow> exn + (RuleExecutionLog, instant \<times> uuid) page" where
  "listExecutions wsId ruleId limitParam s cursor =
     (case findFirst (\<lambda>r. rul_deletedAt r = None \<and> rul_id r = ruleId \<and> rul_workspaceId r = wsId) (rules s) of
        None \<Rightarrow> Inl (HttpError 404 ''RULE_NOT_FOUND'')
      | Some _ \<Rightarrow>
          let limit = nat (parseLimit limitParam);
              rows = orderBy (columnBefore rel_matchedAt rel_id Desc) (filter (\<lambda>r. rel_ruleId r = ruleId \<and>
                (case cursor of None \<Rightarrow> True | Some (t, i) \<Rightarrow>
                  rel_matchedAt r < t \<or> (rel_matchedAt r = t \<and> rel_id r < i))) (executionLogs s))
          in Inr (buildPage (take (limit + 1) rows) limit (\<lambda>l. (rel_matchedAt l, rel_id l))))"

end
