(* ===== verification/Conversations.thy ===== *)
theory Conversations
  imports List_Endpoints
begin

text \<open>
  The inbox read path (\<open>apps/api/src/conversations/conversations.controller.ts\<close>):
  the list with its three orders and filters, the "needs you" count, read state,
  archiving, and the messages of a conversation.
\<close>

section \<open>Orders\<close>

text \<open>A nullable timestamp in PostgreSQL's order: null after every value.\<close>

datatype nullable_time = At instant | NullTime

instantiation nullable_time :: linorder
begin

fun less_eq_nullable_time :: "nullable_time \<Rightarrow> nullable_time \<Rightarrow> bool" where
  "less_eq_nullable_time (At a) (At b) = (a \<le> b)"
| "less_eq_nullable_time _ NullTime = True"
| "less_eq_nullable_time NullTime (At _) = False"

definition less_nullable_time :: "nullable_time \<Rightarrow> nullable_time \<Rightarrow> bool" where
  "less_nullable_time a b = (a \<le> b \<and> \<not> b \<le> a)"

instance
proof
  fix x y z :: nullable_time
  show "x < y \<longleftrightarrow> x \<le> y \<and> \<not> y \<le> x" by (simp add: less_nullable_time_def)
  show "x \<le> x" by (cases x) auto
  show "x \<le> y \<Longrightarrow> y \<le> z \<Longrightarrow> x \<le> z" by (cases x; cases y; cases z) auto
  show "x \<le> y \<Longrightarrow> y \<le> x \<Longrightarrow> x = y" by (cases x; cases y) auto
  show "x \<le> y \<or> y \<le> x" by (cases x; cases y) auto
qed

end

lemma less_nullable_time_simps [simp]:
  "At a < At b \<longleftrightarrow> a < b" "At a < NullTime" "\<not> NullTime < t"
  by (cases t; auto simp: less_nullable_time_def)+

definition nullKey :: "instant option \<Rightarrow> nullable_time" where
  "nullKey t = (case t of None \<Rightarrow> NullTime | Some a \<Rightarrow> At a)"

definition lastMessageAtKeyset :: "sort_direction \<Rightarrow> instant option \<Rightarrow> uuid \<Rightarrow> Conversation \<Rightarrow> bool" where
  "lastMessageAtKeyset order v i r = (case order of
      Desc \<Rightarrow> (case v of
          None \<Rightarrow> (cnv_lastMessageAt r = None \<and> cnv_id r < i) \<or> cnv_lastMessageAt r \<noteq> None
        | Some t \<Rightarrow> (case cnv_lastMessageAt r of None \<Rightarrow> False | Some a \<Rightarrow> a < t \<or> (a = t \<and> cnv_id r < i)))
    | Asc \<Rightarrow> (case v of
          None \<Rightarrow> cnv_lastMessageAt r = None \<and> i < cnv_id r
        | Some t \<Rightarrow> (case cnv_lastMessageAt r of None \<Rightarrow> True | Some a \<Rightarrow> t < a \<or> (a = t \<and> i < cnv_id r))))"

text \<open>The null-aware condition is the keyset condition of that order, both ways.\<close>

lemma lastMessageAtKeyset_eq:
  "lastMessageAtKeyset order v i r = keysetOr (\<lambda>c. nullKey (cnv_lastMessageAt c)) cnv_id order (nullKey v) i r"
  by (cases order; cases v; cases "cnv_lastMessageAt r")
     (auto simp: lastMessageAtKeyset_def keysetOr_def cmp_def nullKey_def)

definition CONVERSATION_SORT_FIELDS :: "string list" where
  "CONVERSATION_SORT_FIELDS = [''lastMessageAt'', ''createdAt'']"

definition CONVERSATION_DEFAULT_ORDER :: "string \<Rightarrow> sort_direction" where
  "CONVERSATION_DEFAULT_ORDER sortBy = Desc"

datatype ConversationListCursor =
    ConvFieldCursor string sort_direction "instant option" uuid
  | ConvRankCursor int "instant option" uuid

definition conversationSortMode ::
  "string option \<Rightarrow> string option \<Rightarrow> ConversationListCursor option \<Rightarrow> (string \<times> sort_direction) option" where
  "conversationSortMode sortByParam orderParam cursor = (case cursor of
      Some (ConvFieldCursor sortBy order v i) \<Rightarrow> Some (sortBy, order)
    | Some (ConvRankCursor p t i) \<Rightarrow> None
    | None \<Rightarrow> if nonEmpty sortByParam then
          (let sortBy = parseSortBy sortByParam CONVERSATION_SORT_FIELDS ''lastMessageAt''
           in Some (sortBy, parseOrder orderParam (CONVERSATION_DEFAULT_ORDER sortBy)))
        else None)"

fun conversationCursorWhere :: "ConversationListCursor option \<Rightarrow> Conversation \<Rightarrow> bool" where
  "conversationCursorWhere None r = True"
| "conversationCursorWhere (Some (ConvFieldCursor sortBy order v i)) r =
     (if sortBy = ''lastMessageAt'' then lastMessageAtKeyset order v i r
      else keysetOr cnv_createdAt cnv_id order (the v) i r)"
| "conversationCursorWhere (Some (ConvRankCursor p t i)) r =
     (cnv_priorityScore r < p \<or>
      (cnv_priorityScore r = p \<and> (case t of
         Some a \<Rightarrow> (case cnv_lastMessageAt r of None \<Rightarrow> False
                     | Some b \<Rightarrow> b < a \<or> (b = a \<and> cnv_id r < i))
       | None \<Rightarrow> cnv_lastMessageAt r = None \<and> cnv_id r < i)))"

text \<open>\<open>ORDER BY\<close>: the default ranking leaves the place of nulls to PostgreSQL, which
  puts them first when descending.\<close>

definition rankKey :: "Conversation \<Rightarrow> int \<times> nullable_time" where
  "rankKey c = (cnv_priorityScore c, nullKey (cnv_lastMessageAt c))"

fun conversationBefore :: "(string \<times> sort_direction) option \<Rightarrow> Conversation \<Rightarrow> Conversation \<Rightarrow> bool" where
  "conversationBefore (Some (sortBy, order)) =
     (if sortBy = ''lastMessageAt'' then columnBefore (\<lambda>c. nullKey (cnv_lastMessageAt c)) cnv_id order
      else columnBefore cnv_createdAt cnv_id order)"
| "conversationBefore None = columnBefore rankKey cnv_id Desc"

fun conversationCursorFor :: "(string \<times> sort_direction) option \<Rightarrow> Conversation \<Rightarrow> ConversationListCursor" where
  "conversationCursorFor (Some (sortBy, order)) l = ConvFieldCursor sortBy order
     (if sortBy = ''lastMessageAt'' then cnv_lastMessageAt l else Some (cnv_createdAt l)) (cnv_id l)"
| "conversationCursorFor None l = ConvRankCursor (cnv_priorityScore l) (cnv_lastMessageAt l) (cnv_id l)"

section \<open>The list\<close>

record SenderView =
  snv_id :: uuid
  snv_displayName :: string
  snv_isVip :: bool

record MessageView =
  mv_id :: uuid
  mv_bodyText :: string
  mv_direction :: direction
  mv_receivedAt :: instant
  mv_sender :: "SenderView option"

record ConversationView =
  cvv_id :: uuid
  cvv_title :: "string option"
  cvv_providerKey :: string
  cvv_lastMessageAt :: "instant option"
  cvv_priorityScore :: int
  cvv_isArchived :: bool
  cvv_category :: "string option"
  cvv_unread :: bool
  cvv_lastMessage :: "MessageView option"

definition isUnread :: "Conversation \<Rightarrow> bool" where
  "isUnread c = (case cnv_lastMessageAt c of
      None \<Rightarrow> False
    | Some t \<Rightarrow> (case cnv_lastReadAt c of None \<Rightarrow> True | Some r \<Rightarrow> r < t))"

definition senderView :: "world \<Rightarrow> uuid option \<Rightarrow> SenderView option" where
  "senderView s contactId = (case contactId of None \<Rightarrow> None | Some i \<Rightarrow>
     map_option (\<lambda>c. \<lparr>snv_id = con_id c, snv_displayName = con_displayName c, snv_isVip = con_isVip c\<rparr>)
       (findFirst (\<lambda>c. con_id c = i) (contacts s)))"

definition messageView :: "world \<Rightarrow> Message \<Rightarrow> MessageView" where
  "messageView s m = \<lparr>mv_id = msg_id m, mv_bodyText = msg_bodyText m, mv_direction = msg_direction m,
     mv_receivedAt = msg_receivedAt m, mv_sender = senderView s (msg_senderContactId m)\<rparr>"

text \<open>The nested read: the newest message, \<open>orderBy: receivedAt desc, take: 1\<close>.\<close>

definition lastMessageOf :: "world \<Rightarrow> Conversation \<Rightarrow> Message option" where
  "lastMessageOf s c = firstBy (\<lambda>m. - msg_receivedAt m) (filter (\<lambda>m. msg_conversationId m = cnv_id c) (messages s))"

definition conversationView :: "world \<Rightarrow> Conversation \<Rightarrow> ConversationView" where
  "conversationView s c = \<lparr>cvv_id = cnv_id c, cvv_title = cnv_title c,
     cvv_providerKey = providerKey s (cnv_providerId c), cvv_lastMessageAt = cnv_lastMessageAt c,
     cvv_priorityScore = cnv_priorityScore c, cvv_isArchived = cnv_isArchived c,
     cvv_category = cnv_category c, cvv_unread = isUnread c,
     cvv_lastMessage = map_option (messageView s) (lastMessageOf s c)\<rparr>"

record ListConversationsQuery =
  lcq_archived :: "string option"
  lcq_category :: "string option"
  lcq_vip :: "string option"
  lcq_unread :: "string option"
  lcq_limit :: "string option"
  lcq_sortBy :: "string option"
  lcq_order :: "string option"

definition matchesQuery :: "uuid \<Rightarrow> ListConversationsQuery \<Rightarrow> Conversation \<Rightarrow> bool" where
  "matchesQuery wsId q r \<longleftrightarrow> cnv_deletedAt r = None \<and> cnv_workspaceId r = wsId \<and>
     (lcq_archived q = Some ''true'' \<longrightarrow> cnv_isArchived r) \<and>
     (lcq_archived q = Some ''false'' \<longrightarrow> \<not> cnv_isArchived r) \<and>
     (lcq_category q \<noteq> None \<longrightarrow> cnv_category r = lcq_category q)"

definition fromVip :: "ConversationView \<Rightarrow> bool" where
  "fromVip v = (case Option.bind (cvv_lastMessage v) mv_sender of None \<Rightarrow> False | Some x \<Rightarrow> snv_isVip x)"

definition shownByFilter :: "ListConversationsQuery \<Rightarrow> ConversationView \<Rightarrow> bool" where
  "shownByFilter q v = (if lcq_vip q = Some ''true'' \<and> \<not> fromVip v then False
     else if lcq_unread q = Some ''true'' \<and> \<not> cvv_unread v then False else True)"

definition conversationPage ::
  "uuid \<Rightarrow> ListConversationsQuery \<Rightarrow> world \<Rightarrow> ConversationListCursor option
    \<Rightarrow> (Conversation, ConversationListCursor) page" where
  "conversationPage wsId q s cursor =
     (let limit = nat (parseLimit (lcq_limit q));
          mode = conversationSortMode (lcq_sortBy q) (lcq_order q) cursor;
          rows = orderBy (conversationBefore mode)
            (filter (\<lambda>r. matchesQuery wsId q r \<and> conversationCursorWhere cursor r) (conversations s))
      in buildPage (take (limit + 1) rows) limit (conversationCursorFor mode))"

definition listConversations ::
  "uuid \<Rightarrow> ListConversationsQuery \<Rightarrow> world \<Rightarrow> ConversationListCursor option
    \<Rightarrow> (ConversationView, ConversationListCursor) page" where
  "listConversations wsId q s cursor =
     mapPage (\<lambda>rows. filter (shownByFilter q) (map (conversationView s) rows)) (conversationPage wsId q s cursor)"

section \<open>Counts and changes\<close>

definition NEEDS_YOU_PRIORITY_THRESHOLD :: int where
  "NEEDS_YOU_PRIORITY_THRESHOLD = 30"

definition needsYouCount :: "uuid \<Rightarrow> world \<Rightarrow> nat" where
  "needsYouCount wsId s = countWhere (\<lambda>c. isUnread c \<and>
       (fromVip (conversationView s c) \<or> NEEDS_YOU_PRIORITY_THRESHOLD \<le> cnv_priorityScore c))
     (filter (\<lambda>c. cnv_deletedAt c = None \<and> cnv_workspaceId c = wsId \<and> \<not> cnv_isArchived c) (conversations s))"

definition conversationOf :: "uuid \<Rightarrow> uuid \<Rightarrow> world \<Rightarrow> Conversation option" where
  "conversationOf wsId i s = findFirst (\<lambda>c. cnv_deletedAt c = None \<and> cnv_id c = i \<and> cnv_workspaceId c = wsId)
     (conversations s)"

definition conversationNotFound :: exn where
  "conversationNotFound = HttpError 404 ''CONVERSATION_NOT_FOUND''"

definition changeConversation ::
  "uuid \<Rightarrow> uuid \<Rightarrow> (Conversation \<Rightarrow> Conversation) \<Rightarrow> (world, exn, Conversation) oper" where
  "changeConversation wsId i f s = (case conversationOf wsId i s of
      None \<Rightarrow> (Inl conversationNotFound, s)
    | Some c \<Rightarrow> (Inr (f c), s\<lparr>conversations := updateMany (\<lambda>r. cnv_id r = i) f (conversations s)\<rparr>))"

text \<open>The body's \<open>category\<close> is absent, null or a text.\<close>

definition updateConversation ::
  "uuid \<Rightarrow> uuid \<Rightarrow> bool option \<Rightarrow> string option option \<Rightarrow> (world, exn, Conversation) oper" where
  "updateConversation wsId i archived category = changeConversation wsId i
     (\<lambda>c. c\<lparr>cnv_isArchived := (case archived of None \<Rightarrow> cnv_isArchived c | Some b \<Rightarrow> b),
        cnv_category := (case category of None \<Rightarrow> cnv_category c | Some x \<Rightarrow> x)\<rparr>)"

definition markRead :: "instant \<Rightarrow> uuid \<Rightarrow> uuid \<Rightarrow> (world, exn, Conversation) oper" where
  "markRead now wsId i = changeConversation wsId i (\<lambda>c. c\<lparr>cnv_lastReadAt := Some now\<rparr>)"

definition markUnread :: "uuid \<Rightarrow> uuid \<Rightarrow> (world, exn, Conversation) oper" where
  "markUnread wsId i = changeConversation wsId i (\<lambda>c. c\<lparr>cnv_lastReadAt := None\<rparr>)"

definition listMessages ::
  "uuid \<Rightarrow> uuid \<Rightarrow> string option \<Rightarrow> world \<Rightarrow> (instant \<times> uuid) option
    \<Rightarrow> exn + (MessageView, instant \<times> uuid) page" where
  "listMessages wsId i limitParam s cursor = (case conversationOf wsId i s of
      None \<Rightarrow> Inl conversationNotFound
    | Some _ \<Rightarrow>
        let limit = nat (parseLimit limitParam);
            rows = orderBy (columnBefore msg_receivedAt msg_id Desc) (filter (\<lambda>m. msg_deletedAt m = None \<and>
              msg_conversationId m = i \<and> (case cursor of None \<Rightarrow> True | Some (t, k) \<Rightarrow>
                msg_receivedAt m < t \<or> (msg_receivedAt m = t \<and> msg_id m < k))) (messages s))
        in Inr (mapPage (\<lambda>rows. map (messageView s) (rev rows))
             (buildPage (take (limit + 1) rows) limit (\<lambda>l. (msg_receivedAt l, msg_id l)))))"

end
