(* ===== verification/Inbox_Properties.thy ===== *)
theory Inbox_Properties
  imports Conversations
begin

text \<open>
  The paginated endpoints as instances of the keyset contract, and what their page
  walks return.
\<close>

section \<open>The endpoints' keysets\<close>

text \<open>A cursor whose condition is the column's order gives a keyset.\<close>

lemma column_keyset:
  assumes "\<And>r x. past (mark r) x = columnBefore k rid d r x"
  shows "keyset (columnBefore k rid d) rid mark past"
  by unfold_locales (fact assms column.before_irrefl column.before_total | erule (1) column.before_trans)+

interpretation notificationList: keyset "columnBefore ntf_createdAt ntf_id d" ntf_id
    "\<lambda>l. \<lparr>nc_order = d, nc_createdAt = ntf_createdAt l, nc_id = ntf_id l\<rparr>"
    "\<lambda>c. keysetOr ntf_createdAt ntf_id d (nc_createdAt c) (nc_id c)" for d
  by (rule column_keyset) (simp add: columnBefore_def)

interpretation contactList: keyset "columnBefore (contactField f) con_id d" con_id
    "\<lambda>l. \<lparr>clc_sortBy = f, clc_order = d, clc_value = contactField f l, clc_id = con_id l\<rparr>"
    "\<lambda>c. keysetOr (contactField f) con_id d (clc_value c) (clc_id c)" for f d
  by (rule column_keyset) (simp add: columnBefore_def)

lemma ruleRank_keyset:
  "keyset (ruleBefore mode) rul_id (ruleCursorFor mode) (\<lambda>c. ruleCursorWhere (Some c))"
proof (cases mode)
  case None
  have "keyset (columnBefore (\<lambda>r. (rul_priority r, rul_createdAt r)) rul_id Desc) rul_id (ruleCursorFor None)
      (\<lambda>c. ruleCursorWhere (Some c))"
    by (rule column_keyset) (auto simp: columnBefore_def keysetOr_def cmp_def)
  then show ?thesis using None by simp
next
  case (Some m)
  obtain f d where m: "m = (f, d)" by fastforce
  have "keyset (columnBefore (ruleField f) rul_id d) rul_id (ruleCursorFor (Some (f, d)))
      (\<lambda>c. ruleCursorWhere (Some c))"
    by (rule column_keyset) (simp add: columnBefore_def)
  then show ?thesis using Some m by simp
qed

interpretation ruleList: keyset "ruleBefore mode" rul_id "ruleCursorFor mode" "\<lambda>c. ruleCursorWhere (Some c)" for mode
  by (rule ruleRank_keyset)

interpretation byTime: keyset "columnBefore t i Desc" i "\<lambda>l. (t l, i l)" "\<lambda>(v, k) r. t r < v \<or> (t r = v \<and> i r < k)"
  for t :: "'r \<Rightarrow> instant" and i
  by (rule column_keyset) (auto simp: columnBefore_def keysetOr_def cmp_def)

text \<open>Conversations: the two sort fields with the condition the endpoint uses; the
  default ranking with the keyset condition, which the endpoint's own condition
  equals only for a cursor with a timestamp.\<close>

lemma convField_keyset:
  "keyset (conversationBefore (Some (f, d))) cnv_id (conversationCursorFor (Some (f, d)))
     (\<lambda>c. conversationCursorWhere (Some c))"
proof (cases "f = ''lastMessageAt''")
  case True
  have "keyset (columnBefore (\<lambda>c. nullKey (cnv_lastMessageAt c)) cnv_id d) cnv_id
      (conversationCursorFor (Some (''lastMessageAt'', d))) (\<lambda>c. conversationCursorWhere (Some c))"
    by (rule column_keyset) (simp add: columnBefore_def lastMessageAtKeyset_eq)
  then show ?thesis using True by simp
next
  case False
  then have "keyset (columnBefore cnv_createdAt cnv_id d) cnv_id (conversationCursorFor (Some (f, d)))
      (\<lambda>c. conversationCursorWhere (Some c))"
    by (intro column_keyset) (simp add: columnBefore_def)
  then show ?thesis using False by simp
qed

interpretation convField: keyset "conversationBefore (Some (f, d))" cnv_id "conversationCursorFor (Some (f, d))"
    "\<lambda>c. conversationCursorWhere (Some c)" for f d
  by (rule convField_keyset)

fun rankPosition :: "ConversationListCursor \<Rightarrow> (int \<times> nullable_time) \<times> uuid" where
  "rankPosition (ConvRankCursor p t i) = ((p, nullKey t), i)"
| "rankPosition (ConvFieldCursor f d t i) = ((0, nullKey t), i)"

interpretation convRank: keyset "conversationBefore None" cnv_id "conversationCursorFor None"
    "\<lambda>c. keysetOr rankKey cnv_id Desc (fst (rankPosition c)) (snd (rankPosition c))"
proof -
  have "keyset (columnBefore rankKey cnv_id Desc) cnv_id (conversationCursorFor None)
      (\<lambda>c. keysetOr rankKey cnv_id Desc (fst (rankPosition c)) (snd (rankPosition c)))"
    by (rule column_keyset) (simp add: columnBefore_def rankKey_def)
  then show "keyset (conversationBefore None) cnv_id (conversationCursorFor None)
      (\<lambda>c. keysetOr rankKey cnv_id Desc (fst (rankPosition c)) (snd (rankPosition c)))"
    by simp
qed

lemma rankCondition_timed:
  assumes "cnv_lastMessageAt r \<noteq> None" "cnv_lastMessageAt x \<noteq> None"
  shows "conversationCursorWhere (Some (conversationCursorFor None r)) x = conversationBefore None r x"
  using assms by (auto simp: columnBefore_def keysetOr_def cmp_def rankKey_def nullKey_def)

section \<open>Properties\<close>

lemma walkPages_listConversations:
  "walkPages n (listConversations w q s) c =
     filter (shownByFilter q) (map (conversationView s) (walkPages n (conversationPage w q s) c))"
proof -
  have "listConversations w q s = (\<lambda>c. mapPage (\<lambda>rows. filter (shownByFilter q) (map (conversationView s) rows))
      (conversationPage w q s c))"
    by (rule ext) (simp add: listConversations_def)
  then show ?thesis by (simp add: walkPages_mapPage)
qed

lemma conversationPage_field:
  assumes "conversationSortMode (lcq_sortBy q) (lcq_order q) None = Some (f, d)"
  shows "conversationPage w q s None = convField.pageAfter f d (nat (parseLimit (lcq_limit q)))
      (filter (matchesQuery w q) (conversations s)) None"
    "conversationPage w q s (Some (conversationCursorFor (Some (f, d)) r)) =
      convField.pageAfter f d (nat (parseLimit (lcq_limit q))) (filter (matchesQuery w q) (conversations s))
        (Some (conversationCursorFor (Some (f, d)) r))"
  unfolding conversationPage_def convField.pageAfter_def assms
  by (simp_all add: conversationSortMode_def Let_def conj_commute)

lemma conversationPage_rank:
  assumes "lcq_sortBy q = None \<or> lcq_sortBy q = Some []"
  shows "conversationPage w q s None = convRank.pageAfter (nat (parseLimit (lcq_limit q)))
      (filter (matchesQuery w q) (conversations s)) None"
    "cnv_lastMessageAt r \<noteq> None \<Longrightarrow> \<forall>c\<in>set (conversations s). cnv_lastMessageAt c \<noteq> None \<Longrightarrow>
     conversationPage w q s (Some (conversationCursorFor None r)) =
      convRank.pageAfter (nat (parseLimit (lcq_limit q))) (filter (matchesQuery w q) (conversations s))
        (Some (conversationCursorFor None r))"
proof -
  show "conversationPage w q s None = convRank.pageAfter (nat (parseLimit (lcq_limit q)))
      (filter (matchesQuery w q) (conversations s)) None"
    using assms unfolding conversationPage_def convRank.pageAfter_def
    by (auto simp: conversationSortMode_def nonEmpty_def Let_def)
next
  let ?c = "conversationCursorFor None r"
  assume t: "cnv_lastMessageAt r \<noteq> None" "\<forall>c\<in>set (conversations s). cnv_lastMessageAt c \<noteq> None"
  have "filter (\<lambda>x. matchesQuery w q x \<and> conversationCursorWhere (Some ?c) x) (conversations s) =
      filter (\<lambda>x. matchesQuery w q x \<and> conversationBefore None r x) (conversations s)"
    using rankCondition_timed [OF t(1)] t(2) by (intro filter_cong) auto
  moreover have "keysetOr rankKey cnv_id Desc (fst (rankPosition ?c)) (snd (rankPosition ?c)) = conversationBefore None r"
    by (rule ext) (simp add: columnBefore_def rankKey_def)
  ultimately show "conversationPage w q s (Some ?c) = convRank.pageAfter (nat (parseLimit (lcq_limit q)))
      (filter (matchesQuery w q) (conversations s)) (Some ?c)"
    unfolding conversationPage_def convRank.pageAfter_def
    by (simp add: conversationSortMode_def Let_def conj_commute)
qed

text \<open>C6: a client that follows the next cursors of the conversation list gets every
  conversation of its workspace that matches the query exactly once, in the order
  asked for, when it sorts by a field, and also in the default ranking when every
  conversation has a last message.\<close>

theorem conversation_walk_complete:
  assumes "distinct (map cnv_id (conversations s))" "0 < parseLimit (lcq_limit q)" "length (conversations s) < n"
    and "nonEmpty (lcq_sortBy q) \<or> (\<forall>c\<in>set (conversations s). cnv_lastMessageAt c \<noteq> None)"
  shows "\<exists>rows. mset rows = mset (filter (matchesQuery w q) (conversations s))
    \<and> sorted_wrt (conversationBefore (conversationSortMode (lcq_sortBy q) (lcq_order q) None)) rows
    \<and> walkPages n (listConversations w q s) None = filter (shownByFilter q) (map (conversationView s) rows)"
proof -
  let ?rows = "filter (matchesQuery w q) (conversations s)" and ?limit = "nat (parseLimit (lcq_limit q))"
  have d: "distinct (map cnv_id ?rows)" using assms(1) by (rule distinct_map_filter)
  have n: "length ?rows < n" using assms(3) by (rule le_less_trans [OF length_filter_le])
  have l: "0 < ?limit" using assms(2) by simp
  show ?thesis
  proof (cases "conversationSortMode (lcq_sortBy q) (lcq_order q) None")
    case (Some m)
    obtain f d' where m: "m = (f, d')" by fastforce
    have "walkPages n (conversationPage w q s) None = orderBy (conversationBefore (Some (f, d'))) ?rows"
      using conversationPage_field [OF Some [unfolded m]] by (intro convField.walk_complete [OF d l n])
    then show ?thesis
      using convField.sorted_orderBy [OF d] Some m by (metis mset_orderBy walkPages_listConversations)
  next
    case None
    then have e: "lcq_sortBy q = None \<or> lcq_sortBy q = Some []"
      by (auto simp: conversationSortMode_def nonEmpty_def Let_def split: if_splits)
    then have t: "\<forall>c\<in>set (conversations s). cnv_lastMessageAt c \<noteq> None" using assms(4) by (auto simp: nonEmpty_def)
    have "walkPages n (conversationPage w q s) None = orderBy (conversationBefore None) ?rows"
      using conversationPage_rank [OF e] t by (intro convRank.walk_complete [OF d l n]) auto
    then show ?thesis
      using convRank.sorted_orderBy [OF d] None by (metis mset_orderBy walkPages_listConversations)
  qed
qed

text \<open>The default ranking loses conversations. When a page ends at a conversation
  without a last message, its cursor's condition excludes every conversation of the
  same priority that has one, although all of them are ranked after it, so no later
  page shows them.\<close>

theorem default_ranking_skips:
  assumes "cnv_lastMessageAt r = None" "cnv_priorityScore x = cnv_priorityScore r" "cnv_lastMessageAt x \<noteq> None"
  shows "conversationBefore None r x \<and> \<not> conversationCursorWhere (Some (conversationCursorFor None r)) x"
  using assms by (auto simp: columnBefore_def keysetOr_def cmp_def rankKey_def nullKey_def)

definition sampleConversation :: "uuid \<Rightarrow> instant option \<Rightarrow> Conversation" where
  "sampleConversation i t = \<lparr>cnv_id = i, cnv_workspaceId = 11, cnv_providerId = 5, cnv_linkedAccountId = None,
     cnv_externalId = [], cnv_title = None, cnv_lastMessageAt = t, cnv_priorityScore = 0, cnv_isArchived = False,
     cnv_category = None, cnv_tags = [], cnv_lastReadAt = None, cnv_createdAt = 0, cnv_deletedAt = None\<rparr>"

definition sampleQuery :: "string option \<Rightarrow> ListConversationsQuery" where
  "sampleQuery sortBy = \<lparr>lcq_archived = None, lcq_category = None, lcq_vip = None, lcq_unread = None,
     lcq_limit = Some ''1'', lcq_sortBy = sortBy, lcq_order = None\<rparr>"

definition sampleInbox :: world where
  "sampleInbox = emptyWorld\<lparr>conversations := [sampleConversation 1 (Some 50), sampleConversation 2 None]\<rparr>"

lemma parseLimit_one: "parseLimit (Some ''1'') = 1"
proof -
  have "toNumber ''1'' = Fin 1"
    using toNumber_digits [of "''1''"] by (simp add: isDigit_def code_def)
  then show ?thesis by (simp add: parseLimit_def MAX_PAGE_LIMIT_def)
qed

lemmas inbox_eval = sampleInbox_def sampleConversation_def sampleQuery_def emptyWorld_def matchesQuery_def
  conversationPage_def conversationSortMode_def orderBy_def columnBefore_def keysetOr_def cmp_def rankKey_def
  nullKey_def buildPage_def Let_def nonEmpty_def parseLimit_one

theorem default_ranking_skips_witness:
  "\<not> conversationCursorWhere (Some (conversationCursorFor None (sampleConversation 2 None))) (sampleConversation 1 (Some 50))
   \<and> map cnv_id (walkPages 10 (conversationPage 11 (sampleQuery None) sampleInbox) None) = [2]"
proof
  show "\<not> conversationCursorWhere (Some (conversationCursorFor None (sampleConversation 2 None))) (sampleConversation 1 (Some 50))"
    using default_ranking_skips [of "sampleConversation 2 None" "sampleConversation 1 (Some 50)"]
    by (simp add: sampleConversation_def)
  show "map cnv_id (walkPages 10 (conversationPage 11 (sampleQuery None) sampleInbox) None) = [2]"
    by (simp add: inbox_eval numeral_nat)
qed

theorem conversation_walk_complete_witness:
  "length (walkPages 10 (listConversations 11 (sampleQuery (Some ''lastMessageAt'')) sampleInbox) None) = 2"
proof -
  let ?q = "sampleQuery (Some ''lastMessageAt'')"
  have m: "filter (matchesQuery 11 ?q) (conversations sampleInbox) = conversations sampleInbox"
    and f: "shownByFilter ?q = (\<lambda>v. True)"
    by (auto simp: sampleInbox_def sampleConversation_def sampleQuery_def matchesQuery_def shownByFilter_def)
  obtain rows where r: "mset rows = mset (conversations sampleInbox)"
    "walkPages 10 (listConversations 11 ?q sampleInbox) None =
       filter (shownByFilter ?q) (map (conversationView sampleInbox) rows)"
    using conversation_walk_complete [of sampleInbox ?q 10 11] unfolding m
    by (auto simp: sampleInbox_def sampleConversation_def sampleQuery_def nonEmpty_def parseLimit_one)
  have "length rows = 2"
    using arg_cong [OF r(1), of size] by (simp add: sampleInbox_def)
  then show ?thesis using r(2) by (simp add: f)
qed

text \<open>The contact list walks completely too, and the cursor, not the client, keeps
  the sort: whatever sort parameters come with the later pages, every live contact of
  the workspace appears exactly once in the order of the first request.\<close>

theorem contact_walk_complete:
  assumes "distinct (map con_id (contacts s))" "0 < parseLimit lmt" "length (contacts s) < n"
  shows "\<exists>rows. mset rows = mset (filter (\<lambda>r. con_deletedAt r = None \<and> con_workspaceId r = w) (contacts s))
    \<and> sorted_wrt (columnBefore (contactField (parseSortBy sb CONTACT_SORT_FIELDS ''displayName'')) con_id
         (parseOrder od (CONTACT_DEFAULT_ORDER (parseSortBy sb CONTACT_SORT_FIELDS ''displayName'')))) rows
    \<and> walkPages n (\<lambda>c. if c = None then listContacts w lmt sb od s c else listContacts w lmt sb' od' s c) None
        = map (contactView s) rows"
proof -
  let ?f = "parseSortBy sb CONTACT_SORT_FIELDS ''displayName''"
  let ?d = "parseOrder od (CONTACT_DEFAULT_ORDER ?f)" and ?limit = "nat (parseLimit lmt)"
  let ?rows = "filter (\<lambda>r. con_deletedAt r = None \<and> con_workspaceId r = w) (contacts s)"
  let ?fetch = "\<lambda>c. if c = None then contactPage w lmt sb od s c else contactPage w lmt sb' od' s c"
  have d: "distinct (map con_id ?rows)" using assms(1) by (rule distinct_map_filter)
  have "walkPages n ?fetch None = orderBy (columnBefore (contactField ?f) con_id ?d) ?rows"
  proof (rule contactList.walk_complete [OF d])
    show "length ?rows < n" using assms(3) by (rule le_less_trans [OF length_filter_le])
    show "?fetch None = contactList.pageAfter ?f ?d ?limit ?rows None"
      unfolding contactList.pageAfter_def by (simp add: contactPage_def Let_def)
    show "?fetch (Some \<lparr>clc_sortBy = ?f, clc_order = ?d, clc_value = contactField ?f r, clc_id = con_id r\<rparr>) =
        contactList.pageAfter ?f ?d ?limit ?rows
          (Some \<lparr>clc_sortBy = ?f, clc_order = ?d, clc_value = contactField ?f r, clc_id = con_id r\<rparr>)" for r
      unfolding contactList.pageAfter_def by (simp add: contactPage_def Let_def conj_commute conj_left_commute)
  qed (use assms(2) in simp)
  moreover have "(\<lambda>c. if c = None then listContacts w lmt sb od s c else listContacts w lmt sb' od' s c)
      = (\<lambda>c. mapPage (map (contactView s)) (?fetch c))"
    by (rule ext) (simp add: listContacts_def)
  ultimately show ?thesis
    using contactList.sorted_orderBy [OF d, of ?f ?d]
    by (intro exI [of _ "orderBy (columnBefore (contactField ?f) con_id ?d) ?rows"]) (simp add: walkPages_mapPage)
qed

theorem contact_walk_complete_witness:
  "\<exists>rows. length rows = 1 \<and> walkPages 5 (\<lambda>c. if c = None
      then listContacts 11 (Some ''1'') None None (emptyWorld\<lparr>contacts := [\<lparr>con_id = 1, con_workspaceId = 11,
        con_displayName = ''Ada'', con_isVip = False, con_createdAt = 0, con_deletedAt = None\<rparr>]\<rparr>) c
      else listContacts 11 (Some ''1'') (Some ''createdAt'') (Some ''desc'') (emptyWorld\<lparr>contacts := [\<lparr>con_id = 1,
        con_workspaceId = 11, con_displayName = ''Ada'', con_isVip = False, con_createdAt = 0, con_deletedAt = None\<rparr>]\<rparr>) c)
      None = rows"
proof -
  let ?c = "\<lparr>con_id = 1, con_workspaceId = 11, con_displayName = ''Ada'', con_isVip = False, con_createdAt = 0,
    con_deletedAt = None\<rparr> :: Contact"
  let ?s = "emptyWorld\<lparr>contacts := [?c]\<rparr>"
  have f: "filter (\<lambda>r. con_deletedAt r = None \<and> con_workspaceId r = 11) (contacts ?s) = [?c]" by simp
  have "distinct (map con_id (contacts ?s))" "0 < parseLimit (Some ''1'')" "length (contacts ?s) < 5"
    by (simp_all add: parseLimit_one)
  from contact_walk_complete [OF this, where w = 11 and sb = None and od = None and sb' = "Some ''createdAt''"
      and od' = "Some ''desc''"]
  obtain rows where r: "mset rows = mset [?c]" "walkPages 5 (\<lambda>c. if c = None then listContacts 11 (Some ''1'') None None ?s c
      else listContacts 11 (Some ''1'') (Some ''createdAt'') (Some ''desc'') ?s c) None = map (contactView ?s) rows"
    unfolding f by blast
  have "length rows = 1" using arg_cong [OF r(1), of size] by simp
  then show ?thesis using r(2) by (intro exI [of _ "map (contactView ?s) rows"]) simp
qed

text \<open>The rule list walks completely in every order it offers, the default
  ranking by priority included.\<close>

theorem rule_walk_complete:
  assumes "distinct (map rul_id (rules s))" "0 < parseLimit lmt" "length (rules s) < n"
  shows "\<exists>rows. mset rows = mset (filter (\<lambda>r. rul_deletedAt r = None \<and> rul_workspaceId r = w) (rules s))
    \<and> sorted_wrt (ruleBefore (ruleSortMode sb od None)) rows
    \<and> walkPages n (listRules w lmt sb od s) None = rows"
proof -
  let ?m = "ruleSortMode sb od None" and ?limit = "nat (parseLimit lmt)"
  let ?rows = "filter (\<lambda>r. rul_deletedAt r = None \<and> rul_workspaceId r = w) (rules s)"
  have d: "distinct (map rul_id ?rows)" using assms(1) by (rule distinct_map_filter)
  have mode: "ruleSortMode sb od (Some (ruleCursorFor ?m r)) = ?m" for r
    by (cases ?m) (auto simp: ruleSortMode_def)
  have "walkPages n (listRules w lmt sb od s) None = orderBy (ruleBefore ?m) ?rows"
  proof (rule ruleList.walk_complete [OF d])
    show "length ?rows < n" using assms(3) by (rule le_less_trans [OF length_filter_le])
    show "listRules w lmt sb od s None = ruleList.pageAfter ?m ?limit ?rows None"
      unfolding ruleList.pageAfter_def by (simp add: listRules_def Let_def)
    show "listRules w lmt sb od s (Some (ruleCursorFor ?m r)) = ruleList.pageAfter ?m ?limit ?rows (Some (ruleCursorFor ?m r))" for r
      unfolding ruleList.pageAfter_def by (simp add: listRules_def Let_def mode conj_commute conj_left_commute)
  qed (use assms(2) in simp)
  then show ?thesis using ruleList.sorted_orderBy [OF d, of ?m] by simp
qed

theorem rule_walk_complete_witness:
  "walkPages 5 (listRules 11 (Some ''1'') None None emptyWorld) None = []"
  using rule_walk_complete [of emptyWorld "Some ''1''" 5 11 None None] by (auto simp: emptyWorld_def parseLimit_one)

text \<open>Reading a conversation page by page backwards gives every live message of it
  exactly once, newest first, each page itself in chronological order.\<close>

theorem message_walk_complete:
  assumes "distinct (map msg_id (messages s))" "0 < parseLimit lmt" "length (messages s) < n"
    and "conversationOf w i s = Some c"
  shows "\<exists>rows. mset rows = mset (filter (\<lambda>m. msg_deletedAt m = None \<and> msg_conversationId m = i) (messages s))
    \<and> sorted_wrt (columnBefore msg_receivedAt msg_id Desc) rows
    \<and> walkPages n (\<lambda>c. mapPage rev (projr (listMessages w i lmt s c))) None = map (messageView s) rows"
proof -
  let ?limit = "nat (parseLimit lmt)"
  let ?rows = "filter (\<lambda>m. msg_deletedAt m = None \<and> msg_conversationId m = i) (messages s)"
  have d: "distinct (map msg_id ?rows)" using assms(1) by (rule distinct_map_filter)
  let ?fetch = "byTime.pageAfter msg_receivedAt msg_id ?limit ?rows"
  have f: "filter (\<lambda>m. msg_deletedAt m = None \<and> msg_conversationId m = i \<and> Q m) (messages s) = filter Q ?rows" for Q
    unfolding filter_filter by (rule filter_cong) auto
  have "mapPage rev (projr (listMessages w i lmt s c)) = mapPage (map (messageView s)) (?fetch c)" for c
    unfolding byTime.pageAfter_def
    by (cases c) (simp_all only: listMessages_def assms(4) option.case Let_def sum.sel f mapPage_def case_prod_beta,
        simp_all add: mapPage_def rev_map buildPage_def Let_def conj_commute)
  then have "(\<lambda>c. mapPage rev (projr (listMessages w i lmt s c))) = (\<lambda>c. mapPage (map (messageView s)) (?fetch c))"
    by (rule ext)
  moreover have "walkPages n ?fetch None = orderBy (columnBefore msg_receivedAt msg_id Desc) ?rows"
    using assms(2) by (intro byTime.walk_complete [OF d _ le_less_trans [OF length_filter_le assms(3)]]) auto
  ultimately show ?thesis
    using byTime.sorted_orderBy [OF d, of msg_receivedAt]
    by (intro exI [of _ "orderBy (columnBefore msg_receivedAt msg_id Desc) ?rows"]) (simp add: walkPages_mapPage)
qed

theorem message_walk_complete_witness:
  "walkPages 5 (\<lambda>c. mapPage rev (projr (listMessages 11 1 (Some ''1'') sampleInbox c))) None = []"
proof -
  have "conversationOf 11 1 sampleInbox = Some (sampleConversation 1 (Some 50))"
    by (simp add: conversationOf_def sampleInbox_def sampleConversation_def)
  from message_walk_complete [OF _ _ _ this, of "Some ''1''" 5] show ?thesis
    by (auto simp: sampleInbox_def emptyWorld_def parseLimit_one)
qed

end
