(* ===== verification/Connector_Sdk.thy ===== *)
theory Connector_Sdk
  imports Database
begin

text \<open>
  The connector SDK (\<open>packages/connector-sdk/src\<close>): the lifecycle state machine, the
  capability manifest, the error taxonomy with its credential redaction, the
  registry, the authentication order of the base connector, and the mock connector.
  A provider is reached through operations on a provider state \<open>'p\<close>, which stands for
  everything outside; a connector method is an operation on it.
\<close>

section \<open>Lifecycle\<close>

definition LIFECYCLE_STATES :: "LifecycleState list" where
  "LIFECYCLE_STATES = [Registered, Authenticating, SyncingInitial, Active, Degraded, ReauthRequired,
     ErrorState, Disconnecting, Disconnected]"

fun LIFECYCLE_TRANSITIONS :: "LifecycleState \<Rightarrow> LifecycleState list" where
  "LIFECYCLE_TRANSITIONS Registered = [Authenticating]"
| "LIFECYCLE_TRANSITIONS Authenticating = [SyncingInitial, ErrorState]"
| "LIFECYCLE_TRANSITIONS SyncingInitial = [Active, ErrorState]"
| "LIFECYCLE_TRANSITIONS Active = [Degraded, ReauthRequired, Disconnecting]"
| "LIFECYCLE_TRANSITIONS Degraded = [Active, ErrorState, ReauthRequired, Disconnecting]"
| "LIFECYCLE_TRANSITIONS ReauthRequired = [Authenticating, Disconnecting]"
| "LIFECYCLE_TRANSITIONS ErrorState = [Disconnecting, Authenticating]"
| "LIFECYCLE_TRANSITIONS Disconnecting = [Disconnected]"
| "LIFECYCLE_TRANSITIONS Disconnected = []"

record LifecycleTransitionRecord =
  ltr_from :: LifecycleState
  ltr_to :: LifecycleState
  ltr_at :: instant

record ConnectorLifecycle =
  lc_state :: LifecycleState
  lc_history :: "LifecycleTransitionRecord list"

definition createLifecycle :: "LifecycleState \<Rightarrow> ConnectorLifecycle" where
  "createLifecycle initialState = \<lparr>lc_state = initialState, lc_history = []\<rparr>"

definition illegalTransition :: exn where
  "illegalTransition = PlainError ''Illegal connector lifecycle transition''"

definition transition :: "instant \<Rightarrow> LifecycleState \<Rightarrow> (ConnectorLifecycle, exn, unit) oper" where
  "transition now t lc =
     (if t \<notin> set (LIFECYCLE_TRANSITIONS (lc_state lc)) then (Inl illegalTransition, lc)
      else (Inr (), \<lparr>lc_state = t,
        lc_history = lc_history lc @ [\<lparr>ltr_from = lc_state lc, ltr_to = t, ltr_at = now\<rparr>]\<rparr>))"

record GraphIntegrity =
  gi_reachable :: bool
  gi_noDeadEnds :: bool
  gi_unreachable :: "LifecycleState list"
  gi_deadEnds :: "LifecycleState list"

definition checkLifecycleGraphIntegrity :: GraphIntegrity where
  "checkLifecycleGraphIntegrity =
     (let inbound = Registered # concat (map LIFECYCLE_TRANSITIONS LIFECYCLE_STATES);
          unreachable = filter (\<lambda>s. s \<notin> set inbound) LIFECYCLE_STATES;
          deadEnds = filter (\<lambda>s. s \<noteq> Disconnected \<and> LIFECYCLE_TRANSITIONS s = []) LIFECYCLE_STATES
      in \<lparr>gi_reachable = (unreachable = []), gi_noDeadEnds = (deadEnds = []),
          gi_unreachable = unreachable, gi_deadEnds = deadEnds\<rparr>)"

text \<open>A history is a path of the table from the initial state to the current one.\<close>

fun pathFrom :: "LifecycleState \<Rightarrow> LifecycleTransitionRecord list \<Rightarrow> LifecycleState \<Rightarrow> bool" where
  "pathFrom s [] e = (s = e)"
| "pathFrom s (r # rs) e = (ltr_from r = s \<and> ltr_to r \<in> set (LIFECYCLE_TRANSITIONS s) \<and> pathFrom (ltr_to r) rs e)"

lemma pathFrom_snoc:
  "pathFrom s (rs @ [r]) e \<longleftrightarrow> pathFrom s rs (ltr_from r) \<and> ltr_to r \<in> set (LIFECYCLE_TRANSITIONS (ltr_from r)) \<and> ltr_to r = e"
  by (induction rs arbitrary: s) auto

definition lifecycleInv :: "LifecycleState \<Rightarrow> ConnectorLifecycle \<Rightarrow> bool" where
  "lifecycleInv s0 lc \<longleftrightarrow> pathFrom s0 (lc_history lc) (lc_state lc)"

lemma lifecycleInv_transition: "lifecycleInv s0 lc \<Longrightarrow> lifecycleInv s0 (snd (transition now t lc))"
  by (simp add: lifecycleInv_def transition_def pathFrom_snoc)

section \<open>Errors\<close>

datatype ConnectorErrorCode = AUTH_EXPIRED | RATE_LIMITED | PROVIDER_UNAVAILABLE | RESOURCE_NOT_FOUND
  | PERMISSION_DENIED | PAYLOAD_REJECTED | UNKNOWN

definition RETRYABLE_CODES :: "ConnectorErrorCode list" where
  "RETRYABLE_CODES = [RATE_LIMITED, PROVIDER_UNAVAILABLE]"

text \<open>\<open>\b((?:api[_-]?key|token|password|secret|bearer)\s*[:=]\s*)(\S+)\<close> at the head of
  a text, at a word boundary, ignoring case: the prefix's length and the rest after
  the value.\<close>

fun stripKeyword :: "string list \<Rightarrow> string \<Rightarrow> string option" where
  "stripKeyword [] s = None"
| "stripKeyword (k # ks) s = (if startsWith (toLowerCase s) k then Some (drop (length k) s) else stripKeyword ks s)"

definition CREDENTIAL_WORDS :: "string list" where
  "CREDENTIAL_WORDS = [''api_key'', ''api-key'', ''apikey'', ''token'', ''password'', ''secret'', ''bearer'']"

definition matchCredential :: "string \<Rightarrow> (string \<times> string) option" where
  "matchCredential s = (case stripKeyword CREDENTIAL_WORDS s of
      None \<Rightarrow> None
    | Some t \<Rightarrow> (case dropWhile isSpace t of
        [] \<Rightarrow> None
      | c # u \<Rightarrow> if c \<noteq> CHR '':'' \<and> c \<noteq> CHR ''='' then None
          else (let v = dropWhile isSpace u; rest = dropWhile (\<lambda>x. \<not> isSpace x) v in
            if v = [] then None else Some (take (length s - length v) s, rest))))"

lemma stripKeyword_length: "stripKeyword ks s = Some t \<Longrightarrow> length t \<le> length s"
  by (induction ks) (auto split: if_splits)

lemma matchCredential_length:
  assumes "matchCredential s = Some (p, rest)"
  shows "length rest < length s"
proof -
  obtain t c u where t: "stripKeyword CREDENTIAL_WORDS s = Some t" "dropWhile isSpace t = c # u"
    and r: "rest = dropWhile (\<lambda>x. \<not> isSpace x) (dropWhile isSpace u)"
    using assms by (auto simp: matchCredential_def Let_def split: option.splits list.splits if_splits)
  have "length rest \<le> length u"
    unfolding r by (meson length_dropWhile_le le_trans)
  moreover have "Suc (length u) \<le> length t"
    using length_dropWhile_le [of isSpace t] t(2) by simp
  ultimately show ?thesis using stripKeyword_length [OF t(1)] by simp
qed

function redactFrom :: "bool \<Rightarrow> string \<Rightarrow> string" where
  "redactFrom boundary [] = []"
| "redactFrom boundary (c # cs) = (case (if boundary then matchCredential (c # cs) else None) of
      Some (prefix, rest) \<Rightarrow> prefix @ ''[REDACTED]'' @ redactFrom True rest
    | None \<Rightarrow> c # redactFrom (isWordChar c \<noteq> (cs \<noteq> [] \<and> isWordChar (hd cs))) cs)"
  by pat_completeness auto

termination redactFrom
  by (relation "measure (\<lambda>(b, s). length s)") (auto dest!: matchCredential_length split: if_splits)

definition redactCredentials :: "string \<Rightarrow> string" where
  "redactCredentials s = redactFrom True s"

record ConnectorError =
  ce_code :: ConnectorErrorCode
  ce_retryable :: bool
  ce_message :: string

definition connectorError :: "ConnectorErrorCode \<Rightarrow> string \<Rightarrow> ConnectorError" where
  "connectorError c m = \<lparr>ce_code = c, ce_retryable = (c \<in> set RETRYABLE_CODES), ce_message = redactCredentials m\<rparr>"

text \<open>What a connector method throws: the mapped error, or a provider client's own.\<close>

datatype conn_exn = Mapped ConnectorError | RawApi string | OtherError string

fun connMessage :: "conn_exn \<Rightarrow> string" where
  "connMessage (Mapped e) = ce_message e"
| "connMessage (RawApi m) = m"
| "connMessage (OtherError m) = m"

section \<open>Messages and syncs\<close>

record NormalizedMessage =
  nm_externalId :: string
  nm_conversationExternalId :: string
  nm_conversationTitle :: "string option"
  nm_direction :: direction
  nm_bodyText :: string
  nm_receivedAt :: instant
  nm_senderExternalId :: "string option"
  nm_senderHandle :: "string option"
  nm_senderDisplayName :: "string option"

text \<open>A checkpoint's cursor is the connector's own text; each connector's payload of it
  is a type parameter.\<close>

record 'c SyncCheckpoint =
  cp_cursor :: "'c option"
  cp_processedCount :: nat

record 'c SyncResult =
  sr_messages :: "NormalizedMessage list"
  sr_checkpoint :: "'c SyncCheckpoint"
  sr_complete :: bool

record OutboundMessage =
  om_conversationExternalId :: string
  om_bodyText :: string

record SendResult =
  snd_externalId :: string
  snd_queued :: bool

definition processedOf :: "'c SyncCheckpoint option \<Rightarrow> nat" where
  "processedOf cp = (case cp of None \<Rightarrow> 0 | Some c \<Rightarrow> cp_processedCount c)"

section \<open>The manifest\<close>

datatype IngestionMode = Webhook | Polling | Hybrid | Streaming

record CapabilityManifest =
  mf_providerKey :: string
  mf_displayName :: string
  mf_ingestionMode :: IngestionMode
  mf_reconciliationIntervalMinutes :: "nat option"
  mf_requestsPerSecond :: int
  mf_burst :: int

definition requiresReconciliation :: "CapabilityManifest \<Rightarrow> bool" where
  "requiresReconciliation m \<longleftrightarrow> mf_ingestionMode m = Webhook \<or> mf_ingestionMode m = Hybrid \<or> mf_ingestionMode m = Streaming"

definition defineCapabilityManifest :: "CapabilityManifest \<Rightarrow> exn + CapabilityManifest" where
  "defineCapabilityManifest m =
     (if requiresReconciliation m \<and> mf_reconciliationIntervalMinutes m \<in> {None, Some 0}
      then Inl (PlainError ''no reconciliationIntervalMinutes'')
      else if mf_requestsPerSecond m \<le> 0 then Inl (PlainError ''non-positive rateLimits.requestsPerSecond'')
      else Inr m)"

section \<open>Connectors\<close>

record CredentialValidationResult =
  cvr_valid :: bool
  cvr_reason :: "string option"

text \<open>The part of the connector contract the platform calls without knowing the
  provider: validation, the step after it, and the optional send, on a credential and
  a provider state.\<close>

record 'p Connector =
  cn_manifest :: CapabilityManifest
  cn_validateCredential :: "jsval \<Rightarrow> ('p, conn_exn, CredentialValidationResult) oper"
  cn_onCredentialValidated :: "jsval \<Rightarrow> ('p, conn_exn, string) oper"
  cn_send :: "(OutboundMessage \<Rightarrow> jsval \<Rightarrow> ('p, conn_exn, SendResult) oper) option"

definition authenticate :: "'p Connector \<Rightarrow> jsval \<Rightarrow> ('p, conn_exn, string) oper" where
  "authenticate c credential = bindO (cn_validateCredential c credential) (\<lambda>result.
     if \<not> cvr_valid result
     then throw (Mapped (connectorError AUTH_EXPIRED
       (case cvr_reason result of None \<Rightarrow> ''Credential validation failed.'' | Some r \<Rightarrow> r)))
     else cn_onCredentialValidated c credential)"

type_synonym 'p registry = "'p Connector list"

definition registerConnector :: "'p Connector \<Rightarrow> 'p registry \<Rightarrow> exn + 'p registry" where
  "registerConnector c reg =
     (if list_ex (\<lambda>x. mf_providerKey (cn_manifest x) = mf_providerKey (cn_manifest c)) reg
      then Inl (PlainError ''A connector for this provider is already registered.'')
      else Inr (reg @ [c]))"

definition getConnector :: "'p registry \<Rightarrow> string \<Rightarrow> exn + 'p Connector" where
  "getConnector reg key = (case findFirst (\<lambda>c. mf_providerKey (cn_manifest c) = key) reg of
      None \<Rightarrow> Inl (PlainError ''No connector registered for provider.'') | Some c \<Rightarrow> Inr c)"

definition hasConnector :: "'p registry \<Rightarrow> string \<Rightarrow> bool" where
  "hasConnector reg key = list_ex (\<lambda>c. mf_providerKey (cn_manifest c) = key) reg"

section \<open>The mock connector\<close>

record MockRawMessage =
  mrm_id :: string
  mrm_conversationId :: string
  mrm_conversationTitle :: "string option"
  mrm_direction :: direction
  mrm_text :: string
  mrm_receivedAt :: instant
  mrm_senderId :: "string option"
  mrm_senderHandle :: "string option"
  mrm_senderName :: "string option"

record MockRawError =
  mre_code :: "string option"
  mre_message :: "string option"

text \<open>The instance's state: the simulated failure, and the next UUID to be drawn.\<close>

record MockState =
  mk_failureMode :: "ConnectorErrorCode option"
  mk_nextUuid :: uuid

definition MOCK_PROVIDER_KEY :: string where
  "MOCK_PROVIDER_KEY = ''mock''"

definition MOCK_INITIAL_SYNC_TOTAL :: nat where
  "MOCK_INITIAL_SYNC_TOTAL = 12"

definition MOCK_RECONCILE_TOTAL :: nat where
  "MOCK_RECONCILE_TOTAL = 6"

definition DEFAULT_BATCH_SIZE :: nat where
  "DEFAULT_BATCH_SIZE = 5"

definition MOCK_ERROR_TAXONOMY :: "(string \<times> ConnectorErrorCode) list" where
  "MOCK_ERROR_TAXONOMY = [(''auth_expired'', AUTH_EXPIRED), (''rate_limited'', RATE_LIMITED),
     (''provider_down'', PROVIDER_UNAVAILABLE), (''not_found'', RESOURCE_NOT_FOUND),
     (''forbidden'', PERMISSION_DENIED), (''rejected'', PAYLOAD_REJECTED)]"

definition buildSyntheticRawMessage :: "nat \<Rightarrow> string \<Rightarrow> MockRawMessage" where
  "buildSyntheticRawMessage i prefix = \<lparr>mrm_id = prefix @ ''-'' @ intDigits (int i),
     mrm_conversationId = ''mock-conversation-synthetic'',
     mrm_conversationTitle = Some ''Mock Synthetic Conversation'', mrm_direction = Inbound,
     mrm_text = ''Synthetic '' @ prefix @ '' message #'' @ intDigits (int i),
     mrm_receivedAt = 1767225600000 + 60000 * int i,
     mrm_senderId = Some ''mock-synthetic-sender'', mrm_senderHandle = Some ''@mock-synthetic-sender'',
     mrm_senderName = Some ''Mock Synthetic Sender''\<rparr>"

definition mockMapMessage :: "MockRawMessage \<Rightarrow> NormalizedMessage" where
  "mockMapMessage m = \<lparr>nm_externalId = mrm_id m, nm_conversationExternalId = mrm_conversationId m,
     nm_conversationTitle = mrm_conversationTitle m, nm_direction = mrm_direction m, nm_bodyText = mrm_text m,
     nm_receivedAt = mrm_receivedAt m, nm_senderExternalId = mrm_senderId m, nm_senderHandle = mrm_senderHandle m,
     nm_senderDisplayName = mrm_senderName m\<rparr>"

definition mockMapError :: "MockRawError \<Rightarrow> ConnectorError" where
  "mockMapError e = connectorError
     (case map_of MOCK_ERROR_TAXONOMY (case_option [] id (mre_code e)) of None \<Rightarrow> UNKNOWN | Some c \<Rightarrow> c)
     (case_option ''Unknown mock provider error.'' id (mre_message e))"

definition failureModeToRawCode :: "ConnectorErrorCode \<Rightarrow> string" where
  "failureModeToRawCode c = (case findFirst (\<lambda>(k, v). v = c) MOCK_ERROR_TAXONOMY of
      None \<Rightarrow> ''unknown'' | Some (k, v) \<Rightarrow> k)"

fun codeName :: "ConnectorErrorCode \<Rightarrow> string" where
  "codeName AUTH_EXPIRED = ''AUTH_EXPIRED''"
| "codeName RATE_LIMITED = ''RATE_LIMITED''"
| "codeName PROVIDER_UNAVAILABLE = ''PROVIDER_UNAVAILABLE''"
| "codeName RESOURCE_NOT_FOUND = ''RESOURCE_NOT_FOUND''"
| "codeName PERMISSION_DENIED = ''PERMISSION_DENIED''"
| "codeName PAYLOAD_REJECTED = ''PAYLOAD_REJECTED''"
| "codeName UNKNOWN = ''UNKNOWN''"

definition simulateFailure :: "ConnectorErrorCode option \<Rightarrow> MockState \<Rightarrow> MockState" where
  "simulateFailure c m = m\<lparr>mk_failureMode := c\<rparr>"

definition throwIfSimulatingFailure :: "(MockState, conn_exn, unit) oper" where
  "throwIfSimulatingFailure m = (case mk_failureMode m of
      None \<Rightarrow> (Inr (), m)
    | Some c \<Rightarrow> (Inl (Mapped (mockMapError \<lparr>mre_code = Some (failureModeToRawCode c),
        mre_message = Some (''Simulated '' @ codeName c)\<rparr>)), m))"

definition runSyntheticSync :: "nat SyncCheckpoint option \<Rightarrow> nat \<Rightarrow> string \<Rightarrow> nat SyncResult" where
  "runSyntheticSync cp tot prefix =
     (let start = processedOf cp; stop = min (start + DEFAULT_BATCH_SIZE) tot in
      if tot \<le> start then \<lparr>sr_messages = [],
          sr_checkpoint = \<lparr>cp_cursor = Some tot, cp_processedCount = tot\<rparr>, sr_complete = True\<rparr>
      else \<lparr>sr_messages = map (\<lambda>i. mockMapMessage (buildSyntheticRawMessage i prefix)) [start..<stop],
          sr_checkpoint = \<lparr>cp_cursor = Some stop, cp_processedCount = stop\<rparr>, sr_complete = (tot \<le> stop)\<rparr>)"

definition mockInitialSync :: "nat SyncCheckpoint option \<Rightarrow> (MockState, conn_exn, nat SyncResult) oper" where
  "mockInitialSync cp = bindO throwIfSimulatingFailure
     (\<lambda>_. ok (runSyntheticSync cp MOCK_INITIAL_SYNC_TOTAL ''initial''))"

definition mockReconcile :: "nat SyncCheckpoint option \<Rightarrow> (MockState, conn_exn, nat SyncResult) oper" where
  "mockReconcile cp = bindO throwIfSimulatingFailure
     (\<lambda>_. ok (runSyntheticSync cp MOCK_RECONCILE_TOTAL ''reconcile''))"

definition mockValidate :: "jsval \<Rightarrow> (MockState, conn_exn, CredentialValidationResult) oper" where
  "mockValidate c = ok (case c of
      JStr t \<Rightarrow> if startsWith t ''mock-valid-'' then \<lparr>cvr_valid = True, cvr_reason = None\<rparr>
        else \<lparr>cvr_valid = False, cvr_reason = Some ''Mock credentials must start with \"mock-valid-\".''\<rparr>
    | _ \<Rightarrow> \<lparr>cvr_valid = False, cvr_reason = Some ''Mock credentials must start with \"mock-valid-\".''\<rparr>)"

text \<open>A credential that passed validation is a string, on which \<open>String\<close> is the identity.\<close>

definition mockAccount :: "jsval \<Rightarrow> (MockState, conn_exn, string) oper" where
  "mockAccount c = (case c of JStr t \<Rightarrow> ok t | _ \<Rightarrow> throw (OtherError ''not a validated credential''))"

definition mockSend :: "OutboundMessage \<Rightarrow> jsval \<Rightarrow> (MockState, conn_exn, SendResult) oper" where
  "mockSend message credential m =
     (if mk_failureMode m = Some RATE_LIMITED
      then (Inr \<lparr>snd_externalId = ''mock-outbound-'' @ uuidText (mk_nextUuid m), snd_queued = True\<rparr>,
            m\<lparr>mk_failureMode := None, mk_nextUuid := Suc (mk_nextUuid m)\<rparr>)
      else bindO throwIfSimulatingFailure (\<lambda>_ m'.
        (Inr \<lparr>snd_externalId = ''mock-outbound-'' @ uuidText (mk_nextUuid m'), snd_queued = False\<rparr>,
         m'\<lparr>mk_nextUuid := Suc (mk_nextUuid m')\<rparr>)) m)"

text \<open>The mock's state is one part of the provider state, next to everything outside.\<close>

definition onMock :: "(MockState, 'e, 'a) oper \<Rightarrow> (MockState \<times> 'q, 'e, 'a) oper" where
  "onMock m p = (case m (fst p) of (r, m') \<Rightarrow> (r, (m', snd p)))"

definition mockConnector :: "(MockState \<times> 'q) Connector" where
  "mockConnector = \<lparr>cn_manifest = \<lparr>mf_providerKey = MOCK_PROVIDER_KEY, mf_displayName = ''Mock Connector'',
       mf_ingestionMode = Hybrid, mf_reconciliationIntervalMinutes = Some 15, mf_requestsPerSecond = 30, mf_burst = 10\<rparr>,
     cn_validateCredential = (\<lambda>c. onMock (mockValidate c)), cn_onCredentialValidated = (\<lambda>c. onMock (mockAccount c)),
     cn_send = Some (\<lambda>m c. onMock (mockSend m c))\<rparr>"

end
