(* ===== verification/Connectors.thy ===== *)
theory Connectors
  imports Connector_Sdk
begin

text \<open>
  The four real connectors (\<open>telegram-connector.ts\<close>, \<open>slack-connector.ts\<close>,
  \<open>discord-connector.ts\<close>, \<open>email-connector.ts\<close>): credentials, error mapping, message
  mapping, sending with its one retry, and the sync passes. The API clients are
  operations on the provider state.
\<close>

section \<open>Telegram\<close>

record TelegramUser =
  tu_id :: int
  tu_first_name :: string
  tu_last_name :: "string option"
  tu_username :: "string option"

record TelegramChat =
  tch_id :: int
  tch_title :: "string option"
  tch_username :: "string option"
  tch_first_name :: "string option"
  tch_last_name :: "string option"

record TelegramMessage =
  tm_message_id :: int
  tm_date :: int
  tm_chat :: TelegramChat
  tm_from :: "TelegramUser option"
  tm_text :: "string option"
  tm_caption :: "string option"
  tm_photo :: bool
  tm_video :: bool
  tm_document :: bool
  tm_voice :: bool
  tm_sticker :: bool

record TelegramUpdate =
  up_update_id :: int
  up_message :: "TelegramMessage option"
  up_edited_message :: "TelegramMessage option"

record TelegramWebhookInfo =
  wi_url :: string
  wi_pending_update_count :: nat
  wi_last_error_date :: "int option"

record TelegramRawApiError =
  tge_errorCode :: int
  tge_message :: string
  tge_retryAfter :: "int option"

record 'p TelegramApiClient =
  tg_getMe :: "string \<Rightarrow> ('p, TelegramRawApiError, TelegramUser) oper"
  tg_sendMessage :: "string \<Rightarrow> string \<Rightarrow> string \<Rightarrow> ('p, TelegramRawApiError, int) oper"
  tg_setWebhook :: "string \<Rightarrow> string \<Rightarrow> string \<Rightarrow> ('p, TelegramRawApiError, unit) oper"
  tg_deleteWebhook :: "string \<Rightarrow> ('p, TelegramRawApiError, unit) oper"
  tg_getWebhookInfo :: "string \<Rightarrow> ('p, TelegramRawApiError, TelegramWebhookInfo) oper"
  tg_getUpdates :: "string \<Rightarrow> int option \<Rightarrow> ('p, TelegramRawApiError, TelegramUpdate list) oper"

definition mapTelegramErrorCode :: "int \<Rightarrow> int option \<Rightarrow> ConnectorErrorCode" where
  "mapTelegramErrorCode c retryAfter =
     (if retryAfter \<notin> {None, Some 0} \<or> c = 429 then RATE_LIMITED
      else if c = 401 then AUTH_EXPIRED
      else if c = 404 then RESOURCE_NOT_FOUND
      else if c = 403 then PERMISSION_DENIED
      else if c = 400 then PAYLOAD_REJECTED
      else if 500 \<le> c then PROVIDER_UNAVAILABLE
      else UNKNOWN)"

definition telegramMapError :: "TelegramRawApiError \<Rightarrow> ConnectorError" where
  "telegramMapError e = connectorError (mapTelegramErrorCode (tge_errorCode e) (tge_retryAfter e)) (tge_message e)"

definition presentTexts :: "string option list \<Rightarrow> string list" where
  "presentTexts xs = filter (\<lambda>t. t \<noteq> []) (map (case_option [] id) xs)"

definition firstText :: "string option list \<Rightarrow> string \<Rightarrow> string" where
  "firstText xs dflt = (case presentTexts xs of [] \<Rightarrow> dflt | t # _ \<Rightarrow> t)"

definition chatDisplayName :: "TelegramChat \<Rightarrow> string" where
  "chatDisplayName chat = firstText [tch_title chat,
     Some (joinWith '' '' (presentTexts [tch_first_name chat, tch_last_name chat])), tch_username chat]
     (''Chat '' @ intDigits (tch_id chat))"

definition telegramPlaceholder :: "TelegramMessage \<Rightarrow> string" where
  "telegramPlaceholder m = (if tm_photo m then ''[Photo]'' else if tm_video m then ''[Video]''
     else if tm_document m then ''[Document]'' else if tm_voice m then ''[Voice message]''
     else if tm_sticker m then ''[Sticker]'' else ''[Unsupported message content]'')"

definition telegramContent :: "TelegramUpdate \<Rightarrow> TelegramMessage option" where
  "telegramContent u = (case up_message u of Some m \<Rightarrow> Some m | None \<Rightarrow> up_edited_message u)"

definition telegramMapMessage :: "TelegramUpdate \<Rightarrow> conn_exn + NormalizedMessage" where
  "telegramMapMessage u = (case telegramContent u of
      None \<Rightarrow> Inl (OtherError ''update with no message/edited_message content'')
    | Some m \<Rightarrow> Inr \<lparr>nm_externalId = intDigits (tm_message_id m),
        nm_conversationExternalId = intDigits (tch_id (tm_chat m)),
        nm_conversationTitle = Some (chatDisplayName (tm_chat m)), nm_direction = Inbound,
        nm_bodyText = (case tm_text m of Some t \<Rightarrow> t | None \<Rightarrow>
          (case tm_caption m of Some t \<Rightarrow> t | None \<Rightarrow> telegramPlaceholder m)),
        nm_receivedAt = tm_date m * 1000,
        nm_senderExternalId = Some (case tm_from m of Some x \<Rightarrow> intDigits (tu_id x) | None \<Rightarrow> intDigits (tch_id (tm_chat m))),
        nm_senderHandle = (case tm_from m of Some x \<Rightarrow>
            (if nonEmpty (tu_username x) then Some (CHR ''@'' # the (tu_username x)) else None) | None \<Rightarrow> None),
        nm_senderDisplayName = Some (case tm_from m of
            Some x \<Rightarrow> firstText [Some (joinWith '' '' (presentTexts [Some (tu_first_name x), tu_last_name x])),
                tu_username x] ''Unknown''
          | None \<Rightarrow> chatDisplayName (tm_chat m))\<rparr>)"

text \<open>A credential is a value; Telegram's is its bot token.\<close>

fun telegramCredential :: "jsval \<Rightarrow> conn_exn + string" where
  "telegramCredential (JStr t) = (if t = [] then Inl (Mapped (connectorError AUTH_EXPIRED
     ''TelegramConnector call made without a resolved bot token in context.'')) else Inr t)"
| "telegramCredential _ = Inl (Mapped (connectorError AUTH_EXPIRED
     ''TelegramConnector call made without a resolved bot token in context.''))"

definition telegramValidate :: "'p TelegramApiClient \<Rightarrow> jsval \<Rightarrow> ('p, conn_exn, CredentialValidationResult) oper" where
  "telegramValidate api c p = (case c of
      JStr t \<Rightarrow> if trim t = [] then (Inr \<lparr>cvr_valid = False, cvr_reason = Some ''A Telegram bot token is required.''\<rparr>, p)
        else (case tg_getMe api t p of
            (Inl e, p') \<Rightarrow> (Inr \<lparr>cvr_valid = False, cvr_reason = Some (tge_message e)\<rparr>, p')
          | (Inr _, p') \<Rightarrow> (Inr \<lparr>cvr_valid = True, cvr_reason = None\<rparr>, p'))
    | _ \<Rightarrow> (Inr \<lparr>cvr_valid = False, cvr_reason = Some ''A Telegram bot token is required.''\<rparr>, p))"

definition telegramAccount :: "'p TelegramApiClient \<Rightarrow> jsval \<Rightarrow> ('p, conn_exn, string) oper" where
  "telegramAccount api c p = (case c of
      JStr t \<Rightarrow> (case tg_getMe api t p of
          (Inl e, p') \<Rightarrow> (Inl (RawApi (tge_message e)), p')
        | (Inr me, p') \<Rightarrow> (Inr (intDigits (tu_id me)), p'))
    | _ \<Rightarrow> (Inl (OtherError ''not a token''), p))"

definition telegramInitialSync :: "int SyncCheckpoint option \<Rightarrow> int SyncResult" where
  "telegramInitialSync cp = \<lparr>sr_messages = [], sr_checkpoint =
     \<lparr>cp_cursor = Option.bind cp cp_cursor, cp_processedCount = processedOf cp\<rparr>, sr_complete = True\<rparr>"

definition telegramSend :: "'p TelegramApiClient \<Rightarrow> OutboundMessage \<Rightarrow> jsval \<Rightarrow> ('p, conn_exn, SendResult) oper" where
  "telegramSend api m credential p = (case telegramCredential credential of
      Inl e \<Rightarrow> (Inl e, p)
    | Inr token \<Rightarrow> (case tg_sendMessage api token (om_conversationExternalId m) (om_bodyText m) p of
        (Inr i, p1) \<Rightarrow> (Inr \<lparr>snd_externalId = intDigits i, snd_queued = False\<rparr>, p1)
      | (Inl e, p1) \<Rightarrow>
          if ce_code (telegramMapError e) = RATE_LIMITED then
            (case tg_sendMessage api token (om_conversationExternalId m) (om_bodyText m) p1 of
               (Inr i, p2) \<Rightarrow> (Inr \<lparr>snd_externalId = intDigits i, snd_queued = True\<rparr>, p2)
             | (Inl e2, p2) \<Rightarrow> (Inl (RawApi (tge_message e2)), p2))
          else (Inl (Mapped (telegramMapError e)), p1)))"

text \<open>The drain: the webhook is removed, the backlog read, and the webhook restored in
  a \<open>finally\<close> whose own failure is ignored.\<close>

definition telegramDrain ::
  "'p TelegramApiClient \<Rightarrow> string \<Rightarrow> int option \<Rightarrow> ('p, TelegramRawApiError, TelegramUpdate list) oper" where
  "telegramDrain api token offset = bindO (tg_deleteWebhook api token) (\<lambda>_. tg_getUpdates api token offset)"

definition telegramReconcile ::
  "'p TelegramApiClient \<Rightarrow> int SyncCheckpoint option \<Rightarrow> jsval \<Rightarrow> string \<Rightarrow> ('p, conn_exn, int SyncResult) oper" where
  "telegramReconcile api cp credential webhookSecret p = (case telegramCredential credential of
      Inl e \<Rightarrow> (Inl e, p)
    | Inr token \<Rightarrow> (case tg_getWebhookInfo api token p of
        (Inl e, p1) \<Rightarrow> (Inl (Mapped (telegramMapError e)), p1)
      | (Inr info, p1) \<Rightarrow>
          if \<not> (0 < wi_pending_update_count info \<or> wi_last_error_date info \<notin> {None, Some 0})
          then (Inr \<lparr>sr_messages = [], sr_checkpoint = (case cp of Some c \<Rightarrow> c
                  | None \<Rightarrow> \<lparr>cp_cursor = None, cp_processedCount = 0\<rparr>), sr_complete = True\<rparr>, p1)
          else
            let offset = Option.bind cp cp_cursor;
                (res, p2) = telegramDrain api token offset p1;
                p3 = (if wi_url info = [] then p2 else snd (tg_setWebhook api token (wi_url info) webhookSecret p2))
            in (case res of
                Inl e \<Rightarrow> (Inl (RawApi (tge_message e)), p3)
              | Inr updates \<Rightarrow>
                  let msgs = [m. Inr m \<leftarrow> map telegramMapMessage updates];
                      next_offset = (if updates = [] then offset else Some (Max (set (map up_update_id updates)) + 1))
                  in (Inr \<lparr>sr_messages = msgs, sr_checkpoint = \<lparr>cp_cursor = next_offset,
                        cp_processedCount = processedOf cp + length msgs\<rparr>, sr_complete = True\<rparr>, p3))))"

section \<open>The channel walk of Slack and Discord\<close>

definition MAX_CHANNELS_TO_SYNC :: nat where
  "MAX_CHANNELS_TO_SYNC = 5"

definition MESSAGES_PER_CHANNEL_BOUND :: nat where
  "MESSAGES_PER_CHANNEL_BOUND = 50"

record ChannelCursor =
  chc_channelIds :: "string list"
  chc_channelIndex :: nat

text \<open>The listing gives the ids of the channels to walk; the history of one gives the
  messages of it to ingest.\<close>

definition syncChannels ::
  "('p, conn_exn, string list) oper \<Rightarrow> (string \<Rightarrow> ('p, conn_exn, NormalizedMessage list) oper)
    \<Rightarrow> ChannelCursor SyncCheckpoint option \<Rightarrow> ('p, conn_exn, ChannelCursor SyncResult) oper" where
  "syncChannels listing history cp =
     bindO (case Option.bind cp cp_cursor of Some c \<Rightarrow> ok c
            | None \<Rightarrow> bindO listing (\<lambda>ids. ok \<lparr>chc_channelIds = take MAX_CHANNELS_TO_SYNC ids, chc_channelIndex = 0\<rparr>))
       (\<lambda>cursor. if length (chc_channelIds cursor) \<le> chc_channelIndex cursor
          then ok \<lparr>sr_messages = [], sr_checkpoint = \<lparr>cp_cursor = Some cursor, cp_processedCount = processedOf cp\<rparr>,
                 sr_complete = True\<rparr>
          else
            let channelId = chc_channelIds cursor ! chc_channelIndex cursor;
                next_cursor = cursor\<lparr>chc_channelIndex := chc_channelIndex cursor + 1\<rparr>;
                complete = (length (chc_channelIds cursor) \<le> chc_channelIndex cursor + 1)
            in if channelId = []
               then ok \<lparr>sr_messages = [], sr_checkpoint = \<lparr>cp_cursor = Some next_cursor, cp_processedCount = processedOf cp\<rparr>,
                      sr_complete = complete\<rparr>
               else bindO (history channelId) (\<lambda>msgs.
                 ok \<lparr>sr_messages = msgs, sr_checkpoint = \<lparr>cp_cursor = Some next_cursor,
                        cp_processedCount = processedOf cp + length msgs\<rparr>, sr_complete = complete\<rparr>))"

section \<open>Slack\<close>

record SlackChannel =
  slc_id :: string
  slc_is_member :: bool

record SlackMessage =
  slm_type :: string
  slm_subtype :: "string option"
  slm_channel :: string
  slm_user :: "string option"
  slm_bot_id :: "string option"
  slm_text :: string
  slm_ts :: string

record SlackRawApiError =
  sle_status :: int
  sle_slackError :: string
  sle_retryAfter :: "int option"

record 'p SlackApiClient =
  sl_authTest :: "string \<Rightarrow> ('p, SlackRawApiError, string) oper"
  sl_listConversations :: "string \<Rightarrow> ('p, SlackRawApiError, SlackChannel list) oper"
  sl_conversationsHistory :: "string \<Rightarrow> string \<Rightarrow> nat \<Rightarrow> ('p, SlackRawApiError, SlackMessage list) oper"
  sl_postMessage :: "string \<Rightarrow> string \<Rightarrow> string \<Rightarrow> ('p, SlackRawApiError, string) oper"

definition mapSlackErrorCode :: "int \<Rightarrow> string \<Rightarrow> ConnectorErrorCode" where
  "mapSlackErrorCode status e =
     (if status = 429 then RATE_LIMITED
      else if e \<in> {''invalid_auth'', ''account_inactive'', ''token_revoked'', ''token_expired''} then AUTH_EXPIRED
      else if e = ''channel_not_found'' then RESOURCE_NOT_FOUND
      else if e \<in> {''missing_scope'', ''not_in_channel'', ''restricted_action''} then PERMISSION_DENIED
      else if e \<in> {''invalid_arguments'', ''msg_too_long'', ''no_text''} then PAYLOAD_REJECTED
      else if 500 \<le> status then PROVIDER_UNAVAILABLE
      else UNKNOWN)"

definition slackMapError :: "SlackRawApiError \<Rightarrow> ConnectorError" where
  "slackMapError e = connectorError (mapSlackErrorCode (sle_status e) (sle_slackError e)) (sle_slackError e)"

definition NON_CONTENT_SLACK_SUBTYPES :: "string list" where
  "NON_CONTENT_SLACK_SUBTYPES = [''channel_join'', ''channel_leave'', ''channel_topic'', ''channel_purpose'',
     ''channel_name'', ''channel_archive'', ''channel_unarchive'', ''group_join'', ''group_leave'', ''group_topic'',
     ''group_purpose'', ''group_name'', ''group_archive'', ''group_unarchive'']"

definition isSlackContentMessage :: "SlackMessage \<Rightarrow> bool" where
  "isSlackContentMessage m \<longleftrightarrow> \<not> nonEmpty (slm_subtype m) \<or> the (slm_subtype m) \<notin> set NON_CONTENT_SLACK_SUBTYPES"

definition slackPlaceholder :: "SlackMessage \<Rightarrow> string" where
  "slackPlaceholder m = (if nonEmpty (slm_subtype m) then ''[Attachment]'' else ''[Empty message]'')"

text \<open>A timestamp that is no number makes \<open>toISOString\<close> throw.\<close>

definition slackMapMessage :: "SlackMessage \<Rightarrow> conn_exn + NormalizedMessage" where
  "slackMapMessage m = (case toNumber (hd (splitOn (CHR ''.'') (slm_ts m))) of
      Fin r \<Rightarrow> Inr \<lparr>nm_externalId = slm_ts m, nm_conversationExternalId = slm_channel m,
        nm_conversationTitle = None, nm_direction = Inbound,
        nm_bodyText = (if slm_text m = [] then slackPlaceholder m else slm_text m),
        nm_receivedAt = \<lfloor>r * 1000\<rfloor>,
        nm_senderExternalId = Some (case slm_user m of Some u \<Rightarrow> u | None \<Rightarrow> slm_channel m),
        nm_senderHandle = (if nonEmpty (slm_user m) then Some (CHR ''@'' # the (slm_user m)) else None),
        nm_senderDisplayName = Some (case slm_user m of Some u \<Rightarrow> u | None \<Rightarrow> ''Unknown'')\<rparr>
    | _ \<Rightarrow> Inl (OtherError ''Invalid time value''))"

text \<open>Two non-empty text properties of an object, as both OAuth connectors require.\<close>

definition twoFields :: "string \<Rightarrow> string \<Rightarrow> jsval \<Rightarrow> (string \<times> string) option" where
  "twoFields a b v = (case v of
      JObj kvs \<Rightarrow> (case (map_of kvs a, map_of kvs b) of
          (Some (JStr x), Some (JStr y)) \<Rightarrow> if x \<noteq> [] \<and> y \<noteq> [] then Some (x, y) else None
        | _ \<Rightarrow> None)
    | _ \<Rightarrow> None)"

definition slackCredential :: "jsval \<Rightarrow> conn_exn + string \<times> string" where
  "slackCredential c = (case twoFields ''botToken'' ''teamId'' c of
      None \<Rightarrow> Inl (Mapped (connectorError AUTH_EXPIRED
        ''SlackConnector call made without a resolved bot token/team id in context.''))
    | Some x \<Rightarrow> Inr x)"

definition slackValidate :: "'p SlackApiClient \<Rightarrow> jsval \<Rightarrow> ('p, conn_exn, CredentialValidationResult) oper" where
  "slackValidate api c p = (case twoFields ''botToken'' ''teamId'' c of
      None \<Rightarrow> (Inr \<lparr>cvr_valid = False, cvr_reason = Some ''A Slack bot token and team id are required.''\<rparr>, p)
    | Some (token, team) \<Rightarrow> (case sl_authTest api token p of
        (Inl e, p') \<Rightarrow> (Inr \<lparr>cvr_valid = False, cvr_reason = Some (sle_slackError e)\<rparr>, p')
      | (Inr team', p') \<Rightarrow> (Inr (if team' \<noteq> team
            then \<lparr>cvr_valid = False, cvr_reason = Some ''This bot token does not belong to the expected Slack workspace.''\<rparr>
            else \<lparr>cvr_valid = True, cvr_reason = None\<rparr>), p')))"

definition slackAccount :: "jsval \<Rightarrow> ('p, conn_exn, string) oper" where
  "slackAccount c p = (case twoFields ''botToken'' ''teamId'' c of
      None \<Rightarrow> (Inl (Mapped (connectorError AUTH_EXPIRED ''Missing Slack credential during authenticate().'')), p)
    | Some (token, team) \<Rightarrow> (Inr team, p))"

definition slackSend :: "'p SlackApiClient \<Rightarrow> OutboundMessage \<Rightarrow> jsval \<Rightarrow> ('p, conn_exn, SendResult) oper" where
  "slackSend api m credential p = (case slackCredential credential of
      Inl e \<Rightarrow> (Inl e, p)
    | Inr (token, team) \<Rightarrow> (case sl_postMessage api token (om_conversationExternalId m) (om_bodyText m) p of
        (Inr ts, p1) \<Rightarrow> (Inr \<lparr>snd_externalId = ts, snd_queued = False\<rparr>, p1)
      | (Inl e, p1) \<Rightarrow>
          if ce_code (slackMapError e) = RATE_LIMITED then
            (case sl_postMessage api token (om_conversationExternalId m) (om_bodyText m) p1 of
               (Inr ts, p2) \<Rightarrow> (Inr \<lparr>snd_externalId = ts, snd_queued = True\<rparr>, p2)
             | (Inl e2, p2) \<Rightarrow> (Inl (RawApi (sle_slackError e2)), p2))
          else (Inl (Mapped (slackMapError e)), p1)))"

text \<open>A client's error leaves the sync as the client threw it.\<close>

definition rawly :: "('e \<Rightarrow> string) \<Rightarrow> ('p, 'e, 'a) oper \<Rightarrow> ('p, conn_exn, 'a) oper" where
  "rawly msg m p = (case m p of (Inl e, p') \<Rightarrow> (Inl (RawApi (msg e)), p') | (Inr x, p') \<Rightarrow> (Inr x, p'))"

fun mapAll :: "('a \<Rightarrow> conn_exn + 'b) \<Rightarrow> 'a list \<Rightarrow> conn_exn + 'b list" where
  "mapAll f [] = Inr []"
| "mapAll f (x # xs) = (case f x of Inl e \<Rightarrow> Inl e | Inr y \<Rightarrow> map_sum id ((#) y) (mapAll f xs))"

definition slackIngestible :: "SlackMessage \<Rightarrow> bool" where
  "slackIngestible m \<longleftrightarrow> \<not> nonEmpty (slm_bot_id m) \<and> slm_type m = ''message'' \<and> isSlackContentMessage m"

definition slackHistory :: "'p SlackApiClient \<Rightarrow> string \<Rightarrow> string \<Rightarrow> ('p, conn_exn, NormalizedMessage list) oper" where
  "slackHistory api token channel = bindO (rawly sle_slackError
       (sl_conversationsHistory api token channel MESSAGES_PER_CHANNEL_BOUND))
     (\<lambda>raw p. (mapAll (\<lambda>m. slackMapMessage (m\<lparr>slm_channel := channel\<rparr>)) (filter slackIngestible raw), p))"

definition slackSync ::
  "'p SlackApiClient \<Rightarrow> ChannelCursor SyncCheckpoint option \<Rightarrow> jsval \<Rightarrow> ('p, conn_exn, ChannelCursor SyncResult) oper" where
  "slackSync api cp credential p = (case slackCredential credential of
      Inl e \<Rightarrow> (Inl e, p)
    | Inr (token, team) \<Rightarrow> syncChannels
        (bindO (rawly sle_slackError (sl_listConversations api token))
           (\<lambda>cs. ok (map slc_id (filter slc_is_member cs))))
        (slackHistory api token) cp p)"

section \<open>Discord\<close>

record DiscordUser =
  du_id :: string
  du_username :: string
  du_global_name :: "string option"
  du_bot :: bool

record DiscordMessage =
  dm_id :: string
  dm_channel_id :: string
  dm_author :: DiscordUser
  dm_content :: string
  dm_timestamp :: instant
  dm_attachments :: nat

record DiscordChannel =
  dch_id :: string
  dch_type :: nat

record DiscordRawApiError =
  dse_status :: int
  dse_message :: string
  dse_retryAfter :: "int option"

record 'p DiscordApiClient =
  ds_getGuild :: "string \<Rightarrow> string \<Rightarrow> ('p, DiscordRawApiError, unit) oper"
  ds_listGuildChannels :: "string \<Rightarrow> string \<Rightarrow> ('p, DiscordRawApiError, DiscordChannel list) oper"
  ds_listChannelMessages :: "string \<Rightarrow> string \<Rightarrow> nat \<Rightarrow> ('p, DiscordRawApiError, DiscordMessage list) oper"
  ds_sendMessage :: "string \<Rightarrow> string \<Rightarrow> string \<Rightarrow> ('p, DiscordRawApiError, string) oper"

definition mapDiscordErrorCode :: "int \<Rightarrow> int option \<Rightarrow> ConnectorErrorCode" where
  "mapDiscordErrorCode status retryAfter =
     (if retryAfter \<notin> {None, Some 0} \<or> status = 429 then RATE_LIMITED
      else if status = 401 then AUTH_EXPIRED
      else if status = 404 then RESOURCE_NOT_FOUND
      else if status = 403 then PERMISSION_DENIED
      else if status = 400 then PAYLOAD_REJECTED
      else if 500 \<le> status then PROVIDER_UNAVAILABLE
      else UNKNOWN)"

definition discordMapError :: "DiscordRawApiError \<Rightarrow> ConnectorError" where
  "discordMapError e = connectorError (mapDiscordErrorCode (dse_status e) (dse_retryAfter e)) (dse_message e)"

definition discordPlaceholder :: "DiscordMessage \<Rightarrow> string" where
  "discordPlaceholder m = (if 0 < dm_attachments m then ''[Attachment]'' else ''[Empty message]'')"

definition discordMapMessage :: "DiscordMessage \<Rightarrow> NormalizedMessage" where
  "discordMapMessage m = \<lparr>nm_externalId = dm_id m, nm_conversationExternalId = dm_channel_id m,
     nm_conversationTitle = None, nm_direction = Inbound,
     nm_bodyText = (if dm_content m = [] then discordPlaceholder m else dm_content m),
     nm_receivedAt = dm_timestamp m, nm_senderExternalId = Some (du_id (dm_author m)),
     nm_senderHandle = Some (CHR ''@'' # du_username (dm_author m)),
     nm_senderDisplayName = Some (if nonEmpty (du_global_name (dm_author m)) then the (du_global_name (dm_author m))
        else du_username (dm_author m))\<rparr>"

definition discordCredential :: "jsval \<Rightarrow> conn_exn + string \<times> string" where
  "discordCredential c = (case twoFields ''botToken'' ''guildId'' c of
      None \<Rightarrow> Inl (Mapped (connectorError AUTH_EXPIRED
        ''DiscordConnector call made without a resolved bot token/guild id in context.''))
    | Some x \<Rightarrow> Inr x)"

definition discordValidate :: "'p DiscordApiClient \<Rightarrow> jsval \<Rightarrow> ('p, conn_exn, CredentialValidationResult) oper" where
  "discordValidate api c p = (case twoFields ''botToken'' ''guildId'' c of
      None \<Rightarrow> (Inr \<lparr>cvr_valid = False, cvr_reason = Some ''A Discord bot token and guild id are required.''\<rparr>, p)
    | Some (token, guild) \<Rightarrow> (case ds_getGuild api token guild p of
        (Inl e, p') \<Rightarrow> (Inr \<lparr>cvr_valid = False, cvr_reason = Some (dse_message e)\<rparr>, p')
      | (Inr _, p') \<Rightarrow> (Inr \<lparr>cvr_valid = True, cvr_reason = None\<rparr>, p')))"

definition discordAccount :: "jsval \<Rightarrow> ('p, conn_exn, string) oper" where
  "discordAccount c p = (case twoFields ''botToken'' ''guildId'' c of
      None \<Rightarrow> (Inl (Mapped (connectorError AUTH_EXPIRED ''Missing Discord credential during authenticate().'')), p)
    | Some (token, guild) \<Rightarrow> (Inr guild, p))"

definition discordSend :: "'p DiscordApiClient \<Rightarrow> OutboundMessage \<Rightarrow> jsval \<Rightarrow> ('p, conn_exn, SendResult) oper" where
  "discordSend api m credential p = (case discordCredential credential of
      Inl e \<Rightarrow> (Inl e, p)
    | Inr (token, guild) \<Rightarrow> (case ds_sendMessage api token (om_conversationExternalId m) (om_bodyText m) p of
        (Inr i, p1) \<Rightarrow> (Inr \<lparr>snd_externalId = i, snd_queued = False\<rparr>, p1)
      | (Inl e, p1) \<Rightarrow>
          if ce_code (discordMapError e) = RATE_LIMITED then
            (case ds_sendMessage api token (om_conversationExternalId m) (om_bodyText m) p1 of
               (Inr i, p2) \<Rightarrow> (Inr \<lparr>snd_externalId = i, snd_queued = True\<rparr>, p2)
             | (Inl e2, p2) \<Rightarrow> (Inl (RawApi (dse_message e2)), p2))
          else (Inl (Mapped (discordMapError e)), p1)))"

definition discordHistory :: "'p DiscordApiClient \<Rightarrow> string \<Rightarrow> string \<Rightarrow> ('p, conn_exn, NormalizedMessage list) oper" where
  "discordHistory api token channel = bindO (rawly dse_message
       (ds_listChannelMessages api token channel MESSAGES_PER_CHANNEL_BOUND))
     (\<lambda>raw. ok (map discordMapMessage (filter (\<lambda>m. \<not> du_bot (dm_author m)) raw)))"

definition discordSync ::
  "'p DiscordApiClient \<Rightarrow> ChannelCursor SyncCheckpoint option \<Rightarrow> jsval \<Rightarrow> ('p, conn_exn, ChannelCursor SyncResult) oper" where
  "discordSync api cp credential p = (case discordCredential credential of
      Inl e \<Rightarrow> (Inl e, p)
    | Inr (token, guild) \<Rightarrow> syncChannels
        (bindO (rawly dse_message (ds_listGuildChannels api token guild))
           (\<lambda>cs. ok (map dch_id (filter (\<lambda>c. dch_type c = 0) cs))))
        (discordHistory api token) cp p)"

section \<open>Email\<close>

record EmailCredential =
  ecr_imapHost :: string
  ecr_imapPort :: jsnum
  ecr_imapSecure :: bool
  ecr_smtpHost :: string
  ecr_smtpPort :: jsnum
  ecr_smtpSecure :: bool
  ecr_username :: string
  ecr_password :: string

record EmailMessage =
  em_uid :: nat
  em_messageId :: string
  em_inReplyTo :: "string option"
  em_references :: "string list"
  em_fromAddress :: string
  em_fromName :: "string option"
  em_subject :: string
  em_date :: instant
  em_textBody :: string
  em_isOwnMessage :: bool

datatype email_error_kind = EAuth | EConnection | ENotFound | ERateLimited | ERejected | EUnknown

record EmailRawApiError =
  eme_kind :: email_error_kind
  eme_message :: string

record SendEmailOptions =
  seo_to :: string
  seo_subject :: string
  seo_text :: string
  seo_inReplyTo :: string
  seo_references :: "string list"

text \<open>A message of the IMAP stream: its UID and, when the server sent the source, what
  the mail parser made of it.\<close>

record ImapMessage =
  imp_uid :: nat
  imp_parsed :: "EmailMessage option"

record 'p EmailApiClient =
  ec_testConnection :: "EmailCredential \<Rightarrow> ('p, EmailRawApiError, unit) oper"
  ec_imapFetch :: "EmailCredential \<Rightarrow> nat \<Rightarrow> ('p, EmailRawApiError, ImapMessage list) oper"
  ec_sendMessage :: "EmailCredential \<Rightarrow> SendEmailOptions \<Rightarrow> ('p, EmailRawApiError, string) oper"

fun fetchLoop :: "nat \<Rightarrow> nat \<Rightarrow> nat \<Rightarrow> ImapMessage list \<Rightarrow> EmailMessage list" where
  "fetchLoop sinceUid limit count [] = []"
| "fetchLoop sinceUid limit count (m # ms) =
     (if 0 < sinceUid \<and> imp_uid m \<le> sinceUid then fetchLoop sinceUid limit count ms
      else if limit \<le> count then []
      else (case imp_parsed m of
          None \<Rightarrow> fetchLoop sinceUid limit (count + 1) ms
        | Some e \<Rightarrow> e\<lparr>em_uid := imp_uid m\<rparr> # fetchLoop sinceUid limit (count + 1) ms))"

definition fetchMessages ::
  "'p EmailApiClient \<Rightarrow> EmailCredential \<Rightarrow> nat \<Rightarrow> nat \<Rightarrow> ('p, EmailRawApiError, EmailMessage list) oper" where
  "fetchMessages api c sinceUid limit = bindO (ec_imapFetch api c (sinceUid + 1))
     (\<lambda>stream. ok (fetchLoop sinceUid limit 0 stream))"

definition EMAIL_MESSAGES_PER_POLL_BOUND :: nat where
  "EMAIL_MESSAGES_PER_POLL_BOUND = 50"

definition resolveThreadId :: "EmailMessage \<Rightarrow> string" where
  "resolveThreadId m = (case em_references m of r # _ \<Rightarrow> r
     | [] \<Rightarrow> (case em_inReplyTo m of Some r \<Rightarrow> r | None \<Rightarrow> em_messageId m))"

fun mapEmailErrorCode :: "email_error_kind \<Rightarrow> ConnectorErrorCode" where
  "mapEmailErrorCode EAuth = AUTH_EXPIRED"
| "mapEmailErrorCode ERateLimited = RATE_LIMITED"
| "mapEmailErrorCode ENotFound = RESOURCE_NOT_FOUND"
| "mapEmailErrorCode ERejected = PAYLOAD_REJECTED"
| "mapEmailErrorCode EConnection = PROVIDER_UNAVAILABLE"
| "mapEmailErrorCode EUnknown = UNKNOWN"

definition emailMapError :: "EmailRawApiError \<Rightarrow> ConnectorError" where
  "emailMapError e = connectorError (mapEmailErrorCode (eme_kind e)) (eme_message e)"

definition emailMapMessage :: "EmailMessage \<Rightarrow> NormalizedMessage" where
  "emailMapMessage m = \<lparr>nm_externalId = em_messageId m, nm_conversationExternalId = resolveThreadId m,
     nm_conversationTitle = Some (em_subject m), nm_direction = Inbound,
     nm_bodyText = (if em_textBody m = [] then ''[Empty message]'' else em_textBody m),
     nm_receivedAt = em_date m, nm_senderExternalId = Some (em_fromAddress m),
     nm_senderHandle = Some (em_fromAddress m),
     nm_senderDisplayName = Some (if nonEmpty (em_fromName m) then the (em_fromName m) else em_fromAddress m)\<rparr>"

fun someText :: "jsval option \<Rightarrow> string option" where
  "someText (Some (JStr t)) = (if t = [] then None else Some t)"
| "someText _ = None"

definition emailParse :: "jsval \<Rightarrow> EmailCredential option" where
  "emailParse v = (case v of
      JObj kvs \<Rightarrow> (case (someText (map_of kvs ''imapHost''), map_of kvs ''imapPort'', map_of kvs ''imapSecure'') of
          (Some ih, Some (JNum ip), Some (JBool is)) \<Rightarrow>
            (case (someText (map_of kvs ''smtpHost''), map_of kvs ''smtpPort'', map_of kvs ''smtpSecure'') of
               (Some sh, Some (JNum sp), Some (JBool ss)) \<Rightarrow>
                 (case (someText (map_of kvs ''username''), someText (map_of kvs ''password'')) of
                    (Some u, Some pw) \<Rightarrow> Some \<lparr>ecr_imapHost = ih, ecr_imapPort = ip, ecr_imapSecure = is,
                       ecr_smtpHost = sh, ecr_smtpPort = sp, ecr_smtpSecure = ss, ecr_username = u, ecr_password = pw\<rparr>
                  | _ \<Rightarrow> None)
             | _ \<Rightarrow> None)
        | _ \<Rightarrow> None)
    | _ \<Rightarrow> None)"

definition emailCredential :: "jsval \<Rightarrow> conn_exn + EmailCredential" where
  "emailCredential c = (case emailParse c of
      None \<Rightarrow> Inl (Mapped (connectorError AUTH_EXPIRED
        ''EmailConnector call made without resolved IMAP/SMTP credentials in context.''))
    | Some x \<Rightarrow> Inr x)"

definition emailValidate :: "'p EmailApiClient \<Rightarrow> jsval \<Rightarrow> ('p, conn_exn, CredentialValidationResult) oper" where
  "emailValidate api c p = (case emailParse c of
      None \<Rightarrow> (Inr \<lparr>cvr_valid = False,
        cvr_reason = Some ''IMAP/SMTP host, port, and mailbox credentials are all required.''\<rparr>, p)
    | Some x \<Rightarrow> (case ec_testConnection api x p of
        (Inl e, p') \<Rightarrow> (Inr \<lparr>cvr_valid = False, cvr_reason = Some (eme_message e)\<rparr>, p')
      | (Inr _, p') \<Rightarrow> (Inr \<lparr>cvr_valid = True, cvr_reason = None\<rparr>, p')))"

definition emailAccount :: "jsval \<Rightarrow> ('p, conn_exn, string) oper" where
  "emailAccount c p = (case emailParse c of
      None \<Rightarrow> (Inl (Mapped (connectorError AUTH_EXPIRED ''Missing email credential during authenticate().'')), p)
    | Some x \<Rightarrow> (Inr (ecr_username x), p))"

definition emailSend :: "'p EmailApiClient \<Rightarrow> OutboundMessage \<Rightarrow> jsval \<Rightarrow> ('p, conn_exn, SendResult) oper" where
  "emailSend api m credential p = (case emailCredential credential of
      Inl e \<Rightarrow> (Inl e, p)
    | Inr c \<Rightarrow> (case ec_sendMessage api c \<lparr>seo_to = om_conversationExternalId m,
           seo_subject = ''Re: your conversation'', seo_text = om_bodyText m,
           seo_inReplyTo = om_conversationExternalId m, seo_references = [om_conversationExternalId m]\<rparr> p of
        (Inr i, p1) \<Rightarrow> (Inr \<lparr>snd_externalId = i, snd_queued = False\<rparr>, p1)
      | (Inl e, p1) \<Rightarrow> (Inl (Mapped (emailMapError e)), p1)))"

text \<open>The cursor is the highest UID seen; the folder is always the inbox.\<close>

definition emailPoll ::
  "'p EmailApiClient \<Rightarrow> nat SyncCheckpoint option \<Rightarrow> jsval \<Rightarrow> ('p, conn_exn, nat SyncResult) oper" where
  "emailPoll api cp credential p = (case emailCredential credential of
      Inl e \<Rightarrow> (Inl e, p)
    | Inr c \<Rightarrow>
        let since = (case Option.bind cp cp_cursor of Some u \<Rightarrow> u | None \<Rightarrow> 0) in
        (case rawly eme_message (fetchMessages api c since EMAIL_MESSAGES_PER_POLL_BOUND) p of
           (Inl e, p') \<Rightarrow> (Inl e, p')
         | (Inr raw, p') \<Rightarrow>
             let msgs = map emailMapMessage (filter (\<lambda>m. \<not> em_isOwnMessage m) raw);
                 highest = (if raw = [] then since else Max (set (map em_uid raw)))
             in (Inr \<lparr>sr_messages = msgs, sr_checkpoint = \<lparr>cp_cursor = Some highest,
                    cp_processedCount = processedOf cp + length msgs\<rparr>, sr_complete = True\<rparr>, p')))"

section \<open>The platform's registry\<close>

definition manifestOf :: "string \<Rightarrow> string \<Rightarrow> IngestionMode \<Rightarrow> nat option \<Rightarrow> int \<Rightarrow> int \<Rightarrow> CapabilityManifest" where
  "manifestOf key name mode interval rps burst = \<lparr>mf_providerKey = key, mf_displayName = name,
     mf_ingestionMode = mode, mf_reconciliationIntervalMinutes = interval, mf_requestsPerSecond = rps, mf_burst = burst\<rparr>"

definition telegramConnector :: "'p TelegramApiClient \<Rightarrow> 'p Connector" where
  "telegramConnector api = \<lparr>cn_manifest = manifestOf ''telegram'' ''Telegram'' Hybrid (Some 5) 30 10,
     cn_validateCredential = telegramValidate api, cn_onCredentialValidated = telegramAccount api,
     cn_send = Some (telegramSend api)\<rparr>"

definition slackConnector :: "'p SlackApiClient \<Rightarrow> 'p Connector" where
  "slackConnector api = \<lparr>cn_manifest = manifestOf ''slack'' ''Slack'' Hybrid (Some 15) 1 5,
     cn_validateCredential = slackValidate api, cn_onCredentialValidated = slackAccount,
     cn_send = Some (slackSend api)\<rparr>"

definition discordConnector :: "'p DiscordApiClient \<Rightarrow> 'p Connector" where
  "discordConnector api = \<lparr>cn_manifest = manifestOf ''discord'' ''Discord'' Streaming (Some 15) 5 5,
     cn_validateCredential = discordValidate api, cn_onCredentialValidated = discordAccount,
     cn_send = Some (discordSend api)\<rparr>"

definition emailConnector :: "'p EmailApiClient \<Rightarrow> 'p Connector" where
  "emailConnector api = \<lparr>cn_manifest = manifestOf ''email'' ''Email'' Polling None 2 5,
     cn_validateCredential = emailValidate api, cn_onCredentialValidated = emailAccount,
     cn_send = Some (emailSend api)\<rparr>"

record 'p api_clients =
  api_telegram :: "'p TelegramApiClient"
  api_discord :: "'p DiscordApiClient"
  api_slack :: "'p SlackApiClient"
  api_email :: "'p EmailApiClient"

text \<open>The mock connector comes first.\<close>

definition defaultConnectorRegistry :: "'p Connector \<Rightarrow> 'p api_clients \<Rightarrow> exn + 'p registry" where
  "defaultConnectorRegistry mock A =
     (case registerConnector mock [] of Inl e \<Rightarrow> Inl e | Inr r1 \<Rightarrow>
      (case registerConnector (telegramConnector (api_telegram A)) r1 of Inl e \<Rightarrow> Inl e | Inr r2 \<Rightarrow>
       (case registerConnector (discordConnector (api_discord A)) r2 of Inl e \<Rightarrow> Inl e | Inr r3 \<Rightarrow>
        (case registerConnector (slackConnector (api_slack A)) r3 of Inl e \<Rightarrow> Inl e | Inr r4 \<Rightarrow>
          registerConnector (emailConnector (api_email A)) r4))))"

end
