(* ===== verification/Connector_Properties.thy ===== *)
theory Connector_Properties
  imports Connectors
begin

text \<open>
  What the SDK promises of its connectors: the lifecycle reaches and can leave every
  state, a backfill walked through its checkpoints ends and repeats nothing (the
  contract the certification suite exercises, as a locale interpreted on the mock
  connector and on the channel walk of Slack and Discord), a mailbox is polled
  message by message once, and the default registry knows its five connectors.
\<close>

section \<open>Lifecycle\<close>

inductive lifecycleStep :: "LifecycleState \<Rightarrow> LifecycleState \<Rightarrow> bool" where
  move: "t \<in> set (LIFECYCLE_TRANSITIONS s) \<Longrightarrow> lifecycleStep s t"

code_pred lifecycleStep .

inductive_simps lifecycleStep_iff: "lifecycleStep s t"

lemma lifecycleStep_transition: "lifecycleStep (lc_state lc) t \<longleftrightarrow> fst (transition now t lc) = Inr ()"
  by (simp add: lifecycleStep_iff transition_def)

lemmas step_to = converse_rtranclp_into_rtranclp [of lifecycleStep]

lemma reach_Disconnecting: "s \<in> {Active, Degraded, ReauthRequired, ErrorState} \<Longrightarrow> lifecycleStep s Disconnecting"
  by (auto simp: lifecycleStep_iff)

lemma Disconnecting_ends: "lifecycleStep\<^sup>*\<^sup>* Disconnecting Disconnected"
  by (rule r_into_rtranclp) (simp add: lifecycleStep_iff)

lemma all_reach_Disconnected: "lifecycleStep\<^sup>*\<^sup>* s Disconnected"
proof -
  have A: "lifecycleStep\<^sup>*\<^sup>* s Disconnected" if "s \<in> {Active, Degraded, ReauthRequired, ErrorState}" for s
    using step_to [OF reach_Disconnecting [OF that] Disconnecting_ends] .
  have B: "lifecycleStep\<^sup>*\<^sup>* Authenticating Disconnected" "lifecycleStep\<^sup>*\<^sup>* SyncingInitial Disconnected"
    by (rule step_to [of _ ErrorState], simp add: lifecycleStep_iff, rule A, simp)+
  have C: "lifecycleStep\<^sup>*\<^sup>* Registered Disconnected"
    by (rule step_to [OF _ B(1)]) (simp add: lifecycleStep_iff)
  show ?thesis using A B C Disconnecting_ends by (cases s) auto
qed

lemma all_from_Registered: "lifecycleStep\<^sup>*\<^sup>* Registered s"
proof -
  have a: "lifecycleStep\<^sup>*\<^sup>* Registered Authenticating" by (rule r_into_rtranclp) (simp add: lifecycleStep_iff)
  have b: "lifecycleStep\<^sup>*\<^sup>* Registered SyncingInitial" "lifecycleStep\<^sup>*\<^sup>* Registered ErrorState"
    by (rule rtranclp.rtrancl_into_rtrancl [OF a], simp add: lifecycleStep_iff)+
  have c: "lifecycleStep\<^sup>*\<^sup>* Registered Active" by (rule rtranclp.rtrancl_into_rtrancl [OF b(1)]) (simp add: lifecycleStep_iff)
  have d: "lifecycleStep\<^sup>*\<^sup>* Registered Degraded" "lifecycleStep\<^sup>*\<^sup>* Registered ReauthRequired"
    "lifecycleStep\<^sup>*\<^sup>* Registered Disconnecting"
    by (rule rtranclp.rtrancl_into_rtrancl [OF c], simp add: lifecycleStep_iff)+
  have e: "lifecycleStep\<^sup>*\<^sup>* Registered Disconnected" by (rule rtranclp.rtrancl_into_rtrancl [OF d(3)]) (simp add: lifecycleStep_iff)
  show ?thesis using a b c d e by (cases s) auto
qed

text \<open>A run of requested transitions, the refused ones ignored.\<close>

fun runTransitions :: "(instant \<times> LifecycleState) list \<Rightarrow> ConnectorLifecycle \<Rightarrow> ConnectorLifecycle" where
  "runTransitions [] lc = lc"
| "runTransitions ((now, t) # ts) lc = runTransitions ts (snd (transition now t lc))"

lemma lifecycleInv_run: "lifecycleInv s0 lc \<Longrightarrow> lifecycleInv s0 (runTransitions ts lc)"
  by (induction ts lc rule: runTransitions.induct) (auto simp: lifecycleInv_transition)

lemma pathFrom_reaches: "pathFrom s rs e \<Longrightarrow> lifecycleStep\<^sup>*\<^sup>* s e"
  by (induction rs arbitrary: s) (auto intro: step_to simp: lifecycleStep_iff)

text \<open>C20: From whatever status a linked account's lifecycle is resumed, its recorded
  history is a path of the transition table from that status to the current state;
  every state is reachable from \<open>registered\<close> and can still reach \<open>disconnected\<close>, so the
  graph passes the certification suite's integrity check; and the disconnect sequence
  \<open>disconnecting\<close>, \<open>disconnected\<close> completes exactly from \<open>active\<close>, \<open>degraded\<close>,
  \<open>reauth_required\<close> and \<open>error\<close>.
\<close>
theorem lifecycle_paths:
  "lifecycleInv s0 (runTransitions ts (createLifecycle s0)) \<and>
   lifecycleStep\<^sup>*\<^sup>* s0 (lc_state (runTransitions ts (createLifecycle s0))) \<and>
   lifecycleStep\<^sup>*\<^sup>* Registered s \<and> lifecycleStep\<^sup>*\<^sup>* s Disconnected \<and>
   gi_reachable checkLifecycleGraphIntegrity \<and> gi_noDeadEnds checkLifecycleGraphIntegrity \<and>
   (fst (bindO (transition t1 Disconnecting) (\<lambda>_. transition t2 Disconnected) (createLifecycle s)) = Inr ()
      \<longleftrightarrow> s \<in> {Active, Degraded, ReauthRequired, ErrorState})"
proof (intro conjI)
  have start: "lifecycleInv s0 (createLifecycle s0)" by (simp add: lifecycleInv_def createLifecycle_def)
  then show "lifecycleInv s0 (runTransitions ts (createLifecycle s0))" by (rule lifecycleInv_run)
  then show "lifecycleStep\<^sup>*\<^sup>* s0 (lc_state (runTransitions ts (createLifecycle s0)))"
    unfolding lifecycleInv_def by (rule pathFrom_reaches)
  show "gi_reachable checkLifecycleGraphIntegrity" "gi_noDeadEnds checkLifecycleGraphIntegrity"
    by (simp_all add: checkLifecycleGraphIntegrity_def LIFECYCLE_STATES_def Let_def)
  show "fst (bindO (transition t1 Disconnecting) (\<lambda>_. transition t2 Disconnected) (createLifecycle s)) = Inr ()
      \<longleftrightarrow> s \<in> {Active, Degraded, ReauthRequired, ErrorState}"
    by (cases s) (simp_all add: transition_def createLifecycle_def)
qed (rule all_from_Registered all_reach_Disconnected)+

section \<open>Backfills\<close>

text \<open>The certification suite's two checks of a connector's backfill: a second call
  with the first one's checkpoint repeats no message, and repeated calls complete
  within 50 without ever repeating one.\<close>

definition idsOf :: "NormalizedMessage list \<Rightarrow> string list" where
  "idsOf = map nm_externalId"

definition MAX_ITERATIONS :: nat where
  "MAX_ITERATIONS = 50"

definition checkResume :: "('c SyncCheckpoint option \<Rightarrow> ('p, conn_exn, 'c SyncResult) oper) \<Rightarrow> ('p, conn_exn, unit) oper" where
  "checkResume sync = bindO (sync None) (\<lambda>firstBatch.
     if sr_messages firstBatch = [] then ok ()
     else bindO (sync (Some (sr_checkpoint firstBatch))) (\<lambda>resumed.
       if list_ex (\<lambda>i. i \<in> set (idsOf (sr_messages firstBatch))) (idsOf (sr_messages resumed))
       then throw (OtherError ''Resuming from checkpoint re-processed messages'') else ok ()))"

fun seeAll :: "string list \<Rightarrow> string list \<Rightarrow> string list option" where
  "seeAll seen [] = Some seen"
| "seeAll seen (i # is) = (if i \<in> set seen then None else seeAll (seen @ [i]) is)"

fun checkBounded :: "('c SyncCheckpoint option \<Rightarrow> ('p, conn_exn, 'c SyncResult) oper) \<Rightarrow> nat
    \<Rightarrow> 'c SyncCheckpoint option \<Rightarrow> string list \<Rightarrow> ('p, conn_exn, string list) oper" where
  "checkBounded sync 0 cp seen = throw (OtherError ''initialSync() did not reach complete=true'')"
| "checkBounded sync (Suc n) cp seen = bindO (sync cp) (\<lambda>batch.
     case seeAll seen (idsOf (sr_messages batch)) of
       None \<Rightarrow> throw (OtherError ''Duplicate message across sync batches'')
     | Some seen' \<Rightarrow> if sr_complete batch then ok seen'
         else checkBounded sync n (Some (sr_checkpoint batch)) seen')"

lemma seeAll_distinct: "distinct (seen @ is) \<Longrightarrow> seeAll seen is = Some (seen @ is)"
  by (induction seen "is" rule: seeAll.induct) auto

text \<open>The contract: over provider states of a kind, the sync called with the \<open>k\<close>th
  checkpoint of a backfill answers its \<open>k\<close>th batch and the next checkpoint, and says
  complete with the last batch.\<close>

locale resumable_sync =
  fixes sync :: "'c SyncCheckpoint option \<Rightarrow> ('p, conn_exn, 'c SyncResult) oper"
    and idle :: "'p \<Rightarrow> bool"
    and batches :: "NormalizedMessage list list"
    and stands :: "'c SyncCheckpoint option \<Rightarrow> nat \<Rightarrow> bool"
  assumes start: "stands None 0"
    and step: "stands cp k \<Longrightarrow> k < length batches \<Longrightarrow> idle p \<Longrightarrow>
      \<exists>r p'. sync cp p = (Inr r, p') \<and> idle p' \<and> sr_messages r = batches ! k
        \<and> stands (Some (sr_checkpoint r)) (Suc k) \<and> (sr_complete r \<longleftrightarrow> Suc k = length batches)"
begin

lemma bounded_from:
  assumes "stands cp k" "k < length batches" "idle p" "length batches - k \<le> n"
    "distinct (seen @ idsOf (concat (drop k batches)))"
  shows "\<exists>p'. idle p' \<and> checkBounded sync n cp seen p = (Inr (seen @ idsOf (concat (drop k batches))), p')"
  using assms
proof (induction n arbitrary: cp k p seen)
  case (Suc n)
  obtain r p' where r: "sync cp p = (Inr r, p')" "idle p'" "sr_messages r = batches ! k"
    "stands (Some (sr_checkpoint r)) (Suc k)" "sr_complete r \<longleftrightarrow> Suc k = length batches"
    using step [OF Suc.prems(1-3)] by blast
  have cat: "idsOf (concat (drop k batches)) = idsOf (batches ! k) @ idsOf (concat (drop (Suc k) batches))"
    using Suc.prems(2) by (simp add: Cons_nth_drop_Suc [symmetric] idsOf_def)
  have see: "seeAll seen (idsOf (sr_messages r)) = Some (seen @ idsOf (batches ! k))"
    using Suc.prems(5) unfolding cat r(3) by (intro seeAll_distinct) auto
  show ?case
  proof (cases "Suc k = length batches")
    case True
    then show ?thesis using r see cat by (simp add: op_simps idsOf_def)
  next
    case False
    then show ?thesis
      using Suc.IH [OF r(4) _ r(2), of "seen @ idsOf (batches ! k)"] Suc.prems(2,4,5) r(1,5) see cat by simp
  qed
qed simp

lemma bounded:
  assumes "idle p" "batches \<noteq> []" "length batches \<le> MAX_ITERATIONS" "distinct (idsOf (concat batches))"
  shows "\<exists>p'. idle p' \<and> checkBounded sync MAX_ITERATIONS None [] p = (Inr (idsOf (concat batches)), p')"
  using bounded_from [OF start, of p MAX_ITERATIONS "[]"] assms by simp

lemma resumes:
  assumes "idle p" "batches \<noteq> []" "distinct (idsOf (concat batches))" "1 < length batches"
  shows "\<exists>p'. idle p' \<and> checkResume sync p = (Inr (), p')"
proof -
  obtain r p' where r: "sync None p = (Inr r, p')" "idle p'" "sr_messages r = batches ! 0"
    "stands (Some (sr_checkpoint r)) 1"
    using step [OF start _ assms(1)] assms(2) by auto
  obtain r2 p2 where r2: "sync (Some (sr_checkpoint r)) p' = (Inr r2, p2)" "idle p2" "sr_messages r2 = batches ! 1"
    using step [OF r(4) _ r(2)] assms(4) by auto
  obtain b c bs where b: "batches = b # c # bs" using assms(4) by (cases batches; cases "tl batches") auto
  have "\<not> list_ex (\<lambda>i. i \<in> set (idsOf b)) (idsOf c)"
    using assms(3) unfolding b list_ex_iff idsOf_def by auto
  then show ?thesis using r r2 b by (auto simp: checkResume_def op_simps)
qed

end

lemmas sync_simps = bindO.simps ok_def throw_def Let_def

text \<open>The mock's backfill: batches of five of a fixed number of synthetic messages.\<close>

definition syntheticBatches :: "string \<Rightarrow> nat \<Rightarrow> nat \<Rightarrow> NormalizedMessage list list" where
  "syntheticBatches name n k = map (\<lambda>b. map (\<lambda>i. mockMapMessage (buildSyntheticRawMessage i name))
     [5 * b..<min (5 * b + 5) n]) [0..<k]"

lemma synthetic_step:
  assumes "processedOf cp = 5 * k" "5 * k < n" "n \<le> 5 * m" "5 * m < n + 5" "k < m"
  shows "sr_messages (runSyntheticSync cp n name) = syntheticBatches name n m ! k \<and>
    cp_processedCount (sr_checkpoint (runSyntheticSync cp n name)) = min (5 * Suc k) n \<and>
    (sr_complete (runSyntheticSync cp n name) \<longleftrightarrow> Suc k = m)"
  using assms by (auto simp: runSyntheticSync_def DEFAULT_BATCH_SIZE_def Let_def syntheticBatches_def algebra_simps)

definition atBatch :: "nat \<Rightarrow> nat SyncCheckpoint option \<Rightarrow> nat \<Rightarrow> bool" where
  "atBatch n cp k \<longleftrightarrow> processedOf cp = min (5 * k) n"

interpretation mockInitial: resumable_sync mockInitialSync "\<lambda>m. mk_failureMode m = None"
  "syntheticBatches ''initial'' 12 3" "atBatch 12"
proof
  fix cp :: "nat SyncCheckpoint option" and k and m :: MockState
  assume a: "atBatch 12 cp k" "k < length (syntheticBatches ''initial'' 12 3)" "mk_failureMode m = None"
  have k: "processedOf cp = 5 * k" "k < 3" using a(1,2) by (auto simp: syntheticBatches_def atBatch_def)
  show "\<exists>r p'. mockInitialSync cp m = (Inr r, p') \<and> mk_failureMode p' = None
    \<and> sr_messages r = syntheticBatches ''initial'' 12 3 ! k \<and> atBatch 12 (Some (sr_checkpoint r)) (Suc k)
    \<and> (sr_complete r \<longleftrightarrow> Suc k = length (syntheticBatches ''initial'' 12 3))"
    using synthetic_step [OF k(1), of 12 3 "''initial''"] k(2) a(3)
    by (simp add: mockInitialSync_def throwIfSimulatingFailure_def MOCK_INITIAL_SYNC_TOTAL_def sync_simps
        processedOf_def atBatch_def) (simp add: syntheticBatches_def)
qed (simp add: processedOf_def atBatch_def)

interpretation mockReconciliation: resumable_sync mockReconcile "\<lambda>m. mk_failureMode m = None"
  "syntheticBatches ''reconcile'' 6 2" "atBatch 6"
proof
  fix cp :: "nat SyncCheckpoint option" and k and m :: MockState
  assume a: "atBatch 6 cp k" "k < length (syntheticBatches ''reconcile'' 6 2)" "mk_failureMode m = None"
  have k: "processedOf cp = 5 * k" "k < 2" using a(1,2) by (auto simp: syntheticBatches_def atBatch_def)
  show "\<exists>r p'. mockReconcile cp m = (Inr r, p') \<and> mk_failureMode p' = None
    \<and> sr_messages r = syntheticBatches ''reconcile'' 6 2 ! k \<and> atBatch 6 (Some (sr_checkpoint r)) (Suc k)
    \<and> (sr_complete r \<longleftrightarrow> Suc k = length (syntheticBatches ''reconcile'' 6 2))"
    using synthetic_step [OF k(1), of 6 2 "''reconcile''"] k(2) a(3)
    by (simp add: mockReconcile_def throwIfSimulatingFailure_def MOCK_RECONCILE_TOTAL_def sync_simps
        processedOf_def atBatch_def) (simp add: syntheticBatches_def)
qed (simp add: processedOf_def atBatch_def)

text \<open>The channel walk of Slack and Discord: one channel a call, the list fixed by the
  first call.\<close>

definition channelBatches :: "(string \<Rightarrow> NormalizedMessage list) \<Rightarrow> string list \<Rightarrow> NormalizedMessage list list" where
  "channelBatches hist ids = map (\<lambda>c. if c = [] then [] else hist c) (take MAX_CHANNELS_TO_SYNC ids)"

definition atChannel :: "string list \<Rightarrow> ChannelCursor SyncCheckpoint option \<Rightarrow> nat \<Rightarrow> bool" where
  "atChannel ids cp k \<longleftrightarrow> (case cp of None \<Rightarrow> k = 0 | Some c \<Rightarrow>
     cp_cursor c = Some \<lparr>chc_channelIds = take MAX_CHANNELS_TO_SYNC ids, chc_channelIndex = k\<rparr>)"

lemma channel_step:
  assumes listing: "\<And>p. idle p \<Longrightarrow> \<exists>p'. idle p' \<and> listing p = (Inr ids, p')"
    and history: "\<And>c p. c \<in> set ids \<Longrightarrow> idle p \<Longrightarrow> \<exists>p'. idle p' \<and> history c p = (Inr (hist c), p')"
    and at: "atChannel ids cp k" "k < length (take MAX_CHANNELS_TO_SYNC ids)" "idle p"
  shows "\<exists>r p'. syncChannels listing history cp p = (Inr r, p') \<and> idle p' \<and> sr_messages r = channelBatches hist ids ! k
        \<and> atChannel ids (Some (sr_checkpoint r)) (Suc k) \<and> (sr_complete r \<longleftrightarrow> Suc k = length (channelBatches hist ids))"
proof -
  define chosen where "chosen = take MAX_CHANNELS_TO_SYNC ids"
  have len: "k < length chosen" "length (channelBatches hist ids) = length chosen"
    "channelBatches hist ids ! k = (if chosen ! k = [] then [] else hist (chosen ! k))"
    using at(2) by (simp_all add: chosen_def channelBatches_def)
  have mem: "chosen ! k \<in> set ids" using len(1) unfolding chosen_def by (meson in_set_takeD nth_mem)
  obtain p1 where p1: "idle p1" "(case Option.bind cp cp_cursor of Some c \<Rightarrow> ok c
      | None \<Rightarrow> bindO listing (\<lambda>ids. ok \<lparr>chc_channelIds = take MAX_CHANNELS_TO_SYNC ids, chc_channelIndex = 0\<rparr>)) p
      = (Inr \<lparr>chc_channelIds = chosen, chc_channelIndex = k\<rparr>, p1)"
    using at(1,3) listing [OF at(3)] by (cases cp) (auto simp: atChannel_def chosen_def op_simps)
  obtain p2 where p2: "idle p2" "history (chosen ! k) p1 = (Inr (hist (chosen ! k)), p2)"
    using history [OF mem p1(1)] by blast
  have sync: "syncChannels listing history cp p = (if chosen ! k = []
      then (Inr \<lparr>sr_messages = [], sr_checkpoint = \<lparr>cp_cursor = Some \<lparr>chc_channelIds = chosen, chc_channelIndex = k + 1\<rparr>,
           cp_processedCount = processedOf cp\<rparr>, sr_complete = (length chosen \<le> k + 1)\<rparr>, p1)
      else (Inr \<lparr>sr_messages = hist (chosen ! k), sr_checkpoint = \<lparr>cp_cursor = Some \<lparr>chc_channelIds = chosen,
           chc_channelIndex = k + 1\<rparr>, cp_processedCount = processedOf cp + length (hist (chosen ! k))\<rparr>,
           sr_complete = (length chosen \<le> k + 1)\<rparr>, p2))"
    using len(1) p2(2) unfolding syncChannels_def bindO.simps p1(2) by (simp add: sync_simps)
  show ?thesis
    using p1(1) p2(1) len unfolding sync by (auto simp: atChannel_def chosen_def)
qed

lemma channel_walk_resumable:
  assumes "\<And>p. idle p \<Longrightarrow> \<exists>p'. idle p' \<and> listing p = (Inr ids, p')"
    and "\<And>c p. c \<in> set ids \<Longrightarrow> idle p \<Longrightarrow> \<exists>p'. idle p' \<and> history c p = (Inr (hist c), p')"
  shows "resumable_sync (syncChannels listing history) idle (channelBatches hist ids) (atChannel ids)"
proof
  show "atChannel ids None 0" by (simp add: atChannel_def)
next
  fix cp k p
  assume "atChannel ids cp k" "k < length (channelBatches hist ids)" "idle p"
  then show "\<exists>r p'. syncChannels listing history cp p = (Inr r, p') \<and> idle p' \<and> sr_messages r = channelBatches hist ids ! k
        \<and> atChannel ids (Some (sr_checkpoint r)) (Suc k) \<and> (sr_complete r \<longleftrightarrow> Suc k = length (channelBatches hist ids))"
    using channel_step [of idle listing ids history hist cp k p, OF assms] by (simp add: channelBatches_def)
qed

interpretation channelWalk: resumable_sync "syncChannels (ok ids) (\<lambda>c. ok (hist c))" "\<lambda>_. True"
  "channelBatches hist ids" "atChannel ids" for ids and hist :: "string \<Rightarrow> NormalizedMessage list"
  by (rule channel_walk_resumable) (simp_all add: op_simps)

text \<open>Slack's and Discord's API as a provider whose answers do not change meanwhile.\<close>

definition slackAnswers ::
  "'p SlackApiClient \<Rightarrow> string \<Rightarrow> ('p \<Rightarrow> bool) \<Rightarrow> SlackChannel list \<Rightarrow> (string \<Rightarrow> SlackMessage list) \<Rightarrow> bool" where
  "slackAnswers api token idle channels hist \<longleftrightarrow>
     (\<forall>p. idle p \<longrightarrow> (\<exists>p'. idle p' \<and> sl_listConversations api token p = (Inr channels, p'))) \<and>
     (\<forall>c p. idle p \<longrightarrow> (\<exists>p'. idle p' \<and>
        sl_conversationsHistory api token c MESSAGES_PER_CHANNEL_BOUND p = (Inr (hist c), p')))"

definition discordAnswers ::
  "'p DiscordApiClient \<Rightarrow> string \<Rightarrow> string \<Rightarrow> ('p \<Rightarrow> bool) \<Rightarrow> DiscordChannel list \<Rightarrow> (string \<Rightarrow> DiscordMessage list) \<Rightarrow> bool" where
  "discordAnswers api token guild idle channels hist \<longleftrightarrow>
     (\<forall>p. idle p \<longrightarrow> (\<exists>p'. idle p' \<and> ds_listGuildChannels api token guild p = (Inr channels, p'))) \<and>
     (\<forall>c p. idle p \<longrightarrow> (\<exists>p'. idle p' \<and>
        ds_listChannelMessages api token c MESSAGES_PER_CHANNEL_BOUND p = (Inr (hist c), p')))"

definition joinedIds :: "SlackChannel list \<Rightarrow> string list" where
  "joinedIds channels = map slc_id (filter slc_is_member channels)"

definition textChannelIds :: "DiscordChannel list \<Rightarrow> string list" where
  "textChannelIds channels = map dch_id (filter (\<lambda>c. dch_type c = 0) channels)"

lemma rawly_Inr: "m p = (Inr x, p') \<Longrightarrow> rawly f m p = (Inr x, p')"
  by (simp add: rawly_def)

lemma mapAll_Inr: "(\<And>x. x \<in> set xs \<Longrightarrow> f x = Inr (g x)) \<Longrightarrow> mapAll f xs = Inr (map g xs)"
  by (induction xs) auto

lemma slack_resumable:
  assumes answers: "slackAnswers api token idle channels hist" and cred: "slackCredential credential = Inr (token, team)"
    and mapped: "\<And>c m. m \<in> set (hist c) \<Longrightarrow> slackIngestible m \<Longrightarrow> slackMapMessage (m\<lparr>slm_channel := c\<rparr>) = Inr (nrm c m)"
  shows "resumable_sync (\<lambda>cp. slackSync api cp credential) idle
     (channelBatches (\<lambda>c. map (nrm c) (filter slackIngestible (hist c))) (joinedIds channels)) (atChannel (joinedIds channels))"
proof -
  have "(\<lambda>cp. slackSync api cp credential) = syncChannels
      (bindO (rawly sle_slackError (sl_listConversations api token)) (\<lambda>cs. ok (map slc_id (filter slc_is_member cs))))
      (slackHistory api token)"
    using cred by (intro ext) (simp add: slackSync_def)
  moreover have "\<exists>p'. idle p' \<and> bindO (rawly sle_slackError (sl_listConversations api token))
      (\<lambda>cs. ok (map slc_id (filter slc_is_member cs))) p = (Inr (joinedIds channels), p')" if "idle p" for p
  proof -
    obtain p' where "idle p'" "sl_listConversations api token p = (Inr channels, p')"
      using answers \<open>idle p\<close> unfolding slackAnswers_def by blast
    then show ?thesis using rawly_Inr [of "sl_listConversations api token" p] by (auto simp: joinedIds_def op_simps)
  qed
  moreover have "\<exists>p'. idle p' \<and> slackHistory api token c p
      = (Inr (map (nrm c) (filter slackIngestible (hist c))), p')" if "idle p" for c p
  proof -
    obtain p' where "idle p'" "sl_conversationsHistory api token c MESSAGES_PER_CHANNEL_BOUND p = (Inr (hist c), p')"
      using answers \<open>idle p\<close> unfolding slackAnswers_def by blast
    then show ?thesis
      using mapAll_Inr [of "filter slackIngestible (hist c)" "\<lambda>m. slackMapMessage (m\<lparr>slm_channel := c\<rparr>)" "nrm c"] mapped
      by (auto simp: slackHistory_def rawly_def)
  qed
  ultimately show ?thesis by (auto intro!: channel_walk_resumable)
qed

lemma discord_resumable:
  assumes answers: "discordAnswers api token guild idle channels hist"
    and cred: "discordCredential credential = Inr (token, guild)"
  shows "resumable_sync (\<lambda>cp. discordSync api cp credential) idle
     (channelBatches (\<lambda>c. map discordMapMessage (filter (\<lambda>m. \<not> du_bot (dm_author m)) (hist c))) (textChannelIds channels))
     (atChannel (textChannelIds channels))"
proof -
  have "(\<lambda>cp. discordSync api cp credential) = syncChannels
      (bindO (rawly dse_message (ds_listGuildChannels api token guild)) (\<lambda>cs. ok (map dch_id (filter (\<lambda>c. dch_type c = 0) cs))))
      (discordHistory api token)"
    using cred by (intro ext) (simp add: discordSync_def)
  moreover have "\<exists>p'. idle p' \<and> bindO (rawly dse_message (ds_listGuildChannels api token guild))
      (\<lambda>cs. ok (map dch_id (filter (\<lambda>c. dch_type c = 0) cs))) p = (Inr (textChannelIds channels), p')" if "idle p" for p
  proof -
    obtain p' where "idle p'" "ds_listGuildChannels api token guild p = (Inr channels, p')"
      using answers \<open>idle p\<close> unfolding discordAnswers_def by blast
    then show ?thesis using rawly_Inr [of "ds_listGuildChannels api token guild" p] by (auto simp: textChannelIds_def op_simps)
  qed
  moreover have "\<exists>p'. idle p' \<and> discordHistory api token c p
      = (Inr (map discordMapMessage (filter (\<lambda>m. \<not> du_bot (dm_author m)) (hist c))), p')" if "idle p" for c p
  proof -
    obtain p' where "idle p'" "ds_listChannelMessages api token c MESSAGES_PER_CHANNEL_BOUND p = (Inr (hist c), p')"
      using answers \<open>idle p\<close> unfolding discordAnswers_def by blast
    then show ?thesis by (auto simp: discordHistory_def rawly_def op_simps)
  qed
  ultimately show ?thesis by (auto intro!: channel_walk_resumable)
qed

lemma slackMapMessage_id: "slackMapMessage m = Inr n \<Longrightarrow> nm_externalId n = slm_ts m"
  by (auto simp: slackMapMessage_def split: jsnum.splits)


definition oneSlackMessage :: "string \<Rightarrow> SlackMessage" where
  "oneSlackMessage ts = \<lparr>slm_type = ''message'', slm_subtype = None, slm_channel = [], slm_user = Some ''U1'',
     slm_bot_id = None, slm_text = ''hi'', slm_ts = ts\<rparr>"

definition fixedSlack :: "SlackChannel list \<Rightarrow> (string \<Rightarrow> SlackMessage list) \<Rightarrow> unit SlackApiClient" where
  "fixedSlack channels hist = \<lparr>sl_authTest = (\<lambda>_. ok ''T1''), sl_listConversations = (\<lambda>_. ok channels),
     sl_conversationsHistory = (\<lambda>_ c _. ok (hist c)), sl_postMessage = (\<lambda>_ _ _. ok ''9.9'')\<rparr>"

section \<open>Mailboxes\<close>

text \<open>The repeated polls of one mailbox, each from the checkpoint the last one stored.\<close>

fun emailPolls ::
  "'p EmailApiClient \<Rightarrow> jsval \<Rightarrow> nat \<Rightarrow> nat SyncCheckpoint option \<Rightarrow> ('p, conn_exn, NormalizedMessage list) oper" where
  "emailPolls api credential 0 cp = ok []"
| "emailPolls api credential (Suc n) cp = bindO (emailPoll api cp credential) (\<lambda>r.
     bindO (emailPolls api credential n (Some (sr_checkpoint r))) (\<lambda>rest. ok (sr_messages r @ rest)))"

text \<open>What an IMAP server answers to the UID range \<open>n:*\<close>: the messages from \<open>n\<close> on, and the
  last message where there is none, since \<open>*\<close> stands for the highest UID in use.\<close>

definition imapRange :: "ImapMessage list \<Rightarrow> nat \<Rightarrow> ImapMessage list" where
  "imapRange box n = (let ms = filter (\<lambda>m. n \<le> imp_uid m) box in
     if ms = [] \<and> box \<noteq> [] then [last box] else ms)"

definition serves :: "'p EmailApiClient \<Rightarrow> EmailCredential \<Rightarrow> ('p \<Rightarrow> bool) \<Rightarrow> ImapMessage list \<Rightarrow> bool" where
  "serves api c idle box \<longleftrightarrow> (\<forall>n p. idle p \<longrightarrow> (\<exists>p'. idle p' \<and> ec_imapFetch api c n p = (Inr (imapRange box n), p')))"

definition parsedMail :: "ImapMessage \<Rightarrow> EmailMessage" where
  "parsedMail m = (the (imp_parsed m))\<lparr>em_uid := imp_uid m\<rparr>"

lemma em_uid_parsedMail [simp]: "em_uid (parsedMail m) = imp_uid m"
  by (simp add: parsedMail_def)

lemma fetchLoop_take:
  "\<forall>m\<in>set ms. since < imp_uid m \<and> imp_parsed m \<noteq> None \<Longrightarrow>
   fetchLoop since n count ms = take (n - count) (map parsedMail ms)"
proof (induction since n count ms rule: fetchLoop.induct)
  case (2 since n count m ms)
  then obtain e where e: "imp_parsed m = Some e" "since < imp_uid m" by auto
  show ?case
  proof (cases "n \<le> count")
    case False
    then have "n - count = Suc (n - (count + 1))" by simp
    then show ?thesis using 2 e False by (simp add: parsedMail_def)
  qed (use e in simp)
qed simp

lemma fetchLoop_old: "0 < since \<Longrightarrow> \<forall>m\<in>set ms. imp_uid m \<le> since \<Longrightarrow> fetchLoop since n count ms = []"
  by (induction since n count ms rule: fetchLoop.induct) auto

definition lastUid :: "ImapMessage list \<Rightarrow> nat" where
  "lastUid ms = (if ms = [] then 0 else imp_uid (last ms))"

lemma sorted_lastUid: "sorted_wrt (<) (map imp_uid ms) \<Longrightarrow> m \<in> set ms \<Longrightarrow> imp_uid m \<le> lastUid ms"
proof (induction ms rule: rev_induct)
  case (snoc x ms)
  then show ?case by (auto simp: lastUid_def sorted_wrt_append less_imp_le)
qed simp

definition goodBox :: "ImapMessage list \<Rightarrow> bool" where
  "goodBox box \<longleftrightarrow> sorted_wrt (<) (map imp_uid box) \<and> (\<forall>m\<in>set box. 0 < imp_uid m \<and> imp_parsed m \<noteq> None)"

lemma goodBox_split:
  assumes "goodBox (xs @ ys)"
  shows "filter (\<lambda>m. lastUid xs + 1 \<le> imp_uid m) (xs @ ys) = ys" "\<forall>m\<in>set ys. lastUid xs < imp_uid m \<and> imp_parsed m \<noteq> None"
proof -
  have s: "sorted_wrt (<) (map imp_uid xs)" "\<forall>m\<in>set xs. \<forall>m'\<in>set ys. imp_uid m < imp_uid m'" "\<forall>m\<in>set (xs @ ys). 0 < imp_uid m"
    using assms by (auto simp: goodBox_def sorted_wrt_append)
  have old: "\<forall>m\<in>set xs. \<not> lastUid xs + 1 \<le> imp_uid m"
    using sorted_lastUid [OF s(1)] by (auto simp: not_le less_Suc_eq_le)
  show ys: "\<forall>m\<in>set ys. lastUid xs < imp_uid m \<and> imp_parsed m \<noteq> None"
    using s(2,3) assms by (auto simp: lastUid_def goodBox_def)
  show "filter (\<lambda>m. lastUid xs + 1 \<le> imp_uid m) (xs @ ys) = ys"
    using old ys by (simp add: filter_empty_conv filter_id_conv Suc_le_eq)
qed

lemma fetch_next:
  assumes "goodBox (xs @ ys)"
  shows "fetchLoop (lastUid xs) n 0 (imapRange (xs @ ys) (lastUid xs + 1)) = take n (map parsedMail ys)"
proof (cases "ys = []")
  case True
  show ?thesis
  proof (cases "xs = []")
    case False
    have pos: "0 < lastUid xs" using assms False by (auto simp: lastUid_def goodBox_def)
    have "\<forall>m\<in>set (imapRange xs (lastUid xs + 1)). imp_uid m \<le> lastUid xs"
      using goodBox_split(1) [of xs "[]"] assms True False by (auto simp: imapRange_def lastUid_def Let_def)
    then show ?thesis using fetchLoop_old [OF pos] True by simp
  qed (use True in \<open>simp add: imapRange_def\<close>)
next
  case False
  have range: "imapRange (xs @ ys) (lastUid xs + 1) = ys"
    unfolding imapRange_def goodBox_split(1) [OF assms] using False by simp
  show ?thesis
    using fetchLoop_take [OF goodBox_split(2) [OF assms], of n 0] unfolding range by simp
qed

lemma Max_uid:
  assumes "sorted_wrt (<) (map imp_uid ms)" "ms \<noteq> []"
  shows "Max (set (map em_uid (map parsedMail ms))) = lastUid ms"
proof -
  have "Max (set (map imp_uid ms)) = lastUid ms"
    using assms sorted_lastUid [OF assms(1)] by (intro Max_eqI) (auto simp: lastUid_def)
  then show ?thesis by (simp add: o_def)
qed

definition mailOf :: "ImapMessage list \<Rightarrow> NormalizedMessage list" where
  "mailOf ms = map emailMapMessage (filter (\<lambda>m. \<not> em_isOwnMessage m) (map parsedMail ms))"

definition sinceOf :: "nat SyncCheckpoint option \<Rightarrow> nat" where
  "sinceOf cp = (case Option.bind cp cp_cursor of Some u \<Rightarrow> u | None \<Rightarrow> 0)"

lemma emailPoll_next:
  assumes good: "goodBox (xs @ ys)" and serves: "serves api c idle (xs @ ys)" "idle p"
    and cred: "emailCredential credential = Inr c" and since: "sinceOf cp = lastUid xs"
  shows "\<exists>r p'. emailPoll api cp credential p = (Inr r, p') \<and> idle p' \<and> sr_messages r = mailOf (take 50 ys) \<and>
     sinceOf (Some (sr_checkpoint r)) = lastUid (xs @ take 50 ys)"
proof -
  obtain p' where p': "idle p'" "ec_imapFetch api c (lastUid xs + 1) p = (Inr (imapRange (xs @ ys) (lastUid xs + 1)), p')"
    using serves unfolding serves_def by blast
  let ?raw = "map parsedMail (take 50 ys)"
  have raw: "rawly eme_message (fetchMessages api c (sinceOf cp) EMAIL_MESSAGES_PER_POLL_BOUND) p = (Inr ?raw, p')"
    using p' fetch_next [OF good, of 50]
    by (simp add: since fetchMessages_def rawly_def EMAIL_MESSAGES_PER_POLL_BOUND_def op_simps take_map)
  have "sorted_wrt (<) (map imp_uid ys)"
    using good by (simp add: goodBox_def sorted_wrt_append)
  then have sorted: "sorted_wrt (<) (map imp_uid (take 50 ys))"
    using sorted_wrt_take [of "(<)" "map imp_uid ys" 50] by (simp add: take_map)
  have highest: "(if ?raw = [] then sinceOf cp else Max (set (map em_uid ?raw))) = lastUid (xs @ take 50 ys)"
    using Max_uid [OF sorted] since by (auto simp: lastUid_def)
  have "emailPoll api cp credential p = (Inr \<lparr>sr_messages = mailOf (take 50 ys),
      sr_checkpoint = \<lparr>cp_cursor = Some (if ?raw = [] then sinceOf cp else Max (set (map em_uid ?raw))),
      cp_processedCount = processedOf cp + length (mailOf (take 50 ys))\<rparr>, sr_complete = True\<rparr>, p')"
    unfolding emailPoll_def cred sum.case sinceOf_def [symmetric] Let_def raw mailOf_def by simp
  then show ?thesis using p'(1) unfolding highest by (simp add: sinceOf_def)
qed

lemma emailPolls_from:
  assumes "goodBox (xs @ ys)" "serves api c idle (xs @ ys)" "idle p" "emailCredential credential = Inr c"
    "sinceOf cp = lastUid xs"
  shows "\<exists>p'. idle p' \<and> emailPolls api credential n cp p = (Inr (mailOf (take (50 * n) ys)), p')"
  using assms
proof (induction n arbitrary: xs ys cp p)
  case 0
  then show ?case by (auto simp: mailOf_def op_simps)
next
  case (Suc n)
  obtain r p1 where r: "emailPoll api cp credential p = (Inr r, p1)" "idle p1" "sr_messages r = mailOf (take 50 ys)"
    "sinceOf (Some (sr_checkpoint r)) = lastUid (xs @ take 50 ys)"
    using emailPoll_next [OF Suc.prems] by blast
  obtain p2 where p2: "idle p2" "emailPolls api credential n (Some (sr_checkpoint r)) p1 = (Inr (mailOf (take (50 * n) (drop 50 ys))), p2)"
    using Suc.IH [of "xs @ take 50 ys" "drop 50 ys" p1 "Some (sr_checkpoint r)"] Suc.prems r(2,4) by auto
  have "mailOf (take 50 ys) @ mailOf (take (50 * n) (drop 50 ys)) = mailOf (take (50 * Suc n) ys)"
    using take_add [of 50 "50 * n" ys] by (simp add: mailOf_def)
  then show ?case using r p2 by (auto simp: op_simps)
qed

text \<open>C9: Polling a mailbox (its UIDs ascending from 1, every message parsed) \<open>n\<close> times,
  each time from the UID the last poll stored, ingests exactly its first \<open>50 * n\<close>
  messages that the account did not send itself, each once and in order: after enough
  polls all of the mailbox, and further polls, to which the server keeps answering its
  last message, ingest nothing again.
\<close>
theorem email_polls_each_once:
  assumes "goodBox box" "serves api c idle box" "idle p" "emailCredential credential = Inr c"
  shows "\<exists>p'. idle p' \<and> emailPolls api credential n None p
    = (Inr (map emailMapMessage (filter (\<lambda>m. \<not> em_isOwnMessage m) (map parsedMail (take (50 * n) box)))), p')"
  using emailPolls_from [of "[]" box api c idle p credential None n] assms
  by (simp add: sinceOf_def lastUid_def mailOf_def)

definition oneMail :: "nat \<Rightarrow> bool \<Rightarrow> ImapMessage" where
  "oneMail n own = \<lparr>imp_uid = n, imp_parsed = Some \<lparr>em_uid = 0, em_messageId = intDigits (int n), em_inReplyTo = None,
     em_references = [], em_fromAddress = ''a@b'', em_fromName = None, em_subject = ''s'', em_date = 0,
     em_textBody = ''t'', em_isOwnMessage = own\<rparr>\<rparr>"

definition fixedMailbox :: "ImapMessage list \<Rightarrow> unit EmailApiClient" where
  "fixedMailbox box = \<lparr>ec_testConnection = (\<lambda>_. ok ()), ec_imapFetch = (\<lambda>_ n. ok (imapRange box n)),
     ec_sendMessage = (\<lambda>_ _. ok ''id'')\<rparr>"

definition sampleMailCredential :: jsval where
  "sampleMailCredential = JObj [(''imapHost'', JStr ''i''), (''imapPort'', JNum (Fin 993)), (''imapSecure'', JBool True),
     (''smtpHost'', JStr ''s''), (''smtpPort'', JNum (Fin 587)), (''smtpSecure'', JBool False),
     (''username'', JStr ''u''), (''password'', JStr ''p'')]"

theorem email_polls_each_once_witness:
  "\<exists>p'. emailPolls (fixedMailbox [oneMail 3 False, oneMail 4 True, oneMail 9 False]) sampleMailCredential 2 None ()
    = (Inr (map emailMapMessage (map parsedMail [oneMail 3 False, oneMail 9 False])), p')"
proof -
  let ?box = "[oneMail 3 False, oneMail 4 True, oneMail 9 False]"
  obtain c where c: "emailCredential sampleMailCredential = Inr c"
    by (auto simp: emailCredential_def emailParse_def sampleMailCredential_def)
  have "\<exists>p'. True \<and> emailPolls (fixedMailbox ?box) sampleMailCredential 2 None ()
    = (Inr (map emailMapMessage (filter (\<lambda>m. \<not> em_isOwnMessage m) (map parsedMail (take (50 * 2) ?box)))), p')"
    by (rule email_polls_each_once [where idle = "\<lambda>_. True", OF _ _ _ c])
      (simp_all add: goodBox_def oneMail_def serves_def fixedMailbox_def op_simps)
  then show ?thesis by (simp add: oneMail_def parsedMail_def)
qed

section \<open>Telegram's drain\<close>

definition drains :: "TelegramWebhookInfo \<Rightarrow> bool" where
  "drains info \<longleftrightarrow> 0 < wi_pending_update_count info \<or> wi_last_error_date info \<notin> {None, Some 0}"

text \<open>The documented use of the offset: updates from it on.\<close>

definition fromOffset :: "int option \<Rightarrow> TelegramUpdate list \<Rightarrow> bool" where
  "fromOffset offset us \<longleftrightarrow> (case offset of None \<Rightarrow> True | Some n \<Rightarrow> list_all (\<lambda>u. n \<le> up_update_id u) us)"

definition coversUpdates :: "int option \<Rightarrow> int option \<Rightarrow> TelegramUpdate list \<Rightarrow> bool" where
  "coversUpdates offset cursor us \<longleftrightarrow> (if us = [] then cursor = offset
     else (\<exists>n. cursor = Some n \<and> list_all (\<lambda>u. up_update_id u < n) us \<and> (case offset of None \<Rightarrow> True | Some k \<Rightarrow> k < n)))"

lemma covers_Max:
  assumes "fromOffset offset us"
  shows "coversUpdates offset (if us = [] then offset else Some (Max (set (map up_update_id us)) + 1)) us"
proof (cases "us = []")
  case False
  have below: "up_update_id u < Max (set (map up_update_id us)) + 1" if "u \<in> set us" for u
    using that by (auto simp: zless_add1_eq le_less [symmetric])
  moreover have "k < Max (set (map up_update_id us)) + 1" if "offset = Some k" for k
  proof -
    have "k \<le> up_update_id (hd us)" using assms False that by (cases us) (auto simp: fromOffset_def)
    also have "\<dots> < Max (set (map up_update_id us)) + 1" using False by (intro below) simp
    finally show ?thesis .
  qed
  ultimately show ?thesis
    using False by (auto simp: coversUpdates_def list_all_iff split: option.splits)
qed (simp add: coversUpdates_def)

text \<open>When Telegram reports a backlog and a registered webhook, the reconciliation
  that drains it ends by registering that same webhook again with the account's secret,
  also when reading the backlog failed; when it succeeded, every update with content is
  ingested in order and the stored cursor moves past every update read and never back,
  so that the next drain reads none of them again.
\<close>
theorem telegram_reconcile_restores_webhook:
  assumes "telegramCredential credential = Inr token"
    and "tg_getWebhookInfo api token p = (Inr info, p1)" and "drains info" and "wi_url info \<noteq> []"
    and "telegramDrain api token (Option.bind cp cp_cursor) p1 = (res, p2)"
    and "case res of Inl _ \<Rightarrow> True | Inr us \<Rightarrow> fromOffset (Option.bind cp cp_cursor) us"
  shows "snd (telegramReconcile api cp credential secret p) = snd (tg_setWebhook api token (wi_url info) secret p2) \<and>
    (case res of Inl e \<Rightarrow> fst (telegramReconcile api cp credential secret p) = Inl (RawApi (tge_message e))
     | Inr us \<Rightarrow> (\<exists>r. fst (telegramReconcile api cp credential secret p) = Inr r \<and>
         map Inr (sr_messages r) = filter (\<lambda>x. \<not> isl x) (map telegramMapMessage us) \<and>
         coversUpdates (Option.bind cp cp_cursor) (cp_cursor (sr_checkpoint r)) us))"
proof -
  have Inrs: "map Inr (concat (map (case_sum (\<lambda>a. []) (\<lambda>m. [m]) \<circ> telegramMapMessage) us))
      = filter (\<lambda>x. \<not> isl x) (map telegramMapMessage us)" for us
    by (induction us) (auto split: sum.splits)
  have drain: "0 < wi_pending_update_count info \<or> wi_last_error_date info \<notin> {None, Some 0}"
    using assms(3) by (simp add: drains_def)
  show ?thesis
    unfolding telegramReconcile_def assms(1,2,5) sum.case prod.case Let_def
    using drain assms(4,6) covers_Max [of "Option.bind cp cp_cursor"] Inrs
    by (cases res) auto
qed

definition oneUpdate :: "int \<Rightarrow> TelegramUpdate" where
  "oneUpdate n = \<lparr>up_update_id = n, up_message = Some \<lparr>tm_message_id = n, tm_date = 0,
     tm_chat = \<lparr>tch_id = 5, tch_title = None, tch_username = None, tch_first_name = Some ''A'', tch_last_name = None\<rparr>,
     tm_from = None, tm_text = Some ''hi'', tm_caption = None, tm_photo = False, tm_video = False, tm_document = False,
     tm_voice = False, tm_sticker = False\<rparr>, up_edited_message = None\<rparr>"

text \<open>A provider that remembers whether its webhook is set.\<close>

definition fixedTelegram :: "TelegramUpdate list \<Rightarrow> string TelegramApiClient" where
  "fixedTelegram us = \<lparr>tg_getMe = (\<lambda>_. throw \<lparr>tge_errorCode = 401, tge_message = ''Unauthorized'', tge_retryAfter = None\<rparr>),
     tg_sendMessage = (\<lambda>_ _ _. ok 1), tg_setWebhook = (\<lambda>_ u _. \<lambda>p. (Inr (), u)), tg_deleteWebhook = (\<lambda>_. \<lambda>p. (Inr (), [])),
     tg_getWebhookInfo = (\<lambda>_. \<lambda>p. (Inr \<lparr>wi_url = p, wi_pending_update_count = length us, wi_last_error_date = None\<rparr>, p)),
     tg_getUpdates = (\<lambda>_ n. ok (case n of None \<Rightarrow> us | Some k \<Rightarrow> filter (\<lambda>u. k \<le> up_update_id u) us))\<rparr>"

theorem telegram_reconcile_restores_webhook_witness:
  "snd (telegramReconcile (fixedTelegram [oneUpdate 7]) None (JStr ''tok'') ''sec'' ''https://x/hook'') = ''https://x/hook''"
  using telegram_reconcile_restores_webhook [where credential = "JStr ''tok''" and token = "''tok''"
      and api = "fixedTelegram [oneUpdate 7]" and p = "''https://x/hook''" and cp = None and secret = "''sec''"
      and info = "\<lparr>wi_url = ''https://x/hook'', wi_pending_update_count = 1, wi_last_error_date = None\<rparr>"
      and ?p1.0 = "''https://x/hook''" and ?p2.0 = "[]" and res = "Inr [oneUpdate 7]"]
  by (simp add: fixedTelegram_def drains_def telegramDrain_def fromOffset_def op_simps)

section \<open>The registry\<close>

lemma registered_get:
  assumes "registerConnector c reg = Inr reg'"
  shows "getConnector reg' (mf_providerKey (cn_manifest c)) = Inr c"
    "k \<noteq> mf_providerKey (cn_manifest c) \<Longrightarrow> getConnector reg' k = getConnector reg k"
    "hasConnector reg' k \<longleftrightarrow> hasConnector reg k \<or> k = mf_providerKey (cn_manifest c)"
    "registerConnector c reg' = Inl (PlainError ''A connector for this provider is already registered.'')"
proof -
  have r: "reg' = reg @ [c]" "\<not> list_ex (\<lambda>x. mf_providerKey (cn_manifest x) = mf_providerKey (cn_manifest c)) reg"
    using assms by (auto simp: registerConnector_def split: if_splits)
  then show "getConnector reg' (mf_providerKey (cn_manifest c)) = Inr c"
    by (auto simp: getConnector_def findFirst_append list_ex_iff split: option.splits dest!: findFirst_SomeD)
  show "k \<noteq> mf_providerKey (cn_manifest c) \<Longrightarrow> getConnector reg' k = getConnector reg k"
    using r by (auto simp: getConnector_def findFirst_append split: option.splits)
  show "hasConnector reg' k \<longleftrightarrow> hasConnector reg k \<or> k = mf_providerKey (cn_manifest c)"
    using r by (auto simp: hasConnector_def)
  show "registerConnector c reg' = Inl (PlainError ''A connector for this provider is already registered.'')"
    using r by (simp add: registerConnector_def)
qed

text \<open>The default registry registers the mock and the four real connectors without a
  clash; looking a provider up answers its own connector and no other key has one; each
  of the five manifests passes the manifest check; and the connector of a provider can
  not be registered a second time.
\<close>
theorem default_registry:
  "\<exists>reg. defaultConnectorRegistry mockConnector A = Inr reg \<and>
    getConnector reg ''mock'' = Inr mockConnector \<and>
    getConnector reg ''telegram'' = Inr (telegramConnector (api_telegram A)) \<and>
    getConnector reg ''discord'' = Inr (discordConnector (api_discord A)) \<and>
    getConnector reg ''slack'' = Inr (slackConnector (api_slack A)) \<and>
    getConnector reg ''email'' = Inr (emailConnector (api_email A)) \<and>
    (hasConnector reg k \<longleftrightarrow> k \<in> {''mock'', ''telegram'', ''discord'', ''slack'', ''email''}) \<and>
    list_all (\<lambda>c. defineCapabilityManifest (cn_manifest c) = Inr (cn_manifest c)) reg \<and>
    list_all (\<lambda>c. isl (registerConnector c reg)) reg"
  by (auto simp: defaultConnectorRegistry_def registerConnector_def getConnector_def hasConnector_def
      mockConnector_def MOCK_PROVIDER_KEY_def telegramConnector_def discordConnector_def slackConnector_def emailConnector_def
      manifestOf_def defineCapabilityManifest_def requiresReconciliation_def)

end
