(* ===== verification/Outbound.thy ===== *)
theory Outbound
  imports Connectors Workspaces
begin

text \<open>
  What leaves the platform: the durable no-reply jobs of
  \<open>automation/scheduler.service.ts\<close> (their rows and queue; firing is in the theory of
  rule execution), the outbound send shared by live and scheduled replies
  (\<open>conversations/message-send.service.ts\<close>), the scheduled messages
  (\<open>automation/scheduled-message.service.ts\<close>, \<open>scheduled-messages.controller.ts\<close>) and the
  reply endpoint of \<open>conversations.controller.ts\<close>. The state is the platform's world
  beside the provider state of the connectors.
\<close>

section \<open>The world beside the providers\<close>

type_synonym 'p platform = "world \<times> 'p"

definition onWorld :: "(world, 'e, 'a) oper \<Rightarrow> ('p platform, 'e, 'a) oper" where
  "onWorld m st = (case m (fst st) of (r, s') \<Rightarrow> (r, (s', snd st)))"

definition onProvider :: "('p, 'e, 'a) oper \<Rightarrow> ('p platform, 'e, 'a) oper" where
  "onProvider m st = (case m (snd st) of (r, p') \<Rightarrow> (r, (fst st, p')))"

definition updW :: "(world \<Rightarrow> world) \<Rightarrow> 'p platform \<Rightarrow> 'p platform" where
  "updW f st = (f (fst st), snd st)"

lemma updW_simps [simp]: "fst (updW f st) = f (fst st)" "snd (updW f st) = snd st"
  by (simp_all add: updW_def)

lemma onWorld_eq: "m (fst st) = (r, s') \<Longrightarrow> onWorld m st = (r, (s', snd st))"
  by (simp add: onWorld_def)

lemma onProvider_eq: "m (snd st) = (r, p') \<Longrightarrow> onProvider m st = (r, (fst st, p'))"
  by (simp add: onProvider_def)

section \<open>Queues\<close>

text \<open>Adding a job whose id is present changes nothing; removing one leaves a job a
  worker holds.\<close>

definition queueAdd :: "string \<Rightarrow> string \<Rightarrow> instant \<Rightarrow> uuid \<Rightarrow> job_data \<Rightarrow> world \<Rightarrow> world" where
  "queueAdd q jobId runAt wsId data s =
     (if list_ex (\<lambda>j. qj_queue j = q \<and> qj_id j = jobId) (queueJobs s) then s
      else s\<lparr>queueJobs := queueJobs s @ [\<lparr>qj_id = jobId, qj_queue = q, qj_state = JDelayed,
              qj_runAt = runAt, qj_workspaceId = wsId, qj_data = data\<rparr>]\<rparr>)"

definition queueRemove :: "string \<Rightarrow> string \<Rightarrow> world \<Rightarrow> world" where
  "queueRemove q jobId s = s\<lparr>queueJobs :=
     deleteMany (\<lambda>j. qj_queue j = q \<and> qj_id j = jobId \<and> qj_state j \<noteq> JActive) (queueJobs s)\<rparr>"

section \<open>No-reply jobs\<close>

definition SCHEDULED_JOBS_QUEUE_NAME :: string where
  "SCHEDULED_JOBS_QUEUE_NAME = ''scheduled-jobs''"

definition jobIdFor :: "uuid \<Rightarrow> uuid \<Rightarrow> string" where
  "jobIdFor ruleId conversationId = uuidText ruleId @ ''_'' @ uuidText conversationId"

text \<open>\<open>!hours\<close>, and the instant that many hours from now.\<close>

definition noHours :: "jsnum option \<Rightarrow> bool" where
  "noHours h \<longleftrightarrow> h \<in> {None, Some NaN, Some (Fin 0)}"

definition dueAt :: "instant \<Rightarrow> jsnum \<Rightarrow> instant option" where
  "dueAt now h = (case h of Fin r \<Rightarrow> Some (now + \<lfloor>r * 3600000\<rfloor>) | _ \<Rightarrow> None)"

definition upsertScheduledJob :: "uuid \<Rightarrow> uuid \<Rightarrow> uuid \<Rightarrow> uuid \<Rightarrow> instant \<Rightarrow> world \<Rightarrow> world" where
  "upsertScheduledJob newId wsId ruleId conversationId dueTime s =
     (let same = (\<lambda>j. sj_ruleId j = ruleId \<and> sj_conversationId j = conversationId) in
      if list_ex same (scheduledJobs s)
      then s\<lparr>scheduledJobs := updateMany same (\<lambda>j. j\<lparr>sj_id := newId, sj_scheduledFor := dueTime, sj_status := JobPending,
              sj_completedAt := None\<rparr>) (scheduledJobs s)\<rparr>
      else s\<lparr>scheduledJobs := scheduledJobs s @ [\<lparr>sj_id = newId, sj_workspaceId = wsId, sj_ruleId = ruleId,
              sj_conversationId = conversationId, sj_scheduledFor = dueTime, sj_status = JobPending, sj_completedAt = None\<rparr>]\<rparr>)"

definition scheduleRule :: "env \<Rightarrow> instant \<Rightarrow> uuid \<Rightarrow> uuid \<Rightarrow> Rule \<Rightarrow> (world, exn, unit) oper" where
  "scheduleRule E now wsId conversationId r s =
     (if noHours (paramHours (rul_trigger r)) then (Inr (), s)
      else case dueAt now (the (paramHours (rul_trigger r))) of
          None \<Rightarrow> (Inl (PlainError ''Invalid time value''), drawn 1 s)
        | Some due \<Rightarrow>
            let scheduledJobId = draw E s; jobId = jobIdFor (rul_id r) conversationId;
                s1 = upsertScheduledJob scheduledJobId wsId (rul_id r) conversationId due (drawn 1 s)
            in (Inr (), queueAdd SCHEDULED_JOBS_QUEUE_NAME jobId due wsId
                  (FireNoReply scheduledJobId (rul_id r) conversationId wsId)
                  (queueRemove SCHEDULED_JOBS_QUEUE_NAME jobId s1)))"

fun forEach :: "('a \<Rightarrow> ('s, 'e, unit) oper) \<Rightarrow> 'a list \<Rightarrow> ('s, 'e, unit) oper" where
  "forEach f [] = ok ()"
| "forEach f (x # xs) = bindO (f x) (\<lambda>_. forEach f xs)"

definition noReplyRules :: "uuid \<Rightarrow> world \<Rightarrow> Rule list" where
  "noReplyRules wsId s = filter (\<lambda>r. rul_deletedAt r = None \<and> rul_workspaceId r = wsId \<and>
     rul_triggerType r = ''time.no_reply_after'' \<and> rul_isEnabled r) (rules s)"

definition scheduleNoReplyRules :: "env \<Rightarrow> instant \<Rightarrow> uuid \<Rightarrow> uuid \<Rightarrow> (world, exn, unit) oper" where
  "scheduleNoReplyRules E now wsId conversationId s =
     forEach (scheduleRule E now wsId conversationId) (noReplyRules wsId s) s"

definition cancelJob :: "uuid \<Rightarrow> ScheduledJob \<Rightarrow> world \<Rightarrow> world" where
  "cancelJob conversationId j s =
     (let s1 = queueRemove SCHEDULED_JOBS_QUEUE_NAME (jobIdFor (sj_ruleId j) conversationId) s in
      s1\<lparr>scheduledJobs := updateMany (\<lambda>x. sj_id x = sj_id j) (\<lambda>x. x\<lparr>sj_status := JobCancelled\<rparr>) (scheduledJobs s1)\<rparr>)"

definition pendingJobs :: "uuid \<Rightarrow> uuid \<Rightarrow> world \<Rightarrow> ScheduledJob list" where
  "pendingJobs wsId conversationId s = filter (\<lambda>j. sj_workspaceId j = wsId \<and> sj_conversationId j = conversationId \<and>
     sj_status j = JobPending) (scheduledJobs s)"

definition cancelNoReplyRules :: "uuid \<Rightarrow> uuid \<Rightarrow> world \<Rightarrow> world" where
  "cancelNoReplyRules wsId conversationId s = fold (cancelJob conversationId) (pendingJobs wsId conversationId s) s"

section \<open>Sending a message\<close>

record SendMessageParams =
  smp_workspaceId :: uuid
  smp_conversationId :: uuid
  smp_bodyText :: string
  smp_actorUserId :: "uuid option"
  smp_actorType :: string

definition liveConversation :: "world \<Rightarrow> uuid \<Rightarrow> uuid \<Rightarrow> Conversation option" where
  "liveConversation s wsId i = findFirst (\<lambda>c. cnv_deletedAt c = None \<and> cnv_id c = i \<and> cnv_workspaceId c = wsId) (conversations s)"

text \<open>\<open>include: { linkedAccount: true }\<close> reads the row whether or not it is deleted.\<close>

definition accountOf :: "world \<Rightarrow> Conversation \<Rightarrow> LinkedAccount option" where
  "accountOf s c = Option.bind (cnv_linkedAccountId c) (\<lambda>i. findFirst (\<lambda>a. la_id a = i) (linkedAccounts s))"

text \<open>\<open>message.create\<close> under the unique key of conversation and external id.\<close>

definition createMessage :: "Message \<Rightarrow> (world, exn, Message) oper" where
  "createMessage m s =
     (if list_ex (\<lambda>x. msg_conversationId x = msg_conversationId m \<and> msg_externalId x = msg_externalId m) (messages s)
      then (Inl (PlainError ''P2002''), s)
      else (Inr m, s\<lparr>messages := messages s @ [m]\<rparr>))"

definition setConversation :: "uuid \<Rightarrow> (Conversation \<Rightarrow> Conversation) \<Rightarrow> world \<Rightarrow> world" where
  "setConversation i f s = s\<lparr>conversations := updateMany (\<lambda>c. cnv_id c = i) f (conversations s)\<rparr>"

definition outboundRow :: "env \<Rightarrow> instant \<Rightarrow> uuid \<Rightarrow> uuid \<Rightarrow> string \<Rightarrow> string \<Rightarrow> world \<Rightarrow> Message" where
  "outboundRow E now wsId conversationId externalId body s = \<lparr>msg_id = draw E s, msg_workspaceId = wsId,
     msg_conversationId = conversationId, msg_externalId = externalId, msg_senderContactId = None,
     msg_direction = Outbound, msg_bodyText = body, msg_receivedAt = now, msg_deletedAt = None\<rparr>"

text \<open>The checks before anything is sent, giving the account and the connector's send.\<close>

definition sendTarget :: "'p registry \<Rightarrow> SendMessageParams \<Rightarrow> world \<Rightarrow> exn + Conversation \<times> LinkedAccount
    \<times> (OutboundMessage \<Rightarrow> jsval \<Rightarrow> ('p, conn_exn, SendResult) oper)" where
  "sendTarget reg params s = (case liveConversation s (smp_workspaceId params) (smp_conversationId params) of
      None \<Rightarrow> Inl (HttpError 404 ''CONVERSATION_NOT_FOUND'')
    | Some c \<Rightarrow> (case accountOf s c of
        None \<Rightarrow> Inl (HttpError 422 ''LINKED_ACCOUNT_NOT_AVAILABLE'')
      | Some a \<Rightarrow>
          if la_deletedAt a \<noteq> None \<or> la_status a = ReauthRequired then Inl (HttpError 422 ''LINKED_ACCOUNT_REAUTH_REQUIRED'')
          else (case getConnector reg (providerKey s (cnv_providerId c)) of
              Inl e \<Rightarrow> Inl e
            | Inr connector \<Rightarrow> (case cn_send connector of
                None \<Rightarrow> Inl (HttpError 501 ''SEND_NOT_SUPPORTED'')
              | Some f \<Rightarrow> Inr (c, a, f)))))"

definition afterSend :: "env \<Rightarrow> instant \<Rightarrow> SendMessageParams \<Rightarrow> Conversation \<Rightarrow> string \<Rightarrow> (world, exn, Message) oper" where
  "afterSend E now params c externalId s =
     (case createMessage (outboundRow E now (smp_workspaceId params) (cnv_id c) externalId (smp_bodyText params) s) (drawn 1 s) of
        (Inl e, s1) \<Rightarrow> (Inl e, s1)
      | (Inr m, s1) \<Rightarrow>
          let s2 = setConversation (cnv_id c) (\<lambda>x. x\<lparr>cnv_lastMessageAt := Some (msg_receivedAt m)\<rparr>) s1;
              s3 = emitToWorkspace (smp_workspaceId params) ''message.sent'' (msg_id m) s2;
              s4 = auditLog E \<lparr>ae_workspaceId = Some (smp_workspaceId params), ae_organizationId = None,
                     ae_actorUserId = smp_actorUserId params, ae_actorType = smp_actorType params,
                     ae_action = ''message.sent'', ae_resourceType = Some ''message'',
                     ae_resourceId = Some (msg_id m), ae_ipAddress = None\<rparr> s3
          in (Inr m, cancelNoReplyRules (smp_workspaceId params) (cnv_id c) s4))"

definition sendOutbound :: "env \<Rightarrow> 'p registry \<Rightarrow> instant \<Rightarrow> SendMessageParams \<Rightarrow> ('p platform, exn, Message) oper" where
  "sendOutbound E reg now params st = (case sendTarget reg params (fst st) of
      Inl e \<Rightarrow> (Inl e, st)
    | Inr (c, a, f) \<Rightarrow> (case getSecret E (la_credentialsRef a) \<lparr>cac_workspaceId = smp_workspaceId params,
            cac_actorType = smp_actorType params, cac_actorUserId = smp_actorUserId params, cac_audit = True\<rparr> (fst st) of
        (Inl e, s1) \<Rightarrow> (Inl e, (s1, snd st))
      | (Inr token, s1) \<Rightarrow> (case f \<lparr>om_conversationExternalId = cnv_externalId c, om_bodyText = smp_bodyText params\<rparr>
              (JStr token) (snd st) of
          (Inl e, p1) \<Rightarrow> (Inl (HttpError 502 ''SEND_FAILED''), (s1, p1))
        | (Inr r, p1) \<Rightarrow> (case afterSend E now params c (snd_externalId r) s1 of (res, s2) \<Rightarrow> (res, (s2, p1))))))"

section \<open>Scheduled messages\<close>

definition SCHEDULED_MESSAGES_QUEUE_NAME :: string where
  "SCHEDULED_MESSAGES_QUEUE_NAME = ''scheduled-messages''"

record ScheduleMessageParams =
  scp_workspaceId :: uuid
  scp_conversationId :: uuid
  scp_createdByUserId :: uuid
  scp_bodyText :: string
  scp_sendAt :: instant

definition scheduleMessage :: "env \<Rightarrow> instant \<Rightarrow> ScheduleMessageParams \<Rightarrow> world \<Rightarrow> ScheduledMessage \<times> world" where
  "scheduleMessage E now params s =
     (let i = draw E s;
          m = \<lparr>sm_id = i, sm_workspaceId = scp_workspaceId params, sm_conversationId = scp_conversationId params,
               sm_createdByUserId = scp_createdByUserId params, sm_bodyText = scp_bodyText params,
               sm_sendAt = scp_sendAt params, sm_status = SchedPending, sm_sentMessageId = None, sm_lastError = None\<rparr>
      in (m, queueAdd SCHEDULED_MESSAGES_QUEUE_NAME (uuidText i) (max now (scp_sendAt params)) (scp_workspaceId params)
               (FireScheduledMessage i) ((drawn 1 s)\<lparr>scheduledMessages := scheduledMessages s @ [m]\<rparr>)))"

definition setScheduled :: "uuid \<Rightarrow> (ScheduledMessage \<Rightarrow> ScheduledMessage) \<Rightarrow> world \<Rightarrow> world" where
  "setScheduled i f s = s\<lparr>scheduledMessages := updateMany (\<lambda>m. sm_id m = i) f (scheduledMessages s)\<rparr>"

definition cancelScheduled :: "uuid \<Rightarrow> uuid \<Rightarrow> world \<Rightarrow> ScheduledMessage option \<times> world" where
  "cancelScheduled wsId i s = (case findFirst (\<lambda>m. sm_id m = i \<and> sm_workspaceId m = wsId) (scheduledMessages s) of
      None \<Rightarrow> (None, s)
    | Some m \<Rightarrow> if sm_status m \<noteq> SchedPending then (None, s)
        else (Some (m\<lparr>sm_status := SchedCancelled\<rparr>),
              setScheduled i (\<lambda>x. x\<lparr>sm_status := SchedCancelled\<rparr>) (queueRemove SCHEDULED_MESSAGES_QUEUE_NAME (uuidText i) s)))"

definition listScheduled :: "uuid \<Rightarrow> world \<Rightarrow> ScheduledMessage list" where
  "listScheduled wsId s = sort_key (\<lambda>m. - sm_sendAt m) (filter (\<lambda>m. sm_workspaceId m = wsId) (scheduledMessages s))"

fun exnMessage :: "exn \<Rightarrow> string" where
  "exnMessage (HttpError n c) = c"
| "exnMessage (PlainError m) = m"

text \<open>What \<open>fire\<close> does with the pending row it read: a failed send is recorded and
  thrown on to the queue.\<close>

definition deliverScheduled :: "env \<Rightarrow> 'p registry \<Rightarrow> instant \<Rightarrow> ScheduledMessage \<Rightarrow> ('p platform, exn, unit) oper" where
  "deliverScheduled E reg now m st =
     (case sendOutbound E reg now \<lparr>smp_workspaceId = sm_workspaceId m, smp_conversationId = sm_conversationId m,
         smp_bodyText = sm_bodyText m, smp_actorUserId = Some (sm_createdByUserId m), smp_actorType = ''user''\<rparr> st of
        (Inr msg, st1) \<Rightarrow> (Inr (), updW (setScheduled (sm_id m) (\<lambda>x. x\<lparr>sm_status := SchedSent,
            sm_sentMessageId := Some (msg_id msg)\<rparr>)) st1)
      | (Inl e, st1) \<Rightarrow> (Inl e, updW (setScheduled (sm_id m) (\<lambda>x. x\<lparr>sm_status := SchedFailed,
            sm_lastError := Some (exnMessage e)\<rparr>)) st1))"

definition fireScheduled :: "env \<Rightarrow> 'p registry \<Rightarrow> instant \<Rightarrow> uuid \<Rightarrow> ('p platform, exn, unit) oper" where
  "fireScheduled E reg now i st = (case findFirst (\<lambda>m. sm_id m = i) (scheduledMessages (fst st)) of
      None \<Rightarrow> (Inr (), st)
    | Some m \<Rightarrow> if sm_status m \<noteq> SchedPending then (Inr (), st) else deliverScheduled E reg now m st)"

section \<open>The endpoints\<close>

datatype send_response = Sent Message | Accepted ScheduledMessage

text \<open>The requested time is the parsed \<open>sendAt\<close>: absent, unreadable, or an instant.\<close>

datatype send_at = NoSendAt | BadSendAt | SendAt instant

definition replyEndpoint ::
  "env \<Rightarrow> 'p registry \<Rightarrow> instant \<Rightarrow> uuid \<Rightarrow> string option \<Rightarrow> send_at \<Rightarrow> jwt_claims \<Rightarrow> ('p platform, exn, send_response) oper" where
  "replyEndpoint E reg now i body sendAt claims st =
     (if \<not> nonEmpty body \<or> trim (the body) = [] then (Inl (HttpError 400 ''BODY_REQUIRED''), st)
      else if sendAt = BadSendAt then (Inl (HttpError 400 ''INVALID_SEND_AT''), st)
      else if (case sendAt of SendAt t \<Rightarrow> now < t | _ \<Rightarrow> False) then
        (case liveConversation (fst st) (jwt_workspaceId claims) i of
           None \<Rightarrow> (Inl (HttpError 404 ''CONVERSATION_NOT_FOUND''), st)
         | Some c \<Rightarrow> (case scheduleMessage E now \<lparr>scp_workspaceId = jwt_workspaceId claims, scp_conversationId = cnv_id c,
               scp_createdByUserId = jwt_sub claims, scp_bodyText = the body,
               scp_sendAt = (case sendAt of SendAt t \<Rightarrow> t | _ \<Rightarrow> now)\<rparr> (fst st) of
             (m, s1) \<Rightarrow> (Inr (Accepted m), (s1, snd st))))
      else (case sendOutbound E reg now \<lparr>smp_workspaceId = jwt_workspaceId claims, smp_conversationId = i,
              smp_bodyText = the body, smp_actorUserId = Some (jwt_sub claims), smp_actorType = ''user''\<rparr> st of
          (Inl e, st1) \<Rightarrow> (Inl e, st1) | (Inr m, st1) \<Rightarrow> (Inr (Sent m), st1)))"

definition cancelScheduledRoute :: "uuid \<Rightarrow> jwt_claims \<Rightarrow> (world, exn, ScheduledMessage) oper" where
  "cancelScheduledRoute i claims s = (case cancelScheduled (jwt_workspaceId claims) i s of
      (None, s1) \<Rightarrow> (Inl (HttpError 404 ''SCHEDULED_MESSAGE_NOT_FOUND''), s1)
    | (Some m, s1) \<Rightarrow> (Inr m, s1))"

end
