(* ===== verification/Webhooks_Push.thy ===== *)
theory Webhooks_Push
  imports Outbound "HOL-Library.Word"
begin

text \<open>
  The two side channels of an automation: webhooks behind the private-address guard
  (\<open>automation/ssrf-guard.ts\<close>) and Web Push (\<open>push/push.service.ts\<close>,
  \<open>push.controller.ts\<close>). Name resolution, the HTTP request and the push service are
  operations on the provider state; the URL parser of the run time is a parameter.
\<close>

section \<open>The private-address guard\<close>

definition numAtLeast :: "int \<Rightarrow> jsnum \<Rightarrow> bool" where
  "numAtLeast n v = numLeq (Fin (of_int n)) v"

definition numAtMost :: "int \<Rightarrow> jsnum \<Rightarrow> bool" where
  "numAtMost n v = numLeq v (Fin (of_int n))"

definition isNum :: "int \<Rightarrow> jsnum option \<Rightarrow> bool" where
  "isNum n v \<longleftrightarrow> v = Some (Fin (of_int n))"

definition isPrivateIPv4 :: "string \<Rightarrow> bool" where
  "isPrivateIPv4 address =
     (let parts = map toNumber (splitOn (CHR ''.'') address);
          a = (case parts of x # _ \<Rightarrow> Some x | [] \<Rightarrow> None);
          b = (case parts of _ # y # _ \<Rightarrow> Some y | _ \<Rightarrow> None)
      in isNum 10 a \<or> isNum 127 a \<or> (isNum 169 a \<and> isNum 254 b)
         \<or> (isNum 172 a \<and> (case b of None \<Rightarrow> False | Some v \<Rightarrow> numAtLeast 16 v \<and> numAtMost 31 v))
         \<or> (isNum 192 a \<and> isNum 168 b) \<or> isNum 0 a)"

definition isPrivateIPv6 :: "string \<Rightarrow> bool" where
  "isPrivateIPv6 address = (let normalized = toLowerCase address in
     normalized = ''::1'' \<or> startsWith normalized ''fc'' \<or> startsWith normalized ''fd'' \<or> startsWith normalized ''fe80'')"

text \<open>\<open>isIPv4\<close> of \<open>node:net\<close>: four decimal octets without leading zeros.\<close>

definition isOctet :: "string \<Rightarrow> bool" where
  "isOctet s \<longleftrightarrow> s \<noteq> [] \<and> length s \<le> 3 \<and> digitsOnly s \<and> digitsVal 0 s \<le> 255 \<and> (hd s = CHR ''0'' \<longrightarrow> length s = 1)"

definition isIPv4 :: "string \<Rightarrow> bool" where
  "isIPv4 s \<longleftrightarrow> (let parts = splitOn (CHR ''.'') s in length parts = 4 \<and> list_all isOctet parts)"

definition assertPublicWebhookTarget ::
  "(string \<Rightarrow> (string \<times> string) option) \<Rightarrow> (string \<Rightarrow> ('p, string, string \<times> nat) oper)
    \<Rightarrow> string \<Rightarrow> ('p, string, unit) oper" where
  "assertPublicWebhookTarget parseUrl lookup rawUrl = (case parseUrl rawUrl of
      None \<Rightarrow> throw ''Invalid webhook URL.''
    | Some (protocol, hostname) \<Rightarrow>
        if protocol \<noteq> ''http:'' \<and> protocol \<noteq> ''https:'' then throw ''Webhook URL must be http or https.''
        else if hostname = ''localhost'' then throw ''Webhook URL resolves to a private/internal address - blocked.''
        else bindO (lookup hostname) (\<lambda>(address, family).
          if (if family = 4 \<or> isIPv4 address then isPrivateIPv4 address else isPrivateIPv6 address)
          then throw ''Webhook URL resolves to a private/internal address - blocked.'' else ok ()))"

section \<open>Push\<close>

record PushSubscriptionInput =
  psi_endpoint :: string
  psi_p256dh :: string
  psi_auth :: string

definition subscribePush :: "env \<Rightarrow> uuid \<Rightarrow> uuid \<Rightarrow> PushSubscriptionInput \<Rightarrow> world \<Rightarrow> world" where
  "subscribePush E wsId userId sub s =
     (let same = (\<lambda>x. psub_endpoint x = psi_endpoint sub) in
      if list_ex same (pushSubscriptions s)
      then (drawn 1 s)\<lparr>pushSubscriptions := updateMany same (\<lambda>x. x\<lparr>psub_workspaceId := wsId, psub_userId := userId,
              psub_p256dh := psi_p256dh sub, psub_auth := psi_auth sub\<rparr>) (pushSubscriptions s)\<rparr>
      else (drawn 1 s)\<lparr>pushSubscriptions := pushSubscriptions s @ [\<lparr>psub_id = draw E s, psub_workspaceId = wsId,
              psub_userId = userId, psub_endpoint = psi_endpoint sub, psub_p256dh = psi_p256dh sub,
              psub_auth = psi_auth sub\<rparr>]\<rparr>)"

definition unsubscribePush :: "uuid \<Rightarrow> uuid \<Rightarrow> string \<Rightarrow> world \<Rightarrow> world" where
  "unsubscribePush wsId userId endpoint s = s\<lparr>pushSubscriptions := deleteMany (\<lambda>x. psub_endpoint x = endpoint \<and>
     psub_workspaceId x = wsId \<and> psub_userId x = userId) (pushSubscriptions s)\<rparr>"

text \<open>A delivery that fails with 404 or 410 removes the subscription; another failure
  leaves it; none reaches the caller. The deliveries are written one after another:
  each concerns its own subscription only.\<close>

definition pushOne ::
  "(PushSubscription \<Rightarrow> string \<Rightarrow> string \<Rightarrow> ('p, int option, unit) oper) \<Rightarrow> string \<Rightarrow> string
    \<Rightarrow> PushSubscription \<Rightarrow> 'p platform \<Rightarrow> 'p platform" where
  "pushOne push title body sub st = (case push sub title body (snd st) of
      (Inr _, p') \<Rightarrow> (fst st, p')
    | (Inl statusCode, p') \<Rightarrow>
        (if statusCode = Some 404 \<or> statusCode = Some 410
         then (fst st)\<lparr>pushSubscriptions := deleteMany (\<lambda>x. psub_id x = psub_id sub) (pushSubscriptions (fst st))\<rparr>
         else fst st, p'))"

definition sendToWorkspace ::
  "bool \<Rightarrow> (PushSubscription \<Rightarrow> string \<Rightarrow> string \<Rightarrow> ('p, int option, unit) oper) \<Rightarrow> uuid \<Rightarrow> string \<Rightarrow> string
    \<Rightarrow> 'p platform \<Rightarrow> 'p platform" where
  "sendToWorkspace configured push wsId title body st =
     (if \<not> configured then st
      else fold (pushOne push title body) (filter (\<lambda>x. psub_workspaceId x = wsId) (pushSubscriptions (fst st))) st)"

section \<open>The endpoints\<close>

definition subscribeRoute :: "env \<Rightarrow> string option \<Rightarrow> string option \<Rightarrow> string option \<Rightarrow> jwt_claims \<Rightarrow> (world, exn, unit) oper" where
  "subscribeRoute E endpoint p256dh auth claims s =
     (if \<not> nonEmpty endpoint \<or> \<not> nonEmpty p256dh \<or> \<not> nonEmpty auth then (Inl (HttpError 400 ''INVALID_SUBSCRIPTION''), s)
      else (Inr (), subscribePush E (jwt_workspaceId claims) (jwt_sub claims)
             \<lparr>psi_endpoint = the endpoint, psi_p256dh = the p256dh, psi_auth = the auth\<rparr> s))"

definition unsubscribeRoute :: "string option \<Rightarrow> jwt_claims \<Rightarrow> (world, exn, unit) oper" where
  "unsubscribeRoute endpoint claims s =
     (if \<not> nonEmpty endpoint then (Inl (HttpError 400 ''ENDPOINT_REQUIRED''), s)
      else (Inr (), unsubscribePush (jwt_workspaceId claims) (jwt_sub claims) (the endpoint) s))"

section \<open>What the guard blocks\<close>

text \<open>An IPv4 address as its 32-bit word, its text, and the blocks of private addresses
  as network and prefix length.\<close>

definition ipv4Word :: "8 word \<Rightarrow> 8 word \<Rightarrow> 8 word \<Rightarrow> 8 word \<Rightarrow> 32 word" where
  "ipv4Word a b c d = word_of_nat (((unat a * 256 + unat b) * 256 + unat c) * 256 + unat d)"

definition dottedNats :: "nat \<Rightarrow> nat \<Rightarrow> nat \<Rightarrow> nat \<Rightarrow> string" where
  "dottedNats k l m n = joinWith ''.'' (map natDigits [k, l, m, n])"

definition dotted :: "8 word \<Rightarrow> 8 word \<Rightarrow> 8 word \<Rightarrow> 8 word \<Rightarrow> string" where
  "dotted a b c d = dottedNats (unat a) (unat b) (unat c) (unat d)"

definition PRIVATE_BLOCKS :: "(32 word \<times> nat) list" where
  "PRIVATE_BLOCKS = [(0x00000000, 8), (0x0A000000, 8), (0x7F000000, 8), (0xA9FE0000, 16), (0xAC100000, 12), (0xC0A80000, 16)]"

definition inBlock :: "32 word \<Rightarrow> 32 word \<times> nat \<Rightarrow> bool" where
  "inBlock address block = (drop_bit (32 - snd block) address = drop_bit (32 - snd block) (fst block))"

lemma unat_octet: "unat (a :: 8 word) < 256"
  using unsigned_less [of a] by simp

lemma unat_word32: "n < 2 ^ 32 \<Longrightarrow> unat (word_of_nat n :: 32 word) = n"
  by (simp add: unsigned_of_nat take_bit_eq_mod)

lemma unat_ipv4Word: "unat (ipv4Word a b c d) = ((unat a * 256 + unat b) * 256 + unat c) * 256 + unat d"
  unfolding ipv4Word_def
  using unat_octet [of a] unat_octet [of b] unat_octet [of c] unat_octet [of d]
  by (intro unat_word32) simp

lemma inBlock_div: "inBlock w (net, len) \<longleftrightarrow> unat w div 2 ^ (32 - len) = unat net div 2 ^ (32 - len)"
  by (simp add: inBlock_def word_unat_eq_iff unat_drop_bit_eq flip: drop_bit_eq_div)

lemma dot_free: "CHR ''.'' \<notin> set (natDigits n)"
  using natDigits_digits [of n] by (intro digits_no_char) auto

lemma splitOn_dotted: "splitOn (CHR ''.'') (dottedNats k l m n) = map natDigits [k, l, m, n]"
  by (simp add: dottedNats_def splitOn_append splitOn_single dot_free)

lemma isNum_octet: "isNum n (Some (Fin (of_nat k))) \<longleftrightarrow> n = int k"
  by (simp add: isNum_def) (metis of_int_eq_iff of_int_of_nat_eq)

lemma num_bounds:
  "numAtLeast n (Fin (of_nat k)) \<longleftrightarrow> n \<le> int k" "numAtMost n (Fin (of_nat k)) \<longleftrightarrow> int k \<le> n"
proof -
  have "(of_int n :: rat) < of_nat k \<longleftrightarrow> n < int k" "(of_nat k :: rat) < of_int n \<longleftrightarrow> int k < n"
    "(of_int n :: rat) = of_nat k \<longleftrightarrow> n = int k"
    by (metis of_int_less_iff of_int_of_nat_eq, metis of_int_less_iff of_int_of_nat_eq, metis of_int_eq_iff of_int_of_nat_eq)
  then show "numAtLeast n (Fin (of_nat k)) \<longleftrightarrow> n \<le> int k" "numAtMost n (Fin (of_nat k)) \<longleftrightarrow> int k \<le> n"
    unfolding numAtLeast_def numAtMost_def numLeq_def by auto
qed

lemma isPrivateIPv4_dotted:
  "isPrivateIPv4 (dottedNats k l m n) \<longleftrightarrow> k \<in> {0, 10, 127} \<or> (k = 169 \<and> l = 254)
     \<or> (k = 172 \<and> 16 \<le> l \<and> l \<le> 31) \<or> (k = 192 \<and> l = 168)"
proof -
  have "isPrivateIPv4 (dottedNats k l m n) \<longleftrightarrow> 10 = int k \<or> 127 = int k \<or> (169 = int k \<and> 254 = int l)
     \<or> (172 = int k \<and> 16 \<le> int l \<and> int l \<le> 31) \<or> (192 = int k \<and> 168 = int l) \<or> 0 = int k"
    unfolding isPrivateIPv4_def splitOn_dotted
    by (simp only: Let_def list.map list.case toNumber_natDigits option.case isNum_octet num_bounds)
  then show ?thesis by fastforce
qed

lemma digits_div: "r < m \<Longrightarrow> (q * m + r) div m = (q :: nat)"
  by simp

lemma digits_eq:
  fixes q r :: nat
  assumes "r < m" "r' < m"
  shows "q * m + r = q' * m + r' \<longleftrightarrow> q = q' \<and> r = r'"
  using digits_div [OF assms(1), of q] digits_div [OF assms(2), of q'] by auto

lemma sixteen_block: "x div 16 = 1 \<longleftrightarrow> 16 \<le> x \<and> x \<le> 31" for x :: nat
proof -
  have "x div 16 = 1 \<longleftrightarrow> 1 \<le> x div 16 \<and> x div 16 < 2" by linarith
  moreover have "x < 32 \<longleftrightarrow> x \<le> 31" by linarith
  ultimately show ?thesis by (simp add: less_eq_div_iff_mult_less_eq div_less_iff_less_mult)
qed

lemma top_bytes:
  "unat (ipv4Word a b c d) div 16777216 = unat a" "unat (ipv4Word a b c d) div 65536 = unat a * 256 + unat b"
  "unat (ipv4Word a b c d) div 1048576 = unat a * 16 + unat b div 16"
proof -
  note o = unat_octet [of a] unat_octet [of b] unat_octet [of c] unat_octet [of d]
  have "unat b * 65536 = (unat b div 16) * 1048576 + unat b mod 16 * 65536"
    using div_mult_mod_eq [of "unat b" 16] by linarith
  then have "unat (ipv4Word a b c d) = unat a * 16777216 + (unat b * 65536 + unat c * 256 + unat d)"
    "unat (ipv4Word a b c d) = (unat a * 256 + unat b) * 65536 + (unat c * 256 + unat d)"
    "unat (ipv4Word a b c d) = (unat a * 16 + unat b div 16) * 1048576 + (unat b mod 16 * 65536 + unat c * 256 + unat d)"
    unfolding unat_ipv4Word by (simp_all add: algebra_simps)
  moreover have "unat b mod 16 < 16" by simp
  ultimately show "unat (ipv4Word a b c d) div 16777216 = unat a" "unat (ipv4Word a b c d) div 65536 = unat a * 256 + unat b"
    "unat (ipv4Word a b c d) div 1048576 = unat a * 16 + unat b div 16"
    using o digits_div [of "unat b * 65536 + unat c * 256 + unat d" 16777216]
      digits_div [of "unat c * 256 + unat d" 65536]
      digits_div [of "unat b mod 16 * 65536 + unat c * 256 + unat d" 1048576] by simp_all
qed

lemma private_ipv4_is_cidr_iff:
  "isPrivateIPv4 (dotted a b c d) \<longleftrightarrow> list_ex (inBlock (ipv4Word a b c d)) PRIVATE_BLOCKS"
proof -
  have "list_ex (inBlock (ipv4Word a b c d)) PRIVATE_BLOCKS \<longleftrightarrow> unat a = 0 \<or> unat a = 10 \<or> unat a = 127
      \<or> unat a * 256 + unat b = 43518 \<or> unat a * 16 + unat b div 16 = 2753 \<or> unat a * 256 + unat b = 49320"
    by (simp add: PRIVATE_BLOCKS_def inBlock_div top_bytes)
  moreover have "unat a * 256 + unat b = 43518 \<longleftrightarrow> unat a = 169 \<and> unat b = 254"
    "unat a * 256 + unat b = 49320 \<longleftrightarrow> unat a = 192 \<and> unat b = 168"
    using digits_eq [OF unat_octet [of b], of 254 "unat a" 169] digits_eq [OF unat_octet [of b], of 168 "unat a" 192] by simp_all
  moreover have "unat b div 16 < 16" using unat_octet [of b] by simp
  then have "unat a * 16 + unat b div 16 = 2753 \<longleftrightarrow> unat a = 172 \<and> unat b div 16 = 1"
    using digits_eq [of "unat b div 16" 16 1 "unat a" 172] by simp
  moreover have "unat b div 16 = 1 \<longleftrightarrow> 16 \<le> unat b \<and> unat b \<le> 31"
    by (rule sixteen_block)
  ultimately show ?thesis unfolding dotted_def isPrivateIPv4_dotted by auto
qed

text \<open>C32: the guard's test on the octets of an IPv4 address is membership in the
  private blocks: comparing the address as a 32-bit word with each network on its
  prefix, it recognises exactly 0/8, 10/8, 127/8, 169.254/16, 172.16/12 and 192.168/16.\<close>

theorem private_ipv4_is_cidr:
  "isPrivateIPv4 (dotted a b c d) \<longleftrightarrow> list_ex (inBlock (ipv4Word a b c d)) PRIVATE_BLOCKS"
  by (rule private_ipv4_is_cidr_iff)

lemma mapped_not_IPv4: "\<not> isIPv4 (''::ffff:'' @ dotted a b c d)"
proof -
  have "splitOn (CHR ''.'') (''::ffff:'' @ dotted a b c d)
      = (''::ffff:'' @ natDigits (unat a)) # map natDigits [unat b, unat c, unat d]"
    using dot_free by (simp add: dotted_def dottedNats_def splitOn_append splitOn_single)
  then show ?thesis by (simp add: isIPv4_def isOctet_def digitsOnly_def)
qed

text \<open>The guard stops a webhook whose host resolves to a private IPv4 address
  before any request is made, but lets the same address through when the resolver
  answers it in its IPv4-mapped IPv6 form, whatever the address.\<close>

theorem mapped_private_passes:
  assumes "parseUrl url = Some (''https:'', host)" and "host \<noteq> ''localhost''"
    and "list_ex (inBlock (ipv4Word a b c d)) PRIVATE_BLOCKS"
    and "lookup4 host p = (Inr (dotted a b c d, 4), p1)" and "lookup6 host p = (Inr (''::ffff:'' @ dotted a b c d, 6), p2)"
  shows "assertPublicWebhookTarget parseUrl lookup4 url p
      = (Inl ''Webhook URL resolves to a private/internal address - blocked.'', p1) \<and>
    assertPublicWebhookTarget parseUrl lookup6 url p = (Inr (), p2)"
proof -
  have "isPrivateIPv4 (dotted a b c d)" using assms(3) by (simp add: private_ipv4_is_cidr_iff)
  moreover have "\<not> isPrivateIPv6 (''::ffff:'' @ dotted a b c d)"
    by (simp add: isPrivateIPv6_def toLowerCase_def lowerChar_def code_def Let_def)
  ultimately show ?thesis
    using assms(1,2,4,5) mapped_not_IPv4 by (simp add: assertPublicWebhookTarget_def op_simps)
qed

theorem mapped_private_passes_witness:
  "assertPublicWebhookTarget (\<lambda>_. Some (''https:'', ''h'')) (\<lambda>_. ok (''::ffff:'' @ dotted 127 0 0 1, 6)) ''u'' () = (Inr (), ())"
  using mapped_private_passes [of "\<lambda>_. Some (''https:'', ''h'')" "''u''" "''h''" 127 0 0 1
      "\<lambda>_. ok (dotted 127 0 0 1, 4)" "()" "()" "\<lambda>_. ok (''::ffff:'' @ dotted 127 0 0 1, 6)" "()"]
  by (simp add: op_simps PRIVATE_BLOCKS_def inBlock_div top_bytes)

end
