(* ===== verification/Ai_Credits.thy ===== *)
theory Ai_Credits
  imports List_Endpoints
begin

text \<open>
  AI: the heuristic provider (\<open>packages/ai/src/heuristic-provider.ts\<close>: sentiment,
  classification, summaries and reply suggestions), the append-only credit ledger
  (\<open>ai-credits.service.ts\<close>), the enrichment of an inbound message
  (\<open>ai-enrichment.service.ts\<close>) and the endpoints that spend credits
  (\<open>ai.controller.ts\<close>). The provider methods built on general regular expressions
  (rewriting, entity and commitment extraction, rule suggestions) are in Heuristics.
\<close>

section \<open>The heuristic provider\<close>

definition CLASSIFICATION_KEYWORDS :: "(string \<times> string list) list" where
  "CLASSIFICATION_KEYWORDS = [
     (''invoice'', [''invoice'', ''payment'', ''bill'', ''receipt'', ''due amount'']),
     (''support'', [''issue'', ''problem'', ''not working'', ''broken'', ''help'', ''error'', ''bug'']),
     (''sales'', [''pricing'', ''quote'', ''demo'', ''proposal'', ''purchase'', ''discount'']),
     (''scheduling'', [''meeting'', ''schedule'', ''call at'', ''available'', ''calendar'']),
     (''personal'', [''hey'', ''hi '', ''how are you'', ''just checking in''])]"

definition POSITIVE_WORDS :: "string list" where
  "POSITIVE_WORDS = [''thanks'', ''thank you'', ''great'', ''awesome'', ''love'', ''appreciate'', ''perfect'', ''happy'', ''glad'']"

definition NEGATIVE_WORDS :: "string list" where
  "NEGATIVE_WORDS = [''urgent'', ''asap'', ''angry'', ''frustrated'', ''disappointed'', ''terrible'', ''broken'',
     ''issue'', ''problem'', ''not working'', ''unacceptable'']"

definition hits :: "string list \<Rightarrow> string \<Rightarrow> nat" where
  "hits ws text = length (filter (strIncludes text) ws)"

fun bestLabel :: "(string \<times> string list) list \<Rightarrow> string \<Rightarrow> string \<times> nat \<Rightarrow> string \<times> nat" where
  "bestLabel [] text best = best"
| "bestLabel ((label, keywords) # rest) text best =
     bestLabel rest text (if snd best < hits keywords text then (label, hits keywords text) else best)"

record ClassifyResult =
  cr_label :: string
  cr_confidence :: rat

definition classify :: "string \<Rightarrow> ClassifyResult" where
  "classify text = (let (label, score) = bestLabel CLASSIFICATION_KEYWORDS (toLowerCase text) (''general'', 0) in
     \<lparr>cr_label = label, cr_confidence = (if score = 0 then 3 / 10 else min (1 / 2 + of_nat score * (15 / 100)) (95 / 100))\<rparr>)"

record SentimentResult =
  se_sentiment :: string
  se_score :: rat

definition detectSentiment :: "string \<Rightarrow> SentimentResult" where
  "detectSentiment text =
     (let lower = toLowerCase text; raw = int (hits POSITIVE_WORDS lower) - int (hits NEGATIVE_WORDS lower);
          score = max (-1) (min 1 (of_int raw / 3))
      in \<lparr>se_sentiment = (if 15 / 100 < score then ''positive'' else if score < - 15 / 100 then ''negative'' else ''neutral''),
          se_score = score\<rparr>)"

text \<open>The split after a sentence mark: a run of blanks right after a full stop, an
  exclamation mark or a question mark ends a sentence.\<close>

definition isSentenceMark :: "char \<Rightarrow> bool" where
  "isSentenceMark c \<longleftrightarrow> c \<in> {CHR ''.'', CHR ''!'', CHR ''?''}"

function sentencesFrom :: "bool \<Rightarrow> string \<Rightarrow> string \<Rightarrow> string list" where
  "sentencesFrom marked acc [] = [rev acc]"
| "sentencesFrom marked acc (c # cs) =
     (if marked \<and> isSpace c then rev acc # sentencesFrom False [] (dropWhile isSpace cs)
      else sentencesFrom (isSentenceMark c) (c # acc) cs)"
  by pat_completeness auto

termination sentencesFrom
  by (relation "measure (\<lambda>(m, a, s). length s)") (auto simp: le_imp_less_Suc length_dropWhile_le)

definition splitSentences :: "string \<Rightarrow> string list" where
  "splitSentences text = filter (\<lambda>s. s \<noteq> []) (map trim (sentencesFrom False [] text))"

definition summarize :: "string \<Rightarrow> string" where
  "summarize text =
     (let sentences = splitSentences text;
          summary = (if length sentences \<le> 2 then trim text
            else trim (hd sentences @ '' '' @ last sentences))
      in if 240 < length summary then take 237 summary @ ''...'' else summary)"

definition suggestReplies :: "string \<Rightarrow> string list" where
  "suggestReplies input =
     (let text = toLowerCase input;
          replies = (if strIncludes text ''?'' then [''Good question - let me get back to you shortly.''] else [])
            @ (if list_ex (strIncludes text) [''meeting'', ''schedule'', ''call at'', ''available'']
               then [''Sounds good, that time works for me.''] else [])
            @ (if list_ex (strIncludes text) [''thanks'', ''thank you''] then [''You''@ [CHR 0x27] @ ''re welcome!''] else [])
      in take 3 ((if replies = [] then [''Thanks for the message - I'' @ [CHR 0x27] @ ''ll take a look and follow up.''] else replies)
           @ [''Got it, thanks for letting me know.'']))"

section \<open>The credit ledger\<close>

text \<open>The balance is that of the organization's latest entry; entries of one instant
  are read in the order they were written, first first.\<close>

definition getBalance :: "uuid \<Rightarrow> world \<Rightarrow> int" where
  "getBalance orgId s = (case firstBy (\<lambda>r. - acl_createdAt r)
      (filter (\<lambda>r. acl_organizationId r = orgId) (creditLedger s)) of
      Some r \<Rightarrow> acl_balanceAfter r | None \<Rightarrow> 0)"

definition ledgerEntry :: "env \<Rightarrow> instant \<Rightarrow> uuid \<Rightarrow> string \<Rightarrow> int \<Rightarrow> int \<Rightarrow> string option \<Rightarrow> uuid option \<Rightarrow> world \<Rightarrow> world" where
  "ledgerEntry E now orgId entryType amount balanceAfter feature related s =
     (drawn 1 s)\<lparr>creditLedger := creditLedger s @ [\<lparr>acl_id = draw E s, acl_organizationId = orgId,
        acl_entryType = entryType, acl_amount = amount, acl_balanceAfter = balanceAfter, acl_feature = feature,
        acl_relatedMessageId = related, acl_createdAt = now\<rparr>]\<rparr>"

definition grant :: "env \<Rightarrow> instant \<Rightarrow> uuid \<Rightarrow> int \<Rightarrow> string option \<Rightarrow> world \<Rightarrow> int \<times> world" where
  "grant E now orgId amount feature s = (let balanceAfter = getBalance orgId s + amount in
     (balanceAfter, ledgerEntry E now orgId ''grant'' amount balanceAfter feature None s))"

text \<open>\<open>consume\<close> is a read of the balance and a later write, with nothing holding the
  ledger in between.\<close>

definition consumeWrite :: "env \<Rightarrow> instant \<Rightarrow> uuid \<Rightarrow> int \<Rightarrow> string \<Rightarrow> uuid option \<Rightarrow> int \<Rightarrow> (world, exn, int) oper" where
  "consumeWrite E now orgId amount feature related balance s =
     (if balance < amount then (Inl (PlainError ''INSUFFICIENT_AI_CREDITS''), s)
      else (Inr (balance - amount),
            ledgerEntry E now orgId ''consumption'' (- amount) (balance - amount) (Some feature) related s))"

definition consume :: "env \<Rightarrow> instant \<Rightarrow> uuid \<Rightarrow> int \<Rightarrow> string \<Rightarrow> uuid option \<Rightarrow> (world, exn, int) oper" where
  "consume E now orgId amount feature related s = consumeWrite E now orgId amount feature related (getBalance orgId s) s"

record LedgerCursor =
  lec_order :: sort_direction
  lec_createdAt :: instant
  lec_id :: uuid

definition listLedger :: "uuid \<Rightarrow> nat \<Rightarrow> sort_direction \<Rightarrow> (instant \<times> uuid) option \<Rightarrow> world \<Rightarrow> AiCreditLedger list" where
  "listLedger orgId n order cursor s = take n (orderBy (columnBefore acl_createdAt acl_id order)
     (filter (\<lambda>r. acl_organizationId r = orgId \<and> (case cursor of None \<Rightarrow> True
        | Some (t, i) \<Rightarrow> keysetOr acl_createdAt acl_id order t i r)) (creditLedger s)))"

section \<open>Enrichment\<close>

text \<open>Nothing here throws: without credit, or with AI off, there is no AI context.\<close>

definition enrichMessage :: "env \<Rightarrow> instant \<Rightarrow> uuid \<Rightarrow> string \<Rightarrow> world \<Rightarrow> ctx_ai option \<times> world" where
  "enrichMessage E now wsId bodyText s =
     (case findFirst (\<lambda>w. ws_id w = wsId) (workspaces s) of
        None \<Rightarrow> (None, s)
      | Some w \<Rightarrow>
          if \<not> ws_aiEnabled w \<or> getBalance (ws_organizationId w) s < 1 then (None, s)
          else (case consume E now (ws_organizationId w) 1 ''message_enrichment'' None s of
              (Inl e, s') \<Rightarrow> (None, s')
            | (Inr _, s') \<Rightarrow> (Some \<lparr>ca_sentiment = se_sentiment (detectSentiment bodyText),
                ca_classification = cr_label (classify bodyText)\<rparr>, s')))"

section \<open>The endpoints\<close>

definition workspaceOrThrow :: "world \<Rightarrow> uuid \<Rightarrow> exn + Workspace" where
  "workspaceOrThrow s wsId = (case findFirst (\<lambda>w. ws_id w = wsId) (workspaces s) of
      None \<Rightarrow> Inl (PlainError ''P2025'') | Some w \<Rightarrow> Inr w)"

definition updateAiSettings :: "jwt_claims \<Rightarrow> bool option \<Rightarrow> (world, exn, bool) oper" where
  "updateAiSettings claims dto s = (case dto of
      None \<Rightarrow> (Inl (HttpError 400 ''AI_ENABLED_REQUIRED''), s)
    | Some b \<Rightarrow> (case workspaceOrThrow s (jwt_workspaceId claims) of
        Inl e \<Rightarrow> (Inl e, s)
      | Inr w \<Rightarrow> (Inr b, s\<lparr>workspaces := updateMany (\<lambda>x. ws_id x = ws_id w) (\<lambda>x. x\<lparr>ws_aiEnabled := b\<rparr>) (workspaces s)\<rparr>)))"

definition requireCredit :: "env \<Rightarrow> instant \<Rightarrow> uuid \<Rightarrow> string \<Rightarrow> uuid option \<Rightarrow> (world, exn, unit) oper" where
  "requireCredit E now wsId feature related s = (case workspaceOrThrow s wsId of
      Inl e \<Rightarrow> (Inl e, s)
    | Inr w \<Rightarrow>
        if \<not> ws_aiEnabled w then (Inl (HttpError 403 ''AI_DISABLED''), s)
        else (case consume E now (ws_organizationId w) 1 feature related s of
            (Inl e, s') \<Rightarrow> (Inl (HttpError 402 ''INSUFFICIENT_AI_CREDITS''), s')
          | (Inr _, s') \<Rightarrow> (Inr (), s')))"

definition balanceRoute :: "jwt_claims \<Rightarrow> world \<Rightarrow> exn + int" where
  "balanceRoute claims s = (case workspaceOrThrow s (jwt_workspaceId claims) of
      Inl e \<Rightarrow> Inl e | Inr w \<Rightarrow> Inr (getBalance (ws_organizationId w) s))"

definition ledgerRoute ::
  "jwt_claims \<Rightarrow> string option \<Rightarrow> string option \<Rightarrow> world \<Rightarrow> LedgerCursor option
    \<Rightarrow> exn + (AiCreditLedger, LedgerCursor) page" where
  "ledgerRoute claims limitParam orderParam s cursor = (case workspaceOrThrow s (jwt_workspaceId claims) of
      Inl e \<Rightarrow> Inl e
    | Inr w \<Rightarrow>
        let limit = nat (parseLimit limitParam);
            order = (case cursor of Some c \<Rightarrow> lec_order c | None \<Rightarrow> parseOrder orderParam Desc)
        in Inr (buildPage (listLedger (ws_organizationId w) (limit + 1) order
              (map_option (\<lambda>c. (lec_createdAt c, lec_id c)) cursor) s) limit
            (\<lambda>l. \<lparr>lec_order = order, lec_createdAt = acl_createdAt l, lec_id = acl_id l\<rparr>)))"

text \<open>A summary of one live message, or of the first hundred of a conversation.\<close>

definition summaryText :: "uuid \<Rightarrow> uuid option \<Rightarrow> uuid option \<Rightarrow> world \<Rightarrow> exn + string" where
  "summaryText wsId messageId conversationId s = (case messageId of
      Some i \<Rightarrow> (case findFirst (\<lambda>m. msg_deletedAt m = None \<and> msg_id m = i \<and> msg_workspaceId m = wsId) (messages s) of
          None \<Rightarrow> Inl (HttpError 404 ''MESSAGE_NOT_FOUND'') | Some m \<Rightarrow> Inr (msg_bodyText m))
    | None \<Rightarrow>
        let ms = take 100 (sort_key msg_receivedAt (filter (\<lambda>m. msg_deletedAt m = None \<and>
              Some (msg_conversationId m) = conversationId \<and> msg_workspaceId m = wsId) (messages s)))
        in if ms = [] then Inl (HttpError 404 ''CONVERSATION_NOT_FOUND'')
           else Inr (joinWith [CHR 0x0A] (map msg_bodyText ms)))"

definition MODEL_NAME :: string where
  "MODEL_NAME = ''heuristic-v1''"

definition summarizeRoute :: "env \<Rightarrow> instant \<Rightarrow> jwt_claims \<Rightarrow> uuid option \<Rightarrow> uuid option \<Rightarrow> (world, exn, string) oper" where
  "summarizeRoute E now claims messageId conversationId s =
     (if messageId = None \<and> conversationId = None then (Inl (HttpError 400 ''MESSAGE_OR_CONVERSATION_REQUIRED''), s)
      else (case summaryText (jwt_workspaceId claims) messageId conversationId s of
          Inl e \<Rightarrow> (Inl e, s)
        | Inr text \<Rightarrow> bindO (requireCredit E now (jwt_workspaceId claims) ''summarize'' messageId) (\<lambda>_ s1.
            (Inr (summarize text), (drawn 1 s1)\<lparr>aiSummaries := aiSummaries s1 @ [\<lparr>mas_id = draw E s1,
               mas_workspaceId = jwt_workspaceId claims, mas_messageId = messageId, mas_conversationId = conversationId,
               mas_summaryText = summarize text, mas_modelUsed = MODEL_NAME, mas_generatedAt = now\<rparr>]\<rparr>)) s))"

definition suggestedRepliesRoute :: "env \<Rightarrow> instant \<Rightarrow> jwt_claims \<Rightarrow> string option \<Rightarrow> (world, exn, string list) oper" where
  "suggestedRepliesRoute E now claims text s =
     (if \<not> nonEmpty text \<or> trim (the text) = [] then (Inl (HttpError 400 ''TEXT_REQUIRED''), s)
      else bindO (requireCredit E now (jwt_workspaceId claims) ''suggested-replies'' None)
        (\<lambda>_. ok (suggestReplies (the text))) s)"

section \<open>Properties of the ledger\<close>

definition entriesOf :: "uuid \<Rightarrow> world \<Rightarrow> AiCreditLedger list" where
  "entriesOf orgId s = filter (\<lambda>r. acl_organizationId r = orgId) (creditLedger s)"

text \<open>Every entry's balance is the sum of the amounts up to it, and never negative.\<close>

fun runningBalance :: "int \<Rightarrow> AiCreditLedger list \<Rightarrow> bool" where
  "runningBalance b [] = True"
| "runningBalance b (r # rs) = (acl_balanceAfter r = b + acl_amount r \<and> 0 \<le> acl_balanceAfter r
     \<and> runningBalance (acl_balanceAfter r) rs)"

definition totalOf :: "AiCreditLedger list \<Rightarrow> int" where
  "totalOf rs = sum_list (map acl_amount rs)"

definition ledgerInv :: "uuid \<Rightarrow> world \<Rightarrow> bool" where
  "ledgerInv orgId s \<longleftrightarrow> sorted_wrt (\<lambda>a b. acl_createdAt a < acl_createdAt b) (entriesOf orgId s)
     \<and> runningBalance 0 (entriesOf orgId s)"

definition later :: "instant \<Rightarrow> uuid \<Rightarrow> world \<Rightarrow> bool" where
  "later now orgId s \<longleftrightarrow> list_all (\<lambda>r. acl_createdAt r < now) (entriesOf orgId s)"

lemma runningBalance_snoc:
  "runningBalance b (rs @ [r]) \<longleftrightarrow> runningBalance b rs \<and> acl_balanceAfter r = b + totalOf rs + acl_amount r
     \<and> 0 \<le> acl_balanceAfter r"
proof (induction rs arbitrary: b)
  case (Cons a rs)
  have "totalOf (a # rs) = acl_amount a + totalOf rs" by (simp add: totalOf_def)
  then show ?case using Cons.IH [of "acl_balanceAfter a"] by (cases "acl_balanceAfter a = b + acl_amount a") (simp_all add: add.assoc)
qed (simp add: totalOf_def)

lemma runningBalance_last: "runningBalance b rs \<Longrightarrow> rs \<noteq> [] \<Longrightarrow> acl_balanceAfter (last rs) = b + totalOf rs"
  by (induction rs rule: rev_induct) (simp_all add: runningBalance_snoc totalOf_def)

lemma firstBy_latest:
  "sorted_wrt (\<lambda>a b. acl_createdAt a < acl_createdAt b) rs \<Longrightarrow> rs \<noteq> [] \<Longrightarrow>
   firstBy (\<lambda>r. - acl_createdAt r) rs = Some (last rs)"
proof (induction rs)
  case (Cons a rs)
  show ?case
  proof (cases "rs = []")
    case False
    then have "firstBy (\<lambda>r. - acl_createdAt r) rs = Some (last rs)" using Cons by simp
    moreover have "acl_createdAt a < acl_createdAt (last rs)" using Cons.prems False by simp
    ultimately show ?thesis using False by simp
  qed simp
qed simp

lemma getBalance_total: "ledgerInv orgId s \<Longrightarrow> getBalance orgId s = totalOf (entriesOf orgId s)"
  using firstBy_latest [of "entriesOf orgId s"] runningBalance_last [of 0 "entriesOf orgId s"]
  by (cases "entriesOf orgId s = []") (auto simp: getBalance_def ledgerInv_def entriesOf_def [symmetric] totalOf_def)

lemma entriesOf_ledgerEntry:
  "entriesOf g (ledgerEntry E now orgId ty amount b f rel s) = entriesOf g s @ (if g = orgId
     then [\<lparr>acl_id = draw E s, acl_organizationId = orgId, acl_entryType = ty, acl_amount = amount,
       acl_balanceAfter = b, acl_feature = f, acl_relatedMessageId = rel, acl_createdAt = now\<rparr>] else [])"
  by (simp add: entriesOf_def ledgerEntry_def drawn_def)

lemma ledgerInv_entry:
  assumes "ledgerInv orgId s" "later now orgId s" "0 \<le> totalOf (entriesOf orgId s) + amount"
  shows "ledgerInv orgId (ledgerEntry E now orgId ty amount (totalOf (entriesOf orgId s) + amount) f rel s)"
  using assms by (auto simp: ledgerInv_def entriesOf_ledgerEntry runningBalance_snoc sorted_wrt_append later_def list_all_iff)


definition sampleCredit :: world where
  "sampleCredit = emptyWorld\<lparr>creditLedger := [\<lparr>acl_id = 1, acl_organizationId = 9, acl_entryType = ''grant'',
     acl_amount = 1, acl_balanceAfter = 1, acl_feature = None, acl_relatedMessageId = None, acl_createdAt = 10\<rparr>]\<rparr>"

lemma sampleCredit_entries:
  "entriesOf g sampleCredit = (if g = 9 then creditLedger sampleCredit else [])"
  by (simp add: entriesOf_def sampleCredit_def emptyWorld_def)

lemma sampleCredit_inv: "ledgerInv 9 sampleCredit" "later 20 9 sampleCredit"
  by (simp_all add: ledgerInv_def later_def sampleCredit_entries, simp_all add: sampleCredit_def emptyWorld_def)

lemma sampleCredit_total: "totalOf (entriesOf 9 sampleCredit) = 1"
  by (simp add: sampleCredit_entries totalOf_def) (simp add: sampleCredit_def)


text \<open>Two requests that spend at the same time can both spend the last credits.
  When both read the balance before either writes, both succeed and the ledger shows
  the balance after one of them, while the amounts on it add up to the balance less
  both: less than zero when the balance covered only one.\<close>

theorem credits_double_spend:
  assumes "ledgerInv orgId s" and "later t1 orgId s" and "t1 < t2" and "amount \<le> getBalance orgId s"
    and "consumeWrite E t1 orgId amount f1 m1 (getBalance orgId s) s = (r1, s1)"
    and "consumeWrite E t2 orgId amount f2 m2 (getBalance orgId s) s1 = (r2, s2)"
  shows "r1 = Inr (getBalance orgId s - amount) \<and> r2 = Inr (getBalance orgId s - amount) \<and>
    getBalance orgId s2 = getBalance orgId s - amount \<and>
    totalOf (entriesOf orgId s2) = getBalance orgId s - 2 * amount"
proof -
  have w: "r1 = Inr (getBalance orgId s - amount)" "r2 = Inr (getBalance orgId s - amount)"
    "s1 = ledgerEntry E t1 orgId ''consumption'' (- amount) (getBalance orgId s - amount) (Some f1) m1 s"
    "s2 = ledgerEntry E t2 orgId ''consumption'' (- amount) (getBalance orgId s - amount) (Some f2) m2 s1"
    using assms(4-6) by (auto simp: consumeWrite_def)
  have "sorted_wrt (\<lambda>a b. acl_createdAt a < acl_createdAt b) (entriesOf orgId s2)"
    using assms(1-3) unfolding w(3,4) by (auto simp: entriesOf_ledgerEntry ledgerInv_def later_def sorted_wrt_append list_all_iff)
  moreover have "last (entriesOf orgId s2) = \<lparr>acl_id = draw E s1, acl_organizationId = orgId, acl_entryType = ''consumption'',
      acl_amount = - amount, acl_balanceAfter = getBalance orgId s - amount, acl_feature = Some f2,
      acl_relatedMessageId = m2, acl_createdAt = t2\<rparr>" "entriesOf orgId s2 \<noteq> []"
    unfolding w(4) by (simp_all add: entriesOf_ledgerEntry)
  ultimately have "getBalance orgId s2 = getBalance orgId s - amount"
    using firstBy_latest [of "entriesOf orgId s2"] by (simp add: getBalance_def entriesOf_def [symmetric])
  moreover have "totalOf (entriesOf orgId s2) = getBalance orgId s - 2 * amount"
    unfolding w(3,4) getBalance_total [OF assms(1)] by (simp add: entriesOf_ledgerEntry totalOf_def)
  ultimately show ?thesis using w by simp
qed

theorem credits_double_spend_witness:
  "\<exists>s1 s2. consumeWrite sampleEnv 20 9 1 ''rewrite'' None 1 sampleCredit = (Inr 0, s1) \<and>
     consumeWrite sampleEnv 21 9 1 ''rewrite'' None 1 s1 = (Inr 0, s2) \<and> totalOf (entriesOf 9 s2) = -1"
proof -
  have b: "getBalance 9 sampleCredit = 1"
    using getBalance_total [OF sampleCredit_inv(1)] sampleCredit_total by simp
  obtain s1 where s1: "consumeWrite sampleEnv 20 9 1 ''rewrite'' None 1 sampleCredit = (Inr 0, s1)"
    by (simp add: consumeWrite_def)
  obtain s2 where s2: "consumeWrite sampleEnv 21 9 1 ''rewrite'' None 1 s1 = (Inr 0, s2)"
    by (simp add: consumeWrite_def)
  show ?thesis
    using credits_double_spend [OF sampleCredit_inv, of 21 1 sampleEnv "''rewrite''" None "Inr 0" s1 "''rewrite''" None "Inr 0" s2]
      s1 s2 b by auto
qed

end
