(* ===== verification/Rule_Execution.thy ===== *)
theory Rule_Execution
  imports Webhooks_Push Ai_Credits
begin

text \<open>
  Rule matching and execution (\<open>automation/rule-execution.service.ts\<close>): the rules of a
  workspace run against an inbound message or a due no-reply job (\<open>fire\<close> of
  \<open>scheduler.service.ts\<close>), the four action ports over the database, the gateway, the
  push service and the connectors, and the execution log that makes a run idempotent.
\<close>

section \<open>What a run needs from outside\<close>

text \<open>The connector registry, the time zones and regular expressions of the run time,
  the text of a value, the URL parser, name resolution, the HTTP request with its
  timeout, and the push service.\<close>

record 'p services =
  sv_registry :: "'p registry"
  sv_clock :: zone_clock
  sv_regex :: regex_engine
  sv_toText :: text_of
  sv_parseUrl :: "string \<Rightarrow> (string \<times> string) option"
  sv_lookup :: "string \<Rightarrow> ('p, string, string \<times> nat) oper"
  sv_fetch :: "string \<Rightarrow> string \<Rightarrow> ('p, string, int) oper"
  sv_pushConfigured :: bool
  sv_push :: "PushSubscription \<Rightarrow> string \<Rightarrow> string \<Rightarrow> ('p, int option, unit) oper"

section \<open>The notification context\<close>

text \<open>\<open>findFirst\<close> of the live owner who joined first, and the owner's preference row.\<close>

definition ownerMembership :: "uuid \<Rightarrow> world \<Rightarrow> WorkspaceMember option" where
  "ownerMembership wsId s = firstBy mem_joinedAt
     (filter (\<lambda>m. mem_deletedAt m = None \<and> mem_workspaceId m = wsId \<and> mem_role m = Owner) (members s))"

definition loadNotificationContext :: "uuid \<Rightarrow> world \<Rightarrow> string \<times> NotificationPreferenceInput option" where
  "loadNotificationContext wsId s =
     ((case findFirst (\<lambda>w. ws_id w = wsId) (workspaces s) of Some w \<Rightarrow> ws_timezone w | None \<Rightarrow> ''UTC''),
      (case ownerMembership wsId s of
         None \<Rightarrow> None
       | Some owner \<Rightarrow> map_option (\<lambda>p. \<lparr>silentHoursStart = npf_silentHoursStart p, silentHoursEnd = npf_silentHoursEnd p,
             vipOverrideEnabled = npf_vipOverrideEnabled p, keywordAlerts = npf_keywordAlerts p\<rparr>)
           (findFirst (\<lambda>p. npf_workspaceId p = wsId \<and> npf_userId p = mem_userId owner) (notificationPreferences s))))"

section \<open>The action ports\<close>

definition asThrown :: "exn \<Rightarrow> thrown" where
  "asThrown e = ErrorObject (exnMessage e)"

definition portNotify :: "env \<Rightarrow> 'p services \<Rightarrow> instant \<Rightarrow> uuid \<Rightarrow> string \<Rightarrow> string \<Rightarrow> ('p platform, thrown, jsval) oper" where
  "portNotify E sv now wsId title body st =
     (let s = fst st; i = draw E s;
          s1 = (drawn 1 s)\<lparr>notifications := notifications s @ [\<lparr>ntf_id = i, ntf_workspaceId = wsId,
                 ntf_messageId = None, ntf_type = ''reminder'', ntf_title = title, ntf_body = body, ntf_createdAt = now\<rparr>]\<rparr>
      in (Inr (JObj [(''notificationId'', JStr (uuidText i))]),
          sendToWorkspace (sv_pushConfigured sv) (sv_push sv) wsId title body
            (emitToWorkspace wsId ''notification.created'' i s1, snd st)))"

text \<open>\<open>findUniqueOrThrow\<close> is not intercepted by the soft deletion.\<close>

definition anyConversation :: "world \<Rightarrow> uuid \<Rightarrow> Conversation option" where
  "anyConversation s i = findFirst (\<lambda>c. cnv_id c = i) (conversations s)"

definition noConversation :: thrown where
  "noConversation = ErrorObject ''No Conversation found''"

definition portTag :: "uuid \<Rightarrow> uuid \<Rightarrow> string \<Rightarrow> ('p platform, thrown, jsval) oper" where
  "portTag wsId conversationId tag st = (case anyConversation (fst st) conversationId of
      None \<Rightarrow> (Inl noConversation, st)
    | Some c \<Rightarrow>
        let tags = (if tag \<in> set (cnv_tags c) then cnv_tags c else cnv_tags c @ [tag])
        in (Inr (JObj [(''tags'', JArr (map JStr tags))]),
            updW (\<lambda>s. emitToWorkspace wsId ''conversation.tagged'' conversationId
              (setConversation conversationId (\<lambda>x. x\<lparr>cnv_tags := tags\<rparr>) s)) st))"

definition ruleSendTarget :: "'p services \<Rightarrow> uuid \<Rightarrow> world \<Rightarrow> thrown + Conversation \<times> LinkedAccount
    \<times> (OutboundMessage \<Rightarrow> jsval \<Rightarrow> ('p, conn_exn, SendResult) oper)" where
  "ruleSendTarget sv conversationId s = (case anyConversation s conversationId of
      None \<Rightarrow> Inl noConversation
    | Some c \<Rightarrow> (case accountOf s c of
        None \<Rightarrow> Inl (ErrorObject ''This conversation has no connected account to send through.'')
      | Some a \<Rightarrow>
          if la_deletedAt a \<noteq> None \<or> la_status a = ReauthRequired
          then Inl (ErrorObject ''The connected account needs to be reauthorized before sending.'')
          else (case getConnector (sv_registry sv) (providerKey s (cnv_providerId c)) of
              Inl e \<Rightarrow> Inl (asThrown e)
            | Inr connector \<Rightarrow> (case cn_send connector of
                None \<Rightarrow> Inl (ErrorObject ''Sending is not supported for this provider.'')
              | Some f \<Rightarrow> Inr (c, a, f)))))"

definition afterRuleSend :: "env \<Rightarrow> instant \<Rightarrow> uuid \<Rightarrow> uuid \<Rightarrow> string \<Rightarrow> string \<Rightarrow> (world, thrown, jsval) oper" where
  "afterRuleSend E now wsId conversationId body externalId s =
     (case createMessage (outboundRow E now wsId conversationId externalId body s) (drawn 1 s) of
        (Inl e, s1) \<Rightarrow> (Inl (asThrown e), s1)
      | (Inr m, s1) \<Rightarrow> (Inr (JObj [(''messageId'', JStr (uuidText (msg_id m)))]),
          emitToWorkspace wsId ''message.sent'' (msg_id m)
            (setConversation conversationId (\<lambda>x. x\<lparr>cnv_lastMessageAt := Some (msg_receivedAt m)\<rparr>) s1)))"

definition portSend :: "env \<Rightarrow> 'p services \<Rightarrow> instant \<Rightarrow> uuid \<Rightarrow> uuid \<Rightarrow> string \<Rightarrow> ('p platform, thrown, jsval) oper" where
  "portSend E sv now wsId conversationId body st = (case ruleSendTarget sv conversationId (fst st) of
      Inl e \<Rightarrow> (Inl e, st)
    | Inr (c, a, f) \<Rightarrow> (case getSecret E (la_credentialsRef a) \<lparr>cac_workspaceId = wsId, cac_actorType = ''rule'',
            cac_actorUserId = None, cac_audit = True\<rparr> (fst st) of
        (Inl e, s1) \<Rightarrow> (Inl (asThrown e), (s1, snd st))
      | (Inr token, s1) \<Rightarrow> (case f \<lparr>om_conversationExternalId = cnv_externalId c, om_bodyText = body\<rparr> (JStr token) (snd st) of
          (Inl e, p1) \<Rightarrow> (Inl (ErrorObject (connMessage e)), (s1, p1))
        | (Inr r, p1) \<Rightarrow> (case afterRuleSend E now wsId conversationId body (snd_externalId r) s1 of
            (res, s2) \<Rightarrow> (res, (s2, p1))))))"

definition portWebhook :: "'p services \<Rightarrow> string \<Rightarrow> string \<Rightarrow> ('p platform, thrown, jsval) oper" where
  "portWebhook sv url body st =
     (case bindO (assertPublicWebhookTarget (sv_parseUrl sv) (sv_lookup sv) url) (\<lambda>_. sv_fetch sv url body) (snd st) of
        (Inl m, p1) \<Rightarrow> (Inl (ErrorObject m), (fst st, p1))
      | (Inr status, p1) \<Rightarrow> (Inr (JObj [(''status'', JNum (Fin (of_int status)))]), (fst st, p1)))"

definition buildPorts :: "env \<Rightarrow> 'p services \<Rightarrow> instant \<Rightarrow> uuid \<Rightarrow> uuid \<Rightarrow> 'p platform ActionPorts" where
  "buildPorts E sv now wsId conversationId = \<lparr>sendNotification = portNotify E sv now wsId,
     applyTag = portTag wsId conversationId, sendMessage = portSend E sv now wsId conversationId,
     callWebhook = portWebhook sv\<rparr>"

section \<open>Running a rule\<close>

definition logKey :: "RuleExecutionLog \<Rightarrow> uuid \<times> nat \<times> string" where
  "logKey l = (rel_ruleId l, rel_ruleVersion l, rel_triggerEventId l)"

text \<open>The creation of the log row: a violation of the unique key is caught and logged.\<close>

definition recordExecution ::
  "env \<Rightarrow> instant \<Rightarrow> uuid \<Rightarrow> Rule \<Rightarrow> string \<Rightarrow> uuid option \<Rightarrow> chain_status \<Rightarrow> ActionResult list \<Rightarrow> world \<Rightarrow> world" where
  "recordExecution E now wsId r triggerEventId messageId status executed s =
     (let l = \<lparr>rel_id = draw E s, rel_workspaceId = wsId, rel_ruleId = rul_id r, rel_ruleVersion = rul_version r,
            rel_triggerEventId = triggerEventId, rel_messageId = messageId, rel_matchedAt = now,
            rel_actionsExecuted = executed, rel_status = status,
            rel_errorDetail = (if status = Failure then Some ''All actions failed - see actionsExecuted for detail.'' else None)\<rparr>
      in if list_ex (\<lambda>x. logKey x = logKey l) (executionLogs s) then drawn 1 s
         else (drawn 1 s)\<lparr>executionLogs := executionLogs s @ [l]\<rparr>)"

definition runRule ::
  "env \<Rightarrow> 'p services \<Rightarrow> instant \<Rightarrow> Rule \<Rightarrow> string \<Rightarrow> ContextObject \<Rightarrow> uuid option \<Rightarrow> uuid \<Rightarrow> uuid
    \<Rightarrow> 'p platform \<Rightarrow> 'p platform" where
  "runRule E sv now r triggerEventId context messageId conversationId wsId st =
     (if list_ex (\<lambda>l. logKey l = (rul_id r, rul_version r, triggerEventId)) (executionLogs (fst st)) then st
      else (case executeActions (sv_toText sv) (rul_actions r) context (buildPorts E sv now wsId conversationId) st of
          (result, st1) \<Rightarrow>
            let (status, executed) = (case result of None \<Rightarrow> (Failure, []) | Some x \<Rightarrow> x)
            in updW (\<lambda>s. emitToWorkspace wsId ''rule.executed'' (rul_id r)
                 (recordExecution E now wsId r triggerEventId messageId status executed s)) st1))"

section \<open>A received message\<close>

record received =
  rc_triggerEventId :: string
  rc_workspaceId :: uuid
  rc_providerKey :: string
  rc_message :: Message
  rc_conversation :: Conversation
  rc_contact :: Contact

definition ctxConversation :: "Conversation \<Rightarrow> ctx_conversation" where
  "ctxConversation c = \<lparr>cc_id = uuidText (cnv_id c), cc_title = cnv_title c, cc_tags = cnv_tags c,
     cc_lastMessageAt = cnv_lastMessageAt c\<rparr>"

definition receivedContext ::
  "'p services \<Rightarrow> instant \<Rightarrow> received \<Rightarrow> string \<times> NotificationPreferenceInput option \<Rightarrow> ctx_ai option \<Rightarrow> Rule \<Rightarrow> ContextObject" where
  "receivedContext sv now input nctx ai r = buildContext (sv_clock sv) now
     \<lparr>bi_ruleId = uuidText (rul_id r), bi_ruleVersion = rul_version r, bi_triggerEventId = rc_triggerEventId input,
      bi_workspaceId = uuidText (rc_workspaceId input), bi_workspaceTimezone = Some (fst nctx),
      bi_notificationPreference = snd nctx, bi_conversation = ctxConversation (rc_conversation input),
      bi_message = Some \<lparr>cm_id = uuidText (msg_id (rc_message input)), cm_bodyText = msg_bodyText (rc_message input),
        cm_direction = msg_direction (rc_message input), cm_receivedAt = msg_receivedAt (rc_message input)\<rparr>,
      bi_sender = Some \<lparr>cs_id = uuidText (con_id (rc_contact input)), cs_displayName = con_displayName (rc_contact input),
        cs_isVip = con_isVip (rc_contact input)\<rparr>,
      bi_ai = ai\<rparr>"

definition invalidPattern :: exn where
  "invalidPattern = PlainError ''Invalid regular expression''"

text \<open>One rule of the loop: out of scope, not matching, or run. The exception of an
  invalid pattern leaves the loop.\<close>

definition tryRule ::
  "env \<Rightarrow> 'p services \<Rightarrow> instant \<Rightarrow> received \<Rightarrow> string \<times> NotificationPreferenceInput option \<Rightarrow> ctx_ai option \<Rightarrow> Rule
    \<Rightarrow> ('p platform, exn, unit) oper" where
  "tryRule E sv now input nctx ai r st =
     (if \<not> matchesTriggerScope (rul_trigger r) (Some (rc_providerKey input)) then (Inr (), st)
      else let context = receivedContext sv now input nctx ai r in
        (case evaluateConditionTree (sv_regex sv) now context (rul_conditions r) of
           None \<Rightarrow> (Inl invalidPattern, st)
         | Some False \<Rightarrow> (Inr (), st)
         | Some True \<Rightarrow> (Inr (), runRule E sv now r (rc_triggerEventId input) context (Some (msg_id (rc_message input)))
               (cnv_id (rc_conversation input)) (rc_workspaceId input) st)))"

definition messageRules :: "uuid \<Rightarrow> world \<Rightarrow> Rule list" where
  "messageRules wsId s = sort_key (\<lambda>r. - rul_priority r) (filter (\<lambda>r. rul_deletedAt r = None \<and> rul_workspaceId r = wsId
     \<and> rul_triggerType r = ''message.received'' \<and> rul_isEnabled r) (rules s))"

definition runMessageRules :: "env \<Rightarrow> 'p services \<Rightarrow> instant \<Rightarrow> received \<Rightarrow> ('p platform, exn, unit) oper" where
  "runMessageRules E sv now input st =
     (let rs = messageRules (rc_workspaceId input) (fst st) in
      if rs = [] then (Inr (), st)
      else let nctx = loadNotificationContext (rc_workspaceId input) (fst st);
               (ai, s1) = enrichMessage E now (rc_workspaceId input) (msg_bodyText (rc_message input)) (fst st)
           in forEach (tryRule E sv now input nctx ai) rs (s1, snd st))"

section \<open>A due no-reply rule\<close>

definition executeScheduledTrigger ::
  "env \<Rightarrow> 'p services \<Rightarrow> instant \<Rightarrow> uuid \<Rightarrow> uuid \<Rightarrow> uuid \<Rightarrow> string \<Rightarrow> ('p platform, exn, unit) oper" where
  "executeScheduledTrigger E sv now ruleId conversationId wsId triggerEventId st =
     (case findFirst (\<lambda>r. rul_deletedAt r = None \<and> rul_id r = ruleId \<and> rul_workspaceId r = wsId \<and> rul_isEnabled r)
             (rules (fst st)) of
        None \<Rightarrow> (Inr (), st)
      | Some r \<Rightarrow> (case anyConversation (fst st) conversationId of
          None \<Rightarrow> (Inr (), st)
        | Some c \<Rightarrow>
            let nctx = loadNotificationContext wsId (fst st);
                context = buildContext (sv_clock sv) now \<lparr>bi_ruleId = uuidText (rul_id r), bi_ruleVersion = rul_version r,
                  bi_triggerEventId = triggerEventId, bi_workspaceId = uuidText wsId, bi_workspaceTimezone = Some (fst nctx),
                  bi_notificationPreference = snd nctx, bi_conversation = ctxConversation c,
                  bi_message = None, bi_sender = None, bi_ai = None\<rparr>
            in (case evaluateConditionTree (sv_regex sv) now context (rul_conditions r) of
                  None \<Rightarrow> (Inl invalidPattern, st)
                | Some False \<Rightarrow> (Inr (), st)
                | Some True \<Rightarrow> (Inr (), runRule E sv now r triggerEventId context None conversationId wsId st))))"

text \<open>The scheduler's worker: a job that is gone or no longer pending does nothing, and
  the row is completed before the rule runs.\<close>

definition completeJob :: "instant \<Rightarrow> uuid \<Rightarrow> world \<Rightarrow> world" where
  "completeJob now i s = s\<lparr>scheduledJobs := updateMany (\<lambda>j. sj_id j = i)
     (\<lambda>j. j\<lparr>sj_status := JobCompleted, sj_completedAt := Some now\<rparr>) (scheduledJobs s)\<rparr>"

definition fireNoReply ::
  "env \<Rightarrow> 'p services \<Rightarrow> instant \<Rightarrow> uuid \<Rightarrow> uuid \<Rightarrow> uuid \<Rightarrow> uuid \<Rightarrow> ('p platform, exn, unit) oper" where
  "fireNoReply E sv now scheduledJobId ruleId conversationId wsId st =
     (case findFirst (\<lambda>j. sj_id j = scheduledJobId) (scheduledJobs (fst st)) of
        None \<Rightarrow> (Inr (), st)
      | Some j \<Rightarrow> if sj_status j \<noteq> JobPending then (Inr (), st)
          else executeScheduledTrigger E sv now ruleId conversationId wsId (uuidText (sj_id j))
                 (updW (completeJob now (sj_id j)) st))"

section \<open>The dry run\<close>

record dry_sample =
  dry_bodyText :: string
  dry_senderDisplayName :: string
  dry_senderIsVip :: bool

definition wouldDo :: "string \<Rightarrow> string \<Rightarrow> string" where
  "wouldDo what arg = ''dry-run (would '' @ what @ '': '' @ [CHR 0x22] @ arg @ [CHR 0x22] @ '')''"

definition noopPorts :: "unit ActionPorts" where
  "noopPorts = \<lparr>sendNotification = (\<lambda>title body. ok (JObj [(''notificationId'', JStr (wouldDo ''notify'' title))])),
     applyTag = (\<lambda>tag. ok (JObj [(''tags'', JArr [JStr (wouldDo ''tag'' tag)])])),
     sendMessage = (\<lambda>body. ok (JObj [(''messageId'', JStr (wouldDo ''send'' body))])),
     callWebhook = (\<lambda>url body. ok (JObj [(''status'', JNum (Fin 0))]))\<rparr>"

record dry_result =
  dr_matched :: bool
  dr_status :: "chain_status option"
  dr_actionsExecuted :: "ActionResult list"

definition dryRunContext :: "zone_clock \<Rightarrow> instant \<Rightarrow> dry_sample \<Rightarrow> ContextObject" where
  "dryRunContext clock now sample = buildContext clock now \<lparr>bi_ruleId = ''dry-run'', bi_ruleVersion = 0,
     bi_triggerEventId = ''dry-run'', bi_workspaceId = ''dry-run'', bi_workspaceTimezone = None,
     bi_notificationPreference = None,
     bi_conversation = \<lparr>cc_id = ''dry-run'', cc_title = None, cc_tags = [], cc_lastMessageAt = Some now\<rparr>,
     bi_message = Some \<lparr>cm_id = ''dry-run'', cm_bodyText = dry_bodyText sample, cm_direction = Inbound, cm_receivedAt = now\<rparr>,
     bi_sender = Some \<lparr>cs_id = ''dry-run'', cs_displayName = dry_senderDisplayName sample, cs_isVip = dry_senderIsVip sample\<rparr>,
     bi_ai = None\<rparr>"

text \<open>\<open>None\<close> is an exception: of an invalid pattern, or of a parameter that is not text.\<close>

definition dryRun :: "zone_clock \<Rightarrow> regex_engine \<Rightarrow> text_of \<Rightarrow> instant \<Rightarrow> ConditionNode \<Rightarrow> ActionStep list \<Rightarrow> dry_sample
    \<Rightarrow> dry_result option" where
  "dryRun clock re toText now conditions actions sample =
     (let context = dryRunContext clock now sample in
      case evaluateConditionTree re now context conditions of
        None \<Rightarrow> None
      | Some False \<Rightarrow> Some \<lparr>dr_matched = False, dr_status = None, dr_actionsExecuted = []\<rparr>
      | Some True \<Rightarrow> (case executeActions toText actions context noopPorts () of
          (None, _) \<Rightarrow> None
        | (Some (status, executed), _) \<Rightarrow> Some \<lparr>dr_matched = True, dr_status = Some status, dr_actionsExecuted = executed\<rparr>))"

end
