(* ===== verification/Identity.thy ===== *)
theory Identity
  imports Workspaces List_Endpoints
begin

text \<open>
  The identity graph: exact-match resolution of a sender (\<open>packages/identity/src/index.ts\<close>),
  candidate matching (\<open>matching.ts\<close>) and the periodic sweep that turns candidates into
  suggestions (\<open>identity-matching.service.ts\<close>), the review of a suggestion
  (\<open>merge.ts\<close>, \<open>identity.controller.ts\<close>), the split that undoes a merge (\<open>split.ts\<close>) and
  the contact endpoints that write (\<open>contacts.controller.ts\<close>).
\<close>

section \<open>Resolution\<close>

record ResolveIdentityInput =
  ri_workspaceId :: uuid
  ri_providerId :: uuid
  ri_externalId :: string
  ri_handle :: "string option"
  ri_displayName :: "string option"

definition identityKey :: "ContactIdentity \<Rightarrow> uuid \<times> string \<times> uuid" where
  "identityKey i = (cid_providerId i, cid_externalId i, cid_workspaceId i)"

definition inputKey :: "ResolveIdentityInput \<Rightarrow> uuid \<times> string \<times> uuid" where
  "inputKey input = (ri_providerId input, ri_externalId input, ri_workspaceId input)"

text \<open>\<open>include: { contact: true }\<close>: the foreign key makes the row exist.\<close>

definition contactOf :: "world \<Rightarrow> uuid \<Rightarrow> Contact option" where
  "contactOf s i = findFirst (\<lambda>c. con_id c = i) (contacts s)"

definition workspaceExists :: "world \<Rightarrow> uuid \<Rightarrow> bool" where
  "workspaceExists s w \<longleftrightarrow> list_ex (\<lambda>x. ws_id x = w) (workspaces s)"

definition foreignKeyError :: exn where
  "foreignKeyError = PlainError ''P2003''"

definition senderName :: "ResolveIdentityInput \<Rightarrow> string" where
  "senderName input = (case ri_displayName input of Some n \<Rightarrow> n
     | None \<Rightarrow> (case ri_handle input of Some h \<Rightarrow> h | None \<Rightarrow> ''Unknown ('' @ ri_externalId input @ '')''))"

definition createContactTx :: "env \<Rightarrow> instant \<Rightarrow> ResolveIdentityInput \<Rightarrow> (world, exn, Contact) oper" where
  "createContactTx E now input s =
     (if \<not> workspaceExists s (ri_workspaceId input) then (Inl foreignKeyError, drawn 1 s)
      else let c = \<lparr>con_id = drawNth E 0 s, con_workspaceId = ri_workspaceId input, con_displayName = senderName input,
                 con_isVip = False, con_createdAt = now, con_deletedAt = None\<rparr>;
               i = \<lparr>cid_id = drawNth E 1 s, cid_contactId = con_id c, cid_workspaceId = ri_workspaceId input,
                 cid_providerId = ri_providerId input, cid_externalId = ri_externalId input, cid_handle = ri_handle input,
                 cid_matchType = ExactMatch, cid_confidenceScore = None\<rparr>
           in (Inr c, (drawn 2 s)\<lparr>contacts := contacts s @ [c], contactIdentities := contactIdentities s @ [i]\<rparr>))"

definition resolveIdentity :: "env \<Rightarrow> instant \<Rightarrow> ResolveIdentityInput \<Rightarrow> (world, exn, Contact) oper" where
  "resolveIdentity E now input s =
     (case findFirst (\<lambda>i. identityKey i = inputKey input) (contactIdentities s) of
        Some i \<Rightarrow> (case contactOf s (cid_contactId i) of
            Some c \<Rightarrow> (Inr c, s) | None \<Rightarrow> (Inl foreignKeyError, s))
      | None \<Rightarrow> transactionO (createContactTx E now input) s)"

section \<open>Candidate matching\<close>

record MergeCandidate =
  mgc_contactIdA :: uuid
  mgc_contactIdB :: uuid
  mgc_confidenceScore :: nat
  mgc_matchingSignals :: MatchingSignals

text \<open>\<open>replace(/\s+/g, " ")\<close>.\<close>

function collapseSpaces :: "string \<Rightarrow> string" where
  "collapseSpaces [] = []"
| "collapseSpaces (c # cs) = (if isSpace c then CHR '' '' # collapseSpaces (dropWhile isSpace cs)
     else c # collapseSpaces cs)"
  by pat_completeness auto

termination collapseSpaces
  by (relation "measure length") (auto simp: le_imp_less_Suc length_dropWhile_le)

definition normalizeDisplayName :: "string \<Rightarrow> string" where
  "normalizeDisplayName name = collapseSpaces (toLowerCase (trim name))"

definition isMeaningfulSubstring :: "string \<Rightarrow> string \<Rightarrow> bool" where
  "isMeaningfulSubstring shorter longer \<longleftrightarrow> 3 \<le> length shorter \<and> strIncludes longer shorter"

text \<open>Scores are hundredths.\<close>

definition candidateOf :: "Contact \<Rightarrow> Contact \<Rightarrow> MergeCandidate option" where
  "candidateOf a b =
     (let normA = normalizeDisplayName (con_displayName a); normB = normalizeDisplayName (con_displayName b);
          candidate = (\<lambda>score reason. \<lparr>mgc_contactIdA = con_id a, mgc_contactIdB = con_id b, mgc_confidenceScore = score,
            mgc_matchingSignals = \<lparr>mts_reason = reason, mts_normalizedNameA = normA, mts_normalizedNameB = normB\<rparr>\<rparr>);
          (shorter, longer) = (if length normA \<le> length normB then (normA, normB) else (normB, normA))
      in if normA = normB then Some (candidate 90 ''Identical display name'')
         else if isMeaningfulSubstring shorter longer then Some (candidate 60 ''Similar display name'')
         else None)"

fun candidatePairs :: "Contact list \<Rightarrow> MergeCandidate list" where
  "candidatePairs [] = []"
| "candidatePairs (a # rest) = List.map_filter (candidateOf a) rest @ candidatePairs rest"

definition findMergeCandidates :: "uuid \<Rightarrow> world \<Rightarrow> MergeCandidate list" where
  "findMergeCandidates wsId s =
     candidatePairs (filter (\<lambda>c. con_deletedAt c = None \<and> con_workspaceId c = wsId) (contacts s))"

section \<open>The matching sweep\<close>

definition SUGGESTION_TTL_MS :: int where
  "SUGGESTION_TTL_MS = 7 * 24 * 60 * 60 * 1000"

definition openPair :: "uuid \<Rightarrow> uuid \<Rightarrow> uuid \<Rightarrow> IdentityMergeSuggestion \<Rightarrow> bool" where
  "openPair wsId a b g \<longleftrightarrow> ims_workspaceId g = wsId \<and> ims_status g \<in> {Pending, Rejected} \<and>
     ((ims_candidateContactIdA g = a \<and> ims_candidateContactIdB g = b) \<or>
      (ims_candidateContactIdA g = b \<and> ims_candidateContactIdB g = a))"

definition suggestCandidate :: "env \<Rightarrow> instant \<Rightarrow> uuid \<Rightarrow> MergeCandidate \<Rightarrow> world \<Rightarrow> world" where
  "suggestCandidate E now wsId c s =
     (let a = min (mgc_contactIdA c) (mgc_contactIdB c); b = max (mgc_contactIdA c) (mgc_contactIdB c) in
      if list_ex (openPair wsId a b) (mergeSuggestions s) then s
      else (drawn 1 s)\<lparr>mergeSuggestions := mergeSuggestions s @ [\<lparr>ims_id = draw E s, ims_workspaceId = wsId,
             ims_candidateContactIdA = a, ims_candidateContactIdB = b, ims_confidenceScore = mgc_confidenceScore c,
             ims_matchingSignals = mgc_matchingSignals c, ims_status = Pending, ims_reviewedByUserId = None,
             ims_reviewedAt = None, ims_expiresAt = now + SUGGESTION_TTL_MS, ims_createdAt = now\<rparr>]\<rparr>)"

definition sweepWorkspace :: "env \<Rightarrow> instant \<Rightarrow> uuid \<Rightarrow> world \<Rightarrow> world" where
  "sweepWorkspace E now wsId s = fold (suggestCandidate E now wsId) (findMergeCandidates wsId s) s"

definition expireSuggestions :: "instant \<Rightarrow> world \<Rightarrow> world" where
  "expireSuggestions now s = s\<lparr>mergeSuggestions := updateMany (\<lambda>g. ims_status g = Pending \<and> ims_expiresAt g < now)
     (\<lambda>g. g\<lparr>ims_status := Expired\<rparr>) (mergeSuggestions s)\<rparr>"

definition matchingRunOnce :: "env \<Rightarrow> instant \<Rightarrow> world \<Rightarrow> world" where
  "matchingRunOnce E now s = expireSuggestions now
     (fold (sweepWorkspace E now) (map ws_id (filter (\<lambda>w. ws_deletedAt w = None) (workspaces s))) s)"

section \<open>Review of a suggestion\<close>

datatype merge_error = SuggestionNotFound | SuggestionNotPending | MergeFailed exn

definition setContact :: "uuid \<Rightarrow> (Contact \<Rightarrow> Contact) \<Rightarrow> world \<Rightarrow> world" where
  "setContact i f s = s\<lparr>contacts := updateMany (\<lambda>c. con_id c = i) f (contacts s)\<rparr>"

definition softDeleteContact :: "instant \<Rightarrow> uuid \<Rightarrow> world \<Rightarrow> world" where
  "softDeleteContact now i s = setContact i (\<lambda>c. c\<lparr>con_deletedAt := Some now\<rparr>) s"

definition moveIdentities :: "uuid \<Rightarrow> uuid \<Rightarrow> world \<Rightarrow> world" where
  "moveIdentities b a s = s\<lparr>contactIdentities := updateMany (\<lambda>i. cid_contactId i = b) (\<lambda>i. i\<lparr>cid_contactId := a\<rparr>) (contactIdentities s)\<rparr>"

definition moveMessages :: "uuid \<Rightarrow> uuid \<Rightarrow> world \<Rightarrow> world" where
  "moveMessages b a s = s\<lparr>messages := updateMany (\<lambda>m. msg_senderContactId m = Some b) (\<lambda>m. m\<lparr>msg_senderContactId := Some a\<rparr>) (messages s)\<rparr>"

definition setSuggestion :: "uuid \<Rightarrow> (IdentityMergeSuggestion \<Rightarrow> IdentityMergeSuggestion) \<Rightarrow> world \<Rightarrow> world" where
  "setSuggestion i f s = s\<lparr>mergeSuggestions := updateMany (\<lambda>g. ims_id g = i) f (mergeSuggestions s)\<rparr>"

definition logMerge :: "env \<Rightarrow> IdentityMergeSuggestion \<Rightarrow> uuid \<Rightarrow> world \<Rightarrow> world" where
  "logMerge E g userId s = (drawn 1 s)\<lparr>mergeLogs := mergeLogs s @ [\<lparr>iml_id = draw E s, iml_workspaceId = ims_workspaceId g,
     iml_primaryContactId = ims_candidateContactIdA g, iml_mergedContactId = ims_candidateContactIdB g,
     iml_mergedByUserId = userId, iml_confidenceScoreAtMerge = Some (ims_confidenceScore g),
     iml_matchingSignals = ims_matchingSignals g\<rparr>]\<rparr>"

text \<open>The transaction of an approval. The delete of the merged contact is redirected by
  the soft-delete extension to the client the extension wraps, so it is written
  outside the transaction: when the rest does not commit (its time limit, a lost
  connection) the contact stays deleted.\<close>

definition approveTx :: "env \<Rightarrow> bool \<Rightarrow> instant \<Rightarrow> IdentityMergeSuggestion \<Rightarrow> uuid \<Rightarrow> (world, merge_error, unit) oper" where
  "approveTx E commits now g userId s =
     (let a = ims_candidateContactIdA g; b = ims_candidateContactIdB g in
      case contactOf s b of
        None \<Rightarrow> (Inl (MergeFailed (PlainError ''P2025'')), s)
      | Some merged \<Rightarrow>
          if con_isVip merged \<and> contactOf s a = None then (Inl (MergeFailed (PlainError ''P2025'')), s)
          else if \<not> commits then (Inl (MergeFailed (PlainError ''P2028'')), softDeleteContact now b s)
          else let s1 = moveMessages b a (moveIdentities b a s);
                   s2 = (if con_isVip merged then setContact a (\<lambda>c. c\<lparr>con_isVip := True\<rparr>) s1 else s1);
                   s3 = setSuggestion (ims_id g) (\<lambda>x. x\<lparr>ims_status := Approved, ims_reviewedByUserId := Some userId,
                          ims_reviewedAt := Some now\<rparr>) (softDeleteContact now b s2)
               in (Inr (), logMerge E g userId s3))"

definition suggestionOf :: "world \<Rightarrow> uuid \<Rightarrow> merge_error + IdentityMergeSuggestion" where
  "suggestionOf s i = (case findFirst (\<lambda>g. ims_id g = i) (mergeSuggestions s) of
      None \<Rightarrow> Inl SuggestionNotFound
    | Some g \<Rightarrow> if ims_status g \<noteq> Pending then Inl SuggestionNotPending else Inr g)"

definition approveMergeSuggestion :: "env \<Rightarrow> bool \<Rightarrow> instant \<Rightarrow> uuid \<Rightarrow> uuid \<Rightarrow> (world, merge_error, uuid \<times> uuid) oper" where
  "approveMergeSuggestion E commits now i userId s = (case suggestionOf s i of
      Inl e \<Rightarrow> (Inl e, s)
    | Inr g \<Rightarrow> (case approveTx E commits now g userId s of
        (Inl e, s1) \<Rightarrow> (Inl e, s1)
      | (Inr _, s1) \<Rightarrow> (Inr (ims_candidateContactIdA g, ims_candidateContactIdB g), s1)))"

definition rejectMergeSuggestion :: "instant \<Rightarrow> uuid \<Rightarrow> uuid \<Rightarrow> (world, merge_error, unit) oper" where
  "rejectMergeSuggestion now i userId s = (case suggestionOf s i of
      Inl e \<Rightarrow> (Inl e, s)
    | Inr g \<Rightarrow> (Inr (), setSuggestion i (\<lambda>x. x\<lparr>ims_status := Rejected, ims_reviewedByUserId := Some userId,
        ims_reviewedAt := Some now\<rparr>) s))"

section \<open>Splitting a contact\<close>

datatype split_error = ContactNotFound | NoIdentitiesToSplit

record SplitContactInput =
  sci_contactId :: uuid
  sci_workspaceId :: uuid
  sci_contactIdentityIds :: "uuid list"
  sci_splitByUserId :: uuid
  sci_reason :: "string option"

definition splitContact :: "env \<Rightarrow> instant \<Rightarrow> SplitContactInput \<Rightarrow> (world, split_error, uuid) oper" where
  "splitContact E now input s = (case contactOf s (sci_contactId input) of
      None \<Rightarrow> (Inl ContactNotFound, s)
    | Some original \<Rightarrow>
        let moving = filter (\<lambda>i. cid_id i \<in> set (sci_contactIdentityIds input) \<and> cid_contactId i = sci_contactId input)
              (contactIdentities s)
        in if moving = [] then (Inl NoIdentitiesToSplit, s)
           else let newId = drawNth E 0 s;
                    c = \<lparr>con_id = newId, con_workspaceId = sci_workspaceId input, con_displayName = con_displayName original,
                          con_isVip = con_isVip original, con_createdAt = now, con_deletedAt = None\<rparr>;
                    movedIds = map cid_id moving; movedProviderIds = remdups (map cid_providerId moving);
                    affected = map cnv_id (filter (\<lambda>c. cnv_deletedAt c = None \<and> cnv_workspaceId c = sci_workspaceId input
                      \<and> cnv_providerId c \<in> set movedProviderIds) (conversations s))
                in (Inr newId, (drawn 2 s)\<lparr>contacts := contacts s @ [c],
                      contactIdentities := updateMany (\<lambda>i. cid_id i \<in> set movedIds) (\<lambda>i. i\<lparr>cid_contactId := newId\<rparr>) (contactIdentities s),
                      messages := updateMany (\<lambda>m. msg_senderContactId m = Some (sci_contactId input) \<and> msg_conversationId m \<in> set affected)
                        (\<lambda>m. m\<lparr>msg_senderContactId := Some newId\<rparr>) (messages s),
                      splitLogs := splitLogs s @ [\<lparr>isl_id = drawNth E 1 s, isl_workspaceId = sci_workspaceId input,
                        isl_originalContactId = sci_contactId input, isl_resultingContactIds = [sci_contactId input, newId],
                        isl_splitByUserId = sci_splitByUserId input, isl_reason = sci_reason input\<rparr>]\<rparr>))"

section \<open>The endpoints\<close>

definition userAudit :: "jwt_claims \<Rightarrow> string \<Rightarrow> string \<Rightarrow> uuid \<Rightarrow> audit_entry" where
  "userAudit claims action resourceType resourceId = \<lparr>ae_workspaceId = Some (jwt_workspaceId claims),
     ae_organizationId = None, ae_actorUserId = Some (jwt_sub claims), ae_actorType = ''user'', ae_action = action,
     ae_resourceType = Some resourceType, ae_resourceId = Some resourceId, ae_ipAddress = None\<rparr>"

record MergeSuggestionView =
  msv_id :: uuid
  msv_confidenceScore :: nat
  msv_matchingSignals :: MatchingSignals
  msv_contactA :: "(uuid \<times> string) option"
  msv_contactB :: "(uuid \<times> string) option"
  msv_createdAt :: instant
  msv_expiresAt :: instant

definition liveContactName :: "world \<Rightarrow> uuid \<Rightarrow> (uuid \<times> string) option" where
  "liveContactName s i = map_option (\<lambda>c. (i, con_displayName c))
     (findFirst (\<lambda>c. con_deletedAt c = None \<and> con_id c = i) (contacts s))"

definition suggestionView :: "world \<Rightarrow> IdentityMergeSuggestion \<Rightarrow> MergeSuggestionView" where
  "suggestionView s g = \<lparr>msv_id = ims_id g, msv_confidenceScore = ims_confidenceScore g,
     msv_matchingSignals = ims_matchingSignals g, msv_contactA = liveContactName s (ims_candidateContactIdA g),
     msv_contactB = liveContactName s (ims_candidateContactIdB g), msv_createdAt = ims_createdAt g,
     msv_expiresAt = ims_expiresAt g\<rparr>"

definition listSuggestions ::
  "jwt_claims \<Rightarrow> string option \<Rightarrow> world \<Rightarrow> (instant \<times> uuid) option \<Rightarrow> (MergeSuggestionView, instant \<times> uuid) page" where
  "listSuggestions claims limitParam s cursor =
     (let limit = nat (parseLimit limitParam);
          rows = orderBy (columnBefore ims_createdAt ims_id Desc) (filter (\<lambda>g. ims_workspaceId g = jwt_workspaceId claims \<and>
            ims_status g = Pending \<and> (case cursor of None \<Rightarrow> True
              | Some (t, i) \<Rightarrow> ims_createdAt g < t \<or> (ims_createdAt g = t \<and> ims_id g < i))) (mergeSuggestions s))
      in mapPage (map (suggestionView s)) (buildPage (take (limit + 1) rows) limit (\<lambda>l. (ims_createdAt l, ims_id l))))"

definition requireOwnSuggestion :: "uuid \<Rightarrow> uuid \<Rightarrow> world \<Rightarrow> exn + IdentityMergeSuggestion" where
  "requireOwnSuggestion i wsId s = (case findFirst (\<lambda>g. ims_id g = i \<and> ims_workspaceId g = wsId) (mergeSuggestions s) of
      None \<Rightarrow> Inl (HttpError 404 ''SUGGESTION_NOT_FOUND'') | Some g \<Rightarrow> Inr g)"

fun mergeHttpError :: "merge_error \<Rightarrow> exn" where
  "mergeHttpError SuggestionNotFound = PlainError ''No IdentityMergeSuggestion''"
| "mergeHttpError SuggestionNotPending = HttpError 409 ''SUGGESTION_NOT_PENDING''"
| "mergeHttpError (MergeFailed e) = e"

definition approveRoute :: "env \<Rightarrow> bool \<Rightarrow> instant \<Rightarrow> uuid \<Rightarrow> jwt_claims \<Rightarrow> (world, exn, uuid \<times> uuid) oper" where
  "approveRoute E commits now i claims s = (case requireOwnSuggestion i (jwt_workspaceId claims) s of
      Inl e \<Rightarrow> (Inl e, s)
    | Inr g \<Rightarrow> (case approveMergeSuggestion E commits now i (jwt_sub claims) s of
        (Inl e, s1) \<Rightarrow> (Inl (mergeHttpError e), s1)
      | (Inr result, s1) \<Rightarrow> (Inr result, auditLog E (userAudit claims ''identity.merge.approved'' ''contact'' (fst result)) s1)))"

definition rejectRoute :: "env \<Rightarrow> instant \<Rightarrow> uuid \<Rightarrow> jwt_claims \<Rightarrow> (world, exn, uuid) oper" where
  "rejectRoute E now i claims s = (case requireOwnSuggestion i (jwt_workspaceId claims) s of
      Inl e \<Rightarrow> (Inl e, s)
    | Inr g \<Rightarrow> (case rejectMergeSuggestion now i (jwt_sub claims) s of
        (Inl e, s1) \<Rightarrow> (Inl (mergeHttpError e), s1)
      | (Inr _, s1) \<Rightarrow> (Inr i, auditLog E (userAudit claims ''identity.merge.rejected'' ''identity_merge_suggestion'' i) s1)))"

definition ownContact :: "uuid \<Rightarrow> uuid \<Rightarrow> world \<Rightarrow> exn + Contact" where
  "ownContact i wsId s = (case findFirst (\<lambda>c. con_deletedAt c = None \<and> con_id c = i \<and> con_workspaceId c = wsId) (contacts s) of
      None \<Rightarrow> Inl (HttpError 404 ''CONTACT_NOT_FOUND'') | Some c \<Rightarrow> Inr c)"

definition updateContact :: "env \<Rightarrow> uuid \<Rightarrow> bool option \<Rightarrow> jwt_claims \<Rightarrow> (world, exn, uuid \<times> string \<times> bool) oper" where
  "updateContact E i isVip claims s = (case ownContact i (jwt_workspaceId claims) s of
      Inl e \<Rightarrow> (Inl e, s)
    | Inr contact \<Rightarrow> (case isVip of
        None \<Rightarrow> (Inr (i, con_displayName contact, con_isVip contact), s)
      | Some v \<Rightarrow>
          let s1 = setContact i (\<lambda>c. c\<lparr>con_isVip := v\<rparr>) s
          in (Inr (i, con_displayName contact, v),
              if v \<noteq> con_isVip contact
              then auditLog E (userAudit claims (if v then ''contact.vip.enabled'' else ''contact.vip.disabled'') ''contact'' i) s1
              else s1)))"

text \<open>The body's identities: \<open>None\<close> when they are not an array.\<close>

definition splitRoute :: "env \<Rightarrow> instant \<Rightarrow> uuid \<Rightarrow> uuid list option \<Rightarrow> string option \<Rightarrow> jwt_claims \<Rightarrow> (world, exn, uuid) oper" where
  "splitRoute E now i identityIds reason claims s =
     (if identityIds = None \<or> identityIds = Some [] then (Inl (HttpError 400 ''IDENTITIES_REQUIRED''), s)
      else case ownContact i (jwt_workspaceId claims) s of
          Inl e \<Rightarrow> (Inl e, s)
        | Inr contact \<Rightarrow> (case splitContact E now \<lparr>sci_contactId = i, sci_workspaceId = jwt_workspaceId claims,
                sci_contactIdentityIds = the identityIds, sci_splitByUserId = jwt_sub claims, sci_reason = reason\<rparr> s of
            (Inl e, s1) \<Rightarrow> (Inl (HttpError 422 ''SPLIT_FAILED''), s1)
          | (Inr newId, s1) \<Rightarrow> (Inr newId, auditLog E (userAudit claims ''identity.split'' ''contact'' i) s1)))"

end
