(* ===== verification/Ingestion.thy ===== *)
theory Ingestion
  imports Rule_Execution Identity
begin

text \<open>
  The ingestion pipeline (\<open>events/events.processor.ts\<close>): an inbound message event goes
  through the provider, identity, conversation and message rows, the priority score
  (\<open>packages/shared/src/priority-score.ts\<close>), the realtime gateway, the automation rules
  and the no-reply scheduler; and the queue that redelivers a failed event.
\<close>

section \<open>The priority score\<close>

definition URGENCY_KEYWORDS :: "string list" where
  "URGENCY_KEYWORDS = [''urgent'', ''asap'', ''important'', ''emergency'', ''immediately'']"

definition BASE_SCORE :: int where "BASE_SCORE = 10"
definition VIP_BONUS :: int where "VIP_BONUS = 50"
definition URGENCY_BONUS :: int where "URGENCY_BONUS = 20"

definition containsUrgencyKeyword :: "string \<Rightarrow> bool" where
  "containsUrgencyKeyword bodyText \<longleftrightarrow> list_ex (strIncludes (toLowerCase bodyText)) URGENCY_KEYWORDS"

definition computePriorityScore :: "bool \<Rightarrow> string \<Rightarrow> int" where
  "computePriorityScore isVip bodyText = BASE_SCORE + (if isVip then VIP_BONUS else 0)
     + (if containsUrgencyKeyword bodyText then URGENCY_BONUS else 0)"

section \<open>The rows of a message\<close>

definition DEV_WORKSPACE_ID :: uuid where "DEV_WORKSPACE_ID = 1"
definition DEV_ORGANIZATION_ID :: uuid where "DEV_ORGANIZATION_ID = 0xf1"

definition provisionDev :: "instant \<Rightarrow> uuid \<Rightarrow> world \<Rightarrow> world" where
  "provisionDev now wsId s =
     (if wsId \<noteq> DEV_WORKSPACE_ID then s
      else let s1 = (if list_ex (\<lambda>o'. org_id o' = DEV_ORGANIZATION_ID) (organizations s) then s
                     else s\<lparr>organizations := organizations s @ [\<lparr>org_id = DEV_ORGANIZATION_ID, org_name = ''Dev Organization'',
                            org_slug = ''dev-organization'', org_planTier = ''free'', org_deletedAt = None\<rparr>]\<rparr>)
           in if workspaceExists s1 wsId then s1
              else s1\<lparr>workspaces := workspaces s1 @ [\<lparr>ws_id = wsId, ws_organizationId = DEV_ORGANIZATION_ID,
                     ws_name = ''Dev Workspace'', ws_timezone = ''UTC'', ws_aiEnabled = True, ws_createdAt = now,
                     ws_deletedAt = None\<rparr>]\<rparr>)"

text \<open>The identifiers of an upsert's create arm are drawn whether or not it is taken.\<close>

definition upsertProvider :: "env \<Rightarrow> string \<Rightarrow> world \<Rightarrow> Provider \<times> world" where
  "upsertProvider E key s = (case findFirst (\<lambda>p. prov_key p = key) (providers s) of
      Some p \<Rightarrow> (p, drawn 1 s)
    | None \<Rightarrow> let p = \<lparr>prov_id = draw E s, prov_key = key\<rparr> in (p, (drawn 1 s)\<lparr>providers := providers s @ [p]\<rparr>))"

definition convKey :: "Conversation \<Rightarrow> uuid \<times> string \<times> uuid" where
  "convKey c = (cnv_providerId c, cnv_externalId c, cnv_workspaceId c)"

definition payloadConvKey :: "uuid \<Rightarrow> InboundMessagePayload \<Rightarrow> uuid \<times> string \<times> uuid" where
  "payloadConvKey provId pl = (provId, pl_conversationExternalId pl, pl_workspaceId pl)"

definition touchConversation :: "InboundMessagePayload \<Rightarrow> Conversation \<Rightarrow> Conversation" where
  "touchConversation pl c = c\<lparr>cnv_lastMessageAt := Some (pl_receivedAt pl),
     cnv_linkedAccountId := (case pl_linkedAccountId pl of None \<Rightarrow> cnv_linkedAccountId c | Some i \<Rightarrow> Some i)\<rparr>"

definition newConversation :: "uuid \<Rightarrow> instant \<Rightarrow> uuid \<Rightarrow> InboundMessagePayload \<Rightarrow> Conversation" where
  "newConversation i now provId pl = \<lparr>cnv_id = i, cnv_workspaceId = pl_workspaceId pl, cnv_providerId = provId,
     cnv_linkedAccountId = pl_linkedAccountId pl, cnv_externalId = pl_conversationExternalId pl,
     cnv_title = pl_conversationTitle pl, cnv_lastMessageAt = Some (pl_receivedAt pl), cnv_priorityScore = 0,
     cnv_isArchived = False, cnv_category = None, cnv_tags = [], cnv_lastReadAt = None, cnv_createdAt = now,
     cnv_deletedAt = None\<rparr>"

definition upsertConversation :: "env \<Rightarrow> instant \<Rightarrow> uuid \<Rightarrow> InboundMessagePayload \<Rightarrow> world \<Rightarrow> Conversation \<times> world" where
  "upsertConversation E now provId pl s =
     (let same = (\<lambda>c. convKey c = payloadConvKey provId pl) in
      case findFirst same (conversations s) of
        Some c \<Rightarrow> (touchConversation pl c, (drawn 1 s)\<lparr>conversations := updateMany same (touchConversation pl) (conversations s)\<rparr>)
      | None \<Rightarrow> let c = newConversation (draw E s) now provId pl
          in (c, (drawn 1 s)\<lparr>conversations := conversations s @ [c]\<rparr>))"

text \<open>The provider, sender and conversation of a payload; the sender's contact is the
  part that can fail, when the workspace does not exist.\<close>

definition senderInput :: "uuid \<Rightarrow> InboundMessagePayload \<Rightarrow> ResolveIdentityInput" where
  "senderInput provId pl = \<lparr>ri_workspaceId = pl_workspaceId pl, ri_providerId = provId,
     ri_externalId = pl_senderExternalId pl, ri_handle = pl_senderHandle pl, ri_displayName = pl_senderDisplayName pl\<rparr>"

definition resolveRows :: "env \<Rightarrow> instant \<Rightarrow> InboundMessagePayload \<Rightarrow> (world, exn, Contact \<times> Conversation) oper" where
  "resolveRows E now pl s =
     (case upsertProvider E (pl_providerKey pl) (provisionDev now (pl_workspaceId pl) s) of
        (provider, s1) \<Rightarrow> bindO (resolveIdentity E now (senderInput (prov_id provider) pl))
          (\<lambda>contact s2. case upsertConversation E now (prov_id provider) pl s2 of
             (c, s3) \<Rightarrow> (Inr (contact, c), s3)) s1)"

definition isDuplicate :: "Conversation \<Rightarrow> InboundMessagePayload \<Rightarrow> world \<Rightarrow> bool" where
  "isDuplicate c pl s \<longleftrightarrow> list_ex (\<lambda>m. msg_conversationId m = cnv_id c \<and> msg_externalId m = pl_messageExternalId pl) (messages s)"

definition inboundRow :: "uuid \<Rightarrow> InboundMessagePayload \<Rightarrow> Contact \<Rightarrow> Conversation \<Rightarrow> Message" where
  "inboundRow i pl contact c = \<lparr>msg_id = i, msg_workspaceId = pl_workspaceId pl, msg_conversationId = cnv_id c,
     msg_externalId = pl_messageExternalId pl, msg_senderContactId = Some (con_id contact), msg_direction = pl_direction pl,
     msg_bodyText = pl_bodyText pl, msg_receivedAt = pl_receivedAt pl, msg_deletedAt = None\<rparr>"

text \<open>The message's row, the conversation's raised priority and the realtime event. The
  duplicate was looked for just before, so the row's unique key is free.\<close>

definition storeMessage :: "env \<Rightarrow> InboundMessagePayload \<Rightarrow> Contact \<Rightarrow> Conversation \<Rightarrow> world \<Rightarrow> Message \<times> world" where
  "storeMessage E pl contact c s =
     (let m = inboundRow (draw E s) pl contact c;
          score = computePriorityScore (con_isVip contact) (pl_bodyText pl);
          s1 = (drawn 1 s)\<lparr>messages := messages s @ [m]\<rparr>;
          s2 = (if cnv_priorityScore c < score then setConversation (cnv_id c) (\<lambda>x. x\<lparr>cnv_priorityScore := score\<rparr>) s1 else s1)
      in (m, emitToWorkspace (pl_workspaceId pl) ''message.received'' (msg_id m) s2))"

section \<open>The event handler\<close>

text \<open>Each run of the rules is under a fresh \<open>rule.triggered\<close> event.\<close>

definition runAutomationEngine :: "env \<Rightarrow> 'p services \<Rightarrow> instant \<Rightarrow> InboundMessagePayload \<Rightarrow> Message \<Rightarrow> Contact \<Rightarrow> Conversation
    \<Rightarrow> ('p platform, exn, unit) oper" where
  "runAutomationEngine E sv now pl m contact c st =
     runMessageRules E sv now \<lparr>rc_triggerEventId = uuidText (draw E (fst st)), rc_workspaceId = pl_workspaceId pl,
       rc_providerKey = pl_providerKey pl, rc_message = m, rc_conversation = c, rc_contact = contact\<rparr> (updW (drawn 1) st)"

definition restartClock :: "env \<Rightarrow> instant \<Rightarrow> InboundMessagePayload \<Rightarrow> Conversation \<Rightarrow> (world, exn, unit) oper" where
  "restartClock E now pl c s =
     (if pl_direction pl = Inbound then scheduleNoReplyRules E now (pl_workspaceId pl) (cnv_id c) s
      else (Inr (), cancelNoReplyRules (pl_workspaceId pl) (cnv_id c) s))"

definition processMessage :: "env \<Rightarrow> 'p services \<Rightarrow> instant \<Rightarrow> InboundMessagePayload \<Rightarrow> ('p platform, exn, unit) oper" where
  "processMessage E sv now pl st = (case resolveRows E now pl (fst st) of
      (Inl e, s1) \<Rightarrow> (Inl e, (s1, snd st))
    | (Inr (contact, c), s1) \<Rightarrow>
        if isDuplicate c pl s1 then (Inr (), (s1, snd st))
        else (case storeMessage E pl contact c s1 of
            (m, s2) \<Rightarrow> bindO (runAutomationEngine E sv now pl m contact c)
              (\<lambda>_. onWorld (restartClock E now pl c)) (s2, snd st)))"

section \<open>The queue\<close>

definition EVENT_ATTEMPTS :: nat where "EVENT_ATTEMPTS = 5"

text \<open>A waiting job is taken by the worker; what it throws is a failed attempt, and the
  queue tries it again until the attempts are used up.\<close>

fun attemptJob :: "env \<Rightarrow> 'p services \<Rightarrow> instant \<Rightarrow> nat \<Rightarrow> InboundMessagePayload \<Rightarrow> 'p platform \<Rightarrow> bool \<times> 'p platform" where
  "attemptJob E sv now 0 pl st = (False, st)"
| "attemptJob E sv now (Suc attempts) pl st = (case processMessage E sv now pl st of
      (Inr _, st1) \<Rightarrow> (True, st1)
    | (Inl _, st1) \<Rightarrow> attemptJob E sv now attempts pl st1)"

definition settleJob :: "queue_job \<Rightarrow> bool \<Rightarrow> world \<Rightarrow> world" where
  "settleJob j finished s = s\<lparr>queueJobs := updateMany (\<lambda>x. qj_queue x = qj_queue j \<and> qj_id x = qj_id j)
     (\<lambda>x. x\<lparr>qj_state := (if finished then JDone else JFailed)\<rparr>) (queueJobs s)\<rparr>"

text \<open>An event without a handler is passed over with a warning.\<close>

definition workJob :: "env \<Rightarrow> 'p services \<Rightarrow> instant \<Rightarrow> queue_job \<Rightarrow> 'p platform \<Rightarrow> 'p platform" where
  "workJob E sv now j st = (case (case qj_data j of MessageReceived pl \<Rightarrow> attemptJob E sv now EVENT_ATTEMPTS pl st | _ \<Rightarrow> (True, st)) of
     (finished, st1) \<Rightarrow> updW (settleJob j finished) st1)"

definition waitingEvents :: "world \<Rightarrow> queue_job list" where
  "waitingEvents s = filter (\<lambda>j. qj_queue j = EVENTS_QUEUE_NAME \<and> qj_state j = JWaiting) (queueJobs s)"

definition workOff :: "env \<Rightarrow> 'p services \<Rightarrow> instant \<Rightarrow> 'p platform \<Rightarrow> 'p platform" where
  "workOff E sv now st = fold (workJob E sv now) (waitingEvents (fst st)) st"

end
