(* ===== verification/Ingestion_Properties.thy ===== *)
theory Ingestion_Properties
  imports Ingestion
begin

text \<open>
  What ingestion and automation keep: the frame of a rule's actions, one execution
  log per rule and trigger event, the silence of a redelivery, and the unique keys of
  the rows a message creates.
\<close>

section \<open>The frame of the action ports\<close>

text \<open>What no action touches, and what it may only extend.\<close>

definition ruleUntouched where
  "ruleUntouched s = ((organizations s, workspaces s, users s, members s, sessions s, providers s, linkedAccounts s,
     secretRecords s), (contacts s, contactIdentities s, rules s, notificationPreferences s, scheduledJobs s,
     scheduledMessages s, queueJobs s))"

definition msgKey :: "Message \<Rightarrow> uuid \<times> string" where
  "msgKey m = (msg_conversationId m, msg_externalId m)"

definition convIds :: "world \<Rightarrow> (uuid \<times> (uuid \<times> string \<times> uuid)) list" where
  "convIds s = map (\<lambda>c. (cnv_id c, convKey c)) (conversations s)"

lemma convIds_id: "map cnv_id (conversations s) = map fst (convIds s)"
  by (simp add: convIds_def)

text \<open>A rule keeps the messages there are, the keys of the messages and conversations
  unique, and everything it does not touch.\<close>

definition actionFrame :: "world \<Rightarrow> world \<Rightarrow> bool" where
  "actionFrame s s' \<longleftrightarrow> ruleUntouched s' = ruleUntouched s \<and> (\<exists>ms. messages s' = messages s @ ms
       \<and> (\<forall>m\<in>set ms. msg_conversationId m \<in> set (map cnv_id (conversations s)) \<and> msg_senderContactId m = None))
     \<and> (distinct (map msgKey (messages s)) \<longrightarrow> distinct (map msgKey (messages s')))
     \<and> convIds s' = convIds s"

lemma actionFrame_refl [simp]: "actionFrame s s"
  by (simp add: actionFrame_def)

lemma actionFrame_trans [trans]:
  assumes "actionFrame s s'" "actionFrame s' s''"
  shows "actionFrame s s''"
proof -
  have c: "map cnv_id (conversations s') = map cnv_id (conversations s)" using assms(1) by (simp add: actionFrame_def convIds_id)
  obtain ms ns where "messages s' = messages s @ ms" "messages s'' = messages s' @ ns"
    and "\<forall>m\<in>set ms. msg_conversationId m \<in> set (map cnv_id (conversations s)) \<and> msg_senderContactId m = None"
      "\<forall>m\<in>set ns. msg_conversationId m \<in> set (map cnv_id (conversations s)) \<and> msg_senderContactId m = None"
    using assms c unfolding actionFrame_def by metis
  then have "messages s'' = messages s @ (ms @ ns) \<and> (\<forall>m\<in>set (ms @ ns).
      msg_conversationId m \<in> set (map cnv_id (conversations s)) \<and> msg_senderContactId m = None)" by auto
  then have "\<exists>ms. messages s'' = messages s @ ms \<and> (\<forall>m\<in>set ms.
      msg_conversationId m \<in> set (map cnv_id (conversations s)) \<and> msg_senderContactId m = None)" by (rule exI)
  then show ?thesis using assms by (simp add: actionFrame_def)
qed

text \<open>What leaves the tables of the frame alone.\<close>

definition tablesSame :: "world \<Rightarrow> world \<Rightarrow> bool" where
  "tablesSame s s' \<longleftrightarrow> ruleUntouched s' = ruleUntouched s \<and> messages s' = messages s \<and> conversations s' = conversations s
     \<and> executionLogs s' = executionLogs s"

lemma tablesSame_refl [simp]: "tablesSame s s"
  by (simp add: tablesSame_def)

lemma tablesSame_trans: "tablesSame s s' \<Longrightarrow> tablesSame s' s'' \<Longrightarrow> tablesSame s s''"
  by (simp add: tablesSame_def)

lemma tablesSame_frame: "tablesSame s s' \<Longrightarrow> actionFrame s s' \<and> executionLogs s' = executionLogs s"
  by (simp add: tablesSame_def actionFrame_def convIds_def)

lemma tablesSame_drawn [simp]: "tablesSame s (drawn n s)"
  by (simp add: tablesSame_def ruleUntouched_def drawn_def)

lemma tablesSame_audit [simp]: "tablesSame s (auditLog E e s)"
  by (simp add: tablesSame_def ruleUntouched_def auditLog_def drawn_def)

lemma tablesSame_emit [simp]: "tablesSame s (emitToWorkspace w e i s)"
  by (simp add: tablesSame_def ruleUntouched_def emitToWorkspace_def)

lemma tablesSame_getSecret: "getSecret E ref ctx s = (r, s') \<Longrightarrow> tablesSame s s'"
  by (auto simp: getSecret_def split: option.splits sum.splits if_splits prod.splits)

lemma pushOne_same: "tablesSame (fst st) (fst (pushOne push t b sub st))"
  by (auto simp: pushOne_def tablesSame_def ruleUntouched_def split: prod.splits sum.splits)

lemma sendToWorkspace_same: "tablesSame (fst st) (fst (sendToWorkspace c push w t b st))"
proof -
  have "tablesSame (fst st) (fst (fold (pushOne push t b) subs st))" for subs
  proof (induction subs arbitrary: st)
    case (Cons sub subs)
    show ?case using tablesSame_trans [OF pushOne_same Cons.IH] by simp
  qed simp
  then show ?thesis by (simp add: sendToWorkspace_def)
qed

text \<open>A conversation's row rewritten in the columns that are no key.\<close>

lemma setConversation_frame:
  assumes "\<And>c. cnv_id (f c) = cnv_id c" "\<And>c. convKey (f c) = convKey c"
  shows "actionFrame s (setConversation i f s) \<and> executionLogs (setConversation i f s) = executionLogs s"
  using assms by (simp add: actionFrame_def setConversation_def ruleUntouched_def map_updateMany convIds_def)

lemma createMessage_frame:
  assumes "createMessage m s = (r, s')" "msg_conversationId m \<in> set (map cnv_id (conversations s))" "msg_senderContactId m = None"
  shows "actionFrame s s' \<and> executionLogs s' = executionLogs s"
proof -
  have "r = Inl (PlainError ''P2002'') \<and> s' = s \<or> msgKey m \<notin> msgKey ` set (messages s) \<and> s' = s\<lparr>messages := messages s @ [m]\<rparr>"
    using assms(1) by (auto simp: createMessage_def list_ex_iff msgKey_def split: if_splits)
  then show ?thesis using assms(2,3) by (auto simp: actionFrame_def ruleUntouched_def convIds_def)
qed

text \<open>An operation on the platform under the frame.\<close>

definition inFrame :: "('p platform, 'e, 'a) oper \<Rightarrow> bool" where
  "inFrame m \<longleftrightarrow> (\<forall>st. actionFrame (fst st) (fst (snd (m st))) \<and> executionLogs (fst (snd (m st))) = executionLogs (fst st))"

lemma inFrameI:
  "(\<And>st r st'. m st = (r, st') \<Longrightarrow> actionFrame (fst st) (fst st') \<and> executionLogs (fst st') = executionLogs (fst st)) \<Longrightarrow> inFrame m"
  unfolding inFrame_def by (metis prod.collapse)

lemma inFrameD:
  "inFrame m \<Longrightarrow> m st = (r, st') \<Longrightarrow> actionFrame (fst st) (fst st') \<and> executionLogs (fst st') = executionLogs (fst st)"
  unfolding inFrame_def by (metis snd_conv)

lemma portNotify_frame: "inFrame (portNotify E sv now w t b)"
proof (rule inFrameI)
  fix st :: "'a platform" and r st'
  assume "portNotify E sv now w t b st = (r, st')"
  then have st': "st' = sendToWorkspace (sv_pushConfigured sv) (sv_push sv) w t b
      (emitToWorkspace w ''notification.created'' (draw E (fst st)) ((drawn 1 (fst st))\<lparr>notifications := notifications (fst st) @
        [\<lparr>ntf_id = draw E (fst st), ntf_workspaceId = w, ntf_messageId = None, ntf_type = ''reminder'', ntf_title = t,
          ntf_body = b, ntf_createdAt = now\<rparr>]\<rparr>), snd st)"
    by (simp add: portNotify_def Let_def)
  have "tablesSame (fst st) (emitToWorkspace w ev (draw E (fst st)) ((drawn 1 (fst st))\<lparr>notifications := ns\<rparr>))" for ev ns
    by (simp add: tablesSame_def ruleUntouched_def emitToWorkspace_def drawn_def)
  from tablesSame_trans [OF this sendToWorkspace_same [of "(_, _)", unfolded fst_conv]] show
    "actionFrame (fst st) (fst st') \<and> executionLogs (fst st') = executionLogs (fst st)"
    unfolding st' by (rule tablesSame_frame)
qed

lemma portTag_frame: "inFrame (portTag w c t)"
  by (rule inFrameI) (auto simp: portTag_def Let_def actionFrame_def ruleUntouched_def emitToWorkspace_def setConversation_def
      map_updateMany convKey_def convIds_def split: option.splits)

lemma afterRuleSend_frame:
  assumes "afterRuleSend E now w c b x s = (r, s')" "c \<in> set (map cnv_id (conversations s))"
  shows "actionFrame s s' \<and> executionLogs s' = executionLogs s"
proof -
  obtain r1 s1 where c: "createMessage (outboundRow E now w c x b s) (drawn 1 s) = (r1, s1)" by fastforce
  have d: "actionFrame s (drawn 1 s) \<and> executionLogs (drawn 1 s) = executionLogs s"
    by (rule tablesSame_frame) simp
  have f: "actionFrame s s1 \<and> executionLogs s1 = executionLogs s"
    using createMessage_frame [OF c] assms(2) d by (auto simp: outboundRow_def intro: actionFrame_trans)
  show ?thesis
  proof (cases r1)
    case (Inl e)
    then show ?thesis using assms(1) f c by (simp add: afterRuleSend_def)
  next
    case (Inr m)
    let ?s2 = "setConversation c (\<lambda>x. x\<lparr>cnv_lastMessageAt := Some (msg_receivedAt m)\<rparr>) s1"
    have s': "s' = emitToWorkspace w ''message.sent'' (msg_id m) ?s2"
      using assms(1) c Inr by (simp add: afterRuleSend_def)
    have "actionFrame s1 ?s2 \<and> executionLogs ?s2 = executionLogs s1"
      by (rule setConversation_frame) (simp_all add: convKey_def)
    moreover have "actionFrame ?s2 s' \<and> executionLogs s' = executionLogs ?s2"
      unfolding s' by (rule tablesSame_frame) simp
    ultimately show ?thesis using f by (auto intro: actionFrame_trans)
  qed
qed

lemma portSend_frame: "inFrame (portSend E sv now w c b)"
proof (rule inFrameI)
  fix st :: "'a platform" and r st'
  assume p: "portSend E sv now w c b st = (r, st')"
  let ?F = "\<lambda>s s'. actionFrame s s' \<and> executionLogs s' = executionLogs s"
  show "?F (fst st) (fst st')"
  proof (cases "ruleSendTarget sv c (fst st)")
    case (Inl e)
    then show ?thesis using p by (simp add: portSend_def)
  next
    case (Inr x)
    obtain conv a f where x: "x = (conv, a, f)" by (cases x) auto
    obtain r1 s1 where g: "getSecret E (la_credentialsRef a) \<lparr>cac_workspaceId = w, cac_actorType = ''rule'',
        cac_actorUserId = None, cac_audit = True\<rparr> (fst st) = (r1, s1)" by fastforce
    have f1: "?F (fst st) s1" by (rule tablesSame_frame [OF tablesSame_getSecret [OF g]])
    show ?thesis
    proof (cases r1)
      case (Inl e)
      then have "st' = (s1, snd st)" using p g Inr x by (simp add: portSend_def)
      then show ?thesis using f1 by simp
    next
      case (Inr token)
      obtain r2 p1 where s: "f \<lparr>om_conversationExternalId = cnv_externalId conv, om_bodyText = b\<rparr> (JStr token) (snd st) = (r2, p1)"
        by fastforce
      show ?thesis
      proof (cases r2)
        case (Inl e)
        then have "st' = (s1, p1)" using p g s \<open>r1 = Inr token\<close> Inr x \<open>ruleSendTarget sv c (fst st) = Inr x\<close> by (simp add: portSend_def)
        then show ?thesis using f1 by simp
      next
        case (Inr res)
        obtain r3 s2 where a: "afterRuleSend E now w c b (snd_externalId res) s1 = (r3, s2)" by fastforce
        then have "fst st' = s2"
          using p g s Inr \<open>r1 = Inr token\<close> \<open>ruleSendTarget sv c (fst st) = Inr x\<close> x by (auto simp: portSend_def)
        moreover have "c \<in> set (map cnv_id (conversations (fst st)))"
          using \<open>ruleSendTarget sv c (fst st) = Inr x\<close>
          by (auto simp: ruleSendTarget_def anyConversation_def split: option.splits dest!: findFirst_SomeD)
        then have "c \<in> set (map cnv_id (conversations s1))" using f1 unfolding convIds_id by (simp add: actionFrame_def)
        ultimately show ?thesis using f1 afterRuleSend_frame [OF a] by (auto intro: actionFrame_trans)
      qed
    qed
  qed
qed

lemma portWebhook_frame: "inFrame (portWebhook sv u b)"
  by (rule inFrameI) (auto simp: portWebhook_def split: prod.splits sum.splits)

lemmas port_frames = portNotify_frame portTag_frame portSend_frame portWebhook_frame

lemma settle_frame:
  assumes "inFrame m" "settle ty m st = (r, st')"
  shows "actionFrame (fst st) (fst st') \<and> executionLogs (fst st') = executionLogs (fst st)"
proof -
  obtain q st1 where m: "m st = (q, st1)" by (meson surj_pair)
  then have "st' = st1" using assms(2) by (cases q) (auto simp: settle_def)
  then show ?thesis using inFrameD [OF assms(1) m] by simp
qed

lemma executeStep_frame:
  assumes "executeStep toText step ctx (buildPorts E sv now w c) st = (r, st')"
  shows "actionFrame (fst st) (fst st') \<and> executionLogs (fst st') = executionLogs (fst st)"
proof (cases "Option.bind (objectEntries (step_params step)) (renderParams toText ctx)")
  case None
  then show ?thesis using assms by (simp add: executeStep_def)
next
  case (Some params)
  obtain q st1 where q: "runStep (step_type step) params (buildPorts E sv now w c) st = (q, st1)" by (meson surj_pair)
  then have "st' = st1" using assms Some by (simp add: executeStep_def)
  moreover have "(\<exists>m ty. inFrame m \<and> settle ty m st = (q, st1)) \<or> st1 = st"
    using q port_frames unfolding runStep_def buildPorts_def
    by (auto split: if_splits) blast+
  ultimately show ?thesis using \<open>st' = st1\<close> by (elim disjE exE conjE) (blast dest: settle_frame, simp)
qed

lemma executeActions_frame:
  assumes "executeActions toText steps ctx (buildPorts E sv now w c) st = (r, st')"
  shows "actionFrame (fst st) (fst st') \<and> executionLogs (fst st') = executionLogs (fst st)"
proof -
  have "actionFrame (fst st) (fst st') \<and> executionLogs (fst st') = executionLogs (fst st)"
    if "executeSteps toText steps ctx (buildPorts E sv now w c) st = (rs, st')" for rs
    using that
  proof (induction steps arbitrary: st rs)
    case (Cons step steps)
    obtain q st1 where q: "executeStep toText step ctx (buildPorts E sv now w c) st = (q, st1)" by (meson surj_pair)
    show ?case
    proof (cases q)
      case None
      then have "st' = st1" using Cons.prems q by simp
      then show ?thesis using executeStep_frame [OF q] by simp
    next
      case (Some x)
      then obtain rs' where "executeSteps toText steps ctx (buildPorts E sv now w c) st1 = (rs', st')"
        using Cons.prems q by (auto split: prod.splits)
      from Cons.IH [OF this] executeStep_frame [OF q] show ?thesis
        by (auto intro: actionFrame_trans)
    qed
  qed simp
  moreover obtain rs where "executeSteps toText steps ctx (buildPorts E sv now w c) st = (rs, st')"
    using assms by (auto simp: executeActions_def split: prod.splits)
  ultimately show ?thesis by blast
qed

section \<open>One run of a rule\<close>

definition ruleKey :: "Rule \<Rightarrow> string \<Rightarrow> uuid \<times> nat \<times> string" where
  "ruleKey r trig = (rul_id r, rul_version r, trig)"

lemma runRule_skip:
  "ruleKey r trig \<in> logKey ` set (executionLogs (fst st)) \<Longrightarrow> runRule E sv now r trig ctx mid cid w st = st"
  by (auto simp: runRule_def ruleKey_def list_ex_iff)

lemma recordExecution_new:
  assumes "ruleKey r trig \<notin> logKey ` set (executionLogs s)"
  shows "\<exists>l. recordExecution E now w r trig mid status executed s = (drawn 1 s)\<lparr>executionLogs := executionLogs s @ [l]\<rparr>
    \<and> logKey l = ruleKey r trig"
proof -
  define l where "l = \<lparr>rel_id = draw E s, rel_workspaceId = w, rel_ruleId = rul_id r, rel_ruleVersion = rul_version r,
    rel_triggerEventId = trig, rel_messageId = mid, rel_matchedAt = now, rel_actionsExecuted = executed, rel_status = status,
    rel_errorDetail = (if status = Failure then Some ''All actions failed - see actionsExecuted for detail.'' else None)\<rparr>"
  have l: "logKey l = ruleKey r trig" by (simp add: l_def logKey_def ruleKey_def)
  have "\<not> list_ex (\<lambda>x. logKey x = logKey l) (executionLogs s)" using assms unfolding l by (force simp: list_ex_iff)
  then have "recordExecution E now w r trig mid status executed s = (drawn 1 s)\<lparr>executionLogs := executionLogs s @ [l]\<rparr>"
    unfolding recordExecution_def Let_def l_def by (rule if_not_P)
  then show ?thesis using l by blast
qed

lemma runRule_logs:
  assumes "ruleKey r trig \<notin> logKey ` set (executionLogs (fst st))"
  shows "actionFrame (fst st) (fst (runRule E sv now r trig ctx mid cid w st)) \<and>
    (\<exists>l. executionLogs (fst (runRule E sv now r trig ctx mid cid w st)) = executionLogs (fst st) @ [l]
      \<and> logKey l = ruleKey r trig)"
proof -
  obtain res st1 where x: "executeActions (sv_toText sv) (rul_actions r) ctx (buildPorts E sv now w cid) st = (res, st1)" by (meson surj_pair)
  obtain status executed where s: "(case res of None \<Rightarrow> (Failure, []) | Some y \<Rightarrow> y) = (status, executed)" by fastforce
  note f = executeActions_frame [OF x]
  let ?s = "emitToWorkspace w ''rule.executed'' (rul_id r) (recordExecution E now w r trig mid status executed (fst st1))"
  have "\<not> list_ex (\<lambda>l. logKey l = (rul_id r, rul_version r, trig)) (executionLogs (fst st))"
    using assms by (force simp: ruleKey_def list_ex_iff image_iff)
  then have e: "runRule E sv now r trig ctx mid cid w st = (?s, snd st1)"
    using x s by (simp add: runRule_def updW_def)
  have k: "ruleKey r trig \<notin> logKey ` set (executionLogs (fst st1))" using assms f by simp
  then obtain l where "recordExecution E now w r trig mid status executed (fst st1)
      = (drawn 1 (fst st1))\<lparr>executionLogs := executionLogs (fst st1) @ [l]\<rparr>" and lk: "logKey l = ruleKey r trig"
    using recordExecution_new by blast
  then have l: "executionLogs ?s = executionLogs (fst st) @ [l]" using f by (simp add: emitToWorkspace_def)
  have "actionFrame (fst st1) ?s"
    by (simp add: actionFrame_def ruleUntouched_def recordExecution_def Let_def emitToWorkspace_def drawn_def convIds_def)
  then show ?thesis using e f l lk by (auto intro: actionFrame_trans)
qed

text \<open>The frame of a run: that of its actions, and a log that stays one per rule and event.\<close>

definition ruleFrame :: "world \<Rightarrow> world \<Rightarrow> bool" where
  "ruleFrame s s' \<longleftrightarrow> actionFrame s s' \<and> (distinct (map logKey (executionLogs s)) \<longrightarrow> distinct (map logKey (executionLogs s')))"

lemma ruleFrame_refl [simp]: "ruleFrame s s"
  by (simp add: ruleFrame_def)

lemma ruleFrame_trans: "ruleFrame s s' \<Longrightarrow> ruleFrame s' s'' \<Longrightarrow> ruleFrame s s''"
  unfolding ruleFrame_def using actionFrame_trans by blast

lemma runRule_frame: "ruleFrame (fst st) (fst (runRule E sv now r trig ctx mid cid w st))"
proof (cases "ruleKey r trig \<in> logKey ` set (executionLogs (fst st))")
  case False
  from runRule_logs [OF False, of E sv now ctx mid cid w] obtain l where
    "executionLogs (fst (runRule E sv now r trig ctx mid cid w st)) = executionLogs (fst st) @ [l]" "logKey l = ruleKey r trig"
    and "actionFrame (fst st) (fst (runRule E sv now r trig ctx mid cid w st))" by blast
  then show ?thesis using False by (simp add: ruleFrame_def)
qed (simp add: runRule_skip)

section \<open>The rules of a message\<close>

definition verdict where
  "verdict sv now input nctx ai r = (if \<not> matchesTriggerScope (rul_trigger r) (Some (rc_providerKey input)) then Some False
     else evaluateConditionTree (sv_regex sv) now (receivedContext sv now input nctx ai r) (rul_conditions r))"

definition runMatched where
  "runMatched E sv now input nctx ai r = runRule E sv now r (rc_triggerEventId input) (receivedContext sv now input nctx ai r)
     (Some (msg_id (rc_message input))) (cnv_id (rc_conversation input)) (rc_workspaceId input)"

lemma tryRule_verdict:
  "tryRule E sv now input nctx ai r st = (case verdict sv now input nctx ai r of
     None \<Rightarrow> (Inl invalidPattern, st) | Some False \<Rightarrow> (Inr (), st)
   | Some True \<Rightarrow> (Inr (), runMatched E sv now input nctx ai r st))"
  by (simp add: tryRule_def verdict_def runMatched_def Let_def split: option.split bool.split)

lemma tryRule_frame: "tryRule E sv now input nctx ai r st = (res, st') \<Longrightarrow> ruleFrame (fst st) (fst st')"
  by (auto simp: tryRule_verdict runMatched_def split: option.splits bool.splits
      intro: runRule_frame)

text \<open>A list of rules none of whose patterns is invalid: every matching one is run and
  logged once.\<close>

lemma forEach_rules:
  assumes "\<forall>r\<in>set rs. verdict sv now input nctx ai r \<noteq> None" "distinct (map rul_id rs)"
    and "\<forall>l\<in>set (executionLogs (fst st)). \<forall>r\<in>set rs. logKey l \<noteq> ruleKey r (rc_triggerEventId input)"
  shows "\<exists>st'. forEach (tryRule E sv now input nctx ai) rs st = (Inr (), st') \<and> actionFrame (fst st) (fst st') \<and>
    map logKey (executionLogs (fst st')) = map logKey (executionLogs (fst st))
      @ map (\<lambda>r. ruleKey r (rc_triggerEventId input)) (filter (\<lambda>r. verdict sv now input nctx ai r = Some True) rs)"
  using assms
proof (induction rs arbitrary: st)
  case (Cons r rs)
  obtain b where b: "verdict sv now input nctx ai r = Some b" using Cons.prems(1) by auto
  obtain st1 where t: "tryRule E sv now input nctx ai r st = (Inr (), st1)"
    and f: "actionFrame (fst st) (fst st1)"
    and k: "map logKey (executionLogs (fst st1)) = map logKey (executionLogs (fst st))
      @ (if b then [ruleKey r (rc_triggerEventId input)] else [])"
  proof (cases b)
    case True
    let ?st = "runMatched E sv now input nctx ai r st"
    have "ruleKey r (rc_triggerEventId input) \<notin> logKey ` set (executionLogs (fst st))" using Cons.prems(3) by force
    from runRule_logs [OF this] obtain l where "actionFrame (fst st) (fst ?st)"
      "executionLogs (fst ?st) = executionLogs (fst st) @ [l]" "logKey l = ruleKey r (rc_triggerEventId input)"
      unfolding runMatched_def by blast
    then show ?thesis using True b by (intro that [of ?st]) (simp_all add: tryRule_verdict)
  next
    case False
    then show ?thesis using b by (intro that [of st]) (simp_all add: tryRule_verdict)
  qed
  have "\<forall>l\<in>set (executionLogs (fst st1)). \<forall>q\<in>set rs. logKey l \<noteq> ruleKey q (rc_triggerEventId input)"
  proof (intro ballI)
    fix l q assume l: "l \<in> set (executionLogs (fst st1))" and q: "q \<in> set rs"
    have "logKey l \<in> set (map logKey (executionLogs (fst st1)))" using l by simp
    then have "logKey l = ruleKey r (rc_triggerEventId input) \<or> logKey l \<in> logKey ` set (executionLogs (fst st))"
      unfolding k by (auto split: if_splits)
    moreover have "ruleKey q (rc_triggerEventId input) \<noteq> ruleKey r (rc_triggerEventId input)"
      using Cons.prems(2) q by (simp add: ruleKey_def) (metis image_eqI)
    ultimately show "logKey l \<noteq> ruleKey q (rc_triggerEventId input)" using Cons.prems(3) q by auto
  qed
  then obtain st' where st': "forEach (tryRule E sv now input nctx ai) rs st1 = (Inr (), st')"
    "actionFrame (fst st1) (fst st')" "map logKey (executionLogs (fst st')) = map logKey (executionLogs (fst st1))
      @ map (\<lambda>r. ruleKey r (rc_triggerEventId input)) (filter (\<lambda>r. verdict sv now input nctx ai r = Some True) rs)"
    using Cons.IH [of st1] Cons.prems(1,2) by auto
  then show ?case using t k f b by (intro exI [of _ st']) (auto intro: actionFrame_trans)
qed (simp add: ok_def)

lemma forEach_append:
  "forEach f (xs @ ys) = bindO (forEach f xs) (\<lambda>_. forEach f ys)"
proof (induction xs)
  case Nil
  show ?case by (rule ext) (simp add: ok_def)
next
  case (Cons x xs)
  show ?case by (rule ext) (simp add: Cons split: prod.splits sum.splits)
qed

lemma forEach_frame: "forEach (tryRule E sv now input nctx ai) rs st = (res, st') \<Longrightarrow> ruleFrame (fst st) (fst st')"
proof (induction rs arbitrary: st)
  case (Cons r rs)
  obtain q st1 where q: "tryRule E sv now input nctx ai r st = (q, st1)" by (meson surj_pair)
  show ?case
  proof (cases q)
    case (Inl e)
    then have "st' = st1" using Cons.prems q by simp
    then show ?thesis using tryRule_frame [OF q] by simp
  next
    case (Inr u)
    then have "forEach (tryRule E sv now input nctx ai) rs st1 = (res, st')" using Cons.prems q by simp
    from Cons.IH [OF this] tryRule_frame [OF q] show ?thesis by (rule ruleFrame_trans [rotated])
  qed
qed (simp add: ok_def)

lemma enrichMessage_same: "enrichMessage E now w b s = (ai, s') \<Longrightarrow> tablesSame s s'"
  by (auto simp: enrichMessage_def consume_def consumeWrite_def ledgerEntry_def tablesSame_def ruleUntouched_def drawn_def
      split: option.splits if_splits prod.splits sum.splits)

lemma tablesSame_ruleFrame: "tablesSame s s' \<Longrightarrow> ruleFrame s s'"
  using tablesSame_frame by (auto simp: ruleFrame_def)

lemma runMessageRules_frame:
  assumes "runMessageRules E sv now input st = (res, st')"
  shows "ruleFrame (fst st) (fst st')"
proof (cases "messageRules (rc_workspaceId input) (fst st) = []")
  case True
  then show ?thesis using assms by (simp add: runMessageRules_def)
next
  case False
  obtain ai s1 where e: "enrichMessage E now (rc_workspaceId input) (msg_bodyText (rc_message input)) (fst st) = (ai, s1)"
    by (meson surj_pair)
  then have "forEach (tryRule E sv now input (loadNotificationContext (rc_workspaceId input) (fst st)) ai)
      (messageRules (rc_workspaceId input) (fst st)) (s1, snd st) = (res, st')"
    using assms False by (simp add: runMessageRules_def Let_def)
  from forEach_frame [OF this] tablesSame_ruleFrame [OF enrichMessage_same [OF e]] show ?thesis
    by (auto intro: ruleFrame_trans)
qed

text \<open>What a rule of the workspace makes of a message, from the state the message
  arrives in: \<open>None\<close> when evaluating its conditions throws.\<close>

definition verdictIn where
  "verdictIn E sv now input s = verdict sv now input (loadNotificationContext (rc_workspaceId input) s)
     (fst (enrichMessage E now (rc_workspaceId input) (msg_bodyText (rc_message input)) s))"

definition freshEvent :: "string \<Rightarrow> world \<Rightarrow> bool" where
  "freshEvent trig s \<longleftrightarrow> list_all (\<lambda>l. rel_triggerEventId l \<noteq> trig) (executionLogs s)"

lemma freshEvent_key: "freshEvent trig s \<Longrightarrow> l \<in> set (executionLogs s) \<Longrightarrow> logKey l \<noteq> ruleKey r trig"
  by (auto simp: freshEvent_def logKey_def ruleKey_def list_all_iff)

lemma distinct_messageRules: "distinct (map rul_id (rules s)) \<Longrightarrow> distinct (map rul_id (messageRules w s))"
proof -
  assume d: "distinct (map rul_id (rules s))"
  have "mset (map rul_id (messageRules w s)) = mset (map rul_id (filter (\<lambda>r. rul_deletedAt r = None \<and> rul_workspaceId r = w
     \<and> rul_triggerType r = ''message.received'' \<and> rul_isEnabled r) (rules s)))"
    by (simp add: messageRules_def)
  then show ?thesis using distinct_map_filter [OF d] mset_eq_imp_distinct_iff by blast
qed

text \<open>A stretch of the rules run over the enriched state.\<close>

lemma run_valid_rules:
  assumes e: "enrichMessage E now (rc_workspaceId input) (msg_bodyText (rc_message input)) (fst st) = (ai, s1)"
    and rs: "\<forall>r\<in>set rs. verdictIn E sv now input (fst st) r \<noteq> None" "distinct (map rul_id rs)"
    and f: "freshEvent (rc_triggerEventId input) (fst st)"
  shows "\<exists>st'. forEach (tryRule E sv now input (loadNotificationContext (rc_workspaceId input) (fst st)) ai) rs (s1, snd st)
        = (Inr (), st') \<and>
      map logKey (executionLogs (fst st')) = map logKey (executionLogs (fst st))
        @ map (\<lambda>r. ruleKey r (rc_triggerEventId input)) (filter (\<lambda>r. verdictIn E sv now input (fst st) r = Some True) rs)"
proof -
  have l: "executionLogs s1 = executionLogs (fst st)"
    using enrichMessage_same [OF e] by (simp add: tablesSame_def)
  have v: "verdictIn E sv now input (fst st) = verdict sv now input (loadNotificationContext (rc_workspaceId input) (fst st)) ai"
    by (simp add: verdictIn_def e)
  have "\<forall>l\<in>set (executionLogs (fst (s1, snd st))). \<forall>r\<in>set rs. logKey l \<noteq> ruleKey r (rc_triggerEventId input)"
    using freshEvent_key [OF f] by (simp add: l)
  from forEach_rules [OF rs(1)[unfolded v] rs(2) this, of E] show ?thesis unfolding v fst_conv l by blast
qed

text \<open>C3: when no rule's pattern is invalid, a received message runs every enabled rule
  of the workspace in scope whose conditions hold, once each and in order of priority:
  the execution log gains exactly one row per such rule, whatever the actions of the
  others did, failures included.\<close>

theorem matching_rules_run_once_each:
  assumes "distinct (map rul_id (rules (fst st)))" "freshEvent (rc_triggerEventId input) (fst st)"
    and "\<forall>r\<in>set (messageRules (rc_workspaceId input) (fst st)). verdictIn E sv now input (fst st) r \<noteq> None"
  shows "\<exists>st'. runMessageRules E sv now input st = (Inr (), st') \<and>
    map logKey (executionLogs (fst st')) = map logKey (executionLogs (fst st))
      @ map (\<lambda>r. ruleKey r (rc_triggerEventId input))
          (filter (\<lambda>r. verdictIn E sv now input (fst st) r = Some True) (messageRules (rc_workspaceId input) (fst st)))"
proof (cases "messageRules (rc_workspaceId input) (fst st) = []")
  case False
  obtain ai s1 where e: "enrichMessage E now (rc_workspaceId input) (msg_bodyText (rc_message input)) (fst st) = (ai, s1)"
    by (meson surj_pair)
  from run_valid_rules [OF e assms(3) distinct_messageRules [OF assms(1)] assms(2)] show ?thesis
    using e False by (simp add: runMessageRules_def)
qed (simp add: runMessageRules_def)

text \<open>A rule whose pattern does not compile stops the loop: the rules before it in
  order of priority run, the exception leaves the handler, and no rule after it is
  even evaluated.\<close>

theorem invalid_pattern_stops_rules:
  assumes "distinct (map rul_id (rules (fst st)))" "freshEvent (rc_triggerEventId input) (fst st)"
    and "messageRules (rc_workspaceId input) (fst st) = earlier @ r # rest"
    and "\<forall>r\<in>set earlier. verdictIn E sv now input (fst st) r \<noteq> None" "verdictIn E sv now input (fst st) r = None"
  shows "\<exists>st'. runMessageRules E sv now input st = (Inl invalidPattern, st') \<and>
    map logKey (executionLogs (fst st')) = map logKey (executionLogs (fst st))
      @ map (\<lambda>r. ruleKey r (rc_triggerEventId input)) (filter (\<lambda>r. verdictIn E sv now input (fst st) r = Some True) earlier)"
proof -
  obtain ai s1 where e: "enrichMessage E now (rc_workspaceId input) (msg_bodyText (rc_message input)) (fst st) = (ai, s1)"
    by (meson surj_pair)
  have d: "distinct (map rul_id earlier)"
    using distinct_messageRules [OF assms(1), of "rc_workspaceId input"] by (simp add: assms(3))
  from run_valid_rules [OF e assms(4) d assms(2)] obtain st' where st':
    "forEach (tryRule E sv now input (loadNotificationContext (rc_workspaceId input) (fst st)) ai) earlier (s1, snd st) = (Inr (), st')"
    "map logKey (executionLogs (fst st')) = map logKey (executionLogs (fst st))
      @ map (\<lambda>r. ruleKey r (rc_triggerEventId input)) (filter (\<lambda>r. verdictIn E sv now input (fst st) r = Some True) earlier)"
    by blast
  have "verdict sv now input (loadNotificationContext (rc_workspaceId input) (fst st)) ai r = None"
    using assms(5) by (simp add: verdictIn_def e)
  then have "runMessageRules E sv now input st = (Inl invalidPattern, st')"
    using st'(1) e by (simp add: runMessageRules_def assms(3) forEach_append tryRule_verdict)
  then show ?thesis using st'(2) by blast
qed

section \<open>A sample workspace with rules\<close>

definition sampleServices :: "unit services" where
  "sampleServices = \<lparr>sv_registry = [], sv_clock = (\<lambda>z t. ''12:00''), sv_regex = (\<lambda>p s. if p = ''('' then None else Some True),
     sv_toText = (\<lambda>v. []), sv_parseUrl = (\<lambda>u. None), sv_lookup = (\<lambda>h. throw ''ENOTFOUND''),
     sv_fetch = (\<lambda>u b. throw ''fetch failed''), sv_pushConfigured = False, sv_push = (\<lambda>x t b. ok ())\<rparr>"

definition sampleRule :: "uuid \<Rightarrow> int \<Rightarrow> ConditionNode \<Rightarrow> Rule" where
  "sampleRule i p c = \<lparr>rul_id = i, rul_workspaceId = 11, rul_createdByUserId = 21, rul_name = ''Rule'', rul_isEnabled = True,
     rul_priority = p, rul_triggerType = ''message.received'',
     rul_trigger = \<lparr>trigType = ''message.received'', scopeProviderKey = JUndef, paramHours = None\<rparr>,
     rul_conditions = c, rul_actions = [], rul_version = 1, rul_createdAt = 0, rul_updatedAt = 0, rul_deletedAt = None\<rparr>"

definition badPattern :: ConditionNode where
  "badPattern = ConditionLeaf ''message.bodyText'' MatchesRegex (JStr ''('')"

definition sampleReceived :: received where
  "sampleReceived = \<lparr>rc_triggerEventId = ''e1'', rc_workspaceId = 11, rc_providerKey = ''mock'',
     rc_message = \<lparr>msg_id = 41, msg_workspaceId = 11, msg_conversationId = 31, msg_externalId = ''x'', msg_senderContactId = Some 51,
       msg_direction = Inbound, msg_bodyText = ''hi'', msg_receivedAt = 0, msg_deletedAt = None\<rparr>,
     rc_conversation = \<lparr>cnv_id = 31, cnv_workspaceId = 11, cnv_providerId = 61, cnv_linkedAccountId = None, cnv_externalId = ''c'',
       cnv_title = None, cnv_lastMessageAt = None, cnv_priorityScore = 0, cnv_isArchived = False, cnv_category = None,
       cnv_tags = [], cnv_lastReadAt = None, cnv_createdAt = 0, cnv_deletedAt = None\<rparr>,
     rc_contact = \<lparr>con_id = 51, con_workspaceId = 11, con_displayName = ''Ann'', con_isVip = False, con_createdAt = 0,
       con_deletedAt = None\<rparr>\<rparr>"

definition rulesWorld :: "Rule list \<Rightarrow> world" where
  "rulesWorld rs = emptyWorld\<lparr>rules := rs\<rparr>"

lemma rulesWorld_simps [simp]:
  "rules (rulesWorld rs) = rs" "executionLogs (rulesWorld rs) = []" "freshEvent t (rulesWorld rs)"
  by (simp_all add: rulesWorld_def emptyWorld_def freshEvent_def)

lemma verdict_always: "rul_conditions r = ConditionGroup AND [] \<Longrightarrow> scopeProviderKey (rul_trigger r) = JUndef \<Longrightarrow>
  verdictIn E sv now input s r = Some True"
  by (simp add: verdictIn_def verdict_def matchesTriggerScope_def truthy_def)

lemma verdict_bad: "rul_conditions r = badPattern \<Longrightarrow> scopeProviderKey (rul_trigger r) = JUndef \<Longrightarrow>
  sv_regex sv ''('' (msg_bodyText (rc_message input)) = None \<Longrightarrow> verdictIn E sv now input s r = None"
  by (simp add: verdictIn_def verdict_def matchesTriggerScope_def truthy_def badPattern_def resolveField_def isStalePrefix_def
      contextSection_def receivedContext_def buildContext_def walkPath_def stepPath_def pathKeys_def nullish_def
      getProp_def Let_def)

theorem matching_rules_run_once_each_witness:
  "\<exists>st'. runMessageRules sampleEnv sampleServices 0 sampleReceived
     (rulesWorld [sampleRule 1 5 (ConditionGroup AND []), sampleRule 2 9 (ConditionGroup AND [])], ()) = (Inr (), st') \<and>
   map logKey (executionLogs (fst st')) = [(2, 1, ''e1''), (1, 1, ''e1'')]"
proof -
  let ?rs = "[sampleRule 1 5 (ConditionGroup AND []), sampleRule 2 9 (ConditionGroup AND [])]"
  have m: "messageRules 11 (rulesWorld ?rs) = [sampleRule 2 9 (ConditionGroup AND []), sampleRule 1 5 (ConditionGroup AND [])]"
    by (simp add: messageRules_def sampleRule_def)
  have v: "verdictIn sampleEnv sampleServices 0 sampleReceived s (sampleRule i p (ConditionGroup AND [])) = Some True" for s i p
    by (rule verdict_always) (simp_all add: sampleRule_def)
  have w: "rc_workspaceId sampleReceived = 11" by (simp add: sampleReceived_def)
  have d: "distinct (map rul_id (rules (fst (rulesWorld ?rs, ()))))" by (simp add: sampleRule_def)
  have k: "ruleKey (sampleRule i p c) (rc_triggerEventId sampleReceived) = (i, 1, ''e1'')" for i p c
    by (simp add: ruleKey_def sampleRule_def sampleReceived_def)
  from matching_rules_run_once_each [OF d, of sampleReceived sampleEnv sampleServices 0] show ?thesis
    unfolding fst_conv w m by (auto simp: v k)
qed

theorem invalid_pattern_stops_rules_witness:
  "\<exists>st'. runMessageRules sampleEnv sampleServices 0 sampleReceived
     (rulesWorld [sampleRule 1 5 (ConditionGroup AND []), sampleRule 2 9 badPattern], ()) = (Inl invalidPattern, st') \<and>
   executionLogs (fst st') = []"
proof -
  let ?rs = "[sampleRule 1 5 (ConditionGroup AND []), sampleRule 2 9 badPattern]"
  have m: "messageRules 11 (rulesWorld ?rs) = [] @ sampleRule 2 9 badPattern # [sampleRule 1 5 (ConditionGroup AND [])]"
    by (simp add: messageRules_def sampleRule_def)
  have v: "verdictIn sampleEnv sampleServices 0 sampleReceived (rulesWorld ?rs) (sampleRule 2 9 badPattern) = None"
    by (rule verdict_bad) (simp_all add: sampleRule_def sampleServices_def)
  have w: "rc_workspaceId sampleReceived = 11" by (simp add: sampleReceived_def)
  have "distinct (map rul_id (rules (fst (rulesWorld ?rs, ()))))" by (simp add: sampleRule_def)
  from invalid_pattern_stops_rules [OF this, of sampleReceived "[]" "sampleRule 2 9 badPattern" _ sampleEnv sampleServices 0] m v w
  show ?thesis by simp
qed

end
