(* ===== verification/Delivery_Properties.thy ===== *)
theory Delivery_Properties
  imports Ingestion_Properties
begin

text \<open>
  What processing an inbound message keeps and establishes: the unique keys and
  references of the rows, that a stored message stays stored, that a redelivery is
  silent, and that working off the queue stores every published message.
\<close>

section \<open>The unique keys and references\<close>

definition uniqueKeys :: "world \<Rightarrow> bool" where
  "uniqueKeys s \<longleftrightarrow> distinct (map prov_key (providers s)) \<and> distinct (map identityKey (contactIdentities s))
     \<and> distinct (map convKey (conversations s)) \<and> distinct (map msgKey (messages s))
     \<and> distinct (map logKey (executionLogs s))"

definition references :: "world \<Rightarrow> bool" where
  "references s \<longleftrightarrow> (\<forall>i\<in>set (contactIdentities s). cid_contactId i \<in> con_id ` set (contacts s))
     \<and> (\<forall>m\<in>set (messages s). msg_conversationId m \<in> set (map cnv_id (conversations s)) \<and>
          (\<forall>i. msg_senderContactId m = Some i \<longrightarrow> i \<in> con_id ` set (contacts s)))"

definition ingestInv :: "world \<Rightarrow> bool" where
  "ingestInv s \<longleftrightarrow> uniqueKeys s \<and> references s"

text \<open>The tables the invariant reads.\<close>

definition ingestTables where
  "ingestTables s = (providers s, contactIdentities s, contacts s, convIds s, messages s, executionLogs s)"

lemma map_convKey: "map convKey (conversations s) = map snd (convIds s)"
  by (simp add: convIds_def)

lemma ingestInv_cong: "ingestTables s' = ingestTables s \<Longrightarrow> ingestInv s \<Longrightarrow> ingestInv s'"
  by (simp add: ingestInv_def uniqueKeys_def references_def ingestTables_def map_convKey convIds_id)

lemma ingestInv_ruleFrame:
  assumes i: "ingestInv s" and f: "ruleFrame s s'"
  shows "ingestInv s'"
proof -
  obtain ms where m: "messages s' = messages s @ ms"
      "\<forall>m\<in>set ms. msg_conversationId m \<in> set (map cnv_id (conversations s)) \<and> msg_senderContactId m = None"
    and d: "distinct (map msgKey (messages s'))" "distinct (map logKey (executionLogs s'))"
    and c: "convIds s' = convIds s" and u: "ruleUntouched s' = ruleUntouched s"
    using i f by (auto simp: ruleFrame_def actionFrame_def ingestInv_def uniqueKeys_def)
  have t: "providers s' = providers s" "contactIdentities s' = contactIdentities s" "contacts s' = contacts s"
    using u by (simp_all add: ruleUntouched_def)
  have "uniqueKeys s'" using i d c t by (simp add: ingestInv_def uniqueKeys_def map_convKey)
  moreover have "references s'"
    using i m c by (auto simp: ingestInv_def references_def t convIds_id)
  ultimately show ?thesis by (simp add: ingestInv_def)
qed

section \<open>The rows of a payload are there\<close>

definition stored :: "InboundMessagePayload \<Rightarrow> world \<Rightarrow> bool" where
  "stored pl s \<longleftrightarrow> (\<exists>p\<in>set (providers s). prov_key p = pl_providerKey pl \<and>
     (\<exists>i\<in>set (contactIdentities s). identityKey i = (prov_id p, pl_senderExternalId pl, pl_workspaceId pl)) \<and>
     (\<exists>x\<in>set (convIds s). snd x = payloadConvKey (prov_id p) pl \<and>
        (\<exists>m\<in>set (messages s). msgKey m = (fst x, pl_messageExternalId pl))))"

text \<open>Rows are only added.\<close>

definition grows :: "world \<Rightarrow> world \<Rightarrow> bool" where
  "grows s s' \<longleftrightarrow> set (providers s) \<subseteq> set (providers s') \<and> set (contactIdentities s) \<subseteq> set (contactIdentities s')
     \<and> set (convIds s) \<subseteq> set (convIds s') \<and> set (messages s) \<subseteq> set (messages s')
     \<and> ws_id ` set (workspaces s) \<subseteq> ws_id ` set (workspaces s')"

lemma grows_refl [simp]: "grows s s"
  by (simp add: grows_def)

lemma grows_trans: "grows s s' \<Longrightarrow> grows s' s'' \<Longrightarrow> grows s s''"
  unfolding grows_def by (elim conjE, intro conjI; erule (1) subset_trans)

lemma growsD:
  assumes "grows s s'"
  shows "p \<in> set (providers s) \<Longrightarrow> p \<in> set (providers s')"
    "i \<in> set (contactIdentities s) \<Longrightarrow> i \<in> set (contactIdentities s')"
    "x \<in> set (convIds s) \<Longrightarrow> x \<in> set (convIds s')" "m \<in> set (messages s) \<Longrightarrow> m \<in> set (messages s')"
  using assms by (auto simp: grows_def dest: subsetD)

lemma stored_grows:
  assumes "stored pl s" "grows s s'"
  shows "stored pl s'"
proof -
  obtain p i x m where "p \<in> set (providers s)" "prov_key p = pl_providerKey pl"
    "i \<in> set (contactIdentities s)" "identityKey i = (prov_id p, pl_senderExternalId pl, pl_workspaceId pl)"
    "x \<in> set (convIds s)" "snd x = payloadConvKey (prov_id p) pl"
    "m \<in> set (messages s)" "msgKey m = (fst x, pl_messageExternalId pl)"
    using assms(1) unfolding stored_def by (elim bexE conjE)
  then show ?thesis unfolding stored_def using growsD [OF assms(2)]
    by (intro bexI [of _ p] bexI [of _ i] bexI [of _ x] bexI [of _ m] conjI)
qed

lemma grows_ruleFrame: "ruleFrame s s' \<Longrightarrow> grows s s'"
  by (auto simp: ruleFrame_def actionFrame_def grows_def ruleUntouched_def)

section \<open>The steps of a message\<close>

text \<open>Each step keeps the invariant and only adds rows.\<close>

lemma provisionDev_keeps:
  "ingestTables (provisionDev now w s) = ingestTables s" "grows s (provisionDev now w s)"
  by (auto simp: provisionDev_def ingestTables_def grows_def Let_def convIds_def)

lemma upsertProvider_keeps:
  assumes "upsertProvider E key s = (p, s')" "ingestInv s"
  shows "ingestInv s' \<and> grows s s' \<and> p \<in> set (providers s') \<and> prov_key p = key"
proof (cases "findFirst (\<lambda>p. prov_key p = key) (providers s)")
  case None
  then have s': "p = \<lparr>prov_id = draw E s, prov_key = key\<rparr>" "s' = (drawn 1 s)\<lparr>providers := providers s @ [p]\<rparr>"
    using assms(1) by (auto simp: upsertProvider_def Let_def)
  have "key \<notin> prov_key ` set (providers s)" using None by (auto simp: findFirst_None_iff)
  then show ?thesis using assms(2) by (auto simp: s' ingestInv_def uniqueKeys_def references_def grows_def drawn_def convIds_def)
next
  case (Some q)
  then have "p = q" "s' = drawn 1 s" using assms(1) by (simp_all add: upsertProvider_def)
  then show ?thesis
    using Some assms(2) ingestInv_cong [of "drawn 1 s" s]
    by (auto simp: ingestTables_def grows_def drawn_def convIds_def dest: findFirst_SomeD)
qed

lemma resolveIdentity_keeps:
  assumes "resolveIdentity E now input s = (r, s')" "ingestInv s"
  shows "ingestInv s' \<and> grows s s' \<and> (workspaceExists s (ri_workspaceId input) \<or> (\<exists>c. r = Inr c) \<longrightarrow>
    (\<exists>c i. r = Inr c \<and> con_id c \<in> con_id ` set (contacts s') \<and> i \<in> set (contactIdentities s') \<and> identityKey i = inputKey input))
    \<and> conversations s' = conversations s \<and> messages s' = messages s \<and> providers s' = providers s"
proof (cases "findFirst (\<lambda>i. identityKey i = inputKey input) (contactIdentities s)")
  case (Some i)
  then have i: "i \<in> set (contactIdentities s)" "identityKey i = inputKey input" by (auto dest: findFirst_SomeD)
  then have "cid_contactId i \<in> con_id ` set (contacts s)" using assms(2) by (auto simp: ingestInv_def references_def)
  then obtain c where c: "contactOf s (cid_contactId i) = Some c" unfolding contactOf_def
    by (metis (mono_tags, lifting) findFirst_ex imageE)
  then have "r = Inr c" "s' = s" using assms(1) Some by (simp_all add: resolveIdentity_def)
  then show ?thesis using i c assms(2) by (auto simp: contactOf_def dest: findFirst_SomeD)
next
  case None
  then have new: "inputKey input \<notin> identityKey ` set (contactIdentities s)" by (auto simp: findFirst_None_iff)
  have t: "transactionO (createContactTx E now input) s = (r, s')"
    using assms(1) None by (simp add: resolveIdentity_def)
  show ?thesis
  proof (cases "workspaceExists s (ri_workspaceId input)")
    case False
    then have "r = Inl foreignKeyError" "s' = s" using t by (auto simp: transactionO_def createContactTx_def)
    then show ?thesis using False assms(2) by simp
  next
    case True
    then obtain c i where s': "r = Inr c" "s' = (drawn 2 s)\<lparr>contacts := contacts s @ [c], contactIdentities := contactIdentities s @ [i]\<rparr>"
      and i: "cid_contactId i = con_id c" "identityKey i = inputKey input"
      using t by (auto simp: transactionO_def createContactTx_def Let_def identityKey_def inputKey_def)
    show ?thesis
      using assms(2) new i
      by (auto simp: s' ingestInv_def uniqueKeys_def references_def grows_def drawn_def convIds_def)
  qed
qed

lemma touch_keys [simp]: "cnv_id (touchConversation pl c) = cnv_id c" "convKey (touchConversation pl c) = convKey c"
  by (simp_all add: touchConversation_def convKey_def)

lemma convIds_setConversation:
  assumes "\<And>c. cnv_id (f c) = cnv_id c" "\<And>c. convKey (f c) = convKey c"
  shows "convIds (setConversation i f s) = convIds s"
  using assms by (simp add: convIds_def setConversation_def map_updateMany)

lemma upsertConversation_keeps:
  assumes "upsertConversation E now provId pl s = (c, s')" "ingestInv s"
  shows "ingestInv s' \<and> grows s s' \<and> (cnv_id c, payloadConvKey provId pl) \<in> set (convIds s')
    \<and> contacts s' = contacts s \<and> contactIdentities s' = contactIdentities s \<and> messages s' = messages s \<and> providers s' = providers s"
proof (cases "findFirst (\<lambda>c. convKey c = payloadConvKey provId pl) (conversations s)")
  case (Some q)
  then have q: "q \<in> set (conversations s)" "convKey q = payloadConvKey provId pl" by (auto dest: findFirst_SomeD)
  have s': "c = touchConversation pl q"
    "s' = (drawn 1 s)\<lparr>conversations := updateMany (\<lambda>c. convKey c = payloadConvKey provId pl) (touchConversation pl) (conversations s)\<rparr>"
    using assms(1) Some by (simp_all add: upsertConversation_def)
  have k: "convIds s' = convIds s" by (simp add: s' convIds_def map_updateMany)
  then have "ingestTables s' = ingestTables s" by (simp add: ingestTables_def s' drawn_def)
  from ingestInv_cong [OF this assms(2)] show ?thesis
    using q k by (auto simp: grows_def s' drawn_def) (auto simp: convIds_def)
next
  case None
  then have new: "payloadConvKey provId pl \<notin> convKey ` set (conversations s)" by (auto simp: findFirst_None_iff)
  have s': "c = newConversation (draw E s) now provId pl" "s' = (drawn 1 s)\<lparr>conversations := conversations s @ [c]\<rparr>"
    using assms(1) None by (auto simp: upsertConversation_def Let_def)
  have k: "convKey c = payloadConvKey provId pl"
    by (simp add: s'(1) newConversation_def convKey_def payloadConvKey_def)
  show ?thesis
    using assms(2) new k by (auto simp: s'(2) ingestInv_def uniqueKeys_def references_def grows_def drawn_def convIds_def)
qed

lemma resolveRows_keeps:
  assumes "resolveRows E now pl s = (r, s')" "ingestInv s"
  shows "ingestInv s' \<and> grows s s' \<and> (workspaceExists (provisionDev now (pl_workspaceId pl) s) (pl_workspaceId pl) \<longrightarrow> (\<exists>x. r = Inr x))
    \<and> (\<forall>contact c. r = Inr (contact, c) \<longrightarrow> con_id contact \<in> con_id ` set (contacts s') \<and>
      (\<exists>p\<in>set (providers s'). prov_key p = pl_providerKey pl \<and>
        (\<exists>i\<in>set (contactIdentities s'). identityKey i = (prov_id p, pl_senderExternalId pl, pl_workspaceId pl)) \<and>
        (cnv_id c, payloadConvKey (prov_id p) pl) \<in> set (convIds s')))"
proof -
  let ?s0 = "provisionDev now (pl_workspaceId pl) s"
  have i0: "ingestInv ?s0" "grows s ?s0"
    using provisionDev_keeps [where now = now and w = "pl_workspaceId pl" and s = s] ingestInv_cong [OF _ assms(2)] by auto
  obtain p s1 where p: "upsertProvider E (pl_providerKey pl) ?s0 = (p, s1)" by (meson surj_pair)
  note i1 = upsertProvider_keeps [OF p i0(1)]
  obtain r2 s2 where r2: "resolveIdentity E now (senderInput (prov_id p) pl) s1 = (r2, s2)" by (meson surj_pair)
  note i2 = resolveIdentity_keeps [OF r2 conjunct1 [OF i1]]
  have w: "workspaceExists s1 (ri_workspaceId (senderInput (prov_id p) pl)) = workspaceExists ?s0 (pl_workspaceId pl)"
    using p by (auto simp: senderInput_def upsertProvider_def Let_def workspaceExists_def drawn_def split: option.splits)
  show ?thesis
  proof (cases r2)
    case (Inl e)
    then have "r = Inl e" "s' = s2" using assms(1) p r2 by (auto simp: resolveRows_def)
    then show ?thesis using i0 i1 i2 w Inl by (auto intro: grows_trans)
  next
    case (Inr contact)
    obtain c s3 where c: "upsertConversation E now (prov_id p) pl s2 = (c, s3)" by (meson surj_pair)
    note i3 = upsertConversation_keeps [OF c conjunct1 [OF i2]]
    have rs: "r = Inr (contact, c)" "s' = s3" using assms(1) p r2 c Inr by (auto simp: resolveRows_def)
    obtain i where i: "i \<in> set (contactIdentities s2)" "identityKey i = inputKey (senderInput (prov_id p) pl)"
      and k: "con_id contact \<in> con_id ` set (contacts s2)" using i2 Inr by auto
    have "identityKey i = (prov_id p, pl_senderExternalId pl, pl_workspaceId pl)"
      using i(2) by (simp add: inputKey_def senderInput_def)
    then have "\<exists>p\<in>set (providers s'). prov_key p = pl_providerKey pl \<and>
        (\<exists>i\<in>set (contactIdentities s'). identityKey i = (prov_id p, pl_senderExternalId pl, pl_workspaceId pl)) \<and>
        (cnv_id c, payloadConvKey (prov_id p) pl) \<in> set (convIds s')"
      using i(1) i1 i2 i3 rs(2) by (intro bexI [of _ p] conjI bexI [of _ i]) auto
    moreover have "grows s s'" using i0(2) i1 i2 i3 rs(2) by (auto intro: grows_trans)
    ultimately show ?thesis using i3 rs k by auto
  qed
qed

lemma storeMessage_keeps:
  assumes "storeMessage E pl contact c s = (m, s')" "ingestInv s" "\<not> isDuplicate c pl s"
    and "cnv_id c \<in> set (map cnv_id (conversations s))" "con_id contact \<in> con_id ` set (contacts s)"
  shows "ingestInv s' \<and> grows s s' \<and> m \<in> set (messages s') \<and> msgKey m = (cnv_id c, pl_messageExternalId pl)"
proof -
  let ?s1 = "(drawn 1 s)\<lparr>messages := messages s @ [inboundRow (draw E s) pl contact c]\<rparr>"
  have m: "m = inboundRow (draw E s) pl contact c" using assms(1) by (simp add: storeMessage_def Let_def)
  have k: "msgKey m = (cnv_id c, pl_messageExternalId pl)" by (simp add: m inboundRow_def msgKey_def)
  have "msgKey m \<notin> msgKey ` set (messages s)"
    using assms(3) unfolding k by (auto simp: isDuplicate_def list_ex_iff msgKey_def)
  then have i1: "ingestInv ?s1"
    using assms(2,4,5) by (auto simp: ingestInv_def uniqueKeys_def references_def m drawn_def inboundRow_def)
  have c: "convIds (setConversation x (\<lambda>x. x\<lparr>cnv_priorityScore := p\<rparr>) t) = convIds t" for x p t
    by (rule convIds_setConversation) (simp_all add: convKey_def)
  have t: "ingestTables s' = ingestTables ?s1" "workspaces s' = workspaces s"
    using assms(1) by (auto simp: storeMessage_def Let_def ingestTables_def emitToWorkspace_def setConversation_def drawn_def
        convIds_def map_updateMany convKey_def split: if_splits)
  have "ingestInv s'" by (rule ingestInv_cong [OF t(1) i1])
  moreover have "grows s s'" "m \<in> set (messages s')"
    using t by (auto simp: ingestTables_def grows_def m drawn_def convIds_def)
  ultimately show ?thesis using k by blast
qed

text \<open>The no-reply jobs touch no table of the invariant.\<close>

definition jobsApart where
  "jobsApart s = (ingestTables s, workspaces s)"

lemma jobsApart_keeps: "jobsApart s' = jobsApart s \<Longrightarrow> ingestInv s \<Longrightarrow> ingestInv s' \<and> grows s s'"
  using ingestInv_cong [of s' s] by (auto simp: jobsApart_def grows_def ingestTables_def)

lemma scheduleRule_apart: "scheduleRule E now w c r s = (res, s') \<Longrightarrow> jobsApart s' = jobsApart s"
  by (auto simp: scheduleRule_def upsertScheduledJob_def queueAdd_def queueRemove_def jobsApart_def ingestTables_def drawn_def
      convIds_def Let_def split: if_splits option.splits)

lemma forEach_apart:
  "(\<And>x s r s'. f x s = (r, s') \<Longrightarrow> jobsApart s' = jobsApart s) \<Longrightarrow> forEach f xs s = (r, s') \<Longrightarrow> jobsApart s' = jobsApart s"
proof (induction xs arbitrary: s)
  case (Cons x xs)
  obtain q s1 where q: "f x s = (q, s1)" by (meson surj_pair)
  then show ?case using Cons.prems(1) [OF q] Cons.prems(2) Cons.IH [of s1, OF Cons.prems(1)] by (cases q) auto
qed (simp add: ok_def)

lemma cancelJob_apart: "jobsApart (cancelJob c j s) = jobsApart s"
  by (simp add: cancelJob_def Let_def queueRemove_def jobsApart_def ingestTables_def convIds_def)

lemma restartClock_apart: "restartClock E now pl c s = (r, s') \<Longrightarrow> jobsApart s' = jobsApart s"
proof -
  assume a: "restartClock E now pl c s = (r, s')"
  have "jobsApart (fold (cancelJob i) js s) = jobsApart s" for i js
    by (induction js arbitrary: s) (simp_all add: cancelJob_apart)
  then show ?thesis
    using a forEach_apart [OF scheduleRule_apart]
    by (auto simp: restartClock_def scheduleNoReplyRules_def cancelNoReplyRules_def split: if_splits)
qed

section \<open>A processed message\<close>

lemma runAutomationEngine_keeps:
  assumes "runAutomationEngine E sv now pl m contact c st = (r, st')" "ingestInv (fst st)"
  shows "ingestInv (fst st') \<and> grows (fst st) (fst st')"
proof -
  have i: "ingestInv (drawn 1 (fst st))" "grows (fst st) (drawn 1 (fst st))"
    using ingestInv_cong [OF _ assms(2), of "drawn 1 (fst st)"] by (auto simp: ingestTables_def drawn_def grows_def convIds_def)
  have "ruleFrame (fst (updW (drawn 1) st)) (fst st')"
    using runMessageRules_frame assms(1) unfolding runAutomationEngine_def by blast
  then have f: "ruleFrame (drawn 1 (fst st)) (fst st')" by simp
  show ?thesis using ingestInv_ruleFrame [OF i(1) f] grows_trans [OF i(2) grows_ruleFrame [OF f]] by blast
qed

lemma processMessage_keeps:
  assumes "processMessage E sv now pl st = (r, st')" "ingestInv (fst st)"
  shows "ingestInv (fst st') \<and> grows (fst st) (fst st') \<and>
    (workspaceExists (provisionDev now (pl_workspaceId pl) (fst st)) (pl_workspaceId pl) \<longrightarrow> stored pl (fst st'))"
proof -
  obtain q s1 where rows: "resolveRows E now pl (fst st) = (q, s1)" by (meson surj_pair)
  note k1 = resolveRows_keeps [OF rows assms(2)]
  show ?thesis
  proof (cases q)
    case (Inl e)
    then have "st' = (s1, snd st)" using assms(1) rows by (simp add: processMessage_def)
    then show ?thesis using k1 Inl by auto
  next
    case (Inr x)
    obtain contact c where x: "x = (contact, c)" by (meson surj_pair)
    obtain p i where p: "p \<in> set (providers s1)" "prov_key p = pl_providerKey pl" "i \<in> set (contactIdentities s1)"
        "identityKey i = (prov_id p, pl_senderExternalId pl, pl_workspaceId pl)"
        "(cnv_id c, payloadConvKey (prov_id p) pl) \<in> set (convIds s1)" and con: "con_id contact \<in> con_id ` set (contacts s1)"
      using k1 Inr x by blast
    have cid: "cnv_id c \<in> set (map cnv_id (conversations s1))"
      unfolding convIds_id using p(5) by force
    have st: "stored pl s" if "grows s1 s" "m \<in> set (messages s)" "msgKey m = (cnv_id c, pl_messageExternalId pl)" for m s
      unfolding stored_def using p growsD [OF that(1)] that(2,3)
      by (intro bexI [of _ p] bexI [of _ i] bexI [of _ "(cnv_id c, payloadConvKey (prov_id p) pl)"] bexI [of _ m] conjI) simp_all
    show ?thesis
    proof (cases "isDuplicate c pl s1")
      case True
      then obtain m where "m \<in> set (messages s1)" "msgKey m = (cnv_id c, pl_messageExternalId pl)"
        by (auto simp: isDuplicate_def list_ex_iff msgKey_def)
      then have "stored pl s1" using st [OF grows_refl] by blast
      moreover have "st' = (s1, snd st)" using assms(1) rows Inr x True by (simp add: processMessage_def)
      ultimately show ?thesis using k1 by simp
    next
      case False
      obtain m s2 where m: "storeMessage E pl contact c s1 = (m, s2)" by (meson surj_pair)
      note k2 = storeMessage_keeps [OF m conjunct1 [OF k1] False cid con]
      have pr: "bindO (runAutomationEngine E sv now pl m contact c) (\<lambda>_. onWorld (restartClock E now pl c)) (s2, snd st) = (r, st')"
        using assms(1) rows Inr x False m by (simp add: processMessage_def)
      obtain r3 st3 where a: "runAutomationEngine E sv now pl m contact c (s2, snd st) = (r3, st3)" by (meson surj_pair)
      have k3: "ingestInv (fst st3) \<and> grows s2 (fst st3)"
        using runAutomationEngine_keeps [OF a] k2 by simp
      have k4: "ingestInv (fst st') \<and> grows (fst st3) (fst st')"
      proof (cases r3)
        case (Inl e)
        then show ?thesis using pr a k3 by simp
      next
        case (Inr u)
        obtain r4 s4 where c4: "restartClock E now pl c (fst st3) = (r4, s4)" by (meson surj_pair)
        then have "st' = (s4, snd st3)" using pr a Inr by (simp add: onWorld_def)
        then show ?thesis using jobsApart_keeps [OF restartClock_apart [OF c4]] k3 by simp
      qed
      have g: "grows s2 (fst st')" using k3 k4 by (auto intro: grows_trans)
      have "stored pl s2" using st k2 by blast
      then show ?thesis using k1 k2 k4 g stored_grows [OF _ g] by (auto intro: grows_trans)
    qed
  qed
qed

section \<open>The queue worked off\<close>

definition eventJobs :: "world \<Rightarrow> queue_job list" where
  "eventJobs s = filter (\<lambda>j. qj_queue j = EVENTS_QUEUE_NAME) (queueJobs s)"

lemma waitingEvents_eventJobs: "waitingEvents s = filter (\<lambda>j. qj_state j = JWaiting) (eventJobs s)"
  by (simp add: waitingEvents_def eventJobs_def conj_commute)

lemma queue_names: "SCHEDULED_JOBS_QUEUE_NAME \<noteq> EVENTS_QUEUE_NAME"
  by (simp add: SCHEDULED_JOBS_QUEUE_NAME_def EVENTS_QUEUE_NAME_def)

lemma eventJobs_queueAdd: "q \<noteq> EVENTS_QUEUE_NAME \<Longrightarrow> eventJobs (queueAdd q i t w d s) = eventJobs s"
  by (simp add: eventJobs_def queueAdd_def)

lemma eventJobs_queueRemove: "q \<noteq> EVENTS_QUEUE_NAME \<Longrightarrow> eventJobs (queueRemove q i s) = eventJobs s"
  by (auto simp: eventJobs_def queueRemove_def deleteMany_def intro: filter_cong)

lemma eventJobs_cong: "queueJobs s' = queueJobs s \<Longrightarrow> eventJobs s' = eventJobs s"
  by (simp add: eventJobs_def)

lemma eventJobs_updates:
  "eventJobs (s\<lparr>scheduledJobs := x\<rparr>) = eventJobs s" "eventJobs (s\<lparr>idsDrawn := n\<rparr>) = eventJobs s"
  "eventJobs (s\<lparr>idsDrawn := n, scheduledJobs := x\<rparr>) = eventJobs s"
  by (simp_all add: eventJobs_def)

lemma scheduleRule_events: "scheduleRule E now w c r s = (res, s') \<Longrightarrow> eventJobs s' = eventJobs s"
  by (auto simp: scheduleRule_def upsertScheduledJob_def Let_def eventJobs_queueAdd eventJobs_queueRemove queue_names
      drawn_def eventJobs_updates split: if_splits option.splits)

lemma restartClock_events:
  assumes "restartClock E now pl c s = (r, s')"
  shows "eventJobs s' = eventJobs s"
proof -
  have f: "forEach (scheduleRule E now w i) rs s = (r, s') \<Longrightarrow> eventJobs s' = eventJobs s" for w i rs s r s'
  proof (induction rs arbitrary: s)
    case (Cons x xs)
    obtain q s1 where q: "scheduleRule E now w i x s = (q, s1)" by (meson surj_pair)
    then show ?case using scheduleRule_events [OF q] Cons by (cases q) auto
  qed (simp add: ok_def)
  have "eventJobs (cancelJob i j s) = eventJobs s" for i j s
    using eventJobs_queueRemove [OF queue_names] by (simp add: cancelJob_def Let_def) (simp add: eventJobs_def)
  then have "eventJobs (fold (cancelJob i) js s) = eventJobs s" for i js
    by (induction js arbitrary: s) simp_all
  then show ?thesis using assms f
    by (auto simp: restartClock_def scheduleNoReplyRules_def cancelNoReplyRules_def split: if_splits)
qed

lemma eventJobs_ruleFrame: "ruleFrame s s' \<Longrightarrow> eventJobs s' = eventJobs s"
  by (simp add: eventJobs_def ruleFrame_def actionFrame_def ruleUntouched_def)

lemma row_steps_queue:
  "queueJobs (provisionDev now w s) = queueJobs s"
  "upsertProvider E key s = (p, s') \<Longrightarrow> queueJobs s' = queueJobs s"
  "resolveIdentity E now input s = (r, s') \<Longrightarrow> queueJobs s' = queueJobs s"
  "upsertConversation E now i pl s = (c, s') \<Longrightarrow> queueJobs s' = queueJobs s"
  by (auto simp: provisionDev_def Let_def,
      auto simp: upsertProvider_def Let_def drawn_def split: option.splits,
      auto simp: resolveIdentity_def transactionO_def createContactTx_def Let_def drawn_def split: option.splits if_splits,
      auto simp: upsertConversation_def Let_def drawn_def split: option.splits)

lemma resolveRows_queue:
  assumes "resolveRows E now pl s = (q, s')"
  shows "queueJobs s' = queueJobs s"
proof -
  obtain p s1 where p: "upsertProvider E (pl_providerKey pl) (provisionDev now (pl_workspaceId pl) s) = (p, s1)"
    by (meson surj_pair)
  obtain r2 s2 where r: "resolveIdentity E now (senderInput (prov_id p) pl) s1 = (r2, s2)" by (meson surj_pair)
  have 2: "queueJobs s2 = queueJobs s" using row_steps_queue(1) row_steps_queue(2) [OF p] row_steps_queue(3) [OF r] by simp
  show ?thesis
  proof (cases r2)
    case (Inl e)
    then show ?thesis using assms p r 2 by (simp add: resolveRows_def)
  next
    case (Inr contact)
    obtain c s3 where c: "upsertConversation E now (prov_id p) pl s2 = (c, s3)" by (meson surj_pair)
    then have "s' = s3" using assms p r Inr by (simp add: resolveRows_def)
    then show ?thesis using row_steps_queue(4) [OF c] 2 by simp
  qed
qed

lemma processMessage_events:
  assumes "processMessage E sv now pl st = (r, st')"
  shows "eventJobs (fst st') = eventJobs (fst st)"
proof -
  obtain q s1 where rows: "resolveRows E now pl (fst st) = (q, s1)" by (meson surj_pair)
  have e1: "eventJobs s1 = eventJobs (fst st)" using resolveRows_queue [OF rows] by (rule eventJobs_cong)
  show ?thesis
  proof (cases "\<exists>contact c. q = Inr (contact, c) \<and> \<not> isDuplicate c pl s1")
    case False
    then have "fst st' = s1" using assms rows by (cases q) (auto simp: processMessage_def)
    then show ?thesis using e1 by simp
  next
    case True
    then obtain contact c where q: "q = Inr (contact, c)" "\<not> isDuplicate c pl s1" by blast
    obtain m s2 where m: "storeMessage E pl contact c s1 = (m, s2)" by (meson surj_pair)
    have e2: "eventJobs s2 = eventJobs s1" using m
      by (auto simp: storeMessage_def Let_def emitToWorkspace_def setConversation_def drawn_def eventJobs_def)
    obtain r3 st3 where a: "runAutomationEngine E sv now pl m contact c (s2, snd st) = (r3, st3)" by (meson surj_pair)
    have "ruleFrame (fst (updW (drawn 1) (s2, snd st))) (fst st3)"
      using runMessageRules_frame a unfolding runAutomationEngine_def by blast
    from eventJobs_ruleFrame [OF this] have e3: "eventJobs (fst st3) = eventJobs s2" by (simp add: eventJobs_def drawn_def)
    have pr: "bindO (runAutomationEngine E sv now pl m contact c) (\<lambda>_. onWorld (restartClock E now pl c)) (s2, snd st) = (r, st')"
      using assms rows q m by (simp add: processMessage_def)
    show ?thesis
    proof (cases r3)
      case (Inr u)
      obtain r4 s4 where c4: "restartClock E now pl c (fst st3) = (r4, s4)" by (meson surj_pair)
      then have "st' = (s4, snd st3)" using pr a Inr by (simp add: onWorld_def)
      then show ?thesis using restartClock_events [OF c4] e1 e2 e3 by simp
    qed (use pr a e1 e2 e3 in simp)
  qed
qed

lemma attemptJob_keeps:
  assumes "attemptJob E sv now n pl st = (b, st')" "ingestInv (fst st)"
  shows "ingestInv (fst st') \<and> grows (fst st) (fst st') \<and> eventJobs (fst st') = eventJobs (fst st) \<and>
    (0 < n \<and> workspaceExists (provisionDev now (pl_workspaceId pl) (fst st)) (pl_workspaceId pl) \<longrightarrow> stored pl (fst st'))"
  using assms
proof (induction n arbitrary: st)
  case (Suc n)
  obtain r st1 where p: "processMessage E sv now pl st = (r, st1)" by (meson surj_pair)
  note k = processMessage_keeps [OF p Suc.prems(2)] processMessage_events [OF p]
  show ?case
  proof (cases r)
    case (Inr u)
    then show ?thesis using Suc.prems(1) p k by simp
  next
    case (Inl e)
    then have "attemptJob E sv now n pl st1 = (b, st')" using Suc.prems(1) p by simp
    from Suc.IH [OF this] k show ?thesis by (auto intro: grows_trans stored_grows)
  qed
qed simp

lemma settleJob_keeps:
  "ingestInv (settleJob j b s) = ingestInv s" "grows s (settleJob j b s)"
  "qj_queue j = EVENTS_QUEUE_NAME \<Longrightarrow> waitingEvents (settleJob j b s) = filter (\<lambda>x. qj_id x \<noteq> qj_id j) (waitingEvents s)"
proof -
  have t: "ingestTables (settleJob j b s) = ingestTables s" by (simp add: settleJob_def ingestTables_def convIds_def)
  show "ingestInv (settleJob j b s) = ingestInv s" using ingestInv_cong [OF t] ingestInv_cong [OF t[symmetric]] by blast
  show "grows s (settleJob j b s)" by (simp add: settleJob_def grows_def convIds_def)
  assume q: "qj_queue j = EVENTS_QUEUE_NAME"
  have "filter (\<lambda>x. qj_queue x = EVENTS_QUEUE_NAME \<and> qj_state x = JWaiting)
      (updateMany (\<lambda>x. qj_queue x = EVENTS_QUEUE_NAME \<and> qj_id x = qj_id j) (\<lambda>x. x\<lparr>qj_state := (if b then JDone else JFailed)\<rparr>) js)
    = filter (\<lambda>x. qj_id x \<noteq> qj_id j) (filter (\<lambda>x. qj_queue x = EVENTS_QUEUE_NAME \<and> qj_state x = JWaiting) js)" for js
    by (induction js) auto
  from this [of "queueJobs s"] show "waitingEvents (settleJob j b s) = filter (\<lambda>x. qj_id x \<noteq> qj_id j) (waitingEvents s)"
    by (cases b) (simp_all add: waitingEvents_def settleJob_def q)
qed

lemma waitingEvents_cong: "eventJobs s' = eventJobs s \<Longrightarrow> waitingEvents s' = waitingEvents s"
  by (simp add: waitingEvents_eventJobs)

lemma workJob_keeps:
  assumes "ingestInv (fst st)" "qj_queue j = EVENTS_QUEUE_NAME"
  shows "ingestInv (fst (workJob E sv now j st)) \<and> grows (fst st) (fst (workJob E sv now j st)) \<and>
    waitingEvents (fst (workJob E sv now j st)) = filter (\<lambda>x. qj_id x \<noteq> qj_id j) (waitingEvents (fst st)) \<and>
    (\<forall>pl. qj_data j = MessageReceived pl \<and> workspaceExists (provisionDev now (pl_workspaceId pl) (fst st)) (pl_workspaceId pl)
       \<longrightarrow> stored pl (fst (workJob E sv now j st)))"
proof -
  obtain b st1 where a: "(case qj_data j of MessageReceived pl \<Rightarrow> attemptJob E sv now EVENT_ATTEMPTS pl st | _ \<Rightarrow> (True, st)) = (b, st1)"
    by (meson surj_pair)
  have k: "ingestInv (fst st1) \<and> grows (fst st) (fst st1) \<and> eventJobs (fst st1) = eventJobs (fst st) \<and>
    (\<forall>pl. qj_data j = MessageReceived pl \<and> workspaceExists (provisionDev now (pl_workspaceId pl) (fst st)) (pl_workspaceId pl)
       \<longrightarrow> stored pl (fst st1))"
  proof (cases "qj_data j")
    case (MessageReceived pl)
    then have "attemptJob E sv now EVENT_ATTEMPTS pl st = (b, st1)" using a by simp
    from attemptJob_keeps [OF this assms(1)] show ?thesis by (auto simp: MessageReceived EVENT_ATTEMPTS_def)
  qed (use a assms(1) in auto)
  have w: "workJob E sv now j st = updW (settleJob j b) st1" by (simp add: workJob_def a)
  show ?thesis
    using k settleJob_keeps [where j = j and b = b and s = "fst st1"] assms(2) waitingEvents_cong [of "fst st1" "fst st"]
    by (auto simp: w intro: grows_trans stored_grows)
qed

lemma workspaceExists_iff: "workspaceExists s w \<longleftrightarrow> w \<in> ws_id ` set (workspaces s)"
  by (auto simp: workspaceExists_def list_ex_iff)

lemma workspaceExists_grows: "grows s s' \<Longrightarrow> workspaceExists s w \<Longrightarrow> workspaceExists s' w"
  unfolding workspaceExists_iff grows_def by blast

lemma workspaceExists_provision: "workspaceExists s w \<Longrightarrow> workspaceExists (provisionDev now v s) w"
  by (auto simp: workspaceExists_iff provisionDev_def Let_def)

lemma workOff_keeps:
  assumes "ingestInv (fst st)" "\<forall>j\<in>set js. qj_queue j = EVENTS_QUEUE_NAME"
  shows "ingestInv (fst (fold (workJob E sv now) js st)) \<and> grows (fst st) (fst (fold (workJob E sv now) js st)) \<and>
    waitingEvents (fst (fold (workJob E sv now) js st)) = filter (\<lambda>x. qj_id x \<notin> qj_id ` set js) (waitingEvents (fst st)) \<and>
    (\<forall>j\<in>set js. \<forall>pl. qj_data j = MessageReceived pl \<and> workspaceExists (fst st) (pl_workspaceId pl)
       \<longrightarrow> stored pl (fst (fold (workJob E sv now) js st)))"
  using assms
proof (induction js arbitrary: st)
  case (Cons j js)
  have "qj_queue j = EVENTS_QUEUE_NAME" using Cons.prems(2) by simp
  note k = workJob_keeps [OF Cons.prems(1) this, where E = E and sv = sv and now = now]
  let ?st1 = "workJob E sv now j st"
  note ih = Cons.IH [OF conjunct1 [OF k]]
  have g: "grows (fst st) (fst ?st1)" "grows (fst ?st1) (fst (fold (workJob E sv now) js ?st1))"
    using k ih Cons.prems(2) by auto
  have "stored pl (fst (fold (workJob E sv now) (j # js) st))"
    if "x \<in> set (j # js)" "qj_data x = MessageReceived pl" "workspaceExists (fst st) (pl_workspaceId pl)" for x pl
  proof (cases "x = j")
    case True
    then have "stored pl (fst ?st1)" using k that workspaceExists_provision [OF that(3)] by simp
    then show ?thesis using stored_grows g(2) by simp
  next
    case False
    have "workspaceExists (fst ?st1) (pl_workspaceId pl)"
      by (rule workspaceExists_grows [OF g(1) that(3)])
    then show ?thesis using ih Cons.prems(2) that False by auto
  qed
  moreover have "waitingEvents (fst (fold (workJob E sv now) (j # js) st)) = filter (\<lambda>x. qj_id x \<notin> qj_id ` set (j # js)) (waitingEvents (fst st))"
    using k ih Cons.prems(2) by (auto intro: filter_cong)
  ultimately show ?case using ih Cons.prems(2) g by (auto intro: grows_trans)
qed simp

text \<open>C33: processing keeps the rows well formed: whatever messages the queue holds and
  whatever their rules do, the unique keys of providers, identities, conversations,
  messages and execution logs stay unique and every identity and message refers to
  rows that exist.\<close>

theorem ingestion_keeps_rows_wellformed:
  assumes "ingestInv (fst st)"
  shows "ingestInv (fst (workOff E sv now st))"
  using workOff_keeps [OF assms, of "waitingEvents (fst st)"] unfolding workOff_def by (auto simp: waitingEvents_def)

text \<open>C1: working off the event queue leaves no event waiting and stores the message of
  every one whose workspace exists, even when its rules throw.\<close>

theorem published_messages_are_stored:
  assumes "ingestInv (fst st)"
  shows "waitingEvents (fst (workOff E sv now st)) = [] \<and>
    (\<forall>j\<in>set (waitingEvents (fst st)). \<forall>pl. qj_data j = MessageReceived pl \<and> workspaceExists (fst st) (pl_workspaceId pl)
       \<longrightarrow> stored pl (fst (workOff E sv now st)))"
proof -
  have "\<forall>j\<in>set (waitingEvents (fst st)). qj_queue j = EVENTS_QUEUE_NAME" by (simp add: waitingEvents_def)
  from workOff_keeps [OF assms this, where E = E and sv = sv and now = now] show ?thesis
    unfolding workOff_def by (auto simp: filter_empty_conv)
qed

definition samplePayload :: "instant \<Rightarrow> InboundMessagePayload" where
  "samplePayload t = \<lparr>pl_workspaceId = 11, pl_providerKey = ''telegram'', pl_conversationExternalId = ''chat'',
     pl_conversationTitle = None, pl_senderExternalId = ''ann'', pl_senderHandle = None, pl_senderDisplayName = Some ''Ann'',
     pl_messageExternalId = ''m1'', pl_bodyText = ''hello'', pl_receivedAt = t, pl_direction = Inbound, pl_linkedAccountId = None\<rparr>"

definition queuedWorld :: "instant list \<Rightarrow> world" where
  "queuedWorld ts = emptyWorld\<lparr>workspaces := [\<lparr>ws_id = 11, ws_organizationId = 1, ws_name = ''W'', ws_timezone = ''UTC'',
       ws_aiEnabled = False, ws_createdAt = 0, ws_deletedAt = None\<rparr>],
     queueJobs := map (\<lambda>t. \<lparr>qj_id = ''e'', qj_queue = EVENTS_QUEUE_NAME, qj_state = JWaiting, qj_runAt = 0, qj_workspaceId = 11,
       qj_data = MessageReceived (samplePayload t)\<rparr>) ts\<rparr>"

lemma queuedWorld_inv: "ingestInv (queuedWorld ts)" "workspaceExists (queuedWorld ts) 11"
  by (simp_all add: ingestInv_def uniqueKeys_def references_def queuedWorld_def emptyWorld_def workspaceExists_def)

lemma queuedWorld_waiting: "waitingEvents (queuedWorld ts) = queueJobs (queuedWorld ts)"
  by (simp add: waitingEvents_def queuedWorld_def filter_map o_def)

theorem ingestion_keeps_rows_wellformed_witness:
  "ingestInv (fst (workOff sampleEnv sampleServices 0 (queuedWorld [5, 3], ())))"
  using ingestion_keeps_rows_wellformed [of "(queuedWorld [5, 3], ())" sampleEnv sampleServices 0] by (simp add: queuedWorld_inv)

theorem published_messages_are_stored_witness:
  "stored (samplePayload 5) (fst (workOff sampleEnv sampleServices 0 (queuedWorld [5], ())))"
proof -
  have "\<exists>j\<in>set (waitingEvents (queuedWorld [5])). qj_data j = MessageReceived (samplePayload 5)"
    unfolding queuedWorld_waiting by (simp add: queuedWorld_def)
  moreover have "pl_workspaceId (samplePayload 5) = 11" by (simp add: samplePayload_def)
  ultimately show ?thesis
    using published_messages_are_stored [of "(queuedWorld [5], ())" sampleEnv sampleServices 0] queuedWorld_inv by auto
qed

section \<open>Redelivery\<close>

text \<open>What a delivery of a stored message does to the state: draws, and the touch of its
  conversation.\<close>

definition touchedBy :: "InboundMessagePayload \<Rightarrow> uuid \<Rightarrow> nat \<Rightarrow> world \<Rightarrow> world" where
  "touchedBy pl provId n s = s\<lparr>idsDrawn := n, conversations := updateMany (\<lambda>c. convKey c = payloadConvKey provId pl)
     (touchConversation pl) (conversations s)\<rparr>"

lemma distinct_find:
  assumes "distinct (map k xs)" "x \<in> set xs" "k x = v"
  shows "findFirst (\<lambda>y. k y = v) xs = Some x"
proof -
  obtain y where y: "findFirst (\<lambda>y. k y = v) xs = Some y" using findFirst_ex [of x xs "\<lambda>y. k y = v"] assms(2,3) by blast
  then have "y \<in> set xs" "k y = v" by (auto dest: findFirst_SomeD)
  then have "y = x" using assms by (auto simp: distinct_map inj_on_def)
  then show ?thesis using y by simp
qed

lemma stored_redelivery:
  assumes i: "ingestInv (fst st)" and s: "stored pl (fst st)" and w: "pl_workspaceId pl \<noteq> DEV_WORKSPACE_ID"
  shows "\<exists>p n. p \<in> set (providers (fst st)) \<and> prov_key p = pl_providerKey pl \<and>
    processMessage E sv now pl st = (Inr (), (touchedBy pl (prov_id p) n (fst st), snd st))"
proof -
  let ?s = "fst st"
  obtain p ci x m where p: "p \<in> set (providers ?s)" "prov_key p = pl_providerKey pl"
    and ci: "ci \<in> set (contactIdentities ?s)" "identityKey ci = (prov_id p, pl_senderExternalId pl, pl_workspaceId pl)"
    and x: "x \<in> set (convIds ?s)" "snd x = payloadConvKey (prov_id p) pl"
    and m: "m \<in> set (messages ?s)" "msgKey m = (fst x, pl_messageExternalId pl)"
    using s unfolding stored_def by (elim bexE conjE)
  obtain c where c: "c \<in> set (conversations ?s)" "cnv_id c = fst x" "convKey c = payloadConvKey (prov_id p) pl"
    using x by (auto simp: convIds_def)
  have u: "uniqueKeys ?s" using i by (simp add: ingestInv_def)
  let ?s1 = "drawn 1 ?s"
  have "provisionDev now (pl_workspaceId pl) ?s = ?s" using w by (simp add: provisionDev_def)
  moreover have "findFirst (\<lambda>q. prov_key q = pl_providerKey pl) (providers ?s) = Some p"
    using u p by (intro distinct_find) (auto simp: uniqueKeys_def)
  ultimately have up: "upsertProvider E (pl_providerKey pl) (provisionDev now (pl_workspaceId pl) ?s) = (p, ?s1)"
    by (simp add: upsertProvider_def)
  have "cid_contactId ci \<in> con_id ` set (contacts ?s)" using i ci(1) by (simp add: ingestInv_def references_def)
  then obtain k where "k \<in> set (contacts ?s)" "con_id k = cid_contactId ci" by auto
  then obtain con where con: "contactOf ?s (cid_contactId ci) = Some con"
    unfolding contactOf_def using findFirst_ex [of k "contacts ?s" "\<lambda>c. con_id c = cid_contactId ci"] by auto
  have f: "findFirst (\<lambda>q. identityKey q = inputKey (senderInput (prov_id p) pl)) (contactIdentities ?s1) = Some ci"
    using u ci by (intro distinct_find) (auto simp: uniqueKeys_def drawn_def inputKey_def senderInput_def)
  have "contactOf ?s1 (cid_contactId ci) = Some con" using con by (simp add: contactOf_def)
  then have ri: "resolveIdentity E now (senderInput (prov_id p) pl) ?s1 = (Inr con, ?s1)"
    using f by (simp add: resolveIdentity_def)
  have "findFirst (\<lambda>q. convKey q = payloadConvKey (prov_id p) pl) (conversations ?s1) = Some c"
    using u c by (intro distinct_find) (auto simp: uniqueKeys_def)
  then have uc: "upsertConversation E now (prov_id p) pl ?s1
      = (touchConversation pl c, touchedBy pl (prov_id p) (idsDrawn ?s + 2) ?s)"
    by (simp add: upsertConversation_def touchedBy_def drawn_def)
  have r: "resolveRows E now pl ?s = (Inr (con, touchConversation pl c), touchedBy pl (prov_id p) (idsDrawn ?s + 2) ?s)"
    using up ri uc by (simp add: resolveRows_def)
  have "isDuplicate (touchConversation pl c) pl (touchedBy pl (prov_id p) (idsDrawn ?s + 2) ?s)"
    using m c(2) by (auto simp: isDuplicate_def touchedBy_def list_ex_iff msgKey_def)
  then have "processMessage E sv now pl st = (Inr (), (touchedBy pl (prov_id p) (idsDrawn ?s + 2) ?s, snd st))"
    using r by (simp add: processMessage_def)
  then show ?thesis using p by blast
qed

text \<open>Two deliveries of one message: they agree on every key.\<close>

definition sameMessage :: "InboundMessagePayload \<Rightarrow> InboundMessagePayload \<Rightarrow> bool" where
  "sameMessage pl pl' \<longleftrightarrow> pl_workspaceId pl' = pl_workspaceId pl \<and> pl_providerKey pl' = pl_providerKey pl
     \<and> pl_conversationExternalId pl' = pl_conversationExternalId pl \<and> pl_senderExternalId pl' = pl_senderExternalId pl
     \<and> pl_messageExternalId pl' = pl_messageExternalId pl"

lemma sameMessage_stored: "sameMessage pl pl' \<Longrightarrow> stored pl s \<Longrightarrow> stored pl' s"
  by (simp add: stored_def sameMessage_def payloadConvKey_def)

text \<open>C2: a second delivery of a message changes nothing but its conversation's row: no
  second message, contact, notification, rule run, job or realtime event, and nothing
  reaches a provider, whether the first delivery succeeded or threw.\<close>

theorem redelivery_is_silent:
  assumes "processMessage E sv now pl st = (r, st1)" "ingestInv (fst st)" "workspaceExists (fst st) (pl_workspaceId pl)"
    and "pl_workspaceId pl \<noteq> DEV_WORKSPACE_ID" "sameMessage pl pl'"
  shows "\<exists>provId n. processMessage E sv now' pl' st1 = (Inr (), (touchedBy pl' provId n (fst st1), snd st1))"
proof -
  have "ingestInv (fst st1)" "stored pl (fst st1)"
    using processMessage_keeps [OF assms(1,2)] workspaceExists_provision [OF assms(3)] by auto
  from stored_redelivery [OF this(1) sameMessage_stored [OF assms(5) this(2)], of E sv now'] assms(4,5) show ?thesis
    by (auto simp: sameMessage_def)
qed

text \<open>So the retry of an event whose rules threw counts as done without running
  them: the queue reports success, and neither the rules left out nor the no-reply
  jobs are ever caught up.\<close>

theorem thrown_automation_is_not_retried:
  assumes "processMessage E sv now pl st = (Inl e, st1)" "ingestInv (fst st)" "workspaceExists (fst st) (pl_workspaceId pl)"
    and "pl_workspaceId pl \<noteq> DEV_WORKSPACE_ID"
  shows "\<exists>st2. attemptJob E sv now EVENT_ATTEMPTS pl st = (True, st2) \<and> executionLogs (fst st2) = executionLogs (fst st1)
    \<and> notifications (fst st2) = notifications (fst st1) \<and> scheduledJobs (fst st2) = scheduledJobs (fst st1)
    \<and> realtime (fst st2) = realtime (fst st1) \<and> snd st2 = snd st1"
proof -
  have k: "ingestInv (fst st1)" "stored pl (fst st1)"
    using processMessage_keeps [OF assms(1,2)] workspaceExists_provision [OF assms(3)] by auto
  obtain p n where p: "processMessage E sv now pl st1 = (Inr (), (touchedBy pl p n (fst st1), snd st1))"
    using stored_redelivery [OF k assms(4), where E = E and sv = sv and now = now] by blast
  have n: "EVENT_ATTEMPTS = Suc (Suc 3)" by (simp add: EVENT_ATTEMPTS_def)
  have "attemptJob E sv now EVENT_ATTEMPTS pl st = (True, (touchedBy pl p n (fst st1), snd st1))"
    by (simp only: n attemptJob.simps assms(1) p prod.case sum.case)
  then show ?thesis by (intro exI) (auto simp: touchedBy_def)
qed

text \<open>A late delivery of an older message, new or repeated, sets the conversation's
  last-message time back to it, though a newer message is stored: here a repeated
  one, which otherwise changes nothing.\<close>

theorem redelivery_rewinds_conversation:
  assumes "ingestInv (fst st)" "stored pl (fst st)" "pl_workspaceId pl \<noteq> DEV_WORKSPACE_ID"
    and "processMessage E sv now pl st = (r, st')"
  shows "\<exists>c\<in>set (conversations (fst st')). cnv_externalId c = pl_conversationExternalId pl
     \<and> cnv_workspaceId c = pl_workspaceId pl \<and> cnv_lastMessageAt c = Some (pl_receivedAt pl)
     \<and> messages (fst st') = messages (fst st)"
proof -
  obtain p n where p: "p \<in> set (providers (fst st))" "prov_key p = pl_providerKey pl"
    "processMessage E sv now pl st = (Inr (), (touchedBy pl (prov_id p) n (fst st), snd st))"
    using stored_redelivery [OF assms(1-3), where E = E and sv = sv and now = now] by blast
  then have st': "fst st' = touchedBy pl (prov_id p) n (fst st)" using assms(4) by simp
  obtain q x where q: "q \<in> set (providers (fst st))" "prov_key q = pl_providerKey pl" "x \<in> set (convIds (fst st))"
    "snd x = payloadConvKey (prov_id q) pl" using assms(2) unfolding stored_def by (elim bexE conjE)
  have "q = p" using p q assms(1) by (auto simp: ingestInv_def uniqueKeys_def distinct_map inj_on_def)
  then obtain c where c: "c \<in> set (conversations (fst st))" "convKey c = payloadConvKey (prov_id p) pl"
    using q by (auto simp: convIds_def)
  have "touchConversation pl c \<in> set (conversations (fst st'))"
    using c by (force simp: st' touchedBy_def set_updateMany)
  moreover have "convKey (touchConversation pl c) = payloadConvKey (prov_id p) pl" using c by simp
  ultimately show ?thesis
    by (intro bexI [of _ "touchConversation pl c"]) (auto simp: convKey_def payloadConvKey_def touchConversation_def st' touchedBy_def)
qed

section \<open>Redelivery on a sample\<close>

definition ruledWorld :: world where
  "ruledWorld = (queuedWorld [])\<lparr>rules := [sampleRule 2 9 badPattern]\<rparr>"

lemma ruledWorld_tables:
  "providers ruledWorld = []" "contactIdentities ruledWorld = []" "conversations ruledWorld = []" "messages ruledWorld = []"
  "rules ruledWorld = [sampleRule 2 9 badPattern]" "workspaceExists ruledWorld 11"
  by (simp_all add: ruledWorld_def queuedWorld_def emptyWorld_def workspaceExists_def)

lemma bad_rule_throws:
  assumes "rules (fst st) = [sampleRule 2 9 badPattern]" "rc_workspaceId input = 11"
  shows "\<exists>st'. runMessageRules E sampleServices now input st = (Inl invalidPattern, st')"
proof -
  obtain ai s1 where e: "enrichMessage E now 11 (msg_bodyText (rc_message input)) (fst st) = (ai, s1)"
    by (meson surj_pair)
  have m: "messageRules 11 (fst st) = [sampleRule 2 9 badPattern]"
    using assms(1) by (simp add: messageRules_def) (simp add: sampleRule_def)
  have "verdictIn E sampleServices now input (fst st) (sampleRule 2 9 badPattern) = None"
    by (rule verdict_bad) (simp_all add: sampleRule_def sampleServices_def)
  then have "verdict sampleServices now input (loadNotificationContext 11 (fst st)) ai (sampleRule 2 9 badPattern) = None"
    by (simp add: verdictIn_def assms(2) e)
  then show ?thesis by (simp add: runMessageRules_def assms(2) m e tryRule_verdict)
qed

lemma sample_rows:
  "\<exists>contact c s. resolveRows sampleEnv 0 (samplePayload t) ruledWorld = (Inr (contact, c), s) \<and> messages s = []
    \<and> rules s = [sampleRule 2 9 badPattern]"
  by (simp add: resolveRows_def samplePayload_def provisionDev_def DEV_WORKSPACE_ID_def upsertProvider_def ruledWorld_tables
      resolveIdentity_def senderInput_def transactionO_def createContactTx_def workspaceExists_iff
      ruledWorld_tables(6)[unfolded workspaceExists_iff] upsertConversation_def Let_def drawn_def)

lemma sample_throws:
  "\<exists>st. processMessage sampleEnv sampleServices 0 (samplePayload t) (ruledWorld, ()) = (Inl invalidPattern, st)"
proof -
  obtain contact c s where r: "resolveRows sampleEnv 0 (samplePayload t) ruledWorld = (Inr (contact, c), s)"
    and s: "messages s = []" "rules s = [sampleRule 2 9 badPattern]" using sample_rows by blast
  obtain m s2 where m: "storeMessage sampleEnv (samplePayload t) contact c s = (m, s2)" by (meson surj_pair)
  have "rules (fst (updW (drawn 1) (s2, ()))) = [sampleRule 2 9 badPattern]"
    using m s(2) by (auto simp: storeMessage_def Let_def emitToWorkspace_def setConversation_def drawn_def)
  from bad_rule_throws [OF this, where input = "\<lparr>rc_triggerEventId = uuidText (draw sampleEnv s2),
      rc_workspaceId = pl_workspaceId (samplePayload t), rc_providerKey = pl_providerKey (samplePayload t), rc_message = m,
      rc_conversation = c, rc_contact = contact\<rparr>" and E = sampleEnv and now = 0]
  obtain st where "runAutomationEngine sampleEnv sampleServices 0 (samplePayload t) m contact c (s2, ()) = (Inl invalidPattern, st)"
    by (auto simp: runAutomationEngine_def samplePayload_def)
  then show ?thesis using r m s(1) by (cases st) (simp add: processMessage_def isDuplicate_def)
qed

lemma ruledWorld_inv: "ingestInv ruledWorld" "workspaceExists ruledWorld 11"
  using ingestInv_cong [of ruledWorld "queuedWorld []"] queuedWorld_inv(1) [of "[]"]
  by (simp_all add: ruledWorld_def ingestTables_def convIds_def) (simp add: queuedWorld_def workspaceExists_def)

lemma samplePayload_ws: "pl_workspaceId (samplePayload t) = 11" "(11 :: uuid) \<noteq> DEV_WORKSPACE_ID"
  "sameMessage (samplePayload t) (samplePayload u)"
  by (simp_all add: samplePayload_def sameMessage_def DEV_WORKSPACE_ID_def)

theorem redelivery_is_silent_witness:
  "\<exists>provId n st1. st1 = snd (processMessage sampleEnv sampleServices 0 (samplePayload 5) (queuedWorld [], ())) \<and>
   processMessage sampleEnv sampleServices 1 (samplePayload 3) st1 = (Inr (), (touchedBy (samplePayload 3) provId n (fst st1), snd st1))"
proof -
  obtain r st1 where p: "processMessage sampleEnv sampleServices 0 (samplePayload 5) (queuedWorld [], ()) = (r, st1)"
    by (meson surj_pair)
  from redelivery_is_silent [OF p, of "samplePayload 3" 1] show ?thesis
    using queuedWorld_inv samplePayload_ws p by auto
qed

theorem thrown_automation_is_not_retried_witness:
  "\<exists>st2. attemptJob sampleEnv sampleServices 0 EVENT_ATTEMPTS (samplePayload 5) (ruledWorld, ()) = (True, st2)"
proof -
  obtain st1 where p: "processMessage sampleEnv sampleServices 0 (samplePayload 5) (ruledWorld, ()) = (Inl invalidPattern, st1)"
    using sample_throws by blast
  from thrown_automation_is_not_retried [OF p] show ?thesis
    using ruledWorld_inv samplePayload_ws by auto
qed

theorem redelivery_rewinds_conversation_witness:
  "\<exists>c\<in>set (conversations (fst (snd (processMessage sampleEnv sampleServices 1 (samplePayload 5)
      (snd (processMessage sampleEnv sampleServices 0 (samplePayload 9) (queuedWorld [], ()))))))).
    cnv_lastMessageAt c = Some 5"
proof -
  obtain r st1 where p: "processMessage sampleEnv sampleServices 0 (samplePayload 9) (queuedWorld [], ()) = (r, st1)"
    by (meson surj_pair)
  obtain r2 st2 where q: "processMessage sampleEnv sampleServices 1 (samplePayload 5) st1 = (r2, st2)" by (meson surj_pair)
  have "workspaceExists (provisionDev 0 (pl_workspaceId (samplePayload 9)) (fst (queuedWorld [], ()))) (pl_workspaceId (samplePayload 9))"
    using queuedWorld_inv(2) by (simp add: samplePayload_ws workspaceExists_provision)
  then have "ingestInv (fst st1)" "stored (samplePayload 9) (fst st1)"
    using processMessage_keeps [OF p] queuedWorld_inv(1) by auto
  moreover from this(2) have "stored (samplePayload 5) (fst st1)" by (rule sameMessage_stored [OF samplePayload_ws(3)])
  ultimately show ?thesis
    using redelivery_rewinds_conversation [of st1 "samplePayload 5", OF _ _ _ q] samplePayload_ws p q
    by (auto simp: samplePayload_def)
qed

end
