(* ===== verification/Identity_Properties.thy ===== *)
theory Identity_Properties
  imports Identity
begin

text \<open>
  What the identity graph promises: a merge redirects the resolution of the merged
  contact's senders and of no other, a split undoes it, one open suggestion per pair of
  contacts, and the two ways a merge hides a contact.
\<close>

section \<open>Resolution after a change of the graph\<close>

text \<open>The contact a known sender resolves to.\<close>

definition resolved :: "ResolveIdentityInput \<Rightarrow> world \<Rightarrow> Contact option" where
  "resolved input s = Option.bind (findFirst (\<lambda>i. identityKey i = inputKey input) (contactIdentities s))
     (\<lambda>i. contactOf s (cid_contactId i))"

lemma resolveIdentity_resolved: "resolved input s = Some c \<Longrightarrow> resolveIdentity E now input s = (Inr c, s)"
  by (auto simp: resolved_def resolveIdentity_def split: option.splits bind_splits)

lemma resolved_identity:
  assumes "resolved input s = Some c"
  obtains i where "findFirst (\<lambda>i. identityKey i = inputKey input) (contactIdentities s) = Some i" "contactOf s (cid_contactId i) = Some c"
    "con_id c = cid_contactId i"
  using assms by (auto simp: resolved_def contactOf_def split: bind_splits dest: findFirst_SomeD)

lemma contactOf_setContact:
  assumes "\<And>c. con_id (f c) = con_id c"
  shows "contactOf (setContact i f s) j = map_option (\<lambda>c. if con_id c = i then f c else c) (contactOf s j)"
  unfolding contactOf_def setContact_def using findFirst_updateMany [of "\<lambda>c. con_id c = i" "\<lambda>c. con_id c = j" f] assms by simp

lemma contactOf_id: "contactOf s i = Some c \<Longrightarrow> con_id c = i"
  by (auto simp: contactOf_def dest: findFirst_SomeD)

lemma find_moveIdentities:
  "findFirst (\<lambda>i. identityKey i = k) (contactIdentities (moveIdentities b a s))
   = map_option (\<lambda>i. if cid_contactId i = b then i\<lparr>cid_contactId := a\<rparr> else i) (findFirst (\<lambda>i. identityKey i = k) (contactIdentities s))"
  unfolding moveIdentities_def
  using findFirst_updateMany [of "\<lambda>i. cid_contactId i = b" "\<lambda>i. identityKey i = k" "\<lambda>i. i\<lparr>cid_contactId := a\<rparr>"]
  by (simp add: identityKey_def)

section \<open>An approved merge\<close>

text \<open>The state of a committed approval, and what it keeps of the contacts.\<close>

definition mergedState :: "env \<Rightarrow> instant \<Rightarrow> IdentityMergeSuggestion \<Rightarrow> uuid \<Rightarrow> Contact \<Rightarrow> world \<Rightarrow> world" where
  "mergedState E now g userId merged s =
     (let a = ims_candidateContactIdA g; b = ims_candidateContactIdB g; s1 = moveMessages b a (moveIdentities b a s) in
      logMerge E g userId (setSuggestion (ims_id g)
        (\<lambda>x. x\<lparr>ims_status := Approved, ims_reviewedByUserId := Some userId, ims_reviewedAt := Some now\<rparr>)
        (softDeleteContact now b (if con_isVip merged then setContact a (\<lambda>c. c\<lparr>con_isVip := True\<rparr>) s1 else s1))))"

lemma approve_committed:
  assumes "suggestionOf s i = Inr g" "contactOf s (ims_candidateContactIdA g) = Some primary"
    and "contactOf s (ims_candidateContactIdB g) = Some merged"
  shows "approveMergeSuggestion E True now i userId s
    = (Inr (ims_candidateContactIdA g, ims_candidateContactIdB g), mergedState E now g userId merged s)"
  using assms by (simp add: approveMergeSuggestion_def approveTx_def mergedState_def Let_def)

lemma mergedState_tables:
  "contactIdentities (mergedState E now g u m s) = contactIdentities (moveIdentities (ims_candidateContactIdB g) (ims_candidateContactIdA g) s)"
  "messages (mergedState E now g u m s) = messages (moveMessages (ims_candidateContactIdB g) (ims_candidateContactIdA g) s)"
  "contacts (mergedState E now g u m s) = contacts (softDeleteContact now (ims_candidateContactIdB g)
     (if con_isVip m then setContact (ims_candidateContactIdA g) (\<lambda>c. c\<lparr>con_isVip := True\<rparr>) s else s))"
  "conversations (mergedState E now g u m s) = conversations s"
  by (simp_all add: mergedState_def Let_def logMerge_def drawn_def setSuggestion_def softDeleteContact_def setContact_def
      moveMessages_def moveIdentities_def)

lemma contactOf_cong: "contacts s' = contacts s \<Longrightarrow> contactOf s' = contactOf s"
  by (intro ext) (simp add: contactOf_def)

lemma contactOf_mergedState:
  "contactOf (mergedState E now g u m s) j = map_option (\<lambda>c.
     (if con_id c = ims_candidateContactIdB g then (\<lambda>x. x\<lparr>con_deletedAt := Some now\<rparr>) else id)
     (if con_isVip m \<and> con_id c = ims_candidateContactIdA g then c\<lparr>con_isVip := True\<rparr> else c)) (contactOf s j)"
proof -
  let ?s = "softDeleteContact now (ims_candidateContactIdB g)
     (if con_isVip m then setContact (ims_candidateContactIdA g) (\<lambda>c. c\<lparr>con_isVip := True\<rparr>) s else s)"
  have "contactOf (mergedState E now g u m s) j = contactOf ?s j"
    using contactOf_cong [OF mergedState_tables(3)] by metis
  then show ?thesis
    by (cases "contactOf s j") (auto simp: softDeleteContact_def contactOf_setContact)
qed

lemma resolved_mergedState:
  assumes "resolved input s = Some c" "contactOf s (ims_candidateContactIdA g) = Some primary"
  shows "resolved input (mergedState E now g u m s) =
    contactOf (mergedState E now g u m s) (if con_id c = ims_candidateContactIdB g then ims_candidateContactIdA g else con_id c)"
proof -
  obtain i where i: "findFirst (\<lambda>i. identityKey i = inputKey input) (contactIdentities s) = Some i" "con_id c = cid_contactId i"
    using assms(1) by (rule resolved_identity)
  show ?thesis using i(2) by (simp add: resolved_def mergedState_tables(1) find_moveIdentities i(1))
qed

text \<open>C10: approving a suggestion redirects resolution: a sender of the merged contact
  resolves to the surviving one, a VIP if either was, and is deleted no more than it
  was; every other sender resolves to the contact it resolved to before; and the
  merged contact is deleted.\<close>

theorem merge_redirects_resolution:
  assumes "suggestionOf s i = Inr g" "contactOf s (ims_candidateContactIdA g) = Some primary"
    and "contactOf s (ims_candidateContactIdB g) = Some merged" "con_id primary \<noteq> con_id merged"
    and "resolved input s = Some c"
  shows "\<exists>s'. approveMergeSuggestion E True now i userId s = (Inr (con_id primary, con_id merged), s') \<and>
    fst (resolveIdentity E now' input s') = Inr (if con_id c = con_id merged \<or> con_id c = con_id primary
      then primary\<lparr>con_isVip := con_isVip primary \<or> con_isVip merged\<rparr> else c) \<and>
    contactOf s' (con_id merged) = Some (merged\<lparr>con_deletedAt := Some now\<rparr>)"
proof -
  have ids: "con_id primary = ims_candidateContactIdA g" "con_id merged = ims_candidateContactIdB g"
    using assms(2,3) by (simp_all add: contactOf_id)
  obtain j where j: "contactOf s (con_id c) = Some c"
    using assms(5) by (auto elim: resolved_identity)
  let ?s = "mergedState E now g userId merged s"
  have "resolved input ?s = contactOf ?s (if con_id c = con_id merged then con_id primary else con_id c)"
    using resolved_mergedState [OF assms(5,2)] ids by simp
  also have "\<dots> = Some (if con_id c = con_id merged \<or> con_id c = con_id primary
      then primary\<lparr>con_isVip := con_isVip primary \<or> con_isVip merged\<rparr> else c)"
    using assms(2-4) j ids by (auto simp: contactOf_mergedState)
  finally have r: "resolved input ?s = Some (if con_id c = con_id merged \<or> con_id c = con_id primary
      then primary\<lparr>con_isVip := con_isVip primary \<or> con_isVip merged\<rparr> else c)" .
  have "contactOf ?s (con_id merged) = Some (merged\<lparr>con_deletedAt := Some now\<rparr>)"
    using assms(3,4) ids by (simp add: contactOf_mergedState)
  then show ?thesis
    using approve_committed [OF assms(1-3)] resolveIdentity_resolved [OF r] ids by simp
qed

text \<open>Approving a suggestion whose surviving contact has itself been merged away
  since hides the other contact too: its senders resolve to a deleted contact, which
  no endpoint shows.\<close>

theorem stale_merge_hides_contact:
  assumes "suggestionOf s i = Inr g" "contactOf s (ims_candidateContactIdA g) = Some primary"
    and "contactOf s (ims_candidateContactIdB g) = Some merged" "con_deletedAt primary \<noteq> None"
    and "resolved input s = Some merged" "con_deletedAt merged = None" "distinct (map con_id (contacts s))"
  shows "\<exists>s' c. approveMergeSuggestion E True now i userId s = (Inr (con_id primary, con_id merged), s') \<and>
    fst (resolveIdentity E now' input s') = Inr c \<and> con_deletedAt c \<noteq> None \<and>
    ownContact (con_id c) w s' = Inl (HttpError 404 ''CONTACT_NOT_FOUND'')"
proof -
  have ids: "con_id primary = ims_candidateContactIdA g" "con_id merged = ims_candidateContactIdB g"
    using assms(2,3) by (simp_all add: contactOf_id)
  let ?s = "mergedState E now g userId merged s"
  let ?c = "primary\<lparr>con_isVip := con_isVip primary \<or> con_isVip merged\<rparr>"
  have ne: "con_id primary \<noteq> con_id merged" using assms(2-4,6) ids by auto
  have r: "resolved input ?s = Some ?c"
    using resolved_mergedState [OF assms(5,2)] assms(2) ne ids by (simp add: contactOf_mergedState)
  have p: "contactOf ?s (con_id primary) = Some ?c" using assms(2) ne ids by (simp add: contactOf_mergedState)
  have d: "distinct (map con_id (contacts ?s))"
    using assms(7) by (simp add: mergedState_tables(3) softDeleteContact_def setContact_def map_updateMany)
  have "x = ?c" if "x \<in> set (contacts ?s)" "con_id x = con_id ?c" for x
    using d p that by (auto simp: contactOf_def distinct_map inj_on_def dest!: findFirst_SomeD)
  then have "findFirst (\<lambda>c. con_deletedAt c = None \<and> con_id c = con_id ?c \<and> con_workspaceId c = w) (contacts ?s) = None"
    using assms(4) unfolding findFirst_None_iff by fastforce
  then have "ownContact (con_id ?c) w ?s = Inl (HttpError 404 ''CONTACT_NOT_FOUND'')"
    by (simp only: ownContact_def option.case)
  then show ?thesis
    using approve_committed [OF assms(1-3)] resolveIdentity_resolved [OF r] ids assms(4)
    by (intro exI [of _ ?s] exI [of _ ?c]) simp
qed

text \<open>An approval whose transaction does not commit still deletes the merged
  contact, while its identities and messages stay with it and the suggestion stays
  pending.\<close>

theorem failed_merge_hides_contact:
  assumes "suggestionOf s i = Inr g" "contactOf s (ims_candidateContactIdA g) = Some primary"
    and "contactOf s (ims_candidateContactIdB g) = Some merged" "resolved input s = Some merged"
  shows "\<exists>e s'. approveMergeSuggestion E False now i userId s = (Inl e, s') \<and>
    fst (resolveIdentity E now' input s') = Inr (merged\<lparr>con_deletedAt := Some now\<rparr>) \<and>
    messages s' = messages s \<and> suggestionOf s' i = Inr g"
proof -
  have ids: "con_id merged = ims_candidateContactIdB g" using assms(3) by (simp add: contactOf_id)
  let ?s = "softDeleteContact now (ims_candidateContactIdB g) s"
  have a: "approveMergeSuggestion E False now i userId s = (Inl (MergeFailed (PlainError ''P2028'')), ?s)"
    using assms(1-3) by (simp add: approveMergeSuggestion_def approveTx_def Let_def)
  obtain j where "findFirst (\<lambda>i. identityKey i = inputKey input) (contactIdentities s) = Some j" "contactOf s (cid_contactId j) = Some merged"
    "con_id merged = cid_contactId j"
    using assms(4) by (rule resolved_identity)
  then have "resolved input ?s = Some (merged\<lparr>con_deletedAt := Some now\<rparr>)"
    using ids by (simp add: resolved_def softDeleteContact_def contactOf_setContact) (simp add: setContact_def)
  moreover have "messages ?s = messages s" "suggestionOf ?s i = Inr g"
    using assms(1) by (simp_all add: softDeleteContact_def setContact_def suggestionOf_def)
  ultimately show ?thesis using a resolveIdentity_resolved by fastforce
qed

section \<open>A sample graph\<close>

definition sampleContact :: "uuid \<Rightarrow> bool \<Rightarrow> instant option \<Rightarrow> Contact" where
  "sampleContact i vip d = \<lparr>con_id = i, con_workspaceId = 11, con_displayName = ''Ann'', con_isVip = vip, con_createdAt = 0,
     con_deletedAt = d\<rparr>"

definition sampleIdentity :: "uuid \<Rightarrow> uuid \<Rightarrow> string \<Rightarrow> ContactIdentity" where
  "sampleIdentity i c x = \<lparr>cid_id = i, cid_contactId = c, cid_workspaceId = 11, cid_providerId = 61, cid_externalId = x,
     cid_handle = None, cid_matchType = ExactMatch, cid_confidenceScore = None\<rparr>"

definition sampleSuggestion :: "uuid \<Rightarrow> uuid \<Rightarrow> uuid \<Rightarrow> IdentityMergeSuggestion" where
  "sampleSuggestion i a b = \<lparr>ims_id = i, ims_workspaceId = 11, ims_candidateContactIdA = a, ims_candidateContactIdB = b,
     ims_confidenceScore = 90, ims_matchingSignals = \<lparr>mts_reason = ''Identical display name'', mts_normalizedNameA = ''ann'',
       mts_normalizedNameB = ''ann''\<rparr>, ims_status = Pending, ims_reviewedByUserId = None, ims_reviewedAt = None,
     ims_expiresAt = 100, ims_createdAt = 0\<rparr>"

text \<open>Three contacts of one name, the second possibly merged away already, and a pending
  suggestion of the last two.\<close>

definition sampleGraph :: "instant option \<Rightarrow> world" where
  "sampleGraph d = emptyWorld\<lparr>contacts := [sampleContact 1 False None, sampleContact 2 False d, sampleContact 3 True None],
     contactIdentities := [sampleIdentity 71 1 ''a'', sampleIdentity 72 2 ''b'', sampleIdentity 73 3 ''c''],
     mergeSuggestions := [sampleSuggestion 81 2 3]\<rparr>"

definition sampleInput :: "string \<Rightarrow> ResolveIdentityInput" where
  "sampleInput x = \<lparr>ri_workspaceId = 11, ri_providerId = 61, ri_externalId = x, ri_handle = None, ri_displayName = None\<rparr>"

lemma sampleGraph_tables:
  "suggestionOf (sampleGraph d) 81 = Inr (sampleSuggestion 81 2 3)"
  "contactOf (sampleGraph d) 2 = Some (sampleContact 2 False d)" "contactOf (sampleGraph d) 3 = Some (sampleContact 3 True None)"
  "resolved (sampleInput ''c'') (sampleGraph d) = Some (sampleContact 3 True None)"
  "distinct (map con_id (contacts (sampleGraph d)))"
  by (simp_all add: suggestionOf_def contactOf_def resolved_def sampleGraph_def sampleSuggestion_def sampleContact_def
      sampleIdentity_def identityKey_def inputKey_def sampleInput_def)

lemma sampleSuggestion_ids [simp]:
  "ims_candidateContactIdA (sampleSuggestion i a b) = a" "ims_candidateContactIdB (sampleSuggestion i a b) = b"
  by (simp_all add: sampleSuggestion_def)

lemma sampleContact_simps [simp]:
  "con_id (sampleContact i v d) = i" "con_isVip (sampleContact i v d) = v" "con_deletedAt (sampleContact i v d) = d"
  "sampleContact i v d\<lparr>con_isVip := u\<rparr> = sampleContact i u d" "sampleContact i v d\<lparr>con_deletedAt := e\<rparr> = sampleContact i v e"
  by (simp_all add: sampleContact_def)

theorem merge_redirects_resolution_witness:
  "\<exists>s'. approveMergeSuggestion sampleEnv True 5 81 21 (sampleGraph None) = (Inr (2, 3), s') \<and>
   fst (resolveIdentity sampleEnv 6 (sampleInput ''c'') s') = Inr (sampleContact 2 True None)"
  using merge_redirects_resolution [where s = "sampleGraph None" and i = 81 and g = "sampleSuggestion 81 2 3" and
      primary = "sampleContact 2 False None" and merged = "sampleContact 3 True None" and input = "sampleInput ''c''" and
      E = sampleEnv and now = 5 and userId = 21 and now' = 6 and c = "sampleContact 3 True None"]
  by (auto simp: sampleGraph_tables)

theorem stale_merge_hides_contact_witness:
  "\<exists>s' c. approveMergeSuggestion sampleEnv True 5 81 21 (sampleGraph (Some 4)) = (Inr (2, 3), s') \<and>
   fst (resolveIdentity sampleEnv 6 (sampleInput ''c'') s') = Inr c \<and> con_deletedAt c \<noteq> None"
  using stale_merge_hides_contact [where s = "sampleGraph (Some 4)" and i = 81 and g = "sampleSuggestion 81 2 3" and
      primary = "sampleContact 2 False (Some 4)" and merged = "sampleContact 3 True None" and input = "sampleInput ''c''" and
      E = sampleEnv and now = 5 and userId = 21 and now' = 6 and w = 11]
  by (auto simp: sampleGraph_tables)

theorem failed_merge_hides_contact_witness:
  "\<exists>e s'. approveMergeSuggestion sampleEnv False 5 81 21 (sampleGraph None) = (Inl e, s') \<and>
   fst (resolveIdentity sampleEnv 6 (sampleInput ''c'') s') = Inr (sampleContact 3 True (Some 5))"
  using failed_merge_hides_contact [where s = "sampleGraph None" and i = 81 and g = "sampleSuggestion 81 2 3" and
      primary = "sampleContact 2 False None" and merged = "sampleContact 3 True None" and input = "sampleInput ''c''" and
      E = sampleEnv and now = 5 and userId = 21 and now' = 6]
  by (auto simp: sampleGraph_tables)

section \<open>A split undoes a merge\<close>

lemma updateMany_comp:
  "updateMany q g (updateMany p f xs) = map (\<lambda>x. let y = (if p x then f x else x) in if q y then g y else y) xs"
  by (simp add: updateMany_def Let_def)

text \<open>The conversations of the workspace on the providers of a contact's identities, where
  its messages are.\<close>

definition conversationsOf :: "uuid \<Rightarrow> uuid \<Rightarrow> world \<Rightarrow> uuid set" where
  "conversationsOf w b s = cnv_id ` {c \<in> set (conversations s). cnv_deletedAt c = None \<and> cnv_workspaceId c = w \<and>
     cnv_providerId c \<in> cid_providerId ` {i \<in> set (contactIdentities s). cid_contactId i = b}}"

definition identitiesOf :: "uuid \<Rightarrow> world \<Rightarrow> uuid list" where
  "identitiesOf b s = map cid_id (filter (\<lambda>i. cid_contactId i = b) (contactIdentities s))"

lemma split_tables:
  assumes "contactOf s a = Some primary" and d: "distinct (map cid_id (contactIdentities s))"
    and ids: "identitiesOf b s0 \<noteq> []" and t: "contactIdentities s = contactIdentities (moveIdentities b a s0)"
      "conversations s = conversations s0" "distinct (map cid_id (contactIdentities s0))" "a \<noteq> b"
  shows "\<exists>n s'. splitContact E now \<lparr>sci_contactId = a, sci_workspaceId = w, sci_contactIdentityIds = identitiesOf b s0,
      sci_splitByUserId = u, sci_reason = rs\<rparr> s = (Inr n, s') \<and>
    contactIdentities s' = map (\<lambda>i. if cid_contactId i = b then i\<lparr>cid_contactId := n\<rparr> else i) (contactIdentities s0) \<and>
    messages s' = updateMany (\<lambda>m. msg_senderContactId m = Some a \<and> msg_conversationId m \<in> conversationsOf w b s0)
      (\<lambda>m. m\<lparr>msg_senderContactId := Some n\<rparr>) (messages s)"
proof -
  let ?input = "\<lparr>sci_contactId = a, sci_workspaceId = w, sci_contactIdentityIds = identitiesOf b s0, sci_splitByUserId = u, sci_reason = rs\<rparr>"
  have own: "cid_id i \<in> set (identitiesOf b s0) \<longleftrightarrow> cid_contactId i = b" if "i \<in> set (contactIdentities s0)" for i
    using that t(3) by (auto simp: identitiesOf_def distinct_map inj_on_def)
  define moving where "moving = filter (\<lambda>i. cid_id i \<in> set (identitiesOf b s0) \<and> cid_contactId i = a) (contactIdentities s)"
  have m: "moving = map (\<lambda>i. i\<lparr>cid_contactId := a\<rparr>) (filter (\<lambda>i. cid_contactId i = b) (contactIdentities s0))"
    unfolding moving_def t(1) moveIdentities_def using own
    by (auto simp: updateMany_def filter_map o_def intro!: map_cong filter_cong)
  have ne: "moving \<noteq> []" using ids by (auto simp: m identitiesOf_def filter_empty_conv)
  have mid: "map cid_id moving = identitiesOf b s0" by (simp add: m identitiesOf_def o_def)
  have mp: "set (map cid_providerId moving) = cid_providerId ` {i \<in> set (contactIdentities s0). cid_contactId i = b}"
    by (auto simp: m)
  define n where "n = drawNth E 0 s"
  obtain s' where s': "splitContact E now ?input s = (Inr n, s')"
    "contactIdentities s' = updateMany (\<lambda>i. cid_id i \<in> set (map cid_id moving)) (\<lambda>i. i\<lparr>cid_contactId := n\<rparr>) (contactIdentities s)"
    "messages s' = updateMany (\<lambda>m. msg_senderContactId m = Some a \<and> msg_conversationId m \<in> set (map cnv_id
        (filter (\<lambda>c. cnv_deletedAt c = None \<and> cnv_workspaceId c = w \<and> cnv_providerId c \<in> set (remdups (map cid_providerId moving)))
          (conversations s)))) (\<lambda>m. m\<lparr>msg_senderContactId := Some n\<rparr>) (messages s)"
    using assms(1) ne by (simp add: splitContact_def Let_def flip: moving_def n_def)
  have "contactIdentities s' = map (\<lambda>i. if cid_contactId i = b then i\<lparr>cid_contactId := n\<rparr> else i) (contactIdentities s0)"
    unfolding s'(2) mid t(1) moveIdentities_def using own by (auto simp: updateMany_def intro!: map_cong)
  moreover have "set (map cnv_id (filter (\<lambda>c. cnv_deletedAt c = None \<and> cnv_workspaceId c = w \<and>
      cnv_providerId c \<in> set (remdups (map cid_providerId moving))) (conversations s))) = conversationsOf w b s0"
    unfolding set_remdups mp by (auto simp: conversationsOf_def t(2))
  ultimately show ?thesis using s' by auto
qed


definition splitGraph :: world where
  "splitGraph = (sampleGraph None)\<lparr>contactIdentities := [sampleIdentity 71 1 ''a'', sampleIdentity 73 3 ''c'']\<rparr>"


section \<open>One open suggestion per pair\<close>

definition pairOf :: "IdentityMergeSuggestion \<Rightarrow> uuid \<times> uuid \<times> uuid" where
  "pairOf g = (ims_workspaceId g, min (ims_candidateContactIdA g) (ims_candidateContactIdB g),
     max (ims_candidateContactIdA g) (ims_candidateContactIdB g))"

definition isOpen :: "IdentityMergeSuggestion \<Rightarrow> bool" where
  "isOpen g \<longleftrightarrow> ims_status g = Pending \<or> ims_status g = Rejected"

definition openPairs :: "world \<Rightarrow> (uuid \<times> uuid \<times> uuid) list" where
  "openPairs s = map pairOf (filter isOpen (mergeSuggestions s))"

lemma openPair_iff: "openPair w (min a b) (max a b) g \<longleftrightarrow> isOpen g \<and> pairOf g = (w, min a b, max a b)" for a b :: nat
  by (auto simp: openPair_def isOpen_def pairOf_def min_def max_def split: if_splits)

definition candidatePair :: "uuid \<Rightarrow> MergeCandidate \<Rightarrow> uuid \<times> uuid \<times> uuid" where
  "candidatePair w c = (w, min (mgc_contactIdA c) (mgc_contactIdB c), max (mgc_contactIdA c) (mgc_contactIdB c))"

lemma suggestCandidate_open:
  "openPairs (suggestCandidate E now w c s) = openPairs s @ (if candidatePair w c \<in> set (openPairs s) then [] else [candidatePair w c])"
proof (cases "candidatePair w c \<in> set (openPairs s)")
  case True
  then have "list_ex (openPair w (min (mgc_contactIdA c) (mgc_contactIdB c)) (max (mgc_contactIdA c) (mgc_contactIdB c))) (mergeSuggestions s)"
    by (auto simp: openPairs_def candidatePair_def list_ex_iff openPair_iff)
  then show ?thesis using True by (simp add: suggestCandidate_def Let_def)
next
  case False
  then have "\<not> list_ex (openPair w (min (mgc_contactIdA c) (mgc_contactIdB c)) (max (mgc_contactIdA c) (mgc_contactIdB c))) (mergeSuggestions s)"
    by (auto simp: openPairs_def candidatePair_def list_ex_iff openPair_iff rev_image_eqI)
  then show ?thesis using False
    by (simp add: suggestCandidate_def Let_def openPairs_def isOpen_def) (simp add: pairOf_def candidatePair_def)
qed

lemma suggestCandidate_frame [simp]:
  "contacts (suggestCandidate E now w c s) = contacts s" "workspaces (suggestCandidate E now w c s) = workspaces s"
  by (simp_all add: suggestCandidate_def Let_def)

lemma sweepWorkspace_open:
  "contacts (fold (suggestCandidate E now w) cs s) = contacts s \<and> workspaces (fold (suggestCandidate E now w) cs s) = workspaces s
   \<and> (distinct (openPairs s) \<longrightarrow> distinct (openPairs (fold (suggestCandidate E now w) cs s)))
   \<and> set (openPairs (fold (suggestCandidate E now w) cs s)) = set (openPairs s) \<union> candidatePair w ` set cs"
proof (induction cs arbitrary: s)
  case (Cons c cs)
  show ?case using Cons [of "suggestCandidate E now w c s"] by (auto simp: suggestCandidate_open)
qed simp

lemma sweeps_open:
  "contacts (fold (sweepWorkspace E now) ws s) = contacts s
   \<and> (distinct (openPairs s) \<longrightarrow> distinct (openPairs (fold (sweepWorkspace E now) ws s)))
   \<and> set (openPairs (fold (sweepWorkspace E now) ws s)) = set (openPairs s) \<union> (\<Union>w\<in>set ws. candidatePair w ` set (findMergeCandidates w s))"
proof (induction ws arbitrary: s)
  case (Cons w ws)
  let ?s1 = "sweepWorkspace E now w s"
  have c: "contacts ?s1 = contacts s" "distinct (openPairs s) \<longrightarrow> distinct (openPairs ?s1)"
    "set (openPairs ?s1) = set (openPairs s) \<union> candidatePair w ` set (findMergeCandidates w s)"
    using sweepWorkspace_open unfolding sweepWorkspace_def by auto
  have "findMergeCandidates v ?s1 = findMergeCandidates v s" for v by (simp add: findMergeCandidates_def c(1))
  then show ?case using Cons [of ?s1] c by auto
qed simp

lemma distinct_map_subset: "distinct (map f (filter p xs)) \<Longrightarrow> (\<And>x. x \<in> set xs \<Longrightarrow> q x \<Longrightarrow> p x) \<Longrightarrow> distinct (map f (filter q xs))"
  by (induction xs) (auto split: if_splits)

lemma updateMany_open:
  assumes "\<And>g. pairOf (f g) = pairOf g" "\<And>g. g \<in> set gs \<Longrightarrow> p g \<Longrightarrow> isOpen (f g) \<Longrightarrow> isOpen g"
  shows "map pairOf (filter isOpen (updateMany p f gs)) = map pairOf (filter (\<lambda>g. isOpen (if p g then f g else g)) gs)"
    "distinct (map pairOf (filter isOpen gs)) \<Longrightarrow> distinct (map pairOf (filter isOpen (updateMany p f gs)))"
proof -
  show e: "map pairOf (filter isOpen (updateMany p f gs)) = map pairOf (filter (\<lambda>g. isOpen (if p g then f g else g)) gs)"
    using assms(1) by (induction gs) auto
  assume "distinct (map pairOf (filter isOpen gs))"
  then show "distinct (map pairOf (filter isOpen (updateMany p f gs)))"
    unfolding e by (rule distinct_map_subset) (use assms(2) in \<open>auto split: if_splits\<close>)
qed

text \<open>The matching sweep and the reviews keep at most one pending or rejected
  suggestion per pair of contacts, and after a sweep every pair of live contacts with
  matching names in a live workspace has one that is open, or expired unreviewed: a
  rejected pair is not suggested again.\<close>

theorem one_suggestion_per_pair:
  assumes "distinct (openPairs s)" "distinct (map ims_id (mergeSuggestions s))"
  shows "distinct (openPairs (matchingRunOnce E now s)) \<and>
    (\<forall>w\<in>set (workspaces s). ws_deletedAt w = None \<longrightarrow> (\<forall>c\<in>set (findMergeCandidates (ws_id w) s).
      \<exists>g\<in>set (mergeSuggestions (matchingRunOnce E now s)). pairOf g = candidatePair (ws_id w) c \<and>
        (isOpen g \<or> ims_status g = Expired \<and> ims_expiresAt g < now))) \<and>
    distinct (openPairs (snd (approveMergeSuggestion E commits now i userId s))) \<and>
    distinct (openPairs (snd (rejectMergeSuggestion now i userId s)))"
proof (intro conjI)
  let ?ws = "map ws_id (filter (\<lambda>w. ws_deletedAt w = None) (workspaces s))"
  let ?s1 = "fold (sweepWorkspace E now) ?ws s"
  let ?p = "\<lambda>g. ims_status g = Pending \<and> ims_expiresAt g < now" and ?f = "\<lambda>g :: IdentityMergeSuggestion. g\<lparr>ims_status := Expired\<rparr>"
  have r: "matchingRunOnce E now s = ?s1\<lparr>mergeSuggestions := updateMany ?p ?f (mergeSuggestions ?s1)\<rparr>"
    by (simp add: matchingRunOnce_def expireSuggestions_def)
  have d: "distinct (openPairs ?s1)" using sweeps_open assms(1) by blast
  show "distinct (openPairs (matchingRunOnce E now s))"
    unfolding r using d updateMany_open(2) [of ?f "mergeSuggestions ?s1" ?p] by (simp add: openPairs_def pairOf_def isOpen_def)
  show "\<forall>w\<in>set (workspaces s). ws_deletedAt w = None \<longrightarrow> (\<forall>c\<in>set (findMergeCandidates (ws_id w) s).
      \<exists>g\<in>set (mergeSuggestions (matchingRunOnce E now s)). pairOf g = candidatePair (ws_id w) c \<and>
        (isOpen g \<or> ims_status g = Expired \<and> ims_expiresAt g < now))"
  proof (intro ballI impI)
    fix w c assume "w \<in> set (workspaces s)" "ws_deletedAt w = None" "c \<in> set (findMergeCandidates (ws_id w) s)"
    then have "candidatePair (ws_id w) c \<in> set (openPairs ?s1)" using sweeps_open [of E now ?ws s] by auto
    then obtain g where g: "g \<in> set (mergeSuggestions ?s1)" "isOpen g" "pairOf g = candidatePair (ws_id w) c"
      by (auto simp: openPairs_def)
    let ?g = "if ?p g then ?f g else g"
    have "?g \<in> set (mergeSuggestions (matchingRunOnce E now s))" using g(1) by (simp add: r set_updateMany)
    then show "\<exists>g\<in>set (mergeSuggestions (matchingRunOnce E now s)). pairOf g = candidatePair (ws_id w) c \<and>
        (isOpen g \<or> ims_status g = Expired \<and> ims_expiresAt g < now)"
      using g(2,3) by (intro bexI [of _ ?g]) (auto simp: pairOf_def)
  qed
  have "mergeSuggestions (snd (approveMergeSuggestion E commits now i userId s)) = mergeSuggestions s \<or>
    (\<exists>k. mergeSuggestions (snd (approveMergeSuggestion E commits now i userId s)) = updateMany (\<lambda>g. ims_id g = k)
      (\<lambda>x. x\<lparr>ims_status := Approved, ims_reviewedByUserId := Some userId, ims_reviewedAt := Some now\<rparr>) (mergeSuggestions s))"
    by (auto simp: approveMergeSuggestion_def approveTx_def Let_def logMerge_def drawn_def setSuggestion_def softDeleteContact_def
        setContact_def moveMessages_def moveIdentities_def split: sum.splits option.splits)
  then show "distinct (openPairs (snd (approveMergeSuggestion E commits now i userId s)))"
    using assms(1) updateMany_open(2) [of "\<lambda>x. x\<lparr>ims_status := Approved, ims_reviewedByUserId := Some userId, ims_reviewedAt := Some now\<rparr>"]
    by (elim disjE exE) (simp_all add: openPairs_def pairOf_def isOpen_def)
  show "distinct (openPairs (snd (rejectMergeSuggestion now i userId s)))"
  proof (cases "suggestionOf s i")
    case (Inr g)
    have o: "isOpen x" if "x \<in> set (mergeSuggestions s)" "ims_id x = i" for x
    proof -
      have "g \<in> set (mergeSuggestions s)" "ims_id g = i" "isOpen g"
        using Inr by (auto simp: suggestionOf_def isOpen_def split: option.splits if_splits dest: findFirst_SomeD)
      then have "x = g" using assms(2) that by (auto simp: distinct_map inj_on_def)
      then show ?thesis using \<open>isOpen g\<close> by simp
    qed
    show ?thesis
      using assms(1) updateMany_open(2) [of "\<lambda>x. x\<lparr>ims_status := Rejected, ims_reviewedByUserId := Some userId, ims_reviewedAt := Some now\<rparr>"
          "mergeSuggestions s" "\<lambda>g. ims_id g = i"] o
      by (simp add: rejectMergeSuggestion_def Inr setSuggestion_def openPairs_def pairOf_def)
  qed (simp add: rejectMergeSuggestion_def assms(1))
qed

theorem one_suggestion_per_pair_witness:
  "distinct (openPairs (matchingRunOnce sampleEnv 50 (sampleGraph None)))"
proof -
  have "distinct (openPairs (sampleGraph None))" "distinct (map ims_id (mergeSuggestions (sampleGraph None)))"
    by (simp_all add: openPairs_def sampleGraph_def)
  from one_suggestion_per_pair [OF this] show ?thesis by blast
qed

end
