(* ===== verification/Rate_Limit.thy ===== *)
theory Rate_Limit
  imports Auth_Service
begin

text \<open>
  Request rate limiting: the tiers of \<open>config/rate-limit.config.ts\<close>, the fixed-window
  counter of \<open>rate-limit/rate-limit.service.ts\<close> (the second provider of
  \<open>window_counter\<close>, beside the login lockout) and the global guard of
  \<open>rate-limit/rate-limit.guard.ts\<close>, which limits a request by the workspace of its
  bearer token or, without a valid one, by its address.
\<close>

section \<open>Tiers\<close>

record RateLimitTier =
  requestsPerMinute :: int
  aiRequestsPerMinute :: int

definition FREE_TIER :: RateLimitTier where
  "FREE_TIER = \<lparr>requestsPerMinute = 60, aiRequestsPerMinute = 30\<rparr>"

definition ANONYMOUS_TIER :: RateLimitTier where
  "ANONYMOUS_TIER = \<lparr>requestsPerMinute = 20, aiRequestsPerMinute = 0\<rparr>"

definition TIERS :: "(string \<times> RateLimitTier) list" where
  "TIERS = [(''free'', FREE_TIER),
     (''pro'', \<lparr>requestsPerMinute = 300, aiRequestsPerMinute = 90\<rparr>),
     (''business'', \<lparr>requestsPerMinute = 1000, aiRequestsPerMinute = 250\<rparr>),
     (''enterprise'', \<lparr>requestsPerMinute = 3000, aiRequestsPerMinute = 600\<rparr>)]"

definition tierFor :: "string option \<Rightarrow> RateLimitTier" where
  "tierFor planTier = (if \<not> nonEmpty planTier then ANONYMOUS_TIER
     else case map_of TIERS (the planTier) of Some t \<Rightarrow> t | None \<Rightarrow> FREE_TIER)"

record rateLimitConfig =
  windowMs :: int
  planTierCacheTtlSeconds :: int

definition defaultRateLimit :: rateLimitConfig where
  "defaultRateLimit = \<lparr>windowMs = 60000, planTierCacheTtlSeconds = 300\<rparr>"

section \<open>The counter\<close>

record RateLimitResult =
  rlr_allowed :: bool
  rlr_limit :: int
  rlr_remaining :: int
  rlr_resetAt :: int

definition rateKey :: "string \<Rightarrow> string" where
  "rateKey k = ''rate_limit:'' @ k"

text \<open>\<open>INCR\<close>, and \<open>PEXPIRE\<close> on the first count or when the key has no expiry.\<close>

definition bumpWindow :: "rateLimitConfig \<Rightarrow> string \<Rightarrow> instant \<Rightarrow> world \<Rightarrow> int \<times> int \<times> world" where
  "bumpWindow R redisKey now s = (case redisIncr now redisKey s of (count, s1) \<Rightarrow>
     if count = 1 then (count, windowMs R, redisExpire redisKey (now + windowMs R) s1)
     else (case redisExpiry now redisKey s1 of
         None \<Rightarrow> (count, windowMs R, redisExpire redisKey (now + windowMs R) s1)
       | Some t \<Rightarrow> (count, t - now, s1)))"

definition consume :: "rateLimitConfig \<Rightarrow> instant \<Rightarrow> string \<Rightarrow> int \<Rightarrow> world \<Rightarrow> RateLimitResult \<times> world" where
  "consume R now k limit s =
     (if limit \<le> 0 then
        (\<lparr>rlr_allowed = False, rlr_limit = limit, rlr_remaining = 0,
          rlr_resetAt = now div 1000 + windowMs R div 1000\<rparr>, s)
      else case bumpWindow R (rateKey k) now s of (count, ttlMs, s1) \<Rightarrow>
        (\<lparr>rlr_allowed = (count \<le> limit), rlr_limit = limit, rlr_remaining = max 0 (limit - count),
          rlr_resetAt = (now + ttlMs) div 1000\<rparr>, s1))"

definition planKey :: "uuid \<Rightarrow> string" where
  "planKey orgId = ''org_plan_tier:'' @ uuidText orgId"

definition cachedText :: "redis_value option \<Rightarrow> string" where
  "cachedText v = (case v of Some (RStr t) \<Rightarrow> t | Some (RInt i) \<Rightarrow> intDigits i | None \<Rightarrow> [])"

definition planTierFor :: "rateLimitConfig \<Rightarrow> instant \<Rightarrow> uuid \<Rightarrow> world \<Rightarrow> string \<times> world" where
  "planTierFor R now orgId s =
     (let cached = cachedText (redisGet now (planKey orgId) s) in
      if cached \<noteq> [] then (cached, s)
      else let planTier = (case findFirst (\<lambda>o'. org_id o' = orgId) (organizations s) of
                 Some o' \<Rightarrow> org_planTier o' | None \<Rightarrow> ''free'')
           in (planTier, redisSet (planKey orgId) (RStr planTier)
                 (Some (now + planTierCacheTtlSeconds R * 1000)) s))"

section \<open>The guard\<close>

record http_request =
  hr_path :: string
  hr_authorization :: "string option"
  hr_ip :: "string option"

definition excludedPath :: "string \<Rightarrow> bool" where
  "excludedPath p \<longleftrightarrow> startsWith p ''/health'' \<or> startsWith p ''/dev/''
     \<or> startsWith p ''/v1/connectors/telegram/webhook/''
     \<or> p \<in> {''/v1/connectors/slack/events'', ''/v1/connectors/slack/callback'', ''/v1/connectors/discord/callback''}"

definition verifiedClaims :: "env \<Rightarrow> instant \<Rightarrow> http_request \<Rightarrow> jwt_claims option" where
  "verifiedClaims E now rq = (let token = extractBearerToken (hr_authorization rq) in
     if nonEmpty token then verifyJwt E (the token) now else None)"

definition addressKey :: "http_request \<Rightarrow> string" where
  "addressKey rq = ''ip:'' @ (case hr_ip rq of Some a \<Rightarrow> a | None \<Rightarrow> ''unknown'')"

definition rateIdentity ::
  "env \<Rightarrow> rateLimitConfig \<Rightarrow> instant \<Rightarrow> http_request \<Rightarrow> world \<Rightarrow> (string \<times> RateLimitTier) \<times> world" where
  "rateIdentity E R now rq s = (case verifiedClaims E now rq of
      Some claims \<Rightarrow> (case planTierFor R now (jwt_orgId claims) s of (planTier, s1) \<Rightarrow>
        ((''workspace:'' @ uuidText (jwt_workspaceId claims), tierFor (Some planTier)), s1))
    | None \<Rightarrow> ((addressKey rq, ANONYMOUS_TIER), s))"

definition isAiPath :: "string \<Rightarrow> bool" where
  "isAiPath p = startsWith p ''/v1/ai/''"

record rate_headers =
  rh_limit :: int
  rh_remaining :: int
  rh_reset :: int
  rh_retryAfter :: "int option"

definition rateHeaders :: "instant \<Rightarrow> RateLimitResult \<Rightarrow> rate_headers" where
  "rateHeaders now r = \<lparr>rh_limit = rlr_limit r, rh_remaining = rlr_remaining r, rh_reset = rlr_resetAt r,
     rh_retryAfter = (if rlr_allowed r then None else Some (max 0 (rlr_resetAt r - now div 1000)))\<rparr>"

definition rateLimitGuard ::
  "env \<Rightarrow> rateLimitConfig \<Rightarrow> instant \<Rightarrow> http_request \<Rightarrow> world \<Rightarrow> (exn + unit) \<times> rate_headers option \<times> world" where
  "rateLimitGuard E R now rq s =
     (if excludedPath (hr_path rq) then (Inr (), None, s)
      else case rateIdentity E R now rq s of ((k, tier), s1) \<Rightarrow>
        let ai = isAiPath (hr_path rq);
            limit = (if ai then aiRequestsPerMinute tier else requestsPerMinute tier);
            bucketKey = (if ai then k @ '':ai'' else k)
        in (case consume R now bucketKey limit s1 of (r, s2) \<Rightarrow>
             (if rlr_allowed r then Inr () else Inl (HttpError 429 ''RATE_LIMITED''),
              Some (rateHeaders now r), s2)))"

section \<open>The counter keeps the window contract\<close>

lemma bumpWindow_redis:
  "fst (bumpWindow R k now s) = redisCount now k s + 1
   \<and> redis (snd (snd (bumpWindow R k now s))) =
      (redis s)(k := Some \<lparr>rv_value = RInt (redisCount now k s + 1),
        rv_expiresAt = Some (if redisCount now k s = 0 then now + windowMs R
          else (case redisExpiry now k s of None \<Rightarrow> now + windowMs R | Some d \<Rightarrow> d))\<rparr>)"
proof -
  have e: "redisExpiry now k (redisSet k v (redisExpiry now k s) s) = redisExpiry now k s" for v
    by (auto simp: redisExpiry_def redisSet_def redisGet_def bind_eq_Some_conv split: option.splits)
  show ?thesis
    by (auto simp: bumpWindow_def redisIncr_def Let_def e split: option.splits)
      (auto simp: redisExpire_def redisSet_def split: option.splits)
qed

definition bumped :: "rateLimitConfig \<Rightarrow> string \<Rightarrow> instant \<Rightarrow> world \<Rightarrow> world" where
  "bumped R k now s = snd (snd (bumpWindow R k now s))"

interpretation requests: window_counter
  "\<lambda>now. redisCount now k" "bumped R k" "deadlineKey k" "windowMs R" for R k
  by (rule window_counterI) (simp_all add: bumped_def bumpWindow_redis redisExpiry_deadline)

lemma bumped_other: "k' \<noteq> k \<Longrightarrow> redis (bumped R k now s) k' = redis s k'"
  by (simp add: bumped_def bumpWindow_redis)

lemma consume_bumps: "0 < limit \<Longrightarrow>
  consume R now k limit s = (\<lparr>rlr_allowed = (redisCount now (rateKey k) s < limit), rlr_limit = limit,
     rlr_remaining = max 0 (limit - redisCount now (rateKey k) s - 1),
     rlr_resetAt = (now + fst (snd (bumpWindow R (rateKey k) now s))) div 1000\<rparr>, bumped R (rateKey k) now s)"
  using bumpWindow_redis [of R "rateKey k" now s]
  by (cases "bumpWindow R (rateKey k) now s") (auto simp: consume_def bumped_def)

section \<open>What the guard does to a bucket\<close>

lemma prefixed_differ: "''workspace:'' @ x \<noteq> ''ip:'' @ y" "''org_plan_tier:'' @ x \<noteq> ''rate_limit:'' @ y"
  by simp_all

lemma planTierFor_redis: "redis (snd (planTierFor R now o' s)) (rateKey k) = redis s (rateKey k)"
  by (simp add: planTierFor_def Let_def redisSet_def planKey_def rateKey_def)

lemma consume_other:
  "k' \<noteq> k \<Longrightarrow> redis (snd (consume R now k limit s)) (rateKey k') = redis s (rateKey k')"
  by (cases "0 < limit") (simp_all add: consume_bumps bumped_other rateKey_def, simp add: consume_def)

lemma consume_free [simp]: "limit \<le> 0 \<Longrightarrow> snd (consume R now k limit s) = s"
  by (simp add: consume_def)

text \<open>Requests without a valid token, from the address \<open>ip\<close>, to a route of the
  general budget.\<close>

definition anonymousFrom :: "env \<Rightarrow> string \<Rightarrow> instant \<times> http_request \<Rightarrow> bool" where
  "anonymousFrom E ip x \<longleftrightarrow> verifiedClaims E (fst x) (snd x) = None \<and> addressKey (snd x) = ''ip:'' @ ip
     \<and> \<not> excludedPath (hr_path (snd x)) \<and> \<not> isAiPath (hr_path (snd x))"

definition addressBucket :: "string \<Rightarrow> string" where
  "addressBucket ip = rateKey (''ip:'' @ ip)"

lemma guard_anonymous:
  assumes "anonymousFrom E ip (now, rq)"
  shows "fst (rateLimitGuard E R now rq s) =
      (if redisCount now (addressBucket ip) s < 20 then Inr () else Inl (HttpError 429 ''RATE_LIMITED''))"
    and "snd (snd (rateLimitGuard E R now rq s)) = bumped R (addressBucket ip) now s"
  using assms by (simp_all add: anonymousFrom_def rateLimitGuard_def rateIdentity_def consume_bumps
      ANONYMOUS_TIER_def Let_def addressBucket_def)

lemma guard_frame:
  assumes "\<not> anonymousFrom E ip (now, rq)"
  shows "redis (snd (snd (rateLimitGuard E R now rq s))) (addressBucket ip) = redis s (addressBucket ip)"
proof (cases "excludedPath (hr_path rq)")
  case False
  obtain k tier s1 where i: "rateIdentity E R now rq s = ((k, tier), s1)" by (metis surj_pair)
  define limit where "limit = (if isAiPath (hr_path rq) then aiRequestsPerMinute tier else requestsPerMinute tier)"
  define bucket where "bucket = (if isAiPath (hr_path rq) then k @ '':ai'' else k)"
  have g: "snd (snd (rateLimitGuard E R now rq s)) = snd (consume R now bucket limit s1)"
    using False i by (simp add: rateLimitGuard_def limit_def bucket_def Let_def split: prod.split)
  show ?thesis
  proof (cases "verifiedClaims E now rq")
    case None
    then have "k = addressKey rq" "tier = ANONYMOUS_TIER" "s1 = s" using i by (simp_all add: rateIdentity_def)
    moreover have "isAiPath (hr_path rq) \<or> addressKey rq \<noteq> ''ip:'' @ ip"
      using assms None False by (auto simp: anonymousFrom_def)
    ultimately show ?thesis
      using consume_other [of "''ip:'' @ ip" bucket R now limit s]
      by (auto simp: g addressBucket_def bucket_def limit_def ANONYMOUS_TIER_def)
  next
    case (Some c)
    then obtain p where "k = ''workspace:'' @ uuidText (jwt_workspaceId c)"
      and s1: "s1 = snd (planTierFor R now (jwt_orgId c) s)"
      using i by (auto simp: rateIdentity_def split: prod.splits)
    then have "''ip:'' @ ip \<noteq> bucket" by (simp add: bucket_def)
    then show ?thesis by (simp add: g addressBucket_def consume_other s1 planTierFor_redis)
  qed
qed (simp add: rateLimitGuard_def)

fun guardRun :: "env \<Rightarrow> rateLimitConfig \<Rightarrow> (instant \<times> http_request) list \<Rightarrow> world \<Rightarrow> (exn + unit) list \<times> world" where
  "guardRun E R [] s = ([], s)"
| "guardRun E R (x # xs) s = (case rateLimitGuard E R (fst x) (snd x) s of (r, h, s1) \<Rightarrow>
     (case guardRun E R xs s1 of (rs, s2) \<Rightarrow> (r # rs, s2)))"

definition admittedOf :: "env \<Rightarrow> rateLimitConfig \<Rightarrow> (instant \<times> http_request \<Rightarrow> bool) \<Rightarrow> (instant \<times> http_request) list
    \<Rightarrow> world \<Rightarrow> nat" where
  "admittedOf E R p xs s = length (filter (\<lambda>(x, r). p x \<and> r = Inr ()) (zip xs (fst (guardRun E R xs s))))"

lemma admittedOf_simps:
  "admittedOf E R p [] s = 0"
  "admittedOf E R p (x # xs) s = (if p x \<and> fst (rateLimitGuard E R (fst x) (snd x) s) = Inr () then 1 else 0)
     + admittedOf E R p xs (snd (snd (rateLimitGuard E R (fst x) (snd x) s)))"
  by (simp_all add: admittedOf_def split: prod.split)

text \<open>The bucket has counted \<open>n\<close> requests of a window that opened at \<open>t0\<close> or later.\<close>

definition counted :: "rateLimitConfig \<Rightarrow> string \<Rightarrow> instant \<Rightarrow> nat \<Rightarrow> world \<Rightarrow> bool" where
  "counted R k t0 n s \<longleftrightarrow> (if n = 0 then \<forall>t\<ge>t0. redisCount t k s = 0
     else \<exists>t1\<ge>t0. requests.holds k R t1 n s)"

lemma counted_count: "counted R k t0 n s \<Longrightarrow> t0 \<le> t \<Longrightarrow> t < t0 + windowMs R \<Longrightarrow> redisCount t k s = int n"
  using requests.holds_count by (auto simp: counted_def split: if_splits)

lemma counted_bump:
  assumes "counted R k t0 n s" "t0 \<le> t" "t < t0 + windowMs R"
  shows "counted R k t0 (Suc n) (bumped R k t s)"
proof (cases "n = 0")
  case True
  then show ?thesis using assms requests.holds_first [of t k s R] by (auto simp: counted_def)
next
  case False
  then obtain t1 where "t0 \<le> t1" "requests.holds k R t1 n s" using assms(1) by (auto simp: counted_def)
  then show ?thesis using requests.holds_next [of k R t1 n s t] False assms(3) by (auto simp: counted_def)
qed

lemma counted_cong: "redis s' k = redis s k \<Longrightarrow> counted R k t0 n s' = counted R k t0 n s"
  by (simp add: counted_def requests.holds_def deadlineKey_def redisCount_def redisGet_def)

lemma counted_start: "redisCount t0 k s = 0 \<Longrightarrow> counted R k t0 0 s"
  by (auto simp: counted_def redisCount_def redisGet_def counterOf_def split: option.splits redis_value.splits if_splits)

lemma admitted_from:
  assumes "counted R (addressBucket ip) t0 n s" "\<forall>x\<in>set xs. t0 \<le> fst x \<and> fst x < t0 + windowMs R"
  shows "min 20 n + admittedOf E R (anonymousFrom E ip) xs s
    = min 20 (n + length (filter (anonymousFrom E ip) xs))"
  using assms
proof (induction xs arbitrary: n s)
  case (Cons x xs)
  obtain now rq where x: "x = (now, rq)" by (cases x)
  define s1 where "s1 = snd (snd (rateLimitGuard E R now rq s))"
  have w: "t0 \<le> now" "now < t0 + windowMs R" using Cons.prems(2) x by auto
  show ?case
  proof (cases "anonymousFrom E ip x")
    case True
    then have "counted R (addressBucket ip) t0 (Suc n) s1"
      using Cons.prems(1) w by (simp add: x s1_def guard_anonymous counted_bump)
    moreover have "\<forall>x\<in>set xs. t0 \<le> fst x \<and> fst x < t0 + windowMs R" using Cons.prems(2) by simp
    ultimately have "min 20 (Suc n) + admittedOf E R (anonymousFrom E ip) xs s1
        = min 20 (Suc n + length (filter (anonymousFrom E ip) xs))"
      by (rule Cons.IH)
    moreover have "redisCount now (addressBucket ip) s = int n" by (rule counted_count [OF Cons.prems(1) w])
    ultimately show ?thesis
      using True by (cases "n < 20") (simp_all add: admittedOf_simps x guard_anonymous s1_def)
  next
    case False
    then have "counted R (addressBucket ip) t0 n s1"
      using Cons.prems(1) counted_cong [OF guard_frame] by (simp add: x s1_def)
    then show ?thesis using Cons False by (simp add: admittedOf_simps x s1_def)
  qed
qed (simp add: admittedOf_simps)

section \<open>Properties\<close>

text \<open>C31: the ceiling on requests nobody signed in for. Whatever else the guard sees
  in between, signed-in requests, other addresses, other routes, in a window that
  starts with the address's counter at zero it admits exactly the first 20 of the
  unauthenticated requests of that address, so none is refused too early and no
  sequence of attempts gets more; the AI routes refuse every such request and leave
  no trace.\<close>

theorem anonymous_ceiling:
  assumes "redisCount t0 (addressBucket ip) s = 0"
    and "\<forall>x\<in>set xs. t0 \<le> fst x \<and> fst x < t0 + windowMs R"
  shows "admittedOf E R (anonymousFrom E ip) xs s = min 20 (length (filter (anonymousFrom E ip) xs))
    \<and> (\<forall>now rq s. verifiedClaims E now rq = None \<and> isAiPath (hr_path rq) \<and> \<not> excludedPath (hr_path rq) \<longrightarrow>
        fst (rateLimitGuard E R now rq s) = Inl (HttpError 429 ''RATE_LIMITED'')
        \<and> snd (snd (rateLimitGuard E R now rq s)) = s)"
  using admitted_from [OF counted_start [OF assms(1)] assms(2), of E]
  by (auto simp: rateLimitGuard_def rateIdentity_def ANONYMOUS_TIER_def consume_def Let_def)

definition sampleRequest :: "string \<Rightarrow> instant \<times> http_request" where
  "sampleRequest ip = (0, \<lparr>hr_path = ''/v1/auth/login'', hr_authorization = None, hr_ip = Some ip\<rparr>)"

lemma anonymous_ceiling_witness:
  "admittedOf sampleEnv defaultRateLimit (anonymousFrom sampleEnv ''10.0.0.1'')
     (replicate 21 (sampleRequest ''10.0.0.1'')) emptyWorld = 20"
proof -
  have p: "anonymousFrom sampleEnv ''10.0.0.1'' (sampleRequest ''10.0.0.1'')"
    by (simp add: anonymousFrom_def sampleRequest_def verifiedClaims_def extractBearerToken_def addressKey_def
        excludedPath_def isAiPath_def nonEmpty_def)
  have "redisCount 0 (addressBucket ''10.0.0.1'') emptyWorld = 0"
    by (simp add: redisCount_def redisGet_def counterOf_def emptyWorld_def)
  moreover have "\<forall>x\<in>set (replicate 21 (sampleRequest ''10.0.0.1'')). 0 \<le> fst x \<and> fst x < 0 + windowMs defaultRateLimit"
    by (simp add: sampleRequest_def defaultRateLimit_def)
  ultimately have "admittedOf sampleEnv defaultRateLimit (anonymousFrom sampleEnv ''10.0.0.1'')
     (replicate 21 (sampleRequest ''10.0.0.1'')) emptyWorld
     = min 20 (length (filter (anonymousFrom sampleEnv ''10.0.0.1'') (replicate 21 (sampleRequest ''10.0.0.1''))))"
    by (rule anonymous_ceiling [THEN conjunct1])
  then show ?thesis using p by (simp add: filter_replicate)
qed

end
