(* ===== verification/Connector_Platform.thy ===== *)
theory Connector_Platform
  imports Ingestion Single_Use
begin

text \<open>
  The platform around the connectors: connecting and disconnecting an account
  (\<open>telegram.controller.ts\<close>, \<open>slack.controller.ts\<close>, \<open>discord.controller.ts\<close>,
  \<open>email.controller.ts\<close>), the OAuth states of Slack and Discord, the inbound paths
  (Telegram's webhook, Slack's events, Discord's gateway) and the periodic passes
  (\<open>*-reconciliation.service.ts\<close>, \<open>email-polling.service.ts\<close>), all of which publish
  \<open>message.received\<close> events for the ingestion pipeline.
\<close>

section \<open>Publishing\<close>

text \<open>\<open>createEvent\<close> draws the event's id and its correlation id; \<open>publish\<close> adds a job of
  that id.\<close>

definition publishMessage :: "env \<Rightarrow> instant \<Rightarrow> InboundMessagePayload \<Rightarrow> world \<Rightarrow> world" where
  "publishMessage E now pl s =
     (let jobId = uuidText (draw E s); s1 = drawn 2 s in
      if list_ex (\<lambda>j. qj_queue j = EVENTS_QUEUE_NAME \<and> qj_id j = jobId) (queueJobs s1) then s1
      else s1\<lparr>queueJobs := queueJobs s1 @ [\<lparr>qj_id = jobId, qj_queue = EVENTS_QUEUE_NAME, qj_state = JWaiting,
              qj_runAt = now, qj_workspaceId = pl_workspaceId pl, qj_data = MessageReceived pl\<rparr>]\<rparr>)"

definition accountPayload :: "LinkedAccount \<Rightarrow> string \<Rightarrow> NormalizedMessage \<Rightarrow> InboundMessagePayload" where
  "accountPayload a key m = \<lparr>pl_workspaceId = la_workspaceId a, pl_providerKey = key,
     pl_conversationExternalId = nm_conversationExternalId m, pl_conversationTitle = nm_conversationTitle m,
     pl_senderExternalId = (case nm_senderExternalId m of Some i \<Rightarrow> i | None \<Rightarrow> nm_conversationExternalId m),
     pl_senderHandle = nm_senderHandle m, pl_senderDisplayName = nm_senderDisplayName m,
     pl_messageExternalId = nm_externalId m, pl_bodyText = nm_bodyText m, pl_receivedAt = nm_receivedAt m,
     pl_direction = nm_direction m, pl_linkedAccountId = Some (la_id a)\<rparr>"

definition publishAll :: "env \<Rightarrow> instant \<Rightarrow> LinkedAccount \<Rightarrow> string \<Rightarrow> NormalizedMessage list \<Rightarrow> world \<Rightarrow> world" where
  "publishAll E now a key msgs s = fold (\<lambda>m. publishMessage E now (accountPayload a key m)) msgs s"

section \<open>The periodic passes\<close>

definition statusForReconciliationFailure :: "conn_exn \<Rightarrow> LifecycleState" where
  "statusForReconciliationFailure e = (case e of
      Mapped c \<Rightarrow> if ce_code c = AUTH_EXPIRED then ReauthRequired else Degraded
    | _ \<Rightarrow> Degraded)"

definition updateAccount :: "uuid \<Rightarrow> (LinkedAccount \<Rightarrow> LinkedAccount) \<Rightarrow> world \<Rightarrow> world" where
  "updateAccount i f s = s\<lparr>linkedAccounts := updateMany (\<lambda>a. la_id a = i) f (linkedAccounts s)\<rparr>"

definition markSynced :: "instant \<Rightarrow> uuid \<Rightarrow> sync_cursor option \<Rightarrow> world \<Rightarrow> world" where
  "markSynced now i cursor = updateAccount i (\<lambda>a. a\<lparr>la_syncCursor := cursor, la_lastSyncedAt := Some now,
     la_lastError := None, la_status := Active\<rparr>)"

definition markFailed :: "uuid \<Rightarrow> string \<Rightarrow> LifecycleState \<Rightarrow> world \<Rightarrow> world" where
  "markFailed i message status = updateAccount i (\<lambda>a. a\<lparr>la_lastError := Some message, la_status := status\<rparr>)"

text \<open>What one pass of a provider does with an account's row and secret: the messages to
  publish and the cursor to store. A column never holds another provider's cursor.\<close>

type_synonym 'p pass = "LinkedAccount \<Rightarrow> string \<Rightarrow> ('p, conn_exn, NormalizedMessage list \<times> sync_cursor option) oper"

definition startOf :: "(sync_cursor \<Rightarrow> 'c option) \<Rightarrow> LinkedAccount \<Rightarrow> 'c SyncCheckpoint option" where
  "startOf dec a = Some \<lparr>cp_cursor = Option.bind (la_syncCursor a) dec, cp_processedCount = 0\<rparr>"

fun offsetOf :: "sync_cursor \<Rightarrow> int option" where
  "offsetOf (OffsetCursor i) = Some i" | "offsetOf _ = None"

fun channelsOf :: "sync_cursor \<Rightarrow> ChannelCursor option" where
  "channelsOf (ChannelsCursor ids i) = Some \<lparr>chc_channelIds = ids, chc_channelIndex = i\<rparr>" | "channelsOf _ = None"

fun uidOf :: "sync_cursor \<Rightarrow> nat option" where
  "uidOf (UidCursor u) = Some u" | "uidOf _ = None"

definition channelsText :: "ChannelCursor \<Rightarrow> sync_cursor" where
  "channelsText c = ChannelsCursor (chc_channelIds c) (chc_channelIndex c)"

definition telegramPass :: "'p TelegramApiClient \<Rightarrow> 'p pass" where
  "telegramPass api a token = bindO
     (telegramReconcile api (startOf offsetOf a) (JStr token) (case la_webhookSecret a of Some t \<Rightarrow> t | None \<Rightarrow> []))
     (\<lambda>r. ok (sr_messages r, map_option OffsetCursor (cp_cursor (sr_checkpoint r))))"

definition slackPass :: "'p SlackApiClient \<Rightarrow> 'p pass" where
  "slackPass api a token = bindO
     (slackSync api (startOf channelsOf a) (JObj [(''botToken'', JStr token), (''teamId'', JStr (la_externalAccountId a))]))
     (\<lambda>r. ok (sr_messages r, if sr_complete r then None else map_option channelsText (cp_cursor (sr_checkpoint r))))"

definition discordPass :: "'p DiscordApiClient \<Rightarrow> 'p pass" where
  "discordPass api a token = bindO
     (discordSync api (startOf channelsOf a) (JObj [(''botToken'', JStr token), (''guildId'', JStr (la_externalAccountId a))]))
     (\<lambda>r. ok (sr_messages r, if sr_complete r then None else map_option channelsText (cp_cursor (sr_checkpoint r))))"

text \<open>The mailbox credential is stored as the text of a JSON object; \<open>json\<close> is the
  run time's \<open>JSON\<close>.\<close>

record json =
  json_stringify :: "jsval \<Rightarrow> string"
  json_parse :: "string \<Rightarrow> jsval option"

definition emailPass :: "json \<Rightarrow> 'p EmailApiClient \<Rightarrow> 'p pass" where
  "emailPass J api a raw = (case json_parse J raw of
      None \<Rightarrow> throw (OtherError ''Unexpected token in JSON'')
    | Some credential \<Rightarrow> bindO (emailPoll api (startOf uidOf a) credential)
        (\<lambda>r. ok (sr_messages r, map_option UidCursor (cp_cursor (sr_checkpoint r)))))"

definition dueAccounts :: "string \<Rightarrow> world \<Rightarrow> LinkedAccount list" where
  "dueAccounts key s = filter (\<lambda>a. la_deletedAt a = None \<and> la_status a \<in> {Active, Degraded}
     \<and> providerKey s (la_providerId a) = key) (linkedAccounts s)"

definition systemAccess :: "bool \<Rightarrow> LinkedAccount \<Rightarrow> CredentialAccessContext" where
  "systemAccess audited a = \<lparr>cac_workspaceId = la_workspaceId a, cac_actorType = ''system'', cac_actorUserId = None,
     cac_audit = audited\<rparr>"

definition passAccount :: "env \<Rightarrow> string \<Rightarrow> 'p pass \<Rightarrow> instant \<Rightarrow> LinkedAccount \<Rightarrow> 'p platform \<Rightarrow> 'p platform" where
  "passAccount E key f now a st =
     (case getSecret E (la_credentialsRef a) (systemAccess False a) (fst st) of
        (Inl e, s1) \<Rightarrow> (markFailed (la_id a) (exnMessage e) Degraded s1, snd st)
      | (Inr secret, s1) \<Rightarrow> (case f a secret (snd st) of
          (Inl e, p1) \<Rightarrow> (markFailed (la_id a) (connMessage e) (statusForReconciliationFailure e) s1, p1)
        | (Inr (msgs, cursor), p1) \<Rightarrow> (markSynced now (la_id a) cursor (publishAll E now a key msgs s1), p1)))"

definition sweepAccounts :: "env \<Rightarrow> string \<Rightarrow> 'p pass \<Rightarrow> instant \<Rightarrow> 'p platform \<Rightarrow> 'p platform" where
  "sweepAccounts E key f now st = fold (passAccount E key f now) (dueAccounts key (fst st)) st"

definition telegramRunOnce :: "env \<Rightarrow> 'p api_clients \<Rightarrow> instant \<Rightarrow> 'p platform \<Rightarrow> 'p platform" where
  "telegramRunOnce E A = sweepAccounts E ''telegram'' (telegramPass (api_telegram A))"

definition slackRunOnce :: "env \<Rightarrow> 'p api_clients \<Rightarrow> instant \<Rightarrow> 'p platform \<Rightarrow> 'p platform" where
  "slackRunOnce E A = sweepAccounts E ''slack'' (slackPass (api_slack A))"

definition discordRunOnce :: "env \<Rightarrow> 'p api_clients \<Rightarrow> instant \<Rightarrow> 'p platform \<Rightarrow> 'p platform" where
  "discordRunOnce E A = sweepAccounts E ''discord'' (discordPass (api_discord A))"

definition emailRunOnce :: "env \<Rightarrow> json \<Rightarrow> 'p api_clients \<Rightarrow> instant \<Rightarrow> 'p platform \<Rightarrow> 'p platform" where
  "emailRunOnce E J A = sweepAccounts E ''email'' (emailPass J (api_email A))"

section \<open>Accounts\<close>

definition connO :: "('p, conn_exn, 'a) oper \<Rightarrow> ('p platform, exn, 'a) oper" where
  "connO m st = (case m (snd st) of
      (Inl e, p1) \<Rightarrow> (Inl (PlainError (connMessage e)), (fst st, p1))
    | (Inr x, p1) \<Rightarrow> (Inr x, (fst st, p1)))"

definition pureO :: "'e + 'a \<Rightarrow> ('s, 'e, 'a) oper" where
  "pureO r s = (r, s)"

definition requireO :: "bool \<Rightarrow> 'e \<Rightarrow> ('s, 'e, unit) oper" where
  "requireO b e = (if b then ok () else throw e)"

definition findActiveLinkedAccount :: "world \<Rightarrow> uuid \<Rightarrow> uuid \<Rightarrow> string \<Rightarrow> LinkedAccount option" where
  "findActiveLinkedAccount s wsId provId ext = findFirst (\<lambda>a. la_deletedAt a = None \<and> la_workspaceId a = wsId
     \<and> la_providerId a = provId \<and> la_externalAccountId a = ext) (linkedAccounts s)"

definition newAccount :: "uuid \<Rightarrow> instant \<Rightarrow> uuid \<Rightarrow> uuid \<Rightarrow> string \<Rightarrow> uuid \<Rightarrow> string option \<Rightarrow> LinkedAccount" where
  "newAccount i now wsId provId ext ref hook = \<lparr>la_id = i, la_workspaceId = wsId, la_providerId = provId,
     la_externalAccountId = ext, la_displayLabel = None, la_status = Registered, la_credentialsRef = ref,
     la_webhookSecret = hook, la_syncCursor = None, la_lastSyncedAt = None, la_lastError = None,
     la_createdAt = now, la_deletedAt = None\<rparr>"

text \<open>The provider's row, the check for a live account, the secret and the account's row
  in state \<open>registered\<close>; nothing when the account exists. \<open>withHook\<close> draws the secret of
  Telegram's webhook.\<close>

definition insertAccount ::
  "env \<Rightarrow> instant \<Rightarrow> uuid \<Rightarrow> uuid \<Rightarrow> string \<Rightarrow> bool \<Rightarrow> uuid \<Rightarrow> (world, exn, LinkedAccount option) oper" where
  "insertAccount E now wsId provId ext withHook ref s =
     (let hook = (if withHook then Some (randomHex E (randomsDrawn s)) else None);
          s1 = (if withHook then randomUsed s else s);
          a = newAccount (draw E s1) now wsId provId ext ref hook
      in if workspaceExists s1 wsId then (Inr (Some a), (drawn 1 s1)\<lparr>linkedAccounts := linkedAccounts s1 @ [a]\<rparr>)
         else (Inl foreignKeyError, drawn 1 s1))"

definition registerAccount ::
  "env \<Rightarrow> instant \<Rightarrow> uuid \<Rightarrow> string \<Rightarrow> string \<Rightarrow> string \<Rightarrow> bool \<Rightarrow> (world, exn, LinkedAccount option) oper" where
  "registerAccount E now wsId key ext secret withHook s = (case upsertProvider E key s of
      (provider, s1) \<Rightarrow>
        if findActiveLinkedAccount s1 wsId (prov_id provider) ext \<noteq> None then (Inr None, s1)
        else bindO (putSecret E secret) (insertAccount E now wsId (prov_id provider) ext withHook) s1)"

text \<open>\<open>lifecycle.transition\<close> through the given states, and the lifecycle after them.\<close>

definition advance :: "instant \<Rightarrow> LifecycleState list \<Rightarrow> ConnectorLifecycle \<Rightarrow> exn + ConnectorLifecycle" where
  "advance now ts lc = (case forEach (transition now) ts lc of (Inl e, _) \<Rightarrow> Inl e | (Inr _, lc') \<Rightarrow> Inr lc')"

definition activateAccount :: "instant \<Rightarrow> uuid \<Rightarrow> LifecycleState \<Rightarrow> world \<Rightarrow> world" where
  "activateAccount now i status = updateAccount i (\<lambda>a. a\<lparr>la_status := status, la_lastSyncedAt := Some now\<rparr>)"

definition accountAudit :: "uuid \<Rightarrow> uuid option \<Rightarrow> string \<Rightarrow> uuid \<Rightarrow> audit_entry" where
  "accountAudit wsId actor action i = \<lparr>ae_workspaceId = Some wsId, ae_organizationId = None, ae_actorUserId = actor,
     ae_actorType = ''user'', ae_action = action, ae_resourceType = Some ''linked_account'', ae_resourceId = Some i,
     ae_ipAddress = None\<rparr>"

text \<open>The first sync in the lifecycle, and the account's row once it is active.\<close>

definition firstSync :: "instant \<Rightarrow> ('p, conn_exn, unit) oper \<Rightarrow> ('p platform, exn, ConnectorLifecycle) oper" where
  "firstSync now sync =
     bindO (pureO (advance now [Authenticating, SyncingInitial] (createLifecycle Registered))) (\<lambda>lc.
     bindO (connO sync) (\<lambda>_. pureO (advance now [Active] lc)))"

definition worldO :: "(world \<Rightarrow> world) \<Rightarrow> ('p platform, exn, unit) oper" where
  "worldO f st = (Inr (), updW f st)"

record ConnectedAccount =
  cna_id :: uuid
  cna_status :: LifecycleState
  cna_externalAccountId :: string
  cna_webhookRegistered :: bool

definition alreadyExists :: exn where
  "alreadyExists = HttpError 409 ''LINKED_ACCOUNT_ALREADY_EXISTS''"

section \<open>Telegram\<close>

definition stripSlash :: "string \<Rightarrow> string" where
  "stripSlash u = (if u \<noteq> [] \<and> last u = CHR ''/'' then butlast u else u)"

definition telegramHook ::
  "'p TelegramApiClient \<Rightarrow> string option \<Rightarrow> string \<Rightarrow> LinkedAccount \<Rightarrow> ('p platform, exn, bool) oper" where
  "telegramHook api base token a st = (if \<not> nonEmpty base then (Inr False, st)
     else case tg_setWebhook api token (stripSlash (the base) @ ''/v1/connectors/telegram/webhook/'' @ uuidText (la_id a))
            (case la_webhookSecret a of Some t \<Rightarrow> t | None \<Rightarrow> []) (snd st) of
         (r, p1) \<Rightarrow> (Inr (r = Inr ()), (fst st, p1)))"

definition connectTelegram ::
  "env \<Rightarrow> 'p TelegramApiClient \<Rightarrow> string option \<Rightarrow> instant \<Rightarrow> string option \<Rightarrow> jwt_claims
    \<Rightarrow> ('p platform, exn, ConnectedAccount) oper" where
  "connectTelegram E api base now botToken claims =
     bindO (requireO (nonEmpty botToken) (HttpError 400 ''BOT_TOKEN_REQUIRED'')) (\<lambda>_.
     let token = the botToken in
     bindO (connO (telegramValidate api (JStr token))) (\<lambda>validation.
     bindO (requireO (cvr_valid validation) (HttpError 422 ''INVALID_BOT_TOKEN'')) (\<lambda>_.
     bindO (connO (authenticate (telegramConnector api) (JStr token))) (\<lambda>ext.
     bindO (onWorld (registerAccount E now (jwt_workspaceId claims) ''telegram'' ext token True)) (\<lambda>created.
     case created of None \<Rightarrow> throw alreadyExists
     | Some a \<Rightarrow>
         bindO (firstSync now (\<lambda>p. (Inr (), p))) (\<lambda>lc.
         bindO (telegramHook api base token a) (\<lambda>registered.
         bindO (worldO (activateAccount now (la_id a) (lc_state lc))) (\<lambda>_.
         bindO (worldO (auditLog E (accountAudit (jwt_workspaceId claims) (Some (jwt_sub claims))
                  ''connector.telegram.connected'' (la_id a)))) (\<lambda>_.
         ok \<lparr>cna_id = la_id a, cna_status = lc_state lc, cna_externalAccountId = ext,
              cna_webhookRegistered = registered\<rparr>)))))))))"

definition telegramWebhook :: "env \<Rightarrow> instant \<Rightarrow> uuid \<Rightarrow> TelegramUpdate \<Rightarrow> string option \<Rightarrow> (world, exn, unit) oper" where
  "telegramWebhook E now accountId update secretHeader s =
     (case findFirst (\<lambda>a. la_id a = accountId) (linkedAccounts s) of
        None \<Rightarrow> (Inr (), s)
      | Some a \<Rightarrow>
          if la_deletedAt a \<noteq> None then (Inr (), s)
          else if \<not> nonEmpty (la_webhookSecret a) \<or> secretHeader \<noteq> la_webhookSecret a
          then (Inl (HttpError 401 ''INVALID_WEBHOOK_SECRET''), s)
          else if telegramContent update = None then (Inr (), s)
          else (case telegramMapMessage update of
              Inl e \<Rightarrow> (Inl (PlainError (connMessage e)), s)
            | Inr m \<Rightarrow> (Inr (), publishMessage E now (accountPayload a ''telegram'' m) s)))"

section \<open>Disconnecting\<close>

text \<open>The four controllers disconnect alike, apart from what they revoke first.\<close>

definition disconnectAccount ::
  "env \<Rightarrow> string \<Rightarrow> (LinkedAccount \<Rightarrow> 'p platform \<Rightarrow> 'p platform) \<Rightarrow> instant \<Rightarrow> uuid \<Rightarrow> jwt_claims
    \<Rightarrow> ('p platform, exn, uuid \<times> LifecycleState) oper" where
  "disconnectAccount E action revokeFirst now accountId claims st =
     (case findFirst (\<lambda>a. la_deletedAt a = None \<and> la_id a = accountId \<and> la_workspaceId a = jwt_workspaceId claims)
             (linkedAccounts (fst st)) of
        None \<Rightarrow> (Inl (HttpError 404 ''LINKED_ACCOUNT_NOT_FOUND''), st)
      | Some a \<Rightarrow> (case advance now [Disconnecting] (createLifecycle (la_status a)) of
          Inl e \<Rightarrow> (Inl e, st)
        | Inr lc \<Rightarrow>
            bindO (onWorld (deleteSecret (la_credentialsRef a) (la_workspaceId a))) (\<lambda>_.
            bindO (pureO (advance now [Disconnected] lc)) (\<lambda>lc'.
            bindO (worldO (updateAccount (la_id a) (\<lambda>x. x\<lparr>la_status := lc_state lc', la_deletedAt := Some now\<rparr>))) (\<lambda>_.
            bindO (worldO (auditLog E (accountAudit (jwt_workspaceId claims) (Some (jwt_sub claims)) action (la_id a)))) (\<lambda>_.
            ok (la_id a, lc_state lc'))))) (revokeFirst a st)))"

definition revokeTelegram :: "env \<Rightarrow> 'p TelegramApiClient \<Rightarrow> jwt_claims \<Rightarrow> LinkedAccount \<Rightarrow> 'p platform \<Rightarrow> 'p platform" where
  "revokeTelegram E api claims a st = (case getSecret E (la_credentialsRef a)
       \<lparr>cac_workspaceId = jwt_workspaceId claims, cac_actorType = ''user'', cac_actorUserId = Some (jwt_sub claims),
        cac_audit = True\<rparr> (fst st) of
      (Inl e, s1) \<Rightarrow> (s1, snd st)
    | (Inr token, s1) \<Rightarrow> (s1, if token = [] then snd st else snd (tg_deleteWebhook api token (snd st))))"

definition disconnectTelegram :: "env \<Rightarrow> 'p TelegramApiClient \<Rightarrow> instant \<Rightarrow> uuid \<Rightarrow> jwt_claims
    \<Rightarrow> ('p platform, exn, uuid \<times> LifecycleState) oper" where
  "disconnectTelegram E api now i claims =
     disconnectAccount E ''connector.telegram.disconnected'' (revokeTelegram E api claims) now i claims"

definition disconnectSlack :: "env \<Rightarrow> instant \<Rightarrow> uuid \<Rightarrow> jwt_claims \<Rightarrow> ('p platform, exn, uuid \<times> LifecycleState) oper" where
  "disconnectSlack E now i claims = disconnectAccount E ''connector.slack.disconnected'' (\<lambda>a st. st) now i claims"

definition disconnectEmail :: "env \<Rightarrow> instant \<Rightarrow> uuid \<Rightarrow> jwt_claims \<Rightarrow> ('p platform, exn, uuid \<times> LifecycleState) oper" where
  "disconnectEmail E now i claims = disconnectAccount E ''connector.email.disconnected'' (\<lambda>a st. st) now i claims"

section \<open>OAuth states\<close>

definition STATE_TTL_SECONDS :: int where
  "STATE_TTL_SECONDS = 10 * 60"

definition slackStateKey :: "string \<Rightarrow> string" where
  "slackStateKey state = ''slack_oauth_state:'' @ state"

definition discordStateKey :: "string \<Rightarrow> string" where
  "discordStateKey state = ''discord_oauth_state:'' @ state"

definition createState :: "env \<Rightarrow> (string \<Rightarrow> string) \<Rightarrow> instant \<Rightarrow> uuid \<Rightarrow> world \<Rightarrow> string \<times> world" where
  "createState E k now wsId s = (let state = randomHex E (randomsDrawn s) in
     (state, redisSet (k state) (RStr (uuidText wsId)) (Some (now + STATE_TTL_SECONDS * 1000)) (randomUsed s)))"

definition consumeState :: "(string \<Rightarrow> string) \<Rightarrow> instant \<Rightarrow> string \<Rightarrow> world \<Rightarrow> string option \<times> world" where
  "consumeState k now state s =
     ((case redisGet now (k state) s of None \<Rightarrow> None | Some (RStr t) \<Rightarrow> Some t | Some (RInt i) \<Rightarrow> Some (intDigits i)),
      redisDel (k state) s)"

text \<open>The state holds the workspace's id as text.\<close>

definition uuidOf :: "string \<Rightarrow> uuid option" where
  "uuidOf t = (if t = [] then None else radixVal 16 0 (filter (\<lambda>c. c \<noteq> CHR ''-'') t))"

section \<open>Authorization URLs\<close>

text \<open>\<open>URLSearchParams\<close>: letters, digits and \<open>*-._\<close> stay, a space is a plus sign, any
  other byte is percent-encoded.\<close>

definition upperHexDigit :: "nat \<Rightarrow> char" where
  "upperHexDigit n = char_of (if n < 10 then 48 + n else 55 + n)"

definition formByte :: "char \<Rightarrow> string" where
  "formByte c = (if (isWordChar c \<or> c \<in> set ''*-.'') then [c] else if c = CHR '' '' then ''+''
     else [CHR ''%'', upperHexDigit (code c div 16), upperHexDigit (code c mod 16)])"

definition formEncode :: "string \<Rightarrow> string" where
  "formEncode t = concat (map formByte t)"

definition withParams :: "string \<Rightarrow> (string \<times> string) list \<Rightarrow> string" where
  "withParams url ps = url @ CHR ''?'' # joinWith ''&'' (map (\<lambda>(k, v). formEncode k @ CHR ''='' # formEncode v) ps)"

record slackConfig =
  slc_clientId :: string
  slc_clientSecret :: string
  slc_signingSecret :: string
  slc_publicBaseUrl :: "string option"
  slc_webAppBaseUrl :: string
  slc_botScopes :: string

record discordConfig =
  dsc_clientId :: string
  dsc_botToken :: string
  dsc_publicBaseUrl :: "string option"
  dsc_webAppBaseUrl :: string
  dsc_botPermissions :: string

definition connectSlack :: "env \<Rightarrow> slackConfig \<Rightarrow> instant \<Rightarrow> jwt_claims \<Rightarrow> (world, exn, string) oper" where
  "connectSlack E C now claims s =
     (if slc_clientId C = [] \<or> \<not> nonEmpty (slc_publicBaseUrl C) then (Inl (HttpError 503 ''SLACK_NOT_CONFIGURED''), s)
      else case createState E slackStateKey now (jwt_workspaceId claims) s of (state, s1) \<Rightarrow>
        (Inr (withParams ''https://slack.com/oauth/v2/authorize''
           [(''client_id'', slc_clientId C), (''scope'', slc_botScopes C),
            (''redirect_uri'', stripSlash (the (slc_publicBaseUrl C)) @ ''/v1/connectors/slack/callback''),
            (''state'', state)]), s1))"

definition connectDiscord :: "env \<Rightarrow> discordConfig \<Rightarrow> instant \<Rightarrow> jwt_claims \<Rightarrow> (world, exn, string) oper" where
  "connectDiscord E C now claims s =
     (if dsc_clientId C = [] \<or> \<not> nonEmpty (dsc_publicBaseUrl C) then (Inl (HttpError 503 ''DISCORD_NOT_CONFIGURED''), s)
      else case createState E discordStateKey now (jwt_workspaceId claims) s of (state, s1) \<Rightarrow>
        (Inr (withParams ''https://discord.com/api/oauth2/authorize''
           [(''client_id'', dsc_clientId C), (''scope'', ''bot''), (''permissions'', dsc_botPermissions C),
            (''redirect_uri'', stripSlash (the (dsc_publicBaseUrl C)) @ ''/v1/connectors/discord/callback''),
            (''response_type'', ''code''), (''state'', state)]), s1))"

section \<open>Slack\<close>

text \<open>\<open>oauth.v2.access\<close> is the one call of the connect flow outside the connector: the
  access token and the team's id, where the answer has them.\<close>

type_synonym 'p slack_exchange = "string \<Rightarrow> string \<Rightarrow> string \<Rightarrow> string \<Rightarrow> ('p, SlackRawApiError, string option \<times> string option) oper"

definition slackSecret :: "string \<Rightarrow> string \<Rightarrow> jsval" where
  "slackSecret token team = JObj [(''botToken'', JStr token), (''teamId'', JStr team)]"

text \<open>The last part of both OAuth callbacks: register, sync, activate and audit, giving
  what the browser is redirected to.\<close>

definition redirectTo :: "string \<Rightarrow> string \<Rightarrow> ('s, 'e, string) oper" where
  "redirectTo base query = ok (base @ ''/?'' @ query)"

definition linkSlackTeam :: "env \<Rightarrow> 'p SlackApiClient \<Rightarrow> slackConfig \<Rightarrow> instant \<Rightarrow> uuid \<Rightarrow> string \<Rightarrow> string
    \<Rightarrow> ('p platform, exn, string) oper" where
  "linkSlackTeam E api C now wsId token team =
     bindO (connO (slackValidate api (slackSecret token team))) (\<lambda>validation.
     if \<not> cvr_valid validation then redirectTo (slc_webAppBaseUrl C) ''slack=error&reason=validation_failed''
     else bindO (onWorld (registerAccount E now wsId ''slack'' team token False)) (\<lambda>created.
     case created of None \<Rightarrow> redirectTo (slc_webAppBaseUrl C) ''slack=already_connected''
     | Some a \<Rightarrow>
         bindO (firstSync now (bindO (slackSync api None (slackSecret token team)) (\<lambda>_. ok ()))) (\<lambda>lc.
         bindO (worldO (activateAccount now (la_id a) (lc_state lc))) (\<lambda>_.
         bindO (worldO (auditLog E (accountAudit wsId None ''connector.slack.connected'' (la_id a)))) (\<lambda>_.
         redirectTo (slc_webAppBaseUrl C) ''slack=connected'')))))"

definition slackCallback :: "env \<Rightarrow> 'p SlackApiClient \<Rightarrow> 'p slack_exchange \<Rightarrow> slackConfig \<Rightarrow> instant
    \<Rightarrow> string option \<Rightarrow> string option \<Rightarrow> string option \<Rightarrow> ('p platform, exn, string) oper" where
  "slackCallback E api exchange C now authCode state oauthError st =
     (if nonEmpty oauthError \<or> \<not> nonEmpty authCode \<or> \<not> nonEmpty state
      then redirectTo (slc_webAppBaseUrl C) ''slack=error'' st
      else case consumeState slackStateKey now (the state) (fst st) of (owner, s1) \<Rightarrow>
        (case Option.bind owner uuidOf of
           None \<Rightarrow> redirectTo (slc_webAppBaseUrl C) ''slack=error&reason=expired_state'' (s1, snd st)
         | Some wsId \<Rightarrow> (case exchange (slc_clientId C) (slc_clientSecret C) (the authCode)
               (stripSlash (case slc_publicBaseUrl C of Some u \<Rightarrow> u | None \<Rightarrow> []) @ ''/v1/connectors/slack/callback'') (snd st) of
             (Inl e, p1) \<Rightarrow> redirectTo (slc_webAppBaseUrl C) ''slack=error&reason=exchange_failed'' (s1, p1)
           | (Inr (token, team), p1) \<Rightarrow>
               if \<not> nonEmpty token \<or> \<not> nonEmpty team
               then redirectTo (slc_webAppBaseUrl C) ''slack=error&reason=incomplete_exchange'' (s1, p1)
               else linkSlackTeam E api C now wsId (the token) (the team) (s1, p1))))"

record SlackEventEnvelope =
  see_type :: string
  see_challenge :: string
  see_team_id :: string
  see_event :: "SlackMessage option"

record slack_request =
  srq_timestamp :: "string option"
  srq_signature :: "string option"
  srq_rawBody :: "string option"
  srq_body :: SlackEventEnvelope

datatype slack_response = SlackOk | SlackChallenge string

definition MAX_REQUEST_AGE_SECONDS :: int where
  "MAX_REQUEST_AGE_SECONDS = 5 * 60"

text \<open>\<open>hmac\<close> is HMAC-SHA256 of a key and a text, in hex. The comparison is of equal
  texts, whatever its timing.\<close>

definition isValidSignature :: "(string \<Rightarrow> string \<Rightarrow> string) \<Rightarrow> slackConfig \<Rightarrow> instant \<Rightarrow> slack_request \<Rightarrow> bool" where
  "isValidSignature hmac C now rq \<longleftrightarrow>
     slc_signingSecret C \<noteq> [] \<and> srq_rawBody rq \<noteq> None \<and> nonEmpty (srq_timestamp rq) \<and> nonEmpty (srq_signature rq)
     \<and> (case toNumber (the (srq_timestamp rq)) of
          Fin t \<Rightarrow> \<bar>of_int now / 1000 - t\<bar> \<le> of_int MAX_REQUEST_AGE_SECONDS
        | _ \<Rightarrow> False)
     \<and> the (srq_signature rq) = ''v0='' @ hmac (slc_signingSecret C)
          (''v0:'' @ the (srq_timestamp rq) @ CHR '':'' # the (srq_rawBody rq))"

definition slackAccountOf :: "string \<Rightarrow> world \<Rightarrow> LinkedAccount option" where
  "slackAccountOf team s = findFirst (\<lambda>a. la_deletedAt a = None \<and> la_externalAccountId a = team
     \<and> providerKey s (la_providerId a) = ''slack'') (linkedAccounts s)"

definition slackEvents :: "env \<Rightarrow> (string \<Rightarrow> string \<Rightarrow> string) \<Rightarrow> slackConfig \<Rightarrow> instant \<Rightarrow> slack_request
    \<Rightarrow> (world, exn, slack_response) oper" where
  "slackEvents E hmac C now rq s =
     (if \<not> isValidSignature hmac C now rq then (Inl (HttpError 401 ''INVALID_SLACK_SIGNATURE''), s)
      else if see_type (srq_body rq) = ''url_verification'' then (Inr (SlackChallenge (see_challenge (srq_body rq))), s)
      else case see_event (srq_body rq) of
          None \<Rightarrow> (Inr SlackOk, s)
        | Some ev \<Rightarrow> if \<not> slackIngestible ev then (Inr SlackOk, s)
            else (case slackAccountOf (see_team_id (srq_body rq)) s of
                None \<Rightarrow> (Inr SlackOk, s)
              | Some a \<Rightarrow> (case slackMapMessage ev of
                  Inl e \<Rightarrow> (Inl (PlainError (connMessage e)), s)
                | Inr m \<Rightarrow> (Inr SlackOk, publishMessage E now (accountPayload a ''slack'' m) s))))"

section \<open>Discord\<close>

text \<open>The gateway connection of an account: opened with the bot token, closed on
  disconnect; the provider state holds the sockets, \<open>gateways\<close> the handles.\<close>

record 'p gateway_client =
  gw_open :: "string \<Rightarrow> uuid \<Rightarrow> 'p \<Rightarrow> 'p"
  gw_close :: "uuid \<Rightarrow> 'p \<Rightarrow> 'p"

definition discordSecret :: "string \<Rightarrow> string \<Rightarrow> jsval" where
  "discordSecret token guild = JObj [(''botToken'', JStr token), (''guildId'', JStr guild)]"

definition startGateway :: "env \<Rightarrow> 'p gateway_client \<Rightarrow> LinkedAccount \<Rightarrow> ('p platform, exn, unit) oper" where
  "startGateway E G a st =
     (if la_id a \<in> set (gateways (fst st)) then (Inr (), st)
      else case getSecret E (la_credentialsRef a) (systemAccess True a) (fst st) of
          (Inl e, s1) \<Rightarrow> (Inl e, (s1, snd st))
        | (Inr token, s1) \<Rightarrow> (case discordCredential (discordSecret token (la_externalAccountId a)) of
            Inl e \<Rightarrow> (Inl (PlainError (connMessage e)), (s1, snd st))
          | Inr (token', guild) \<Rightarrow> (Inr (), (s1\<lparr>gateways := gateways s1 @ [la_id a]\<rparr>, gw_open G token' (la_id a) (snd st)))))"

definition stopGateway :: "'p gateway_client \<Rightarrow> uuid \<Rightarrow> 'p platform \<Rightarrow> 'p platform" where
  "stopGateway G i st =
     (if i \<notin> set (gateways (fst st)) then st
      else ((fst st)\<lparr>gateways := filter (\<lambda>x. x \<noteq> i) (gateways (fst st))\<rparr>, gw_close G i (snd st)))"

definition gatewayBoot :: "env \<Rightarrow> 'p gateway_client \<Rightarrow> 'p platform \<Rightarrow> 'p platform" where
  "gatewayBoot E G st = fold (\<lambda>a st. snd (startGateway E G a st)) (dueAccounts ''discord'' (fst st)) st"

definition gatewayShutdown :: "'p gateway_client \<Rightarrow> 'p platform \<Rightarrow> 'p platform" where
  "gatewayShutdown G st = ((fst st)\<lparr>gateways := []\<rparr>, fold (gw_close G) (gateways (fst st)) (snd st))"

text \<open>A message of the gateway of account \<open>a\<close>, with the row the gateway was started on.\<close>

definition gatewayMessage :: "env \<Rightarrow> instant \<Rightarrow> LinkedAccount \<Rightarrow> DiscordMessage \<Rightarrow> world \<Rightarrow> world" where
  "gatewayMessage E now a m s =
     (if du_bot (dm_author m) then s else publishMessage E now (accountPayload a ''discord'' (discordMapMessage m)) s)"

definition linkDiscordGuild :: "env \<Rightarrow> 'p DiscordApiClient \<Rightarrow> 'p gateway_client \<Rightarrow> discordConfig \<Rightarrow> instant \<Rightarrow> uuid \<Rightarrow> string
    \<Rightarrow> ('p platform, exn, string) oper" where
  "linkDiscordGuild E api G C now wsId guild =
     bindO (connO (discordValidate api (discordSecret (dsc_botToken C) guild))) (\<lambda>validation.
     if \<not> cvr_valid validation then redirectTo (dsc_webAppBaseUrl C) ''discord=error&reason=validation_failed''
     else bindO (onWorld (registerAccount E now wsId ''discord'' guild (dsc_botToken C) False)) (\<lambda>created.
     case created of None \<Rightarrow> redirectTo (dsc_webAppBaseUrl C) ''discord=already_connected''
     | Some a \<Rightarrow>
         bindO (firstSync now (bindO (discordSync api None (discordSecret (dsc_botToken C) guild)) (\<lambda>_. ok ()))) (\<lambda>lc.
         bindO (worldO (activateAccount now (la_id a) (lc_state lc))) (\<lambda>_.
         bindO (startGateway E G (a\<lparr>la_status := lc_state lc\<rparr>)) (\<lambda>_.
         bindO (worldO (auditLog E (accountAudit wsId None ''connector.discord.connected'' (la_id a)))) (\<lambda>_.
         redirectTo (dsc_webAppBaseUrl C) ''discord=connected''))))))"

definition discordCallback :: "env \<Rightarrow> 'p DiscordApiClient \<Rightarrow> 'p gateway_client \<Rightarrow> discordConfig \<Rightarrow> instant
    \<Rightarrow> string option \<Rightarrow> string option \<Rightarrow> string option \<Rightarrow> ('p platform, exn, string) oper" where
  "discordCallback E api G C now guild state oauthError st =
     (if nonEmpty oauthError \<or> \<not> nonEmpty guild \<or> \<not> nonEmpty state
      then redirectTo (dsc_webAppBaseUrl C) ''discord=error'' st
      else case consumeState discordStateKey now (the state) (fst st) of (owner, s1) \<Rightarrow>
        (case Option.bind owner uuidOf of
           None \<Rightarrow> redirectTo (dsc_webAppBaseUrl C) ''discord=error&reason=expired_state'' (s1, snd st)
         | Some wsId \<Rightarrow> linkDiscordGuild E api G C now wsId (the guild) (s1, snd st)))"

definition disconnectDiscord :: "env \<Rightarrow> 'p gateway_client \<Rightarrow> instant \<Rightarrow> uuid \<Rightarrow> jwt_claims
    \<Rightarrow> ('p platform, exn, uuid \<times> LifecycleState) oper" where
  "disconnectDiscord E G now i claims =
     disconnectAccount E ''connector.discord.disconnected'' (\<lambda>a. stopGateway G (la_id a)) now i claims"

section \<open>Email\<close>

text \<open>The body of the connect request: a field of another type is absent.\<close>

record ConnectEmailDto =
  ced_imapHost :: "string option"
  ced_imapPort :: "jsnum option"
  ced_imapSecure :: "bool option"
  ced_smtpHost :: "string option"
  ced_smtpPort :: "jsnum option"
  ced_smtpSecure :: "bool option"
  ced_username :: "string option"
  ced_password :: "string option"

definition completeDto :: "ConnectEmailDto \<Rightarrow> bool" where
  "completeDto d \<longleftrightarrow> nonEmpty (ced_imapHost d) \<and> ced_imapPort d \<noteq> None \<and> ced_imapSecure d \<noteq> None
     \<and> nonEmpty (ced_smtpHost d) \<and> ced_smtpPort d \<noteq> None \<and> ced_smtpSecure d \<noteq> None
     \<and> nonEmpty (ced_username d) \<and> nonEmpty (ced_password d)"

definition dtoCredential :: "ConnectEmailDto \<Rightarrow> jsval" where
  "dtoCredential d = JObj [(''imapHost'', JStr (the (ced_imapHost d))), (''imapPort'', JNum (the (ced_imapPort d))),
     (''imapSecure'', JBool (the (ced_imapSecure d))), (''smtpHost'', JStr (the (ced_smtpHost d))),
     (''smtpPort'', JNum (the (ced_smtpPort d))), (''smtpSecure'', JBool (the (ced_smtpSecure d))),
     (''username'', JStr (the (ced_username d))), (''password'', JStr (the (ced_password d)))]"

text \<open>The part of \<open>connect\<close> after the credential was validated.\<close>

definition linkMailbox :: "env \<Rightarrow> json \<Rightarrow> 'p EmailApiClient \<Rightarrow> instant \<Rightarrow> jsval \<Rightarrow> string \<Rightarrow> jwt_claims
    \<Rightarrow> ('p platform, exn, ConnectedAccount) oper" where
  "linkMailbox E J api now credential user claims =
     bindO (onWorld (registerAccount E now (jwt_workspaceId claims) ''email'' user (json_stringify J credential) False)) (\<lambda>created.
     case created of None \<Rightarrow> throw alreadyExists
     | Some a \<Rightarrow>
         bindO (firstSync now (bindO (emailPoll api None credential) (\<lambda>_. ok ()))) (\<lambda>lc.
         bindO (worldO (activateAccount now (la_id a) (lc_state lc))) (\<lambda>_.
         bindO (worldO (auditLog E (accountAudit (jwt_workspaceId claims) (Some (jwt_sub claims))
                  ''connector.email.connected'' (la_id a)))) (\<lambda>_.
         ok \<lparr>cna_id = la_id a, cna_status = lc_state lc, cna_externalAccountId = user,
              cna_webhookRegistered = False\<rparr>))))"

definition connectEmail :: "env \<Rightarrow> json \<Rightarrow> 'p EmailApiClient \<Rightarrow> instant \<Rightarrow> ConnectEmailDto \<Rightarrow> jwt_claims
    \<Rightarrow> ('p platform, exn, ConnectedAccount) oper" where
  "connectEmail E J api now dto claims st =
     (if \<not> completeDto dto then (Inl (HttpError 400 ''EMAIL_CREDENTIAL_REQUIRED''), st)
      else case emailValidate api (dtoCredential dto) (snd st) of
          (Inl e, p1) \<Rightarrow> (Inl (PlainError (connMessage e)), (fst st, p1))
        | (Inr validation, p1) \<Rightarrow>
            if \<not> cvr_valid validation then (Inl (HttpError 422 ''INVALID_EMAIL_CREDENTIAL''), (fst st, p1))
            else linkMailbox E J api now (dtoCredential dto) (the (ced_username dto)) claims (fst st, p1))"

section \<open>The list of connectors\<close>

text \<open>\<open>sanitizeErrorMessage\<close>: the queries of URLs go, token-shaped runs are redacted,
  white space is collapsed and the rest cut off. \<open>inQuery\<close> is whether the scan is inside
  a query.\<close>

definition endsQuery :: "char \<Rightarrow> bool" where
  "endsQuery c \<longleftrightarrow> isSpace c \<or> c = CHR 34 \<or> c = CHR 39"

fun stripQueries :: "bool \<Rightarrow> string \<Rightarrow> string" where
  "stripQueries inQuery [] = []"
| "stripQueries inQuery (c # cs) =
     (if inQuery then (if endsQuery c then c # stripQueries False cs else stripQueries True cs)
      else if c = CHR ''?'' \<and> cs \<noteq> [] \<and> \<not> endsQuery (hd cs) then stripQueries True cs
      else c # stripQueries False cs)"

text \<open>The longest prefix of at least \<open>least\<close> characters of a class that ends at a word
  boundary, as the greedy repetition before \<open>\b\<close> backs off to it; its length.\<close>

definition boundaryAt :: "string \<Rightarrow> nat \<Rightarrow> bool" where
  "boundaryAt s k \<longleftrightarrow> (0 < k \<and> isWordChar (s ! (k - 1))) \<noteq> (k < length s \<and> isWordChar (s ! k))"

definition backOff :: "(char \<Rightarrow> bool) \<Rightarrow> nat \<Rightarrow> string \<Rightarrow> nat option" where
  "backOff p least s = find (boundaryAt s) (rev [least..<Suc (length (takeWhile p s))])"

definition isTokenChar :: "char \<Rightarrow> bool" where
  "isTokenChar c \<longleftrightarrow> isWordChar c \<or> c = CHR ''-''"

definition botTokenAt :: "string \<Rightarrow> nat option" where
  "botTokenAt s = (let n = length (takeWhile isDigit s) in
     if 6 \<le> n \<and> n < length s \<and> s ! n = CHR '':'' then map_option (\<lambda>k. n + 1 + k) (backOff isTokenChar 20 (drop (n + 1) s))
     else None)"

definition bearerAt :: "string \<Rightarrow> nat option" where
  "bearerAt s = (if \<not> startsWith s ''Bearer'' then None
     else let t = drop 6 s; m = length (takeWhile isSpace t);
              k = length (takeWhile (\<lambda>c. isTokenChar c \<or> c = CHR ''.'') (drop m t))
          in if 0 < m \<and> 10 \<le> k then Some (6 + m + k) else None)"

text \<open>The alternatives in order at a position after a word character or not.\<close>

definition tokenAt :: "bool \<Rightarrow> string \<Rightarrow> nat option" where
  "tokenAt afterWord s = (case (if afterWord then None else botTokenAt s) of
      Some n \<Rightarrow> Some n
    | None \<Rightarrow> (case bearerAt s of
        Some n \<Rightarrow> Some n
      | None \<Rightarrow> if s \<noteq> [] \<and> afterWord \<noteq> isWordChar (hd s) then backOff isTokenChar 25 s else None))"

fun redactTokens :: "bool \<Rightarrow> nat \<Rightarrow> string \<Rightarrow> string" where
  "redactTokens afterWord skip [] = []"
| "redactTokens afterWord (Suc skip) (c # cs) = redactTokens (isWordChar c) skip cs"
| "redactTokens afterWord 0 (c # cs) = (case tokenAt afterWord (c # cs) of
      Some (Suc n) \<Rightarrow> ''[redacted]'' @ redactTokens (isWordChar c) n cs
    | _ \<Rightarrow> c # redactTokens (isWordChar c) 0 cs)"

definition MAX_LENGTH :: nat where
  "MAX_LENGTH = 200"

text \<open>The text shown, and whether an ellipsis follows it.\<close>

definition sanitizeErrorMessage :: "string option \<Rightarrow> (string \<times> bool) option" where
  "sanitizeErrorMessage raw = (if \<not> nonEmpty raw then None
     else let redacted = trim (collapseSpaces (redactTokens False 0 (stripQueries False (the raw)))) in
       if redacted = [] then Some (''An error occurred - see server logs for detail.'', False)
       else if MAX_LENGTH < length redacted then Some (take MAX_LENGTH redacted, True)
       else Some (redacted, False))"

record ConnectorView =
  cv_id :: uuid
  cv_provider :: string
  cv_displayLabel :: "string option"
  cv_externalAccountId :: string
  cv_status :: LifecycleState
  cv_lastSyncedAt :: "instant option"
  cv_lastError :: "(string \<times> bool) option"
  cv_createdAt :: instant

definition listConnectors :: "uuid \<Rightarrow> world \<Rightarrow> ConnectorView list" where
  "listConnectors wsId s = map (\<lambda>a. \<lparr>cv_id = la_id a, cv_provider = providerKey s (la_providerId a),
       cv_displayLabel = la_displayLabel a, cv_externalAccountId = la_externalAccountId a, cv_status = la_status a,
       cv_lastSyncedAt = la_lastSyncedAt a, cv_lastError = sanitizeErrorMessage (la_lastError a),
       cv_createdAt = la_createdAt a\<rparr>)
     (orderDesc la_createdAt (filter (\<lambda>a. la_deletedAt a = None \<and> la_workspaceId a = wsId) (linkedAccounts s)))"

lemma sanitize_examples:
  "sanitizeErrorMessage (Some ''401 at https://x/y?token=abc  ok'') = Some (''401 at https://x/y ok'', False)"
  "sanitizeErrorMessage (Some ''bad 123456:AAAAAAAAAAAAAAAAAAAAAA end'') = Some (''bad [redacted] end'', False)"
  "sanitizeErrorMessage (Some ''Bearer abcdefghij!'') = Some (''[redacted]!'', False)"
  by code_simp+

end
