(* ===== verification/Platform_Properties.thy ===== *)
theory Platform_Properties
  imports Connector_Platform Delivery_Properties
begin

text \<open>
  What connecting, disconnecting and receiving promise: what each leaves in the accounts
  and secrets on every branch, how far an OAuth state and a Slack signature reach, and
  the way of a message from a provider into the inbox.
\<close>

section \<open>The pieces\<close>

lemma connO_simps: "connO m st = (case m (snd st) of (Inl e, p1) \<Rightarrow> (Inl (PlainError (connMessage e)), (fst st, p1))
    | (Inr x, p1) \<Rightarrow> (Inr x, (fst st, p1)))"
  by (simp add: connO_def)

lemma advance_start: "advance now [Authenticating, SyncingInitial] (createLifecycle Registered) = Inr lc \<longleftrightarrow>
    lc = \<lparr>lc_state = SyncingInitial, lc_history = [\<lparr>ltr_from = Registered, ltr_to = Authenticating, ltr_at = now\<rparr>,
      \<lparr>ltr_from = Authenticating, ltr_to = SyncingInitial, ltr_at = now\<rparr>]\<rparr>"
  by (auto simp: advance_def createLifecycle_def transition_def ok_def)

lemma advance_one: "advance now [t] lc = (if t \<in> set (LIFECYCLE_TRANSITIONS (lc_state lc))
    then Inr \<lparr>lc_state = t, lc_history = lc_history lc @ [\<lparr>ltr_from = lc_state lc, ltr_to = t, ltr_at = now\<rparr>]\<rparr>
    else Inl illegalTransition)"
  by (simp add: advance_def transition_def ok_def)

text \<open>The first sync reaches \<open>active\<close> or throws what the sync threw, and leaves the
  world as it was.\<close>

lemma firstSync_cases:
  obtains (failed) e p' where "sync p = (Inl e, p')" "firstSync now sync (s, p) = (Inl (PlainError (connMessage e)), (s, p'))"
  | (synced) p' lc where "sync p = (Inr (), p')" "firstSync now sync (s, p) = (Inr lc, (s, p'))" "lc_state lc = Active"
proof -
  have a: "\<exists>lc. advance now [Authenticating, SyncingInitial] (createLifecycle Registered) = Inr lc"
    using advance_start by blast
  then obtain lc where lc: "advance now [Authenticating, SyncingInitial] (createLifecycle Registered) = Inr lc" by blast
  then have st: "lc_state lc = SyncingInitial" by (simp add: advance_start)
  show thesis
  proof (cases "sync p")
    case (Pair r p')
    show ?thesis
    proof (cases r)
      case (Inl e)
      then show ?thesis using failed Pair lc by (simp add: firstSync_def pureO_def connO_def)
    next
      case (Inr u)
      then show ?thesis using synced Pair lc by (simp add: firstSync_def pureO_def connO_def advance_one st)
    qed
  qed
qed

lemma putSecret_frame:
  "linkedAccounts (snd (putSecret E t s)) = linkedAccounts s" "providers (snd (putSecret E t s)) = providers s"
  "workspaces (snd (putSecret E t s)) = workspaces s" "redis (snd (putSecret E t s)) = redis s"
  by (auto simp: putSecret_def drawn_def randomUsed_def Let_def split: sum.splits prod.splits)

lemma upsertProvider_frame:
  "linkedAccounts (snd (upsertProvider E key s)) = linkedAccounts s" "redis (snd (upsertProvider E key s)) = redis s"
  "workspaces (snd (upsertProvider E key s)) = workspaces s"
  by (auto simp: upsertProvider_def drawn_def Let_def split: option.splits)

lemma upsertProvider_found: "upsertProvider E key s = (p, s1) \<Longrightarrow>
  findFirst (\<lambda>q. prov_key q = key) (providers s1) = Some p \<and> prov_key p = key"
  by (auto simp: upsertProvider_def drawn_def Let_def findFirst_append dest: findFirst_SomeD split: option.splits)

text \<open>What registering an account leaves.\<close>

lemma registerAccount_cases:
  obtains (refused) r s1 where "registerAccount E now wsId key ext secret hook s = (r, s1)"
      "linkedAccounts s1 = linkedAccounts s" "r = Inr None \<or> (\<exists>e. r = Inl e)"
  | (made) a p s1 where "registerAccount E now wsId key ext secret hook s = (Inr (Some a), s1)"
      "linkedAccounts s1 = linkedAccounts s @ [a]" "la_status a = Registered" "la_deletedAt a = None"
      "la_workspaceId a = wsId" "la_externalAccountId a = ext" "la_providerId a = prov_id p"
      "findFirst (\<lambda>q. prov_key q = key) (providers s1) = Some p"
proof -
  obtain p s2 where u: "upsertProvider E key s = (p, s2)" by (meson surj_pair)
  have f: "linkedAccounts s2 = linkedAccounts s" using upsertProvider_frame(1) [of E key s] u by simp
  show thesis
  proof (cases "findActiveLinkedAccount s2 wsId (prov_id p) ext = None")
    case False
    then show ?thesis using refused [of "Inr None" s2] u f by (simp add: registerAccount_def)
  next
    case none: True
    obtain r s3 where s: "putSecret E secret s2 = (r, s3)" by (meson surj_pair)
    then have f3: "linkedAccounts s3 = linkedAccounts s" "providers s3 = providers s2"
      using putSecret_frame [of E secret s2] f by simp_all
    show ?thesis
    proof (cases r)
      case (Inl e)
      then show ?thesis using refused [of "Inl e" s3] u s f3 none by (simp add: registerAccount_def)
    next
      case (Inr ref)
      have reg: "registerAccount E now wsId key ext secret hook s = insertAccount E now wsId (prov_id p) ext hook ref s3"
        using u s Inr none by (simp add: registerAccount_def)
      let ?s4 = "if hook then randomUsed s3 else s3"
      have f4: "linkedAccounts ?s4 = linkedAccounts s" "providers ?s4 = providers s2"
        using f3 by (simp_all add: randomUsed_def)
      show ?thesis
      proof (cases "workspaceExists ?s4 wsId")
        case True
        then show ?thesis
          using made f4 upsertProvider_found [OF u] unfolding reg insertAccount_def Let_def newAccount_def
          by (simp add: drawn_def)
      next
        case False
        then show ?thesis using refused [of "Inl foreignKeyError" "drawn 1 ?s4"] reg f4(1)
          unfolding insertAccount_def Let_def by (auto simp del: drawn_frame simp: drawn_def)
      qed
    qed
  qed
qed

lemma registerAccount_again:
  assumes "findFirst (\<lambda>q. prov_key q = key) (providers s) = Some p" "a \<in> set (linkedAccounts s)"
    and "la_deletedAt a = None" "la_workspaceId a = wsId" "la_externalAccountId a = ext" "la_providerId a = prov_id p"
  shows "registerAccount E now wsId key ext secret hook s = (Inr None, drawn 1 s)"
proof -
  have "findActiveLinkedAccount (drawn 1 s) wsId (prov_id p) ext \<noteq> None"
    using assms(2-6) by (auto simp: findActiveLinkedAccount_def findFirst_None_iff)
  then show ?thesis using assms(1) by (simp add: registerAccount_def upsertProvider_def)
qed

section \<open>A first sync that fails\<close>

lemma linkMailbox_reaches_sync:
  assumes "linkMailbox E J api now credential user claims (s, p1) = (Inl e, st1)"
    and "linkedAccounts (fst st1) \<noteq> linkedAccounts s"
  shows "\<exists>a p. linkedAccounts (fst st1) = linkedAccounts s @ [a] \<and> la_status a = Registered \<and> la_deletedAt a = None
    \<and> la_workspaceId a = jwt_workspaceId claims \<and> la_externalAccountId a = user
    \<and> la_providerId a = prov_id p \<and> findFirst (\<lambda>q. prov_key q = ''email'') (providers (fst st1)) = Some p"
proof (cases rule: registerAccount_cases [of E now "jwt_workspaceId claims" "''email''" user "json_stringify J credential" False s])
  case (refused r s1)
  then have "linkedAccounts (fst st1) = linkedAccounts s"
    using assms(1) unfolding linkMailbox_def by (auto simp: onWorld_def throw_def)
  then show ?thesis using assms(2) by simp
next
  case (made a q s1)
  show ?thesis
  proof (cases rule: firstSync_cases [of "bindO (emailPoll api None credential) (\<lambda>_. ok ())" p1 now s1])
    case (failed e' p')
    then have "linkMailbox E J api now credential user claims (s, p1) = (Inl (PlainError (connMessage e')), (s1, p'))"
      using made(1) unfolding linkMailbox_def by (simp only: bindO.simps onWorld_def fst_conv snd_conv prod.case sum.case option.case)
    then have "fst st1 = s1" using assms(1) by auto
    then show ?thesis using made by auto
  next
    case (synced p' lc)
    then have "\<exists>x y. linkMailbox E J api now credential user claims (s, p1) = (Inr x, y)"
      using made(1) unfolding linkMailbox_def
      by (simp only: bindO.simps onWorld_def worldO_def ok_def fst_conv snd_conv prod.case sum.case option.case) blast
    then show ?thesis using assms(1) by auto
  qed
qed

lemma connectEmail_reaches_sync:
  assumes "connectEmail E J api now dto claims st = (Inl e, st1)"
    and "linkedAccounts (fst st1) \<noteq> linkedAccounts (fst st)"
  shows "\<exists>a p. linkedAccounts (fst st1) = linkedAccounts (fst st) @ [a] \<and> la_status a = Registered \<and> la_deletedAt a = None
    \<and> la_workspaceId a = jwt_workspaceId claims \<and> la_externalAccountId a = the (ced_username dto)
    \<and> la_providerId a = prov_id p \<and> findFirst (\<lambda>q. prov_key q = ''email'') (providers (fst st1)) = Some p"
proof -
  obtain p1 where "linkMailbox E J api now (dtoCredential dto) (the (ced_username dto)) claims (fst st, p1) = (Inl e, st1)"
    using assms by (auto simp: connectEmail_def split: if_splits prod.splits sum.splits)
  from linkMailbox_reaches_sync [OF this assms(2)] show ?thesis .
qed

lemma connectEmail_blocked:
  assumes "findFirst (\<lambda>q. prov_key q = ''email'') (providers s) = Some q" "a \<in> set (linkedAccounts s)"
    and "la_deletedAt a = None" "la_workspaceId a = jwt_workspaceId claims" "la_externalAccountId a = the (ced_username dto)"
    and "la_providerId a = prov_id q"
  shows "\<exists>e n p'. connectEmail E J api now dto claims (s, p) = (Inl e, (drawn n s, p'))"
proof -
  have r: "registerAccount E now (jwt_workspaceId claims) ''email'' (the (ced_username dto)) x False s = (Inr None, drawn 1 s)" for x
    using assms by (rule registerAccount_again)
  have l: "linkMailbox E J api now c (the (ced_username dto)) claims (s, p') = (Inl alreadyExists, (drawn 1 s, p'))" for c p'
    using r by (simp add: linkMailbox_def onWorld_def throw_def)
  obtain v p1 where v: "emailValidate api (dtoCredential dto) p = (v, p1)" by (meson surj_pair)
  have "\<exists>e n p'. connectEmail E J api now dto claims (s, p) = (Inl e, (drawn n s, p')) \<and> n \<le> 1"
  proof (cases "completeDto dto \<and> (\<exists>r. v = Inr r \<and> cvr_valid r)")
    case True
    then have "connectEmail E J api now dto claims (s, p) = (Inl alreadyExists, (drawn 1 s, p1))"
      using v l by (auto simp: connectEmail_def)
    then show ?thesis by blast
  next
    case False
    then have "\<exists>e p'. connectEmail E J api now dto claims (s, p) = (Inl e, (s, p'))"
      using v by (cases v) (auto simp: connectEmail_def)
    moreover have "drawn 0 s = s" by (simp add: drawn_def)
    ultimately show ?thesis by (metis zero_le)
  qed
  then show ?thesis by blast
qed

text \<open>An account that is not past \<open>registered\<close> cannot be disconnected.\<close>

lemma disconnect_stuck:
  assumes "findFirst (\<lambda>a. la_deletedAt a = None \<and> la_id a = i \<and> la_workspaceId a = jwt_workspaceId claims) (linkedAccounts s) = Some a"
    and "Disconnecting \<notin> set (LIFECYCLE_TRANSITIONS (la_status a))"
  shows "disconnectAccount E action f now i claims (s, p) = (Inl illegalTransition, (s, p))"
  using assms by (simp add: disconnectAccount_def advance_one createLifecycle_def)

lemma distinct_live:
  assumes "distinct (map la_id xs)" "a \<in> set xs" "la_deletedAt a = None" "la_workspaceId a = w"
  shows "findFirst (\<lambda>x. la_deletedAt x = None \<and> la_id x = la_id a \<and> la_workspaceId x = w) xs = Some a"
proof -
  have "\<exists>x. findFirst (\<lambda>x. la_deletedAt x = None \<and> la_id x = la_id a \<and> la_workspaceId x = w) xs = Some x"
    by (rule findFirst_ex [OF assms(2)]) (simp add: assms(3,4))
  then obtain x where x: "findFirst (\<lambda>x. la_deletedAt x = None \<and> la_id x = la_id a \<and> la_workspaceId x = w) xs = Some x"
    by blast
  then have "x \<in> set xs" "la_id x = la_id a" by (auto dest: findFirst_SomeD)
  then show ?thesis using x assms(1,2) by (auto simp: distinct_map inj_on_def)
qed

text \<open>C35: a mailbox whose connect fails at the first sync is stuck. When connecting
  throws after the account's row was made, the row stays live in state \<open>registered\<close>:
  no pass ever polls it, disconnecting it throws an illegal transition and changes
  nothing, and connecting the mailbox again is refused because it is already
  connected; there is no operation left to its owner.\<close>

theorem failed_first_sync_strands_account:
  assumes "connectEmail E J api now dto claims st = (Inl e, st1)"
    and "linkedAccounts (fst st1) \<noteq> linkedAccounts (fst st)"
    and "distinct (map la_id (linkedAccounts (fst st1)))"
  shows "\<exists>a. linkedAccounts (fst st1) = linkedAccounts (fst st) @ [a] \<and> la_status a = Registered \<and> la_deletedAt a = None
    \<and> (\<forall>k. a \<notin> set (dueAccounts k (fst st1)))
    \<and> (\<forall>t c p. jwt_workspaceId c = jwt_workspaceId claims \<longrightarrow>
        disconnectEmail E t (la_id a) c (fst st1, p) = (Inl illegalTransition, (fst st1, p)))
    \<and> (\<forall>t c d p api'. jwt_workspaceId c = jwt_workspaceId claims \<and> ced_username d = ced_username dto \<longrightarrow>
        (\<exists>err n p'. connectEmail E J api' t d c (fst st1, p) = (Inl err, (drawn n (fst st1), p'))))"
proof -
  obtain a q where a: "linkedAccounts (fst st1) = linkedAccounts (fst st) @ [a]" "la_status a = Registered" "la_deletedAt a = None"
    "la_workspaceId a = jwt_workspaceId claims" "la_externalAccountId a = the (ced_username dto)"
    "la_providerId a = prov_id q" "findFirst (\<lambda>q. prov_key q = ''email'') (providers (fst st1)) = Some q"
    using connectEmail_reaches_sync [OF assms(1,2)] by blast
  have mem: "a \<in> set (linkedAccounts (fst st1))" using a(1) by simp
  have "disconnectEmail E t (la_id a) c (fst st1, p) = (Inl illegalTransition, (fst st1, p))"
    if "jwt_workspaceId c = jwt_workspaceId claims" for t c p
    unfolding disconnectEmail_def
    by (rule disconnect_stuck [OF distinct_live [OF assms(3) mem a(3)]]) (use a(2,4) that in auto)
  moreover have "\<exists>err n p'. connectEmail E J api' t d c (fst st1, p) = (Inl err, (drawn n (fst st1), p'))"
    if "jwt_workspaceId c = jwt_workspaceId claims" "ced_username d = ced_username dto" for t c d p api'
    by (rule connectEmail_blocked [OF a(7) mem a(3) _ _ a(6)]) (use a(4,5) that in auto)
  moreover have "a \<notin> set (dueAccounts k (fst st1))" for k using a(2) by (simp add: dueAccounts_def)
  ultimately show ?thesis using a(1-3) by (intro exI [of _ a]) auto
qed

section \<open>Disconnecting\<close>

lemma getSecret_tables:
  "linkedAccounts (snd (getSecret E ref ctx s)) = linkedAccounts s"
  "secretRecords (snd (getSecret E ref ctx s)) = secretRecords s"
  "queueJobs (snd (getSecret E ref ctx s)) = queueJobs s"
  "providers (snd (getSecret E ref ctx s)) = providers s"
  using getSecret_state [of E ref ctx s] by (cases "getSecret E ref ctx s"; auto)+

lemma revokeTelegram_frame:
  "linkedAccounts (fst (revokeTelegram E api claims a st)) = linkedAccounts (fst st)"
  "secretRecords (fst (revokeTelegram E api claims a st)) = secretRecords (fst st)"
  using getSecret_tables [of E "la_credentialsRef a" "\<lparr>cac_workspaceId = jwt_workspaceId claims, cac_actorType = ''user'',
    cac_actorUserId = Some (jwt_sub claims), cac_audit = True\<rparr>" "fst st"]
  by (auto simp: revokeTelegram_def split: prod.splits sum.splits)

lemma stopGateway_frame:
  "linkedAccounts (fst (stopGateway G i st)) = linkedAccounts (fst st)"
  "secretRecords (fst (stopGateway G i st)) = secretRecords (fst st)"
  by (simp_all add: stopGateway_def)

definition closedRow :: "instant \<Rightarrow> LinkedAccount \<Rightarrow> LinkedAccount" where
  "closedRow now a = a\<lparr>la_status := Disconnected, la_deletedAt := Some now\<rparr>"

text \<open>What a disconnect leaves of the accounts and secrets when the row may move to
  \<open>disconnecting\<close>, given that what is revoked first touches neither.\<close>

lemma disconnect_done:
  assumes "findFirst (\<lambda>a. la_deletedAt a = None \<and> la_id a = i \<and> la_workspaceId a = jwt_workspaceId claims)
      (linkedAccounts (fst st)) = Some a"
    and "Disconnecting \<in> set (LIFECYCLE_TRANSITIONS (la_status a))"
    and "linkedAccounts (fst (f a st)) = linkedAccounts (fst st)" "secretRecords (fst (f a st)) = secretRecords (fst st)"
  shows "\<exists>s1. disconnectAccount E action f now i claims st = (Inr (i, Disconnected), (s1, snd (f a st)))
    \<and> linkedAccounts s1 = updateMany (\<lambda>x. la_id x = i) (closedRow now) (linkedAccounts (fst st))
    \<and> secretRecords s1 = deleteMany (\<lambda>r. sec_id r = la_credentialsRef a) (secretRecords (fst st))
    \<and> gateways s1 = gateways (fst (f a st))"
proof -
  have a: "a \<in> set (linkedAccounts (fst st))" "la_deletedAt a = None" "la_id a = i" "la_workspaceId a = jwt_workspaceId claims"
    using findFirst_SomeD [OF assms(1)] by simp_all
  have "ownedByWorkspace (fst (f a st)) (la_credentialsRef a) (la_workspaceId a)"
    using a(1,2) unfolding ownedByWorkspace_def assms(3) by (auto simp: findFirst_None_iff)
  then show ?thesis
    using assms a
    by (simp add: disconnectAccount_def advance_one createLifecycle_def onWorld_def deleteSecret_def pureO_def worldO_def ok_def
        updW_def updateAccount_def closedRow_def [abs_def] auditLog_def drawn_def)
qed

lemma getSecret_gone: "\<forall>r\<in>set (secretRecords s). sec_id r \<noteq> ref \<Longrightarrow> getSecret E ref ctx s = (Inl (PlainError ''No secret found for ref''), s)"
  using findFirst_None_iff [of "\<lambda>r. sec_id r = ref" "secretRecords s"] by (simp add: getSecret_def)

text \<open>C25: disconnecting revokes. Whichever of the four controllers is asked, a live
  account of the caller's workspace whose state may move to \<open>disconnecting\<close> ends
  disconnected and hidden, its secret is gone for every reader, no pass and no webhook
  call acts on it, and every other account and secret is as before; from any other
  state the request throws and changes nothing.\<close>

theorem disconnect_revokes:
  assumes "distinct (map la_id (linkedAccounts (fst st)))" "a \<in> set (linkedAccounts (fst st))"
    and "la_deletedAt a = None" "la_workspaceId a = jwt_workspaceId claims"
    and "disconnect \<in> {disconnectTelegram E api now (la_id a) claims, disconnectSlack E now (la_id a) claims,
      disconnectDiscord E G now (la_id a) claims, disconnectEmail E now (la_id a) claims}"
  shows "if Disconnecting \<notin> set (LIFECYCLE_TRANSITIONS (la_status a)) then disconnect st = (Inl illegalTransition, st)
    else \<exists>s1 p1. disconnect st = (Inr (la_id a, Disconnected), (s1, p1))
      \<and> linkedAccounts s1 = updateMany (\<lambda>x. la_id x = la_id a) (closedRow now) (linkedAccounts (fst st))
      \<and> secretRecords s1 = deleteMany (\<lambda>r. sec_id r = la_credentialsRef a) (secretRecords (fst st))
      \<and> (\<forall>E' ctx. getSecret E' (la_credentialsRef a) ctx s1 = (Inl (PlainError ''No secret found for ref''), s1))
      \<and> (\<forall>key x. x \<in> set (dueAccounts key s1) \<longrightarrow> la_id x \<noteq> la_id a)
      \<and> (\<forall>t u h. telegramWebhook E t (la_id a) u h s1 = (Inr (), s1))"
proof -
  note f = distinct_live [OF assms(1-4)]
  obtain action rf where d: "disconnect = disconnectAccount E action rf now (la_id a) claims"
    and r: "linkedAccounts (fst (rf a st)) = linkedAccounts (fst st)" "secretRecords (fst (rf a st)) = secretRecords (fst st)"
    using assms(5)
    by (auto simp: disconnectTelegram_def [abs_def] disconnectSlack_def [abs_def] disconnectDiscord_def [abs_def]
        disconnectEmail_def [abs_def] revokeTelegram_frame stopGateway_frame)
  show ?thesis
  proof (cases "Disconnecting \<in> set (LIFECYCLE_TRANSITIONS (la_status a))")
    case False
    then show ?thesis using disconnect_stuck [OF f, of E action rf now "snd st"] by (simp add: d)
  next
    case True
    obtain s1 where s1: "disconnect st = (Inr (la_id a, Disconnected), (s1, snd (rf a st)))"
      "linkedAccounts s1 = updateMany (\<lambda>x. la_id x = la_id a) (closedRow now) (linkedAccounts (fst st))"
      "secretRecords s1 = deleteMany (\<lambda>r. sec_id r = la_credentialsRef a) (secretRecords (fst st))"
      using disconnect_done [where f = rf and E = E and action = action and now = now, OF f True r] d by auto
    have "getSecret E' (la_credentialsRef a) ctx s1 = (Inl (PlainError ''No secret found for ref''), s1)" for E' ctx
      by (rule getSecret_gone) (simp add: s1(3))
    moreover have "la_id x \<noteq> la_id a" if "x \<in> set (dueAccounts key s1)" for key x
      using that by (auto simp: dueAccounts_def s1(2) set_updateMany closedRow_def)
    moreover have "telegramWebhook E t (la_id a) u h s1 = (Inr (), s1)" for t u h
    proof -
      have "findFirst (\<lambda>x. la_id x = la_id a) (linkedAccounts (fst st)) = Some a"
        using assms(1,2) by (rule distinct_find) simp
      then have "findFirst (\<lambda>x. la_id x = la_id a) (linkedAccounts s1) = Some (closedRow now a)"
        by (simp add: s1(2) findFirst_updateMany closedRow_def)
      then show ?thesis by (simp add: telegramWebhook_def closedRow_def)
    qed
    ultimately show ?thesis using True s1 by auto
  qed
qed

section \<open>OAuth states\<close>

lemma keepsO_bind: "keeps I m \<Longrightarrow> (\<And>x. keeps I (f x)) \<Longrightarrow> keeps I (bindO m f)"
  unfolding keeps_def by (auto split: prod.split sum.split)

lemma registerAccount_redis: "redis (snd (registerAccount E now w k x t h s)) = redis s"
proof -
  obtain p s1 where u: "upsertProvider E k s = (p, s1)" by (meson surj_pair)
  obtain r s2 where c: "putSecret E t s1 = (r, s2)" by (meson surj_pair)
  have "redis s1 = redis s" "redis s2 = redis s1"
    using upsertProvider_frame(2) [of E k s] putSecret_frame(4) [of E t s1] u c by simp_all
  then show ?thesis
    using u c by (cases r) (auto simp: registerAccount_def insertAccount_def Let_def drawn_def randomUsed_def)
qed

definition redisIs :: "(string \<Rightarrow> redis_entry option) \<Rightarrow> 'p platform \<Rightarrow> bool" where
  "redisIs r st \<longleftrightarrow> redis (fst st) = r"

lemma redisIs_connO: "keeps (redisIs r) (connO m)"
  by (auto simp: keeps_def redisIs_def connO_def split: prod.split sum.split)

lemma redisIs_pureO: "keeps (redisIs r) (pureO x)"
  by (simp add: keeps_def pureO_def)

lemma redisIs_redirectTo: "keeps (redisIs r) (redirectTo b q)"
  by (simp add: keeps_def redirectTo_def ok_def)

lemma redisIs_worldO: "(\<And>s. redis (f s) = redis s) \<Longrightarrow> keeps (redisIs r) (worldO f)"
  by (simp add: keeps_def redisIs_def worldO_def)

lemma redisIs_register: "keeps (redisIs r) (onWorld (registerAccount E now w k x t h))"
proof
  fix st :: "'p platform" assume "redisIs r st"
  then show "redisIs r (snd (onWorld (registerAccount E now w k x t h) st))"
    using registerAccount_redis [of E now w k x t h "fst st"]
    by (cases "registerAccount E now w k x t h (fst st)") (simp add: redisIs_def onWorld_def)
qed

lemmas redisIs_parts = redisIs_connO redisIs_pureO redisIs_redirectTo redisIs_worldO redisIs_register

lemma linkSlackTeam_redis: "keeps (redisIs r) (linkSlackTeam E api C now w token team)"
  unfolding linkSlackTeam_def firstSync_def
  by (auto intro!: keepsO_bind redisIs_parts split: option.split simp: activateAccount_def updateAccount_def)

definition refusedState :: "slackConfig \<Rightarrow> exn + string \<Rightarrow> bool" where
  "refusedState C r \<longleftrightarrow> r = Inr (slc_webAppBaseUrl C @ ''/?'' @ ''slack=error'')
     \<or> r = Inr (slc_webAppBaseUrl C @ ''/?'' @ ''slack=error&reason=expired_state'')"

text \<open>A callback that carries \<open>state\<close>, and whether it got past the check of it.\<close>

definition callbackAttempt :: "env \<Rightarrow> slackConfig \<Rightarrow> string \<Rightarrow> 'p SlackApiClient \<times> 'p slack_exchange \<times> instant \<times> string option
    \<Rightarrow> 'p platform \<Rightarrow> bool \<times> 'p platform" where
  "callbackAttempt E C state x st = (case x of (api, exchange, now, authCode) \<Rightarrow>
     (case slackCallback E api exchange C now authCode (Some state) None st of (r, st1) \<Rightarrow> (\<not> refusedState C r, st1)))"

lemma slackCallback_parts:
  assumes "nonEmpty authCode" "state \<noteq> []"
  shows "slackCallback E api exchange C now authCode (Some state) None st =
    (case consumeState slackStateKey now state (fst st) of (owner, s1) \<Rightarrow>
      (case Option.bind owner uuidOf of
         None \<Rightarrow> redirectTo (slc_webAppBaseUrl C) ''slack=error&reason=expired_state'' (s1, snd st)
       | Some wsId \<Rightarrow> (case exchange (slc_clientId C) (slc_clientSecret C) (the authCode)
             (stripSlash (case slc_publicBaseUrl C of Some u \<Rightarrow> u | None \<Rightarrow> []) @ ''/v1/connectors/slack/callback'') (snd st) of
           (Inl e, p1) \<Rightarrow> redirectTo (slc_webAppBaseUrl C) ''slack=error&reason=exchange_failed'' (s1, p1)
         | (Inr (token, team), p1) \<Rightarrow>
             if \<not> nonEmpty token \<or> \<not> nonEmpty team
             then redirectTo (slc_webAppBaseUrl C) ''slack=error&reason=incomplete_exchange'' (s1, p1)
             else linkSlackTeam E api C now wsId (the token) (the team) (s1, p1))))"
proof -
  have "nonEmpty (Some state)" "\<not> nonEmpty None" using assms(2) by (simp_all add: nonEmpty_def)
  then show ?thesis using assms(1) by (simp only: slackCallback_def option.sel simp_thms if_False)
qed

lemma slackCallback_incomplete:
  "\<not> nonEmpty authCode \<or> state = [] \<Longrightarrow> slackCallback E api exchange C now authCode (Some state) None st
    = (Inr (slc_webAppBaseUrl C @ ''/?'' @ ''slack=error''), st)"
  by (auto simp: slackCallback_def redirectTo_def ok_def nonEmpty_def)

lemma callback_spends:
  assumes "nonEmpty authCode" "state \<noteq> []"
  shows "redis (fst (snd (slackCallback E api exchange C now authCode (Some state) None st))) (slackStateKey state) = None"
proof -
  obtain owner s1 where c: "consumeState slackStateKey now state (fst st) = (owner, s1)" by (meson surj_pair)
  then have s1: "redis s1 (slackStateKey state) = None" by (auto simp: consumeState_def redisDel_def)
  have "redis (fst (snd (linkSlackTeam E api C now w token team (s1, p)))) = redis s1" for w token team p
    using keepsD [OF linkSlackTeam_redis, where s = "(s1, p)", of "redis s1"] by (simp add: redisIs_def)
  then show ?thesis
    unfolding slackCallback_parts [OF assms] c prod.case
    using s1 by (auto simp: redirectTo_def ok_def split: option.split prod.split sum.split)
qed

lemma callback_spent:
  assumes "redis (fst st) (slackStateKey state) = None \<or> state = []"
  shows "refusedState C (fst (slackCallback E api exchange C now authCode (Some state) None st))
    \<and> (redis (fst (snd (slackCallback E api exchange C now authCode (Some state) None st))) (slackStateKey state) = None \<or> state = [])"
proof (cases "nonEmpty authCode \<and> state \<noteq> []")
  case True
  then have "consumeState slackStateKey now state (fst st) = (None, redisDel (slackStateKey state) (fst st))"
    using assms by (simp add: consumeState_def redisGet_def)
  then show ?thesis
    using True by (simp add: slackCallback_parts redirectTo_def ok_def refusedState_def redisDel_def)
next
  case False
  then have "\<not> nonEmpty authCode \<or> state = []" by blast
  then show ?thesis using assms by (simp add: slackCallback_incomplete refusedState_def)
qed

interpretation slackState: single_use "callbackAttempt E C state"
  "\<lambda>st. redis (fst st) (slackStateKey state) = None \<or> state = []" for E C state
proof
  fix x :: "'a SlackApiClient \<times> 'a slack_exchange \<times> instant \<times> string option" and st st' :: "'a platform"
  assume r: "callbackAttempt E C state x st = (True, st')"
  obtain api exchange now authCode where x: "x = (api, exchange, now, authCode)" by (cases x)
  have c: "slackCallback E api exchange C now authCode (Some state) None st = (fst (slackCallback E api exchange C now authCode (Some state) None st), st')"
    "\<not> refusedState C (fst (slackCallback E api exchange C now authCode (Some state) None st))"
    using r by (auto simp: callbackAttempt_def x split: prod.splits)
  have "nonEmpty authCode \<and> state \<noteq> []"
  proof (rule ccontr)
    assume "\<not> (nonEmpty authCode \<and> state \<noteq> [])"
    then have "slackCallback E api exchange C now authCode (Some state) None st
      = (Inr (slc_webAppBaseUrl C @ ''/?'' @ ''slack=error''), st)" by (intro slackCallback_incomplete) blast
    then show False using c(2) by (simp add: refusedState_def)
  qed
  then have n: "nonEmpty authCode" "state \<noteq> []" by simp_all
  have "redis (fst st') (slackStateKey state) = None"
    using callback_spends [OF n, where st = st] c(1) by (metis snd_conv)
  then show "\<not> (redis (fst st) (slackStateKey state) = None \<or> state = []) \<and> (redis (fst st') (slackStateKey state) = None \<or> state = [])"
    using c(2) callback_spent [where st = st and state = state] by blast
next
  fix x :: "'a SlackApiClient \<times> 'a slack_exchange \<times> instant \<times> string option" and st :: "'a platform"
  assume none: "redis (fst st) (slackStateKey state) = None \<or> state = []"
  obtain api exchange now authCode where x: "x = (api, exchange, now, authCode)" by (cases x)
  show "fst (callbackAttempt E C state x st) = False \<and> (redis (fst (snd (callbackAttempt E C state x st))) (slackStateKey state) = None \<or> state = [])"
    using callback_spent [OF none, where C = C and E = E and api = api and exchange = exchange and now = now and authCode = authCode]
    by (cases "slackCallback E api exchange C now authCode (Some state) None st") (simp add: callbackAttempt_def x)
qed

text \<open>The callbacks carrying one state, in the order they arrive: how many get past the check.\<close>

fun callbacksPast ::
  "env \<Rightarrow> slackConfig \<Rightarrow> string \<Rightarrow> ('p SlackApiClient \<times> 'p slack_exchange \<times> instant \<times> string option) list
    \<Rightarrow> 'p platform \<Rightarrow> nat \<times> 'p platform" where
  "callbacksPast E C state [] st = (0, st)"
| "callbacksPast E C state (x # xs) st = (case callbackAttempt E C state x st of (past, st1) \<Rightarrow>
     (case callbacksPast E C state xs st1 of (n, st2) \<Rightarrow> ((if past then Suc n else n), st2)))"

lemma callbacksPast_redeems: "callbacksPast E C state xs st = slackState.redeemAll E C state xs st"
  by (induction xs arbitrary: st) (simp_all split: prod.split)


section \<open>Slack's events\<close>

lemma publishMessage_frame:
  "linkedAccounts (publishMessage E now pl s) = linkedAccounts s" "providers (publishMessage E now pl s) = providers s"
  "workspaces (publishMessage E now pl s) = workspaces s"
  by (simp_all add: publishMessage_def Let_def drawn_def)

lemma publishMessage_jobs:
  "queueJobs (publishMessage E now pl s) = queueJobs s \<or>
   (\<exists>j. queueJobs (publishMessage E now pl s) = queueJobs s @ [j] \<and> qj_workspaceId j = pl_workspaceId pl
      \<and> qj_data j = MessageReceived pl)"
  by (auto simp: publishMessage_def Let_def drawn_def)

lemma slackEvents_step:
  "slackEvents E hmac C now rq s = (r, s') \<Longrightarrow> s' = s \<or> (\<exists>a m. slackAccountOf (see_team_id (srq_body rq)) s = Some a
     \<and> isValidSignature hmac C now rq \<and> s' = publishMessage E now (accountPayload a ''slack'' m) s)"
  by (auto simp: slackEvents_def split: if_splits option.splits sum.splits)

fun eventsRun :: "env \<Rightarrow> (string \<Rightarrow> string \<Rightarrow> string) \<Rightarrow> slackConfig \<Rightarrow> (instant \<times> slack_request) list \<Rightarrow> world \<Rightarrow> world" where
  "eventsRun E hmac C [] s = s"
| "eventsRun E hmac C (x # xs) s = eventsRun E hmac C xs (snd (slackEvents E hmac C (fst x) (snd x) s))"

definition workspaceJobs :: "uuid \<Rightarrow> world \<Rightarrow> queue_job list" where
  "workspaceJobs w s = filter (\<lambda>j. qj_workspaceId j = w) (queueJobs s)"

lemma slackEvents_keeps:
  assumes "slackAccountOf (see_team_id (srq_body rq)) s = Some a"
  shows "linkedAccounts (snd (slackEvents E hmac C now rq s)) = linkedAccounts s"
    and "providers (snd (slackEvents E hmac C now rq s)) = providers s"
    and "w \<noteq> la_workspaceId a \<Longrightarrow> workspaceJobs w (snd (slackEvents E hmac C now rq s)) = workspaceJobs w s"
proof -
  obtain r s' where e: "slackEvents E hmac C now rq s = (r, s')" by (meson surj_pair)
  note c = slackEvents_step [OF e]
  show "linkedAccounts (snd (slackEvents E hmac C now rq s)) = linkedAccounts s"
    and "providers (snd (slackEvents E hmac C now rq s)) = providers s"
    using c by (auto simp: e publishMessage_frame)
  show "workspaceJobs w (snd (slackEvents E hmac C now rq s)) = workspaceJobs w s" if "w \<noteq> la_workspaceId a"
  proof (cases "s' = s")
    case False
    then obtain m where "s' = publishMessage E now (accountPayload a ''slack'' m) s" using c assms by auto
    then show ?thesis
      using publishMessage_jobs [of E now "accountPayload a ''slack'' m" s] that
      by (auto simp: e workspaceJobs_def accountPayload_def)
  qed (simp add: e)
qed

text \<open>A Slack team connected by two workspaces is delivered to one. The account of an
  event is looked up by the team alone, so whatever signed events of the team arrive,
  all go to the workspace of the one account that lookup finds, and no other workspace
  that connected the same team is ever sent an event of it.\<close>

theorem slack_team_delivers_to_one:
  assumes "slackAccountOf team s = Some a" "\<forall>x\<in>set xs. see_team_id (srq_body (snd x)) = team"
    and "b \<in> set (linkedAccounts s)" "la_externalAccountId b = team" "la_workspaceId b \<noteq> la_workspaceId a"
  shows "workspaceJobs (la_workspaceId b) (eventsRun E hmac C xs s) = workspaceJobs (la_workspaceId b) s
    \<and> slackAccountOf team (eventsRun E hmac C xs s) = Some a"
  using assms
proof (induction xs arbitrary: s)
  case (Cons x xs)
  let ?s1 = "snd (slackEvents E hmac C (fst x) (snd x) s)"
  have a: "slackAccountOf (see_team_id (srq_body (snd x))) s = Some a" using Cons.prems by simp
  note k = slackEvents_keeps [OF a]
  have "slackAccountOf team ?s1 = Some a" using Cons.prems(1) by (simp add: slackAccountOf_def providerKey_def k)
  then show ?case using Cons k by simp
qed simp

section \<open>Discord's callback\<close>

text \<open>C40: Discord's callback takes the server from the query. A user who was given a state
  by \<open>connect\<close> and calls back with the id of any server the shared bot can read, one that
  another workspace connected among them, gets it linked to their own workspace with an
  active account, and its messages published there from then on: nothing ties the server
  to who asked.\<close>

theorem discord_guild_is_unproven:
  assumes "redisGet now (discordStateKey state) (fst st) = Some (RStr t)" "uuidOf t = Some w" "state \<noteq> []" "guild \<noteq> []"
    and "discordValidate api (discordSecret (dsc_botToken C) guild) (snd st) = (Inr v, p1)" "cvr_valid v"
    and "registerAccount E now w ''discord'' guild (dsc_botToken C) False (redisDel (discordStateKey state) (fst st)) = (Inr (Some a), s2)"
    and "discordSync api None (discordSecret (dsc_botToken C) guild) p1 = (Inr res, p2)"
  shows "\<exists>s' p' r b. discordCallback E api G C now (Some guild) (Some state) None st = (r, (s', p'))
    \<and> b \<in> set (linkedAccounts s') \<and> la_workspaceId b = w \<and> la_externalAccountId b = guild \<and> la_status b = Active
    \<and> la_deletedAt b = None
    \<and> (\<forall>E' t' m. \<not> du_bot (dm_author m) \<longrightarrow>
         gatewayMessage E' t' b m s' = publishMessage E' t' (accountPayload b ''discord'' (discordMapMessage m)) s')"
proof -
  let ?s0 = "redisDel (discordStateKey state) (fst st)"
  have c: "consumeState discordStateKey now state (fst st) = (Some t, ?s0)" using assms(1) by (simp add: consumeState_def)
  have n: "nonEmpty (Some guild)" "nonEmpty (Some state)" "\<not> nonEmpty None" using assms(3,4) by (simp_all add: nonEmpty_def)
  obtain lc where f: "firstSync now (bindO (discordSync api None (discordSecret (dsc_botToken C) guild)) (\<lambda>_. ok ())) (s2, p1) = (Inr lc, (s2, p2))"
    and lc: "lc_state lc = Active"
    using assms(8) by (cases rule: firstSync_cases [of "bindO (discordSync api None (discordSecret (dsc_botToken C) guild)) (\<lambda>_. ok ())" p1 now s2])
      (auto simp: ok_def)
  let ?s3 = "activateAccount now (la_id a) Active s2"
  let ?a1 = "a\<lparr>la_status := Active\<rparr>"
  obtain r st' where g: "startGateway E G ?a1 (?s3, p2) = (r, st')" by (meson surj_pair)
  have gk: "linkedAccounts (fst st') = linkedAccounts ?s3"
    using g getSecret_tables(1) [of E "la_credentialsRef ?a1" "systemAccess True ?a1" ?s3]
    by (auto simp: startGateway_def split: if_splits prod.splits sum.splits)
  obtain s' p' r' where run: "discordCallback E api G C now (Some guild) (Some state) None st = (r', (s', p'))"
    by (cases "discordCallback E api G C now (Some guild) (Some state) None st") auto
  have link: "discordCallback E api G C now (Some guild) (Some state) None st = linkDiscordGuild E api G C now w guild (?s0, snd st)"
    using n c assms(2) by (simp only: discordCallback_def option.sel simp_thms if_False prod.case bind.simps option.case)
  have "linkedAccounts s' = linkedAccounts ?s3"
    using run assms(5-7) f lc g gk unfolding link linkDiscordGuild_def
    by (cases r) (auto simp: connO_def onWorld_def worldO_def redirectTo_def ok_def updW_def)
  moreover have w: "linkedAccounts s2 = linkedAccounts (fst st) @ [a] \<and> la_workspaceId a = w
      \<and> la_externalAccountId a = guild \<and> la_deletedAt a = None"
  proof (cases rule: registerAccount_cases [of E now w "''discord''" guild "dsc_botToken C" False ?s0])
    case (refused r s1)
    then show ?thesis using assms(7) by auto
  next
    case (made a' q s1)
    then show ?thesis using assms(7) by (simp add: redisDel_def)
  qed
  ultimately have "a\<lparr>la_status := Active, la_lastSyncedAt := Some now\<rparr> \<in> set (linkedAccounts s')"
    by (simp add: activateAccount_def updateAccount_def)
  then show ?thesis using run w
    by (intro exI [of _ s'] exI [of _ p'] exI [of _ r'] exI [of _ "a\<lparr>la_status := Active, la_lastSyncedAt := Some now\<rparr>"])
      (simp add: gatewayMessage_def)
qed

section \<open>From the provider to the inbox\<close>

lemma publishMessage_inv: "ingestInv (publishMessage E now pl s) = ingestInv s"
  by (simp add: ingestInv_def uniqueKeys_def references_def publishMessage_def Let_def drawn_def)

lemma publishMessage_waiting:
  assumes "\<forall>j\<in>set (queueJobs s). qj_queue j = EVENTS_QUEUE_NAME \<longrightarrow> qj_id j \<noteq> uuidText (draw E s)"
  shows "\<exists>j\<in>set (waitingEvents (publishMessage E now pl s)). qj_data j = MessageReceived pl"
proof -
  have "\<not> list_ex (\<lambda>j. qj_queue j = EVENTS_QUEUE_NAME \<and> qj_id j = uuidText (draw E s)) (queueJobs (drawn 2 s))"
    using assms by (simp add: list_ex_iff drawn_def)
  then show ?thesis by (simp add: publishMessage_def Let_def waitingEvents_def)
qed


section \<open>Witnesses\<close>

definition sampleLinked :: "uuid \<Rightarrow> uuid \<Rightarrow> uuid \<Rightarrow> string \<Rightarrow> LinkedAccount" where
  "sampleLinked i w prov ext = (newAccount i 0 w prov ext (i + 100) (Some ''hook''))\<lparr>la_status := Active\<rparr>"

definition linkedWorld :: "LinkedAccount list \<Rightarrow> world" where
  "linkedWorld as = emptyWorld\<lparr>workspaces := [\<lparr>ws_id = 11, ws_organizationId = 1, ws_name = ''W'', ws_timezone = ''UTC'',
       ws_aiEnabled = False, ws_createdAt = 0, ws_deletedAt = None\<rparr>], linkedAccounts := as,
     providers := [\<lparr>prov_id = 7, prov_key = ''slack''\<rparr>, \<lparr>prov_id = 8, prov_key = ''telegram''\<rparr>, \<lparr>prov_id = 9, prov_key = ''discord''\<rparr>]\<rparr>"

definition sampleClaims :: jwt_claims where
  "sampleClaims = \<lparr>jwt_sub = 1, jwt_workspaceId = 11, jwt_orgId = 1, jwt_role = Owner\<rparr>"

definition failingMail :: "unit EmailApiClient" where
  "failingMail = \<lparr>ec_testConnection = (\<lambda>c p. (Inr (), p)),
     ec_imapFetch = (\<lambda>c u p. (Inl \<lparr>eme_kind = EConnection, eme_message = ''socket closed''\<rparr>, p)),
     ec_sendMessage = (\<lambda>c m p. (Inr ''x'', p))\<rparr>"

definition sampleDto :: ConnectEmailDto where
  "sampleDto = \<lparr>ced_imapHost = Some ''i'', ced_imapPort = Some (Fin 993), ced_imapSecure = Some True,
     ced_smtpHost = Some ''s'', ced_smtpPort = Some (Fin 465), ced_smtpSecure = Some True,
     ced_username = Some ''ada@x'', ced_password = Some ''pw''\<rparr>"

definition sampleJson :: json where
  "sampleJson = \<lparr>json_stringify = (\<lambda>v. ''text''), json_parse = (\<lambda>t. None)\<rparr>"

definition connectRun :: "(exn + ConnectedAccount) \<times> unit platform" where
  "connectRun = connectEmail sampleEnv sampleJson failingMail 0 sampleDto sampleClaims (linkedWorld [], ())"

lemma samplePut: "\<exists>s1. putSecret sampleEnv t s = (Inr (idsDrawn s + 1), s1) \<and> idsDrawn s1 = idsDrawn s + 1"
proof -
  have ring: "loadKeyRing sampleEnv = Inr [(1, replicate 32 (CHR ''k''))]"
    by (simp add: loadKeyRing_def addKey_def sampleEnv_def nonEmpty_def)
  have "encryptionKeyForVersion [(1, replicate 32 (CHR ''k''))] (activeVersion sampleEnv [(1, replicate 32 (CHR ''k''))])
      = Inr (1, replicate 32 (CHR ''k''))"
    by (simp add: activeVersion_def encryptionKeyForVersion_def sampleEnv_def nonEmpty_def)
  then show ?thesis
    using ring by (simp add: putSecret_def Let_def draw_def drawn_def randomUsed_def split: prod.split) (simp add: sampleEnv_def)
qed

text \<open>A registration under the sample environment makes the account.\<close>

lemma sampleRegister:
  assumes "workspaceExists s w" "\<forall>x\<in>set (linkedAccounts s). la_workspaceId x \<noteq> w \<or> la_externalAccountId x \<noteq> ext"
  shows "\<exists>a s1. registerAccount sampleEnv now w key ext t hook s = (Inr (Some a), s1) \<and> la_id a \<ge> idsDrawn s
    \<and> linkedAccounts s1 = linkedAccounts s @ [a]"
proof -
  obtain p s1 where u: "upsertProvider sampleEnv key s = (p, s1)" by (meson surj_pair)
  have i1: "idsDrawn s1 = idsDrawn s + 1" using u by (auto simp: upsertProvider_def drawn_def Let_def split: option.splits)
  have f1: "linkedAccounts s1 = linkedAccounts s" "workspaces s1 = workspaces s"
    using upsertProvider_frame [of sampleEnv key s] u by simp_all
  obtain s2 where c: "putSecret sampleEnv t s1 = (Inr (idsDrawn s1 + 1), s2)" "idsDrawn s2 = idsDrawn s1 + 1"
    using samplePut [of t s1] by blast
  have f2: "linkedAccounts s2 = linkedAccounts s" "workspaces s2 = workspaces s"
    using putSecret_frame [of sampleEnv t s1] c(1) f1 by simp_all
  have "findActiveLinkedAccount s1 w (prov_id p) ext = None"
    using assms(2) f1 by (auto simp: findActiveLinkedAccount_def findFirst_None_iff)
  then have r: "registerAccount sampleEnv now w key ext t hook s = insertAccount sampleEnv now w (prov_id p) ext hook (idsDrawn s1 + 1) s2"
    using u c(1) by (simp add: registerAccount_def)
  show ?thesis
    unfolding r insertAccount_def Let_def using assms(1) f2 c(2) i1
    by (simp add: workspaceExists_def newAccount_def drawn_def randomUsed_def draw_def sampleEnv_def)
qed

lemma connectRun_result: "\<exists>a. fst connectRun = Inl (PlainError ''socket closed'') \<and> linkedAccounts (fst (snd connectRun)) = [a]"
proof -
  have w: "workspaceExists (linkedWorld []) 11" "linkedAccounts (linkedWorld []) = []"
    by (simp_all add: linkedWorld_def workspaceExists_def)
  then obtain a s1 where r: "registerAccount sampleEnv 0 11 ''email'' ''ada@x'' ''text'' False (linkedWorld []) = (Inr (Some a), s1)"
    "linkedAccounts s1 = [a]"
    using sampleRegister [of "linkedWorld []" 11 "''ada@x''" 0 "''email''" "''text''" False] by auto
  have v: "emailParse (dtoCredential sampleDto) \<noteq> None" "completeDto sampleDto" "ced_username sampleDto = Some ''ada@x''"
    by (simp_all add: sampleDto_def dtoCredential_def emailParse_def completeDto_def nonEmpty_def)
  then obtain c where c: "emailParse (dtoCredential sampleDto) = Some c" by blast
  have "emailValidate failingMail (dtoCredential sampleDto) () = (Inr \<lparr>cvr_valid = True, cvr_reason = None\<rparr>, ())"
    by (simp add: emailValidate_def c failingMail_def)
  moreover have "emailPoll failingMail None (dtoCredential sampleDto) () = (Inl (RawApi ''socket closed''), ())"
    by (simp add: emailPoll_def emailCredential_def c Let_def rawly_def fetchMessages_def failingMail_def)
  then have "firstSync 0 (bindO (emailPoll failingMail None (dtoCredential sampleDto)) (\<lambda>_. ok ())) (s1, ())
      = (Inl (PlainError ''socket closed''), (s1, ()))"
    by (cases rule: firstSync_cases [of "bindO (emailPoll failingMail None (dtoCredential sampleDto)) (\<lambda>_. ok ())" "()" 0 s1]) auto
  ultimately show ?thesis
    using v r by (simp add: connectRun_def connectEmail_def linkMailbox_def onWorld_def sampleJson_def sampleClaims_def)
qed

theorem failed_first_sync_strands_account_witness:
  "\<exists>a. linkedAccounts (fst (snd connectRun)) = [a] \<and>
     disconnectEmail sampleEnv 9 (la_id a) sampleClaims (snd connectRun) = (Inl illegalTransition, snd connectRun)"
proof -
  obtain a where a: "fst connectRun = Inl (PlainError ''socket closed'')" "linkedAccounts (fst (snd connectRun)) = [a]"
    using connectRun_result by blast
  have run: "connectEmail sampleEnv sampleJson failingMail 0 sampleDto sampleClaims (linkedWorld [], ())
      = (Inl (PlainError ''socket closed''), snd connectRun)"
    using a(1) unfolding connectRun_def [symmetric] by (metis prod.collapse)
  have n: "linkedAccounts (fst (snd connectRun)) \<noteq> linkedAccounts (fst (linkedWorld [], ()))"
    "distinct (map la_id (linkedAccounts (fst (snd connectRun))))"
    using a(2) by (simp_all add: linkedWorld_def)
  obtain x where x: "linkedAccounts (fst (snd connectRun)) = linkedAccounts (fst (linkedWorld [], ())) @ [x]"
    "\<forall>t c (p :: unit). jwt_workspaceId c = jwt_workspaceId sampleClaims \<longrightarrow>
       disconnectEmail sampleEnv t (la_id x) c (fst (snd connectRun), p) = (Inl illegalTransition, (fst (snd connectRun), p))"
    using failed_first_sync_strands_account [OF run n] by (elim exE conjE) (rule that)
  have "disconnectEmail sampleEnv 9 (la_id x) sampleClaims (fst (snd connectRun), snd (snd connectRun))
      = (Inl illegalTransition, (fst (snd connectRun), snd (snd connectRun)))"
    by (rule x(2) [THEN spec, THEN spec, THEN spec, THEN mp, OF refl])
  then have "disconnectEmail sampleEnv 9 (la_id x) sampleClaims (snd connectRun) = (Inl illegalTransition, snd connectRun)"
    by (simp only: prod.collapse)
  moreover have "x = a" using x(1) a(2) by (simp add: linkedWorld_def)
  ultimately show ?thesis using a(2) by simp
qed

theorem disconnect_revokes_witness:
  "\<exists>s1 p1. disconnectSlack sampleEnv 5 3 sampleClaims (linkedWorld [sampleLinked 3 11 7 ''T1''], ()) = (Inr (3, Disconnected), (s1, p1))
     \<and> (\<forall>key x. x \<in> set (dueAccounts key s1) \<longrightarrow> la_id x \<noteq> 3)"
proof -
  let ?a = "sampleLinked 3 11 7 ''T1''" and ?st = "(linkedWorld [sampleLinked 3 11 7 ''T1''], ())"
  have a: "distinct (map la_id (linkedAccounts (fst ?st)))" "?a \<in> set (linkedAccounts (fst ?st))" "la_deletedAt ?a = None"
    "la_workspaceId ?a = jwt_workspaceId sampleClaims" "la_id ?a = 3" "la_status ?a = Active"
    by (simp_all add: linkedWorld_def sampleLinked_def newAccount_def sampleClaims_def)
  have d: "disconnectSlack sampleEnv 5 (la_id ?a) sampleClaims \<in> {disconnectTelegram sampleEnv undefined 5 (la_id ?a) sampleClaims,
    disconnectSlack sampleEnv 5 (la_id ?a) sampleClaims, disconnectDiscord sampleEnv undefined 5 (la_id ?a) sampleClaims,
    disconnectEmail sampleEnv 5 (la_id ?a) sampleClaims}" by blast
  have "\<not> Disconnecting \<notin> set (LIFECYCLE_TRANSITIONS (la_status ?a))" by (simp add: a(6))
  with disconnect_revokes [OF a(1-4) d] show ?thesis
    unfolding a(5) by (simp only: if_False) blast
qed

definition anySignature :: "string \<Rightarrow> string \<Rightarrow> string" where
  "anySignature k t = ''sig''"

definition sampleSlackConfig :: slackConfig where
  "sampleSlackConfig = \<lparr>slc_clientId = ''c'', slc_clientSecret = ''s'', slc_signingSecret = ''k'',
     slc_publicBaseUrl = Some ''https://api'', slc_webAppBaseUrl = ''https://app'', slc_botScopes = ''chat:write''\<rparr>"

definition sampleEvent :: "instant \<times> slack_request" where
  "sampleEvent = (0, \<lparr>srq_timestamp = Some ''0'', srq_signature = Some ''v0=sig'', srq_rawBody = Some ''{}'',
     srq_body = \<lparr>see_type = ''event_callback'', see_challenge = [], see_team_id = ''T1'',
       see_event = Some \<lparr>slm_type = ''message'', slm_subtype = None, slm_channel = ''C1'', slm_user = Some ''U1'',
         slm_bot_id = None, slm_text = ''hi'', slm_ts = ''1.0''\<rparr>\<rparr>\<rparr>)"

text \<open>Two workspaces, 11 and 12, connected the team; the event of it reaches 11 alone.\<close>

theorem slack_team_delivers_to_one_witness:
  "workspaceJobs 12 (eventsRun sampleEnv anySignature sampleSlackConfig [sampleEvent]
       (linkedWorld [sampleLinked 3 11 7 ''T1'', sampleLinked 4 12 7 ''T1''])) = []"
proof -
  let ?a = "sampleLinked 3 11 7 ''T1''" and ?b = "sampleLinked 4 12 7 ''T1''"
  let ?s = "linkedWorld [?a, ?b]"
  have f: "slackAccountOf ''T1'' ?s = Some ?a"
    by (simp add: slackAccountOf_def linkedWorld_def sampleLinked_def newAccount_def providerKey_def)
  have w: "la_workspaceId ?a = 11" "la_workspaceId ?b = 12" "la_externalAccountId ?b = ''T1''"
    by (simp_all add: sampleLinked_def newAccount_def)
  have m: "?b \<in> set (linkedAccounts ?s)" by (simp add: linkedWorld_def)
  have "workspaceJobs (la_workspaceId ?b) (eventsRun sampleEnv anySignature sampleSlackConfig [sampleEvent] ?s) = workspaceJobs (la_workspaceId ?b) ?s"
    by (rule slack_team_delivers_to_one [OF f _ m w(3), THEN conjunct1]) (simp_all add: w sampleEvent_def)
  moreover have "workspaceJobs 12 ?s = []" by (simp add: workspaceJobs_def linkedWorld_def emptyWorld_def)
  ultimately show ?thesis by (simp add: w)
qed

definition sampleDiscordApi :: "unit DiscordApiClient" where
  "sampleDiscordApi = \<lparr>ds_getGuild = (\<lambda>t g p. (Inr (), p)), ds_listGuildChannels = (\<lambda>t g p. (Inr [], p)),
     ds_listChannelMessages = (\<lambda>t c n p. (Inr [], p)), ds_sendMessage = (\<lambda>t c m p. (Inr ''x'', p))\<rparr>"

definition sampleDiscordConfig :: discordConfig where
  "sampleDiscordConfig = \<lparr>dsc_clientId = ''c'', dsc_botToken = ''bot'', dsc_publicBaseUrl = Some ''https://api'',
     dsc_webAppBaseUrl = ''https://app'', dsc_botPermissions = ''68608''\<rparr>"

text \<open>Workspace 12 connected the server; a user of workspace 11 names it in a callback.\<close>

theorem discord_guild_is_unproven_witness:
  "\<exists>s' r b p'. discordCallback sampleEnv sampleDiscordApi \<lparr>gw_open = (\<lambda>t i p. p), gw_close = (\<lambda>i p. p)\<rparr> sampleDiscordConfig 0
      (Some ''G1'') (Some ''st'') None
      (redisSet (discordStateKey ''st'') (RStr (uuidText 11)) (Some 600000) (linkedWorld [sampleLinked 4 12 9 ''G1'']), ()) = (r, (s', p'))
    \<and> b \<in> set (linkedAccounts s') \<and> la_workspaceId b = 11 \<and> la_externalAccountId b = ''G1'' \<and> la_status b = Active"
proof -
  let ?s = "redisSet (discordStateKey ''st'') (RStr (uuidText 11)) (Some 600000) (linkedWorld [sampleLinked 4 12 9 ''G1''])"
  let ?del = "redisDel (discordStateKey ''st'') ?s" and ?G = "\<lparr>gw_open = (\<lambda>t i p. p), gw_close = (\<lambda>i p. p)\<rparr>"
  have g: "redisGet 0 (discordStateKey ''st'') (fst (?s, ())) = Some (RStr (uuidText 11))" by (simp add: redisGet_def redisSet_def)
  have u: "uuidOf (uuidText 11) = Some 11" by code_simp
  have w: "workspaceExists ?del 11" "linkedAccounts ?del = [sampleLinked 4 12 9 ''G1'']"
    by (simp_all add: workspaceExists_def redisDel_def redisSet_def linkedWorld_def)
  then obtain a s1 where r: "registerAccount sampleEnv 0 11 ''discord'' ''G1'' (dsc_botToken sampleDiscordConfig) False ?del = (Inr (Some a), s1)"
    using sampleRegister [of ?del 11 "''G1''" 0 "''discord''" "dsc_botToken sampleDiscordConfig" False]
    by (auto simp: sampleLinked_def newAccount_def)
  have t: "twoFields ''botToken'' ''guildId'' (discordSecret (dsc_botToken sampleDiscordConfig) ''G1'') = Some (''bot'', ''G1'')"
    by (simp add: twoFields_def discordSecret_def sampleDiscordConfig_def)
  have v: "discordValidate sampleDiscordApi (discordSecret (dsc_botToken sampleDiscordConfig) ''G1'') (snd (?s, ()))
    = (Inr \<lparr>cvr_valid = True, cvr_reason = None\<rparr>, ())"
    by (simp add: discordValidate_def t sampleDiscordApi_def)
  have "\<exists>res. discordSync sampleDiscordApi None (discordSecret (dsc_botToken sampleDiscordConfig) ''G1'') () = (Inr res, ())"
    by (simp add: discordSync_def discordCredential_def t syncChannels_def rawly_def sampleDiscordApi_def ok_def)
  then obtain res where y: "discordSync sampleDiscordApi None (discordSecret (dsc_botToken sampleDiscordConfig) ''G1'') () = (Inr res, ())"
    by blast
  have r': "registerAccount sampleEnv 0 11 ''discord'' ''G1'' (dsc_botToken sampleDiscordConfig) False
    (redisDel (discordStateKey ''st'') (fst (?s, ()))) = (Inr (Some a), s1)" using r by simp
  have "''st'' \<noteq> []" "''G1'' \<noteq> []" "cvr_valid \<lparr>cvr_valid = True, cvr_reason = None\<rparr>" by simp_all
  from discord_guild_is_unproven [OF g u this(1,2) v this(3) r' y, of ?G] show ?thesis
    by (elim exE conjE) (intro exI conjI, assumption+)
qed

definition sampleUpdate :: TelegramUpdate where
  "sampleUpdate = \<lparr>up_update_id = 1, up_message = Some \<lparr>tm_message_id = 5, tm_date = 7,
     tm_chat = \<lparr>tch_id = 9, tch_title = None, tch_username = None, tch_first_name = Some ''Ann'', tch_last_name = None\<rparr>,
     tm_from = None, tm_text = Some ''hello'', tm_caption = None, tm_photo = False, tm_video = False, tm_document = False,
     tm_voice = False, tm_sticker = False\<rparr>, up_edited_message = None\<rparr>"


end
