(* ===== verification/Outbound_Properties.thy ===== *)
theory Outbound_Properties
  imports Rule_Execution
begin

text \<open>
  What the outbound side promises: which accounts a reply can leave through, that the
  outcome of a scheduled message is final, what a late cancel does to one already being
  sent, and that the no-reply clock of a conversation is one job per rule.
\<close>

section \<open>Sending\<close>

lemma registry_entries:
  assumes "defaultConnectorRegistry mock A = Inr reg"
  shows "reg = [mock, telegramConnector (api_telegram A), discordConnector (api_discord A), slackConnector (api_slack A),
     emailConnector (api_email A)] \<and> mf_providerKey (cn_manifest mock) \<notin> {''telegram'', ''discord'', ''slack'', ''email''}"
  using assms
  by (auto simp: defaultConnectorRegistry_def registerConnector_def telegramConnector_def discordConnector_def
      slackConnector_def emailConnector_def manifestOf_def split: if_splits)

lemma structured_connector:
  assumes "defaultConnectorRegistry mock A = Inr reg" "k \<in> {''slack'', ''discord'', ''email''}" "getConnector reg k = Inr c"
  shows "\<exists>f. cn_send c = Some f \<and> (\<forall>m t p. \<exists>e. f m (JStr t) p = (Inl e, p))"
proof -
  have "twoFields x y (JStr t) = None" "emailParse (JStr t) = None" for x y t
    by (simp_all add: twoFields_def emailParse_def)
  then show ?thesis
    using assms registry_entries [OF assms(1)]
    by (auto simp: getConnector_def slackConnector_def discordConnector_def emailConnector_def telegramConnector_def manifestOf_def
        slackSend_def discordSend_def emailSend_def slackCredential_def discordCredential_def emailCredential_def)
qed

lemma getSecret_messages: "messages (snd (getSecret E ref ctx s)) = messages s"
  using getSecret_state [of E ref ctx s] by (cases "getSecret E ref ctx s") auto

text \<open>C34: replies leave through Telegram alone. The send path hands the connector the
  stored secret as a text, which the Slack, Discord and Email connectors do not accept,
  so with the platform's registry no reply of a conversation of these providers is ever
  sent, live or scheduled: it fails before the provider is called and no message is
  stored.\<close>

theorem structured_credentials_never_send:
  assumes "defaultConnectorRegistry mock A = Inr reg"
    and "liveConversation (fst st) (smp_workspaceId params) (smp_conversationId params) = Some c"
    and "providerKey (fst st) (cnv_providerId c) \<in> {''slack'', ''discord'', ''email''}"
  shows "\<exists>e s1. sendOutbound E reg now params st = (Inl e, (s1, snd st)) \<and> messages s1 = messages (fst st)"
proof (cases "sendTarget reg params (fst st)")
  case (Inl e)
  then show ?thesis by (cases st) (simp add: sendOutbound_def)
next
  case (Inr t)
  then obtain a f where t: "sendTarget reg params (fst st) = Inr (c, a, f)"
    and g: "\<exists>con. getConnector reg (providerKey (fst st) (cnv_providerId c)) = Inr con \<and> cn_send con = Some f"
    using assms(2) by (auto simp: sendTarget_def split: option.splits if_splits sum.splits)
  then have f: "\<exists>e. f m (JStr x) p = (Inl e, p)" for m x p
    using structured_connector [OF assms(1,3)] by fastforce
  obtain r s1 where s: "getSecret E (la_credentialsRef a) \<lparr>cac_workspaceId = smp_workspaceId params,
      cac_actorType = smp_actorType params, cac_actorUserId = smp_actorUserId params, cac_audit = True\<rparr> (fst st) = (r, s1)"
    by (meson surj_pair)
  have m: "messages s1 = messages (fst st)"
    using getSecret_messages [of E "la_credentialsRef a" "\<lparr>cac_workspaceId = smp_workspaceId params,
      cac_actorType = smp_actorType params, cac_actorUserId = smp_actorUserId params, cac_audit = True\<rparr>" "fst st"] s by simp
  show ?thesis
  proof (cases r)
    case (Inl e)
    then show ?thesis using t s m by (simp add: sendOutbound_def)
  next
    case (Inr token)
    obtain e where "f \<lparr>om_conversationExternalId = cnv_externalId c, om_bodyText = smp_bodyText params\<rparr> (JStr token) (snd st) = (Inl e, snd st)"
      using f by blast
    then show ?thesis using t s m Inr by (simp add: sendOutbound_def)
  qed
qed

section \<open>Scheduled messages\<close>

lemma scheduled_frames:
  "scheduledMessages (queueAdd q j t w d s) = scheduledMessages s" "scheduledMessages (queueRemove q j s) = scheduledMessages s"
  "scheduledMessages (setConversation c f s) = scheduledMessages s" "scheduledMessages (emitToWorkspace w ev subj s) = scheduledMessages s"
  "scheduledMessages (drawn n s) = scheduledMessages s"
  by (simp_all add: queueAdd_def queueRemove_def setConversation_def emitToWorkspace_def drawn_def)

lemma scheduled_cancelJobs: "scheduledMessages (cancelNoReplyRules w c s) = scheduledMessages s"
proof -
  have "scheduledMessages (fold (cancelJob c) js s) = scheduledMessages s" for js
    by (induction js arbitrary: s) (simp_all add: cancelJob_def Let_def scheduled_frames)
  then show ?thesis by (simp add: cancelNoReplyRules_def)
qed

lemma scheduled_afterSend: "scheduledMessages (snd (afterSend E now params c x s)) = scheduledMessages s"
  by (auto simp: afterSend_def Let_def createMessage_def scheduled_frames scheduled_cancelJobs split: prod.split sum.split)

lemma scheduled_getSecret: "scheduledMessages (snd (getSecret E ref ctx s)) = scheduledMessages s"
  using getSecret_state [of E ref ctx s] by (cases "getSecret E ref ctx s") auto

lemma scheduled_sendOutbound: "scheduledMessages (fst (snd (sendOutbound E reg now params st))) = scheduledMessages (fst st)"
proof (cases "sendTarget reg params (fst st)")
  case (Inr t)
  obtain c a f where t: "t = (c, a, f)" by (cases t)
  let ?ctx = "\<lparr>cac_workspaceId = smp_workspaceId params, cac_actorType = smp_actorType params,
    cac_actorUserId = smp_actorUserId params, cac_audit = True\<rparr>"
  obtain r s1 where s: "getSecret E (la_credentialsRef a) ?ctx (fst st) = (r, s1)" by (meson surj_pair)
  then have e: "scheduledMessages s1 = scheduledMessages (fst st)"
    using scheduled_getSecret [of E "la_credentialsRef a" ?ctx "fst st"] by simp
  have a: "scheduledMessages s2 = scheduledMessages s1" if "afterSend E now params c x s1 = (y, s2)" for x y s2
    using scheduled_afterSend [of E now params c x s1] that by simp
  show ?thesis
    using Inr t s e by (auto simp: sendOutbound_def dest: a split: sum.splits prod.splits)
qed (simp add: sendOutbound_def)

text \<open>A step of the scheduled messages and everything around them that writes their
  rows: a message is scheduled under a fresh id, cancelled, or fired by the worker, or a
  reply goes out live.\<close>

inductive scheduleStep :: "env \<Rightarrow> 'p registry \<Rightarrow> 'p platform \<Rightarrow> 'p platform \<Rightarrow> bool" for E reg where
  Schedule: "draw E (fst st) \<notin> sm_id ` set (scheduledMessages (fst st)) \<Longrightarrow>
    scheduleMessage E now params (fst st) = (m, s1) \<Longrightarrow> scheduleStep E reg st (s1, snd st)"
| Cancel: "cancelScheduled w i (fst st) = (r, s1) \<Longrightarrow> scheduleStep E reg st (s1, snd st)"
| Fire: "fireScheduled E reg now i st = (r, st1) \<Longrightarrow> scheduleStep E reg st st1"
| Reply: "sendOutbound E reg now params st = (r, st1) \<Longrightarrow> scheduleStep E reg st st1"

definition settledRow :: "ScheduledMessage \<Rightarrow> 'p platform \<Rightarrow> bool" where
  "settledRow m st \<longleftrightarrow> distinct (map sm_id (scheduledMessages (fst st))) \<and> m \<in> set (scheduledMessages (fst st))
     \<and> sm_status m \<noteq> SchedPending"

lemma settled_update:
  assumes "distinct (map sm_id xs)" "m \<in> set xs" "sm_status m \<noteq> SchedPending"
    and "findFirst p xs = Some x" "sm_status x = SchedPending" "\<And>y. sm_id (f y) = sm_id y"
  shows "distinct (map sm_id (updateMany (\<lambda>y. sm_id y = sm_id x) f xs)) \<and> m \<in> set (updateMany (\<lambda>y. sm_id y = sm_id x) f xs)"
proof -
  have x: "x \<in> set xs" using findFirst_SomeD [OF assms(4)] by simp
  then have "sm_id m \<noteq> sm_id x" using assms(1-3,5) by (auto simp: distinct_map inj_on_def)
  moreover have "map sm_id (updateMany (\<lambda>y. sm_id y = sm_id x) f xs) = map sm_id xs"
    by (rule map_updateMany) (rule assms(6))
  ultimately show ?thesis using assms(1,2) by (auto simp: set_updateMany image_iff)
qed

lemma cancelScheduled_cases:
  obtains (nothing) "cancelScheduled w i s = (None, s)"
  | (cancelled) m where "findFirst (\<lambda>m. sm_id m = i \<and> sm_workspaceId m = w) (scheduledMessages s) = Some m" "sm_status m = SchedPending"
      "sm_id m = i" "fst (cancelScheduled w i s) = Some (m\<lparr>sm_status := SchedCancelled\<rparr>)"
      "scheduledMessages (snd (cancelScheduled w i s))
        = updateMany (\<lambda>x. sm_id x = sm_id m) (\<lambda>x. x\<lparr>sm_status := SchedCancelled\<rparr>) (scheduledMessages s)"
proof (cases "findFirst (\<lambda>m. sm_id m = i \<and> sm_workspaceId m = w) (scheduledMessages s)")
  case None
  then have "cancelScheduled w i s = (None, s)" by (simp add: cancelScheduled_def)
  then show ?thesis by (rule nothing)
next
  case (Some m)
  then have "sm_id m = i" by (auto dest: findFirst_SomeD)
  show ?thesis
  proof (cases "sm_status m = SchedPending")
    case True
    show ?thesis
      by (rule cancelled [OF Some True \<open>sm_id m = i\<close>])
        (simp_all add: cancelScheduled_def Some True setScheduled_def scheduled_frames \<open>sm_id m = i\<close>)
  next
    case False
    then have "cancelScheduled w i s = (None, s)" by (simp add: cancelScheduled_def Some)
    then show ?thesis by (rule nothing)
  qed
qed

lemma deliverScheduled_rows:
  "\<exists>f. scheduledMessages (fst (snd (deliverScheduled E reg now m st))) = updateMany (\<lambda>y. sm_id y = sm_id m) f (scheduledMessages (fst st))
     \<and> (\<forall>y. sm_id (f y) = sm_id y) \<and> (\<forall>y. sm_status (f y) \<in> {SchedSent, SchedFailed})"
proof -
  let ?p = "\<lparr>smp_workspaceId = sm_workspaceId m, smp_conversationId = sm_conversationId m, smp_bodyText = sm_bodyText m,
    smp_actorUserId = Some (sm_createdByUserId m), smp_actorType = ''user''\<rparr>"
  obtain r st1 where s: "sendOutbound E reg now ?p st = (r, st1)" by (meson surj_pair)
  then have k: "scheduledMessages (fst st1) = scheduledMessages (fst st)"
    using scheduled_sendOutbound [of E reg now ?p st] by simp
  show ?thesis
    by (cases r) (rule exI, simp add: deliverScheduled_def s setScheduled_def k, rule conjI, rule refl, simp)+
qed

lemma settled_step:
  assumes "scheduleStep E reg st st'" "settledRow m st"
  shows "settledRow m st'"
  using assms(1)
proof (cases rule: scheduleStep.cases)
  case (Schedule now params x s1)
  then show ?thesis using assms(2)
    by (auto simp: settledRow_def scheduleMessage_def Let_def scheduled_frames)
next
  case (Cancel w i r s1)
  show ?thesis
  proof (cases rule: cancelScheduled_cases [of w i "fst st"])
    case nothing
    then show ?thesis using Cancel assms(2) by (simp add: settledRow_def)
  next
    case (cancelled x)
    then show ?thesis
      using Cancel assms(2) settled_update [OF _ _ _ cancelled(1,2), of m "\<lambda>x. x\<lparr>sm_status := SchedCancelled\<rparr>"]
      by (simp add: settledRow_def)
  qed
next
  case (Fire now i r)
  show ?thesis
  proof (cases "findFirst (\<lambda>m. sm_id m = i) (scheduledMessages (fst st))")
    case None
    then show ?thesis using Fire assms(2) by (simp add: fireScheduled_def)
  next
    case (Some x)
    show ?thesis
    proof (cases "sm_status x = SchedPending")
      case False
      then show ?thesis using Some Fire assms(2) by (simp add: fireScheduled_def)
    next
      case True
      then have d: "deliverScheduled E reg now x st = (r, st')" using Some Fire by (simp add: fireScheduled_def)
      obtain f where f: "scheduledMessages (fst st') = updateMany (\<lambda>y. sm_id y = sm_id x) f (scheduledMessages (fst st))"
        "\<And>y. sm_id (f y) = sm_id y"
        using deliverScheduled_rows [of E reg now x st] d by auto
      then show ?thesis using assms(2) settled_update [OF _ _ _ Some True, of m f] by (simp add: settledRow_def)
    qed
  qed
next
  case (Reply now params r)
  then show ?thesis using scheduled_sendOutbound [of E reg now params st] assms(2) by (simp add: settledRow_def)
qed


section \<open>A cancel that comes late\<close>

text \<open>A message whose firing has begun can be reported cancelled and go out. When the
  worker has read the pending row and the user cancels before the send is done, the
  cancel finds the row pending and reports it cancelled, the send still happens, and the
  row ends as sent.\<close>

theorem late_cancel_still_sends:
  assumes "findFirst (\<lambda>x. sm_id x = sm_id m) (scheduledMessages (fst st)) = Some m" "sm_status m = SchedPending"
    and "findFirst (\<lambda>x. sm_id x = sm_id m \<and> sm_workspaceId x = w) (scheduledMessages (fst st)) = Some m"
    and "cancelScheduled w (sm_id m) (fst st) = (answer, s1)"
    and "sendOutbound E reg now \<lparr>smp_workspaceId = sm_workspaceId m, smp_conversationId = sm_conversationId m,
         smp_bodyText = sm_bodyText m, smp_actorUserId = Some (sm_createdByUserId m), smp_actorType = ''user''\<rparr> (s1, snd st)
       = (Inr msg, st2)"
  shows "fireScheduled E reg now (sm_id m) st = deliverScheduled E reg now m st
    \<and> answer = Some (m\<lparr>sm_status := SchedCancelled\<rparr>)
    \<and> (\<exists>st3. deliverScheduled E reg now m (s1, snd st) = (Inr (), st3)
        \<and> (\<exists>x\<in>set (scheduledMessages (fst st3)). sm_id x = sm_id m \<and> sm_status x = SchedSent \<and> sm_sentMessageId x = Some (msg_id msg)))"
proof -
  have "scheduledMessages s1 = updateMany (\<lambda>x. sm_id x = sm_id m) (\<lambda>x. x\<lparr>sm_status := SchedCancelled\<rparr>) (scheduledMessages (fst st))"
    and a: "answer = Some (m\<lparr>sm_status := SchedCancelled\<rparr>)"
    using assms(2-4) by (auto simp: cancelScheduled_def setScheduled_def scheduled_frames)
  then have "m\<lparr>sm_status := SchedCancelled\<rparr> \<in> set (scheduledMessages s1)"
    using findFirst_SomeD [OF assms(1)] by (auto simp: set_updateMany image_iff)
  then have "m\<lparr>sm_status := SchedCancelled\<rparr> \<in> set (scheduledMessages (fst st2))"
    using scheduled_sendOutbound [of E reg now _ "(s1, snd st)"] assms(5) by (metis fst_conv snd_conv)
  then have "\<exists>x\<in>set (updateMany (\<lambda>x. sm_id x = sm_id m) (\<lambda>x. x\<lparr>sm_status := SchedSent, sm_sentMessageId := Some (msg_id msg)\<rparr>)
      (scheduledMessages (fst st2))). sm_id x = sm_id m \<and> sm_status x = SchedSent \<and> sm_sentMessageId x = Some (msg_id msg)"
    by (intro bexI [of _ "m\<lparr>sm_status := SchedSent, sm_sentMessageId := Some (msg_id msg)\<rparr>"])
      (auto simp: set_updateMany image_iff intro!: bexI [of _ "m\<lparr>sm_status := SchedCancelled\<rparr>"])
  moreover have "deliverScheduled E reg now m (s1, snd st) = (Inr (), updW (setScheduled (sm_id m)
      (\<lambda>x. x\<lparr>sm_status := SchedSent, sm_sentMessageId := Some (msg_id msg)\<rparr>)) st2)"
    using assms(5) by (simp add: deliverScheduled_def)
  ultimately show ?thesis using assms(1,2) a by (simp add: fireScheduled_def setScheduled_def)
qed

section \<open>The no-reply clock\<close>

definition clockKey :: "ScheduledJob \<Rightarrow> uuid \<times> uuid" where
  "clockKey j = (sj_ruleId j, sj_conversationId j)"

definition clockFor :: "uuid \<Rightarrow> uuid \<Rightarrow> world \<Rightarrow> ScheduledJob list" where
  "clockFor r c s = filter (\<lambda>j. clockKey j = (r, c)) (scheduledJobs s)"

lemma jobs_frames:
  "scheduledJobs (queueAdd q i t w d s) = scheduledJobs s" "scheduledJobs (queueRemove q i s) = scheduledJobs s"
  "scheduledJobs (drawn n s) = scheduledJobs s" "rules (queueAdd q i t w d s) = rules s" "rules (queueRemove q i s) = rules s"
  by (simp_all add: queueAdd_def queueRemove_def drawn_def)

lemma filter_key_update:
  assumes "distinct (map k xs)" "list_ex (\<lambda>x. k x = v) xs" "\<And>x. k (f x) = k x"
  shows "\<exists>x. filter (\<lambda>x. k x = v) (updateMany (\<lambda>x. k x = v) f xs) = [f x]"
  using assms
proof (induction xs)
  case (Cons a xs)
  show ?case
  proof (cases "k a = v")
    case True
    then have "\<forall>x\<in>set xs. k x \<noteq> v" using Cons.prems(1) by (auto simp: rev_image_eqI)
    then have "filter (\<lambda>x. k x = v) (updateMany (\<lambda>x. k x = v) f xs) = []"
      by (simp add: filter_empty_conv updateMany_none)
    then show ?thesis using True Cons.prems(3) by auto
  next
    case False
    then show ?thesis using Cons by simp
  qed
qed simp

lemma filter_other_update:
  "(\<And>x. k (f x) = k x) \<Longrightarrow> v \<noteq> u \<Longrightarrow> filter (\<lambda>x. k x = u) (updateMany (\<lambda>x. k x = v) f xs) = filter (\<lambda>x. k x = u) xs"
  by (induction xs) auto

lemma upsert_clock:
  assumes "distinct (map clockKey (scheduledJobs s))"
  shows "distinct (map clockKey (scheduledJobs (upsertScheduledJob i w r c t s)))"
    and "\<exists>j. clockFor r c (upsertScheduledJob i w r c t s) = [j] \<and> sj_status j = JobPending \<and> sj_scheduledFor j = t"
    and "(r', c') \<noteq> (r, c) \<Longrightarrow> clockFor r' c' (upsertScheduledJob i w r c t s) = clockFor r' c' s"
proof -
  let ?f = "\<lambda>j. j\<lparr>sj_id := i, sj_scheduledFor := t, sj_status := JobPending, sj_completedAt := None\<rparr>"
  have p: "(\<lambda>j. sj_ruleId j = r \<and> sj_conversationId j = c) = (\<lambda>j. clockKey j = (r, c))" by (auto simp: clockKey_def)
  have k: "clockKey (?f j) = clockKey j" for j by (simp add: clockKey_def)
  show "distinct (map clockKey (scheduledJobs (upsertScheduledJob i w r c t s)))"
  proof (cases "list_ex (\<lambda>j. clockKey j = (r, c)) (scheduledJobs s)")
    case True
    then show ?thesis using assms by (simp add: upsertScheduledJob_def Let_def p map_updateMany k)
  next
    case False
    then have "(r, c) \<notin> clockKey ` set (scheduledJobs s)" by (auto simp: list_ex_iff)
    then show ?thesis using assms False by (simp add: upsertScheduledJob_def Let_def p) (simp add: clockKey_def)
  qed
  show "\<exists>j. clockFor r c (upsertScheduledJob i w r c t s) = [j] \<and> sj_status j = JobPending \<and> sj_scheduledFor j = t"
  proof (cases "list_ex (\<lambda>j. clockKey j = (r, c)) (scheduledJobs s)")
    case True
    obtain x where "filter (\<lambda>j. clockKey j = (r, c)) (updateMany (\<lambda>j. clockKey j = (r, c)) ?f (scheduledJobs s)) = [?f x]"
      using filter_key_update [OF assms True, of ?f] k by auto
    then show ?thesis using True by (simp add: upsertScheduledJob_def Let_def p clockFor_def)
  next
    case False
    then have "filter (\<lambda>j. clockKey j = (r, c)) (scheduledJobs s) = []" by (auto simp: list_ex_iff filter_empty_conv)
    then show ?thesis using False by (simp add: upsertScheduledJob_def Let_def p clockFor_def) (simp add: clockKey_def)
  qed
  show "clockFor r' c' (upsertScheduledJob i w r c t s) = clockFor r' c' s" if n: "(r', c') \<noteq> (r, c)"
  proof (cases "list_ex (\<lambda>j. clockKey j = (r, c)) (scheduledJobs s)")
    case True
    have "filter (\<lambda>x. clockKey x = (r', c')) (updateMany (\<lambda>x. clockKey x = (r, c)) ?f (scheduledJobs s))
      = filter (\<lambda>x. clockKey x = (r', c')) (scheduledJobs s)"
      by (rule filter_other_update) (use k n in auto)
    then show ?thesis using True by (simp add: upsertScheduledJob_def Let_def p clockFor_def)
  next
    case False
    then show ?thesis using n by (simp add: upsertScheduledJob_def Let_def p clockFor_def) (auto simp: clockKey_def)
  qed
qed

text \<open>The row of a rule's clock: none, or one pending at the rule's hours from now.\<close>

definition clockRuns :: "instant \<Rightarrow> uuid \<Rightarrow> Rule \<Rightarrow> world \<Rightarrow> bool" where
  "clockRuns now c r s \<longleftrightarrow> (\<exists>j due. clockFor (rul_id r) c s = [j] \<and> sj_status j = JobPending
     \<and> dueAt now (the (paramHours (rul_trigger r))) = Some due \<and> sj_scheduledFor j = due)"

lemma scheduleRule_clock:
  assumes "scheduleRule E now w c r s = (Inr (), s')" "distinct (map clockKey (scheduledJobs s))"
  shows "distinct (map clockKey (scheduledJobs s')) \<and> (\<not> noHours (paramHours (rul_trigger r)) \<longrightarrow> clockRuns now c r s')
    \<and> (\<forall>x y. (x, y) \<noteq> (rul_id r, c) \<longrightarrow> clockFor x y s' = clockFor x y s)"
proof (cases "noHours (paramHours (rul_trigger r))")
  case True
  then show ?thesis using assms by (simp add: scheduleRule_def)
next
  case False
  then obtain due where d: "dueAt now (the (paramHours (rul_trigger r))) = Some due"
    using assms(1) by (auto simp: scheduleRule_def split: option.splits)
  let ?u = "upsertScheduledJob (draw E s) w (rul_id r) c due (drawn 1 s)"
  have s': "scheduledJobs s' = scheduledJobs ?u" using assms(1) False d by (auto simp: scheduleRule_def Let_def jobs_frames)
  have f: "clockFor x y s' = clockFor x y ?u" "clockFor x y (drawn n s) = clockFor x y s" for x y n
    by (simp_all add: clockFor_def s' jobs_frames)
  have u: "distinct (map clockKey (scheduledJobs (drawn 1 s)))" using assms(2) by (simp add: jobs_frames)
  show ?thesis using upsert_clock [OF u] d s' by (auto simp: clockRuns_def f)
qed

lemma clockRuns_cong: "clockFor (rul_id r) c s' = clockFor (rul_id r) c s \<Longrightarrow> clockRuns now c r s' = clockRuns now c r s"
  by (simp add: clockRuns_def)

lemma schedule_all:
  assumes "forEach (scheduleRule E now w c) rs s = (Inr (), s')" "distinct (map clockKey (scheduledJobs s))"
    and "distinct (map rul_id rs)"
  shows "distinct (map clockKey (scheduledJobs s'))
    \<and> (\<forall>r\<in>set rs. \<not> noHours (paramHours (rul_trigger r)) \<longrightarrow> clockRuns now c r s')
    \<and> (\<forall>x y. x \<notin> rul_id ` set rs \<longrightarrow> clockFor x y s' = clockFor x y s)"
  using assms
proof (induction rs arbitrary: s)
  case (Cons r rs)
  obtain s1 where s1: "scheduleRule E now w c r s = (Inr (), s1)" "forEach (scheduleRule E now w c) rs s1 = (Inr (), s')"
    using Cons.prems(1) by (auto split: prod.splits sum.splits)
  note k = scheduleRule_clock [OF s1(1) Cons.prems(2)]
  have "distinct (map rul_id rs)" "rul_id r \<notin> rul_id ` set rs" using Cons.prems(3) by auto
  note ih = Cons.IH [OF s1(2) conjunct1 [OF k] this(1)]
  have "clockRuns now c r s' = clockRuns now c r s1"
    using ih \<open>rul_id r \<notin> rul_id ` set rs\<close> by (intro clockRuns_cong) blast
  then show ?case using k ih by auto
qed (simp add: ok_def)

lemma cancelJob_jobs: "scheduledJobs (cancelJob c j s)
    = updateMany (\<lambda>x. sj_id x = sj_id j) (\<lambda>x. x\<lparr>sj_status := JobCancelled\<rparr>) (scheduledJobs s)"
  by (simp add: cancelJob_def Let_def jobs_frames)

lemma cancel_all_jobs: "scheduledJobs (fold (cancelJob c) js s)
    = map (\<lambda>x. if sj_id x \<in> sj_id ` set js then x\<lparr>sj_status := JobCancelled\<rparr> else x) (scheduledJobs s)"
proof (induction js arbitrary: s)
  case (Cons j js)
  then show ?case by (simp add: cancelJob_jobs updateMany_def)
qed simp

lemma cancel_leaves_none: "pendingJobs w c (cancelNoReplyRules w c s) = []"
  by (auto simp: pendingJobs_def cancelNoReplyRules_def cancel_all_jobs filter_empty_conv image_iff)

lemma afterSend_stops:
  assumes "afterSend E now params x e s = (Inr m, s')"
  shows "pendingJobs (smp_workspaceId params) (cnv_id x) s' = []"
  using assms by (auto simp: afterSend_def Let_def cancel_leaves_none split: prod.splits sum.splits)

lemma sendOutbound_stops:
  assumes "sendOutbound E reg now params st = (Inr m, st')"
  shows "pendingJobs (smp_workspaceId params) (smp_conversationId params) (fst st') = []"
proof -
  obtain x a f where t: "sendTarget reg params (fst st) = Inr (x, a, f)"
    using assms by (auto simp: sendOutbound_def split: sum.splits prod.splits)
  then have "cnv_id x = smp_conversationId params"
    by (auto simp: sendTarget_def liveConversation_def dest!: findFirst_SomeD split: option.splits if_splits sum.splits)
  moreover obtain e s1 s2 where "afterSend E now params x e s1 = (Inr m, s2)" "fst st' = s2"
    using assms t by (auto simp: sendOutbound_def split: sum.splits prod.splits)
  ultimately show ?thesis using afterSend_stops by fastforce
qed

text \<open>C24: the no-reply clock. After an inbound message every enabled no-reply rule of the
  workspace with hours has exactly one row for the conversation, pending and due its
  hours from that message, however often the clock was restarted before; and after any
  reply that was sent, live or scheduled, none is pending.\<close>

theorem no_reply_clock:
  assumes "distinct (map clockKey (scheduledJobs s))" "distinct (map rul_id (rules s))"
    and "scheduleNoReplyRules E now w c s = (Inr (), s')"
  shows "distinct (map clockKey (scheduledJobs s'))
    \<and> (\<forall>r\<in>set (noReplyRules w s). \<not> noHours (paramHours (rul_trigger r)) \<longrightarrow> clockRuns now c r s')
    \<and> (\<forall>reg t params p m st2. smp_workspaceId params = w \<and> smp_conversationId params = c \<and>
         sendOutbound E reg t params (s', p) = (Inr m, st2) \<longrightarrow> pendingJobs w c (fst st2) = [])"
proof -
  have "distinct (map rul_id (noReplyRules w s))" using assms(2) by (simp add: noReplyRules_def distinct_map_filter)
  with schedule_all [OF assms(3) [unfolded scheduleNoReplyRules_def] assms(1)] show ?thesis
    using sendOutbound_stops by blast
qed

section \<open>Witnesses\<close>

definition sampleSendConversation :: "uuid \<Rightarrow> Conversation" where
  "sampleSendConversation prov = \<lparr>cnv_id = 5, cnv_workspaceId = 11, cnv_providerId = prov, cnv_linkedAccountId = Some 3,
     cnv_externalId = ''chat'', cnv_title = None, cnv_lastMessageAt = None, cnv_priorityScore = 0, cnv_isArchived = False,
     cnv_category = None, cnv_tags = [], cnv_lastReadAt = None, cnv_createdAt = 0, cnv_deletedAt = None\<rparr>"

definition sampleScheduled :: "scheduled_status \<Rightarrow> ScheduledMessage" where
  "sampleScheduled status = \<lparr>sm_id = 71, sm_workspaceId = 11, sm_conversationId = 5, sm_createdByUserId = 1, sm_bodyText = ''hi'',
     sm_sendAt = 9, sm_status = status, sm_sentMessageId = None, sm_lastError = None\<rparr>"

definition sendWorld :: "uuid \<Rightarrow> ScheduledMessage list \<Rightarrow> world" where
  "sendWorld prov ms = emptyWorld\<lparr>conversations := [sampleSendConversation prov], scheduledMessages := ms,
     providers := [\<lparr>prov_id = 7, prov_key = ''slack''\<rparr>, \<lparr>prov_id = 8, prov_key = ''mock''\<rparr>],
     linkedAccounts := [\<lparr>la_id = 3, la_workspaceId = 11, la_providerId = prov, la_externalAccountId = ''x'', la_displayLabel = None,
       la_status = Active, la_credentialsRef = 2, la_webhookSecret = None, la_syncCursor = None, la_lastSyncedAt = None,
       la_lastError = None, la_createdAt = 0, la_deletedAt = None\<rparr>],
     secretRecords := [\<lparr>sec_id = 2, sec_ciphertext = ''token'', sec_iv = [], sec_authTag = replicate 32 (CHR ''k''), sec_keyVersion = 1\<rparr>]\<rparr>"

definition sampleParams :: SendMessageParams where
  "sampleParams = \<lparr>smp_workspaceId = 11, smp_conversationId = 5, smp_bodyText = ''hi'', smp_actorUserId = Some 1, smp_actorType = ''user''\<rparr>"

definition noClients :: "(MockState \<times> unit) api_clients" where
  "noClients = \<lparr>api_telegram = \<lparr>tg_getMe = \<lambda>t. throw \<lparr>tge_errorCode = 500, tge_message = [], tge_retryAfter = None\<rparr>,
       tg_sendMessage = \<lambda>t c m. throw \<lparr>tge_errorCode = 500, tge_message = [], tge_retryAfter = None\<rparr>,
       tg_setWebhook = \<lambda>t u x. ok (), tg_deleteWebhook = \<lambda>t. ok (),
       tg_getWebhookInfo = \<lambda>t. ok \<lparr>wi_url = [], wi_pending_update_count = 0, wi_last_error_date = None\<rparr>,
       tg_getUpdates = \<lambda>t i. ok []\<rparr>,
     api_discord = \<lparr>ds_getGuild = \<lambda>t g. ok (), ds_listGuildChannels = \<lambda>t g. ok [], ds_listChannelMessages = \<lambda>t c n. ok [],
       ds_sendMessage = \<lambda>t c m. ok ''id''\<rparr>,
     api_slack = \<lparr>sl_authTest = \<lambda>t. ok ''T1'', sl_listConversations = \<lambda>t. ok [], sl_conversationsHistory = \<lambda>t c n. ok [],
       sl_postMessage = \<lambda>t c m. ok ''1.0''\<rparr>,
     api_email = \<lparr>ec_testConnection = \<lambda>c. ok (), ec_imapFetch = \<lambda>c u. ok [], ec_sendMessage = \<lambda>c m. ok ''id''\<rparr>\<rparr>"

theorem structured_credentials_never_send_witness:
  "\<exists>reg e s1. defaultConnectorRegistry mockConnector noClients = Inr reg \<and>
     sendOutbound sampleEnv reg 0 sampleParams (sendWorld 7 [], (\<lparr>mk_failureMode = None, mk_nextUuid = 0\<rparr>, ()))
      = (Inl e, (s1, (\<lparr>mk_failureMode = None, mk_nextUuid = 0\<rparr>, ()))) \<and> messages s1 = []"
proof -
  obtain reg where reg: "defaultConnectorRegistry mockConnector noClients = Inr reg"
    by (auto simp: defaultConnectorRegistry_def registerConnector_def mockConnector_def MOCK_PROVIDER_KEY_def
        telegramConnector_def discordConnector_def slackConnector_def emailConnector_def manifestOf_def)
  let ?st = "(sendWorld 7 [], (\<lparr>mk_failureMode = None, mk_nextUuid = 0\<rparr>, ()))"
  have c: "liveConversation (fst ?st) (smp_workspaceId sampleParams) (smp_conversationId sampleParams) = Some (sampleSendConversation 7)"
    by (simp add: liveConversation_def sendWorld_def sampleSendConversation_def sampleParams_def)
  have k: "providerKey (fst ?st) (cnv_providerId (sampleSendConversation 7)) \<in> {''slack'', ''discord'', ''email''}"
    by (simp add: providerKey_def sendWorld_def sampleSendConversation_def)
  have "messages (fst ?st) = []" by (simp add: sendWorld_def emptyWorld_def)
  then show ?thesis
    using structured_credentials_never_send [OF reg c k, of sampleEnv 0] reg by (simp only: fst_conv snd_conv) blast
qed


definition echoConnector :: "unit Connector" where
  "echoConnector = \<lparr>cn_manifest = manifestOf ''mock'' ''Mock'' Hybrid (Some 15) 30 10,
     cn_validateCredential = (\<lambda>c. ok \<lparr>cvr_valid = True, cvr_reason = None\<rparr>), cn_onCredentialValidated = (\<lambda>c. ok ''x''),
     cn_send = Some (\<lambda>m c. ok \<lparr>snd_externalId = ''out'', snd_queued = False\<rparr>)\<rparr>"

lemma sampleSecret:
  assumes "secretRecords s = secretRecords (sendWorld 8 [])" "linkedAccounts s = linkedAccounts (sendWorld 8 [])" "cac_workspaceId ctx = 11"
  shows "fst (getSecret sampleEnv 2 ctx s) = Inr ''token''"
proof -
  have ring: "loadKeyRing sampleEnv = Inr [(1, replicate 32 (CHR ''k''))]"
    by (simp add: loadKeyRing_def addKey_def sampleEnv_def nonEmpty_def)
  have key: "encryptionKeyForVersion [(1, replicate 32 (CHR ''k''))] (Fin (of_nat (Suc 0))) = Inr (1, replicate 32 (CHR ''k''))"
    by (simp add: encryptionKeyForVersion_def)
  have "ownedByWorkspace s 2 11" using assms(2) by (simp add: ownedByWorkspace_def sendWorld_def)
  moreover have "findFirst (\<lambda>r. sec_id r = 2) (secretRecords s) = Some \<lparr>sec_id = 2, sec_ciphertext = ''token'', sec_iv = [],
      sec_authTag = replicate 32 (CHR ''k''), sec_keyVersion = 1\<rparr>"
    using assms(1) by (simp add: sendWorld_def)
  moreover have "gcmDecrypt sampleEnv (replicate 32 (CHR ''k'')) [] (replicate 32 (CHR ''k'')) ''token'' = Some ''token''"
    by (simp add: sampleEnv_def)
  ultimately show ?thesis using ring key assms(3) by (simp add: getSecret_def)
qed

theorem late_cancel_still_sends_witness:
  "\<exists>s1 st3. cancelScheduled 11 71 (sendWorld 8 [sampleScheduled SchedPending])
      = (Some ((sampleScheduled SchedPending)\<lparr>sm_status := SchedCancelled\<rparr>), s1)
    \<and> deliverScheduled sampleEnv [echoConnector] 9 (sampleScheduled SchedPending) (s1, ()) = (Inr (), st3)
    \<and> (\<exists>x\<in>set (scheduledMessages (fst st3)). sm_id x = 71 \<and> sm_status x = SchedSent)"
proof -
  let ?m = "sampleScheduled SchedPending" and ?st = "(sendWorld 8 [sampleScheduled SchedPending], ())"
  have m: "sm_id ?m = 71" "sm_workspaceId ?m = 11" "sm_conversationId ?m = 5" "sm_status ?m = SchedPending"
    by (simp_all add: sampleScheduled_def)
  have f: "findFirst (\<lambda>x. sm_id x = sm_id ?m) (scheduledMessages (fst ?st)) = Some ?m"
    "findFirst (\<lambda>x. sm_id x = sm_id ?m \<and> sm_workspaceId x = 11) (scheduledMessages (fst ?st)) = Some ?m"
    by (simp_all add: sendWorld_def m)
  obtain answer s1 where c: "cancelScheduled 11 (sm_id ?m) (fst ?st) = (answer, s1)" by (meson surj_pair)
  then have t: "secretRecords s1 = secretRecords (sendWorld 8 [])" "linkedAccounts s1 = linkedAccounts (sendWorld 8 [])"
    "conversations s1 = [sampleSendConversation 8]" "providers s1 = providers (sendWorld 8 [])" "messages s1 = []"
    using f(2) m by (auto simp: cancelScheduled_def setScheduled_def queueRemove_def sendWorld_def emptyWorld_def)
  let ?p = "\<lparr>smp_workspaceId = sm_workspaceId ?m, smp_conversationId = sm_conversationId ?m,
         smp_bodyText = sm_bodyText ?m, smp_actorUserId = Some (sm_createdByUserId ?m), smp_actorType = ''user''\<rparr>"
  have target: "\<exists>a f. sendTarget [echoConnector] ?p s1 = Inr (sampleSendConversation 8, a, f) \<and> la_credentialsRef a = 2
      \<and> (\<forall>x y. f x y = ok \<lparr>snd_externalId = ''out'', snd_queued = False\<rparr>)"
    by (simp add: sendTarget_def liveConversation_def t m sampleSendConversation_def accountOf_def sendWorld_def getConnector_def
        providerKey_def echoConnector_def manifestOf_def)
  then obtain a f where a: "sendTarget [echoConnector] ?p s1 = Inr (sampleSendConversation 8, a, f)" "la_credentialsRef a = 2"
    "\<And>x y. f x y = ok \<lparr>snd_externalId = ''out'', snd_queued = False\<rparr>" by blast
  let ?ctx = "\<lparr>cac_workspaceId = smp_workspaceId ?p, cac_actorType = smp_actorType ?p, cac_actorUserId = smp_actorUserId ?p, cac_audit = True\<rparr>"
  obtain s2 where g: "getSecret sampleEnv 2 ?ctx s1 = (Inr ''token'', s2)"
    using sampleSecret [OF t(1,2), of ?ctx] m by (cases "getSecret sampleEnv 2 ?ctx s1") auto
  then have "messages s2 = []" using getSecret_messages [of sampleEnv 2 ?ctx s1] t(5) by simp
  then have "\<exists>msg s3. afterSend sampleEnv 9 ?p (sampleSendConversation 8) ''out'' s2 = (Inr msg, s3)"
    by (simp add: afterSend_def createMessage_def Let_def drawn_def)
  then obtain msg s3 where s3: "afterSend sampleEnv 9 ?p (sampleSendConversation 8) ''out'' s2 = (Inr msg, s3)" by blast
  have "sendOutbound sampleEnv [echoConnector] 9 ?p (s1, snd ?st) = (Inr msg, (s3, ()))"
    unfolding sendOutbound_def using a g s3 by (simp add: ok_def)
  from late_cancel_still_sends [OF f(1) m(4) f(2) c this] show ?thesis using c m by auto
qed

definition noReplyRule :: Rule where
  "noReplyRule = \<lparr>rul_id = 81, rul_workspaceId = 11, rul_createdByUserId = 1, rul_name = ''Rule'', rul_isEnabled = True, rul_priority = 1,
     rul_triggerType = ''time.no_reply_after'', rul_trigger = \<lparr>trigType = ''time.no_reply_after'', scopeProviderKey = JUndef, paramHours = Some (Fin 2)\<rparr>,
     rul_conditions = starterConditions, rul_actions = [], rul_version = 1, rul_createdAt = 0, rul_updatedAt = 0, rul_deletedAt = None\<rparr>"

theorem no_reply_clock_witness:
  "\<exists>s'. scheduleNoReplyRules sampleEnv 0 11 5 (emptyWorld\<lparr>rules := [noReplyRule]\<rparr>) = (Inr (), s') \<and> clockRuns 0 5 noReplyRule s'"
proof -
  let ?s = "emptyWorld\<lparr>rules := [noReplyRule]\<rparr>"
  have r: "noReplyRules 11 ?s = [noReplyRule]" by (simp add: noReplyRules_def noReplyRule_def)
  have h: "\<not> noHours (paramHours (rul_trigger noReplyRule))" "\<exists>d. dueAt 0 (the (paramHours (rul_trigger noReplyRule))) = Some d"
    by (simp_all add: noReplyRule_def noHours_def dueAt_def)
  then obtain s' where s': "scheduleNoReplyRules sampleEnv 0 11 5 ?s = (Inr (), s')"
    by (auto simp: scheduleNoReplyRules_def r scheduleRule_def Let_def ok_def)
  have "distinct (map clockKey (scheduledJobs ?s))" "distinct (map rul_id (rules ?s))" by (simp_all add: emptyWorld_def)
  from no_reply_clock [OF this s'] show ?thesis using r h(1) s' by auto
qed

end
