(* ===== verification/Rules_Api.thy ===== *)
theory Rules_Api
  imports List_Endpoints Rule_Execution
begin

text \<open>
  The rules resource (\<open>automation/rules.controller.ts\<close>): the validation of a rule body
  (\<open>automation/rule-validation.ts\<close>), the entity tags of \<open>common/etag.ts\<close>, and the
  handlers that create, read, edit and remove a rule, with the optimistic lock of an
  edit. An edit is its read of the row and its conditional write, so that other
  requests can come between. The list and the execution log are with the other list
  endpoints.
\<close>

section \<open>Entity tags\<close>

definition quote :: string where
  "quote = [CHR 0x22]"

definition etagFor :: "nat \<Rightarrow> string" where
  "etagFor version = quote @ natDigits version @ quote"

definition dropPrefix :: "string \<Rightarrow> string \<Rightarrow> string" where
  "dropPrefix p s = (if startsWith s p then drop (length p) s else s)"

definition dropSuffix :: "string \<Rightarrow> string \<Rightarrow> string" where
  "dropSuffix p s = (if endsWith s p then take (length s - length p) s else s)"

definition parseETagHeader :: "string option \<Rightarrow> string option" where
  "parseETagHeader raw =
     (if \<not> nonEmpty raw then None
      else Some (dropSuffix quote (dropPrefix quote (dropPrefix ''W/'' (trim (the raw))))))"

section \<open>Validation of a rule body\<close>

text \<open>A JSON value as the code inspects it. The \<open>in\<close> operator sees an object's own members
  and an array's indices, never the name \<open>op\<close> on a prototype.\<close>

definition hasMember :: "jsval \<Rightarrow> string \<Rightarrow> bool" where
  "hasMember v k = (case v of JObj kvs \<Rightarrow> map_of kvs k \<noteq> None | _ \<Rightarrow> False)"

definition isText :: "jsval \<Rightarrow> bool" where
  "isText v = (case v of JStr _ \<Rightarrow> True | _ \<Rightarrow> False)"

definition groupOps :: "(string \<times> group_op) list" where
  "groupOps = [(''AND'', AND), (''OR'', OR), (''NOT'', NOT)]"

definition groupOpOf :: "jsval \<Rightarrow> group_op option" where
  "groupOpOf v = (case v of JStr t \<Rightarrow> map_of groupOps t | _ \<Rightarrow> None)"

definition elements :: "jsval \<Rightarrow> jsval list option" where
  "elements v = (case v of JArr xs \<Rightarrow> Some xs | _ \<Rightarrow> None)"

lemma getProp_children: "getProp (JObj kvs) ''children'' = JArr xs \<Longrightarrow> x \<in> set xs \<Longrightarrow> size x < size (JObj kvs)"
proof -
  assume g: "getProp (JObj kvs) ''children'' = JArr xs" and x: "x \<in> set xs"
  have "map_of kvs ''children'' = Some (JArr xs)"
    using g by (auto simp: getProp_def getObjProto_def split: option.splits if_splits)
  then have k: "(''children'', JArr xs) \<in> set kvs" by (rule map_of_SomeD)
  have "size x \<le> size_list size xs" using size_list_estimation' [OF x order.refl, of size] .
  then have "size x < (\<lambda>p. size_prod (\<lambda>_. 0) size p) (''children'', JArr xs)" by simp
  also have "\<dots> \<le> size_list (\<lambda>p. size_prod (\<lambda>_. 0) size p) kvs" using size_list_estimation' [OF k order.refl] .
  finally show ?thesis by simp
qed

function isConditionNode :: "jsval \<Rightarrow> bool" where
  "isConditionNode v = (case v of
      JObj kvs \<Rightarrow>
        if hasMember v ''op'' then groupOpOf (getProp v ''op'') \<noteq> None \<and>
          (case getProp v ''children'' of JArr xs \<Rightarrow> list_all isConditionNode xs | _ \<Rightarrow> False)
        else isText (getProp v ''field'') \<and> isText (getProp v ''operator'')
    | _ \<Rightarrow> False)"
  by pat_completeness auto

termination isConditionNode
  by (relation "measure size") (auto dest: sym simp: getProp_children [simplified])

declare isConditionNode.simps [simp del]

text \<open>What the column stores of a value: JSON has neither \<open>undefined\<close> nor infinite
  numbers, so a member without a value is dropped and such a number becomes null.\<close>

fun jsonColumn :: "jsval \<Rightarrow> jsval" where
  "jsonColumn (JNum (Fin r)) = JNum (Fin r)"
| "jsonColumn (JNum _) = JNull"
| "jsonColumn (JArr xs) = JArr (map (\<lambda>x. if x = JUndef then JNull else jsonColumn x) xs)"
| "jsonColumn (JObj kvs) = JObj (map (\<lambda>kv. (fst kv, jsonColumn (snd kv))) (filter (\<lambda>kv. snd kv \<noteq> JUndef) kvs))"
| "jsonColumn v = v"

text \<open>The typed reading of a validated value, which the source does by a cast.\<close>

definition textOf :: "jsval \<Rightarrow> string" where
  "textOf v = (case v of JStr t \<Rightarrow> t | _ \<Rightarrow> [])"

definition operatorNames :: "(string \<times> ConditionOperator) list" where
  "operatorNames = [(''equals'', Equals), (''not_equals'', NotEquals), (''contains'', Contains),
     (''not_contains'', NotContains), (''matches_regex'', MatchesRegex), (''greater_than'', GreaterThan),
     (''less_than'', LessThan), (''is_true'', IsTrue), (''is_false'', IsFalse)]"

definition operatorOf :: "string \<Rightarrow> ConditionOperator" where
  "operatorOf t = (case map_of operatorNames t of Some op \<Rightarrow> op | None \<Rightarrow> OtherOperator t)"

function readCondition :: "jsval \<Rightarrow> ConditionNode" where
  "readCondition v = (case v of
      JObj kvs \<Rightarrow> (case (groupOpOf (getProp v ''op''), getProp v ''children'') of
          (Some op, JArr xs) \<Rightarrow> ConditionGroup op (map readCondition xs)
        | _ \<Rightarrow> ConditionLeaf (textOf (getProp v ''field'')) (operatorOf (textOf (getProp v ''operator''))) (getProp v ''value''))
    | _ \<Rightarrow> ConditionLeaf [] (OtherOperator []) JUndef)"
  by pat_completeness auto

termination readCondition
  by (relation "measure size") (auto dest: sym simp: getProp_children [simplified])

declare readCondition.simps [simp del]

definition numberOf :: "jsval \<Rightarrow> jsnum option" where
  "numberOf v = (case v of JNum n \<Rightarrow> Some n | _ \<Rightarrow> None)"

definition readTrigger :: "jsval \<Rightarrow> RuleTrigger" where
  "readTrigger v = \<lparr>trigType = textOf (getProp v ''type''),
     scopeProviderKey = getProp (getProp v ''scope'') ''providerKey'',
     paramHours = numberOf (getProp (getProp v ''params'') ''hours'')\<rparr>"

definition readAction :: "jsval \<Rightarrow> ActionStep" where
  "readAction v = \<lparr>step_type = textOf (getProp v ''type''), step_params = getProp v ''params''\<rparr>"

record RuleInput =
  rin_name :: string
  rin_isEnabled :: bool
  rin_priority :: jsnum
  rin_trigger :: RuleTrigger
  rin_conditions :: ConditionNode
  rin_actions :: "ActionStep list"

definition isActionNode :: "jsval \<Rightarrow> bool" where
  "isActionNode v \<longleftrightarrow> isObjectType v \<and> v \<noteq> JNull \<and> isText (getProp v ''type'')"

definition badRequest :: "string \<Rightarrow> exn" where
  "badRequest c = HttpError 400 c"

definition isRuleTrigger :: "jsval \<Rightarrow> bool" where
  "isRuleTrigger t \<longleftrightarrow> truthy t \<and> isText (getProp t ''type'') \<and> isRegisteredTrigger (textOf (getProp t ''type''))"

definition hasHours :: "jsval \<Rightarrow> bool" where
  "hasHours t \<longleftrightarrow> truthy (getProp t ''params'') \<and>
     (case getProp (getProp t ''params'') ''hours'' of JNum h \<Rightarrow> \<not> numLeq h (Fin 0) | _ \<Rightarrow> False)"

definition validateRuleInput :: "jsval \<Rightarrow> exn + RuleInput" where
  "validateRuleInput body =
     (let name = getProp body ''name''; trigger = getProp body ''trigger'';
          conditions = getProp body ''conditions''; actions = elements (getProp body ''actions'') in
      if \<not> isObjectType body \<or> body = JNull then Inl (badRequest ''INVALID_RULE'')
      else if \<not> isText name \<or> trim (textOf name) = [] then Inl (badRequest ''NAME_REQUIRED'')
      else if \<not> isRuleTrigger trigger then Inl (badRequest ''INVALID_TRIGGER'')
      else if textOf (getProp trigger ''type'') = ''time.no_reply_after'' \<and> \<not> hasHours trigger
      then Inl (badRequest ''INVALID_TRIGGER_PARAMS'')
      else if \<not> isConditionNode conditions then Inl (badRequest ''INVALID_CONDITIONS'')
      else if actions = None \<or> actions = Some [] then Inl (badRequest ''ACTIONS_REQUIRED'')
      else if \<not> list_all isActionNode (the actions) then Inl (badRequest ''INVALID_ACTION'')
      else Inr \<lparr>rin_name = trim (textOf name),
        rin_isEnabled = (case getProp body ''isEnabled'' of JBool b \<Rightarrow> b | _ \<Rightarrow> True),
        rin_priority = (case getProp body ''priority'' of JNum n \<Rightarrow> n | _ \<Rightarrow> Fin 0),
        rin_trigger = readTrigger (jsonColumn trigger),
        rin_conditions = readCondition (jsonColumn conditions),
        rin_actions = map (\<lambda>a. readAction (jsonColumn a)) (the actions)\<rparr>)"

section \<open>The row of a rule\<close>

text \<open>An integer column takes whole 32-bit numbers; the client throws on any other.\<close>

definition intColumn :: "jsnum \<Rightarrow> int option" where
  "intColumn n = (case n of
      Fin r \<Rightarrow> if r = of_int \<lfloor>r\<rfloor> \<and> - (2 ^ 31) \<le> \<lfloor>r\<rfloor> \<and> \<lfloor>r\<rfloor> < 2 ^ 31 then Some \<lfloor>r\<rfloor> else None
    | _ \<Rightarrow> None)"

definition invalidColumn :: exn where
  "invalidColumn = PlainError ''PrismaClientValidationError''"

definition newRule :: "uuid \<Rightarrow> instant \<Rightarrow> jwt_claims \<Rightarrow> RuleInput \<Rightarrow> int \<Rightarrow> Rule" where
  "newRule i now claims input p = \<lparr>rul_id = i, rul_workspaceId = jwt_workspaceId claims,
     rul_createdByUserId = jwt_sub claims, rul_name = rin_name input, rul_isEnabled = rin_isEnabled input,
     rul_priority = p, rul_triggerType = trigType (rin_trigger input), rul_trigger = rin_trigger input,
     rul_conditions = rin_conditions input, rul_actions = rin_actions input, rul_version = 1,
     rul_createdAt = now, rul_updatedAt = now, rul_deletedAt = None\<rparr>"

definition createRule :: "env \<Rightarrow> instant \<Rightarrow> jsval \<Rightarrow> jwt_claims \<Rightarrow> (world, exn, Rule) oper" where
  "createRule E now body claims s = (case validateRuleInput body of
      Inl e \<Rightarrow> (Inl e, s)
    | Inr input \<Rightarrow> (case intColumn (rin_priority input) of
        None \<Rightarrow> (Inl invalidColumn, drawn 1 s)
      | Some p \<Rightarrow>
          if \<not> list_ex (\<lambda>w. ws_id w = jwt_workspaceId claims) (workspaces s) then (Inl (PlainError ''P2003''), drawn 1 s)
          else let r = newRule (draw E s) now claims input p in (Inr r, (drawn 1 s)\<lparr>rules := rules s @ [r]\<rparr>)))"

definition ruleNotFound :: exn where
  "ruleNotFound = HttpError 404 ''RULE_NOT_FOUND''"

definition liveRule :: "uuid \<Rightarrow> jwt_claims \<Rightarrow> world \<Rightarrow> Rule option" where
  "liveRule i claims s =
     findFirst (\<lambda>r. rul_deletedAt r = None \<and> rul_id r = i \<and> rul_workspaceId r = jwt_workspaceId claims) (rules s)"

text \<open>A read answers with the entity tag, and with the rule unless the caller has that
  version already (304).\<close>

definition getRule :: "uuid \<Rightarrow> jwt_claims \<Rightarrow> string option \<Rightarrow> world \<Rightarrow> exn + (string \<times> Rule option)" where
  "getRule i claims ifNoneMatch s = (case liveRule i claims s of
      None \<Rightarrow> Inl ruleNotFound
    | Some r \<Rightarrow> Inr (etagFor (rul_version r),
        if parseETagHeader ifNoneMatch = Some (natDigits (rul_version r)) then None else Some r))"

section \<open>Editing a rule\<close>

text \<open>The parts of a stored rule as the JSON the columns hold.\<close>

definition present :: "(string \<times> jsval) list \<Rightarrow> jsval" where
  "present kvs = JObj (filter (\<lambda>kv. snd kv \<noteq> JUndef) kvs)"

definition triggerJson :: "RuleTrigger \<Rightarrow> jsval" where
  "triggerJson t = present [(''type'', JStr (trigType t)),
     (''scope'', if scopeProviderKey t = JUndef then JUndef else JObj [(''providerKey'', scopeProviderKey t)]),
     (''params'', case paramHours t of None \<Rightarrow> JUndef | Some h \<Rightarrow> JObj [(''hours'', JNum h)])]"

definition operatorText :: "ConditionOperator \<Rightarrow> string" where
  "operatorText op = (case op of OtherOperator t \<Rightarrow> t
     | _ \<Rightarrow> the (map_of (map (\<lambda>p. (snd p, fst p)) operatorNames) op))"

definition groupOpText :: "group_op \<Rightarrow> string" where
  "groupOpText op = the (map_of (map (\<lambda>p. (snd p, fst p)) groupOps) op)"

fun conditionJson :: "ConditionNode \<Rightarrow> jsval" where
  "conditionJson (ConditionLeaf field op v) =
     present [(''field'', JStr field), (''operator'', JStr (operatorText op)), (''value'', v)]"
| "conditionJson (ConditionGroup op children) =
     JObj [(''op'', JStr (groupOpText op)), (''children'', JArr (map conditionJson children))]"

definition actionJson :: "ActionStep \<Rightarrow> jsval" where
  "actionJson a = present [(''type'', JStr (step_type a)), (''params'', step_params a)]"

definition orElse :: "jsval \<Rightarrow> jsval \<Rightarrow> jsval" where
  "orElse a b = (if nullish a then b else a)"

text \<open>A body that names a trigger, conditions, actions or a name is completed with the
  stored parts and validated as a whole; any other changes the two switches only.\<close>

definition editInput :: "jsval \<Rightarrow> Rule \<Rightarrow> exn + RuleInput" where
  "editInput raw existing =
     (let enabled = (case getProp raw ''isEnabled'' of JBool b \<Rightarrow> b | _ \<Rightarrow> rul_isEnabled existing);
          priority = (case getProp raw ''priority'' of JNum n \<Rightarrow> n | _ \<Rightarrow> Fin (of_int (rul_priority existing))) in
      if nullish raw then Inl (PlainError ''TypeError'')
      else if list_ex (\<lambda>k. truthy (getProp raw k)) [''trigger'', ''conditions'', ''actions'', ''name'']
      then validateRuleInput (JObj [
        (''name'', orElse (getProp raw ''name'') (JStr (rul_name existing))),
        (''isEnabled'', JBool enabled), (''priority'', JNum priority),
        (''trigger'', orElse (getProp raw ''trigger'') (triggerJson (rul_trigger existing))),
        (''conditions'', orElse (getProp raw ''conditions'') (conditionJson (rul_conditions existing))),
        (''actions'', orElse (getProp raw ''actions'') (JArr (map actionJson (rul_actions existing))))])
      else Inr \<lparr>rin_name = rul_name existing, rin_isEnabled = enabled, rin_priority = priority,
        rin_trigger = rul_trigger existing, rin_conditions = rul_conditions existing,
        rin_actions = rul_actions existing\<rparr>)"

definition readEdit :: "uuid \<Rightarrow> jsval \<Rightarrow> jwt_claims \<Rightarrow> string option \<Rightarrow> world \<Rightarrow> exn + (string \<times> RuleInput)" where
  "readEdit i body claims ifMatch s = (case parseETagHeader ifMatch of
      None \<Rightarrow> Inl (HttpError 428 ''PRECONDITION_REQUIRED'')
    | Some expected \<Rightarrow> (case liveRule i claims s of
        None \<Rightarrow> Inl ruleNotFound
      | Some existing \<Rightarrow> (case editInput body existing of Inl e \<Rightarrow> Inl e | Inr input \<Rightarrow> Inr (expected, input))))"

text \<open>The version an \<open>If-Match\<close> names: a whole number, or one that no row has.\<close>

definition isWhole :: "jsnum \<Rightarrow> bool" where
  "isWhole n = (case n of Fin r \<Rightarrow> r = of_int \<lfloor>r\<rfloor> | _ \<Rightarrow> False)"

definition expectedVersion :: "string \<Rightarrow> jsnum" where
  "expectedVersion expected = (let n = toNumber expected in if isWhole n then n else Fin (- 1))"

definition ruleAt :: "uuid \<Rightarrow> uuid \<Rightarrow> int \<Rightarrow> Rule \<Rightarrow> bool" where
  "ruleAt i wsId v r \<longleftrightarrow> rul_id r = i \<and> rul_workspaceId r = wsId \<and> int (rul_version r) = v"

definition writeRule :: "instant \<Rightarrow> RuleInput \<Rightarrow> int \<Rightarrow> Rule \<Rightarrow> Rule" where
  "writeRule now input p r = r\<lparr>rul_name := rin_name input, rul_isEnabled := rin_isEnabled input, rul_priority := p,
     rul_triggerType := trigType (rin_trigger input), rul_trigger := rin_trigger input,
     rul_conditions := rin_conditions input, rul_actions := rin_actions input,
     rul_version := rul_version r + 1, rul_updatedAt := now\<rparr>"

text \<open>The conditional write. The answer is the \<open>ETag\<close> header, also on a failed
  precondition, and the rule or the exception.\<close>

definition writeEdit ::
  "instant \<Rightarrow> uuid \<Rightarrow> jwt_claims \<Rightarrow> string \<times> RuleInput \<Rightarrow> world \<Rightarrow> (string option \<times> (exn + Rule)) \<times> world" where
  "writeEdit now i claims edit s =
     (case (intColumn (expectedVersion (fst edit)), intColumn (rin_priority (snd edit))) of
        (Some v, Some p) \<Rightarrow>
          let same = ruleAt i (jwt_workspaceId claims) v;
              s1 = s\<lparr>rules := updateMany same (writeRule now (snd edit) p) (rules s)\<rparr> in
          (case findFirst (\<lambda>r. rul_id r = i) (rules s1) of
             None \<Rightarrow> ((None, Inl (PlainError ''P2025'')), s1)
           | Some r \<Rightarrow> ((Some (etagFor (rul_version r)),
               if countWhere same (rules s) = 0 then Inl (HttpError 412 ''OPTIMISTIC_LOCK_FAILURE'') else Inr r), s1))
      | _ \<Rightarrow> ((None, Inl invalidColumn), s))"

definition updateRule ::
  "instant \<Rightarrow> uuid \<Rightarrow> jsval \<Rightarrow> jwt_claims \<Rightarrow> string option \<Rightarrow> world \<Rightarrow> (string option \<times> (exn + Rule)) \<times> world" where
  "updateRule now i body claims ifMatch s = (case readEdit i body claims ifMatch s of
      Inl e \<Rightarrow> ((None, Inl e), s)
    | Inr edit \<Rightarrow> writeEdit now i claims edit s)"

section \<open>Removing and trying a rule\<close>

definition removeRule :: "instant \<Rightarrow> uuid \<Rightarrow> jwt_claims \<Rightarrow> (world, exn, uuid) oper" where
  "removeRule now i claims s = (case liveRule i claims s of
      None \<Rightarrow> (Inl ruleNotFound, s)
    | Some _ \<Rightarrow> (Inr i, s\<lparr>rules := updateMany (\<lambda>r. rul_id r = i)
        (\<lambda>r. r\<lparr>rul_updatedAt := now, rul_deletedAt := Some now\<rparr>) (rules s)\<rparr>))"

record DryRunDto =
  drd_bodyText :: "string option"
  drd_senderDisplayName :: "string option"
  drd_senderIsVip :: "bool option"

definition dryRunRule :: "zone_clock \<Rightarrow> regex_engine \<Rightarrow> text_of \<Rightarrow> instant \<Rightarrow> uuid \<Rightarrow> DryRunDto \<Rightarrow> jwt_claims \<Rightarrow> world
    \<Rightarrow> exn + dry_result" where
  "dryRunRule clock re toText now i dto claims s = (case liveRule i claims s of
      None \<Rightarrow> Inl ruleNotFound
    | Some r \<Rightarrow> (case dryRun clock re toText now (rul_conditions r) (rul_actions r)
          \<lparr>dry_bodyText = (case drd_bodyText dto of Some t \<Rightarrow> t | None \<Rightarrow> []),
           dry_senderDisplayName = (case drd_senderDisplayName dto of Some t \<Rightarrow> t | None \<Rightarrow> ''Test Sender''),
           dry_senderIsVip = (drd_senderIsVip dto = Some True)\<rparr> of
        None \<Rightarrow> Inl (PlainError ''dry run'')
      | Some d \<Rightarrow> Inr d))"

end
