(* ===== verification/Versioned_Rows.thy ===== *)
theory Versioned_Rows
  imports Prelude
begin

text \<open>
  The optimistic lock as a contract: rows with a version that every write raises, over
  steps of other requests that only move a row on. A write conditional on a version then
  finds what its client read, or nothing.
\<close>

locale versioned_rows =
  fixes rowsOf :: "'s \<Rightarrow> 'r list" and key :: "'r \<Rightarrow> 'k" and version :: "'r \<Rightarrow> nat" and content :: "'r \<Rightarrow> 'c"
    and step :: "'k \<Rightarrow> 's \<Rightarrow> 's \<Rightarrow> bool"
  assumes step_distinct: "step k s s' \<Longrightarrow> distinct (map key (rowsOf s)) \<Longrightarrow> distinct (map key (rowsOf s'))"
    and step_row: "step k s s' \<Longrightarrow> distinct (map key (rowsOf s)) \<Longrightarrow> r' \<in> set (rowsOf s') \<Longrightarrow> key r' = k \<Longrightarrow>
      \<exists>r\<in>set (rowsOf s). key r = k \<and> (version r < version r' \<or> version r' = version r \<and> content r' = content r)"
begin

lemma steps_distinct: "(step k)\<^sup>*\<^sup>* s s' \<Longrightarrow> distinct (map key (rowsOf s)) \<Longrightarrow> distinct (map key (rowsOf s'))"
  by (induction rule: rtranclp_induct) (auto dest: step_distinct)

lemma steps_row:
  "(step k)\<^sup>*\<^sup>* s s' \<Longrightarrow> distinct (map key (rowsOf s)) \<Longrightarrow> r' \<in> set (rowsOf s') \<Longrightarrow> key r' = k \<Longrightarrow>
    \<exists>r\<in>set (rowsOf s). key r = k \<and> (version r < version r' \<or> version r' = version r \<and> content r' = content r)"
proof (induction arbitrary: r' rule: rtranclp_induct)
  case (step s1 s2)
  obtain r1 where r1: "r1 \<in> set (rowsOf s1)" "key r1 = k"
    "version r1 < version r' \<or> version r' = version r1 \<and> content r' = content r1"
    using step_row [OF step(2) steps_distinct [OF step(1,4)] step(5,6)] by blast
  obtain r where "r \<in> set (rowsOf s)" "key r = k" "version r < version r1 \<or> version r1 = version r \<and> content r1 = content r"
    using step.IH [OF step(4) r1(1,2)] by blast
  then show ?case using r1(3) by fastforce
qed auto

lemma unique_row: "distinct (map key rs) \<Longrightarrow> r \<in> set rs \<Longrightarrow> r' \<in> set rs \<Longrightarrow> key r = key r' \<Longrightarrow> r = r'"
  by (auto simp: distinct_map dest: inj_onD)

text \<open>The row a client read is, as long as it has the version it had, the row as it was.\<close>

lemma same_version:
  assumes "(step k)\<^sup>*\<^sup>* s s'" "distinct (map key (rowsOf s))" "seen \<in> set (rowsOf s)" "key seen = k"
    and "r' \<in> set (rowsOf s')" "key r' = k" "version r' = version seen"
  shows "content r' = content seen"
  using steps_row [OF assms(1,2,5,6)] unique_row [OF assms(2,3)] assms(4,7) by fastforce

text \<open>Once a row has a version, no row under its key has an earlier one.\<close>

lemma version_grows:
  assumes "(step k)\<^sup>*\<^sup>* s s'" "distinct (map key (rowsOf s))" "r \<in> set (rowsOf s)" "key r = k"
    and "r' \<in> set (rowsOf s')" "key r' = k"
  shows "version r \<le> version r'"
  using steps_row [OF assms(1,2,5,6)] unique_row [OF assms(2,3)] assms(4) by fastforce

end

text \<open>What an update of rows makes of a row: the law for a step that updates.\<close>

lemma updateMany_row:
  assumes "r' \<in> set (updateMany p f rs)"
  obtains r where "r \<in> set rs" "r' = (if p r then f r else r)"
proof -
  have "r' \<in> (\<lambda>x. if p x then f x else x) ` set rs" using assms by (simp add: updateMany_def)
  then show thesis using that by blast
qed

end
