(* ===== verification/Rules_Properties.thy ===== *)
theory Rules_Properties
  imports Rules_Api Ingestion_Properties Versioned_Rows
begin

text \<open>
  What editing rules promises: the optimistic lock, over any requests that come between
  an edit's read and its write.
\<close>

section \<open>Other requests\<close>

text \<open>What other requests do to the rules while a client holds the rule \<open>i\<close>: create one
  under a fresh id, write an edit of any rule read at any time, remove one, erase a
  workspace, or leave them alone. A uuid is never drawn twice, so a new rule's id is
  neither that of a stored rule nor \<open>i\<close>, should that be erased.\<close>

inductive ruleStep :: "uuid \<Rightarrow> world \<Rightarrow> world \<Rightarrow> bool" for i where
  created: "draw E s \<notin> insert i (rul_id ` set (rules s)) \<Longrightarrow> createRule E now body claims s = (x, s') \<Longrightarrow> ruleStep i s s'"
| edited: "writeEdit now j claims edit s = (x, s') \<Longrightarrow> ruleStep i s s'"
| removed: "removeRule now j claims s = (x, s') \<Longrightarrow> ruleStep i s s'"
| erased: "ruleStep i s (eraseWorkspace w accounts s)"
| elsewhere: "rules s' = rules s \<Longrightarrow> ruleStep i s s'"

text \<open>What a client sees of a rule and sends back in an edit.\<close>

definition ruleContent :: "Rule \<Rightarrow> string \<times> bool \<times> int \<times> string \<times> RuleTrigger \<times> ConditionNode \<times> ActionStep list" where
  "ruleContent r = (rul_name r, rul_isEnabled r, rul_priority r, rul_triggerType r, rul_trigger r,
     rul_conditions r, rul_actions r)"

lemma writeRule_row: "rul_id (writeRule now input p r) = rul_id r" "rul_version (writeRule now input p r) = rul_version r + 1"
  by (simp_all add: writeRule_def)

text \<open>A conditional write raises the version of what it writes, or writes nothing.\<close>

lemma writeEdit_rules:
  assumes "writeEdit now j claims edit s = (x, s')"
  obtains p f where "rules s' = updateMany p f (rules s)" "\<And>r. rul_id (f r) = rul_id r"
    "\<And>r. rul_version r < rul_version (f r)"
proof (cases "rules s' = rules s")
  case True
  show thesis
    by (rule that [where p = "\<lambda>_. False" and f = "\<lambda>r. r\<lparr>rul_version := rul_version r + 1\<rparr>"])
      (simp_all add: True updateMany_none)
next
  case False
  then obtain v q where "rules s' = updateMany (ruleAt j (jwt_workspaceId claims) v) (writeRule now (snd edit) q) (rules s)"
    using assms by (auto simp: writeEdit_def Let_def split: option.splits prod.splits if_splits)
  then show thesis by (rule that) (simp_all add: writeRule_row)
qed

text \<open>A conditional write is a step of the rules: it raises the version of what it writes.\<close>

lemma ruleStep_rules:
  assumes "ruleStep i s s'"
  shows "(\<exists>r. rules s' = rules s @ [r] \<and> rul_id r \<notin> insert i (rul_id ` set (rules s))) \<or> (\<exists>p. rules s' = filter p (rules s)) \<or>
    (\<exists>p f. rules s' = updateMany p f (rules s) \<and> (\<forall>r. rul_id (f r) = rul_id r) \<and>
      (\<forall>r. rul_version r < rul_version (f r) \<or> rul_version (f r) = rul_version r \<and> ruleContent (f r) = ruleContent r))"
  using assms
proof (induction rule: ruleStep.induct)
  case (created E s now body claims x s')
  then have "rules s' = filter (\<lambda>_. True) (rules s) \<or> (\<exists>r. rules s' = rules s @ [r] \<and> rul_id r = draw E s)"
    by (auto simp: createRule_def newRule_def Let_def drawn_frame split: sum.splits option.splits if_splits)
  then show ?case using created(1) by metis
next
  case (edited now j claims edit s x s')
  obtain p f where "rules s' = updateMany p f (rules s)" "\<And>r. rul_id (f r) = rul_id r" "\<And>r. rul_version r < rul_version (f r)"
    by (rule writeEdit_rules [OF edited]) (rule that; assumption)
  then show ?case by blast
next
  case (removed now j claims s x s')
  let ?f = "\<lambda>r. r\<lparr>rul_updatedAt := now, rul_deletedAt := Some now\<rparr>"
  have "rules s' = filter (\<lambda>_. True) (rules s) \<or> rules s' = updateMany (\<lambda>r. rul_id r = j) ?f (rules s)"
    using removed by (auto simp: removeRule_def split: option.splits)
  moreover have "\<forall>r. rul_id (?f r) = rul_id r" "\<forall>r. rul_version (?f r) = rul_version r \<and> ruleContent (?f r) = ruleContent r"
    by (simp_all add: ruleContent_def)
  ultimately show ?case by blast
next
  case (erased s w accounts)
  then show ?case by (auto simp: eraseWorkspace_def deleteMany_def)
next
  case (elsewhere s' s)
  then have "rules s' = filter (\<lambda>_. True) (rules s)" by simp
  then show ?case by blast
qed

interpretation ruleRows: versioned_rows rules rul_id rul_version ruleContent ruleStep
proof
  fix k s s' r'
  assume st: "ruleStep k s s'" and d: "distinct (map rul_id (rules s))"
  show "distinct (map rul_id (rules s'))"
    using ruleStep_rules [OF st] d by (auto simp: distinct_map_filter map_updateMany)
  assume r': "r' \<in> set (rules s')" "rul_id r' = k"
  from ruleStep_rules [OF st] consider r where "rules s' = rules s @ [r]" "rul_id r \<noteq> k"
    | p where "rules s' = filter p (rules s)"
    | p f where "rules s' = updateMany p f (rules s)" "\<forall>r. rul_id (f r) = rul_id r"
      "\<forall>r. rul_version r < rul_version (f r) \<or> rul_version (f r) = rul_version r \<and> ruleContent (f r) = ruleContent r"
    by auto
  then show "\<exists>r\<in>set (rules s). rul_id r = k \<and>
      (rul_version r < rul_version r' \<or> rul_version r' = rul_version r \<and> ruleContent r' = ruleContent r)"
  proof cases
    case 3
    obtain r where "r \<in> set (rules s)" "r' = (if p r then f r else r)"
      by (rule updateMany_row [OF r'(1) [unfolded 3(1)]])
    then show ?thesis using 3(2,3) r'(2) by (intro bexI [of _ r]) (auto split: if_splits)
  qed (use r' in auto)
qed

text \<open>A successful write found the row at the expected version.\<close>

lemma writeEdit_Inr:
  assumes "writeEdit now i claims edit s = ((h, Inr r), s')" "distinct (map rul_id (rules s))"
  obtains row v p where "row \<in> set (rules s)" "rul_id row = i" "intColumn (expectedVersion (fst edit)) = Some v"
    "int (rul_version row) = v" "rul_workspaceId row = jwt_workspaceId claims" "r = writeRule now (snd edit) p row"
    "h = Some (etagFor (rul_version r))" "r \<in> set (rules s')"
proof -
  obtain v p where v: "intColumn (expectedVersion (fst edit)) = Some v" "intColumn (rin_priority (snd edit)) = Some p"
    "countWhere (ruleAt i (jwt_workspaceId claims) v) (rules s) \<noteq> 0" "h = Some (etagFor (rul_version r))"
    "rules s' = updateMany (ruleAt i (jwt_workspaceId claims) v) (writeRule now (snd edit) p) (rules s)"
    "findFirst (\<lambda>r. rul_id r = i) (rules s') = Some r"
    using assms(1) by (auto simp: writeEdit_def Let_def split: option.splits if_splits)
  obtain row where row: "row \<in> set (rules s)" "ruleAt i (jwt_workspaceId claims) v row"
    using v(3) by (auto simp: countWhere_0_iff)
  have "writeRule now (snd edit) p row \<in> set (rules s')" using row by (auto simp: v(5) updateMany_def image_iff)
  moreover have "distinct (map rul_id (rules s'))"
    using assms(2) by (simp add: v(5) map_updateMany writeRule_row)
  moreover have "r \<in> set (rules s')" "rul_id r = i" using findFirst_SomeD [OF v(6)] by auto
  ultimately have "r = writeRule now (snd edit) p row"
    using row(2) by (auto simp: ruleAt_def writeRule_row distinct_map inj_on_def)
  with v row \<open>r \<in> set (rules s')\<close> that show thesis by (auto simp: ruleAt_def)
qed

text \<open>C18: no edit is lost. Whatever requests come between, an edit conditional on the version
  at which its client read the rule succeeds only if the rule still has the content the
  client read; it answers with the next version and its entity tag, and from then on, after
  any further requests, no edit conditional on the old version succeeds.\<close>

theorem edit_keeps_other_edits:
  assumes "distinct (map rul_id (rules s))" "seen \<in> set (rules s)" "rul_id seen = i"
    and "(ruleStep i)\<^sup>*\<^sup>* s s1"
    and "intColumn (expectedVersion (fst edit)) = Some (int (rul_version seen))"
    and "writeEdit now i claims edit s1 = ((h, Inr r), s2)"
  shows "(\<exists>row\<in>set (rules s1). rul_id row = i \<and> ruleContent row = ruleContent seen) \<and>
    rul_version r = rul_version seen + 1 \<and> h = Some (etagFor (rul_version seen + 1)) \<and>
    (\<forall>s3 now' claims' edit' h' r' s4. (ruleStep i)\<^sup>*\<^sup>* s2 s3 \<and>
       intColumn (expectedVersion (fst edit')) = Some (int (rul_version seen)) \<longrightarrow>
       writeEdit now' i claims' edit' s3 \<noteq> ((h', Inr r'), s4))"
proof -
  have d1: "distinct (map rul_id (rules s1))" by (rule ruleRows.steps_distinct [OF assms(4,1)])
  obtain row p where row: "row \<in> set (rules s1)" "rul_id row = i" "rul_version row = rul_version seen"
    "r = writeRule now (snd edit) p row" "h = Some (etagFor (rul_version r))" "r \<in> set (rules s2)"
    by (rule writeEdit_Inr [OF assms(6) d1]) (use assms(5) in simp)
  have v: "rul_id r = i" "rul_version r = rul_version seen + 1" using row by (simp_all add: writeRule_row)
  have c: "ruleContent row = ruleContent seen"
    by (rule ruleRows.same_version [OF assms(4,1-3) row(1-3)])
  have d2: "distinct (map rul_id (rules s2))" by (rule ruleRows.step_distinct [OF ruleStep.edited [OF assms(6)] d1])
  have "writeEdit now' i claims' edit' s3 \<noteq> ((h', Inr r'), s4)"
    if steps: "(ruleStep i)\<^sup>*\<^sup>* s2 s3" and e: "intColumn (expectedVersion (fst edit')) = Some (int (rul_version seen))"
    for s3 now' claims' edit' h' r' s4
  proof
    assume w: "writeEdit now' i claims' edit' s3 = ((h', Inr r'), s4)"
    obtain old where old: "old \<in> set (rules s3)" "rul_id old = i" "rul_version old = rul_version seen"
      by (rule writeEdit_Inr [OF w ruleRows.steps_distinct [OF steps d2]]) (use e in simp)
    show False using ruleRows.version_grows [OF steps d2 row(6) v(1) old(1,2)] v(2) old(3) by simp
  qed
  then show ?thesis using row c v by auto
qed

text \<open>A tag the server sent names its version again when it comes back.\<close>

lemma endsWith_append: "endsWith (a @ b) b"
  by (simp add: endsWith_def startsWith_iff)

lemma etag_version: "parseETagHeader (Some (etagFor v)) = Some (natDigits v)"
proof -
  have d: "list_all isDigit (natDigits v)" "natDigits v \<noteq> []" using natDigits_digits by auto
  have q: "\<not> isSpace (CHR 0x22)" by code_simp
  have sp: "\<forall>c\<in>set (etagFor v). \<not> isSpace c"
    using d(1) q by (auto simp: etagFor_def quote_def list_all_iff isDigit_not_space)
  have w: "dropPrefix ''W/'' (etagFor v) = etagFor v" by (simp add: dropPrefix_def etagFor_def quote_def)
  have "dropPrefix quote (etagFor v) = natDigits v @ quote" by (simp add: dropPrefix_def etagFor_def quote_def)
  moreover have "dropSuffix quote (natDigits v @ quote) = natDigits v"
    by (simp add: dropSuffix_def endsWith_append)
  ultimately show ?thesis
    using trim_none [OF sp] w by (simp add: parseETagHeader_def nonEmpty_def) (simp add: etagFor_def quote_def)
qed

lemma expectedVersion_tag: "expectedVersion (natDigits v) = Fin (of_nat v)"
  by (simp add: expectedVersion_def toNumber_natDigits isWhole_def Let_def)

definition sampleEdit :: "string \<Rightarrow> string \<times> RuleInput" where
  "sampleEdit name = (natDigits 1, \<lparr>rin_name = name, rin_isEnabled = True, rin_priority = Fin 5,
     rin_trigger = \<lparr>trigType = ''message.received'', scopeProviderKey = JUndef, paramHours = None\<rparr>,
     rin_conditions = ConditionGroup AND [], rin_actions = []\<rparr>)"

lemma sampleEdit_columns:
  "intColumn (expectedVersion (fst (sampleEdit n))) = Some 1" "intColumn (rin_priority (snd (sampleEdit n))) = Some 5"
  by (simp_all add: sampleEdit_def expectedVersion_tag intColumn_def del: One_nat_def)

definition rulesClaims :: jwt_claims where
  "rulesClaims = \<lparr>jwt_sub = 21, jwt_workspaceId = 11, jwt_orgId = 1, jwt_role = Owner\<rparr>"

text \<open>Between the read and the write of rule 1, rule 2 is removed.\<close>

definition twoRules :: world where
  "twoRules = rulesWorld [sampleRule 1 0 (ConditionGroup AND []), sampleRule 2 9 (ConditionGroup AND [])]"

theorem edit_keeps_other_edits_witness:
  "\<exists>s1 r s2. (ruleStep 1)\<^sup>*\<^sup>* twoRules s1 \<and> writeEdit 7 1 rulesClaims (sampleEdit ''New'') s1 = ((Some (etagFor 2), Inr r), s2) \<and>
     rul_version r = 2 \<and> rul_name r = ''New'' \<and>
     (\<forall>h r' s4. writeEdit 8 1 rulesClaims (sampleEdit ''Late'') s2 \<noteq> ((h, Inr r'), s4))"
proof -
  let ?r = "sampleRule 1 0 (ConditionGroup AND [])"
  obtain x s1 where rm: "removeRule 3 2 rulesClaims twoRules = (x, s1)" by (meson surj_pair)
  then have steps: "(ruleStep 1)\<^sup>*\<^sup>* twoRules s1" by (blast intro: ruleStep.removed)
  obtain gone where "rules s1 = [?r, gone]" "rul_id gone = 2"
    using rm by (auto simp: removeRule_def liveRule_def twoRules_def rulesClaims_def sampleRule_def updateMany_def)
  then obtain r s2 where w: "writeEdit 7 1 rulesClaims (sampleEdit ''New'') s1 = ((Some (etagFor (rul_version r)), Inr r), s2)"
    "r = writeRule 7 (snd (sampleEdit ''New'')) 5 ?r"
    using sampleEdit_columns [of "''New''"]
    by (simp add: writeEdit_def Let_def rulesClaims_def ruleAt_def updateMany_def countWhere_def sampleRule_def writeRule_def)
  have "distinct (map rul_id (rules twoRules))" "?r \<in> set (rules twoRules)" "rul_id ?r = 1"
    "intColumn (expectedVersion (fst (sampleEdit n))) = Some (int (rul_version ?r))" for n
    using sampleEdit_columns by (simp_all add: twoRules_def sampleRule_def)
  note keeps = edit_keeps_other_edits [OF this(1-3) steps this(4) w(1)] and late = this(4) [of "''Late''"]
  have "rul_version r = 2" "rul_name r = ''New''" by (simp_all add: w(2) writeRule_def sampleRule_def sampleEdit_def)
  moreover from this w(1) have "writeEdit 7 1 rulesClaims (sampleEdit ''New'') s1 = ((Some (etagFor 2), Inr r), s2)" by simp
  moreover have "\<forall>h r' s4. writeEdit 8 1 rulesClaims (sampleEdit ''Late'') s2 \<noteq> ((h, Inr r'), s4)"
    using keeps late by blast
  ultimately show ?thesis using steps by blast
qed

end
