(* ===== verification/Web_Inbox.thy ===== *)
theory Web_Inbox
  imports Pagination
begin

text \<open>
  The inbox of the web client: the page merges of \<open>apps/web/lib/inbox-pagination.ts\<close>
  and the state of \<open>apps/web/components/Inbox.tsx\<close>. A handler that awaits a response is
  its start, which changes the state and leaves a request pending, and its continuation
  on the answer, so that the answers may arrive in any order and between any other
  actions, as they do in the browser. React's batching makes each handler's updates one
  step. What is only rendered or shown once (sounds, toasts, notifications, credit
  balances, merge suggestions and the scheduler form) is left out.
\<close>

section \<open>Merging pages\<close>

record message_sender =
  mse_id :: string
  mse_displayName :: "string option"
  mse_isVip :: bool

record last_message =
  lsm_id :: string
  lsm_bodyText :: string
  lsm_direction :: string
  lsm_receivedAt :: string
  lsm_sender :: "message_sender option"

record ConversationSummary =
  cvs_id :: string
  cvs_title :: "string option"
  cvs_providerKey :: string
  cvs_lastMessageAt :: "string option"
  cvs_priorityScore :: int
  cvs_isArchived :: bool
  cvs_category :: "string option"
  cvs_unread :: bool
  cvs_lastMessage :: "last_message option"

record ConversationMessage =
  cvm_id :: string
  cvm_direction :: string
  cvm_bodyText :: string
  cvm_receivedAt :: string
  cvm_sender :: "message_sender option"

text \<open>Rows of the second list whose id is not in the first.\<close>

definition newTo :: "('r \<Rightarrow> string) \<Rightarrow> 'r list \<Rightarrow> 'r list \<Rightarrow> 'r list" where
  "newTo key shown rows = filter (\<lambda>r. key r \<notin> key ` set shown) rows"

definition mergeFreshConversationsPage :: "ConversationSummary list \<Rightarrow> ConversationSummary list \<Rightarrow> ConversationSummary list" where
  "mergeFreshConversationsPage prev freshPage = freshPage @ newTo cvs_id freshPage prev"

definition appendConversationsPage :: "ConversationSummary list \<Rightarrow> ConversationSummary list \<Rightarrow> ConversationSummary list" where
  "appendConversationsPage prev nextPage = prev @ newTo cvs_id prev nextPage"

definition mergeNewestMessagesPage :: "ConversationMessage list \<Rightarrow> ConversationMessage list \<Rightarrow> ConversationMessage list" where
  "mergeNewestMessagesPage prev freshPage = prev @ newTo cvm_id prev freshPage"

definition mergeOlderMessagesPage :: "ConversationMessage list \<Rightarrow> ConversationMessage list \<Rightarrow> ConversationMessage list" where
  "mergeOlderMessagesPage olderPage prev = newTo cvm_id prev olderPage @ prev"

lemma set_newTo: "set (newTo key shown rows) \<subseteq> set rows"
  by (auto simp: newTo_def)

lemma newTo_disjoint: "key ` set (newTo key shown rows) \<inter> key ` set shown = {}"
  by (auto simp: newTo_def)

lemma distinct_newTo:
  assumes "distinct (map key rows)" "distinct (map key shown)"
  shows "distinct (map key (shown @ newTo key shown rows))" "distinct (map key (newTo key shown rows @ shown))"
proof -
  have "distinct (map key (newTo key shown rows))" using assms(1) by (simp add: newTo_def distinct_map_filter)
  then show "distinct (map key (shown @ newTo key shown rows))" "distinct (map key (newTo key shown rows @ shown))"
    using assms(2) newTo_disjoint [of key shown rows] by auto
qed

lemmas merge_defs = mergeFreshConversationsPage_def appendConversationsPage_def mergeNewestMessagesPage_def
  mergeOlderMessagesPage_def

section \<open>The state and the requests\<close>

record filters =
  flt_archived :: bool
  flt_vip :: bool
  flt_unread :: bool
  flt_category :: string

text \<open>The query of a conversation page: \<open>archived\<close> is always sent, the others when they
  are set.\<close>

record conversation_query =
  cvq_archived :: bool
  cvq_category :: "string option"
  cvq_vip :: bool
  cvq_unread :: bool
  cvq_cursor :: "string option"

definition conversationQuery :: "filters \<Rightarrow> string option \<Rightarrow> conversation_query" where
  "conversationQuery f cursor = \<lparr>cvq_archived = flt_archived f,
     cvq_category = (if trim (flt_category f) = [] then None else Some (trim (flt_category f))),
     cvq_vip = flt_vip f, cvq_unread = flt_unread f, cvq_cursor = cursor\<rparr>"

record inbox =
  ib_filters :: filters
  ib_socketFilters :: filters
  ib_conversations :: "ConversationSummary list"
  ib_conversationsError :: "string option"
  ib_conversationsLoading :: bool
  ib_conversationsCursor :: "string option"
  ib_conversationsHasMore :: bool
  ib_loadingMore :: bool
  ib_loadMoreError :: "string option"
  ib_conversationsRequestId :: nat
  ib_selectedId :: "string option"
  ib_messages :: "ConversationMessage list"
  ib_messagesLoading :: bool
  ib_messagesCursor :: "string option"
  ib_messagesHasMore :: bool
  ib_loadingOlder :: bool
  ib_loadOlderError :: "string option"
  ib_messagesRequestId :: nat
  ib_summary :: "string option"
  ib_summarizing :: bool
  ib_replyText :: string
  ib_replying :: bool

type_synonym conversation_page = "(ConversationSummary, string) page"
type_synonym message_page = "(ConversationMessage, string) page"

text \<open>The requests under way, each with what its continuation has captured, and the
  answers; an answer on the left is an error with its message.\<close>

datatype pending =
    PRefresh nat conversation_query
  | PMerge nat conversation_query
  | PMore nat conversation_query
  | PSelect nat string
  | POlder nat string string
  | PNudge string
  | PChange
  | PReply string string
  | PReplyPage string
  | PSummary string

datatype reply_outcome = Delivered | QueuedOffline | NotSent

datatype answer = Conversations "string + conversation_page" | Messages "string + message_page"
  | Finished | Replied reply_outcome | Summary "string + string"

section \<open>Starting a handler\<close>

definition refreshConversations :: "inbox \<Rightarrow> inbox \<times> pending list" where
  "refreshConversations s =
     (let gen = ib_conversationsRequestId s + 1 in
      (s\<lparr>ib_conversationsRequestId := gen, ib_conversationsCursor := None, ib_conversationsHasMore := False\<rparr>,
       [PRefresh gen (conversationQuery (ib_filters s) None)]))"

text \<open>A realtime event's merge asks with the filters its effect closed over.\<close>

definition mergeConversationsRealtime :: "inbox \<Rightarrow> pending" where
  "mergeConversationsRealtime s = PMerge (ib_conversationsRequestId s) (conversationQuery (ib_socketFilters s) None)"

definition loadMoreConversations :: "inbox \<Rightarrow> inbox \<times> pending list" where
  "loadMoreConversations s =
     (if \<not> ib_conversationsHasMore s \<or> ib_loadingMore s \<or> \<not> nonEmpty (ib_conversationsCursor s) then (s, [])
      else (s\<lparr>ib_loadingMore := True, ib_loadMoreError := None\<rparr>,
        [PMore (ib_conversationsRequestId s) (conversationQuery (ib_filters s) (ib_conversationsCursor s))]))"

definition selectConversation :: "string \<Rightarrow> inbox \<Rightarrow> inbox \<times> pending list" where
  "selectConversation i s =
     (let gen = ib_messagesRequestId s + 1 in
      (s\<lparr>ib_selectedId := Some i, ib_summary := None, ib_messagesLoading := True, ib_messages := [],
         ib_messagesCursor := None, ib_messagesHasMore := False, ib_loadOlderError := None, ib_messagesRequestId := gen\<rparr>,
       [PSelect gen i]))"

definition loadOlderMessages :: "inbox \<Rightarrow> inbox \<times> pending list" where
  "loadOlderMessages s = (case (ib_selectedId s, ib_messagesCursor s) of
      (Some i, Some c) \<Rightarrow>
        if \<not> ib_messagesHasMore s \<or> ib_loadingOlder s \<or> c = [] \<or> i = [] then (s, [])
        else (s\<lparr>ib_loadingOlder := True, ib_loadOlderError := None\<rparr>, [POlder (ib_messagesRequestId s) i c])
    | _ \<Rightarrow> (s, []))"

definition onMessage :: "inbox \<Rightarrow> inbox \<times> pending list" where
  "onMessage s = (s, mergeConversationsRealtime s #
     (case ib_selectedId s of None \<Rightarrow> [] | Some i \<Rightarrow> if i = [] then [] else [PNudge i]))"

definition handleReply :: "inbox \<Rightarrow> inbox \<times> pending list" where
  "handleReply s = (case ib_selectedId s of
      None \<Rightarrow> (s, [])
    | Some i \<Rightarrow> if i = [] \<or> trim (ib_replyText s) = [] then (s, [])
        else (s\<lparr>ib_replying := True\<rparr>, [PReply i (ib_replyText s)]))"

definition handleSummarize :: "inbox \<Rightarrow> inbox \<times> pending list" where
  "handleSummarize s = (case ib_selectedId s of
      None \<Rightarrow> (s, [])
    | Some i \<Rightarrow> if i = [] then (s, []) else (s\<lparr>ib_summarizing := True\<rparr>, [PSummary i]))"

section \<open>Actions\<close>

text \<open>What the user and the page do. A mount runs both effects; a new access token runs the
  socket's effect again, with the filters of that moment. Marking, archiving, filing or
  merging awaits its request and then refreshes whatever the outcome.\<close>

datatype user_action = Select string | LoadMore | LoadOlder | SetFilters filters | SocketMessage
  | ChangeConversation | Typed string | Reply | Summarize | TokenRefreshed

definition applyFilters :: "filters \<Rightarrow> inbox \<Rightarrow> inbox \<times> pending list" where
  "applyFilters f s = refreshConversations (s\<lparr>ib_filters := f\<rparr>)"

definition socketEffect :: "inbox \<Rightarrow> inbox \<times> pending list" where
  "socketEffect s = refreshConversations (s\<lparr>ib_socketFilters := ib_filters s\<rparr>)"

fun act :: "user_action \<Rightarrow> inbox \<Rightarrow> inbox \<times> pending list" where
  "act (Select i) s = selectConversation i s"
| "act LoadMore s = loadMoreConversations s"
| "act LoadOlder s = loadOlderMessages s"
| "act (SetFilters f) s = applyFilters f s"
| "act SocketMessage s = onMessage s"
| "act ChangeConversation s = (s, [PChange])"
| "act (Typed t) s = (s\<lparr>ib_replyText := t\<rparr>, [])"
| "act Reply s = handleReply s"
| "act Summarize s = handleSummarize s"
| "act TokenRefreshed s = socketEffect s"

definition noFilters :: filters where
  "noFilters = \<lparr>flt_archived = False, flt_vip = False, flt_unread = False, flt_category = []\<rparr>"

definition initialInbox :: inbox where
  "initialInbox = \<lparr>ib_filters = noFilters, ib_socketFilters = noFilters, ib_conversations = [], ib_conversationsError = None,
     ib_conversationsLoading = True, ib_conversationsCursor = None, ib_conversationsHasMore = False,
     ib_loadingMore = False, ib_loadMoreError = None, ib_conversationsRequestId = 0, ib_selectedId = None,
     ib_messages = [], ib_messagesLoading = False, ib_messagesCursor = None, ib_messagesHasMore = False,
     ib_loadingOlder = False, ib_loadOlderError = None, ib_messagesRequestId = 0, ib_summary = None,
     ib_summarizing = False, ib_replyText = [], ib_replying = False\<rparr>"

section \<open>Continuations\<close>

text \<open>An answer to a superseded request is dropped, its \<open>finally\<close> included.\<close>

definition listRefreshed :: "nat \<Rightarrow> string + conversation_page \<Rightarrow> inbox \<Rightarrow> inbox" where
  "listRefreshed gen r s =
     (if gen \<noteq> ib_conversationsRequestId s then s
      else case r of
        Inl e \<Rightarrow> s\<lparr>ib_conversationsError := Some e, ib_conversationsLoading := False\<rparr>
      | Inr p \<Rightarrow> s\<lparr>ib_conversations := pg_data p, ib_conversationsCursor := pg_nextCursor p,
          ib_conversationsHasMore := pg_hasMore p, ib_conversationsError := None, ib_conversationsLoading := False\<rparr>)"

definition mergedRealtime :: "nat \<Rightarrow> string + conversation_page \<Rightarrow> inbox \<Rightarrow> inbox" where
  "mergedRealtime gen r s = (case r of
      Inl _ \<Rightarrow> s
    | Inr p \<Rightarrow> if gen \<noteq> ib_conversationsRequestId s then s
        else s\<lparr>ib_conversations := mergeFreshConversationsPage (ib_conversations s) (pg_data p)\<rparr>)"

definition loadedMore :: "nat \<Rightarrow> string + conversation_page \<Rightarrow> inbox \<Rightarrow> inbox" where
  "loadedMore gen r s =
     (if gen \<noteq> ib_conversationsRequestId s then s
      else case r of
        Inl e \<Rightarrow> s\<lparr>ib_loadMoreError := Some e, ib_loadingMore := False\<rparr>
      | Inr p \<Rightarrow> s\<lparr>ib_conversations := appendConversationsPage (ib_conversations s) (pg_data p),
          ib_conversationsCursor := pg_nextCursor p, ib_conversationsHasMore := pg_hasMore p, ib_loadingMore := False\<rparr>)"

text \<open>Opening a conversation goes on to mark it read and then refreshes the list.\<close>

definition selected :: "nat \<Rightarrow> string + message_page \<Rightarrow> inbox \<Rightarrow> inbox \<times> pending list" where
  "selected gen r s =
     (if gen \<noteq> ib_messagesRequestId s then (s, [])
      else ((case r of
          Inl _ \<Rightarrow> s\<lparr>ib_messages := [], ib_messagesCursor := None, ib_messagesHasMore := False, ib_messagesLoading := False\<rparr>
        | Inr p \<Rightarrow> s\<lparr>ib_messages := pg_data p, ib_messagesCursor := pg_nextCursor p,
            ib_messagesHasMore := pg_hasMore p, ib_messagesLoading := False\<rparr>), [PChange]))"

definition loadedOlder :: "nat \<Rightarrow> string + message_page \<Rightarrow> inbox \<Rightarrow> inbox" where
  "loadedOlder gen r s =
     (if gen \<noteq> ib_messagesRequestId s then s
      else case r of
        Inl e \<Rightarrow> s\<lparr>ib_loadOlderError := Some e, ib_loadingOlder := False\<rparr>
      | Inr p \<Rightarrow> s\<lparr>ib_messages := mergeOlderMessagesPage (pg_data p) (ib_messages s),
          ib_messagesCursor := pg_nextCursor p, ib_messagesHasMore := pg_hasMore p, ib_loadingOlder := False\<rparr>)"

definition nudged :: "string \<Rightarrow> string + message_page \<Rightarrow> inbox \<Rightarrow> inbox" where
  "nudged i r s = (case r of
      Inl _ \<Rightarrow> s
    | Inr p \<Rightarrow> if ib_selectedId s \<noteq> Some i then s
        else s\<lparr>ib_messages := mergeNewestMessagesPage (ib_messages s) (pg_data p)\<rparr>)"

text \<open>A sent reply clears the field and fetches the newest page of its conversation; a
  network failure puts it in the outbox and clears the field; any other is reported.
  Either way the button is freed, after the page when there is one.\<close>

definition replySent :: "string \<Rightarrow> reply_outcome \<Rightarrow> inbox \<Rightarrow> inbox \<times> pending list" where
  "replySent i outcome s = (case outcome of
      Delivered \<Rightarrow> (s\<lparr>ib_replyText := []\<rparr>, [PReplyPage i])
    | QueuedOffline \<Rightarrow> (s\<lparr>ib_replyText := [], ib_replying := False\<rparr>, [])
    | NotSent \<Rightarrow> (s\<lparr>ib_replying := False\<rparr>, []))"

definition replyPaged :: "string + message_page \<Rightarrow> inbox \<Rightarrow> inbox" where
  "replyPaged r s = (case r of
      Inl _ \<Rightarrow> s\<lparr>ib_replying := False\<rparr>
    | Inr p \<Rightarrow> s\<lparr>ib_messages := mergeNewestMessagesPage (ib_messages s) (pg_data p), ib_replying := False\<rparr>)"

definition summarized :: "string + string \<Rightarrow> inbox \<Rightarrow> inbox" where
  "summarized r s = s\<lparr>ib_summary := Some (case r of Inl e \<Rightarrow> ''Could not summarize: '' @ e | Inr t \<Rightarrow> t), ib_summarizing := False\<rparr>"

text \<open>The continuation of a request on an answer of its kind.\<close>

fun continue :: "pending \<Rightarrow> answer \<Rightarrow> inbox \<Rightarrow> inbox \<times> pending list" where
  "continue (PRefresh gen q) (Conversations r) s = (listRefreshed gen r s, [])"
| "continue (PMerge gen q) (Conversations r) s = (mergedRealtime gen r s, [])"
| "continue (PMore gen q) (Conversations r) s = (loadedMore gen r s, [])"
| "continue (PSelect gen i) (Messages r) s = selected gen r s"
| "continue (POlder gen i c) (Messages r) s = (loadedOlder gen r s, [])"
| "continue (PNudge i) (Messages r) s = (nudged i r s, [])"
| "continue PChange Finished s = refreshConversations s"
| "continue (PReply i t) (Replied e) s = replySent i e s"
| "continue (PReplyPage i) (Messages r) s = (replyPaged r s, [])"
| "continue (PSummary i) (Summary r) s = (summarized r s, [])"
| "continue p a s = (s, [p])"

section \<open>Runs\<close>

type_synonym client = "inbox \<times> pending list"

definition mount :: client where
  "mount = (case socketEffect initialInbox of (s, ps) \<Rightarrow> case refreshConversations s of (s', ps') \<Rightarrow> (s', ps @ ps'))"

text \<open>The conversation a request for messages is about.\<close>

fun requestedConversation :: "pending \<Rightarrow> string option" where
  "requestedConversation (PSelect gen i) = Some i"
| "requestedConversation (POlder gen i c) = Some i"
| "requestedConversation (PNudge i) = Some i"
| "requestedConversation (PReplyPage i) = Some i"
| "requestedConversation p = None"

text \<open>The server answers a request with a page without repeated ids, of messages of the
  conversation it was asked about; \<open>owner\<close> is the conversation of a message id.\<close>

fun honest :: "(string \<Rightarrow> string) \<Rightarrow> pending \<Rightarrow> answer \<Rightarrow> bool" where
  "honest owner p (Conversations (Inr g)) \<longleftrightarrow> distinct (map cvs_id (pg_data g))"
| "honest owner p (Messages (Inr g)) \<longleftrightarrow> distinct (map cvm_id (pg_data g)) \<and>
     (\<forall>m\<in>set (pg_data g). Some (owner (cvm_id m)) = requestedConversation p)"
| "honest owner p a \<longleftrightarrow> True"

text \<open>A step is an action, or the answer to any pending request. The flag admits the
  answers that bring the page after a reply into another conversation than the reply's.\<close>

inductive inboxStep :: "bool \<Rightarrow> (string \<Rightarrow> string) \<Rightarrow> client \<Rightarrow> client \<Rightarrow> bool" for stray owner where
  acted: "act a s = (s', new) \<Longrightarrow> inboxStep stray owner (s, ps) (s', ps @ new)"
| answered: "p \<in> set ps \<Longrightarrow> honest owner p r \<Longrightarrow> continue p r s = (s', new) \<Longrightarrow>
    (\<forall>i. p = PReplyPage i \<longrightarrow> stray \<or> ib_selectedId s = Some i) \<Longrightarrow>
    inboxStep stray owner (s, ps) (s', remove1 p ps @ new)"

end
