(* ===== verification/Web_Api.thy ===== *)
theory Web_Api
  imports Js_Value
begin

text \<open>
  The request layer of the web client (\<open>apps/web/lib/api.ts\<close>): the shared token refresh
  of \<open>apiFetch\<close> as a state machine over the answers of the network, the reading of an
  error body, and the outbox of replies written offline (\<open>apps/web/lib/offline-queue.ts\<close>
  and the flush of \<open>apps/web/public/sw.js\<close>). A request is a number; its token is the one
  in its headers.
\<close>

section \<open>Requests and the shared refresh\<close>

datatype fetch_outcome = Responded nat | Rejected

text \<open>\<open>api_refresh\<close> is the promise of the refresh under way, with the requests awaiting it;
  \<open>api_flying\<close> the fetches without an answer, marked when they are retries; the page's
  token is set by the listener.\<close>

record api_client =
  api_token :: "string option"
  api_refresh :: "nat list option"
  api_refreshCalls :: nat
  api_flying :: "(nat \<times> bool) list"
  api_fetches :: "(nat \<times> string) list"
  api_settled :: "(nat \<times> fetch_outcome) list"

definition startApi :: api_client where
  "startApi = \<lparr>api_token = None, api_refresh = None, api_refreshCalls = 0, api_flying = [], api_fetches = [], api_settled = []\<rparr>"

definition issueFetch :: "bool \<Rightarrow> string \<Rightarrow> nat \<Rightarrow> api_client \<Rightarrow> api_client" where
  "issueFetch retry token r s = s\<lparr>api_flying := api_flying s @ [(r, retry)], api_fetches := api_fetches s @ [(r, token)]\<rparr>"

definition settleRequest :: "fetch_outcome \<Rightarrow> nat \<Rightarrow> api_client \<Rightarrow> api_client" where
  "settleRequest out r s = s\<lparr>api_settled := api_settled s @ [(r, out)]\<rparr>"

definition getOrStartRefresh :: "nat \<Rightarrow> api_client \<Rightarrow> api_client" where
  "getOrStartRefresh r s = (case api_refresh s of
      None \<Rightarrow> s\<lparr>api_refresh := Some [r], api_refreshCalls := api_refreshCalls s + 1\<rparr>
    | Some waiting \<Rightarrow> s\<lparr>api_refresh := Some (waiting @ [r])\<rparr>)"

text \<open>The first answer of a request, and the answer of its retry, which is returned as it is.\<close>

definition apiFetch :: "string \<Rightarrow> nat \<Rightarrow> api_client \<Rightarrow> api_client" where
  "apiFetch token r s = issueFetch False token r s"

definition answered :: "bool \<Rightarrow> fetch_outcome \<Rightarrow> nat \<Rightarrow> api_client \<Rightarrow> api_client" where
  "answered retry out r s =
     (let s1 = s\<lparr>api_flying := remove1 (r, retry) (api_flying s)\<rparr> in
      if \<not> retry \<and> out = Responded 401 then getOrStartRefresh r s1 else settleRequest out r s1)"

text \<open>What \<open>tryRefresh\<close> makes of its answer: \<open>None\<close> is a refusal, a network failure or a
  body that does not read.\<close>

definition tryRefresh :: "(nat \<times> string option) option \<Rightarrow> string option" where
  "tryRefresh res = (case res of
      None \<Rightarrow> None
    | Some (status, token) \<Rightarrow> if 200 \<le> status \<and> status \<le> 299 then token else None)"

text \<open>The refresh settles: the listener hears of it, the promise is cleared, and the waiting
  requests are retried with the new token or returned as they were refused.\<close>

definition refreshSettled :: "(nat \<times> string option) option \<Rightarrow> api_client \<Rightarrow> api_client" where
  "refreshSettled res s = (case api_refresh s of
      None \<Rightarrow> s
    | Some waiting \<Rightarrow> let s1 = s\<lparr>api_refresh := None\<rparr> in
        (case tryRefresh res of
           None \<Rightarrow> fold (settleRequest (Responded 401)) waiting (s1\<lparr>api_token := None\<rparr>)
         | Some t \<Rightarrow> if t = [] then fold (settleRequest (Responded 401)) waiting (s1\<lparr>api_token := None\<rparr>)
             else fold (issueFetch True t) waiting (s1\<lparr>api_token := Some t\<rparr>)))"

text \<open>A call, an answer to any fetch in flight, or the answer to the refresh.\<close>

inductive apiStep :: "api_client \<Rightarrow> api_client \<Rightarrow> bool" where
  called: "r \<notin> fst ` set (api_fetches s) \<Longrightarrow> apiStep s (apiFetch token r s)"
| answered: "(r, retry) \<in> set (api_flying s) \<Longrightarrow> apiStep s (answered retry out r s)"
| refreshed: "apiStep s (refreshSettled res s)"

section \<open>Reading an answer\<close>

text \<open>The message of a problem body: the field errors joined, else the detail, the title, or
  the status. \<open>None\<close> is the TypeError of an error list that is not one.\<close>

definition problemMessage :: "nat \<Rightarrow> jsval \<Rightarrow> string option" where
  "problemMessage status body =
     (let texts = (case getProp body ''errors'' of
            JArr es \<Rightarrow> Some (joinWith '' '' (map (\<lambda>e. case getProp e ''message'' of JStr m \<Rightarrow> m | _ \<Rightarrow> []) es))
          | v \<Rightarrow> if nullish v then Some [] else None) in
      map_option (\<lambda>validation.
        if validation \<noteq> [] then validation
        else case getProp body ''detail'' of JStr (c # cs) \<Rightarrow> c # cs
          | _ \<Rightarrow> (case getProp body ''title'' of JStr (c # cs) \<Rightarrow> c # cs
              | _ \<Rightarrow> ''Request failed ('' @ natDigits status @ '')'')) texts)"

definition parseOrThrow :: "nat \<Rightarrow> jsval \<Rightarrow> string option + jsval" where
  "parseOrThrow status body = (if 200 \<le> status \<and> status \<le> 299 then Inr body else Inl (problemMessage status body))"

section \<open>The outbox\<close>

record QueuedRequest =
  qrq_id :: string
  qrq_url :: string
  qrq_headers :: "(string \<times> string) list"
  qrq_body :: string

text \<open>An object store keyed by id: a put replaces the row with its key, and all rows are read
  in the order of their keys.\<close>

definition enqueueRequest :: "QueuedRequest \<Rightarrow> QueuedRequest list \<Rightarrow> QueuedRequest list" where
  "enqueueRequest item box = insort_key qrq_id item (filter (\<lambda>x. qrq_id x \<noteq> qrq_id item) box)"

definition queuedCount :: "QueuedRequest list \<Rightarrow> nat" where
  "queuedCount box = length box"

definition handleReplyOffline :: "string \<Rightarrow> string \<Rightarrow> string \<Rightarrow> string \<Rightarrow> instant \<Rightarrow> QueuedRequest" where
  "handleReplyOffline apiUrl accessToken conversationId body now = \<lparr>qrq_id = conversationId @ ''-'' @ intDigits now,
     qrq_url = apiUrl @ ''/v1/conversations/'' @ conversationId @ ''/messages'',
     qrq_headers = [(''Content-Type'', ''application/json''), (''Authorization'', ''Bearer '' @ accessToken)],
     qrq_body = body\<rparr>"

text \<open>A flush posts a snapshot of the rows one by one; an accepted row is deleted, a refused
  one stays, and a network failure ends the flush. The server is a parameter: its answer
  to a post, \<open>None\<close> a network failure, and its next state.\<close>

type_synonym 'w server = "QueuedRequest \<Rightarrow> 'w \<Rightarrow> nat option \<times> 'w"

fun flushItems :: "'w server \<Rightarrow> QueuedRequest list \<Rightarrow> QueuedRequest list \<Rightarrow> 'w \<Rightarrow> QueuedRequest list \<times> 'w" where
  "flushItems post [] box w = (box, w)"
| "flushItems post (item # items) box w = (case post item w of
      (None, w1) \<Rightarrow> (box, w1)
    | (Some status, w1) \<Rightarrow> flushItems post items
        (if 200 \<le> status \<and> status \<le> 299 then filter (\<lambda>x. qrq_id x \<noteq> qrq_id item) box else box) w1)"

definition flushOutbox :: "'w server \<Rightarrow> QueuedRequest list \<Rightarrow> 'w \<Rightarrow> QueuedRequest list \<times> 'w" where
  "flushOutbox post box w = flushItems post box box w"

text \<open>Replies queued and flushes, one after another; the server's state may change in between.\<close>

inductive outboxStep :: "'w server \<Rightarrow> QueuedRequest list \<times> 'w \<Rightarrow> QueuedRequest list \<times> 'w \<Rightarrow> bool" for post where
  queued: "qrq_id item \<notin> qrq_id ` set box \<Longrightarrow> outboxStep post (box, w) (enqueueRequest item box, w)"
| flushed: "outboxStep post (box, w) (flushOutbox post box w)"
| elsewhere: "outboxStep post (box, w) (box, w')"

end
