(* ===== verification/Web_Properties.thy ===== *)
theory Web_Properties
  imports Web_Inbox Web_Api
begin

text \<open>
  What the web client promises whatever order its requests are answered in: the lists it
  shows have no repeated rows and the open conversation shows its own messages, except
  for the page after a reply; what a superseded request leaves behind; that a request is
  fetched at most twice and settles once around the shared refresh; and that a queued
  reply keeps its token.
\<close>

section \<open>Frames of the handlers\<close>

lemmas handler_defs = refreshConversations_def mergeConversationsRealtime_def loadMoreConversations_def selectConversation_def
  loadOlderMessages_def onMessage_def handleReply_def handleSummarize_def applyFilters_def socketEffect_def Let_def

lemmas continuation_defs = listRefreshed_def mergedRealtime_def loadedMore_def selected_def loadedOlder_def nudged_def replySent_def
  replyPaged_def summarized_def

section \<open>What is shown\<close>

definition shownInv :: "(string \<Rightarrow> string) \<Rightarrow> inbox \<Rightarrow> bool" where
  "shownInv owner s \<longleftrightarrow> distinct (map cvs_id (ib_conversations s)) \<and> distinct (map cvm_id (ib_messages s)) \<and>
     (\<forall>m\<in>set (ib_messages s). ib_selectedId s = Some (owner (cvm_id m)))"

text \<open>A request for messages that is not superseded is about the open conversation.\<close>

fun currentRequest :: "inbox \<Rightarrow> pending \<Rightarrow> bool" where
  "currentRequest s (PSelect gen i) \<longleftrightarrow> gen \<le> ib_messagesRequestId s \<and> (gen = ib_messagesRequestId s \<longrightarrow> ib_selectedId s = Some i)"
| "currentRequest s (POlder gen i c) \<longleftrightarrow> gen \<le> ib_messagesRequestId s \<and> (gen = ib_messagesRequestId s \<longrightarrow> ib_selectedId s = Some i)"
| "currentRequest s p \<longleftrightarrow> True"

definition inboxInv :: "(string \<Rightarrow> string) \<Rightarrow> client \<Rightarrow> bool" where
  "inboxInv owner c \<longleftrightarrow> shownInv owner (fst c) \<and> (\<forall>p\<in>set (snd c). currentRequest (fst c) p)"

lemma currentRequest_frame:
  "ib_messagesRequestId s' = ib_messagesRequestId s \<Longrightarrow> ib_selectedId s' = ib_selectedId s \<Longrightarrow>
   currentRequest s' p = currentRequest s p"
  by (cases p) auto

lemma currentRequest_select: "currentRequest s p \<Longrightarrow> currentRequest (fst (selectConversation i s)) p"
  by (cases p) (auto simp: selectConversation_def Let_def)

lemma act_shown: "shownInv owner s \<Longrightarrow> shownInv owner (fst (act a s))"
  by (cases a) (auto simp: handler_defs shownInv_def split: option.splits)

lemma act_requests:
  assumes "currentRequest s p"
  shows "currentRequest (fst (act a s)) p"
proof (cases "\<exists>i. a = Select i")
  case True
  then show ?thesis using assms currentRequest_select by auto
next
  case False
  then have "ib_messagesRequestId (fst (act a s)) = ib_messagesRequestId s \<and> ib_selectedId (fst (act a s)) = ib_selectedId s"
    by (cases a) (auto simp: handler_defs split: option.splits)
  then show ?thesis using assms currentRequest_frame by blast
qed

lemma act_new: "\<forall>p\<in>set (snd (act a s)). currentRequest (fst (act a s)) p"
  by (cases a) (auto simp: handler_defs split: option.splits)

lemma continue_frame: "ib_messagesRequestId (fst (continue p r s)) = ib_messagesRequestId s \<and> ib_selectedId (fst (continue p r s)) = ib_selectedId s"
  by (cases "(p, r, s)" rule: continue.cases)
    (auto simp: continuation_defs refreshConversations_def Let_def split: sum.splits reply_outcome.splits)

lemma continue_new: "currentRequest s p \<Longrightarrow> \<forall>x\<in>set (snd (continue p r s)). currentRequest (fst (continue p r s)) x"
  by (cases "(p, r, s)" rule: continue.cases)
    (auto simp: continuation_defs refreshConversations_def Let_def split: sum.splits reply_outcome.splits)

lemma continue_shown:
  assumes "shownInv owner s" "currentRequest s p" "honest owner p r"
    and "\<forall>i. p = PReplyPage i \<longrightarrow> ib_selectedId s = Some i"
  shows "shownInv owner (fst (continue p r s))"
  using assms
  by (cases "(p, r, s)" rule: continue.cases)
    (auto simp: continuation_defs refreshConversations_def Let_def shownInv_def merge_defs
      simp del: map_append distinct_append intro!: distinct_newTo dest: set_newTo [THEN subsetD]
      split: sum.splits reply_outcome.splits)

lemma inboxStep_inv: "inboxStep stray owner c c' \<Longrightarrow> \<not> stray \<Longrightarrow> inboxInv owner c \<Longrightarrow> inboxInv owner c'"
proof (induction rule: inboxStep.induct)
  case (acted a s s' new ps)
  then show ?case using act_shown [of owner s a] act_requests [of s _ a] act_new [of a s] by (auto simp: inboxInv_def)
next
  case (answered p ps r s s' new)
  then have "currentRequest s p" by (simp add: inboxInv_def)
  then have "shownInv owner s'" "\<forall>x\<in>set new. currentRequest s' x"
    using answered continue_shown [of owner s p r] continue_new [of s p r] by (auto simp: inboxInv_def)
  moreover have "currentRequest s' x" if "x \<in> set ps" for x
    using that answered continue_frame [of p r s] currentRequest_frame [of s' s x] by (auto simp: inboxInv_def)
  ultimately show ?case using set_remove1_subset [of p ps] by (auto simp: inboxInv_def)
qed

lemma mount_inv: "inboxInv owner mount"
  by (simp add: inboxInv_def mount_def handler_defs initialInbox_def shownInv_def)

lemma reachable_inv: "(inboxStep False owner)\<^sup>*\<^sup>* mount c \<Longrightarrow> inboxInv owner c"
  by (induction rule: rtranclp_induct) (auto intro: mount_inv inboxStep_inv)

section \<open>Superseded pages\<close>

text \<open>The pages still asked for: none of a later generation, and of the current one at
  most one, while the button shows it loading.\<close>

fun moreAt :: "nat \<Rightarrow> pending \<Rightarrow> bool" where
  "moreAt gen (PMore g q) \<longleftrightarrow> g = gen"
| "moreAt gen p \<longleftrightarrow> False"

definition moreInv :: "client \<Rightarrow> bool" where
  "moreInv c \<longleftrightarrow> (\<forall>g q. PMore g q \<in> set (snd c) \<longrightarrow> g \<le> ib_conversationsRequestId (fst c)) \<and>
     countWhere (moreAt (ib_conversationsRequestId (fst c))) (snd c) \<le> of_bool (ib_loadingMore (fst c))"

definition stranded :: "client \<Rightarrow> bool" where
  "stranded c \<longleftrightarrow> ib_loadingMore (fst c) \<and> (\<forall>g q. PMore g q \<in> set (snd c) \<longrightarrow> g < ib_conversationsRequestId (fst c))"

lemma act_stranded:
  assumes "ib_loadingMore s"
  shows "ib_loadingMore (fst (act a s))" "ib_conversationsRequestId s \<le> ib_conversationsRequestId (fst (act a s))"
    "PMore g q \<notin> set (snd (act a s))"
  using assms by (cases a; auto simp: handler_defs split: option.splits)+

lemma continue_stranded:
  assumes "ib_loadingMore s" "\<And>g q. p = PMore g q \<Longrightarrow> g < ib_conversationsRequestId s"
  shows "ib_loadingMore (fst (continue p r s)) \<and> ib_conversationsRequestId s \<le> ib_conversationsRequestId (fst (continue p r s))
    \<and> (\<forall>g q. PMore g q \<in> set (snd (continue p r s)) \<longrightarrow> p = PMore g q)"
  using assms by (cases "(p, r, s)" rule: continue.cases)
    (auto simp: continuation_defs refreshConversations_def Let_def split: sum.splits reply_outcome.splits)

lemma inboxStep_stranded: "inboxStep stray owner c c' \<Longrightarrow> stranded c \<Longrightarrow> stranded c'"
proof (induction rule: inboxStep.induct)
  case (acted a s s' new ps)
  then show ?case using act_stranded [where s = s and a = a] by (fastforce simp: stranded_def)
next
  case (answered p ps r s s' new)
  then show ?case using continue_stranded [of s p r] set_remove1_subset [of p ps] by (fastforce simp: stranded_def)
qed

lemma inboxSteps_stranded: "(inboxStep stray owner)\<^sup>*\<^sup>* c c' \<Longrightarrow> stranded c \<Longrightarrow> stranded c'"
  by (induction rule: rtranclp_induct) (auto intro: inboxStep_stranded)

lemma countWhere_remove1: "p \<in> set ps \<Longrightarrow> countWhere P (remove1 p ps) = countWhere P ps - of_bool (P p)"
proof (induction ps)
  case (Cons a ps)
  have "P p \<Longrightarrow> p \<in> set ps \<Longrightarrow> 0 < countWhere P ps" by (auto simp: countWhere_pos)
  then show ?case using Cons by (auto simp: countWhere_Cons)
qed simp

lemma count_superseded: "\<forall>g q. PMore g q \<in> set ps \<longrightarrow> g < n \<Longrightarrow> countWhere (moreAt n) ps = 0"
proof -
  assume older: "\<forall>g q. PMore g q \<in> set ps \<longrightarrow> g < n"
  have "\<not> moreAt n p" if "p \<in> set ps" for p using older that by (cases p) auto
  then show ?thesis by (simp add: countWhere_0_iff)
qed

lemma moreInv_bump: "moreInv (s, ps) \<Longrightarrow> countWhere (moreAt (Suc (ib_conversationsRequestId s))) ps = 0"
  by (rule count_superseded) (auto simp: moreInv_def less_Suc_eq_le)

lemma act_moreInv:
  assumes "moreInv (s, ps)"
  shows "moreInv (fst (act a s), ps @ snd (act a s))"
  using assms moreInv_bump [OF assms]
  by (cases a) (auto simp: handler_defs moreInv_def countWhere_append countWhere_Cons le_SucI split: option.splits)

lemma continue_other:
  assumes "\<And>g q. p \<noteq> PMore g q"
  shows "ib_loadingMore (fst (continue p r s)) = ib_loadingMore s"
    "ib_conversationsRequestId (fst (continue p r s)) \<in> {ib_conversationsRequestId s, Suc (ib_conversationsRequestId s)}"
    "PMore g q \<notin> set (snd (continue p r s))"
  using assms by (cases "(p, r, s)" rule: continue.cases;
    auto simp: continuation_defs refreshConversations_def Let_def split: sum.splits reply_outcome.splits)+

lemma continue_more:
  "continue (PMore g q) r s = (s, [PMore g q]) \<or>
   (\<exists>s'. continue (PMore g q) r s = (s', []) \<and> ib_conversationsRequestId s' = ib_conversationsRequestId s \<and>
     (if g = ib_conversationsRequestId s then \<not> ib_loadingMore s' else s' = s))"
  by (cases r) (auto simp: loadedMore_def split: sum.splits)

lemma continue_moreInv:
  assumes "moreInv (s, ps)" "p \<in> set ps"
  shows "moreInv (fst (continue p r s), remove1 p ps @ snd (continue p r s))"
proof (cases "\<exists>g q. p = PMore g q")
  case True
  then obtain g q where p: "p = PMore g q" by blast
  let ?n = "ib_conversationsRequestId s"
  have older: "\<forall>g q. PMore g q \<in> set (remove1 p ps) \<longrightarrow> g \<le> ?n"
    using assms(1) set_remove1_subset [of p ps] by (auto simp: moreInv_def)
  have le: "countWhere (moreAt ?n) ps \<le> of_bool (ib_loadingMore s)" "g \<le> ?n"
    using assms by (auto simp: moreInv_def p)
  have pos: "g = ?n \<Longrightarrow> 0 < countWhere (moreAt ?n) ps" using assms(2) by (auto simp: p countWhere_pos)
  have left: "countWhere (moreAt ?n) (remove1 p ps) = countWhere (moreAt ?n) ps - of_bool (g = ?n)"
    using countWhere_remove1 [OF assms(2), of "moreAt ?n"] by (simp add: p)
  from continue_more [of g q r s] show ?thesis
  proof (elim disjE exE conjE)
    assume "continue (PMore g q) r s = (s, [PMore g q])"
    then show ?thesis using older le pos left by (auto simp: p moreInv_def countWhere_append countWhere_Cons)
  next
    fix s' assume c: "continue (PMore g q) r s = (s', [])" "ib_conversationsRequestId s' = ?n"
      "if g = ?n then \<not> ib_loadingMore s' else s' = s"
    have "countWhere (moreAt ?n) (remove1 p ps) \<le> of_bool (ib_loadingMore s')"
      using c(3) le left by (cases "ib_loadingMore s") (auto split: if_splits)
    then show ?thesis using older c by (simp add: p moreInv_def)
  qed
next
  case False
  then have new: "PMore g q \<notin> set (snd (continue p r s))" for g q using continue_other(3) by blast
  have sub: "set (remove1 p ps) \<subseteq> set ps" by (rule set_remove1_subset)
  have "\<not> moreAt n p" for n using False by (cases p) auto
  then have "countWhere (moreAt n) (remove1 p ps @ snd (continue p r s)) = countWhere (moreAt n) ps" for n
    using countWhere_remove1 [OF assms(2), of "moreAt n"] count_superseded [of "snd (continue p r s)" n] new
    by (simp add: countWhere_append)
  moreover have "PMore g q \<in> set ps \<Longrightarrow> g \<le> ib_conversationsRequestId s" for g q
    using assms(1) by (auto simp: moreInv_def)
  then have "\<forall>g q. PMore g q \<in> set (remove1 p ps @ snd (continue p r s)) \<longrightarrow> g \<le> ib_conversationsRequestId s"
    using new sub by (metis Un_iff set_append subsetD)
  ultimately show ?thesis
    using assms(1) moreInv_bump [OF assms(1)] continue_other(1,2) [of p r s] False
    by (auto simp: moreInv_def le_SucI)
qed

lemma reachable_moreInv: "(inboxStep stray owner)\<^sup>*\<^sup>* mount c \<Longrightarrow> moreInv c"
proof (induction rule: rtranclp_induct)
  case base
  show ?case by (simp add: mount_def handler_defs initialInbox_def moreInv_def countWhere_Cons)
next
  case (step c c')
  from step(2) show ?case
  proof cases
    case (acted a s s' new ps)
    then show ?thesis using act_moreInv [of s ps a] step(3) by simp
  next
    case (answered p ps r s s' new)
    then show ?thesis using continue_moreInv [of s ps p r] step(3) by simp
  qed
qed

section \<open>The properties\<close>


text \<open>A page request overtaken by a fresh load never frees the button. When the filters
  change while a further page is being loaded, the list stays in its loading state in
  every later state, whatever is answered or done, and asking for more does nothing.\<close>

theorem filter_change_strands_load_more:
  assumes "(inboxStep stray owner)\<^sup>*\<^sup>* mount (s, ps)" "PMore (ib_conversationsRequestId s) q \<in> set ps"
    and "act (SetFilters f) s = (s1, new)" "(inboxStep stray owner)\<^sup>*\<^sup>* (s1, ps @ new) (s', ps')"
  shows "ib_loadingMore s' \<and> act LoadMore s' = (s', [])"
proof -
  have m: "moreInv (s, ps)" using reachable_moreInv [OF assms(1)] .
  have "0 < countWhere (moreAt (ib_conversationsRequestId s)) ps" using assms(2) by (auto simp: countWhere_pos)
  then have l: "ib_loadingMore s" using m by (cases "ib_loadingMore s") (auto simp: moreInv_def)
  have "stranded (s1, ps @ new)"
    using assms(3) l m by (auto simp: stranded_def moreInv_def handler_defs less_Suc_eq_le)
  then have "stranded (s', ps')" by (rule inboxSteps_stranded [OF assms(4)])
  then show ?thesis by (simp add: stranded_def loadMoreConversations_def)
qed

text \<open>A realtime event merges with the filters of the socket's effect, not the current ones:
  the unfiltered page then stands in front of the filtered list.\<close>

lemma realtime_merge_ignores_filters:
  assumes "act (SetFilters f) s = (s1, new)" "s2 = listRefreshed (ib_conversationsRequestId s1) (Inr p) s1"
    and "act SocketMessage s2 = (s3, requests)"
    and "s4 = fst (continue (hd requests) (Conversations (Inr p')) s3)"
  shows "hd requests = PMerge (ib_conversationsRequestId s1) (conversationQuery (ib_socketFilters s) None) \<and>
    ib_filters s4 = f \<and> ib_conversations s4 = pg_data p' @ newTo cvs_id (pg_data p') (pg_data p)"
  using assms by (auto simp: handler_defs listRefreshed_def mergedRealtime_def merge_defs)

section \<open>Requests settle once\<close>

definition waitingOf :: "api_client \<Rightarrow> nat list" where
  "waitingOf s = (case api_refresh s of None \<Rightarrow> [] | Some ws \<Rightarrow> ws)"

text \<open>Every request called is flying, waiting or settled, in one way; before its refresh it
  was fetched once, and never more than twice.\<close>

definition everywhere :: "api_client \<Rightarrow> nat list" where
  "everywhere s = map fst (api_flying s) @ waitingOf s @ map fst (api_settled s)"

definition fetchCount :: "api_client \<Rightarrow> nat \<Rightarrow> nat" where
  "fetchCount s r = count_list (map fst (api_fetches s)) r"

definition firstTry :: "api_client \<Rightarrow> nat \<Rightarrow> bool" where
  "firstTry s r \<longleftrightarrow> (r, False) \<in> set (api_flying s) \<or> r \<in> set (waitingOf s)"

definition apiInv :: "api_client \<Rightarrow> bool" where
  "apiInv s \<longleftrightarrow> distinct (everywhere s) \<and> set (everywhere s) = fst ` set (api_fetches s) \<and>
     (\<forall>r. fetchCount s r \<le> 2 \<and> (firstTry s r \<longrightarrow> fetchCount s r \<le> 1))"

lemma settle_all: "fold (settleRequest out) ws s = s\<lparr>api_settled := api_settled s @ map (\<lambda>r. (r, out)) ws\<rparr>"
  by (induction ws arbitrary: s) (simp_all add: settleRequest_def)

lemma issue_all: "fold (issueFetch retry t) ws s =
  s\<lparr>api_flying := api_flying s @ map (\<lambda>r. (r, retry)) ws, api_fetches := api_fetches s @ map (\<lambda>r. (r, t)) ws\<rparr>"
  by (induction ws arbitrary: s) (simp_all add: issueFetch_def)

lemma count_list_distinct: "distinct xs \<Longrightarrow> count_list xs r = of_bool (r \<in> set xs)"
  by (induction xs) auto

lemma answered_everywhere:
  assumes "(r, retry) \<in> set (api_flying s)" "distinct (map fst (api_flying s))"
  shows "mset (everywhere (answered retry out r s)) = mset (everywhere s)"
proof -
  have "mset (api_flying s) = add_mset (r, retry) (mset (remove1 (r, retry) (api_flying s)))" using assms(1) by simp
  then have "mset (map fst (api_flying s)) = add_mset r (mset (map fst (remove1 (r, retry) (api_flying s))))"
    by (metis fst_conv image_mset_add_mset mset_map)
  then show ?thesis
    by (simp add: everywhere_def answered_def getOrStartRefresh_def settleRequest_def waitingOf_def Let_def split: option.split)
qed

lemma image_fst_pairs: "image_mset fst (image_mset (\<lambda>r. (r, b)) M) = M"
  by (simp add: multiset.map_comp comp_def)

lemma refreshSettled_everywhere: "mset (everywhere (refreshSettled res s)) = mset (everywhere s)"
  by (simp add: image_fst_pairs everywhere_def refreshSettled_def settle_all issue_all waitingOf_def Let_def comp_def split: option.split)

lemma apiStep_inv: "apiStep s s' \<Longrightarrow> apiInv s \<Longrightarrow> apiInv s'"
proof (induction rule: apiStep.induct)
  case (called r s token)
  then have "r \<notin> set (everywhere s)" "fetchCount s r = 0" by (auto simp: apiInv_def fetchCount_def count_list_0_iff)
  then show ?case using called(2)
    by (auto simp: apiInv_def apiFetch_def issueFetch_def everywhere_def waitingOf_def fetchCount_def firstTry_def)
next
  case (answered r retry s out)
  let ?s' = "answered retry out r s"
  have d: "distinct (map fst (api_flying s))" using answered(2) by (simp add: apiInv_def everywhere_def)
  have m: "mset (everywhere ?s') = mset (everywhere s)" by (rule answered_everywhere [OF answered(1) d])
  have f: "api_fetches ?s' = api_fetches s"
    by (simp add: answered_def getOrStartRefresh_def settleRequest_def Let_def split: option.split)
  have "firstTry ?s' x \<Longrightarrow> firstTry s x" for x
    using answered(1) set_remove1_subset [of "(r, retry)" "api_flying s"] unfolding firstTry_def
    by (auto simp: answered_def getOrStartRefresh_def settleRequest_def waitingOf_def Let_def split: option.splits if_splits)
  moreover have "fetchCount ?s' x = fetchCount s x" for x by (simp add: fetchCount_def f)
  ultimately show ?case
    using answered(2) mset_eq_setD [OF m] mset_eq_imp_distinct_iff [OF m] unfolding apiInv_def f by metis
next
  case (refreshed s res)
  let ?s' = "refreshSettled res s"
  have m: "mset (everywhere ?s') = mset (everywhere s)" by (rule refreshSettled_everywhere)
  have w: "distinct (waitingOf s)" "x \<in> set (waitingOf s) \<Longrightarrow> (x, False) \<notin> set (api_flying s)" for x
    using refreshed by (force simp: apiInv_def everywhere_def)+
  have "fetchCount ?s' x \<le> fetchCount s x + of_bool (x \<in> set (waitingOf s))" for x
    using w(1) by (cases "api_refresh s") (auto simp: fetchCount_def refreshSettled_def settle_all issue_all waitingOf_def
      Let_def comp_def count_list_distinct split: option.split)
  moreover have "firstTry ?s' x \<Longrightarrow> (x, False) \<in> set (api_flying s)" for x
    by (auto simp: firstTry_def refreshSettled_def settle_all issue_all waitingOf_def Let_def split: option.splits if_splits)
  moreover have "fetchCount s x \<le> 2" "firstTry s x \<Longrightarrow> fetchCount s x \<le> 1" for x
    using refreshed by (simp_all add: apiInv_def)
  ultimately have c: "fetchCount ?s' x \<le> 2 \<and> (firstTry ?s' x \<longrightarrow> fetchCount ?s' x \<le> 1)" for x
    using w(2) [of x] unfolding firstTry_def
    by (cases "x \<in> set (waitingOf s)") (fastforce intro: order.trans)+
  have "set (waitingOf s) \<subseteq> fst ` set (api_fetches s)"
    using refreshed unfolding apiInv_def everywhere_def by auto
  then have "fst ` set (api_fetches ?s') = fst ` set (api_fetches s)"
    by (auto simp: refreshSettled_def settle_all issue_all waitingOf_def Let_def image_Un image_image split: option.splits)
  then show ?case
    using refreshed mset_eq_setD [OF m] mset_eq_imp_distinct_iff [OF m] c unfolding apiInv_def by metis
qed

lemma reachable_apiInv: "apiStep\<^sup>*\<^sup>* startApi s \<Longrightarrow> apiInv s"
proof (induction rule: rtranclp_induct)
  case base
  show ?case by (simp add: apiInv_def everywhere_def waitingOf_def fetchCount_def startApi_def)
next
  case (step s s')
  then show ?case using apiStep_inv by blast
qed

text \<open>C20: one refresh and one retry. In every reachable state no request has been fetched more
  than twice or settled more than once; a refusal that comes while a refresh is under way
  starts no other; and once nothing is flying and no refresh is awaited every request that
  was called has settled.\<close>

theorem requests_settle_once:
  assumes "apiStep\<^sup>*\<^sup>* startApi s"
  shows "fetchCount s r \<le> 2 \<and> count_list (map fst (api_settled s)) r \<le> 1 \<and>
    (api_refresh s \<noteq> None \<longrightarrow> api_refreshCalls (answered retry out r s) = api_refreshCalls s) \<and>
    (api_flying s = [] \<and> api_refresh s = None \<longrightarrow> fst ` set (api_settled s) = fst ` set (api_fetches s))"
proof -
  have i: "apiInv s" using reachable_apiInv [OF assms] .
  then have "distinct (map fst (api_settled s))" "fetchCount s r \<le> 2" by (simp_all add: apiInv_def everywhere_def)
  moreover have "api_refresh s \<noteq> None \<longrightarrow> api_refreshCalls (answered retry out r s) = api_refreshCalls s"
    by (auto simp: answered_def getOrStartRefresh_def settleRequest_def Let_def)
  moreover have "api_flying s = [] \<and> api_refresh s = None \<longrightarrow> fst ` set (api_settled s) = fst ` set (api_fetches s)"
    using i by (auto simp: apiInv_def everywhere_def waitingOf_def)
  ultimately show ?thesis by (simp add: count_list_distinct)
qed

section \<open>The outbox\<close>

lemma flushItems_keeps:
  assumes "\<And>x w. qrq_id x = qrq_id item \<Longrightarrow> x \<in> set items \<Longrightarrow> fst (post x w) = Some 401" "item \<in> set box"
  shows "item \<in> set (fst (flushItems post items box w))"
  using assms
proof (induction post items box w rule: flushItems.induct)
  case (2 post a items box w)
  obtain r w1 where p: "post a w = (r, w1)" by (meson surj_pair)
  show ?case
  proof (cases r)
    case None
    then show ?thesis using 2(3) p by simp
  next
    case (Some status)
    let ?box = "if 200 \<le> status \<and> status \<le> 299 then filter (\<lambda>x. qrq_id x \<noteq> qrq_id a) box else box"
    have "item \<in> set ?box"
      using 2(2) [of a w] 2(3) p Some by (auto split: if_splits)
    then show ?thesis
      using 2(1) [OF p [symmetric] Some] 2(2) p Some by simp
  qed
qed simp

definition bears :: "string \<Rightarrow> QueuedRequest \<Rightarrow> bool" where
  "bears token item \<longleftrightarrow> map_of (qrq_headers item) ''Authorization'' = Some (''Bearer '' @ token)"

definition outboxInv :: "QueuedRequest \<Rightarrow> QueuedRequest list \<Rightarrow> bool" where
  "outboxInv item box \<longleftrightarrow> item \<in> set box \<and> distinct (map qrq_id box)"

lemma flushItems_subset: "set (fst (flushItems post items box w)) \<subseteq> set box"
proof (induction post items box w rule: flushItems.induct)
  case (2 post a items box w)
  obtain r w1 where p: "post a w = (r, w1)" by (meson surj_pair)
  show ?case using 2(1) [OF p [symmetric]] p by (cases r) (auto split: if_splits)
qed simp

lemma flushItems_distinct: "distinct (map qrq_id box) \<Longrightarrow> distinct (map qrq_id (fst (flushItems post items box w)))"
proof (induction post items box w rule: flushItems.induct)
  case (2 post a items box w)
  obtain r w1 where p: "post a w = (r, w1)" by (meson surj_pair)
  show ?case using 2(1) [OF p [symmetric]] 2(2) p by (cases r) (auto simp: distinct_map_filter)
qed simp

lemma enqueue_distinct: "distinct (map qrq_id box) \<Longrightarrow> distinct (map qrq_id (enqueueRequest x box))"
  by (auto simp: enqueueRequest_def distinct_map distinct_insort set_insort_key inj_on_def)

text \<open>A server that refuses a token whenever it sees it.\<close>

definition refuses :: "string \<Rightarrow> 'w server \<Rightarrow> bool" where
  "refuses token post \<longleftrightarrow> (\<forall>x w. bears token x \<longrightarrow> fst (post x w) = Some 401)"

lemma outboxStep_inv:
  assumes "refuses token post" "bears token item"
  shows "outboxStep post c c' \<Longrightarrow> outboxInv item (fst c) \<Longrightarrow> outboxInv item (fst c')"
proof (induction rule: outboxStep.induct)
  case (queued x box w)
  then have "item \<in> set box" "distinct (map qrq_id (enqueueRequest x box))"
    using enqueue_distinct [of box x] by (auto simp: outboxInv_def)
  moreover from this(1) have "qrq_id item \<noteq> qrq_id x" using queued(1) by (metis imageI)
  ultimately show ?case by (simp add: outboxInv_def enqueueRequest_def set_insort_key)
next
  case (flushed box w)
  have "x = item" if "qrq_id x = qrq_id item" "x \<in> set box" for x
    using that flushed by (auto simp: outboxInv_def distinct_map dest: inj_onD)
  then have "item \<in> set (fst (flushItems post box box w))"
    using assms flushed by (intro flushItems_keeps) (auto simp: refuses_def outboxInv_def)
  then show ?case using flushed flushItems_distinct [of box post box w] by (simp add: outboxInv_def flushOutbox_def)
qed simp

text \<open>A reply queued offline goes out only while its token lives. It keeps the access
  token of the moment it was queued, so from when the server refuses that token no number
  of flushes, whatever else is queued, ever sends it or takes it out of the outbox.\<close>

theorem expired_reply_stays_queued:
  assumes "refuses token post" "distinct (map qrq_id box)"
    and "qrq_id item \<notin> qrq_id ` set box" "item = handleReplyOffline url token conversation body now"
    and "(outboxStep post)\<^sup>*\<^sup>* (enqueueRequest item box, w) (box', w')"
  shows "item \<in> set box'"
proof -
  have b: "bears token item" by (simp add: assms(4) bears_def handleReplyOffline_def)
  have "outboxInv item (fst c)" if "(outboxStep post)\<^sup>*\<^sup>* (enqueueRequest item box, w) c" for c
    using that
  proof (induction rule: rtranclp_induct)
    case base
    show ?case using enqueue_distinct [OF assms(2)] by (simp add: outboxInv_def enqueueRequest_def set_insort_key)
  next
    case (step c c')
    then show ?case using outboxStep_inv [OF assms(1) b, of c c'] by blast
  qed
  from this [OF assms(5)] show ?thesis by (simp add: outboxInv_def)
qed

section \<open>Sample runs\<close>

definition doAct :: "user_action \<Rightarrow> client \<Rightarrow> client" where
  "doAct a c = (case act a (fst c) of (s, new) \<Rightarrow> (s, snd c @ new))"

definition doAnswer :: "pending \<Rightarrow> answer \<Rightarrow> client \<Rightarrow> client" where
  "doAnswer p r c = (case continue p r (fst c) of (s, new) \<Rightarrow> (s, remove1 p (snd c) @ new))"

lemma run_act: "(inboxStep stray owner)\<^sup>*\<^sup>* mount c \<Longrightarrow> (inboxStep stray owner)\<^sup>*\<^sup>* mount (doAct a c)"
  by (rule rtranclp.rtrancl_into_rtrancl, assumption, cases c)
    (auto simp: doAct_def split: prod.split intro: inboxStep.acted)

lemma run_answer:
  "(inboxStep stray owner)\<^sup>*\<^sup>* mount c \<Longrightarrow> p \<in> set (snd c) \<Longrightarrow> honest owner p r \<Longrightarrow> (\<And>i. p \<noteq> PReplyPage i) \<Longrightarrow>
   (inboxStep stray owner)\<^sup>*\<^sup>* mount (doAnswer p r c)"
  by (rule rtranclp.rtrancl_into_rtrancl, assumption, cases c)
    (auto simp: doAnswer_def split: prod.split intro: inboxStep.answered)

definition sampleOwner :: "string \<Rightarrow> string" where
  "sampleOwner m = take 1 m"

text \<open>Conversation a is opened and answered, then b is opened.\<close>

definition answeredThenMoved :: client where
  "answeredThenMoved = doAct (Select ''b'') (doAnswer (PReply ''a'' ''hi'') (Replied Delivered)
     (doAct Reply (doAct (Typed ''hi'') (doAct (Select ''a'') mount))))"

lemma answeredThenMoved_eval:
  "PReply ''a'' ''hi'' \<in> set (snd (doAct Reply (doAct (Typed ''hi'') (doAct (Select ''a'') mount))))"
  "PReplyPage ''a'' \<in> set (snd answeredThenMoved)" "ib_selectedId (fst answeredThenMoved) = Some ''b''"
  "ib_messages (fst answeredThenMoved) = []"
  by code_simp+

lemma answeredThenMoved_run: "(inboxStep False sampleOwner)\<^sup>*\<^sup>* mount answeredThenMoved"
  unfolding answeredThenMoved_def
  by (intro run_act run_answer answeredThenMoved_eval(1) rtranclp.rtrancl_refl) simp_all


text \<open>The first page came with a further one, which is being loaded.\<close>

definition loadingMore :: client where
  "loadingMore = doAct LoadMore (doAnswer (PRefresh 2 (conversationQuery noFilters None))
     (Conversations (Inr \<lparr>pg_data = [], pg_nextCursor = Some ''c'', pg_hasMore = True\<rparr>)) mount)"

lemma loadingMore_eval:
  "PRefresh 2 (conversationQuery noFilters None) \<in> set (snd mount)"
  "PMore (ib_conversationsRequestId (fst loadingMore)) (conversationQuery noFilters (Some ''c'')) \<in> set (snd loadingMore)"
  by code_simp+

lemma loadingMore_run: "(inboxStep False sampleOwner)\<^sup>*\<^sup>* mount loadingMore"
  unfolding loadingMore_def
  by (intro run_act run_answer loadingMore_eval(1) rtranclp.rtrancl_refl) simp_all

theorem filter_change_strands_load_more_witness:
  "\<exists>s. fst (act (SetFilters (noFilters\<lparr>flt_vip := True\<rparr>)) (fst loadingMore)) = s \<and> ib_loadingMore s \<and> act LoadMore s = (s, [])"
proof -
  obtain s ps where c: "loadingMore = (s, ps)" by (cases loadingMore)
  obtain s1 new where a: "act (SetFilters (noFilters\<lparr>flt_vip := True\<rparr>)) s = (s1, new)" by (meson surj_pair)
  have "PMore (ib_conversationsRequestId s) (conversationQuery noFilters (Some ''c'')) \<in> set ps"
    using loadingMore_eval(2) by (simp add: c)
  from filter_change_strands_load_more [OF loadingMore_run [unfolded c] this a rtranclp.rtrancl_refl] show ?thesis
    by (simp add: c a del: act.simps)
qed

text \<open>Two requests are refused together; one refresh serves both.\<close>

definition sharedRefresh :: api_client where
  "sharedRefresh = refreshSettled (Some (200, Some ''new'')) (answered False (Responded 401) 2
     (answered False (Responded 401) 1 (apiFetch ''old'' 2 (apiFetch ''old'' 1 startApi))))"

lemma apiSteps_snoc: "apiStep\<^sup>*\<^sup>* s s1 \<Longrightarrow> apiStep s1 s2 \<Longrightarrow> apiStep\<^sup>*\<^sup>* s s2"
  by (rule rtranclp.rtrancl_into_rtrancl)

lemma sharedRefresh_run: "apiStep\<^sup>*\<^sup>* startApi sharedRefresh"
proof -
  let ?s2 = "apiFetch ''old'' 2 (apiFetch ''old'' 1 startApi)"
  let ?s3 = "answered False (Responded 401) 1 ?s2"
  have fresh: "1 \<notin> fst ` set (api_fetches startApi)" "2 \<notin> fst ` set (api_fetches (apiFetch ''old'' 1 startApi))"
    and flying: "(1, False) \<in> set (api_flying ?s2)" "(2, False) \<in> set (api_flying ?s3)"
    by code_simp+
  note steps = apiStep.called [OF fresh(1), of "''old''"] apiStep.called [OF fresh(2), of "''old''"]
    apiStep.answered [OF flying(1), of "Responded 401"] apiStep.answered [OF flying(2), of "Responded 401"]
  have "apiStep\<^sup>*\<^sup>* startApi (answered False (Responded 401) 2 ?s3)"
    by (rule apiSteps_snoc [OF apiSteps_snoc [OF apiSteps_snoc [OF apiSteps_snoc [OF rtranclp.rtrancl_refl steps(1)] steps(2)]
          steps(3)] steps(4)])
  then show ?thesis unfolding sharedRefresh_def by (rule apiSteps_snoc) (rule apiStep.refreshed)
qed

theorem requests_settle_once_witness:
  "fetchCount sharedRefresh 1 \<le> 2 \<and> api_refreshCalls sharedRefresh = 1 \<and> api_fetches sharedRefresh =
     [(1, ''old''), (2, ''old''), (1, ''new''), (2, ''new'')]"
proof (intro conjI)
  show "fetchCount sharedRefresh 1 \<le> 2" using requests_settle_once [OF sharedRefresh_run] by blast
  show "api_refreshCalls sharedRefresh = 1" "api_fetches sharedRefresh = [(1, ''old''), (2, ''old''), (1, ''new''), (2, ''new'')]"
    by code_simp+
qed

theorem expired_reply_stays_queued_witness:
  "handleReplyOffline ''u'' ''t'' ''c'' ''b'' 5 \<in> set (fst (flushOutbox (\<lambda>x w. (Some 401, w))
     (enqueueRequest (handleReplyOffline ''u'' ''t'' ''c'' ''b'' 5) []) ()))"
proof -
  let ?post = "\<lambda>(x :: QueuedRequest) (w :: unit). (Some (401 :: nat), w)"
  let ?item = "handleReplyOffline ''u'' ''t'' ''c'' ''b'' 5"
  obtain box w where f: "flushOutbox ?post (enqueueRequest ?item []) () = (box, w)" by (meson surj_pair)
  have steps: "(outboxStep ?post)\<^sup>*\<^sup>* (enqueueRequest ?item [], ()) (box, w)"
    using outboxStep.flushed [of ?post "enqueueRequest ?item []" "()"] unfolding f by blast
  have "refuses ''t'' ?post" by (simp add: refuses_def)
  from expired_reply_stays_queued [OF this _ _ refl steps] show ?thesis by (simp add: f)
qed

end
