(* ===== verification/Web_Rules.thy ===== *)
theory Web_Rules
  imports Rules_Api
begin

text \<open>
  The rule form of the web client (\<open>apps/web/components/Rules.tsx\<close>): loading a rule into
  it, editing its rows, and the request it saves (\<open>updateRule\<close> and \<open>createRule\<close> of
  \<open>apps/web/lib/api.ts\<close>), with the JSON body and the \<open>If-Match\<close> header the server reads.
  A leaf row can hold any condition node, since the form casts the children of a group.
\<close>

section \<open>The form\<close>

record rule_form =
  frm_editing :: "(uuid \<times> nat) option"
  frm_name :: string
  frm_triggerType :: string
  frm_hours :: jsnum
  frm_providerScope :: jsval
  frm_conditionOp :: group_op
  frm_leaves :: "ConditionNode list"
  frm_actions :: "ActionStep list"

definition emptyLeaf :: ConditionNode where
  "emptyLeaf = ConditionLeaf ''message.bodyText'' IsTrue (JStr [])"

definition emptyAction :: ActionStep where
  "emptyAction = \<lparr>step_type = ''notification.send'', step_params = JObj [(''title'', JStr []), (''body'', JStr [])]\<rparr>"

definition emptyForm :: rule_form where
  "emptyForm = \<lparr>frm_editing = None, frm_name = [], frm_triggerType = ''message.received'', frm_hours = Fin 48,
     frm_providerScope = JStr [], frm_conditionOp = AND, frm_leaves = [emptyLeaf], frm_actions = [emptyAction]\<rparr>"

fun formRows :: "ConditionNode \<Rightarrow> group_op \<times> ConditionNode list" where
  "formRows (ConditionLeaf field op v) = (AND, [ConditionLeaf field op v])"
| "formRows (ConditionGroup op children) = (if op = OR then OR else AND, if children = [] then [emptyLeaf] else children)"

definition handleStartEdit :: "Rule \<Rightarrow> rule_form" where
  "handleStartEdit r = \<lparr>frm_editing = Some (rul_id r, rul_version r), frm_name = rul_name r,
     frm_triggerType = trigType (rul_trigger r),
     frm_hours = (case paramHours (rul_trigger r) of Some h \<Rightarrow> h | None \<Rightarrow> Fin 48),
     frm_providerScope = orElse (scopeProviderKey (rul_trigger r)) (JStr []),
     frm_conditionOp = fst (formRows (rul_conditions r)), frm_leaves = snd (formRows (rul_conditions r)),
     frm_actions = (if rul_actions r = [] then [emptyAction] else rul_actions r)\<rparr>"

definition handleCancelEdit :: "rule_form \<Rightarrow> rule_form" where
  "handleCancelEdit f = emptyForm"

definition updateLeaf :: "nat \<Rightarrow> (ConditionNode \<Rightarrow> ConditionNode) \<Rightarrow> rule_form \<Rightarrow> rule_form" where
  "updateLeaf i patch f = (if i < length (frm_leaves f) then f\<lparr>frm_leaves := (frm_leaves f)[i := patch (frm_leaves f ! i)]\<rparr> else f)"

definition updateAction :: "nat \<Rightarrow> (ActionStep \<Rightarrow> ActionStep) \<Rightarrow> rule_form \<Rightarrow> rule_form" where
  "updateAction i patch f = (if i < length (frm_actions f) then f\<lparr>frm_actions := (frm_actions f)[i := patch (frm_actions f ! i)]\<rparr> else f)"

section \<open>The request\<close>

definition formConditions :: "rule_form \<Rightarrow> ConditionNode" where
  "formConditions f = (case frm_leaves f of [c] \<Rightarrow> c | cs \<Rightarrow> ConditionGroup (frm_conditionOp f) cs)"

text \<open>The input of a save: every save enables the rule and sets its priority to zero. An
  empty name is reported in the form, here \<open>None\<close>.\<close>

definition formInput :: "rule_form \<Rightarrow> RuleInput option" where
  "formInput f = (if trim (frm_name f) = [] then None else Some
     \<lparr>rin_name = trim (frm_name f), rin_isEnabled = True, rin_priority = Fin 0,
      rin_trigger = \<lparr>trigType = frm_triggerType f,
        scopeProviderKey = (if truthy (frm_providerScope f) then frm_providerScope f else JUndef),
        paramHours = (if frm_triggerType f = ''time.no_reply_after'' then Some (frm_hours f) else None)\<rparr>,
      rin_conditions = formConditions f, rin_actions = frm_actions f\<rparr>)"

definition ruleBody :: "RuleInput \<Rightarrow> jsval" where
  "ruleBody input = JObj [(''name'', JStr (rin_name input)), (''isEnabled'', JBool (rin_isEnabled input)),
     (''priority'', JNum (rin_priority input)), (''trigger'', triggerJson (rin_trigger input)),
     (''conditions'', conditionJson (rin_conditions input)), (''actions'', JArr (map actionJson (rin_actions input)))]"

text \<open>Saving: an edit is a conditional update of the rule it was loaded from, anything else a
  creation; on success the form is cleared, on failure it stays.\<close>

definition handleCreate ::
  "env \<Rightarrow> instant \<Rightarrow> jwt_claims \<Rightarrow> rule_form \<Rightarrow> world \<Rightarrow> rule_form \<times> (exn + Rule) option \<times> world" where
  "handleCreate E now claims f s = (case formInput f of
      None \<Rightarrow> (f, None, s)
    | Some input \<Rightarrow> (case frm_editing f of
        Some (i, version) \<Rightarrow>
          (case updateRule now i (ruleBody input) claims (Some (natDigits version)) s of
             ((_, r), s1) \<Rightarrow> ((case r of Inl _ \<Rightarrow> f | Inr _ \<Rightarrow> handleCancelEdit f), Some r, s1))
      | None \<Rightarrow>
          (case createRule E now (ruleBody input) claims s of
             (r, s1) \<Rightarrow> ((case r of Inl _ \<Rightarrow> f
                | Inr _ \<Rightarrow> f\<lparr>frm_name := [], frm_leaves := [emptyLeaf], frm_actions := [emptyAction]\<rparr>), Some r, s1))))"

definition handleToggleEnabled :: "instant \<Rightarrow> jwt_claims \<Rightarrow> Rule \<Rightarrow> world \<Rightarrow> (exn + Rule) \<times> world" where
  "handleToggleEnabled now claims r s =
     (case updateRule now (rul_id r) (JObj [(''isEnabled'', JBool (\<not> rul_isEnabled r))]) claims (Some (natDigits (rul_version r))) s of
        ((_, x), s1) \<Rightarrow> (x, s1))"

section \<open>Reading back what is sent\<close>

text \<open>A condition the columns hold exactly: its values are JSON, and an operator that is not
  one of the known ones does not have the name of one.\<close>

fun storable :: "ConditionNode \<Rightarrow> bool" where
  "storable (ConditionLeaf field op v) \<longleftrightarrow> operatorOf (operatorText op) = op \<and> jsonColumn v = v"
| "storable (ConditionGroup op children) \<longleftrightarrow> list_all storable children"

lemma hasMember_JObj: "hasMember (JObj kvs) k = (map_of kvs k \<noteq> None)"
  by (simp add: hasMember_def)

lemma groupOp_text: "map_of groupOps (groupOpText op) = Some op"
  by (cases op) (simp_all add: groupOps_def groupOpText_def)

lemma jsonColumn_undef: "jsonColumn v = JUndef \<longleftrightarrow> v = JUndef"
  by (cases v rule: jsonColumn.cases) auto

lemma conditionJson_object: "\<exists>kvs. conditionJson c = JObj kvs"
  by (cases c) (simp_all add: present_def)

lemma isConditionNode_group:
  "isConditionNode (JObj [(''op'', JStr (groupOpText op)), (''children'', JArr xs)]) = list_all isConditionNode xs"
  by (subst isConditionNode.simps) (simp add: hasMember_JObj getProp_def groupOpOf_def groupOp_text)

lemma readCondition_group:
  "readCondition (JObj [(''op'', JStr (groupOpText op)), (''children'', JArr xs)]) = ConditionGroup op (map readCondition xs)"
  by (subst readCondition.simps) (simp add: getProp_def groupOpOf_def groupOp_text)

lemma conditionJson_back:
  "storable c \<Longrightarrow> isConditionNode (conditionJson c) \<and> readCondition (conditionJson c) = c \<and>
     jsonColumn (conditionJson c) = conditionJson c"
proof (induction c)
  case (ConditionLeaf field op v)
  then show ?case
    by (simp add: present_def isConditionNode.simps readCondition.simps hasMember_JObj getProp_def getObjProto_def
        objectMethods_def groupOpOf_def isText_def textOf_def)
next
  case (ConditionGroup op children)
  have "map readCondition (map conditionJson children) = children"
    using ConditionGroup by (simp add: list_all_iff map_idI)
  moreover have "conditionJson c \<noteq> JUndef" for c
    using conditionJson_object [of c] by auto
  then have "map (\<lambda>x. if x = JUndef then JNull else jsonColumn x) (map conditionJson children) = map conditionJson children"
    using ConditionGroup by (simp add: list_all_iff)
  moreover have "list_all isConditionNode (map conditionJson children)"
    using ConditionGroup by (simp add: list_all_iff)
  ultimately show ?case
    by (simp only: conditionJson.simps isConditionNode_group readCondition_group jsonColumn.simps) simp
qed

end
