(* ===== verification/Web_Rules_Properties.thy ===== *)
theory Web_Rules_Properties
  imports Web_Rules Rules_Properties
begin

text \<open>
  What saving through the rule form does: the server reads back exactly the input the
  form built, and an edit saved without a change still rewrites parts of the rule.
\<close>

section \<open>A rule body is read back as it was built\<close>

definition storableTrigger :: "RuleTrigger \<Rightarrow> bool" where
  "storableTrigger t \<longleftrightarrow> isRegisteredTrigger (trigType t) \<and> jsonColumn (scopeProviderKey t) = scopeProviderKey t \<and>
     (case paramHours t of None \<Rightarrow> trigType t \<noteq> ''time.no_reply_after''
      | Some h \<Rightarrow> h \<notin> {NaN, PosInf, NegInf} \<and> (trigType t = ''time.no_reply_after'' \<longrightarrow> \<not> numLeq h (Fin 0)))"

definition storableAction :: "ActionStep \<Rightarrow> bool" where
  "storableAction a \<longleftrightarrow> jsonColumn (step_params a) = step_params a"

definition storableInput :: "RuleInput \<Rightarrow> bool" where
  "storableInput input \<longleftrightarrow> rin_name input \<noteq> [] \<and> trim (rin_name input) = rin_name input \<and>
     storableTrigger (rin_trigger input) \<and> storable (rin_conditions input) \<and>
     rin_actions input \<noteq> [] \<and> list_all storableAction (rin_actions input)"

lemma jsonColumn_num: "n \<notin> {NaN, PosInf, NegInf} \<Longrightarrow> jsonColumn (JNum n) = JNum n"
  by (cases n) simp_all

lemma triggerJson_back:
  assumes "storableTrigger t"
  shows "isRuleTrigger (triggerJson t)" "textOf (getProp (triggerJson t) ''type'') = trigType t"
    "trigType t = ''time.no_reply_after'' \<Longrightarrow> hasHours (triggerJson t)" "readTrigger (jsonColumn (triggerJson t)) = t"
proof -
  have ty: "getProp (triggerJson t) ''type'' = JStr (trigType t)"
    by (simp add: triggerJson_def present_def getProp_def)
  then show "isRuleTrigger (triggerJson t)" "textOf (getProp (triggerJson t) ''type'') = trigType t"
    using assms by (simp_all add: isRuleTrigger_def storableTrigger_def isText_def textOf_def truthy_def triggerJson_def present_def)
  show "hasHours (triggerJson t)" if "trigType t = ''time.no_reply_after''"
    using assms that by (auto simp: storableTrigger_def hasHours_def triggerJson_def present_def getProp_def truthy_def split: option.splits)
  show "readTrigger (jsonColumn (triggerJson t)) = t"
    using assms by (cases t) (auto simp: storableTrigger_def readTrigger_def triggerJson_def present_def getProp_def
        getObjProto_def objectMethods_def textOf_def numberOf_def jsonColumn_undef jsonColumn_num split: option.splits)
qed

lemma actionJson_back:
  "storableAction a \<Longrightarrow> isActionNode (actionJson a) \<and> readAction (jsonColumn (actionJson a)) = a"
  by (cases a) (simp add: storableAction_def isActionNode_def readAction_def actionJson_def present_def getProp_def
      getObjProto_def objectMethods_def isText_def textOf_def)

lemma ruleBody_parts:
  "getProp (ruleBody input) ''name'' = JStr (rin_name input)" "getProp (ruleBody input) ''isEnabled'' = JBool (rin_isEnabled input)"
  "getProp (ruleBody input) ''priority'' = JNum (rin_priority input)" "getProp (ruleBody input) ''trigger'' = triggerJson (rin_trigger input)"
  "getProp (ruleBody input) ''conditions'' = conditionJson (rin_conditions input)"
  "getProp (ruleBody input) ''actions'' = JArr (map actionJson (rin_actions input))"
  by (simp_all add: ruleBody_def getProp_def)

lemma validate_ruleBody:
  assumes "storableInput input"
  shows "validateRuleInput (ruleBody input) = Inr input"
proof -
  have a: "list_all isActionNode (map actionJson (rin_actions input))"
    "map (\<lambda>a. readAction (jsonColumn a)) (map actionJson (rin_actions input)) = rin_actions input"
    using assms actionJson_back by (auto simp: storableInput_def list_all_iff intro: map_idI)
  have t: "storableTrigger (rin_trigger input)" and c: "storable (rin_conditions input)" and n: "rin_name input \<noteq> []"
    "trim (rin_name input) = rin_name input" "rin_actions input \<noteq> []"
    using assms by (simp_all add: storableInput_def)
  have o: "isObjectType (ruleBody input)" "ruleBody input \<noteq> JNull" by (simp_all add: ruleBody_def)
  show ?thesis
    using a n o triggerJson_back [OF t] conditionJson_back [OF c]
    by (simp add: validateRuleInput_def Let_def ruleBody_parts isText_def textOf_def elements_def del: map_map)
qed

text \<open>A body with all its parts is validated alone: nothing of the stored rule remains.\<close>

lemma editInput_ruleBody:
  assumes "storableInput input"
  shows "editInput (ruleBody input) existing = Inr input"
proof -
  have "triggerJson t = JObj kvs \<Longrightarrow> \<not> nullish (JObj kvs)" for t kvs by (simp add: nullish_def)
  moreover obtain kvs where "triggerJson (rin_trigger input) = JObj kvs" by (simp add: triggerJson_def present_def)
  moreover obtain kvs' where "conditionJson (rin_conditions input) = JObj kvs'" using conditionJson_object by blast
  ultimately have "editInput (ruleBody input) existing = validateRuleInput (ruleBody input)"
    using assms by (simp add: editInput_def Let_def ruleBody_parts orElse_def nullish_def truthy_def storableInput_def)
      (simp add: ruleBody_def)
  then show ?thesis using validate_ruleBody [OF assms] by simp
qed

section \<open>Saving an edit unchanged\<close>

text \<open>The form sends the bare version, without quotes.\<close>

lemma ifMatch_digits: "parseETagHeader (Some (natDigits v)) = Some (natDigits v)"
proof -
  have d: "list_all isDigit (natDigits v)" "natDigits v \<noteq> []" using natDigits_digits by auto
  then have sp: "\<forall>c\<in>set (natDigits v). \<not> isSpace c" by (auto simp: list_all_iff isDigit_not_space)
  have q: "\<not> isDigit (CHR 0x22)" "\<not> isDigit (CHR ''W'')" by code_simp+
  obtain c cs where c: "natDigits v = c # cs" using d(2) by (cases "natDigits v") auto
  then have "dropPrefix ''W/'' (natDigits v) = natDigits v" "dropPrefix quote (natDigits v) = natDigits v"
    using d(1) q by (auto simp: dropPrefix_def quote_def)
  moreover have "isDigit (last (natDigits v))" using d by (simp add: list_all_iff)
  then have "last (natDigits v) \<noteq> CHR 0x22" using q by metis
  then have "dropSuffix quote (natDigits v) = natDigits v"
    using d(2) by (cases "natDigits v" rule: rev_cases) (auto simp: dropSuffix_def endsWith_def quote_def startsWith_iff)
  ultimately show ?thesis using trim_none [OF sp] d(2) by (simp add: parseETagHeader_def nonEmpty_def)
qed

definition inputOf :: "Rule \<Rightarrow> RuleInput" where
  "inputOf r = \<lparr>rin_name = rul_name r, rin_isEnabled = rul_isEnabled r, rin_priority = Fin (of_int (rul_priority r)),
     rin_trigger = rul_trigger r, rin_conditions = rul_conditions r, rin_actions = rul_actions r\<rparr>"

text \<open>The form shows the whole trigger: a scope that is not blank, and hours only where the
  trigger takes them.\<close>

definition shownTrigger :: "RuleTrigger \<Rightarrow> bool" where
  "shownTrigger t \<longleftrightarrow> (scopeProviderKey t = JUndef \<or> truthy (scopeProviderKey t)) \<and>
     (paramHours t \<noteq> None \<longrightarrow> trigType t = ''time.no_reply_after'')"

lemma emptyLeaf_storable: "storable emptyLeaf"
  by (simp add: emptyLeaf_def operatorText_def operatorNames_def operatorOf_def)

lemma formRows_storable: "storable c \<Longrightarrow> list_all storable (snd (formRows c))"
  by (cases c) (simp_all add: emptyLeaf_storable)

lemma formConditions_storable: "list_all storable (frm_leaves f) \<Longrightarrow> storable (formConditions f)"
  by (auto simp: formConditions_def split: list.splits)

lemma formInput_unchanged:
  assumes "storableInput (inputOf r)" "shownTrigger (rul_trigger r)"
  shows "formInput (handleStartEdit r) = Some ((inputOf r)\<lparr>rin_isEnabled := True, rin_priority := Fin 0,
     rin_conditions := formConditions (handleStartEdit r)\<rparr>)"
proof -
  have "\<lparr>trigType = trigType t,
      scopeProviderKey = (if truthy (orElse (scopeProviderKey t) (JStr [])) then orElse (scopeProviderKey t) (JStr []) else JUndef),
      paramHours = (if trigType t = ''time.no_reply_after'' then Some (case paramHours t of Some h \<Rightarrow> h | None \<Rightarrow> Fin 48) else None)\<rparr> = t"
    if "shownTrigger t" "storableTrigger t" for t
    using that by (cases t) (auto simp: shownTrigger_def storableTrigger_def orElse_def nullish_def truthy_def split: option.splits)
  then show ?thesis
    using assms by (simp add: formInput_def handleStartEdit_def inputOf_def storableInput_def cong: if_cong split del: if_split)
qed

text \<open>The condition a save makes of a rule's condition, and what it decides.\<close>

lemma every_single: "everyChild re now ctx [c] = evaluateConditionTree re now ctx c"
  by (simp split: option.splits bool.splits)

lemma some_single: "someChild re now ctx [c] = evaluateConditionTree re now ctx c"
  by (simp split: option.splits bool.splits)

definition formVerdict :: "ConditionNode \<Rightarrow> bool option \<Rightarrow> bool option" where
  "formVerdict c decided = (case c of
      ConditionLeaf field op v \<Rightarrow> decided
    | ConditionGroup op children \<Rightarrow> if children = [] then Some False else if op = NOT then map_option Not decided else decided)"

lemma formConditions_verdict:
  assumes "resolveField now ''message.bodyText'' ctx \<noteq> JBool True"
  shows "evaluateConditionTree re now ctx (formConditions (handleStartEdit r)) =
    formVerdict (rul_conditions r) (evaluateConditionTree re now ctx (rul_conditions r))"
proof (cases "rul_conditions r")
  case (ConditionLeaf field op v)
  then show ?thesis by (simp add: formConditions_def handleStartEdit_def formVerdict_def)
next
  case (ConditionGroup op children)
  have "map_option Not (map_option Not x) = x" for x by (cases x) simp_all
  moreover have "strictEq x (JBool True) \<longleftrightarrow> x = JBool True" for x by (cases x) simp_all
  ultimately show ?thesis
    using assms
    by (cases children; cases "tl children"; cases op)
      (simp_all add: ConditionGroup formConditions_def handleStartEdit_def formVerdict_def every_single some_single emptyLeaf_def
        del: everyChild.simps someChild.simps)
qed

text \<open>A conditional write at the version the row has writes that row.\<close>

lemma writeEdit_current:
  assumes "liveRule i claims s = Some r" "distinct (map rul_id (rules s))"
    and "intColumn (expectedVersion (fst edit)) = Some (int (rul_version r))" "intColumn (rin_priority (snd edit)) = Some p"
  obtains s' where "writeEdit now i claims edit s =
      ((Some (etagFor (rul_version r + 1)), Inr (writeRule now (snd edit) p r)), s')"
    "writeRule now (snd edit) p r \<in> set (rules s')"
proof -
  let ?same = "ruleAt i (jwt_workspaceId claims) (int (rul_version r))"
  let ?rs = "updateMany ?same (writeRule now (snd edit) p) (rules s)"
  have r: "r \<in> set (rules s)" "rul_id r = i" "?same r"
    using findFirst_SomeD [OF assms(1) [unfolded liveRule_def]] by (auto simp: ruleAt_def)
  then have w: "writeRule now (snd edit) p r \<in> set ?rs" by (auto simp: updateMany_def image_iff)
  have d: "distinct (map rul_id ?rs)" using assms(2) by (simp add: map_updateMany writeRule_row)
  obtain x where x: "findFirst (\<lambda>x. rul_id x = i) ?rs = Some x"
    using findFirst_ex [OF w, of "\<lambda>x. rul_id x = i"] r(2) by (auto simp: writeRule_row)
  then have "x \<in> set ?rs" "rul_id x = rul_id (writeRule now (snd edit) p r)"
    using findFirst_SomeD [OF x] r(2) by (simp_all add: writeRule_row)
  then have "x = writeRule now (snd edit) p r" using d w by (auto simp: distinct_map dest: inj_onD)
  then have "findFirst (\<lambda>x. rul_id x = i) ?rs = Some (writeRule now (snd edit) p r)" using x by simp
  moreover have "countWhere ?same (rules s) \<noteq> 0" using r by (auto simp: countWhere_0_iff)
  ultimately show thesis
    using w by (intro that [of "s\<lparr>rules := ?rs\<rparr>"]) (simp_all add: writeEdit_def assms(3,4) Let_def writeRule_row)
qed

text \<open>C40: saving a rule that was opened in the form and not changed does not leave it as it was.
  The save succeeds and keeps the name, the trigger and the actions, but it enables the
  rule, sets its priority to zero, and replaces its condition: one that was a NOT group now
  decides the opposite, and one with no children, which matches every message as an AND,
  now matches none.\<close>

theorem unedited_save_rewrites_rule:
  assumes "liveRule (rul_id r) claims s = Some r" "distinct (map rul_id (rules s))" "rul_version r < 2 ^ 31"
    and "storableInput (inputOf r)" "shownTrigger (rul_trigger r)"
  shows "\<exists>r' s'. handleCreate E now claims (handleStartEdit r) s = (emptyForm, Some (Inr r'), s') \<and> r' \<in> set (rules s') \<and>
    rul_id r' = rul_id r \<and> rul_name r' = rul_name r \<and> rul_trigger r' = rul_trigger r \<and> rul_actions r' = rul_actions r \<and>
    rul_isEnabled r' \<and> rul_priority r' = 0 \<and>
    (\<forall>re t ctx. resolveField t ''message.bodyText'' ctx \<noteq> JBool True \<longrightarrow>
       evaluateConditionTree re t ctx (rul_conditions r') =
       formVerdict (rul_conditions r) (evaluateConditionTree re t ctx (rul_conditions r)))"
proof -
  let ?f = "handleStartEdit r"
  let ?in = "(inputOf r)\<lparr>rin_isEnabled := True, rin_priority := Fin 0, rin_conditions := formConditions ?f\<rparr>"
  let ?edit = "(natDigits (rul_version r), ?in)"
  have "storable (formConditions ?f)"
    using assms(4) by (intro formConditions_storable) (simp add: handleStartEdit_def formRows_storable storableInput_def inputOf_def)
  then have st: "storableInput ?in" using assms(4) by (simp add: storableInput_def inputOf_def)
  have v: "intColumn (expectedVersion (fst ?edit)) = Some (int (rul_version r))" "intColumn (rin_priority (snd ?edit)) = Some 0"
    using assms(3) by (simp_all add: expectedVersion_tag intColumn_def)
  obtain s' where w: "writeEdit now (rul_id r) claims ?edit s = ((Some (etagFor (rul_version r + 1)), Inr (writeRule now ?in 0 r)), s')"
    "writeRule now ?in 0 r \<in> set (rules s')"
    by (rule writeEdit_current [OF assms(1,2) v]) (rule that; simp)
  have "readEdit (rul_id r) (ruleBody ?in) claims (Some (natDigits (rul_version r))) s = Inr ?edit"
    using assms(1) st by (simp add: readEdit_def editInput_ruleBody ifMatch_digits)
  moreover have "frm_editing ?f = Some (rul_id r, rul_version r)" by (simp add: handleStartEdit_def)
  ultimately have "handleCreate E now claims ?f s = (emptyForm, Some (Inr (writeRule now ?in 0 r)), s')"
    using w(1) formInput_unchanged [OF assms(4,5)] by (simp add: handleCreate_def handleCancelEdit_def updateRule_def)
  then show ?thesis
    using w(2) by (intro exI [of _ "writeRule now ?in 0 r"] exI [of _ s'])
      (simp add: writeRule_def formConditions_verdict inputOf_def)
qed

text \<open>A disabled rule of priority 5 that notifies of messages without the word \<open>ok\<close>: saved
  unchanged it notifies of those with it.\<close>

definition exceptRule :: Rule where
  "exceptRule = (sampleRule 1 5 (ConditionGroup NOT [ConditionLeaf ''message.bodyText'' Contains (JStr ''ok'')]))
     \<lparr>rul_isEnabled := False, rul_actions := [emptyAction]\<rparr>"

theorem unedited_save_rewrites_rule_witness:
  "\<exists>r' s'. handleCreate sampleEnv 7 rulesClaims (handleStartEdit exceptRule) (rulesWorld [exceptRule]) = (emptyForm, Some (Inr r'), s') \<and>
     rul_isEnabled r' \<and> rul_priority r' = 0 \<and>
     evaluateConditionTree (\<lambda>p t. None) 0 sampleContext (rul_conditions exceptRule) = Some True \<and>
     evaluateConditionTree (\<lambda>p t. None) 0 sampleContext (rul_conditions r') = Some False"
proof -
  have "liveRule (rul_id exceptRule) rulesClaims (rulesWorld [exceptRule]) = Some exceptRule"
    by (simp add: liveRule_def exceptRule_def sampleRule_def rulesClaims_def)
  moreover have "distinct (map rul_id (rules (rulesWorld [exceptRule])))" "rul_version exceptRule < 2 ^ 31"
    by (simp_all add: exceptRule_def sampleRule_def)
  moreover have "storableInput (inputOf exceptRule)" "shownTrigger (rul_trigger exceptRule)" by code_simp+
  moreover have "resolveField 0 ''message.bodyText'' sampleContext \<noteq> JBool True" by code_simp
  moreover have "evaluateConditionTree (\<lambda>p t. None) 0 sampleContext (rul_conditions exceptRule) = Some True" by code_simp
  moreover have "formVerdict (rul_conditions exceptRule) (Some True) = Some False" by code_simp
  ultimately show ?thesis
    using unedited_save_rewrites_rule [of exceptRule rulesClaims "rulesWorld [exceptRule]" sampleEnv 7] by metis
qed

end
