(* ===== verification/Preferences.thy ===== *)
theory Preferences
  imports Rules_Api
begin

text \<open>
  Notification preferences
  (\<open>notification-preferences/notification-preferences.controller.ts\<close>): the read, which
  answers with defaults until a row is there, and the edit under the optimistic lock,
  split at the read of the row; and the web client's form for them
  (\<open>apps/web/components/Rules.tsx\<close> and \<open>lib/api.ts\<close>).
\<close>

section \<open>Reading\<close>

definition NOT_YET_CREATED_ETAG :: string where
  "NOT_YET_CREATED_ETAG = ''new''"

definition preferenceOf :: "uuid \<times> uuid \<Rightarrow> NotificationPreference \<Rightarrow> bool" where
  "preferenceOf k p \<longleftrightarrow> (npf_workspaceId p, npf_userId p) = k"

definition callerKey :: "jwt_claims \<Rightarrow> uuid \<times> uuid" where
  "callerKey claims = (jwt_workspaceId claims, jwt_sub claims)"

definition preferenceVersion :: "NotificationPreference option \<Rightarrow> string" where
  "preferenceVersion existing = (case existing of Some p \<Rightarrow> natDigits (npf_version p) | None \<Rightarrow> NOT_YET_CREATED_ETAG)"

text \<open>A read's entity tag and its body: nothing when the caller has the version, the row,
  or the defaults, which have no id and no version.\<close>

datatype preference_body = NotModified | Saved NotificationPreference | Defaults uuid uuid

definition getPreferences :: "jwt_claims \<Rightarrow> string option \<Rightarrow> world \<Rightarrow> string \<times> preference_body" where
  "getPreferences claims ifNoneMatch s =
     (let existing = findFirst (preferenceOf (callerKey claims)) (notificationPreferences s) in
      (quote @ preferenceVersion existing @ quote,
       if parseETagHeader ifNoneMatch = Some (preferenceVersion existing) then NotModified
       else case existing of Some p \<Rightarrow> Saved p | None \<Rightarrow> Defaults (jwt_workspaceId claims) (jwt_sub claims)))"

section \<open>Editing\<close>

text \<open>\<open>TIME_PATTERN\<close>, which \<open>test\<close> applies to the text of its argument.\<close>

definition isClockTime :: "string \<Rightarrow> bool" where
  "isClockTime s = (case s of
      [a, b, c, d, e] \<Rightarrow>
        (a \<in> set ''01'' \<and> b \<in> set ''0123456789'' \<or> a = CHR ''2'' \<and> b \<in> set ''0123'') \<and> c = CHR '':'' \<and>
        d \<in> set ''012345'' \<and> e \<in> set ''0123456789''
    | _ \<Rightarrow> False)"

definition isTimeValue :: "text_of \<Rightarrow> jsval \<Rightarrow> bool" where
  "isTimeValue toText v \<longleftrightarrow> isClockTime (case v of JStr t \<Rightarrow> t | _ \<Rightarrow> toText v)"

text \<open>The validation and the read of the row: the version the caller expects, and whether
  there was a row.\<close>

definition readPreferences ::
  "text_of \<Rightarrow> jsval \<Rightarrow> jwt_claims \<Rightarrow> string option \<Rightarrow> world \<Rightarrow> exn + (string \<times> bool)" where
  "readPreferences toText dto claims ifMatch s = (case parseETagHeader ifMatch of
      None \<Rightarrow> Inl (HttpError 428 ''PRECONDITION_REQUIRED'')
    | Some expected \<Rightarrow>
        let times = [getProp dto ''silentHoursStart'', getProp dto ''silentHoursEnd''];
            keywords = getProp dto ''keywordAlerts'' in
        if nullish dto then Inl (PlainError ''TypeError'')
        else if list_ex (\<lambda>v. \<not> nullish v \<and> \<not> isTimeValue toText v) times then Inl (badRequest ''INVALID_TIME_FORMAT'')
        else if truthy keywords \<and> elements keywords = None then Inl (badRequest ''INVALID_KEYWORD_ALERTS'')
        else Inr (expected, findFirst (preferenceOf (callerKey claims)) (notificationPreferences s) \<noteq> None))"

text \<open>What the columns take of a member: a nullable text, a boolean, which an update also
  takes as a \<open>set\<close> operation, and a list of texts. A value they do not take is \<open>None\<close>.\<close>

definition nullableText :: "jsval \<Rightarrow> string option option" where
  "nullableText v = (case v of JStr t \<Rightarrow> Some (Some t) | JNull \<Rightarrow> Some None | _ \<Rightarrow> None)"

definition boolColumn :: "jsval \<Rightarrow> bool option" where
  "boolColumn v = (case v of JBool b \<Rightarrow> Some b | _ \<Rightarrow> None)"

definition boolUpdate :: "jsval \<Rightarrow> bool option" where
  "boolUpdate v = (case v of JObj [(''set'', JBool b)] \<Rightarrow> Some b | _ \<Rightarrow> boolColumn v)"

definition textList :: "jsval \<Rightarrow> string list option" where
  "textList v = (case v of JArr xs \<Rightarrow> if list_all isText xs then Some (map textOf xs) else None | _ \<Rightarrow> None)"

text \<open>A member that is not given leaves its column.\<close>

definition given :: "jsval \<Rightarrow> (jsval \<Rightarrow> 'a option) \<Rightarrow> 'a \<Rightarrow> 'a option" where
  "given v column old = (if v = JUndef then Some old else column v)"

definition newPreference :: "uuid \<Rightarrow> jsval \<Rightarrow> jwt_claims \<Rightarrow> NotificationPreference option" where
  "newPreference i dto claims =
     (case (nullableText (orElse (getProp dto ''silentHoursStart'') JNull), nullableText (orElse (getProp dto ''silentHoursEnd'') JNull),
        boolColumn (orElse (getProp dto ''vipOverrideEnabled'') (JBool True)), textList (orElse (getProp dto ''keywordAlerts'') (JArr []))) of
        (Some a, Some b, Some vip, Some ks) \<Rightarrow> Some \<lparr>npf_id = i, npf_workspaceId = jwt_workspaceId claims, npf_userId = jwt_sub claims,
          npf_silentHoursStart = a, npf_silentHoursEnd = b, npf_vipOverrideEnabled = vip, npf_keywordAlerts = ks, npf_version = 1\<rparr>
      | _ \<Rightarrow> None)"

definition editPreference :: "jsval \<Rightarrow> NotificationPreference \<Rightarrow> NotificationPreference option" where
  "editPreference dto p =
     (case (given (getProp dto ''silentHoursStart'') nullableText (npf_silentHoursStart p),
        given (getProp dto ''silentHoursEnd'') nullableText (npf_silentHoursEnd p),
        given (getProp dto ''vipOverrideEnabled'') boolUpdate (npf_vipOverrideEnabled p),
        given (getProp dto ''keywordAlerts'') textList (npf_keywordAlerts p)) of
        (Some a, Some b, Some vip, Some ks) \<Rightarrow> Some (p\<lparr>npf_silentHoursStart := a, npf_silentHoursEnd := b,
          npf_vipOverrideEnabled := vip, npf_keywordAlerts := ks, npf_version := npf_version p + 1\<rparr>)
      | _ \<Rightarrow> None)"

definition lockFailure :: exn where
  "lockFailure = HttpError 412 ''OPTIMISTIC_LOCK_FAILURE''"

text \<open>The first row: the unique index refuses a second one, the foreign keys a workspace or
  a user that is gone.\<close>

definition createPreference ::
  "env \<Rightarrow> jsval \<Rightarrow> jwt_claims \<Rightarrow> string \<Rightarrow> world \<Rightarrow> (string option \<times> (exn + NotificationPreference)) \<times> world" where
  "createPreference E dto claims expected s =
     (if expected \<noteq> NOT_YET_CREATED_ETAG then ((None, Inl lockFailure), s)
      else case newPreference (draw E s) dto claims of
        None \<Rightarrow> ((None, Inl invalidColumn), drawn 1 s)
      | Some p \<Rightarrow>
          if list_ex (preferenceOf (callerKey claims)) (notificationPreferences s) then ((None, Inl (PlainError ''P2002'')), drawn 1 s)
          else if \<not> list_ex (\<lambda>w. ws_id w = jwt_workspaceId claims) (workspaces s) \<or> \<not> list_ex (\<lambda>u. usr_id u = jwt_sub claims) (users s)
          then ((None, Inl (PlainError ''P2003'')), drawn 1 s)
          else ((Some (etagFor (npf_version p)), Inr p), (drawn 1 s)\<lparr>notificationPreferences := notificationPreferences s @ [p]\<rparr>))"

definition preferenceAt :: "uuid \<times> uuid \<Rightarrow> int \<Rightarrow> NotificationPreference \<Rightarrow> bool" where
  "preferenceAt k v p \<longleftrightarrow> preferenceOf k p \<and> int (npf_version p) = v"

text \<open>The conditional write. The arguments are refused whether or not a row has the version,
  so the columns are read on any row.\<close>

definition validEdit :: "jsval \<Rightarrow> bool" where
  "validEdit dto \<longleftrightarrow> editPreference dto \<lparr>npf_id = 0, npf_workspaceId = 0, npf_userId = 0, npf_silentHoursStart = None,
     npf_silentHoursEnd = None, npf_vipOverrideEnabled = True, npf_keywordAlerts = [], npf_version = 0\<rparr> \<noteq> None"

definition writePreference ::
  "jsval \<Rightarrow> jwt_claims \<Rightarrow> string \<Rightarrow> world \<Rightarrow> (string option \<times> (exn + NotificationPreference)) \<times> world" where
  "writePreference dto claims expected s =
     (case intColumn (expectedVersion expected) of
        Some v \<Rightarrow>
          if \<not> validEdit dto then ((None, Inl invalidColumn), s)
          else let same = preferenceAt (callerKey claims) v;
                   s1 = s\<lparr>notificationPreferences :=
                     updateMany same (\<lambda>p. the (editPreference dto p)) (notificationPreferences s)\<rparr> in
            (case findFirst (preferenceOf (callerKey claims)) (notificationPreferences s1) of
               None \<Rightarrow> ((None, Inl (PlainError ''P2025'')), s1)
             | Some p \<Rightarrow> ((Some (etagFor (npf_version p)),
                 if countWhere same (notificationPreferences s) = 0 then Inl lockFailure else Inr p), s1))
      | None \<Rightarrow> ((None, Inl invalidColumn), s))"

definition finishPreferences ::
  "env \<Rightarrow> jsval \<Rightarrow> jwt_claims \<Rightarrow> string \<times> bool \<Rightarrow> world \<Rightarrow> (string option \<times> (exn + NotificationPreference)) \<times> world" where
  "finishPreferences E dto claims edit s =
     (if snd edit then writePreference dto claims (fst edit) s else createPreference E dto claims (fst edit) s)"

definition updatePreferences ::
  "env \<Rightarrow> text_of \<Rightarrow> jsval \<Rightarrow> jwt_claims \<Rightarrow> string option \<Rightarrow> world \<Rightarrow> (string option \<times> (exn + NotificationPreference)) \<times> world" where
  "updatePreferences E toText dto claims ifMatch s = (case readPreferences toText dto claims ifMatch s of
      Inl e \<Rightarrow> ((None, Inl e), s)
    | Inr edit \<Rightarrow> finishPreferences E dto claims edit s)"

section \<open>The form of the web client\<close>

record web_preferences =
  wpf_silentHoursStart :: "string option"
  wpf_silentHoursEnd :: "string option"
  wpf_vipOverrideEnabled :: bool
  wpf_keywordAlerts :: "string list"
  wpf_version :: "nat option"

definition savedPreferences :: "NotificationPreference \<Rightarrow> web_preferences" where
  "savedPreferences p = \<lparr>wpf_silentHoursStart = npf_silentHoursStart p, wpf_silentHoursEnd = npf_silentHoursEnd p,
     wpf_vipOverrideEnabled = npf_vipOverrideEnabled p, wpf_keywordAlerts = npf_keywordAlerts p, wpf_version = Some (npf_version p)\<rparr>"

definition ifMatchForPreferences :: "web_preferences option \<Rightarrow> string" where
  "ifMatchForPreferences preferences = (case Option.bind preferences wpf_version of None \<Rightarrow> ''new'' | Some v \<Rightarrow> natDigits v)"

definition keywordsOf :: "string \<Rightarrow> string list" where
  "keywordsOf text = filter (\<lambda>k. k \<noteq> []) (map trim (splitOn (CHR '','') text))"

definition keywordsText :: "string list \<Rightarrow> string" where
  "keywordsText ks = joinWith '', '' ks"

definition textJson :: "string option \<Rightarrow> jsval" where
  "textJson t = (case t of Some (c # cs) \<Rightarrow> JStr (c # cs) | _ \<Rightarrow> JNull)"

definition preferencesBody :: "web_preferences option \<Rightarrow> string \<Rightarrow> jsval" where
  "preferencesBody preferences text = JObj [
     (''silentHoursStart'', textJson (Option.bind preferences wpf_silentHoursStart)),
     (''silentHoursEnd'', textJson (Option.bind preferences wpf_silentHoursEnd)),
     (''vipOverrideEnabled'', JBool (case preferences of None \<Rightarrow> True | Some p \<Rightarrow> wpf_vipOverrideEnabled p)),
     (''keywordAlerts'', JArr (map JStr (keywordsOf text)))]"

text \<open>The form's state is the last answer with the edits made to it, and the keyword text; a
  failed save leaves both.\<close>

definition handleSavePreferences ::
  "env \<Rightarrow> text_of \<Rightarrow> jwt_claims \<Rightarrow> web_preferences option \<times> string \<Rightarrow> world
    \<Rightarrow> (web_preferences option \<times> string) \<times> (exn + NotificationPreference) \<times> world" where
  "handleSavePreferences E toText claims form s =
     (case updatePreferences E toText (preferencesBody (fst form) (snd form)) claims (Some (ifMatchForPreferences (fst form))) s of
        ((_, r), s1) \<Rightarrow> ((case r of Inl _ \<Rightarrow> form | Inr p \<Rightarrow> (Some (savedPreferences p), keywordsText (npf_keywordAlerts p))), r, s1))"

end
