(* ===== verification/Preferences_Properties.thy ===== *)
theory Preferences_Properties
  imports Preferences Versioned_Rows Ingestion_Properties
begin

text \<open>
  What the preferences promise: the optimistic lock, as the contract of
  \<open>Versioned_Rows\<close>, and the times the rule engine reads from them.
\<close>

section \<open>Clock times\<close>

definition pairValue :: "char \<Rightarrow> char \<Rightarrow> nat" where
  "pairValue a b = 10 * (code a - 48) + (code b - 48)"

lemma pairValue_pads:
  "list_all (\<lambda>a. list_all (\<lambda>b. pairValue a b < 24 \<and> pad 2 (pairValue a b) = [a, b]) ''0123456789'') ''01''"
  "list_all (\<lambda>b. pairValue (CHR ''2'') b < 24 \<and> pad 2 (pairValue (CHR ''2'') b) = [CHR ''2'', b]) ''0123''"
  "list_all (\<lambda>d. list_all (\<lambda>e. pairValue d e < 60 \<and> pad 2 (pairValue d e) = [d, e]) ''0123456789'') ''012345''"
  by code_simp+

lemma hour_pads: "a \<in> set ''01'' \<and> b \<in> set ''0123456789'' \<or> a = CHR ''2'' \<and> b \<in> set ''0123'' \<Longrightarrow>
    pairValue a b < 24 \<and> pad 2 (pairValue a b) = [a, b]"
  using pairValue_pads(1,2) unfolding list_all_iff by blast

lemma minute_pads: "d \<in> set ''012345'' \<Longrightarrow> e \<in> set ''0123456789'' \<Longrightarrow>
    pairValue d e < 60 \<and> pad 2 (pairValue d e) = [d, e]"
  using pairValue_pads(3) unfolding list_all_iff by blast

lemma isClockTime_hhmm:
  assumes "isClockTime s"
  obtains h m where "h < 24" "m < 60" "s = hhmm h m"
proof -
  obtain a b d e where s: "s = [a, b, CHR '':'', d, e]"
    "a \<in> set ''01'' \<and> b \<in> set ''0123456789'' \<or> a = CHR ''2'' \<and> b \<in> set ''0123''" "d \<in> set ''012345''" "e \<in> set ''0123456789''"
    using assms by (auto simp: isClockTime_def split: list.splits)
  show thesis
    using hour_pads [OF s(2)] minute_pads [OF s(3,4)] by (intro that [of "pairValue a b" "pairValue d e"]) (simp_all add: s(1) hhmm_def)
qed

section \<open>Requests\<close>

text \<open>A save reads and validates in one state and writes in a later one; in between, and
  beside, other saves, the erasure of a workspace, and requests that leave the
  preferences alone.\<close>

inductive preferenceRequest :: "world \<Rightarrow> world \<Rightarrow> bool" where
  saved: "readPreferences toText dto claims ifMatch s0 = Inr edit \<Longrightarrow> finishPreferences E dto claims edit s = (x, s')
    \<Longrightarrow> preferenceRequest s s'"
| erased: "preferenceRequest s (eraseWorkspace w accounts s)"
| elsewhere: "notificationPreferences s' = notificationPreferences s \<Longrightarrow> preferenceRequest s s'"

definition clockPreference :: "NotificationPreference \<Rightarrow> bool" where
  "clockPreference p \<longleftrightarrow> (\<forall>t. npf_silentHoursStart p = Some t \<or> npf_silentHoursEnd p = Some t \<longrightarrow> isClockTime t)"

definition clockTimes :: "jsval \<Rightarrow> bool" where
  "clockTimes dto \<longleftrightarrow> (\<forall>k\<in>{''silentHoursStart'', ''silentHoursEnd''}. \<forall>t. nullableText (getProp dto k) = Some (Some t) \<longrightarrow> isClockTime t)"

lemma readPreferences_clock: "readPreferences toText dto claims ifMatch s0 = Inr edit \<Longrightarrow> clockTimes dto"
  by (auto simp: readPreferences_def clockTimes_def nullableText_def isTimeValue_def nullish_def Let_def
      split: option.splits if_splits jsval.splits)

lemma newPreference_clock: "clockTimes dto \<Longrightarrow> newPreference i dto claims = Some p \<Longrightarrow> clockPreference p"
  by (auto simp: newPreference_def clockTimes_def clockPreference_def orElse_def nullableText_def
      split: option.splits if_splits)

lemma editPreference_clock: "clockTimes dto \<Longrightarrow> clockPreference p \<Longrightarrow> editPreference dto p = Some p' \<Longrightarrow> clockPreference p'"
  by (auto simp: editPreference_def clockTimes_def clockPreference_def given_def split: option.splits if_splits)

lemma validEdit_some: "validEdit dto \<Longrightarrow> \<exists>p'. editPreference dto p = Some p'"
  by (auto simp: validEdit_def editPreference_def given_def split: option.splits if_splits)

text \<open>What a save does to the rows.\<close>

lemma finishPreferences_rows:
  assumes "finishPreferences E dto claims edit s = (x, s')"
  shows "notificationPreferences s' = notificationPreferences s \<or>
    (\<exists>p. newPreference (draw E s) dto claims = Some p \<and> \<not> list_ex (preferenceOf (callerKey claims)) (notificationPreferences s) \<and>
      notificationPreferences s' = notificationPreferences s @ [p]) \<or>
    (\<exists>v. validEdit dto \<and> notificationPreferences s' = updateMany (preferenceAt (callerKey claims) v) (\<lambda>p. the (editPreference dto p))
      (notificationPreferences s))"
  using assms
  by (auto simp: finishPreferences_def createPreference_def writePreference_def Let_def drawn_def
      split: if_splits option.splits)

lemma preferenceRequest_clock:
  assumes "preferenceRequest s s'" "list_all clockPreference (notificationPreferences s)"
  shows "list_all clockPreference (notificationPreferences s')"
  using assms
proof (induction rule: preferenceRequest.induct)
  case (saved toText dto claims ifMatch s0 edit E s x s')
  note c = readPreferences_clock [OF saved(1)]
  have e: "clockPreference (the (editPreference dto p))" if "validEdit dto" "clockPreference p" for p
    using validEdit_some [OF that(1), of p] editPreference_clock [OF c that(2)] by auto
  from finishPreferences_rows [OF saved(2)] show ?case
    using saved(3) newPreference_clock [OF c] e by (auto simp: list_all_iff updateMany_def)
next
  case (erased s w accounts)
  then show ?case by (auto simp: eraseWorkspace_def deleteMany_def list_all_iff)
qed simp

lemma preferenceRequests_clock:
  "preferenceRequest\<^sup>*\<^sup>* s s' \<Longrightarrow> list_all clockPreference (notificationPreferences s) \<Longrightarrow>
    list_all clockPreference (notificationPreferences s')"
  by (induction rule: rtranclp_induct) (auto intro: preferenceRequest_clock)

section \<open>The lock\<close>

definition prefKey :: "NotificationPreference \<Rightarrow> uuid \<times> uuid" where
  "prefKey p = (npf_workspaceId p, npf_userId p)"

definition prefContent :: "NotificationPreference \<Rightarrow> uuid \<times> string option \<times> string option \<times> bool \<times> string list" where
  "prefContent p = (npf_id p, npf_silentHoursStart p, npf_silentHoursEnd p, npf_vipOverrideEnabled p, npf_keywordAlerts p)"

text \<open>A request that does not create the row under the key: while there is one the unique
  index refuses another, and once its workspace is erased the foreign key does.\<close>

definition preferenceStep :: "uuid \<times> uuid \<Rightarrow> world \<Rightarrow> world \<Rightarrow> bool" where
  "preferenceStep k s s' \<longleftrightarrow> preferenceRequest s s' \<and>
     (k \<in> prefKey ` set (notificationPreferences s') \<longrightarrow> k \<in> prefKey ` set (notificationPreferences s))"

lemma preferenceOf_key: "preferenceOf k p \<longleftrightarrow> prefKey p = k"
  by (simp add: preferenceOf_def prefKey_def)

lemma newPreference_key: "newPreference i dto claims = Some p \<Longrightarrow> prefKey p = callerKey claims"
  by (auto simp: newPreference_def prefKey_def callerKey_def split: option.splits)

lemma editPreference_row:
  "validEdit dto \<Longrightarrow> prefKey (the (editPreference dto p)) = prefKey p \<and>
     npf_version (the (editPreference dto p)) = npf_version p + 1"
  using validEdit_some [of dto p] by (auto simp: editPreference_def prefKey_def split: option.splits)

lemma preferenceRequest_rows:
  assumes "preferenceRequest s s'"
  shows "(\<exists>p. notificationPreferences s' = notificationPreferences s @ [p] \<and> prefKey p \<notin> prefKey ` set (notificationPreferences s)) \<or>
    (\<exists>q. notificationPreferences s' = filter q (notificationPreferences s)) \<or>
    (\<exists>q f. notificationPreferences s' = updateMany q f (notificationPreferences s) \<and>
      (\<forall>p. prefKey (f p) = prefKey p \<and> npf_version (f p) = npf_version p + 1))"
  using assms
proof (induction rule: preferenceRequest.induct)
  case (saved toText dto claims ifMatch s0 edit E s x s')
  from finishPreferences_rows [OF saved(2)] consider "notificationPreferences s' = filter (\<lambda>_. True) (notificationPreferences s)"
    | p where "newPreference (draw E s) dto claims = Some p" "\<not> list_ex (preferenceOf (callerKey claims)) (notificationPreferences s)"
        "notificationPreferences s' = notificationPreferences s @ [p]"
    | v where "validEdit dto" "notificationPreferences s' =
        updateMany (preferenceAt (callerKey claims) v) (\<lambda>p. the (editPreference dto p)) (notificationPreferences s)"
    by auto
  then show ?case
  proof cases
    case 2
    then have "prefKey p \<notin> prefKey ` set (notificationPreferences s)"
      using newPreference_key [OF 2(1)] by (auto simp: list_ex_iff preferenceOf_key)
    then show ?thesis using 2(3) by blast
  next
    case 3
    then show ?thesis using editPreference_row [OF 3(1)] by blast
  qed blast
next
  case (erased s w accounts)
  then show ?case by (auto simp: eraseWorkspace_def deleteMany_def)
next
  case (elsewhere s' s)
  then have "notificationPreferences s' = filter (\<lambda>_. True) (notificationPreferences s)" by simp
  then show ?case by blast
qed

interpretation preferenceRows: versioned_rows notificationPreferences prefKey npf_version prefContent preferenceStep
proof
  fix k s s' p'
  assume st: "preferenceStep k s s'" and d: "distinct (map prefKey (notificationPreferences s))"
  then have r: "preferenceRequest s s'" by (simp add: preferenceStep_def)
  show "distinct (map prefKey (notificationPreferences s'))"
    using preferenceRequest_rows [OF r] d by (auto simp: distinct_map_filter map_updateMany)
  assume p': "p' \<in> set (notificationPreferences s')" "prefKey p' = k"
  then have k: "k \<in> prefKey ` set (notificationPreferences s)" using st by (auto simp: preferenceStep_def)
  from preferenceRequest_rows [OF r] consider p where "notificationPreferences s' = notificationPreferences s @ [p]"
      "prefKey p \<notin> prefKey ` set (notificationPreferences s)"
    | q where "notificationPreferences s' = filter q (notificationPreferences s)"
    | q f where "notificationPreferences s' = updateMany q f (notificationPreferences s)"
      "\<forall>p. prefKey (f p) = prefKey p \<and> npf_version (f p) = npf_version p + 1"
    by blast
  then show "\<exists>p\<in>set (notificationPreferences s). prefKey p = k \<and>
      (npf_version p < npf_version p' \<or> npf_version p' = npf_version p \<and> prefContent p' = prefContent p)"
  proof cases
    case 3
    obtain p where "p \<in> set (notificationPreferences s)" "p' = (if q p then f p else p)"
      by (rule updateMany_row [OF p'(1) [unfolded 3(1)]])
    then show ?thesis using 3(2) p'(2) by (intro bexI [of _ p]) (auto split: if_splits)
  qed (use p' k in auto)
qed

text \<open>A save that succeeds on the tag of a read found the preferences as they were read, and
  every later save on that tag is refused.\<close>

lemma writePreference_Inr:
  assumes "writePreference dto claims expected s = ((h, Inr p), s')" "distinct (map prefKey (notificationPreferences s))"
    and "intColumn (expectedVersion expected) = Some v"
  obtains row where "row \<in> set (notificationPreferences s)" "prefKey row = callerKey claims" "int (npf_version row) = v"
    "editPreference dto row = Some p" "h = Some (etagFor (npf_version p))" "p \<in> set (notificationPreferences s')"
proof -
  let ?same = "preferenceAt (callerKey claims) v"
  let ?f = "\<lambda>p. the (editPreference dto p)"
  have w: "validEdit dto" "countWhere ?same (notificationPreferences s) \<noteq> 0" "h = Some (etagFor (npf_version p))"
    "notificationPreferences s' = updateMany ?same ?f (notificationPreferences s)"
    "findFirst (preferenceOf (callerKey claims)) (notificationPreferences s') = Some p"
    using assms(1,3) by (auto simp: writePreference_def Let_def split: option.splits if_splits)
  obtain row where row: "row \<in> set (notificationPreferences s)" "?same row"
    using w(2) by (auto simp: countWhere_0_iff)
  have "?f row \<in> set (notificationPreferences s')" using row by (auto simp: w(4) updateMany_def image_iff)
  moreover have "distinct (map prefKey (notificationPreferences s'))"
    using assms(2) editPreference_row [OF w(1)] by (simp add: w(4) map_updateMany)
  moreover have p: "p \<in> set (notificationPreferences s')" "prefKey p = callerKey claims"
    using findFirst_SomeD [OF w(5)] by (auto simp: preferenceOf_key)
  ultimately have "p = ?f row"
    using row(2) editPreference_row [OF w(1), of row]
    by (auto simp: preferenceAt_def preferenceOf_key dest: preferenceRows.unique_row)
  then have "editPreference dto row = Some p" using validEdit_some [OF w(1), of row] by auto
  with row p w(3) that show thesis by (auto simp: preferenceAt_def preferenceOf_key)
qed

lemma save_finds_what_was_read:
  assumes "distinct (map prefKey (notificationPreferences s))" "seen \<in> set (notificationPreferences s)"
    and "prefKey seen = callerKey claims" "(preferenceStep (callerKey claims))\<^sup>*\<^sup>* s s1"
    and "writePreference dto claims expected s1 = ((h, Inr p), s2)"
    and "intColumn (expectedVersion expected) = Some (int (npf_version seen))"
  shows "\<exists>row\<in>set (notificationPreferences s1). prefContent row = prefContent seen \<and> editPreference dto row = Some p"
proof -
  obtain row where row: "row \<in> set (notificationPreferences s1)" "prefKey row = callerKey claims"
    "npf_version row = npf_version seen" "editPreference dto row = Some p"
    by (rule writePreference_Inr [OF assms(5) preferenceRows.steps_distinct [OF assms(4,1)] assms(6)]) (use that in simp)
  then show ?thesis using preferenceRows.same_version [OF assms(4,1-3) row(1-3)] by blast
qed

section \<open>Properties\<close>

text \<open>C30: the silent hours the rule engine applies are an arc of the 24-hour circle. Whatever
  saves, valid or not, racing or not, have been made, the preferences a run loads either
  lack a time, and then no hour is silent, or hold two times of day in HH:mm form, and
  then the silent minutes are those of the arc from the first to the second.\<close>

theorem saved_silent_hours_are_arcs:
  assumes "preferenceRequest\<^sup>*\<^sup>* s0 s" "notificationPreferences s0 = []"
    and "loadNotificationContext wsId s = (timezone, Some p)"
    and "clock timezone now = hhmm hc mc" "hc < 24" "mc < 60"
  shows "isSilentHoursActive clock (Some p) timezone now \<longleftrightarrow>
    (\<exists>h1<24. \<exists>m1<60. \<exists>h2<24. \<exists>m2<60. silentHoursStart p = Some (hhmm h1 m1) \<and> silentHoursEnd p = Some (hhmm h2 m2) \<and>
      (int (hc * 60 + mc) - int (h1 * 60 + m1)) mod 1440 < (int (h2 * 60 + m2) - int (h1 * 60 + m1)) mod 1440)"
    (is "_ \<longleftrightarrow> ?arc")
proof -
  have "list_all clockPreference (notificationPreferences s)"
    using preferenceRequests_clock [OF assms(1)] assms(2) by simp
  moreover obtain q where "q \<in> set (notificationPreferences s)" "silentHoursStart p = npf_silentHoursStart q"
    "silentHoursEnd p = npf_silentHoursEnd q"
    using assms(3) by (auto simp: loadNotificationContext_def split: option.splits dest: findFirst_SomeD)
  ultimately have clock: "isClockTime t" if "silentHoursStart p = Some t \<or> silentHoursEnd p = Some t" for t
    using that by (auto simp: list_all_iff clockPreference_def)
  show ?thesis
  proof (cases "\<exists>a b. silentHoursStart p = Some a \<and> silentHoursEnd p = Some b")
    case True
    then obtain a b where ab: "silentHoursStart p = Some a" "silentHoursEnd p = Some b" by blast
    obtain h1 m1 where a: "h1 < 24" "m1 < 60" "a = hhmm h1 m1" using isClockTime_hhmm clock ab(1) by metis
    obtain h2 m2 where b: "h2 < 24" "m2 < 60" "b = hhmm h2 m2" using isClockTime_hhmm clock ab(2) by metis
    have arc: "isSilentHoursActive clock (Some p) timezone now \<longleftrightarrow>
        (int (hc * 60 + mc) - int (x1 * 60 + y1)) mod 1440 < (int (x2 * 60 + y2) - int (x1 * 60 + y1)) mod 1440"
      if "x1 < 24" "y1 < 60" "x2 < 24" "y2 < 60" "silentHoursStart p = Some (hhmm x1 y1)" "silentHoursEnd p = Some (hhmm x2 y2)"
      for x1 y1 x2 y2
      by (rule silent_hours_circular) (use that assms(4-6) in simp_all)
    show ?thesis using a b ab arc by blast
  next
    case False
    then have "silentHoursStart p = None \<or> silentHoursEnd p = None" by auto
    then show ?thesis by (auto simp: isSilentHoursActive_def nonEmpty_def)
  qed
qed

definition nightJson :: jsval where
  "nightJson = preferencesBody (Some \<lparr>wpf_silentHoursStart = Some ''22:00'', wpf_silentHoursEnd = Some ''06:00'',
     wpf_vipOverrideEnabled = True, wpf_keywordAlerts = [], wpf_version = None\<rparr>) ''urgent, invoice''"

definition ownerWorld :: world where
  "ownerWorld = emptyWorld\<lparr>workspaces := [\<lparr>ws_id = 11, ws_organizationId = 1, ws_name = ''W'', ws_timezone = ''UTC'',
       ws_aiEnabled = False, ws_createdAt = 0, ws_deletedAt = None\<rparr>],
     users := [sampleUser 21 ''o''], members := [sampleMember 1 11 21 Owner]\<rparr>"

definition ownerClaims :: jwt_claims where
  "ownerClaims = \<lparr>jwt_sub = 21, jwt_workspaceId = 11, jwt_orgId = 1, jwt_role = Owner\<rparr>"

theorem saved_silent_hours_are_arcs_witness:
  "\<exists>x s p. updatePreferences sampleEnv (\<lambda>_. []) nightJson ownerClaims (Some ''new'') ownerWorld = (x, s) \<and>
     loadNotificationContext 11 s = (''UTC'', Some p) \<and> keywordAlerts p = [''urgent'', ''invoice''] \<and>
     isSilentHoursActive (\<lambda>_ _. hhmm 2 30) (Some p) ''UTC'' 0"
proof -
  obtain x s where u: "updatePreferences sampleEnv (\<lambda>_. []) nightJson ownerClaims (Some ''new'') ownerWorld = (x, s)"
    by (meson surj_pair)
  have e: "readPreferences (\<lambda>_. []) nightJson ownerClaims (Some ''new'') ownerWorld = Inr (''new'', False)" by code_simp
  then have f: "finishPreferences sampleEnv nightJson ownerClaims (''new'', False) ownerWorld = (x, s)"
    using u by (simp add: updatePreferences_def)
  have steps: "preferenceRequest\<^sup>*\<^sup>* ownerWorld s"
    using preferenceRequest.saved [OF e f] by blast
  define p where "p = \<lparr>silentHoursStart = Some (hhmm 22 0), silentHoursEnd = Some (hhmm 6 0), vipOverrideEnabled = True,
    keywordAlerts = [''urgent'', ''invoice'']\<rparr>"
  have night: "hhmm 22 0 = ''22:00''" "hhmm 6 0 = ''06:00''" by code_simp+
  have draw: "draw sampleEnv ownerWorld = 1" by (simp add: draw_def drawNth_def sampleEnv_def ownerWorld_def emptyWorld_def)
  obtain row where row: "newPreference (draw sampleEnv ownerWorld) nightJson ownerClaims = Some row"
      "npf_workspaceId row = 11" "npf_userId row = 21" "npf_silentHoursStart row = Some (hhmm 22 0)"
      "npf_silentHoursEnd row = Some (hhmm 6 0)" "npf_vipOverrideEnabled row" "npf_keywordAlerts row = [''urgent'', ''invoice'']"
  proof
    show "newPreference (draw sampleEnv ownerWorld) nightJson ownerClaims = Some \<lparr>npf_id = 1, npf_workspaceId = 11, npf_userId = 21,
        npf_silentHoursStart = Some (hhmm 22 0), npf_silentHoursEnd = Some (hhmm 6 0), npf_vipOverrideEnabled = True,
        npf_keywordAlerts = [''urgent'', ''invoice''], npf_version = 1\<rparr>"
      unfolding night draw by code_simp
  qed simp_all
  have "loadNotificationContext 11 s = (''UTC'', Some p)"
    using f row by (auto simp: p_def finishPreferences_def createPreference_def NOT_YET_CREATED_ETAG_def ownerWorld_def emptyWorld_def
        ownerClaims_def sampleUser_def sampleMember_def drawn_def loadNotificationContext_def ownerMembership_def
        preferenceOf_def callerKey_def)
  then have l': "loadNotificationContext 11 s = (''UTC'', Some p)" using f by simp
  have "isSilentHoursActive (\<lambda>_ _. hhmm 2 30) (Some p) ''UTC'' 0"
  proof (rule iffD2 [OF saved_silent_hours_are_arcs [OF steps _ l', of _ _ 2 30]])
    have "(int (2 * 60 + 30) - int (22 * 60 + 0)) mod 1440 < (int (6 * 60 + 0) - int (22 * 60 + 0)) mod (1440 :: int)" by simp
    then show "\<exists>h1<24. \<exists>m1<60. \<exists>h2<24. \<exists>m2<60. silentHoursStart p = Some (hhmm h1 m1) \<and> silentHoursEnd p = Some (hhmm h2 m2) \<and>
      (int (2 * 60 + 30) - int (h1 * 60 + m1)) mod 1440 < (int (h2 * 60 + m2) - int (h1 * 60 + m1)) mod 1440"
      by (intro exI [of _ 22] exI [of _ 0] exI [of _ 6] conjI) (simp_all add: p_def)
  qed (simp_all add: ownerWorld_def emptyWorld_def)
  then show ?thesis using u l' by (auto simp: p_def)
qed

end
