(* ===== verification/Discord_Gateway.thy ===== *)
theory Discord_Gateway
  imports Js_Value
begin

text \<open>
  The client of the Discord gateway
  (\<open>packages/connector-sdk/src/discord/discord-gateway-client.ts\<close>): its sockets, heartbeat,
  session and reconnect timers as a state that socket events, timers and \<open>stop\<close> move. The
  sockets are those of \<open>ws\<close>: an event arrives as long as its socket is not closed, and
  \<open>close\<close> only begins the closing. A handler that throws is \<open>None\<close>.
\<close>

section \<open>State\<close>

datatype ready_state = Connecting | Opened | Closing | Closed

record gateway_socket =
  gsk_url :: string
  gsk_canResume :: bool
  gsk_ready :: ready_state

datatype gateway_frame = HeartbeatFrame jsval | ResumeFrame string jsval jsval | IdentifyFrame string int

text \<open>The sockets in the order they were created, \<open>ws\<close> the place of the current one; the
  pending reconnects by their delay; what was sent, by socket, and what was delivered.\<close>

record gateway_client =
  gwc_ws :: "nat option"
  gwc_sockets :: "gateway_socket list"
  gwc_heartbeatTimer :: "jsval option"
  gwc_sequence :: jsval
  gwc_sessionId :: jsval
  gwc_resumeGatewayUrl :: jsval
  gwc_heartbeatAcked :: bool
  gwc_stopped :: bool
  gwc_reconnectAttempt :: nat
  gwc_timers :: "int list"
  gwc_sent :: "(nat \<times> gateway_frame) list"
  gwc_created :: "jsval list"
  gwc_errors :: "string list"

definition INTENTS :: int where
  "INTENTS = or (push_bit 0 1) (or (push_bit 9 1) (push_bit 15 1))"

definition MAX_RECONNECT_DELAY_MS :: int where
  "MAX_RECONNECT_DELAY_MS = 30000"

definition gatewayOpcodes :: "(string \<times> nat) list" where
  "gatewayOpcodes = [(''DISPATCH'', 0), (''HEARTBEAT'', 1), (''IDENTIFY'', 2), (''RESUME'', 6), (''RECONNECT'', 7),
     (''INVALID_SESSION'', 9), (''HELLO'', 10), (''HEARTBEAT_ACK'', 11)]"

definition isOpcode :: "string \<Rightarrow> jsval \<Rightarrow> bool" where
  "isOpcode name op \<longleftrightarrow> op = JNum (Fin (of_nat (the (map_of gatewayOpcodes name))))"

section \<open>Operations\<close>

definition readyOf :: "gateway_client \<Rightarrow> nat \<Rightarrow> ready_state" where
  "readyOf g i = (if i < length (gwc_sockets g) then gsk_ready (gwc_sockets g ! i) else Closed)"

definition setReady :: "nat \<Rightarrow> ready_state \<Rightarrow> gateway_client \<Rightarrow> gateway_client" where
  "setReady i r g = (if i < length (gwc_sockets g)
     then g\<lparr>gwc_sockets := (gwc_sockets g)[i := (gwc_sockets g ! i)\<lparr>gsk_ready := r\<rparr>]\<rparr> else g)"

text \<open>\<open>ws?.close()\<close> and \<open>ws?.terminate()\<close>: the close event comes later.\<close>

definition closeCurrent :: "gateway_client \<Rightarrow> gateway_client" where
  "closeCurrent g = (case gwc_ws g of
      None \<Rightarrow> g
    | Some i \<Rightarrow> if readyOf g i \<in> {Connecting, Opened} then setReady i Closing g else g)"

definition clearHeartbeat :: "gateway_client \<Rightarrow> gateway_client" where
  "clearHeartbeat g = g\<lparr>gwc_heartbeatTimer := None\<rparr>"

definition sendFrame :: "gateway_frame \<Rightarrow> gateway_client \<Rightarrow> gateway_client" where
  "sendFrame payload g = (case gwc_ws g of
      Some i \<Rightarrow> if readyOf g i = Opened then g\<lparr>gwc_sent := gwc_sent g @ [(i, payload)]\<rparr> else g
    | None \<Rightarrow> g)"

definition sendHeartbeat :: "gateway_client \<Rightarrow> gateway_client" where
  "sendHeartbeat g = (if \<not> gwc_heartbeatAcked g then closeCurrent g
     else let g1 = g\<lparr>gwc_heartbeatAcked := False\<rparr> in sendFrame (HeartbeatFrame (gwc_sequence g1)) g1)"

definition reconnectDelay :: "nat \<Rightarrow> int" where
  "reconnectDelay attempt = min MAX_RECONNECT_DELAY_MS (1000 * 2 ^ attempt)"

definition scheduleReconnect :: "gateway_client \<Rightarrow> gateway_client" where
  "scheduleReconnect g = (if gwc_stopped g then g
     else let g1 = clearHeartbeat g in
       g1\<lparr>gwc_timers := gwc_timers g1 @ [reconnectDelay (gwc_reconnectAttempt g1)],
         gwc_reconnectAttempt := gwc_reconnectAttempt g1 + 1\<rparr>)"

definition GATEWAY_URL :: string where
  "GATEWAY_URL = ''wss://gateway.discord.gg/?v=10&encoding=json''"

definition gatewayConnect :: "(jsval \<Rightarrow> string) \<Rightarrow> gateway_client \<Rightarrow> gateway_client" where
  "gatewayConnect toText g = (if gwc_stopped g then g
     else let canResume = truthy (gwc_sessionId g) \<and> truthy (gwc_resumeGatewayUrl g);
              url = if canResume then toText (gwc_resumeGatewayUrl g) @ ''/?v=10&encoding=json'' else GATEWAY_URL in
       g\<lparr>gwc_ws := Some (length (gwc_sockets g)),
         gwc_sockets := gwc_sockets g @ [\<lparr>gsk_url = url, gsk_canResume = canResume, gsk_ready = Connecting\<rparr>]\<rparr>)"

section \<open>Handlers\<close>

definition onOpen :: "nat \<Rightarrow> gateway_client \<Rightarrow> gateway_client" where
  "onOpen i g = (setReady i Opened g)\<lparr>gwc_reconnectAttempt := 0\<rparr>"

definition onHello :: "string \<Rightarrow> bool \<Rightarrow> jsval \<Rightarrow> gateway_client \<Rightarrow> gateway_client option" where
  "onHello botToken canResume d g = (if nullish d then None
     else let g1 = (clearHeartbeat g)\<lparr>gwc_heartbeatAcked := True, gwc_heartbeatTimer := Some (getProp d ''heartbeat_interval'')\<rparr> in
       Some (sendFrame (if canResume then ResumeFrame (''Bot '' @ botToken) (gwc_sessionId g1) (gwc_sequence g1)
         else IdentifyFrame (''Bot '' @ botToken) INTENTS) g1))"

definition onDispatch :: "jsval \<Rightarrow> jsval \<Rightarrow> gateway_client \<Rightarrow> gateway_client option" where
  "onDispatch t d g =
     (if t = JStr ''READY'' then (if nullish d then None
        else Some (g\<lparr>gwc_sessionId := getProp d ''session_id'', gwc_resumeGatewayUrl := getProp d ''resume_gateway_url''\<rparr>))
      else if t = JStr ''MESSAGE_CREATE'' then Some (g\<lparr>gwc_created := gwc_created g @ [d]\<rparr>)
      else Some g)"

text \<open>A message of the socket \<open>i\<close>: its text parsed, or \<open>None\<close> when that throws.\<close>

definition onMessageText :: "string \<Rightarrow> nat \<Rightarrow> jsval option \<Rightarrow> gateway_client \<Rightarrow> gateway_client option" where
  "onMessageText botToken i raw g = (case raw of
      None \<Rightarrow> Some g
    | Some payload \<Rightarrow>
        if nullish payload then None
        else let op = getProp payload ''op''; d = getProp payload ''d'';
                 g1 = (case getProp payload ''s'' of JNum n \<Rightarrow> g\<lparr>gwc_sequence := JNum n\<rparr> | _ \<Rightarrow> g) in
          if isOpcode ''HELLO'' op then onHello botToken (gsk_canResume (gwc_sockets g1 ! i)) d g1
          else if isOpcode ''DISPATCH'' op then onDispatch (getProp payload ''t'') d g1
          else if isOpcode ''HEARTBEAT_ACK'' op then Some (g1\<lparr>gwc_heartbeatAcked := True\<rparr>)
          else if isOpcode ''RECONNECT'' op then Some (closeCurrent g1)
          else if isOpcode ''INVALID_SESSION'' op
          then Some (scheduleReconnect (g1\<lparr>gwc_sessionId := JNull, gwc_resumeGatewayUrl := JNull\<rparr>))
          else Some g1)"

definition onClose :: "nat \<Rightarrow> gateway_client \<Rightarrow> gateway_client" where
  "onClose i g = (let g1 = clearHeartbeat (setReady i Closed g) in if gwc_stopped g1 then g1 else scheduleReconnect g1)"

definition gatewayStop :: "gateway_client \<Rightarrow> gateway_client" where
  "gatewayStop g = closeCurrent (clearHeartbeat (g\<lparr>gwc_stopped := True\<rparr>))"

definition connectDiscordGateway :: "(jsval \<Rightarrow> string) \<Rightarrow> gateway_client" where
  "connectDiscordGateway toText = gatewayConnect toText \<lparr>gwc_ws = None, gwc_sockets = [], gwc_heartbeatTimer = None,
     gwc_sequence = JNull, gwc_sessionId = JNull, gwc_resumeGatewayUrl = JNull, gwc_heartbeatAcked = True,
     gwc_stopped = False, gwc_reconnectAttempt = 0, gwc_timers = [], gwc_sent = [], gwc_created = [], gwc_errors = []\<rparr>"

section \<open>Runs\<close>

datatype gateway_event = TimerFires nat | SocketOpens nat | SocketMessage nat "jsval option" | SocketCloses nat
  | SocketFails nat string | HeartbeatTick | StopCalled

fun possible :: "gateway_event \<Rightarrow> gateway_client \<Rightarrow> bool" where
  "possible (TimerFires k) g \<longleftrightarrow> k < length (gwc_timers g)"
| "possible (SocketOpens i) g \<longleftrightarrow> readyOf g i = Connecting"
| "possible (SocketMessage i raw) g \<longleftrightarrow> readyOf g i \<in> {Opened, Closing}"
| "possible (SocketCloses i) g \<longleftrightarrow> readyOf g i \<noteq> Closed"
| "possible (SocketFails i msg) g \<longleftrightarrow> readyOf g i \<noteq> Closed"
| "possible HeartbeatTick g \<longleftrightarrow> gwc_heartbeatTimer g \<noteq> None"
| "possible StopCalled g \<longleftrightarrow> True"

definition dropNth :: "nat \<Rightarrow> 'a list \<Rightarrow> 'a list" where
  "dropNth k xs = take k xs @ drop (Suc k) xs"

fun handleEvent :: "(jsval \<Rightarrow> string) \<Rightarrow> string \<Rightarrow> gateway_event \<Rightarrow> gateway_client \<Rightarrow> gateway_client option" where
  "handleEvent toText botToken (TimerFires k) g = Some (gatewayConnect toText (g\<lparr>gwc_timers := dropNth k (gwc_timers g)\<rparr>))"
| "handleEvent toText botToken (SocketOpens i) g = Some (onOpen i g)"
| "handleEvent toText botToken (SocketMessage i raw) g = onMessageText botToken i raw g"
| "handleEvent toText botToken (SocketCloses i) g = Some (onClose i g)"
| "handleEvent toText botToken (SocketFails i msg) g = Some (g\<lparr>gwc_errors := gwc_errors g @ [msg]\<rparr>)"
| "handleEvent toText botToken HeartbeatTick g = Some (sendHeartbeat g)"
| "handleEvent toText botToken StopCalled g = Some (gatewayStop g)"

fun gatewayRun :: "(jsval \<Rightarrow> string) \<Rightarrow> string \<Rightarrow> gateway_event list \<Rightarrow> gateway_client \<Rightarrow> gateway_client option" where
  "gatewayRun toText botToken [] g = Some g"
| "gatewayRun toText botToken (e # es) g =
     (if possible e g then Option.bind (handleEvent toText botToken e g) (gatewayRun toText botToken es) else None)"

end
