(* ===== verification/Gateway_Properties.thy ===== *)
theory Gateway_Properties
  imports Discord_Gateway
begin

text \<open>
  What the gateway client keeps in any order of socket events and timers: the number of
  its connections, and what stopping ends.
\<close>

section \<open>Connections\<close>

text \<open>A connection is a socket that is not closed, or a reconnect that is to open one.\<close>

definition liveSockets :: "gateway_client \<Rightarrow> nat" where
  "liveSockets g = length (filter (\<lambda>k. gsk_ready k \<noteq> Closed) (gwc_sockets g))"

definition connections :: "gateway_client \<Rightarrow> nat" where
  "connections g = liveSockets g + length (gwc_timers g)"

definition isInvalidSession :: "gateway_event \<Rightarrow> bool" where
  "isInvalidSession e = (case e of
      SocketMessage i (Some p) \<Rightarrow> isOpcode ''INVALID_SESSION'' (getProp p ''op'') | _ \<Rightarrow> False)"

definition invalidSessions :: "gateway_event list \<Rightarrow> nat" where
  "invalidSessions es = length (filter isInvalidSession es)"

lemma filter_update:
  "i < length xs \<Longrightarrow> length (filter P (xs[i := x])) + (if P (xs ! i) then 1 else 0) = length (filter P xs) + (if P x then 1 else 0)"
proof (induction xs arbitrary: i)
  case (Cons y ys)
  then show ?case by (cases i) auto
qed simp

lemma setReady_live:
  assumes "readyOf g i \<noteq> Closed"
  shows "liveSockets (setReady i r g) + (if r = Closed then 1 else 0) = liveSockets g"
proof -
  have i: "i < length (gwc_sockets g)" "gsk_ready (gwc_sockets g ! i) \<noteq> Closed"
    using assms by (auto simp: readyOf_def split: if_splits)
  show ?thesis
    using filter_update [OF i(1), of "\<lambda>k. gsk_ready k \<noteq> Closed" "(gwc_sockets g ! i)\<lparr>gsk_ready := r\<rparr>"] i
    by (auto simp: liveSockets_def setReady_def split: if_splits)
qed

lemma setReady_frame [simp]:
  "gwc_timers (setReady i r g) = gwc_timers g" "gwc_stopped (setReady i r g) = gwc_stopped g"
  "length (gwc_sockets (setReady i r g)) = length (gwc_sockets g)" "gwc_created (setReady i r g) = gwc_created g"
  "gwc_ws (setReady i r g) = gwc_ws g"
  by (simp_all add: setReady_def)

lemma closeCurrent_frame [simp]:
  "gwc_timers (closeCurrent g) = gwc_timers g" "gwc_stopped (closeCurrent g) = gwc_stopped g"
  "length (gwc_sockets (closeCurrent g)) = length (gwc_sockets g)" "gwc_created (closeCurrent g) = gwc_created g"
  by (simp_all add: closeCurrent_def split: option.splits)

lemma closeCurrent_live [simp]: "liveSockets (closeCurrent g) = liveSockets g"
  using setReady_live [of g _ Closing] by (auto simp: closeCurrent_def split: option.splits)

lemma sendFrame_frame [simp]:
  "gwc_timers (sendFrame p g) = gwc_timers g" "gwc_stopped (sendFrame p g) = gwc_stopped g"
  "gwc_sockets (sendFrame p g) = gwc_sockets g" "gwc_created (sendFrame p g) = gwc_created g"
  by (simp_all add: sendFrame_def split: option.splits)

lemma sendFrame_live [simp]: "liveSockets (sendFrame p g) = liveSockets g"
  by (simp add: liveSockets_def)

lemma clearHeartbeat_frame [simp]:
  "gwc_timers (clearHeartbeat g) = gwc_timers g" "gwc_stopped (clearHeartbeat g) = gwc_stopped g"
  "gwc_sockets (clearHeartbeat g) = gwc_sockets g" "gwc_reconnectAttempt (clearHeartbeat g) = gwc_reconnectAttempt g"
  "gwc_created (clearHeartbeat g) = gwc_created g"
  by (simp_all add: clearHeartbeat_def)

lemma live_sockets: "gwc_sockets g = gwc_sockets g' \<Longrightarrow> liveSockets g = liveSockets g'"
  by (simp add: liveSockets_def)

lemma scheduleReconnect_connections:
  "\<not> gwc_stopped g \<Longrightarrow> connections (scheduleReconnect g) = connections g + 1"
  "gwc_stopped (scheduleReconnect g) = gwc_stopped g"
  "gwc_sockets (scheduleReconnect g) = gwc_sockets g"
  by (simp_all add: scheduleReconnect_def Let_def connections_def liveSockets_def)

lemma opcodes_differ:
  "isOpcode ''INVALID_SESSION'' op \<Longrightarrow> \<not> isOpcode ''HELLO'' op \<and> \<not> isOpcode ''DISPATCH'' op \<and>
     \<not> isOpcode ''HEARTBEAT_ACK'' op \<and> \<not> isOpcode ''RECONNECT'' op"
  by (simp add: isOpcode_def gatewayOpcodes_def)

definition sameConnections :: "gateway_client \<Rightarrow> gateway_client \<Rightarrow> bool" where
  "sameConnections g g' \<longleftrightarrow> gwc_stopped g' = gwc_stopped g \<and> length (gwc_sockets g') = length (gwc_sockets g) \<and>
     connections g' = connections g"

lemma sameConnectionsI:
  "gwc_stopped g' = gwc_stopped g \<Longrightarrow> gwc_sockets g' = gwc_sockets g \<Longrightarrow> gwc_timers g' = gwc_timers g \<Longrightarrow> sameConnections g g'"
  by (simp add: sameConnections_def connections_def liveSockets_def)

lemma onHello_same: "onHello tok c d g = Some g' \<Longrightarrow> sameConnections g g'"
  by (rule sameConnectionsI) (auto simp: onHello_def Let_def split: if_splits)

lemma onDispatch_same: "onDispatch t d g = Some g' \<Longrightarrow> sameConnections g g'"
  by (rule sameConnectionsI) (auto simp: onDispatch_def split: if_splits)

lemma closeCurrent_same: "sameConnections g (closeCurrent g)"
  by (simp add: sameConnections_def connections_def)

lemma if_chain: "(if a then x else if b then y else if c then Some u else if d then Some v else Some w) = Some z \<Longrightarrow>
    x = Some z \<or> y = Some z \<or> z = u \<or> z = v \<or> z = w"
  by (simp split: if_splits)

lemma message_cases:
  assumes "onMessageText tok i (Some p) g = Some g'" "\<not> isOpcode ''INVALID_SESSION'' (getProp p ''op'')"
  defines "g1 \<equiv> (case getProp p ''s'' of JNum n \<Rightarrow> g\<lparr>gwc_sequence := JNum n\<rparr> | _ \<Rightarrow> g)"
  shows "onHello tok (gsk_canResume (gwc_sockets g1 ! i)) (getProp p ''d'') g1 = Some g' \<or>
    onDispatch (getProp p ''t'') (getProp p ''d'') g1 = Some g' \<or> g' = g1\<lparr>gwc_heartbeatAcked := True\<rparr> \<or>
    g' = closeCurrent g1 \<or> g' = g1"
proof -
  have "\<not> nullish p" using assms(1) by (auto simp: onMessageText_def)
  then have "(if isOpcode ''HELLO'' (getProp p ''op'') then onHello tok (gsk_canResume (gwc_sockets g1 ! i)) (getProp p ''d'') g1
      else if isOpcode ''DISPATCH'' (getProp p ''op'') then onDispatch (getProp p ''t'') (getProp p ''d'') g1
      else if isOpcode ''HEARTBEAT_ACK'' (getProp p ''op'') then Some (g1\<lparr>gwc_heartbeatAcked := True\<rparr>)
      else if isOpcode ''RECONNECT'' (getProp p ''op'') then Some (closeCurrent g1) else Some g1) = Some g'"
    using assms(1,2) unfolding g1_def onMessageText_def by (simp only: option.case Let_def if_False)
  then show ?thesis by (rule if_chain)
qed

lemma message_connections:
  assumes "onMessageText tok i raw g = Some g'"
  shows "gwc_stopped g' = gwc_stopped g \<and> length (gwc_sockets g') = length (gwc_sockets g) \<and>
    (\<not> gwc_stopped g \<longrightarrow> connections g' = connections g + (if isInvalidSession (SocketMessage i raw) then 1 else 0))"
proof (cases raw)
  case None
  then show ?thesis using assms by (simp add: onMessageText_def isInvalidSession_def)
next
  case (Some p)
  define g1 where "g1 = (case getProp p ''s'' of JNum n \<Rightarrow> g\<lparr>gwc_sequence := JNum n\<rparr> | _ \<Rightarrow> g)"
  have g1: "gwc_stopped g1 = gwc_stopped g" "gwc_sockets g1 = gwc_sockets g" "gwc_timers g1 = gwc_timers g"
    by (auto simp: g1_def split: jsval.splits)
  then have c1: "connections g1 = connections g" by (simp add: connections_def liveSockets_def)
  have m: "\<not> nullish p" using Some assms by (auto simp: onMessageText_def split: if_splits)
  show ?thesis
  proof (cases "isOpcode ''INVALID_SESSION'' (getProp p ''op'')")
    case True
    then have "g' = scheduleReconnect (g1\<lparr>gwc_sessionId := JNull, gwc_resumeGatewayUrl := JNull\<rparr>)"
      using assms m opcodes_differ [OF True] by (simp add: onMessageText_def Some Let_def g1_def)
    moreover have "connections (g1\<lparr>gwc_sessionId := JNull, gwc_resumeGatewayUrl := JNull\<rparr>) = connections g1"
      by (simp add: connections_def liveSockets_def)
    ultimately show ?thesis
      using True g1 c1 scheduleReconnect_connections [of "g1\<lparr>gwc_sessionId := JNull, gwc_resumeGatewayUrl := JNull\<rparr>"]
      by (simp add: isInvalidSession_def Some)
  next
    case False
    have "onHello tok (gsk_canResume (gwc_sockets g1 ! i)) (getProp p ''d'') g1 = Some g' \<or>
      onDispatch (getProp p ''t'') (getProp p ''d'') g1 = Some g' \<or> g' = g1\<lparr>gwc_heartbeatAcked := True\<rparr> \<or>
      g' = closeCurrent g1 \<or> g' = g1"
      using message_cases [OF assms [unfolded Some] False] by (simp add: g1_def)
    then have "sameConnections g1 g'"
      using onHello_same onDispatch_same closeCurrent_same [of g1] sameConnectionsI [of g' g1]
      by (elim disjE) (blast, blast, simp_all)
    then show ?thesis using g1 c1 False by (simp add: isInvalidSession_def Some sameConnections_def)
  qed
qed

lemma event_connections:
  assumes "possible e g" "handleEvent toText tok e g = Some g'"
  shows "(gwc_stopped g \<longrightarrow> gwc_stopped g' \<and> length (gwc_sockets g') = length (gwc_sockets g)) \<and>
    (\<not> gwc_stopped g' \<longrightarrow> connections g' = connections g + (if isInvalidSession e then 1 else 0))"
proof (cases e)
  case (TimerFires k)
  then have "length (dropNth k (gwc_timers g)) + 1 = length (gwc_timers g)"
    using assms(1) by (simp add: dropNth_def)
  then show ?thesis
    using assms TimerFires by (auto simp: gatewayConnect_def Let_def connections_def liveSockets_def isInvalidSession_def)
next
  case (SocketOpens i)
  have "g' = (setReady i Opened g)\<lparr>gwc_reconnectAttempt := 0\<rparr>" using assms(2) SocketOpens by (simp add: onOpen_def)
  moreover have "liveSockets (setReady i Opened g) = liveSockets g"
    using setReady_live [of g i Opened] assms(1) SocketOpens by simp
  ultimately show ?thesis
    using SocketOpens by (simp add: connections_def isInvalidSession_def liveSockets_def [of "_\<lparr>gwc_reconnectAttempt := 0\<rparr>"])
      (simp add: liveSockets_def)
next
  case (SocketMessage i raw)
  then show ?thesis using message_connections [of tok i raw g g'] assms by auto
next
  case (SocketCloses i)
  let ?g = "clearHeartbeat (setReady i Closed g)"
  have "liveSockets ?g + 1 = liveSockets g"
    using setReady_live [of g i Closed] assms(1) SocketCloses live_sockets [of ?g "setReady i Closed g"] by simp
  then have c: "connections ?g + 1 = connections g" by (simp add: connections_def)
  have "g' = (if gwc_stopped g then ?g else scheduleReconnect ?g)"
    using assms(2) SocketCloses by (simp add: onClose_def Let_def)
  then show ?thesis
    using c scheduleReconnect_connections [of ?g] SocketCloses by (simp add: isInvalidSession_def)
next
  case (SocketFails i msg)
  then show ?thesis using assms(2) by (auto simp: isInvalidSession_def connections_def liveSockets_def)
next
  case HeartbeatTick
  have "sameConnections g (sendHeartbeat g)"
    using closeCurrent_same sameConnectionsI [of "sendHeartbeat g" g] by (auto simp: sendHeartbeat_def Let_def)
  then show ?thesis using assms(2) HeartbeatTick by (simp add: isInvalidSession_def sameConnections_def)
next
  case StopCalled
  then show ?thesis using assms(2) by (auto simp: gatewayStop_def)
qed

lemma run_connections:
  "gatewayRun toText tok es g = Some g' \<Longrightarrow>
    (gwc_stopped g \<longrightarrow> gwc_stopped g' \<and> length (gwc_sockets g') = length (gwc_sockets g)) \<and>
    (\<not> gwc_stopped g' \<longrightarrow> connections g' = connections g + invalidSessions es)"
proof (induction es arbitrary: g)
  case Nil
  then show ?case by (simp add: invalidSessions_def)
next
  case (Cons e es)
  obtain g1 where g1: "possible e g" "handleEvent toText tok e g = Some g1" "gatewayRun toText tok es g1 = Some g'"
    using Cons.prems by (auto simp: bind_eq_Some_conv split: if_splits)
  show ?case
    using event_connections [OF g1(1,2)] Cons.IH [OF g1(3)] by (auto simp: invalidSessions_def)
qed

lemma run_append:
  "gatewayRun toText tok (es @ es') g = Option.bind (gatewayRun toText tok es g) (gatewayRun toText tok es')"
  by (induction es arbitrary: g) (auto split: Option.bind_split)

lemma start_connections: "connections (connectDiscordGateway toText) = 1" "\<not> gwc_stopped (connectDiscordGateway toText)"
  by (simp_all add: connectDiscordGateway_def gatewayConnect_def Let_def connections_def liveSockets_def)

section \<open>The current socket\<close>

text \<open>As long as no session was invalidated, every socket but the current one is closed.\<close>

definition onlyCurrent :: "gateway_client \<Rightarrow> bool" where
  "onlyCurrent g \<longleftrightarrow> gwc_sockets g \<noteq> [] \<and> gwc_ws g = Some (length (gwc_sockets g) - 1) \<and>
     (\<forall>i<length (gwc_sockets g) - 1. readyOf g i = Closed)"

lemma readyOf_setReady: "readyOf (setReady i r g) j = (if j = i \<and> i < length (gwc_sockets g) then r else readyOf g j)"
  by (simp add: readyOf_def setReady_def)

lemma onlyCurrent_cong:
  "gwc_sockets g' = gwc_sockets g \<Longrightarrow> gwc_ws g' = gwc_ws g \<Longrightarrow> onlyCurrent g' = onlyCurrent g"
  by (simp add: onlyCurrent_def readyOf_def)

lemma setReady_onlyCurrent: "onlyCurrent g \<Longrightarrow> readyOf g i \<noteq> Closed \<Longrightarrow> onlyCurrent (setReady i r g)"
  by (auto simp: onlyCurrent_def readyOf_setReady setReady_def [of i r g, THEN arg_cong [where f = gwc_sockets]])

lemma closeCurrent_onlyCurrent: "onlyCurrent g \<Longrightarrow> onlyCurrent (closeCurrent g)"
  by (auto simp: closeCurrent_def intro: setReady_onlyCurrent split: option.splits)

lemma sendFrame_ws [simp]: "gwc_ws (sendFrame p g) = gwc_ws g"
  by (simp add: sendFrame_def split: option.splits)

lemma clearHeartbeat_ws [simp]: "gwc_ws (clearHeartbeat g) = gwc_ws g"
  by (simp add: clearHeartbeat_def)

lemma onHello_onlyCurrent: "onHello tok c d g = Some g' \<Longrightarrow> onlyCurrent g \<Longrightarrow> onlyCurrent g'"
  by (subst onlyCurrent_cong [of _ g]) (auto simp: onHello_def Let_def split: if_splits)

lemma onDispatch_onlyCurrent: "onDispatch t d g = Some g' \<Longrightarrow> onlyCurrent g \<Longrightarrow> onlyCurrent g'"
  by (subst onlyCurrent_cong [of _ g]) (auto simp: onDispatch_def split: if_splits)

lemma sendHeartbeat_onlyCurrent:
  assumes "onlyCurrent g"
  shows "onlyCurrent (sendHeartbeat g)"
proof (cases "gwc_heartbeatAcked g")
  case True
  then show ?thesis using assms onlyCurrent_cong [of "sendHeartbeat g" g] by (simp add: sendHeartbeat_def Let_def)
qed (simp add: sendHeartbeat_def closeCurrent_onlyCurrent assms)

lemma message_onlyCurrent:
  assumes "onMessageText tok i raw g = Some g'" "\<not> isInvalidSession (SocketMessage i raw)" "onlyCurrent g"
  shows "onlyCurrent g'"
proof (cases raw)
  case None
  then show ?thesis using assms by (simp add: onMessageText_def)
next
  case (Some p)
  let ?g1 = "case getProp p ''s'' of JNum n \<Rightarrow> g\<lparr>gwc_sequence := JNum n\<rparr> | _ \<Rightarrow> g"
  have "onlyCurrent ?g1" using assms(3) by (auto simp: onlyCurrent_cong [of "g\<lparr>gwc_sequence := _\<rparr>" g] split: jsval.splits)
  moreover have "onlyCurrent (?g1\<lparr>gwc_heartbeatAcked := True\<rparr>) = onlyCurrent ?g1" by (rule onlyCurrent_cong) simp_all
  moreover have "\<not> isOpcode ''INVALID_SESSION'' (getProp p ''op'')" using assms(2) by (simp add: isInvalidSession_def Some)
  ultimately show ?thesis
    using message_cases [OF assms(1) [unfolded Some]] closeCurrent_onlyCurrent [of ?g1] onHello_onlyCurrent onDispatch_onlyCurrent by metis
qed

lemma event_onlyCurrent:
  assumes "possible e g" "handleEvent toText tok e g = Some g'" "\<not> isInvalidSession e" "onlyCurrent g"
    and "\<not> gwc_stopped g" "connections g = 1"
  shows "onlyCurrent g'"
proof (cases e)
  case (TimerFires k)
  then have "liveSockets g = 0" using assms(1,6) by (auto simp: connections_def)
  then have "\<forall>k\<in>set (gwc_sockets g). gsk_ready k = Closed" by (simp add: liveSockets_def filter_empty_conv)
  then show ?thesis
    using assms(2,5) TimerFires by (auto simp: gatewayConnect_def Let_def onlyCurrent_def readyOf_def nth_append)
next
  case (SocketOpens i)
  have "onlyCurrent (setReady i Opened g)" using assms(1,4) SocketOpens by (intro setReady_onlyCurrent) simp_all
  then show ?thesis
    using assms(2) SocketOpens onlyCurrent_cong [of "(setReady i Opened g)\<lparr>gwc_reconnectAttempt := 0\<rparr>" "setReady i Opened g"]
    by (auto simp: onOpen_def)
next
  case (SocketMessage i raw)
  then show ?thesis using message_onlyCurrent assms(2-4) by simp
next
  case (SocketCloses i)
  have "onlyCurrent (setReady i Closed g)" using assms(1,4) SocketCloses by (intro setReady_onlyCurrent) simp_all
  moreover have "gwc_sockets g' = gwc_sockets (setReady i Closed g)" "gwc_ws g' = gwc_ws (setReady i Closed g)"
    using assms(2) SocketCloses by (auto simp: onClose_def scheduleReconnect_def Let_def)
  ultimately show ?thesis using onlyCurrent_cong [of g' "setReady i Closed g"] by simp
next
  case (SocketFails i msg)
  then show ?thesis using assms(2,4) onlyCurrent_cong [of g' g] by auto
next
  case HeartbeatTick
  then show ?thesis
    using assms(2) sendHeartbeat_onlyCurrent [OF assms(4)] by simp
next
  case StopCalled
  have "onlyCurrent (clearHeartbeat (g\<lparr>gwc_stopped := True\<rparr>))"
    using assms(4) by (subst onlyCurrent_cong [of _ g]) simp_all
  then have "onlyCurrent (gatewayStop g)" unfolding gatewayStop_def by (rule closeCurrent_onlyCurrent)
  then show ?thesis using assms(2) StopCalled by simp
qed

lemma run_onlyCurrent:
  "gatewayRun toText tok es g = Some g' \<Longrightarrow> invalidSessions es = 0 \<Longrightarrow> onlyCurrent g \<Longrightarrow> \<not> gwc_stopped g' \<Longrightarrow> connections g = 1
    \<Longrightarrow> onlyCurrent g'"
proof (induction es arbitrary: g)
  case (Cons e es)
  obtain g1 where g1: "possible e g" "handleEvent toText tok e g = Some g1" "gatewayRun toText tok es g1 = Some g'"
    using Cons.prems(1) by (auto simp: bind_eq_Some_conv split: if_splits)
  have i: "\<not> isInvalidSession e" "invalidSessions es = 0" using Cons.prems(2) by (auto simp: invalidSessions_def split: if_splits)
  have "\<not> gwc_stopped g1" using run_connections [OF g1(3)] Cons.prems(4) by auto
  moreover from this have "\<not> gwc_stopped g" "connections g1 = 1" using event_connections [OF g1(1,2)] i(1) Cons.prems(5) by auto
  ultimately show ?case
    using Cons.IH [OF g1(3) i(2) event_onlyCurrent [OF g1(1,2) i(1) Cons.prems(3)]] Cons.prems(4,5) by simp
qed simp

section \<open>Properties\<close>

text \<open>C29: in any order of socket events and timers a running client has one connection, open or
  about to be, and one more for every session the gateway has invalidated: the reconnect
  such a message schedules never replaces the socket it came from. Once stopped it opens
  no socket any more.\<close>

theorem gateway_connections:
  assumes "gatewayRun toText tok es (connectDiscordGateway toText) = Some g"
  shows "(\<not> gwc_stopped g \<longrightarrow> liveSockets g + length (gwc_timers g) = 1 + invalidSessions es) \<and>
    (gwc_stopped g \<longrightarrow> (\<forall>es' g'. gatewayRun toText tok es' g = Some g' \<longrightarrow> length (gwc_sockets g') = length (gwc_sockets g)))"
proof -
  have "\<not> gwc_stopped g \<longrightarrow> connections g = 1 + invalidSessions es"
    using run_connections [OF assms] start_connections by simp
  moreover have "length (gwc_sockets g') = length (gwc_sockets g)"
    if "gwc_stopped g" "gatewayRun toText tok es' g = Some g'" for es' g'
    using run_connections [OF that(2)] that(1) by blast
  ultimately show ?thesis by (simp add: connections_def)
qed

text \<open>A message of the gateway, and a client whose session is invalidated before it reconnects.\<close>

definition gatewayMessage :: "nat \<Rightarrow> jsval \<Rightarrow> jsval \<Rightarrow> jsval option" where
  "gatewayMessage op t d = Some (JObj [(''op'', JNum (Fin (of_nat op))), (''t'', t), (''d'', d)])"

definition helloMessage :: "jsval option" where
  "helloMessage = gatewayMessage 10 JNull (JObj [(''heartbeat_interval'', JNum (Fin 41250))])"

definition invalidatedRun :: "gateway_event list" where
  "invalidatedRun = [SocketOpens 0, SocketMessage 0 helloMessage, SocketMessage 0 (gatewayMessage 9 JNull (JBool False)),
     TimerFires 0, SocketOpens 1, SocketMessage 1 helloMessage]"

definition sameMessage :: "jsval option" where
  "sameMessage = gatewayMessage 0 (JStr ''MESSAGE_CREATE'') (JStr ''hi'')"

theorem gateway_connections_witness:
  "\<exists>g. gatewayRun (\<lambda>_. []) ''token'' invalidatedRun (connectDiscordGateway (\<lambda>_. [])) = Some g \<and> \<not> gwc_stopped g \<and>
     liveSockets g + length (gwc_timers g) = 2"
proof -
  have "gatewayRun (\<lambda>_. []) ''token'' invalidatedRun (connectDiscordGateway (\<lambda>_. [])) \<noteq> None" by code_simp
  then obtain g where g: "gatewayRun (\<lambda>_. []) ''token'' invalidatedRun (connectDiscordGateway (\<lambda>_. [])) = Some g" by blast
  have "map_option gwc_stopped (gatewayRun (\<lambda>_. []) ''token'' invalidatedRun (connectDiscordGateway (\<lambda>_. []))) = Some False"
    "invalidSessions invalidatedRun = 1"
    by code_simp+
  then show ?thesis using g gateway_connections [OF g] by simp
qed

text \<open>The message both sockets deliver is created twice, and goes on being created from the
  first after the client is stopped.\<close>

lemma leaked_socket_delivers:
  "map_option gwc_created (gatewayRun (\<lambda>_. []) ''token''
     (invalidatedRun @ [SocketMessage 0 sameMessage, SocketMessage 1 sameMessage, StopCalled, SocketMessage 0 sameMessage])
     (connectDiscordGateway (\<lambda>_. []))) = Some [JStr ''hi'', JStr ''hi'', JStr ''hi'']"
  by code_simp

text \<open>As long as the gateway has invalidated no session, stopping closes everything: every
  socket is closed or closing, and every further message comes from the one that is
  closing.\<close>

theorem stop_closes_every_socket:
  assumes "gatewayRun toText tok es (connectDiscordGateway toText) = Some g" "invalidSessions es = 0" "\<not> gwc_stopped g"
  shows "\<forall>i<length (gwc_sockets (gatewayStop g)). readyOf (gatewayStop g) i \<in> {Closing, Closed} \<and>
    (readyOf (gatewayStop g) i = Closing \<longrightarrow> gwc_ws g = Some i)"
proof -
  have "onlyCurrent (connectDiscordGateway toText)"
    by (simp add: connectDiscordGateway_def gatewayConnect_def Let_def onlyCurrent_def)
  then have o: "onlyCurrent g" using run_onlyCurrent [OF assms(1,2)] assms(3) start_connections by simp
  then obtain k where k: "gwc_ws g = Some k" "Suc k = length (gwc_sockets g)" "\<forall>i<k. readyOf g i = Closed"
    by (cases "gwc_sockets g" rule: rev_cases) (auto simp: onlyCurrent_def)
  have r: "readyOf (gatewayStop g) i = (if i = k \<and> readyOf g k \<in> {Connecting, Opened} then Closing else readyOf g i)" for i
    using k(1,2) by (auto simp: gatewayStop_def clearHeartbeat_def closeCurrent_def readyOf_def setReady_def)
  have n: "length (gwc_sockets (gatewayStop g)) = Suc k" using k(2) by (simp add: gatewayStop_def)
  show ?thesis
  proof (intro allI impI)
    fix i assume "i < length (gwc_sockets (gatewayStop g))"
    then consider "i = k" | "i < k" using n by linarith
    then show "readyOf (gatewayStop g) i \<in> {Closing, Closed} \<and> (readyOf (gatewayStop g) i = Closing \<longrightarrow> gwc_ws g = Some i)"
      using k(1,3) by cases (cases "readyOf g k"; simp add: r)+
  qed
qed

theorem stop_closes_every_socket_witness:
  "\<exists>g. gatewayRun (\<lambda>_. []) ''token'' [SocketOpens 0, SocketMessage 0 helloMessage, SocketCloses 0, TimerFires 0, SocketOpens 1]
       (connectDiscordGateway (\<lambda>_. [])) = Some g \<and> length (gwc_sockets (gatewayStop g)) = 2 \<and>
     (\<forall>i<2. readyOf (gatewayStop g) i \<in> {Closing, Closed})"
proof -
  let ?es = "[SocketOpens 0, SocketMessage 0 helloMessage, SocketCloses 0, TimerFires 0, SocketOpens 1]"
  have f: "map_option (\<lambda>g. (gwc_stopped g, length (gwc_sockets g))) (gatewayRun (\<lambda>_. []) ''token'' ?es (connectDiscordGateway (\<lambda>_. []))) = Some (False, 2)"
    "invalidSessions ?es = 0"
    by code_simp+
  then obtain g where g: "gatewayRun (\<lambda>_. []) ''token'' ?es (connectDiscordGateway (\<lambda>_. [])) = Some g" by blast
  have "\<not> gwc_stopped g" "length (gwc_sockets (gatewayStop g)) = 2" using f(1) g by (simp_all add: gatewayStop_def)
  then show ?thesis using stop_closes_every_socket [OF g f(2)] g by auto
qed

end
