(* ===== verification/Key_Rotation.thy ===== *)
theory Key_Rotation
  imports Credentials_Store
begin

text \<open>
  The rotation of the credential keys (\<open>scripts/rotate-credentials-key.mjs\<close>): every stored
  secret that is not under the active key is decrypted with the key of its version and
  encrypted again under the active one, and what the credentials store makes of the
  result. The log lines are left out.
\<close>

section \<open>The script\<close>

text \<open>Its key ring has no development fallback: without a key it refuses to run.\<close>

definition rotationRing :: "env \<Rightarrow> exn + key_ring" where
  "rotationRing E = (case addKey 1 (ke_key1 (keyEnv E)) [] of
      Inl e \<Rightarrow> Inl e
    | Inr r1 \<Rightarrow> (case addKey 2 (ke_key2 (keyEnv E)) r1 of
        Inl e \<Rightarrow> Inl e
      | Inr r2 \<Rightarrow> if r2 = [] then Inl (PlainError ''No CREDENTIALS_ENCRYPTION_KEY(_V2) configured'') else Inr r2))"

definition secretAt :: "uuid \<Rightarrow> world \<Rightarrow> SecretRecord option" where
  "secretAt i s = findFirst (\<lambda>r. sec_id r = i) (secretRecords s)"

definition decryptRecord :: "env \<Rightarrow> key_ring \<Rightarrow> SecretRecord \<Rightarrow> string option" where
  "decryptRecord E ring r = (case map_of ring (sec_keyVersion r) of
      None \<Rightarrow> None
    | Some key \<Rightarrow> gcmDecrypt E key (sec_iv r) (sec_authTag r) (sec_ciphertext r))"

definition encryptRecord :: "env \<Rightarrow> nat \<times> string \<Rightarrow> string \<Rightarrow> string \<Rightarrow> SecretRecord \<Rightarrow> SecretRecord" where
  "encryptRecord E target iv plaintext r = (case gcmEncrypt E (snd target) iv plaintext of (c, t) \<Rightarrow>
     r\<lparr>sec_ciphertext := c, sec_iv := iv, sec_authTag := t, sec_keyVersion := fst target\<rparr>)"

text \<open>One record: read again, as it may be gone; skipped and counted when its key is missing
  or does not open it.\<close>

definition rotateOne ::
  "env \<Rightarrow> key_ring \<Rightarrow> nat \<times> string \<Rightarrow> uuid \<Rightarrow> (nat \<times> nat) \<times> world \<Rightarrow> (nat \<times> nat) \<times> world" where
  "rotateOne E ring target i st = (case st of ((rotated, errors), s) \<Rightarrow>
     (case secretAt i s of
        None \<Rightarrow> ((rotated, errors), s)
      | Some full \<Rightarrow> (case decryptRecord E ring full of
          None \<Rightarrow> ((rotated, errors + 1), s)
        | Some plaintext \<Rightarrow> ((rotated + 1, errors), (randomUsed s)\<lparr>secretRecords :=
            updateMany (\<lambda>r. sec_id r = i) (encryptRecord E target (randomDraw E s) plaintext) (secretRecords s)\<rparr>))))"

definition rotateAll :: "env \<Rightarrow> key_ring \<Rightarrow> nat \<times> string \<Rightarrow> uuid list \<Rightarrow> (nat \<times> nat) \<times> world \<Rightarrow> (nat \<times> nat) \<times> world" where
  "rotateAll E ring target ids st = fold (rotateOne E ring target) ids st"

definition toRotate :: "nat \<Rightarrow> world \<Rightarrow> uuid list" where
  "toRotate version s = map sec_id (filter (\<lambda>r. sec_keyVersion r \<noteq> version) (secretRecords s))"

text \<open>The counts of rotated records and of errors; the exit code is 1 for an exception and
  when there were errors.\<close>

definition rotateCredentials :: "env \<Rightarrow> bool \<Rightarrow> world \<Rightarrow> (exn + nat \<times> nat) \<times> world" where
  "rotateCredentials E execute s = (case rotationRing E of
      Inl e \<Rightarrow> (Inl e, s)
    | Inr ring \<Rightarrow> (case encryptionKeyForVersion ring (activeVersion E ring) of
        Inl e \<Rightarrow> (Inl e, s)
      | Inr target \<Rightarrow>
          if \<not> execute then (Inr (0, 0), s)
          else (case rotateAll E ring target (toRotate (fst target) s) ((0, 0), s) of (counts, s1) \<Rightarrow> (Inr counts, s1))))"

section \<open>The records after a rotation\<close>

lemma secretAt_update:
  assumes "\<And>r. sec_id (f r) = sec_id r"
  shows "secretAt j (t\<lparr>secretRecords := updateMany (\<lambda>r. sec_id r = i) f (secretRecords s)\<rparr>) =
    map_option (\<lambda>r. if j = i then f r else r) (secretAt j s)"
proof -
  have "findFirst (\<lambda>r. sec_id r = j) (updateMany (\<lambda>r. sec_id r = i) f (secretRecords s)) =
      map_option (\<lambda>r. if sec_id r = i then f r else r) (secretAt j s)"
    unfolding secretAt_def by (rule findFirst_updateMany) (simp add: assms)
  then show ?thesis by (auto simp: secretAt_def dest!: findFirst_SomeD intro!: option.map_cong)
qed

text \<open>What has become of a record: it is as it was, or it holds the same plaintext under the
  target key.\<close>

definition rotatedTo :: "env \<Rightarrow> key_ring \<Rightarrow> nat \<times> string \<Rightarrow> SecretRecord \<Rightarrow> SecretRecord \<Rightarrow> bool" where
  "rotatedTo E ring target r r' \<longleftrightarrow> sec_id r' = sec_id r \<and> sec_keyVersion r' = fst target \<and>
     (\<exists>p. decryptRecord E ring r = Some p \<and> gcmDecrypt E (snd target) (sec_iv r') (sec_authTag r') (sec_ciphertext r') = Some p)"

lemma encryptRecord_id [simp]: "sec_id (encryptRecord E target iv p r) = sec_id r"
  by (simp add: encryptRecord_def split: prod.splits)

lemma encryptRecord_rotated:
  assumes "\<And>key iv p c t. gcmEncrypt E key iv p = (c, t) \<Longrightarrow> gcmDecrypt E key iv t c = Some p"
    and "decryptRecord E ring r = Some p"
  shows "rotatedTo E ring target r (encryptRecord E target iv p r)"
  using assms by (auto simp: rotatedTo_def encryptRecord_def split: prod.splits)

lemma rotateOne_other:
  "j \<noteq> i \<Longrightarrow> secretAt j (snd (rotateOne E ring target i st)) = secretAt j (snd st)"
  by (cases st) (auto simp: rotateOne_def secretAt_update option.map_ident split: option.splits)

lemma rotateOne_others:
  assumes "distinct (i # ids)" "\<forall>k\<in>set (i # ids). secretAt k (snd st) \<noteq> None"
  shows "\<forall>k\<in>set ids. secretAt k (snd (rotateOne E ring target i st)) \<noteq> None"
proof
  fix k assume k: "k \<in> set ids"
  then have "k \<noteq> i" using assms(1) by auto
  then show "secretAt k (snd (rotateOne E ring target i st)) \<noteq> None" using rotateOne_other assms(2) k by simp
qed

lemma rotateOne_it:
  assumes "\<And>key iv p c t. gcmEncrypt E key iv p = (c, t) \<Longrightarrow> gcmDecrypt E key iv t c = Some p"
    and "secretAt i (snd st) = Some r"
  shows "\<exists>r'. secretAt i (snd (rotateOne E ring target i st)) = Some r' \<and>
    (if decryptRecord E ring r = None then r' = r else rotatedTo E ring target r r')"
    "snd (fst (rotateOne E ring target i st)) = snd (fst st) + (if decryptRecord E ring r = None then 1 else 0)"
proof -
  obtain n e s where st: "st = ((n, e), s)" by (metis surj_pair)
  show "\<exists>r'. secretAt i (snd (rotateOne E ring target i st)) = Some r' \<and>
    (if decryptRecord E ring r = None then r' = r else rotatedTo E ring target r r')"
  proof (cases "decryptRecord E ring r")
    case (Some p)
    then show ?thesis
      using assms(2) Some encryptRecord_rotated [OF assms(1) Some]
      by (simp add: st rotateOne_def secretAt_update)
  qed (use assms(2) in \<open>simp add: st rotateOne_def\<close>)
  show "snd (fst (rotateOne E ring target i st)) = snd (fst st) + (if decryptRecord E ring r = None then 1 else 0)"
    using assms(2) by (auto simp: st rotateOne_def split: option.splits)
qed

lemma rotateAll_at:
  assumes gcm: "\<And>key iv p c t. gcmEncrypt E key iv p = (c, t) \<Longrightarrow> gcmDecrypt E key iv t c = Some p"
    and "distinct ids" "\<forall>i\<in>set ids. secretAt i (snd st) \<noteq> None" "secretAt j (snd st) = Some r"
  shows "\<exists>r'. secretAt j (snd (rotateAll E ring target ids st)) = Some r' \<and>
    (if j \<in> set ids \<and> decryptRecord E ring r \<noteq> None then rotatedTo E ring target r r' else r' = r)"
  using assms(2-4)
proof (induction ids arbitrary: st r)
  case Nil
  then show ?case by (simp add: rotateAll_def)
next
  case (Cons i ids)
  let ?st = "rotateOne E ring target i st"
  have f: "rotateAll E ring target (i # ids) st = rotateAll E ring target ids ?st" by (simp add: rotateAll_def)
  have other: "\<forall>k\<in>set ids. secretAt k (snd ?st) \<noteq> None" by (rule rotateOne_others [OF Cons.prems(1,2)])
  show ?case
  proof (cases "j = i")
    case True
    then obtain r1 where r1: "secretAt i (snd ?st) = Some r1" "if decryptRecord E ring r = None then r1 = r else rotatedTo E ring target r r1"
      using rotateOne_it(1) [OF gcm, of i st r] Cons.prems(3) by blast
    have "i \<notin> set ids" using Cons.prems(1) by simp
    moreover from this have "\<exists>r'. secretAt i (snd (rotateAll E ring target ids ?st)) = Some r' \<and> r' = r1"
      using Cons.IH [OF _ other] Cons.prems(1) r1(1) True by fastforce
    ultimately show ?thesis using r1(2) True unfolding f by auto
  next
    case False
    then show ?thesis
      using Cons.IH [OF _ other] Cons.prems(1,3) rotateOne_other [OF False, of E ring target st] unfolding f by auto
  qed
qed

lemma rotateAll_errors:
  assumes gcm: "\<And>key iv p c t. gcmEncrypt E key iv p = (c, t) \<Longrightarrow> gcmDecrypt E key iv t c = Some p"
    and "distinct ids" "\<forall>i\<in>set ids. secretAt i (snd st) \<noteq> None"
    and "snd (fst (rotateAll E ring target ids st)) = snd (fst st)" "i \<in> set ids"
  shows "\<exists>r. secretAt i (snd st) = Some r \<and> decryptRecord E ring r \<noteq> None"
proof -
  have mono: "snd (fst st) \<le> snd (fst (rotateAll E ring target ids st))" for ids st
  proof (induction ids arbitrary: st)
    case (Cons k ids)
    have "snd (fst st) \<le> snd (fst (rotateOne E ring target k st))"
      by (cases st) (auto simp: rotateOne_def split: option.splits)
    then show ?case using Cons [of "rotateOne E ring target k st"] by (simp add: rotateAll_def)
  qed (simp add: rotateAll_def)
  show ?thesis
    using assms(2-5)
  proof (induction ids arbitrary: st)
    case (Cons k ids)
    let ?st = "rotateOne E ring target k st"
    have f: "rotateAll E ring target (k # ids) st = rotateAll E ring target ids ?st" by (simp add: rotateAll_def)
    obtain r where r: "secretAt k (snd st) = Some r" using Cons.prems(2) by auto
    have e: "snd (fst ?st) = snd (fst st) + (if decryptRecord E ring r = None then 1 else 0)"
      by (rule rotateOne_it(2) [OF gcm r])
    have same: "decryptRecord E ring r \<noteq> None" "snd (fst (rotateAll E ring target ids ?st)) = snd (fst ?st)"
      using e mono [of ?st ids] Cons.prems(3) unfolding f by (auto split: if_splits)
    have other: "\<forall>k\<in>set ids. secretAt k (snd ?st) \<noteq> None" by (rule rotateOne_others [OF Cons.prems(1,2)])
    show ?case
    proof (cases "i = k")
      case False
      then show ?thesis
        using Cons.IH [OF _ other same(2)] Cons.prems(1,4) rotateOne_other [OF False, of E ring target st] by simp
    qed (use r same(1) in simp)
  qed simp
qed

section \<open>What the store reads after a rotation\<close>

lemma ring_versions:
  assumes "rotationRing E = Inr ring"
  shows "distinct (map fst ring)" "loadKeyRing E = Inr ring"
  using assms by (auto simp: rotationRing_def loadKeyRing_def addKey_def parseKey_def Let_def split: sum.splits if_splits)

lemma encryptionKey_map_of:
  assumes "distinct (map fst ring)"
  shows "encryptionKeyForVersion ring (Fin (of_nat v)) = (case map_of ring v of None \<Rightarrow> Inl (PlainError ''No encryption key configured for version'') | Some k \<Rightarrow> Inr (v, k))"
proof -
  have "find (\<lambda>(u, _). Fin (of_nat u) = Fin (of_nat v)) ring = map_option (Pair v) (map_of ring v)"
    by (induction ring) auto
  then show ?thesis by (simp add: encryptionKeyForVersion_def split: option.splits)
qed

text \<open>Reading a secret is decrypting its record, for a workspace that owns it.\<close>

lemma getSecret_record:
  assumes "loadKeyRing E = Inr ring" "distinct (map fst ring)"
  shows "(\<exists>x. fst (getSecret E ref ctx s) = Inr x \<and> x = p) \<longleftrightarrow>
    ownedByWorkspace s ref (cac_workspaceId ctx) \<and> (\<exists>r. secretAt ref s = Some r \<and> decryptRecord E ring r = Some p)"
  using assms by (auto simp: getSecret_def secretAt_def decryptRecord_def encryptionKey_map_of split: option.splits)

lemma rotateOne_accounts: "linkedAccounts (snd (rotateOne E ring target i st)) = linkedAccounts (snd st)"
  by (cases st) (auto simp: rotateOne_def randomUsed_def split: option.splits)

lemma rotateAll_accounts: "linkedAccounts (snd (rotateAll E ring target ids st)) = linkedAccounts (snd st)"
  by (induction ids arbitrary: st) (simp_all add: rotateAll_def rotateOne_accounts)

lemma rotateOne_ids: "map sec_id (secretRecords (snd (rotateOne E ring target i st))) = map sec_id (secretRecords (snd st))"
  by (cases st) (auto simp: rotateOne_def randomUsed_def map_updateMany split: option.splits)

lemma rotateAll_ids: "map sec_id (secretRecords (snd (rotateAll E ring target ids st))) = map sec_id (secretRecords (snd st))"
proof (induction ids arbitrary: st)
  case (Cons i ids)
  show ?case using Cons [of "rotateOne E ring target i st"] by (simp only: rotateAll_def fold_simps comp_apply rotateOne_ids)
qed (simp add: rotateAll_def)

lemma secretAt_row:
  assumes "distinct (map sec_id (secretRecords s))" "r \<in> set (secretRecords s)"
  shows "secretAt (sec_id r) s = Some r"
proof -
  obtain r' where r': "secretAt (sec_id r) s = Some r'"
    using findFirst_ex [OF assms(2), of "\<lambda>x. sec_id x = sec_id r"] by (auto simp: secretAt_def)
  then have "r' \<in> set (secretRecords s)" "sec_id r' = sec_id r" by (auto simp: secretAt_def dest: findFirst_SomeD)
  then have "r' = r" using assms by (auto simp: distinct_map dest: inj_onD)
  then show ?thesis using r' by simp
qed

lemma toRotate_rows:
  assumes "distinct (map sec_id (secretRecords s))"
  shows "distinct (toRotate v s)" "\<forall>i\<in>set (toRotate v s). secretAt i s \<noteq> None"
    "secretAt i s = Some r \<Longrightarrow> i \<notin> set (toRotate v s) \<Longrightarrow> sec_keyVersion r = v"
  using assms secretAt_row [OF assms] by (auto simp: toRotate_def distinct_map_filter secretAt_def dest: findFirst_SomeD)

text \<open>C23: rotating the keys loses no secret, and retires the old keys when it reports no error.
  Whatever the script's mode and its errors, a secret a workspace could read it reads
  after it, unchanged. A run that executed without an error leaves every record under
  the active version, so that an environment with the active key alone reads them all.\<close>

theorem rotation_retires_old_keys:
  assumes gcm: "\<And>key iv p c t. gcmEncrypt E key iv p = (c, t) \<Longrightarrow> gcmDecrypt E key iv t c = Some p"
    and "distinct (map sec_id (secretRecords s))"
    and run: "rotateCredentials E execute s = (Inr (rotated, errors), s1)"
    and "rotationRing E = Inr ring" "encryptionKeyForVersion ring (activeVersion E ring) = Inr (version, key)"
    and "fst (getSecret E ref ctx s) = Inr plaintext"
  shows "fst (getSecret E ref ctx s1) = Inr plaintext \<and>
    (execute \<and> errors = 0 \<longrightarrow> (\<forall>r\<in>set (secretRecords s1). sec_keyVersion r = version) \<and>
      (\<forall>E'. gcmDecrypt E' = gcmDecrypt E \<and> loadKeyRing E' = Inr [(version, key)] \<longrightarrow> fst (getSecret E' ref ctx s1) = Inr plaintext))"
proof (cases execute)
  case False
  then show ?thesis using run assms(4-6) by (simp add: rotateCredentials_def)
next
  case True
  let ?ids = "toRotate version s"
  let ?st = "rotateAll E ring (version, key) ?ids ((0, 0), s)"
  have st: "s1 = snd ?st" "errors = snd (fst ?st)"
    using run assms(4,5) True by (auto simp: rotateCredentials_def split: prod.splits)
  note ids = toRotate_rows(1,2) [OF assms(2), of version]
  have at: "\<exists>r'. secretAt j s1 = Some r' \<and> (if j \<in> set ?ids \<and> decryptRecord E ring r \<noteq> None
      then rotatedTo E ring (version, key) r r' else r' = r)" if "secretAt j s = Some r" for j r
    unfolding st(1) by (rule rotateAll_at [OF gcm ids(1)]) (use ids(2) that in simp_all)
  have d1: "distinct (map sec_id (secretRecords s1))" using assms(2) by (simp add: st(1) rotateAll_ids)
  note ring = ring_versions [OF assms(4)]
  have key: "map_of ring version = Some key"
    using assms(5) ring(1) by (auto simp: encryptionKeyForVersion_def find_Some_iff dest: nth_mem split: option.splits)
  obtain r where r: "ownedByWorkspace s ref (cac_workspaceId ctx)" "secretAt ref s = Some r" "decryptRecord E ring r = Some plaintext"
    using assms(6) getSecret_record [OF ring(2,1), of ref ctx s plaintext] by auto
  have own: "ownedByWorkspace s1 ref (cac_workspaceId ctx)"
    using r(1) by (simp add: ownedByWorkspace_def st(1) rotateAll_accounts)
  obtain r' where r': "secretAt ref s1 = Some r'" "if ref \<in> set ?ids then rotatedTo E ring (version, key) r r' else r' = r"
    using at [OF r(2)] r(3) by auto
  have dec: "decryptRecord E ring r' = Some plaintext"
    using r' r(3) key by (auto simp: rotatedTo_def decryptRecord_def split: if_splits)
  have "fst (getSecret E ref ctx s1) = Inr plaintext"
    using getSecret_record [OF ring(2,1), of ref ctx s1 plaintext] own r'(1) dec by auto
  moreover have "sec_keyVersion x = version" if "errors = 0" "x \<in> set (secretRecords s1)" for x
  proof -
    have x1: "secretAt (sec_id x) s1 = Some x" by (rule secretAt_row [OF d1 that(2)])
    have "sec_id x \<in> set (map sec_id (secretRecords s))" using that(2) rotateAll_ids [of E ring "(version, key)" ?ids "((0, 0), s)"]
      by (metis image_eqI list.set_map snd_conv st(1))
    then obtain x0 where x0: "secretAt (sec_id x) s = Some x0" using secretAt_row [OF assms(2)] by auto
    show ?thesis
    proof (cases "sec_id x \<in> set ?ids")
      case True
      then have "decryptRecord E ring x0 \<noteq> None"
        using rotateAll_errors [OF gcm, of ?ids "((0, 0), s)" ring "(version, key)" "sec_id x"] ids x0 that(1) st(2) by auto
      then show ?thesis using at [OF x0] True x1 by (auto simp: rotatedTo_def)
    next
      case False
      then show ?thesis using at [OF x0] x1 toRotate_rows(3) [OF assms(2) x0, of version] by auto
    qed
  qed
  moreover have "fst (getSecret E' ref ctx s1) = Inr plaintext"
    if "errors = 0" "gcmDecrypt E' = gcmDecrypt E" "loadKeyRing E' = Inr [(version, key)]" for E'
  proof -
    have "r' \<in> set (secretRecords s1)" using r'(1) by (auto simp: secretAt_def dest: findFirst_SomeD)
    then have "sec_keyVersion r' = version" using calculation(2) that(1) by blast
    then have "decryptRecord E' [(version, key)] r' = Some plaintext" using dec key that(2) by (simp add: decryptRecord_def)
    then show ?thesis using getSecret_record [OF that(3), of ref ctx s1 plaintext] own r'(1) by auto
  qed
  ultimately show ?thesis by blast
qed

text \<open>Two keys, the second active; a secret of account 5 under the first.\<close>

definition hexKey :: "char \<Rightarrow> string" where
  "hexKey c = replicate 64 c"

definition rotationEnv :: "bool \<Rightarrow> env" where
  "rotationEnv old = sampleEnv\<lparr>keyEnv := \<lparr>ke_key1 = if old then Some (hexKey (CHR ''1'')) else None,
     ke_key2 = Some (hexKey (CHR ''2'')), ke_activeVersion = None, ke_nodeEnv = Some ''production''\<rparr>\<rparr>"

definition rawKey :: "char \<Rightarrow> string" where
  "rawKey c = hexDecode (hexKey c)"

definition oneSecret :: world where
  "oneSecret = sampleAccounts\<lparr>secretRecords := [\<lparr>sec_id = 1, sec_ciphertext = ''token'', sec_iv = ''iv'',
     sec_authTag = rawKey (CHR ''1'') @ ''iv'', sec_keyVersion = 1\<rparr>]\<rparr>"

theorem rotation_retires_old_keys_witness:
  "\<exists>s1. rotateCredentials (rotationEnv True) True oneSecret = (Inr (1, 0), s1) \<and>
     fst (getSecret (rotationEnv False) 1 (sampleAccess 11) s1) = Inr ''token''"
proof -
  let ?E = "rotationEnv True" and ?k = "rawKey (CHR ''2'')" and ?ring = "[(1, rawKey (CHR ''1'')), (2, rawKey (CHR ''2''))]"
  have keys: "length (rawKey (CHR ''1'')) = 32" "length (rawKey (CHR ''2'')) = 32" by code_simp+
  have ne: "nonEmpty (Some (hexKey c))" for c by (simp add: nonEmpty_def hexKey_def numeral_eq_Suc)
  have p: "parseKey (hexKey c) = Inr (rawKey c)" if "length (rawKey c) = 32" for c
    using that by (simp add: parseKey_def rawKey_def Let_def)
  have ring: "rotationRing ?E = Inr ?ring"
    using keys ne p by (simp add: rotationRing_def addKey_def rotationEnv_def)
  have ring': "loadKeyRing (rotationEnv False) = Inr [(2, ?k)]"
    using keys ne p by (simp add: loadKeyRing_def addKey_def rotationEnv_def nonEmpty_def [of None])
  have act: "encryptionKeyForVersion ?ring (activeVersion ?E ?ring) = Inr (2, ?k)"
    by (simp add: activeVersion_def encryptionKeyForVersion_def rotationEnv_def nonEmpty_def)
  have gcm: "gcmEncrypt ?E k iv p = (c, t) \<Longrightarrow> gcmDecrypt ?E k iv t c = Some p" for k iv p c t
    by (auto simp: rotationEnv_def sampleEnv_def)
  have d: "gcmDecrypt (rotationEnv False) = gcmDecrypt ?E" by (simp add: rotationEnv_def)
  have dec: "gcmDecrypt ?E k iv t c = (if t = k @ iv then Some c else None)" for k iv t c
    by (simp add: rotationEnv_def sampleEnv_def)
  obtain s1 where "rotateAll ?E ?ring (2, ?k) (toRotate 2 oneSecret) ((0, 0), oneSecret) = ((1, 0), s1)"
    by (simp add: rotateAll_def toRotate_def oneSecret_def rotateOne_def secretAt_def decryptRecord_def dec)
  then have run: "rotateCredentials ?E True oneSecret = (Inr (1, 0), s1)"
    unfolding rotateCredentials_def ring sum.case act by simp
  have "distinct (map sec_id (secretRecords oneSecret))" by (simp add: oneSecret_def)
  moreover have "fst (getSecret ?E 1 (sampleAccess 11) oneSecret) = Inr ''token''"
    using getSecret_record [OF ring_versions(2,1) [OF ring], of 1 "sampleAccess 11" oneSecret "''token''"]
    by (simp add: oneSecret_def sampleAccounts_def ownedByWorkspace_def sampleAccess_def secretAt_def decryptRecord_def
        rotationEnv_def sampleEnv_def)
  ultimately show ?thesis
    using rotation_retires_old_keys [OF gcm _ run ring act] d ring' run by blast
qed

end
