(* ===== verification/Server_Edge.thy ===== *)
theory Server_Edge
  imports Key_Rotation Web_Api
begin

text \<open>
  The edge of the API server: what it checks of its configuration before it listens
  (\<open>main.ts\<close>, \<open>config/\<close>), how an exception becomes a problem document
  (\<open>common/problem-details.filter.ts\<close>, \<open>common/http-error.ts\<close>,
  \<open>common/format-validation-errors.ts\<close>), what is logged and counted of a request
  (\<open>observability/\<close>), and the mailer behind password resets (\<open>transactional-email/\<close>).
  Parsing a URL is the runtime's, a parameter.
\<close>

section \<open>Configuration\<close>

record server_env =
  sve_nodeEnv :: "string option"
  sve_jwtSecret :: "string option"
  sve_webAppBaseUrl :: "string option"
  sve_corsAllowedOrigins :: "string option"
  sve_mailProvider :: "string option"
  sve_resendApiKey :: "string option"
  sve_mailFrom :: "string option"

definition isProduction :: "server_env \<Rightarrow> bool" where
  "isProduction e \<longleftrightarrow> sve_nodeEnv e = Some ''production''"

definition DEV_JWT_SECRET :: string where
  "DEV_JWT_SECRET = ''dev-insecure-secret-change-me''"

definition resolveJwtSecret :: "server_env \<Rightarrow> string" where
  "resolveJwtSecret e = (if nonEmpty (sve_jwtSecret e) then the (sve_jwtSecret e)
     else if isProduction e then [] else DEV_JWT_SECRET)"

definition assertJwtSecretValid :: "server_env \<Rightarrow> exn + unit" where
  "assertJwtSecretValid e =
     (if \<not> isProduction e then Inr ()
      else if \<not> nonEmpty (sve_jwtSecret e) \<or> trim (the (sve_jwtSecret e)) = [] then Inl (PlainError ''JWT_SECRET is not set'')
      else if the (sve_jwtSecret e) = DEV_JWT_SECRET then Inl (PlainError ''JWT_SECRET is set to the public development value'')
      else Inr ())"

text \<open>\<open>new URL(raw)\<close>: protocol and origin, or an exception.\<close>

type_synonym url_parser = "string \<Rightarrow> (string \<times> string) option"

definition normalizeOrigin :: "url_parser \<Rightarrow> bool \<Rightarrow> string \<Rightarrow> exn + string" where
  "normalizeOrigin parse production raw =
     (if CHR ''*'' \<in> set raw then Inl (PlainError ''wildcard origin'')
      else case parse raw of
        None \<Rightarrow> Inl (PlainError ''invalid origin'')
      | Some (protocol, origin) \<Rightarrow>
          if protocol \<noteq> ''https:'' \<and> protocol \<noteq> ''http:'' then Inl (PlainError ''non-HTTP origin'')
          else if production \<and> protocol \<noteq> ''https:'' then Inl (PlainError ''non-HTTPS origin in production'')
          else Inr origin)"

definition DEV_DEFAULT_ORIGINS :: "string list" where
  "DEV_DEFAULT_ORIGINS = [''http://localhost:3000'', ''http://127.0.0.1:3000'']"

text \<open>A \<open>Set\<close> in the order of insertion.\<close>

definition addOrigin :: "string \<Rightarrow> string list \<Rightarrow> string list" where
  "addOrigin o' os = (if o' \<in> set os then os else os @ [o'])"

fun addOrigins :: "url_parser \<Rightarrow> bool \<Rightarrow> string list \<Rightarrow> string list \<Rightarrow> exn + string list" where
  "addOrigins parse production [] os = Inr os"
| "addOrigins parse production (entry # entries) os =
     (if trim entry = [] then addOrigins parse production entries os
      else case normalizeOrigin parse production (trim entry) of
        Inl e \<Rightarrow> Inl e
      | Inr o' \<Rightarrow> addOrigins parse production entries (addOrigin o' os))"

definition resolveAllowedOrigins :: "url_parser \<Rightarrow> server_env \<Rightarrow> exn + string list" where
  "resolveAllowedOrigins parse e =
     (let entries = (case sve_webAppBaseUrl e of Some u \<Rightarrow> [u] | None \<Rightarrow> []) @
        splitOn (CHR '','') (case sve_corsAllowedOrigins e of Some t \<Rightarrow> t | None \<Rightarrow> []) in
      case addOrigins parse (isProduction e) entries [] of
        Inl x \<Rightarrow> Inl x
      | Inr os \<Rightarrow>
          if os = [] then (if isProduction e then Inl (PlainError ''No CORS origin configured'') else Inr DEV_DEFAULT_ORIGINS)
          else Inr os)"

definition isAllowedOrigin :: "string list \<Rightarrow> string option \<Rightarrow> bool" where
  "isAllowedOrigin allowed origin = (case origin of None \<Rightarrow> True | Some o' \<Rightarrow> o' \<in> set allowed)"

datatype mail_config = Unconfigured | Resend string string

definition resolveMail :: "server_env \<Rightarrow> exn + mail_config" where
  "resolveMail e =
     (let raw = (case sve_mailProvider e of Some t \<Rightarrow> trim t | None \<Rightarrow> []) in
      if raw = [] then Inr Unconfigured
      else if raw = ''resend'' then
        (if \<not> nonEmpty (sve_resendApiKey e) \<or> \<not> nonEmpty (sve_mailFrom e)
         then Inl (PlainError ''TRANSACTIONAL_EMAIL_PROVIDER=resend requires'')
         else Inr (Resend (the (sve_resendApiKey e)) (the (sve_mailFrom e))))
      else Inl (PlainError ''Unsupported TRANSACTIONAL_EMAIL_PROVIDER value''))"

text \<open>The checks of \<open>bootstrap\<close>, in their order; what it binds when they pass.\<close>

record server_config =
  svc_ring :: key_ring
  svc_mail :: mail_config
  svc_jwtSecret :: string
  svc_origins :: "string list"

definition bootstrap :: "url_parser \<Rightarrow> env \<Rightarrow> server_env \<Rightarrow> exn + server_config" where
  "bootstrap parse E e = (case loadKeyRing E of
      Inl x \<Rightarrow> Inl x
    | Inr ring \<Rightarrow> (case resolveMail e of
        Inl x \<Rightarrow> Inl x
      | Inr mail \<Rightarrow> (case assertJwtSecretValid e of
          Inl x \<Rightarrow> Inl x
        | Inr _ \<Rightarrow> (case resolveAllowedOrigins parse e of
            Inl x \<Rightarrow> Inl x
          | Inr origins \<Rightarrow> Inr \<lparr>svc_ring = ring, svc_mail = mail, svc_jwtSecret = resolveJwtSecret e, svc_origins = origins\<rparr>))))"

section \<open>The mailer\<close>

text \<open>The result of a send and the lines it logs; the fake keeps what it was given.\<close>

datatype mail_service = FakeMail | UnconfiguredMail | ResendMail string string

definition resolveTransactionalEmailImplementation :: "server_env \<Rightarrow> mail_config \<Rightarrow> mail_service" where
  "resolveTransactionalEmailImplementation e config = (case config of
      Resend apiKey from \<Rightarrow> ResendMail apiKey from
    | Unconfigured \<Rightarrow> if isProduction e then UnconfiguredMail else FakeMail)"

record resend_request =
  rsq_authorization :: string
  rsq_from :: string
  rsq_to :: string
  rsq_subject :: string
  rsq_text :: string

definition NL :: string where
  "NL = [CHR 0x0A]"

definition passwordResetText :: "string \<Rightarrow> string" where
  "passwordResetText resetUrl = joinWith NL [''A password reset was requested for your account.'', [],
     ''Reset your password: '' @ resetUrl, [], ''This link expires in 30 minutes.'', [],
     ''If you did not request this, you can safely ignore this email.'']"

text \<open>\<open>fetch\<close> gives a status, or fails.\<close>

definition sendPasswordReset ::
  "mail_service \<Rightarrow> (resend_request \<Rightarrow> nat option) \<Rightarrow> string \<Rightarrow> string \<Rightarrow> (string \<times> string) list
    \<Rightarrow> (exn + unit) \<times> string list \<times> (string \<times> string) list" where
  "sendPasswordReset service fetch to resetUrl sent = (case service of
      FakeMail \<Rightarrow> (Inr (), [], sent @ [(to, resetUrl)])
    | UnconfiguredMail \<Rightarrow> (Inl (PlainError ''No transactional-email provider is configured.''),
        [''Password reset requested for a real account, but no transactional-email provider is configured in production. No email was sent for ''
           @ to @ ''. Configure a real TransactionalEmailService implementation before real users rely on this flow.''], sent)
    | ResendMail apiKey from \<Rightarrow>
        (case fetch \<lparr>rsq_authorization = ''Bearer '' @ apiKey, rsq_from = from, rsq_to = to, rsq_subject = ''Reset your password'',
             rsq_text = passwordResetText resetUrl\<rparr> of
           None \<Rightarrow> (Inl (PlainError ''Failed to reach the transactional-email provider.''), [''Network error calling the Resend API.''], sent)
         | Some status \<Rightarrow>
             if 200 \<le> status \<and> status \<le> 299 then (Inr (), [], sent)
             else (Inl (PlainError (''Resend API error (status '' @ natDigits status @ '')'')),
               [''Resend API returned an error response (status '' @ natDigits status @ '').''], sent)))"

section \<open>Problem documents\<close>

text \<open>What was thrown: an \<open>HttpException\<close> with its status, response and message, another
  \<open>Error\<close> with its message, or any other value.\<close>

datatype thrown_value = HttpException nat jsval string | OtherException string | NotAnError

definition httpError :: "nat \<Rightarrow> string \<Rightarrow> string \<Rightarrow> thrown_value" where
  "httpError status c message = HttpException status (JObj [(''message'', JStr message), (''code'', JStr c)]) message"

datatype validation_error = ValidationError (ver_property: string) (ver_constraints: "(string \<times> string) list") (ver_children: "validation_error list")

fun formatValidationErrors :: "validation_error list \<Rightarrow> string \<Rightarrow> (string \<times> string \<times> string) list"
  and formatValidationError :: "validation_error \<Rightarrow> string \<Rightarrow> (string \<times> string \<times> string) list" where
  "formatValidationErrors [] parentPath = []"
| "formatValidationErrors (e # es) parentPath = formatValidationError e parentPath @ formatValidationErrors es parentPath"
| "formatValidationError (ValidationError property constraints children) parentPath =
     (let field = (if parentPath \<noteq> [] then parentPath @ ''.'' @ property else property) in
      map (\<lambda>(c, message). (field, c, message)) constraints @ formatValidationErrors children field)"

definition fieldErrorJson :: "string \<times> string \<times> string \<Rightarrow> jsval" where
  "fieldErrorJson fe = JObj [(''field'', JStr (fst fe)), (''code'', JStr (fst (snd fe))), (''message'', JStr (snd (snd fe)))]"

definition validationException :: "validation_error list \<Rightarrow> thrown_value" where
  "validationException errors = HttpException 400
     (JObj [(''message'', JArr (map fieldErrorJson (formatValidationErrors errors []))), (''code'', JStr ''VALIDATION_ERROR'')])
     ''Bad Request Exception''"

definition codeForStatus :: "nat \<Rightarrow> string" where
  "codeForStatus status =
     (if status = 400 then ''VALIDATION_ERROR'' else if status = 401 then ''UNAUTHORIZED'' else if status = 403 then ''FORBIDDEN''
      else if status = 404 then ''NOT_FOUND'' else if status = 409 then ''CONFLICT'' else if status = 429 then ''RATE_LIMITED''
      else if 500 \<le> status then ''INTERNAL_ERROR'' else ''REQUEST_ERROR'')"

record normalized =
  nrm_status :: nat
  nrm_code :: string
  nrm_title :: string
  nrm_detail :: jsval
  nrm_errors :: jsval

definition isArray :: "jsval \<Rightarrow> bool" where
  "isArray v = (case v of JArr _ \<Rightarrow> True | _ \<Rightarrow> False)"

definition normalizeException :: "thrown_value \<Rightarrow> normalized" where
  "normalizeException exception = (case exception of
      HttpException status body message \<Rightarrow>
        if isObjectType body \<and> body \<noteq> JNull then
          (let m = getProp body ''message'' in
           \<lparr>nrm_status = status,
            nrm_code = (case getProp body ''code'' of JStr c \<Rightarrow> c | _ \<Rightarrow> codeForStatus status),
            nrm_title = (case getProp body ''error'' of JStr t \<Rightarrow> t | _ \<Rightarrow> message),
            nrm_detail = (if isArray m then JUndef else m), nrm_errors = (if isArray m then m else JUndef)\<rparr>)
        else \<lparr>nrm_status = status, nrm_code = codeForStatus status, nrm_title = message, nrm_detail = JUndef, nrm_errors = JUndef\<rparr>
    | OtherException message \<Rightarrow> \<lparr>nrm_status = 500, nrm_code = ''UNKNOWN'', nrm_title = ''Internal server error'',
        nrm_detail = JStr message, nrm_errors = JUndef\<rparr>
    | NotAnError \<Rightarrow> \<lparr>nrm_status = 500, nrm_code = ''UNKNOWN'', nrm_title = ''Internal server error'',
        nrm_detail = JUndef, nrm_errors = JUndef\<rparr>)"

definition problemSlug :: "string \<Rightarrow> string" where
  "problemSlug c = map (\<lambda>x. if x = CHR ''_'' then CHR ''-'' else x) (toLowerCase c)"

text \<open>The document sent; a member without a value is left out by the serialisation.\<close>

definition problemDetails :: "thrown_value \<Rightarrow> string \<Rightarrow> string \<Rightarrow> nat \<times> jsval" where
  "problemDetails exception url traceId =
     (let n = normalizeException exception in
      (nrm_status n, JObj (filter (\<lambda>kv. snd kv \<noteq> JUndef)
        [(''type'', JStr (''https://docs.smartmessagecenter.com/errors/'' @ problemSlug (nrm_code n))),
         (''title'', JStr (nrm_title n)), (''status'', JNum (Fin (of_nat (nrm_status n)))), (''detail'', nrm_detail n),
         (''instance'', JStr url), (''code'', JStr (nrm_code n)), (''traceId'', JStr traceId),
         (''errors'', if nullish (nrm_errors n) then JNull else nrm_errors n)])))"

section \<open>Logging and counting a request\<close>

text \<open>A request as the framework serves it: the middleware, then the guards, then the
  interceptor around the handler, and the filter for what any of them throws.\<close>

record http_in =
  hin_method :: string
  hin_path :: string
  hin_url :: string
  hin_route :: "string option"
  hin_traceHeader :: "string option"

datatype http_outcome = RefusedByGuard thrown_value | HandlerThrew thrown_value | Answered nat

record access_line =
  acl_traceId :: string
  acl_method :: string
  acl_path :: string
  acl_statusCode :: nat

type_synonym metric_labels = "string \<times> string \<times> nat"

record server_records =
  srd_log :: "access_line list"
  srd_httpRequestsTotal :: "metric_labels list"
  srd_httpErrorsTotal :: "metric_labels list"

definition traceIdOf :: "http_in \<Rightarrow> string \<Rightarrow> string" where
  "traceIdOf rq fresh = (if nonEmpty (hin_traceHeader rq) then the (hin_traceHeader rq) else fresh)"

definition recordHttpRequest :: "string \<Rightarrow> string \<Rightarrow> nat \<Rightarrow> server_records \<Rightarrow> server_records" where
  "recordHttpRequest method route status r =
     (let r1 = r\<lparr>srd_httpRequestsTotal := srd_httpRequestsTotal r @ [(method, route, status)]\<rparr> in
      if 400 \<le> status then r1\<lparr>srd_httpErrorsTotal := srd_httpErrorsTotal r1 @ [(method, route, status)]\<rparr> else r1)"

definition errorStatus :: "thrown_value \<Rightarrow> nat" where
  "errorStatus err = (case err of HttpException status _ _ \<Rightarrow> status | _ \<Rightarrow> 500)"

definition interceptMetrics :: "http_in \<Rightarrow> http_outcome \<Rightarrow> server_records \<Rightarrow> server_records" where
  "interceptMetrics rq outcome r =
     (let route = (case hin_route rq of Some t \<Rightarrow> t | None \<Rightarrow> hin_path rq) in
      case outcome of
        RefusedByGuard _ \<Rightarrow> r
      | HandlerThrew err \<Rightarrow> recordHttpRequest (hin_method rq) route (errorStatus err) r
      | Answered status \<Rightarrow> recordHttpRequest (hin_method rq) route status r)"

text \<open>The response: its trace header, its status and, of an exception, the document.\<close>

record http_out =
  hou_traceHeader :: string
  hou_status :: nat
  hou_problem :: "jsval option"

definition serveRequest :: "http_in \<Rightarrow> string \<Rightarrow> http_outcome \<Rightarrow> server_records \<Rightarrow> http_out \<times> server_records" where
  "serveRequest rq fresh outcome r =
     (let traceId = traceIdOf rq fresh; r1 = interceptMetrics rq outcome r;
          answer = (case outcome of
              Answered status \<Rightarrow> (status, None)
            | RefusedByGuard err \<Rightarrow> map_prod id Some (problemDetails err (hin_url rq) traceId)
            | HandlerThrew err \<Rightarrow> map_prod id Some (problemDetails err (hin_url rq) traceId)) in
      (\<lparr>hou_traceHeader = traceId, hou_status = fst answer, hou_problem = snd answer\<rparr>,
       r1\<lparr>srd_log := srd_log r1 @ [\<lparr>acl_traceId = traceId, acl_method = hin_method rq, acl_path = hin_path rq,
         acl_statusCode = fst answer\<rparr>]\<rparr>))"

fun serveAll :: "(http_in \<times> string \<times> http_outcome) list \<Rightarrow> server_records \<Rightarrow> http_out list \<times> server_records" where
  "serveAll [] r = ([], r)"
| "serveAll ((rq, fresh, outcome) # rest) r = (case serveRequest rq fresh outcome r of (out, r1) \<Rightarrow>
     (case serveAll rest r1 of (outs, r2) \<Rightarrow> (out # outs, r2)))"

section \<open>Properties\<close>

definition httpsOrigin :: "url_parser \<Rightarrow> string \<Rightarrow> bool" where
  "httpsOrigin parse o' \<longleftrightarrow> (\<exists>raw. CHR ''*'' \<notin> set raw \<and> parse raw = Some (''https:'', o'))"

lemma normalizeOrigin_https: "normalizeOrigin parse True raw = Inr o' \<Longrightarrow> httpsOrigin parse o'"
  by (auto simp: normalizeOrigin_def httpsOrigin_def split: if_splits option.splits)

lemma addOrigins_https:
  "addOrigins parse True entries os = Inr origins \<Longrightarrow> \<forall>o'\<in>set os. httpsOrigin parse o' \<Longrightarrow> \<forall>o'\<in>set origins. httpsOrigin parse o'"
proof (induction entries arbitrary: os)
  case (Cons entry entries)
  show ?case
  proof (cases "trim entry = []")
    case False
    then obtain o' where o': "normalizeOrigin parse True (trim entry) = Inr o'" "addOrigins parse True entries (addOrigin o' os) = Inr origins"
      using Cons.prems(1) by (auto split: sum.splits)
    have "\<forall>x\<in>set (addOrigin o' os). httpsOrigin parse x"
      using Cons.prems(2) normalizeOrigin_https [OF o'(1)] by (simp add: addOrigin_def)
    then show ?thesis by (rule Cons.IH [OF o'(2)])
  qed (use Cons in simp)
qed simp

text \<open>A key of the environment: it decodes one of its variables to 32 bytes.\<close>

definition environmentKey :: "env \<Rightarrow> string \<Rightarrow> bool" where
  "environmentKey E k \<longleftrightarrow> length k = 32 \<and> (\<exists>h. (ke_key1 (keyEnv E) = Some h \<or> ke_key2 (keyEnv E) = Some h) \<and> k = hexDecode h)"

lemma addKey_environment:
  assumes "addKey v h ring = Inr ring'" "\<forall>(v, k)\<in>set ring. environmentKey E k" "h = ke_key1 (keyEnv E) \<or> h = ke_key2 (keyEnv E)"
  shows "\<forall>(v, k)\<in>set ring'. environmentKey E k"
proof (cases "nonEmpty h")
  case True
  then obtain t where t: "h = Some t" by (auto simp: nonEmpty_def)
  then have r: "length (hexDecode t) = 32" "ring' = ring @ [(v, hexDecode t)]"
    using assms(1) True by (auto simp: addKey_def parseKey_def Let_def split: if_splits)
  have "ke_key1 (keyEnv E) = Some t \<or> ke_key2 (keyEnv E) = Some t" using assms(3) t by metis
  then have "environmentKey E (hexDecode t)" using r(1) by (auto simp: environmentKey_def)
  then show ?thesis using assms(2) r(2) by auto
qed (use assms in \<open>simp add: addKey_def\<close>)

lemma ring_from_environment:
  assumes "loadKeyRing E = Inr ring" "ke_nodeEnv (keyEnv E) = Some ''production''"
  shows "ring \<noteq> [] \<and> (\<forall>(v, k)\<in>set ring. environmentKey E k)"
proof -
  obtain r1 where r: "addKey 1 (ke_key1 (keyEnv E)) [] = Inr r1" "addKey 2 (ke_key2 (keyEnv E)) r1 = Inr ring" "ring \<noteq> []"
    using assms by (auto simp: loadKeyRing_def split: sum.splits if_splits)
  have "\<forall>(v, k)\<in>set r1. environmentKey E k" by (rule addKey_environment [OF r(1)]) simp_all
  then show ?thesis using addKey_environment [OF r(2)] r(3) by blast
qed

text \<open>C15: a production server that starts is guarded. It has at least one credential key, of 32
  bytes and from its environment; it signs tokens with a secret of its own, neither blank
  nor the public development one; it echoes only origins of https URLs without a
  wildcard, at least one of them, and so refuses every other one; and it mails through
  Resend with a key and a sender, or not at all, never into the development fake.\<close>

theorem production_start_is_guarded:
  assumes "isProduction e" "ke_nodeEnv (keyEnv E) = sve_nodeEnv e" "bootstrap parse E e = Inr config"
  shows "svc_ring config \<noteq> [] \<and> (\<forall>(v, k)\<in>set (svc_ring config). environmentKey E k) \<and>
    sve_jwtSecret e = Some (svc_jwtSecret config) \<and> trim (svc_jwtSecret config) \<noteq> [] \<and> svc_jwtSecret config \<noteq> DEV_JWT_SECRET \<and>
    svc_origins config \<noteq> [] \<and>
    (\<forall>o'. isAllowedOrigin (svc_origins config) (Some o') \<longrightarrow> httpsOrigin parse o') \<and>
    resolveTransactionalEmailImplementation e (svc_mail config) \<noteq> FakeMail"
proof -
  obtain ring mail origins where b: "loadKeyRing E = Inr ring" "resolveMail e = Inr mail" "assertJwtSecretValid e = Inr ()"
    "resolveAllowedOrigins parse e = Inr origins"
    "config = \<lparr>svc_ring = ring, svc_mail = mail, svc_jwtSecret = resolveJwtSecret e, svc_origins = origins\<rparr>"
    using assms(3) by (auto simp: bootstrap_def split: sum.splits)
  have ring: "ring \<noteq> [] \<and> (\<forall>(v, k)\<in>set ring. environmentKey E k)"
    using ring_from_environment [OF b(1)] assms(1,2) by (auto simp: isProduction_def)
  have jwt: "sve_jwtSecret e = Some (resolveJwtSecret e)" "trim (resolveJwtSecret e) \<noteq> []" "resolveJwtSecret e \<noteq> DEV_JWT_SECRET"
    using b(3) assms(1) by (auto simp: assertJwtSecretValid_def resolveJwtSecret_def nonEmpty_def split: if_splits)
  have origins: "origins \<noteq> []" "\<forall>o'\<in>set origins. httpsOrigin parse o'"
    using b(4) assms(1) addOrigins_https [of parse _ "[]"]
    by (auto simp: resolveAllowedOrigins_def Let_def split: sum.splits if_splits)
  show ?thesis
    using ring jwt origins assms(1) unfolding b(5)
    by (simp add: isAllowedOrigin_def resolveTransactionalEmailImplementation_def split: mail_config.splits)
qed

definition sampleServer :: server_env where
  "sampleServer = \<lparr>sve_nodeEnv = Some ''production'', sve_jwtSecret = Some ''a secret of some length, not public'',
     sve_webAppBaseUrl = Some ''https://app.example'', sve_corsAllowedOrigins = Some '' https://admin.example,'',
     sve_mailProvider = None, sve_resendApiKey = None, sve_mailFrom = None\<rparr>"

definition sampleParser :: url_parser where
  "sampleParser raw = (if startsWith raw ''https://'' then Some (''https:'', raw) else None)"

theorem production_start_is_guarded_witness:
  "\<exists>config. bootstrap sampleParser (rotationEnv True) sampleServer = Inr config \<and>
     svc_origins config = [''https://app.example'', ''https://admin.example''] \<and> length (svc_ring config) = 2 \<and>
     \<not> isAllowedOrigin (svc_origins config) (Some ''https://evil.example'') \<and> svc_jwtSecret config \<noteq> DEV_JWT_SECRET"
proof -
  let ?ring = "[(1, rawKey (CHR ''1'')), (2, rawKey (CHR ''2''))]"
  have k: "length (rawKey (CHR ''1'')) = 32" "length (rawKey (CHR ''2'')) = 32" by code_simp+
  have ne: "nonEmpty (Some (hexKey c))" for c by (simp add: nonEmpty_def hexKey_def numeral_eq_Suc)
  have p: "parseKey (hexKey c) = Inr (rawKey c)" if "length (rawKey c) = 32" for c
    using that by (simp add: parseKey_def rawKey_def Let_def)
  have ring: "loadKeyRing (rotationEnv True) = Inr ?ring"
    using k ne p by (simp add: loadKeyRing_def addKey_def rotationEnv_def)
  have "resolveMail sampleServer = Inr Unconfigured" "assertJwtSecretValid sampleServer = Inr ()"
    "resolveAllowedOrigins sampleParser sampleServer = Inr [''https://app.example'', ''https://admin.example'']"
    by code_simp+
  then have b: "bootstrap sampleParser (rotationEnv True) sampleServer = Inr \<lparr>svc_ring = ?ring, svc_mail = Unconfigured,
      svc_jwtSecret = resolveJwtSecret sampleServer, svc_origins = [''https://app.example'', ''https://admin.example'']\<rparr>"
    using ring by (simp add: bootstrap_def)
  have "isProduction sampleServer" "ke_nodeEnv (keyEnv (rotationEnv True)) = sve_nodeEnv sampleServer"
    by (simp_all add: isProduction_def sampleServer_def rotationEnv_def)
  from production_start_is_guarded [OF this b] show ?thesis using b by (simp add: isAllowedOrigin_def)
qed

text \<open>The start does not look at the active version: one that names no key passes, and then no
  secret can be stored.\<close>

lemma missing_active_key_starts:
  assumes "loadKeyRing E = Inr ring" "encryptionKeyForVersion ring (activeVersion E ring) = Inl x"
    and "resolveMail e = Inr mail" "assertJwtSecretValid e = Inr ()" "resolveAllowedOrigins parse e = Inr origins"
  shows "(\<exists>config. bootstrap parse E e = Inr config) \<and> putSecret E plaintext s = (Inl x, s)"
  using assms by (simp add: bootstrap_def putSecret_def)

section \<open>What the client shows of an error\<close>

lemma parse_problem:
  assumes "problemDetails err url traceId = (status, body)"
  shows "getProp body ''errors'' = (if nullish (nrm_errors (normalizeException err)) then JNull else nrm_errors (normalizeException err))"
    "getProp body ''detail'' = nrm_detail (normalizeException err)" "getProp body ''title'' = JStr (nrm_title (normalizeException err))"
    "getProp body ''traceId'' = JStr traceId" "getProp body ''code'' = JStr (nrm_code (normalizeException err))"
    "status = nrm_status (normalizeException err)"
  using assms by (auto simp: problemDetails_def Let_def getProp_def getObjProto_def objectMethods_def nullish_def)

lemma httpError_normal: "normalizeException (httpError status c message) =
    \<lparr>nrm_status = status, nrm_code = c, nrm_title = message, nrm_detail = JStr message, nrm_errors = JUndef\<rparr>"
  by (simp add: normalizeException_def httpError_def Let_def getProp_def getObjProto_def objectMethods_def isArray_def)

lemma validation_normal: "normalizeException (validationException es) =
    \<lparr>nrm_status = 400, nrm_code = ''VALIDATION_ERROR'', nrm_title = ''Bad Request Exception'', nrm_detail = JUndef,
     nrm_errors = JArr (map fieldErrorJson (formatValidationErrors es []))\<rparr>"
  by (simp add: normalizeException_def validationException_def Let_def getProp_def getObjProto_def objectMethods_def isArray_def)

definition errorTexts :: "(string \<times> string \<times> string) list \<Rightarrow> string" where
  "errorTexts fes = joinWith '' '' (map (\<lambda>fe. snd (snd fe)) fes)"

lemma problemMessage_parts:
  "problemMessage status body = (case getProp body ''errors'' of
      JArr es \<Rightarrow> Some (if joinWith '' '' (map (\<lambda>e. case getProp e ''message'' of JStr m \<Rightarrow> m | _ \<Rightarrow> []) es) \<noteq> []
        then joinWith '' '' (map (\<lambda>e. case getProp e ''message'' of JStr m \<Rightarrow> m | _ \<Rightarrow> []) es)
        else case getProp body ''detail'' of JStr (c # cs) \<Rightarrow> c # cs
          | _ \<Rightarrow> (case getProp body ''title'' of JStr (c # cs) \<Rightarrow> c # cs | _ \<Rightarrow> ''Request failed ('' @ natDigits status @ '')''))
    | v \<Rightarrow> if nullish v then Some (case getProp body ''detail'' of JStr (c # cs) \<Rightarrow> c # cs
          | _ \<Rightarrow> (case getProp body ''title'' of JStr (c # cs) \<Rightarrow> c # cs | _ \<Rightarrow> ''Request failed ('' @ natDigits status @ '')''))
        else None)"
  by (cases "getProp body ''errors''") (simp_all add: problemMessage_def Let_def)

text \<open>C38: what the server throws is what the client shows. Through the problem document and the
  client's reading of it, an error of the API shows its message under its status and
  code, a failed validation shows the messages of its fields, and an unforeseen error,
  answered with 500, shows its internal message.\<close>

theorem client_shows_what_was_thrown:
  assumes "400 \<le> status" "message \<noteq> []" "errorTexts (formatValidationErrors es []) \<noteq> []"
  shows "(case problemDetails (httpError status c message) url traceId of (st, body) \<Rightarrow>
      st = status \<and> parseOrThrow st body = Inl (Some message) \<and> getProp body ''code'' = JStr c \<and> getProp body ''traceId'' = JStr traceId) \<and>
    (case problemDetails (validationException es) url traceId of (st, body) \<Rightarrow>
      st = 400 \<and> parseOrThrow st body = Inl (Some (errorTexts (formatValidationErrors es [])))) \<and>
    (case problemDetails (OtherException message) url traceId of (st, body) \<Rightarrow>
      st = 500 \<and> parseOrThrow st body = Inl (Some message))"
proof (intro conjI)
  obtain m ms where m: "message = m # ms" using assms(2) by (cases message) auto
  obtain st body where 1: "problemDetails (httpError status c message) url traceId = (st, body)" by (metis surj_pair)
  show "case problemDetails (httpError status c message) url traceId of (st, body) \<Rightarrow>
      st = status \<and> parseOrThrow st body = Inl (Some message) \<and> getProp body ''code'' = JStr c \<and> getProp body ''traceId'' = JStr traceId"
    using assms(1) m 1 parse_problem [OF 1]
    by (simp add: httpError_normal parseOrThrow_def problemMessage_parts nullish_def)
  obtain st2 body2 where 2: "problemDetails (validationException es) url traceId = (st2, body2)" by (metis surj_pair)
  have j: "map (\<lambda>e. case getProp e ''message'' of JStr m \<Rightarrow> m | _ \<Rightarrow> []) (map fieldErrorJson fes) = map (\<lambda>fe. snd (snd fe)) fes" for fes
    by (simp add: fieldErrorJson_def getProp_def)
  show "case problemDetails (validationException es) url traceId of (st, body) \<Rightarrow>
      st = 400 \<and> parseOrThrow st body = Inl (Some (errorTexts (formatValidationErrors es [])))"
    using assms(3) 2 parse_problem [OF 2]
    by (simp add: validation_normal parseOrThrow_def problemMessage_parts nullish_def errorTexts_def j del: map_map)
  obtain st3 body3 where 3: "problemDetails (OtherException message) url traceId = (st3, body3)" by (metis surj_pair)
  show "case problemDetails (OtherException message) url traceId of (st, body) \<Rightarrow>
      st = 500 \<and> parseOrThrow st body = Inl (Some message)"
    using m 3 parse_problem [OF 3]
    by (simp add: normalizeException_def parseOrThrow_def problemMessage_parts nullish_def)
qed

theorem client_shows_what_was_thrown_witness:
  "case problemDetails (validationException [ValidationError ''trigger'' [] [ValidationError ''type'' [(''isIn'', ''type is unknown'')] []]])
     ''/v1/rules'' ''t1'' of (st, body) \<Rightarrow> st = 400 \<and> parseOrThrow st body = Inl (Some ''type is unknown'')"
  using client_shows_what_was_thrown [of 412 "''x''" "[ValidationError ''trigger'' [] [ValidationError ''type'' [(''isIn'', ''type is unknown'')] []]]"
      "''c''" "''t1''" "''/v1/rules''"]
  by (simp add: errorTexts_def)

section \<open>What is logged and counted\<close>

text \<open>A request that passed the guards, and the labels it is answered under.\<close>

definition passedGuards :: "http_in \<times> string \<times> http_outcome \<Rightarrow> bool" where
  "passedGuards x = (case snd (snd x) of RefusedByGuard _ \<Rightarrow> False | _ \<Rightarrow> True)"

definition answeredAs :: "(http_in \<times> string \<times> http_outcome) \<times> http_out \<Rightarrow> metric_labels" where
  "answeredAs y = (case fst y of (rq, _, _) \<Rightarrow>
     (hin_method rq, case hin_route rq of Some t \<Rightarrow> t | None \<Rightarrow> hin_path rq, hou_status (snd y)))"

lemma errorStatus_normal: "nrm_status (normalizeException err) = errorStatus err"
  by (simp add: normalizeException_def errorStatus_def Let_def split: thrown_value.splits)

lemma problem_status: "fst (problemDetails err url traceId) = errorStatus err"
  by (simp add: problemDetails_def Let_def errorStatus_normal)

lemma serveRequest_records:
  assumes "serveRequest rq fresh outcome r = (out, r')"
  shows "map (\<lambda>l. (acl_traceId l, acl_statusCode l)) (srd_log r') = map (\<lambda>l. (acl_traceId l, acl_statusCode l)) (srd_log r) @ [(hou_traceHeader out, hou_status out)]"
    "srd_httpRequestsTotal r' = srd_httpRequestsTotal r @ (if passedGuards (rq, fresh, outcome) then [answeredAs ((rq, fresh, outcome), out)] else [])"
    "srd_httpErrorsTotal r' = srd_httpErrorsTotal r @
      filter (\<lambda>l. 400 \<le> snd (snd l)) (if passedGuards (rq, fresh, outcome) then [answeredAs ((rq, fresh, outcome), out)] else [])"
  using assms
  by (auto simp: serveRequest_def Let_def interceptMetrics_def recordHttpRequest_def passedGuards_def answeredAs_def problem_status
      split: http_outcome.splits)

text \<open>Every request leaves one access line, with the trace id and the status of its response,
  and a request that passed the guards is counted once under the status it was answered
  with, as an error when that is 400 or above. A request a guard refuses, for want of a
  token or over the rate limit, is logged but never counted.\<close>

theorem requests_logged_and_counted:
  assumes "serveAll rqs \<lparr>srd_log = [], srd_httpRequestsTotal = [], srd_httpErrorsTotal = []\<rparr> = (outs, r)"
  shows "length outs = length rqs \<and>
    map (\<lambda>l. (acl_traceId l, acl_statusCode l)) (srd_log r) = map (\<lambda>out. (hou_traceHeader out, hou_status out)) outs \<and>
    srd_httpRequestsTotal r = map answeredAs (filter (passedGuards \<circ> fst) (zip rqs outs)) \<and>
    srd_httpErrorsTotal r = filter (\<lambda>l. 400 \<le> snd (snd l)) (srd_httpRequestsTotal r)"
proof -
  have "length outs = length rqs \<and>
    map (\<lambda>l. (acl_traceId l, acl_statusCode l)) (srd_log r) =
      map (\<lambda>l. (acl_traceId l, acl_statusCode l)) (srd_log r0) @ map (\<lambda>out. (hou_traceHeader out, hou_status out)) outs \<and>
    srd_httpRequestsTotal r = srd_httpRequestsTotal r0 @ map answeredAs (filter (passedGuards \<circ> fst) (zip rqs outs)) \<and>
    srd_httpErrorsTotal r = srd_httpErrorsTotal r0 @
      filter (\<lambda>l. 400 \<le> snd (snd l)) (map answeredAs (filter (passedGuards \<circ> fst) (zip rqs outs)))"
    if "serveAll rqs r0 = (outs, r)" for r0
    using that
  proof (induction rqs arbitrary: r0 outs)
    case (Cons x rqs)
    obtain rq fresh outcome where x: "x = (rq, fresh, outcome)" by (metis surj_pair)
    obtain out r1 outs1 where o1: "serveRequest rq fresh outcome r0 = (out, r1)" "serveAll rqs r1 = (outs1, r)" "outs = out # outs1"
      using Cons.prems by (auto simp: x split: prod.splits)
    show ?case using Cons.IH [OF o1(2)] serveRequest_records [OF o1(1)] by (simp add: o1(3) x)
  qed simp
  from this [OF assms] show ?thesis by simp
qed

theorem requests_logged_and_counted_witness:
  "case serveAll [(\<lparr>hin_method = ''GET'', hin_path = ''/v1/rules'', hin_url = ''/v1/rules'', hin_route = Some ''/v1/rules'', hin_traceHeader = None\<rparr>,
       ''t1'', RefusedByGuard (httpError 401 ''UNAUTHENTICATED'' ''Missing bearer token.''))]
     \<lparr>srd_log = [], srd_httpRequestsTotal = [], srd_httpErrorsTotal = []\<rparr> of (outs, r) \<Rightarrow>
     map hou_status outs = [401] \<and> length (srd_log r) = 1 \<and> srd_httpRequestsTotal r = []"
proof -
  let ?rq = "(\<lparr>hin_method = ''GET'', hin_path = ''/v1/rules'', hin_url = ''/v1/rules'', hin_route = Some ''/v1/rules'', hin_traceHeader = None\<rparr>,
       ''t1'', RefusedByGuard (httpError 401 ''UNAUTHENTICATED'' ''Missing bearer token.''))"
  obtain outs r where s: "serveAll [?rq] \<lparr>srd_log = [], srd_httpRequestsTotal = [], srd_httpErrorsTotal = []\<rparr> = (outs, r)"
    by (metis surj_pair)
  have "map hou_status outs = [401]"
    using s by (auto simp: serveRequest_def Let_def problem_status errorStatus_def httpError_def)
  then show ?thesis
    using s requests_logged_and_counted [OF s] by (auto simp: passedGuards_def dest: arg_cong [where f = length] split: prod.splits)
qed

end
