(* ===== verification/Js_Regex.thy ===== *)
theory Js_Regex
  imports Js_Value
begin

text \<open>
  The regular expressions of JavaScript as the sources use them: classes, sequences,
  alternatives, greedy and lazy repetition, capturing groups, and the assertions
  \<open>^\<close>, \<open>$\<close> and \<open>\b\<close>. A matcher lists all ways to match in the order backtracking tries
  them, so its first result is the match. An expression with the flag \<open>i\<close> is written over
  classes that fold the case.
\<close>

section \<open>Expressions\<close>

datatype regex =
    Chars "char \<Rightarrow> bool"
  | Seq "regex list"
  | Alt "regex list"
  | Rep bool nat "nat option" regex
  | Cap nat regex
  | WordBoundary
  | AtStart
  | AtEnd

text \<open>A state of a match: the place reached and the groups captured, as text.\<close>

type_synonym captures = "(nat \<times> string) list"

definition charAt :: "string \<Rightarrow> nat \<Rightarrow> char option" where
  "charAt s i = (if i < length s then Some (s ! i) else None)"

definition wordAt :: "string \<Rightarrow> nat \<Rightarrow> bool" where
  "wordAt s i = (case charAt s i of None \<Rightarrow> False | Some c \<Rightarrow> isWordChar c)"

definition atBoundary :: "string \<Rightarrow> nat \<Rightarrow> bool" where
  "atBoundary s i \<longleftrightarrow> (0 < i \<and> wordAt s (i - 1)) \<noteq> wordAt s i"

definition slice :: "nat \<Rightarrow> nat \<Rightarrow> string \<Rightarrow> string" where
  "slice i j s = take (j - i) (drop i s)"

text \<open>Repetition: at least \<open>mn\<close> and at most \<open>mx\<close> rounds; past the minimum a round that
  consumes nothing is refused, so as many rounds as characters are enough.\<close>

type_synonym matcher = "nat \<times> captures \<Rightarrow> (nat \<times> captures) list"

fun repeatMatch :: "matcher \<Rightarrow> bool \<Rightarrow> nat \<Rightarrow> nat \<Rightarrow> nat option \<Rightarrow> matcher" where
  "repeatMatch f greedy 0 mn mx st = (if mn = 0 then [st] else [])"
| "repeatMatch f greedy (Suc fuel) mn mx st =
     (let more = (if mx = Some 0 then []
        else concat (map (\<lambda>st'. if mn = 0 \<and> fst st' = fst st then []
          else repeatMatch f greedy fuel (mn - 1) (map_option (\<lambda>m. m - 1) mx) st') (f st)));
          stop = (if mn = 0 then [st] else []) in
      if greedy then more @ stop else stop @ more)"

primrec matches :: "string \<Rightarrow> regex \<Rightarrow> matcher"
  and matchesSeq :: "string \<Rightarrow> regex list \<Rightarrow> matcher"
  and matchesAlt :: "string \<Rightarrow> regex list \<Rightarrow> matcher" where
  "matches s (Chars p) = (\<lambda>(i, c). case charAt s i of None \<Rightarrow> [] | Some x \<Rightarrow> if p x then [(Suc i, c)] else [])"
| "matches s (Seq rs) = matchesSeq s rs"
| "matches s (Alt rs) = matchesAlt s rs"
| "matches s (Rep greedy mn mx r) = repeatMatch (matches s r) greedy (Suc (length s) + mn) mn mx"
| "matches s (Cap n r) = (\<lambda>(i, c). map (\<lambda>(j, c'). (j, (n, slice i j s) # c')) (matches s r (i, c)))"
| "matches s WordBoundary = (\<lambda>(i, c). if atBoundary s i then [(i, c)] else [])"
| "matches s AtStart = (\<lambda>(i, c). if i = 0 then [(i, c)] else [])"
| "matches s AtEnd = (\<lambda>(i, c). if i = length s then [(i, c)] else [])"
| "matchesSeq s [] = (\<lambda>st. [st])"
| "matchesSeq s (r # rs) = (\<lambda>st. concat (map (matchesSeq s rs) (matches s r st)))"
| "matchesAlt s [] = (\<lambda>st. [])"
| "matchesAlt s (r # rs) = (\<lambda>st. matches s r st @ matchesAlt s rs st)"

section \<open>Searching\<close>

text \<open>A match: where it starts, where it ends, and its groups.\<close>

record regex_match =
  rm_start :: nat
  rm_end :: nat
  rm_groups :: captures

fun searchFrom :: "regex \<Rightarrow> string \<Rightarrow> nat \<Rightarrow> nat \<Rightarrow> regex_match option" where
  "searchFrom r s 0 i = None"
| "searchFrom r s (Suc n) i = (case matches s r (i, []) of
      (j, c) # _ \<Rightarrow> Some \<lparr>rm_start = i, rm_end = j, rm_groups = c\<rparr>
    | [] \<Rightarrow> searchFrom r s n (Suc i))"

text \<open>The first match at or after a place: there are \<open>length s + 1 - i\<close> places to try.\<close>

definition execRegex :: "regex \<Rightarrow> string \<Rightarrow> nat \<Rightarrow> regex_match option" where
  "execRegex r s i = searchFrom r s (Suc (length s) - i) i"

definition testRegex :: "regex \<Rightarrow> string \<Rightarrow> bool" where
  "testRegex r s \<longleftrightarrow> execRegex r s 0 \<noteq> None"

definition matchText :: "string \<Rightarrow> regex_match \<Rightarrow> string" where
  "matchText s m = slice (rm_start m) (rm_end m) s"

definition groupText :: "regex_match \<Rightarrow> nat \<Rightarrow> string option" where
  "groupText m n = map_of (rm_groups m) n"

text \<open>All matches of a global expression, each looked for where the last one ended, and after
  an empty one a place further.\<close>

fun matchesFrom :: "regex \<Rightarrow> string \<Rightarrow> nat \<Rightarrow> nat \<Rightarrow> regex_match list" where
  "matchesFrom r s 0 i = []"
| "matchesFrom r s (Suc n) i = (case execRegex r s i of
      None \<Rightarrow> []
    | Some m \<Rightarrow> m # matchesFrom r s n (if rm_end m = rm_start m then Suc (rm_end m) else rm_end m))"

definition matchAll :: "regex \<Rightarrow> string \<Rightarrow> regex_match list" where
  "matchAll r s = matchesFrom r s (Suc (length s)) 0"

text \<open>\<open>replace\<close> with a global expression and a text without references.\<close>

fun replaceMatches :: "string \<Rightarrow> string \<Rightarrow> nat \<Rightarrow> regex_match list \<Rightarrow> string" where
  "replaceMatches s new i [] = drop i s"
| "replaceMatches s new i (m # ms) = slice i (rm_start m) s @ new @ replaceMatches s new (rm_end m) ms"

definition replaceAll :: "regex \<Rightarrow> string \<Rightarrow> string \<Rightarrow> string" where
  "replaceAll r new s = replaceMatches s new 0 (matchAll r s)"

text \<open>\<open>split\<close> with an expression that does not match the empty text.\<close>

fun piecesBetween :: "string \<Rightarrow> nat \<Rightarrow> regex_match list \<Rightarrow> string list" where
  "piecesBetween s i [] = [drop i s]"
| "piecesBetween s i (m # ms) = slice i (rm_start m) s # piecesBetween s (rm_end m) ms"

definition splitRegex :: "regex \<Rightarrow> string \<Rightarrow> string list" where
  "splitRegex r s = piecesBetween s 0 (matchAll r s)"

section \<open>Writing expressions\<close>

definition lit :: "string \<Rightarrow> regex" where
  "lit t = Seq (map (\<lambda>x. Chars (\<lambda>c. c = x)) t)"

text \<open>A literal under the flag \<open>i\<close>.\<close>

definition foldCase :: "char \<Rightarrow> char" where
  "foldCase c = hd (toLowerCase [c])"

definition liti :: "string \<Rightarrow> regex" where
  "liti t = Seq (map (\<lambda>x. Chars (\<lambda>c. foldCase c = foldCase x)) t)"

definition many :: "regex \<Rightarrow> regex" where
  "many r = Rep True 0 None r"

definition some1 :: "regex \<Rightarrow> regex" where
  "some1 r = Rep True 1 None r"

definition optional :: "regex \<Rightarrow> regex" where
  "optional r = Rep True 0 (Some 1) r"

definition digit :: regex where
  "digit = Chars isDigit"

definition blank :: regex where
  "blank = Chars isSpace"

definition oneOf :: "string \<Rightarrow> regex" where
  "oneOf t = Chars (\<lambda>c. c \<in> set t)"

definition noneOf :: "string \<Rightarrow> regex" where
  "noneOf t = Chars (\<lambda>c. c \<notin> set t)"

section \<open>Facts\<close>

text \<open>What holds from state to state of a match: it is enough that a step over one character
  and the capture of a group keep it.\<close>

definition stepwise :: "string \<Rightarrow> (nat \<times> captures \<Rightarrow> nat \<times> captures \<Rightarrow> bool) \<Rightarrow> bool" where
  "stepwise s R \<longleftrightarrow> reflp R \<and> transp R \<and> (\<forall>i c. i < length s \<longrightarrow> R (i, c) (Suc i, c)) \<and>
     (\<forall>i c j c' n. R (i, c) (j, c') \<longrightarrow> R (i, c) (j, (n, slice i j s) # c'))"

lemma repeatMatch_rel:
  assumes "reflp R" "transp R" "\<And>st st'. st' \<in> set (f st) \<Longrightarrow> R st st'"
  shows "st' \<in> set (repeatMatch f greedy fuel mn mx st) \<Longrightarrow> R st st'"
  using assms(3)
proof (induction f greedy fuel mn mx st rule: repeatMatch.induct)
  case (1 f greedy mn mx st)
  then show ?case using reflpD [OF assms(1)] by (auto split: if_splits)
next
  case (2 f greedy fuel mn mx st)
  from 2(2) consider "st' = st"
    | st1 where "st1 \<in> set (f st)" "st' \<in> set (repeatMatch f greedy fuel (mn - 1) (map_option (\<lambda>m. m - 1) mx) st1)"
      "mx \<noteq> Some 0" "\<not> (mn = 0 \<and> fst st1 = fst st)"
    by (auto simp: Let_def split: if_splits)
  then show ?case
  proof cases
    case (2 st1)
    then have "R st1 st'" using "2.IH" "2.prems"(2) by blast
    then show ?thesis using transpD [OF assms(2) "2.prems"(2)] 2(1) by blast
  qed (use reflpD [OF assms(1)] in simp)
qed

lemma matches_rel:
  assumes "stepwise s R"
  shows "\<forall>st st'. st' \<in> set (matches s r st) \<longrightarrow> R st st'"
proof (rule matches.induct [of "\<lambda>r. \<forall>st st'. st' \<in> set (matches s r st) \<longrightarrow> R st st'"
      "\<lambda>rs. \<forall>st st'. st' \<in> set (matchesSeq s rs st) \<longrightarrow> R st st'"
      "\<lambda>rs. \<forall>st st'. st' \<in> set (matchesAlt s rs st) \<longrightarrow> R st st'"])
  have R: "reflp R" "transp R" "\<And>i c. i < length s \<Longrightarrow> R (i, c) (Suc i, c)"
    "\<And>i c j c' n. R (i, c) (j, c') \<Longrightarrow> R (i, c) (j, (n, slice i j s) # c')"
    using assms by (auto simp: stepwise_def)
  show "\<forall>st st'. st' \<in> set (matches s (Chars p) st) \<longrightarrow> R st st'" for p
    using R(3) by (auto simp: charAt_def split: if_splits)
  show "\<forall>st st'. st' \<in> set (matches s (Rep g mn mx r) st) \<longrightarrow> R st st'"
    if "\<forall>st st'. st' \<in> set (matches s r st) \<longrightarrow> R st st'" for g mn mx r
    unfolding matches.simps using repeatMatch_rel [OF R(1,2)] that by metis
  show "\<forall>st st'. st' \<in> set (matches s (Cap n r) st) \<longrightarrow> R st st'"
    if "\<forall>st st'. st' \<in> set (matches s r st) \<longrightarrow> R st st'" for n r
    using R(4) that by fastforce
  show "\<forall>st st'. st' \<in> set (matchesSeq s (r # rs) st) \<longrightarrow> R st st'"
    if "\<forall>st st'. st' \<in> set (matches s r st) \<longrightarrow> R st st'" "\<forall>st st'. st' \<in> set (matchesSeq s rs st) \<longrightarrow> R st st'" for r rs
    using that transpD [OF R(2)] by fastforce
qed (use assms in \<open>auto simp: stepwise_def dest: reflpD split: if_splits\<close>)

text \<open>A matcher only moves forward, and not past the end of the text.\<close>

lemma matches_forward:
  assumes "st' \<in> set (matches s r st)" "fst st \<le> length s"
  shows "fst st \<le> fst st' \<and> fst st' \<le> length s"
proof -
  have "stepwise s (\<lambda>st st'. fst st \<le> length s \<longrightarrow> fst st \<le> fst st' \<and> fst st' \<le> length s)"
    by (auto simp: stepwise_def reflp_def transp_def)
  from matches_rel [OF this] show ?thesis using assms by blast
qed

lemma slice_part: "\<exists>a b. s = a @ slice i j s @ b"
proof -
  have "s = take i s @ take (j - i) (drop i s) @ drop (j - i) (drop i s)" by (simp only: append_take_drop_id)
  then show ?thesis unfolding slice_def by metis
qed

lemma strIncludes_slice: "strIncludes s (slice i j s)"
  using slice_part strIncludes_append by metis

text \<open>What a group holds is a part of the text.\<close>

lemma matches_groups:
  assumes "(j, c) \<in> set (matches s r (i, []))" "(n, x) \<in> set c"
  shows "strIncludes s x"
proof -
  have "stepwise s (\<lambda>st st'. (\<forall>(n, x)\<in>set (snd st). strIncludes s x) \<longrightarrow> (\<forall>(n, x)\<in>set (snd st'). strIncludes s x))"
    by (auto simp: stepwise_def reflp_def transp_def strIncludes_slice)
  from matches_rel [OF this] show ?thesis using assms by fastforce
qed

lemma searchFrom_some:
  "searchFrom r s n i = Some m \<Longrightarrow> i + n \<le> Suc (length s) \<Longrightarrow> i \<le> rm_start m \<and> rm_start m \<le> rm_end m \<and> rm_end m \<le> length s"
proof (induction n arbitrary: i)
  case (Suc n)
  show ?case
  proof (cases "matches s r (i, [])")
    case Nil
    then show ?thesis using Suc.IH [of "Suc i"] Suc.prems by simp
  next
    case (Cons x xs)
    then show ?thesis
      using Suc.prems matches_forward [of x s r "(i, [])"] by (cases x) auto
  qed
qed simp

lemma execRegex_some:
  "execRegex r s i = Some m \<Longrightarrow> i \<le> rm_start m \<and> rm_start m \<le> rm_end m \<and> rm_end m \<le> length s"
  unfolding execRegex_def by (cases "i \<le> length s") (auto dest: searchFrom_some)

lemma matchesFrom_range:
  "m \<in> set (matchesFrom r s n i) \<Longrightarrow> i \<le> rm_start m \<and> rm_start m \<le> rm_end m \<and> rm_end m \<le> length s"
proof (induction r s n i rule: matchesFrom.induct)
  case (2 r s n i)
  show ?case
  proof (cases "execRegex r s i")
    case None
    then show ?thesis using 2(2) by simp
  next
    case (Some m0)
    note range = execRegex_some [OF this]
    from 2(2) Some consider "m = m0"
      | "m \<in> set (matchesFrom r s n (if rm_end m0 = rm_start m0 then Suc (rm_end m0) else rm_end m0))" by auto
    then show ?thesis
    proof cases
      case 2
      then show ?thesis using "2.IH" [OF Some 2] range by (auto split: if_splits)
    qed (use range in simp)
  qed
qed simp

text \<open>The matches of a text are disjoint, one after the other.\<close>

lemma matchesFrom_sorted: "sorted_wrt (\<lambda>m m'. rm_end m \<le> rm_start m') (matchesFrom r s n i)"
proof (induction r s n i rule: matchesFrom.induct)
  case (2 r s n i)
  then show ?case by (fastforce split: option.splits if_splits dest: matchesFrom_range)
qed simp

lemma searchFrom_groups: "searchFrom r s n i = Some m \<Longrightarrow> (k, x) \<in> set (rm_groups m) \<Longrightarrow> strIncludes s x"
proof (induction n arbitrary: i)
  case (Suc n)
  show ?case
  proof (cases "matches s r (i, [])")
    case (Cons y ys)
    then have "y \<in> set (matches s r (i, []))" by simp
    then show ?thesis using Suc.prems Cons matches_groups [of "fst y" "snd y" s r i k x] by (auto split: prod.splits)
  qed (use Suc in simp)
qed simp

lemma matchesFrom_groups: "m \<in> set (matchesFrom r s n i) \<Longrightarrow> groupText m k = Some x \<Longrightarrow> strIncludes s x"
proof (induction r s n i rule: matchesFrom.induct)
  case (2 r s n i)
  show ?case
  proof (cases "execRegex r s i")
    case (Some m0)
    from 2(2) Some consider "m = m0"
      | "m \<in> set (matchesFrom r s n (if rm_end m0 = rm_start m0 then Suc (rm_end m0) else rm_end m0))" by auto
    then show ?thesis
      using "2.IH" [OF Some] 2(3) searchFrom_groups Some
      by cases (auto simp: groupText_def execRegex_def dest: map_of_SomeD)
  qed (use 2 in simp)
qed simp

text \<open>A test succeeds when some place has a match.\<close>

lemma searchFrom_none: "searchFrom r s n i = None \<longleftrightarrow> (\<forall>j<n. matches s r (i + j, []) = [])"
proof (induction n arbitrary: i)
  case (Suc n)
  have "(\<forall>j<Suc n. matches s r (i + j, []) = []) \<longleftrightarrow> matches s r (i, []) = [] \<and> (\<forall>j<n. matches s r (Suc i + j, []) = [])"
    using less_Suc_eq_0_disj by auto
  then show ?case using Suc [of "Suc i"] by (auto split: list.splits)
qed simp

lemma testRegex_iff: "testRegex r s \<longleftrightarrow> (\<exists>i\<le>length s. matches s r (i, []) \<noteq> [])"
  using searchFrom_none [of r s "Suc (length s)" 0] by (auto simp: testRegex_def execRegex_def less_Suc_eq_le)

text \<open>A literal matches where the text, up to case, goes on with it.\<close>

lemma charAt_drop: "charAt s i = (case drop i s of [] \<Rightarrow> None | c # _ \<Rightarrow> Some c)"
  by (auto simp: charAt_def Cons_nth_drop_Suc [symmetric])

lemma matches_liti:
  "matches s (liti w) (i, c) =
     (if map foldCase (take (length w) (drop i s)) = map foldCase w then [(i + length w, c)] else [])"
proof (induction w arbitrary: i)
  case (Cons x w)
  show ?case
  proof (cases "drop i s")
    case (Cons y ys)
    then have "drop (Suc i) s = ys" by (metis drop_Suc drop_tl list.sel(3))
    then show ?thesis using Cons.IH [of "Suc i"] Cons by (simp add: liti_def charAt_drop)
  qed (simp add: liti_def charAt_drop)
qed (simp add: liti_def)

end
