(* ===== verification/Heuristics.thy ===== *)
theory Heuristics
  imports Ai_Credits Js_Regex
begin

text \<open>
  The methods of the heuristic AI provider built on regular expressions
  (\<open>packages/ai/src/heuristic-provider.ts\<close>: commitments, meetings, language, entities,
  rewriting and rule suggestions) and the endpoints of \<open>ai.controller.ts\<close> that call them.
  The amount in a rule prompt is read exactly, without the rounding of numbers past \<open>2^53\<close>.
\<close>

section \<open>Commitments and meetings\<close>

definition bounded :: "nat \<Rightarrow> nat \<Rightarrow> regex \<Rightarrow> regex" where
  "bounded mn mx r = Rep True mn (Some mx) r"

definition commitmentPattern :: regex where
  "commitmentPattern = Seq [WordBoundary, liti ''i'', Alt [liti [CHR 0x27, CHR ''l'', CHR ''l''], liti '' will''], some1 blank,
     Cap 1 (Rep False 3 (Some 80) (noneOf ''.!?'')),
     optional (Seq [some1 blank, Cap 2 (Alt [liti ''by'', liti ''before'']), some1 blank, Cap 3 (bounded 2 30 (noneOf ''.!?''))]),
     oneOf ''.!?'']"

record quoted_phrase =
  qp_text :: string
  qp_hint :: "string option"

definition detectCommitments :: "string \<Rightarrow> quoted_phrase list" where
  "detectCommitments t = map (\<lambda>m. \<lparr>qp_text = trim (matchText t m), qp_hint = map_option trim (groupText m 3)\<rparr>)
     (matchAll commitmentPattern t)"

definition meetingPattern :: regex where
  "meetingPattern = Seq [WordBoundary,
     Cap 1 (Alt [Seq [liti ''let'', optional (lit [CHR 0x27]), liti ''s meet''], liti ''meeting'', liti ''call'']), some1 blank,
     optional (Alt [liti ''at'', liti ''on'']), many blank, Cap 2 (bounded 2 40 (noneOf ''.!?'')), optional (oneOf ''.!?'')]"

definition detectMeetings :: "string \<Rightarrow> quoted_phrase list" where
  "detectMeetings t = map (\<lambda>m. \<lparr>qp_text = trim (matchText t m), qp_hint = map_option trim (groupText m 2)\<rparr>)
     (matchAll meetingPattern t)"

section \<open>Language\<close>

definition ENGLISH_STOPWORDS :: "string list" where
  "ENGLISH_STOPWORDS = [''the'', ''and'', ''is'', ''you'', ''for'', ''with'', ''this'', ''that'', ''have'', ''please'']"

definition detectLanguage :: "string \<Rightarrow> string" where
  "detectLanguage t = (if 2 \<le> length (filter (\<lambda>w. w \<in> set ENGLISH_STOPWORDS) (splitRegex (some1 blank) (toLowerCase t)))
     then ''en'' else ''unknown'')"

section \<open>Entities\<close>

definition wordOr :: "string \<Rightarrow> regex" where
  "wordOr t = Chars (\<lambda>c. isWordChar c \<or> c \<in> set t)"

definition monthNames :: "string list" where
  "monthNames = [''jan'', ''feb'', ''mar'', ''apr'', ''may'', ''jun'', ''jul'', ''aug'', ''sep'', ''oct'', ''nov'', ''dec'']"

definition entityPatterns :: "(string \<times> regex) list" where
  "entityPatterns = [
     (''email'', Seq [some1 (wordOr ''.+-''), lit ''@'', some1 (wordOr ''-''), lit ''.'', some1 (wordOr ''.-'')]),
     (''url'', Seq [lit ''http'', optional (lit ''s''), lit ''://'', some1 (Chars (\<lambda>c. \<not> isSpace c))]),
     (''phone'', Seq [optional (lit ''+''), digit, Rep True 7 None (Chars (\<lambda>c. isDigit c \<or> isSpace c \<or> c \<in> set ''().-'')), digit]),
     (''money'', Seq [lit ''$'', optional blank, digit, many (Chars (\<lambda>c. isDigit c \<or> c = CHR '','')),
        optional (Seq [lit ''.'', bounded 2 2 digit])]),
     (''date'', Seq [WordBoundary, Cap 1 (Alt [
        Seq [bounded 4 4 digit, lit ''-'', bounded 2 2 digit, lit ''-'', bounded 2 2 digit],
        Seq [bounded 1 2 digit, lit ''/'', bounded 1 2 digit, lit ''/'', bounded 2 4 digit],
        Seq [Alt (map liti monthNames), many (Chars (\<lambda>c. 97 \<le> code (lowerChar c) \<and> code (lowerChar c) \<le> 122)), some1 blank,
          bounded 1 2 digit]]), WordBoundary])]"

record Entity =
  ent_type :: string
  ent_value :: string

definition extractEntities :: "string \<Rightarrow> Entity list" where
  "extractEntities t = concat (map (\<lambda>(ty, r). map (\<lambda>m. \<lparr>ent_type = ty, ent_value = matchText t m\<rparr>) (matchAll r t)) entityPatterns)"

section \<open>Rewriting\<close>

definition contractions :: "(string \<times> string) list" where
  "contractions = [(''don!t'', ''do not''), (''can!t'', ''cannot''), (''won!t'', ''will not''), (''i!m'', ''I am''),
     (''it!s'', ''it is''), (''we!re'', ''we are'')]"

text \<open>A contraction as a whole word, whatever its case; the mark in the table stands for the
  apostrophe.\<close>

definition contractionPattern :: "string \<Rightarrow> regex" where
  "contractionPattern w = Seq [WordBoundary, liti (map (\<lambda>c. if c = CHR ''!'' then CHR 0x27 else c) w), WordBoundary]"

definition upperFirst :: "string \<Rightarrow> string" where
  "upperFirst t = (case t of [] \<Rightarrow> []
    | c # cs \<Rightarrow> (let n = code c in
        if (97 \<le> n \<and> n \<le> 122) \<or> (224 \<le> n \<and> n \<le> 254 \<and> n \<noteq> 247) then [char_of (n - 32)]
        else if n = 223 then ''SS'' else [c]) @ cs)"

definition endsSentence :: regex where
  "endsSentence = Seq [oneOf ''.!?'', AtEnd]"

definition formalText :: "string \<Rightarrow> string" where
  "formalText t = (let u = upperFirst (fold (\<lambda>(w, new) x. replaceAll (contractionPattern w) new x) contractions t)
     in if testRegex endsSentence u then u else u @ ''.'')"

definition greets :: regex where
  "greets = Seq [AtStart, Alt [liti ''hi'', liti ''hey'', liti ''hello'']]"

definition thanksAtEnd :: regex where
  "thanksAtEnd = Seq [Alt [liti ''thanks'', liti ''thank you''], optional (lit ''!''), AtEnd]"

definition friendlyText :: "string \<Rightarrow> string" where
  "friendlyText t = (let u = (if testRegex greets t then t else ''Hi! '' @ t)
     in if testRegex thanksAtEnd u then u else u @ '' Thanks!'')"

definition conciseText :: "string \<Rightarrow> string" where
  "conciseText t = (let u = (case splitSentences t of [] \<Rightarrow> t | x # _ \<Rightarrow> x)
     in if 120 < length u then take 117 u @ ''...'' else u)"

definition rewriteText :: "string \<Rightarrow> string \<Rightarrow> string" where
  "rewriteText style text = (let t = trim text in
     if style = ''formal'' then formalText t
     else if style = ''friendly'' then friendlyText t
     else if style = ''concise'' then conciseText t else t)"

section \<open>Rule suggestions\<close>

record RuleDraft =
  dr_name :: string
  dr_trigger :: RuleTrigger
  dr_conditions :: ConditionNode
  dr_actions :: "ActionStep list"

definition anyOf :: "string list \<Rightarrow> regex" where
  "anyOf ws = Alt (map lit ws)"

definition amountPattern :: regex where
  "amountPattern = Seq [Cap 1 (some1 digit), many blank, Cap 2 (anyOf [''hour'', ''day''])]"

definition anyQuote :: regex where
  "anyQuote = oneOf [CHR 0x22, CHR 0x27]"

definition keywordPattern :: regex where
  "keywordPattern = Seq [anyQuote, Cap 1 (bounded 2 40 (noneOf [CHR 0x22, CHR 0x27])), anyQuote]"

definition received :: RuleTrigger where
  "received = \<lparr>trigType = ''message.received'', scopeProviderKey = JUndef, paramHours = None\<rparr>"

definition notifyStep :: "string \<Rightarrow> string \<Rightarrow> ActionStep" where
  "notifyStep title body = \<lparr>step_type = ''notification.send'', step_params = JObj [(''title'', JStr title), (''body'', JStr body)]\<rparr>"

definition vipDraft :: RuleDraft where
  "vipDraft = \<lparr>dr_name = ''Notify me on VIP messages'', dr_trigger = received,
     dr_conditions = ConditionLeaf ''sender.isVip'' IsTrue JUndef,
     dr_actions = [notifyStep ''VIP message from {{sender.displayName}}'' ''{{message.bodyText}}'']\<rparr>"

definition noReplyDraft :: "string \<Rightarrow> nat \<Rightarrow> RuleDraft" where
  "noReplyDraft phrase hours = \<lparr>dr_name = ''Remind me if no reply after '' @ phrase,
     dr_trigger = \<lparr>trigType = ''time.no_reply_after'', scopeProviderKey = JUndef, paramHours = Some (Fin (of_nat hours))\<rparr>,
     dr_conditions = ConditionGroup AND [],
     dr_actions = [notifyStep ''No reply reminder'' ''Still waiting on a reply.'']\<rparr>"

definition keywordDraft :: "string \<Rightarrow> RuleDraft" where
  "keywordDraft keyword = \<lparr>dr_name = ''Tag messages mentioning '' @ [CHR 0x22] @ keyword @ [CHR 0x22], dr_trigger = received,
     dr_conditions = ConditionLeaf ''message.bodyText'' Contains (JStr keyword),
     dr_actions = [\<lparr>step_type = ''tag.apply'', step_params = JObj [(''tag'', JStr keyword)]\<rparr>]\<rparr>"

text \<open>The first template the prompt fits, or none.\<close>

definition noReplyOf :: "string \<Rightarrow> RuleDraft option" where
  "noReplyOf prompt = (case execRegex amountPattern prompt 0 of
      None \<Rightarrow> None
    | Some m \<Rightarrow>
        if testRegex (anyOf [''reply'', ''respond'']) prompt
        then let amount = digitsVal 0 (the (groupText m 1));
                 hours = (if groupText m 2 = Some ''day'' then amount * 24 else amount)
             in Some (noReplyDraft (matchText prompt m) hours)
        else None)"

definition keywordOf :: "string \<Rightarrow> RuleDraft option" where
  "keywordOf prompt = (case Option.bind (execRegex keywordPattern prompt 0) (\<lambda>m. groupText m 1) of
      None \<Rightarrow> None
    | Some keyword \<Rightarrow>
        if keyword \<noteq> [] \<and> testRegex (anyOf [''tag'', ''notify'', ''alert'']) prompt then Some (keywordDraft keyword) else None)"

definition suggestRule :: "string \<Rightarrow> RuleDraft option" where
  "suggestRule naturalLanguagePrompt = (let prompt = toLowerCase naturalLanguagePrompt in
     if testRegex (Seq [WordBoundary, lit ''vip'', WordBoundary]) prompt \<and> testRegex (anyOf [''notify'', ''remind'', ''alert'']) prompt
     then Some vipDraft
     else (case noReplyOf prompt of Some d \<Rightarrow> Some d | None \<Rightarrow> keywordOf prompt))"

section \<open>The endpoints\<close>

text \<open>A text that is missing or blank is refused before a credit is taken.\<close>

definition withText :: "string \<Rightarrow> string option \<Rightarrow> (string \<Rightarrow> (world, exn, 'a) oper) \<Rightarrow> (world, exn, 'a) oper" where
  "withText errorCode text route s =
     (if \<not> nonEmpty text \<or> trim (the text) = [] then (Inl (HttpError 400 errorCode), s) else route (the text) s)"

definition getAiSettings :: "jwt_claims \<Rightarrow> world \<Rightarrow> exn + bool" where
  "getAiSettings claims s = (case workspaceOrThrow s (jwt_workspaceId claims) of
      Inl e \<Rightarrow> Inl e | Inr w \<Rightarrow> Inr (ws_aiEnabled w))"

definition detectCommitmentsRoute ::
  "env \<Rightarrow> instant \<Rightarrow> jwt_claims \<Rightarrow> string option \<Rightarrow> (world, exn, quoted_phrase list \<times> quoted_phrase list) oper" where
  "detectCommitmentsRoute E now claims text = withText ''TEXT_REQUIRED'' text (\<lambda>t.
     bindO (requireCredit E now (jwt_workspaceId claims) ''detect-commitments'' None)
       (\<lambda>_. ok (detectCommitments t, detectMeetings t)))"

definition rewriteRoute :: "env \<Rightarrow> instant \<Rightarrow> jwt_claims \<Rightarrow> string option \<Rightarrow> string option \<Rightarrow> (world, exn, string) oper" where
  "rewriteRoute E now claims text style = withText ''TEXT_REQUIRED'' text (\<lambda>t s.
     if \<not> nonEmpty style \<or> the style \<notin> set [''formal'', ''friendly'', ''concise'']
     then (Inl (HttpError 400 ''INVALID_STYLE''), s)
     else bindO (requireCredit E now (jwt_workspaceId claims) ''rewrite'' None) (\<lambda>_. ok (rewriteText (the style) t)) s)"

definition suggestRuleRoute :: "env \<Rightarrow> instant \<Rightarrow> jwt_claims \<Rightarrow> string option \<Rightarrow> (world, exn, RuleDraft option) oper" where
  "suggestRuleRoute E now claims prompt = withText ''PROMPT_REQUIRED'' prompt (\<lambda>t.
     bindO (requireCredit E now (jwt_workspaceId claims) ''rule-suggestions'' None) (\<lambda>_. ok (suggestRule t)))"

section \<open>What is quoted\<close>

lemma trim_part: "\<exists>a b. x = a @ trim x @ b"
proof -
  have "\<exists>a. y = a @ trimStart y" for y by (metis takeWhile_dropWhile_id trimStart_def)
  moreover have "\<exists>b. y = trimEnd y @ b" for y
    by (metis rev_append rev_rev_ident takeWhile_dropWhile_id trimEnd_def)
  ultimately show ?thesis unfolding trim_def by (metis append.assoc)
qed

lemma includes_trim:
  assumes "strIncludes t x"
  shows "strIncludes t (trim x)"
proof -
  obtain a b where "t = a @ x @ b" using assms strIncludes_iff by blast
  moreover obtain c d where "x = c @ trim x @ d" using trim_part by blast
  ultimately have "t = (a @ c) @ trim x @ (d @ b)" by (metis append.assoc)
  then show ?thesis using strIncludes_append by metis
qed

text \<open>The provider quotes and never invents: every entity, every commitment and meeting, and
  every date or time hinted in one, is a part of the text it was given.\<close>

theorem quotes_are_parts_of_text:
  "list_all (\<lambda>e. strIncludes t (ent_value e)) (extractEntities t) \<and>
   list_all (\<lambda>q. strIncludes t (qp_text q) \<and> pred_option (strIncludes t) (qp_hint q)) (detectCommitments t @ detectMeetings t)"
proof -
  have "strIncludes t (matchText t m)" for m by (simp add: matchText_def strIncludes_slice)
  moreover have "pred_option (strIncludes t) (map_option trim (groupText m k))" if "m \<in> set (matchAll r t)" for m r k
    using matchesFrom_groups [OF that [unfolded matchAll_def]] includes_trim by (cases "groupText m k") simp_all
  ultimately show ?thesis
    using includes_trim by (auto simp: list_all_iff extractEntities_def detectCommitments_def detectMeetings_def)
qed

section \<open>The shape of a rewritten text\<close>

lemma endsSentence_iff: "testRegex endsSentence t \<longleftrightarrow> (\<exists>x c. t = x @ [c] \<and> c \<in> set ''.!?'')"
proof -
  have "matches t endsSentence (i, []) \<noteq> [] \<longleftrightarrow> i < length t \<and> Suc i = length t \<and> t ! i \<in> set ''.!?''" for i
    by (simp add: endsSentence_def oneOf_def charAt_def)
  then have e: "testRegex endsSentence t \<longleftrightarrow> (\<exists>i\<le>length t. i < length t \<and> Suc i = length t \<and> t ! i \<in> set ''.!?'')"
    unfolding testRegex_iff by simp
  show ?thesis
  proof (cases t rule: rev_cases)
    case (snoc x c)
    then show ?thesis unfolding e by (simp del: set_simps list.set)
  next
    case Nil
    then show ?thesis unfolding e by simp
  qed
qed

lemma formalText_ends: "\<exists>x c. formalText t = x @ [c] \<and> c \<in> set ''.!?''"
  by (auto simp: formalText_def Let_def endsSentence_iff)

lemma conciseText_length: "length (conciseText t) \<le> 120"
  by (simp add: conciseText_def Let_def)

lemma greets_iff: "testRegex greets t \<longleftrightarrow> (\<exists>w\<in>{''hi'', ''hey'', ''hello''}. map foldCase (take (length w) t) = map foldCase w)"
proof -
  have "matches t greets (i, []) \<noteq> [] \<longleftrightarrow> i = 0 \<and> (\<exists>w\<in>{''hi'', ''hey'', ''hello''}. map foldCase (take (length w) t) = map foldCase w)" for i
    by (auto simp: greets_def matches_liti)
  then show ?thesis by (auto simp: testRegex_iff)
qed

lemma greets_append: "testRegex greets t \<Longrightarrow> testRegex greets (t @ u)"
proof -
  have "map foldCase (take n (t @ u)) = map foldCase w" if "map foldCase (take n t) = map foldCase w" "length w = n" for n w
  proof -
    have "length (take n t) = n" using that by (metis length_map)
    then show ?thesis using that by simp
  qed
  then show "testRegex greets t \<Longrightarrow> testRegex greets (t @ u)" unfolding greets_iff by blast
qed

lemma greets_hi: "testRegex greets (''Hi! '' @ t)"
proof -
  have "map foldCase ''Hi'' = map foldCase ''hi''" by code_simp
  then show ?thesis unfolding greets_iff by (intro bexI [of _ "''hi''"]) simp_all
qed

lemma thanks_end: "testRegex thanksAtEnd (t @ '' Thanks!'')"
proof -
  have "map foldCase ''Thanks'' = map foldCase ''thanks''" by code_simp
  then have "matches (t @ '' Thanks!'') thanksAtEnd (length t + 1, []) \<noteq> []"
    by (simp add: thanksAtEnd_def matches_liti optional_def lit_def charAt_drop)
  then show ?thesis unfolding testRegex_iff by (intro exI [of _ "length t + 1"]) simp
qed

lemma friendlyText_again: "friendlyText (friendlyText t) = friendlyText t"
  by (auto simp: friendlyText_def Let_def greets_append greets_hi thanks_end simp del: append.simps)

lemma trim_edges:
  assumes "x \<noteq> [] \<and> \<not> isSpace (hd x) \<and> \<not> isSpace (last x)"
  shows "trim x = x"
proof -
  have "dropWhile isSpace x = x" using assms by (cases x) simp_all
  moreover have "dropWhile isSpace (rev x) = rev x" using assms by (cases x rule: rev_cases) simp_all
  ultimately show ?thesis by (simp add: trim_def trimStart_def trimEnd_def)
qed

lemma trim_trim: "trim (trim t) = trim t"
proof -
  have "trim [] = []" by code_simp
  then show ?thesis using trim_clean [of t] trim_edges [of "trim t"] by (cases "trim t = []") auto
qed

lemma friendlyText_clean:
  assumes "trim t = t"
  shows "trim (friendlyText t) = friendlyText t"
proof -
  have s: "\<not> isSpace (CHR ''H'')" "\<not> isSpace (CHR ''!'')" by code_simp+
  have "t = [] \<or> \<not> isSpace (hd t) \<and> \<not> isSpace (last t)" using trim_clean [of t] assms by simp
  moreover have "testRegex thanksAtEnd (''Hi! '' @ []) = False" "testRegex greets [] = False" by code_simp+
  ultimately have "friendlyText t \<noteq> [] \<and> \<not> isSpace (hd (friendlyText t)) \<and> \<not> isSpace (last (friendlyText t))"
    using s by (cases "t = []") (auto simp: friendlyText_def Let_def)
  then show ?thesis by (rule trim_edges)
qed

text \<open>What a rewrite returns keeps its shape whatever the text: the concise one has at most
  120 characters, the formal one ends with a sentence mark, and the friendly one greets and
  thanks once however often it is asked for.\<close>

theorem rewrite_keeps_shape:
  "length (rewriteText ''concise'' t) \<le> 120 \<and> (\<exists>x c. rewriteText ''formal'' t = x @ [c] \<and> c \<in> set ''.!?'') \<and>
   rewriteText ''friendly'' (rewriteText ''friendly'' t) = rewriteText ''friendly'' t"
proof -
  show ?thesis
    using trim_trim formalText_ends [of "trim t"] conciseText_length [of "trim t"] friendlyText_clean friendlyText_again
    by (simp add: rewriteText_def Let_def)
qed

section \<open>The drafts\<close>

lemma suggestRule_cases:
  assumes "suggestRule p = Some d"
  obtains "d = vipDraft" | phrase hours where "d = noReplyDraft phrase hours" | keyword where "d = keywordDraft keyword"
  using assms by (auto simp: suggestRule_def noReplyOf_def keywordOf_def Let_def split: if_splits option.splits)

lemma requireCredit_workspaces:
  assumes "requireCredit E now wsId feature related s = (Inr (), s')"
  shows "list_ex (\<lambda>w. ws_id w = wsId) (workspaces s')"
proof -
  obtain w where "findFirst (\<lambda>w. ws_id w = wsId) (workspaces s) = Some w"
    using assms by (auto simp: requireCredit_def workspaceOrThrow_def split: option.splits)
  then have "list_ex (\<lambda>w. ws_id w = wsId) (workspaces s)" using findFirst_SomeD by (force simp: list_ex_iff)
  moreover have "workspaces s' = workspaces s"
    using assms by (auto simp: requireCredit_def workspaceOrThrow_def consume_def consumeWrite_def ledgerEntry_def drawn_def
        split: option.splits sum.splits prod.splits if_splits)
  ultimately show ?thesis by simp
qed

end
