(* ===== verification/Web_Drafts.thy ===== *)
theory Web_Drafts
  imports Web_Rules_Properties Heuristics
begin

text \<open>
  The rule drafts of the AI in the rule form (\<open>handleSuggestRule\<close> of
  \<open>apps/web/components/Rules.tsx\<close>): the prompt goes to the suggestion endpoint, the draft
  fills the form, and the user saves it.
\<close>

definition applyDraft :: "RuleDraft \<Rightarrow> rule_form \<Rightarrow> rule_form" where
  "applyDraft d f = f\<lparr>frm_name := dr_name d, frm_triggerType := trigType (dr_trigger d),
     frm_hours := (case paramHours (dr_trigger d) of Some h \<Rightarrow> h | None \<Rightarrow> Fin 48),
     frm_providerScope := orElse (scopeProviderKey (dr_trigger d)) (JStr []),
     frm_leaves := snd (formRows (dr_conditions d)),
     frm_conditionOp := (case dr_conditions d of ConditionGroup op (c # cs) \<Rightarrow> if op = OR then OR else AND | _ \<Rightarrow> frm_conditionOp f),
     frm_actions := dr_actions d\<rparr>"

text \<open>A blank prompt asks nothing; a prompt that fits no template, or a failure, is only noted.\<close>

definition handleSuggestRule :: "env \<Rightarrow> instant \<Rightarrow> jwt_claims \<Rightarrow> string \<Rightarrow> rule_form \<Rightarrow> world \<Rightarrow> rule_form \<times> world" where
  "handleSuggestRule E now claims aiPrompt f s = (if trim aiPrompt = [] then (f, s)
     else (case suggestRuleRoute E now claims (Some (trim aiPrompt)) s of
         (Inr (Some d), s1) \<Rightarrow> (applyDraft d f, s1)
       | (_, s1) \<Rightarrow> (f, s1)))"

section \<open>Saving a draft as it comes\<close>

definition draftInput :: "RuleDraft \<Rightarrow> RuleInput" where
  "draftInput d = \<lparr>rin_name = trim (dr_name d), rin_isEnabled = True, rin_priority = Fin 0, rin_trigger = dr_trigger d,
     rin_conditions = (case dr_conditions d of ConditionGroup _ _ \<Rightarrow> emptyLeaf | c \<Rightarrow> c), rin_actions = dr_actions d\<rparr>"

lemma trim_start_letter:
  assumes "\<not> isSpace c"
  shows "trim (c # x) \<noteq> [] \<and> trim (trim (c # x)) = trim (c # x)"
proof -
  show ?thesis using assms by (simp add: trim_trim) (simp add: trim_def trimStart_def trimEnd_def)
qed

lemma draftInput_storable:
  assumes "suggestRule p = Some d" "paramHours (dr_trigger d) \<noteq> Some (Fin 0)"
  shows "storableInput (draftInput d)" "formInput (applyDraft d f) = Some (draftInput d)"
proof -
  note tables = storableInput_def storableTrigger_def storableAction_def draftInput_def received_def notifyStep_def
    operatorText_def operatorNames_def operatorOf_def isRegisteredTrigger_def TRIGGER_REGISTRY_def numLeq_def emptyLeaf_storable
  have l: "\<not> isSpace (CHR ''N'')" "\<not> isSpace (CHR ''R'')" "\<not> isSpace (CHR ''T'')" by code_simp+
  note names = trim_start_letter [OF l(1)] trim_start_letter [OF l(2)] trim_start_letter [OF l(3)]
  show "storableInput (draftInput d)"
    by (cases rule: suggestRule_cases [OF assms(1)])
      (use assms(2) names in \<open>simp_all add: vipDraft_def noReplyDraft_def keywordDraft_def tables\<close>)
  show "formInput (applyDraft d f) = Some (draftInput d)"
    by (cases rule: suggestRule_cases [OF assms(1)])
      (use names in \<open>simp_all add: vipDraft_def noReplyDraft_def keywordDraft_def draftInput_def received_def applyDraft_def
        formInput_def formConditions_def orElse_def nullish_def truthy_def\<close>)
qed

text \<open>The one thing a draft without conditions loses: the form has a row for it all the same.\<close>

lemma draft_conditions:
  assumes "suggestRule p = Some d"
  shows "trigType (dr_trigger d) = ''message.received'' \<and> rin_conditions (draftInput d) = dr_conditions d \<or>
    trigType (dr_trigger d) = ''time.no_reply_after'' \<and> dr_conditions d = ConditionGroup AND [] \<and> rin_conditions (draftInput d) = emptyLeaf"
  by (cases rule: suggestRule_cases [OF assms])
    (simp_all add: vipDraft_def noReplyDraft_def keywordDraft_def draftInput_def received_def)

lemma emptyLeaf_decides:
  assumes "resolveField now ''message.bodyText'' ctx \<noteq> JBool True"
  shows "evaluateConditionTree re now ctx emptyLeaf = Some False"
proof -
  have "strictEq x (JBool True) \<longleftrightarrow> x = JBool True" for x by (cases x) simp_all
  then show ?thesis using assms by (simp add: emptyLeaf_def)
qed

text \<open>C39: a draft of the AI, saved as it fills the form, becomes an enabled rule with the draft's
  name, trigger and actions. For the templates about received messages it has the draft's
  condition too. The reminder about a missing reply loses its empty condition, which holds
  always, to the form's blank row, which never does: saved as drafted it never reminds.\<close>

theorem ai_draft_saved:
  assumes "suggestRuleRoute E now claims (Some (trim prompt)) s = (Inr (Some d), s1)" "trim prompt \<noteq> []"
    and "frm_editing f = None" "paramHours (dr_trigger d) \<noteq> Some (Fin 0)"
  shows "handleSuggestRule E now claims prompt f s = (applyDraft d f, s1) \<and>
    (\<exists>f' r s2. handleCreate E now claims (applyDraft d f) s1 = (f', Some (Inr r), s2) \<and> r \<in> set (rules s2) \<and>
      rul_isEnabled r \<and> rul_name r = trim (dr_name d) \<and> rul_trigger r = dr_trigger d \<and> rul_actions r = dr_actions d \<and>
      (if trigType (dr_trigger d) = ''time.no_reply_after''
       then \<forall>re t ctx. resolveField t ''message.bodyText'' ctx \<noteq> JBool True \<longrightarrow>
         evaluateConditionTree re t ctx (dr_conditions d) = Some True \<and> evaluateConditionTree re t ctx (rul_conditions r) = Some False
       else rul_conditions r = dr_conditions d))"
proof -
  obtain u where c: "requireCredit E now (jwt_workspaceId claims) ''rule-suggestions'' None s = (Inr u, s1)"
    and d: "suggestRule (trim prompt) = Some d"
    using assms(1) by (auto simp: suggestRuleRoute_def withText_def ok_def bindO.simps split: if_splits sum.splits prod.splits)
  have w: "list_ex (\<lambda>w. ws_id w = jwt_workspaceId claims) (workspaces s1)" using requireCredit_workspaces c by simp
  note st = draftInput_storable [OF d assms(4)]
  let ?r = "newRule (draw E s1) now claims (draftInput d) 0"
  have "createRule E now (ruleBody (draftInput d)) claims s1 = (Inr ?r, (drawn 1 s1)\<lparr>rules := rules s1 @ [?r]\<rparr>)"
    using w validate_ruleBody [OF st(1)] by (simp add: createRule_def draftInput_def intColumn_def Let_def)
  then have "\<exists>f'. handleCreate E now claims (applyDraft d f) s1 = (f', Some (Inr ?r), (drawn 1 s1)\<lparr>rules := rules s1 @ [?r]\<rparr>)"
    using st(2) assms(3) by (simp add: handleCreate_def applyDraft_def)
  moreover have "handleSuggestRule E now claims prompt f s = (applyDraft d f, s1)"
    using assms(1,2) by (simp add: handleSuggestRule_def)
  moreover have "rul_isEnabled ?r \<and> rul_name ?r = trim (dr_name d) \<and> rul_trigger ?r = dr_trigger d \<and> rul_actions ?r = dr_actions d"
    "rul_conditions ?r = rin_conditions (draftInput d)"
    by (simp_all add: newRule_def draftInput_def)
  moreover have "evaluateConditionTree re t ctx (ConditionGroup AND []) = Some True" for re t ctx by simp
  ultimately show ?thesis
    using draft_conditions [OF d] emptyLeaf_decides by (intro conjI) (fastforce)+
qed

definition draftWorld :: world where
  "draftWorld = sampleCredit\<lparr>workspaces := [\<lparr>ws_id = 11, ws_organizationId = 9, ws_name = ''W'', ws_timezone = ''UTC'',
     ws_aiEnabled = True, ws_createdAt = 0, ws_deletedAt = None\<rparr>]\<rparr>"

theorem ai_draft_saved_witness:
  "\<exists>s1 f' r s2. handleSuggestRule sampleEnv 20 rulesClaims ''remind me if no reply in 2 days'' emptyForm draftWorld
       = (applyDraft (noReplyDraft ''2 day'' 48) emptyForm, s1) \<and>
     handleCreate sampleEnv 20 rulesClaims (applyDraft (noReplyDraft ''2 day'' 48) emptyForm) s1 = (f', Some (Inr r), s2) \<and>
     evaluateConditionTree (\<lambda>p t. None) 0 sampleContext (rul_conditions r) = Some False"
proof -
  let ?p = "''remind me if no reply in 2 days''" and ?d = "noReplyDraft ''2 day'' 48"
  have d: "suggestRule (trim ?p) = Some ?d" "trim ?p \<noteq> []" by code_simp+
  have "fst (requireCredit sampleEnv 20 11 ''rule-suggestions'' None draftWorld) = Inr ()"
    by (simp add: requireCredit_def workspaceOrThrow_def draftWorld_def consume_def consumeWrite_def getBalance_def sampleCredit_def
        findFirst_def emptyWorld_def)
  then obtain s1 where "suggestRuleRoute sampleEnv 20 rulesClaims (Some (trim ?p)) draftWorld = (Inr (Some ?d), s1)"
    using d trim_clean [of ?p]
    by (cases "requireCredit sampleEnv 20 11 ''rule-suggestions'' None draftWorld")
      (auto simp: suggestRuleRoute_def withText_def nonEmpty_def rulesClaims_def ok_def trim_trim)
  note saved = ai_draft_saved [OF this d(2), of emptyForm]
  have "frm_editing emptyForm = None" "paramHours (dr_trigger ?d) \<noteq> Some (Fin 0)" "trigType (dr_trigger ?d) = ''time.no_reply_after''"
    by (simp_all add: emptyForm_def noReplyDraft_def)
  moreover have "resolveField 0 ''message.bodyText'' sampleContext \<noteq> JBool True" by code_simp
  ultimately show ?thesis using saved by (simp only: if_True simp_thms) metis
qed

end
