(* ===== verification/Api_Routes.thy ===== *)
theory Api_Routes
  imports Database Js_Value
begin

text \<open>
  The HTTP surface of \<open>apps/api\<close>: each handler's method and path, its guard and roles, its
  status, whether it reads or sets the refresh cookie, the keys of the request body it reads
  and the shape of its answer, where the web client asks for it; then the mounting under the
  version prefix (\<open>main.ts\<close>) and the choice of the handler of a request. Express also
  accepts a literal segment in another case and a slash at the end, which no client here
  sends.
\<close>

section \<open>Shapes of answers\<close>

text \<open>A JSON value of which nothing more is said, a list, or an object with its members.\<close>

datatype shape = Value | Items shape | Fields "(string \<times> shape) list"

definition obj :: "string list \<Rightarrow> shape" where
  "obj ks = Fields (map (\<lambda>k. (k, Value)) ks)"

text \<open>The members of the second shape that the first does not have.\<close>

function missing :: "shape \<Rightarrow> shape \<Rightarrow> string list" where
  "missing a Value = []"
| "missing (Items a) (Items d) = missing a d"
| "missing (Fields fs) (Fields ds) = concat (map (\<lambda>kd. case map_of fs (fst kd) of
      None \<Rightarrow> [fst kd] | Some a \<Rightarrow> missing a (snd kd)) ds)"
| "missing Value (Items d) = [''items'']"
| "missing (Fields fs) (Items d) = [''items'']"
| "missing Value (Fields ds) = map fst ds"
| "missing (Items a) (Fields ds) = map fst ds"
  by pat_completeness auto
termination
proof (relation "measure (\<lambda>p. size (snd p))")
  fix fs ds and x :: "string \<times> shape" and a
  assume "x \<in> set ds"
  then have "size (snd x) < Suc (size_list (\<lambda>x. Suc (size (snd x))) ds)"
    by (induction ds) auto
  then show "((a, snd x), (Fields fs, Fields ds)) \<in> measure (\<lambda>p. size (snd p))"
    by (cases x) (simp add: size_prod_simp case_prod_beta)
qed auto

definition paged :: "shape \<Rightarrow> shape" where
  "paged a = Fields [(''data'', Items a), (''pagination'', obj [''nextCursor'', ''hasMore''])]"

section \<open>Handlers\<close>

datatype http_method = GET | POST | PATCH | DELETE

record route =
  rt_method :: http_method
  rt_path :: string
  rt_guarded :: bool
  rt_roles :: "role list"
  rt_status :: nat
  rt_readsCookie :: bool
  rt_setsCookie :: bool
  rt_needsIfMatch :: bool
  rt_bodyKeys :: "string list"
  rt_answer :: "shape option"

text \<open>What a handler has without further decorators: a POST answers 201, anything else 200.\<close>

definition openRoute :: "http_method \<Rightarrow> string \<Rightarrow> route" where
  "openRoute m p = \<lparr>rt_method = m, rt_path = p, rt_guarded = False, rt_roles = [],
     rt_status = (if m = POST then 201 else 200), rt_readsCookie = False, rt_setsCookie = False,
     rt_needsIfMatch = False, rt_bodyKeys = [], rt_answer = None\<rparr>"

definition guardedRoute :: "http_method \<Rightarrow> string \<Rightarrow> route" where
  "guardedRoute m p = (openRoute m p)\<lparr>rt_guarded := True\<rparr>"

section \<open>What the handlers answer\<close>

definition userAnswer :: shape where
  "userAnswer = obj [''id'', ''email'', ''displayName'', ''avatarUrl'', ''createdAt'']"

definition sessionAnswer :: shape where
  "sessionAnswer = Fields [(''user'', userAnswer), (''accessToken'', Value)]"

definition meAnswer :: shape where
  "meAnswer = Fields [(''user'', userAnswer), (''currentWorkspaceId'', Value),
     (''workspaces'', Items (obj [''workspaceId'', ''workspaceName'', ''organizationId'', ''role'']))]"

definition memberAnswer :: shape where
  "memberAnswer = obj [''id'', ''userId'', ''email'', ''displayName'', ''role'', ''joinedAt'']"

definition senderAnswer :: shape where
  "senderAnswer = obj [''id'', ''displayName'', ''isVip'']"

definition conversationAnswer :: shape where
  "conversationAnswer = Fields [(''id'', Value), (''title'', Value), (''providerKey'', Value), (''lastMessageAt'', Value),
     (''priorityScore'', Value), (''isArchived'', Value), (''category'', Value), (''unread'', Value),
     (''lastMessage'', Fields [(''id'', Value), (''bodyText'', Value), (''direction'', Value), (''receivedAt'', Value),
        (''sender'', senderAnswer)])]"

definition messageAnswer :: shape where
  "messageAnswer = Fields [(''id'', Value), (''direction'', Value), (''bodyText'', Value), (''receivedAt'', Value),
     (''sender'', senderAnswer)]"

text \<open>A reply is sent at once or, with a time to send it at, scheduled.\<close>

definition sentAnswer :: shape where
  "sentAnswer = obj [''id'', ''direction'', ''bodyText'', ''receivedAt'']"

definition scheduledReplyAnswer :: shape where
  "scheduledReplyAnswer = obj [''id'', ''status'', ''sendAt'', ''bodyText'']"

definition suggestionAnswer :: shape where
  "suggestionAnswer = Fields [(''id'', Value), (''confidenceScore'', Value), (''matchingSignals'', Value),
     (''contactA'', obj [''id'', ''displayName'']), (''contactB'', obj [''id'', ''displayName'']),
     (''createdAt'', Value), (''expiresAt'', Value)]"

definition contactAnswer :: shape where
  "contactAnswer = Fields [(''id'', Value), (''displayName'', Value), (''isVip'', Value),
     (''identities'', Items (obj [''id'', ''providerKey'', ''handle'', ''matchType'']))]"

definition notificationAnswer :: shape where
  "notificationAnswer = obj [''id'', ''type'', ''title'', ''body'', ''messageId'', ''createdAt'']"

definition scheduledAnswer :: shape where
  "scheduledAnswer = obj [''id'', ''conversationId'', ''bodyText'', ''sendAt'', ''status'', ''sentMessageId'',
      ''lastError'', ''createdAt'']"

definition connectorAnswer :: shape where
  "connectorAnswer = obj [''id'', ''provider'', ''displayLabel'', ''externalAccountId'', ''status'', ''lastSyncedAt'',
     ''lastError'', ''createdAt'']"

definition ruleAnswer :: shape where
  "ruleAnswer = obj [''id'', ''workspaceId'', ''createdByUserId'', ''name'', ''isEnabled'', ''priority'', ''triggerType'',
     ''trigger'', ''conditions'', ''actions'', ''version'', ''createdAt'', ''updatedAt'', ''deletedAt'']"

definition executionAnswer :: shape where
  "executionAnswer = obj [''id'', ''workspaceId'', ''ruleId'', ''ruleVersion'', ''triggerEventId'', ''messageId'',
      ''matchedAt'',
     ''actionsExecuted'', ''status'', ''errorDetail'', ''createdAt'']"

text \<open>The members every answer of a trial run has: the status only when the rule matched.\<close>

definition dryRunAnswer :: shape where
  "dryRunAnswer = obj [''matched'', ''actionsExecuted'']"

text \<open>The members common to stored preferences and to the defaults, which have no version.\<close>

definition preferenceAnswer :: shape where
  "preferenceAnswer = obj [''id'', ''workspaceId'', ''userId'', ''silentHoursStart'', ''silentHoursEnd'',
     ''vipOverrideEnabled'', ''keywordAlerts'']"

definition foundMessageAnswer :: shape where
  "foundMessageAnswer = obj [''id'', ''conversationId'', ''bodyText'', ''receivedAt'', ''senderDisplayName'',
      ''conversationTitle'']"

definition contactRowAnswer :: shape where
  "contactRowAnswer = obj [''id'', ''workspaceId'', ''displayName'', ''isVip'', ''createdAt'', ''deletedAt'']"

text \<open>What a suggestion has whether or not a template fits.\<close>

definition suggestionResult :: shape where
  "suggestionResult = obj [''status'', ''matched'', ''modelUsed'']"

section \<open>The controllers\<close>

definition AuthController_register :: route where
  "AuthController_register = (openRoute POST ''auth/register'')\<lparr>rt_setsCookie := True,
     rt_bodyKeys := [''email'', ''password'', ''displayName''],
     rt_answer := Some (sessionAnswer)\<rparr>"

definition AuthController_login :: route where
  "AuthController_login = (openRoute POST ''auth/login'')\<lparr>rt_status := 200,
     rt_setsCookie := True,
     rt_bodyKeys := [''email'', ''password''],
     rt_answer := Some (sessionAnswer)\<rparr>"

definition AuthController_refresh :: route where
  "AuthController_refresh = (openRoute POST ''auth/refresh'')\<lparr>rt_status := 200,
     rt_readsCookie := True,
     rt_setsCookie := True,
     rt_answer := Some (obj [''accessToken''])\<rparr>"

definition AuthController_switchWorkspace :: route where
  "AuthController_switchWorkspace = (guardedRoute POST ''auth/switch-workspace'')\<lparr>rt_status := 200,
     rt_readsCookie := True,
     rt_setsCookie := True,
     rt_bodyKeys := [''workspaceId''],
     rt_answer := Some (obj [''workspaceId'', ''accessToken''])\<rparr>"

definition AuthController_logout :: route where
  "AuthController_logout = (openRoute POST ''auth/logout'')\<lparr>rt_status := 200,
     rt_readsCookie := True,
     rt_setsCookie := True,
     rt_answer := Some (obj [''status''])\<rparr>"

definition AuthController_logoutAll :: route where
  "AuthController_logoutAll = (guardedRoute POST ''auth/logout-all'')\<lparr>rt_status := 200,
     rt_setsCookie := True\<rparr>"

definition AuthController_listSessions :: route where
  "AuthController_listSessions = (guardedRoute GET ''auth/sessions'')"

definition AuthController_forgotPassword :: route where
  "AuthController_forgotPassword = (openRoute POST ''auth/forgot-password'')\<lparr>rt_status := 200,
     rt_bodyKeys := [''email''],
     rt_answer := Some (obj [''message''])\<rparr>"

definition AuthController_resetPassword :: route where
  "AuthController_resetPassword = (openRoute POST ''auth/reset-password'')\<lparr>rt_status := 200,
     rt_bodyKeys := [''token'', ''newPassword''],
     rt_answer := Some (obj [''status''])\<rparr>"

definition AuthController :: "route list" where
  "AuthController = [AuthController_register, AuthController_login, AuthController_refresh,
      AuthController_switchWorkspace, AuthController_logout, AuthController_logoutAll, AuthController_listSessions,
      AuthController_forgotPassword, AuthController_resetPassword]"

definition UsersController_me :: route where
  "UsersController_me = (guardedRoute GET ''users/me'')\<lparr>rt_answer := Some (meAnswer)\<rparr>"

definition UsersController :: "route list" where
  "UsersController = [UsersController_me]"

definition WorkspacesController_deleteOwnWorkspace :: route where
  "WorkspacesController_deleteOwnWorkspace = (guardedRoute DELETE ''workspace'')\<lparr>rt_status := 204\<rparr>"

definition WorkspacesController_createWorkspace :: route where
  "WorkspacesController_createWorkspace = (guardedRoute POST ''workspace'')\<lparr>rt_setsCookie := True,
     rt_bodyKeys := [''name''],
     rt_answer := Some (obj [''workspaceId'', ''accessToken''])\<rparr>"

definition WorkspacesController :: "route list" where
  "WorkspacesController = [WorkspacesController_deleteOwnWorkspace, WorkspacesController_createWorkspace]"

definition WorkspaceMembershipController_listMembers :: route where
  "WorkspaceMembershipController_listMembers = (guardedRoute GET ''workspace/members'')\<lparr>rt_answer := Some (Fields
      [(''members'', Items memberAnswer)])\<rparr>"

definition WorkspaceMembershipController_invite :: route where
  "WorkspaceMembershipController_invite = (guardedRoute POST ''workspace/invites'')\<lparr>rt_roles := [Owner, Admin],
     rt_bodyKeys := [''email'', ''role''],
     rt_answer := Some (obj [''code'', ''expiresAt''])\<rparr>"

definition WorkspaceMembershipController_acceptInvite :: route where
  "WorkspaceMembershipController_acceptInvite = (guardedRoute POST ''workspace/invites/accept'')\<lparr>rt_status := 200,
     rt_setsCookie := True,
     rt_bodyKeys := [''code''],
     rt_answer := Some (obj [''workspaceId'', ''role'', ''accessToken''])\<rparr>"

definition WorkspaceMembershipController_changeMemberRole :: route where
  "WorkspaceMembershipController_changeMemberRole = (guardedRoute POST ''workspace/members/:id/role'')\<lparr>rt_roles :=
      [Owner, Admin],
     rt_bodyKeys := [''role''],
     rt_answer := Some (obj [''id'', ''role''])\<rparr>"

definition WorkspaceMembershipController_removeMember :: route where
  "WorkspaceMembershipController_removeMember = (guardedRoute DELETE ''workspace/members/:id'')\<lparr>rt_status := 204,
     rt_roles := [Owner, Admin]\<rparr>"

definition WorkspaceMembershipController_leave :: route where
  "WorkspaceMembershipController_leave = (guardedRoute POST ''workspace/leave'')\<lparr>rt_status := 204\<rparr>"

definition WorkspaceMembershipController_transferOwnership :: route where
  "WorkspaceMembershipController_transferOwnership = (guardedRoute POST
      ''workspace/transfer-ownership'')\<lparr>rt_status := 204,
     rt_roles := [Owner],
     rt_bodyKeys := [''userId'']\<rparr>"

definition WorkspaceMembershipController :: "route list" where
  "WorkspaceMembershipController = [WorkspaceMembershipController_listMembers, WorkspaceMembershipController_invite,
      WorkspaceMembershipController_acceptInvite, WorkspaceMembershipController_changeMemberRole,
      WorkspaceMembershipController_removeMember, WorkspaceMembershipController_leave,
      WorkspaceMembershipController_transferOwnership]"

definition ConversationsController_list :: route where
  "ConversationsController_list = (guardedRoute GET ''conversations'')\<lparr>rt_answer := Some (paged
      conversationAnswer)\<rparr>"

definition ConversationsController_summary :: route where
  "ConversationsController_summary = (guardedRoute GET ''conversations/summary'')\<lparr>rt_answer := Some (obj
      [''needsYouCount''])\<rparr>"

definition ConversationsController_update :: route where
  "ConversationsController_update = (guardedRoute PATCH ''conversations/:id'')\<lparr>rt_bodyKeys := [''isArchived'',
      ''category''],
     rt_answer := Some (obj [''id'', ''isArchived'', ''category''])\<rparr>"

definition ConversationsController_markRead :: route where
  "ConversationsController_markRead = (guardedRoute POST ''conversations/:id/read'')\<lparr>rt_answer := Some (obj
      [''id'', ''lastReadAt''])\<rparr>"

definition ConversationsController_markUnread :: route where
  "ConversationsController_markUnread = (guardedRoute POST ''conversations/:id/unread'')\<lparr>rt_answer := Some (obj
      [''id'', ''lastReadAt''])\<rparr>"

definition ConversationsController_messages :: route where
  "ConversationsController_messages = (guardedRoute GET ''conversations/:id/messages'')\<lparr>rt_answer := Some (paged
      messageAnswer)\<rparr>"

definition ConversationsController_sendMessage :: route where
  "ConversationsController_sendMessage = (guardedRoute POST ''conversations/:id/messages'')\<lparr>rt_bodyKeys :=
      [''body'', ''sendAt''],
     rt_answer := Some (sentAnswer)\<rparr>"

definition ConversationsController :: "route list" where
  "ConversationsController = [ConversationsController_list, ConversationsController_summary,
      ConversationsController_update, ConversationsController_markRead, ConversationsController_markUnread,
      ConversationsController_messages, ConversationsController_sendMessage]"

definition IdentityController_listSuggestions :: route where
  "IdentityController_listSuggestions = (guardedRoute GET ''identity/merge-suggestions'')\<lparr>rt_answer := Some (paged
      suggestionAnswer)\<rparr>"

definition IdentityController_approve :: route where
  "IdentityController_approve = (guardedRoute POST ''identity/merge-suggestions/:id/approve'')\<lparr>rt_answer := Some
      (obj [''primaryContactId'', ''mergedContactId''])\<rparr>"

definition IdentityController_reject :: route where
  "IdentityController_reject = (guardedRoute POST ''identity/merge-suggestions/:id/reject'')\<lparr>rt_answer := Some
      (obj [''id'', ''status''])\<rparr>"

definition IdentityController :: "route list" where
  "IdentityController = [IdentityController_listSuggestions, IdentityController_approve, IdentityController_reject]"

definition ContactsController_list :: route where
  "ContactsController_list = (guardedRoute GET ''contacts'')\<lparr>rt_answer := Some (paged contactAnswer)\<rparr>"

definition ContactsController_update :: route where
  "ContactsController_update = (guardedRoute PATCH ''contacts/:id'')\<lparr>rt_bodyKeys := [''isVip''],
     rt_answer := Some (obj [''id'', ''displayName'', ''isVip''])\<rparr>"

definition ContactsController_split :: route where
  "ContactsController_split = (guardedRoute POST ''contacts/:id/split'')\<lparr>rt_bodyKeys := [''contactIdentityIds'',
      ''reason''],
     rt_answer := Some (obj [''newContactId''])\<rparr>"

definition ContactsController :: "route list" where
  "ContactsController = [ContactsController_list, ContactsController_update, ContactsController_split]"

definition NotificationsController_list :: route where
  "NotificationsController_list = (guardedRoute GET ''notifications'')\<lparr>rt_answer := Some (paged
      notificationAnswer)\<rparr>"

definition NotificationsController :: "route list" where
  "NotificationsController = [NotificationsController_list]"

definition ScheduledMessagesController_list :: route where
  "ScheduledMessagesController_list = (guardedRoute GET ''scheduled-messages'')\<lparr>rt_answer := Some (Fields
      [(''data'', Items scheduledAnswer)])\<rparr>"

definition ScheduledMessagesController_cancel :: route where
  "ScheduledMessagesController_cancel = (guardedRoute POST ''scheduled-messages/:id/cancel'')\<lparr>rt_answer := Some
      (obj [''id'', ''status''])\<rparr>"

definition ScheduledMessagesController :: "route list" where
  "ScheduledMessagesController = [ScheduledMessagesController_list, ScheduledMessagesController_cancel]"

definition ConnectorsController_list :: route where
  "ConnectorsController_list = (guardedRoute GET ''connectors'')\<lparr>rt_answer := Some (Fields [(''data'',
      Items connectorAnswer)])\<rparr>"

definition ConnectorsController :: "route list" where
  "ConnectorsController = [ConnectorsController_list]"

definition DiscordController_connect :: route where
  "DiscordController_connect = (guardedRoute POST ''connectors/discord/connect'')\<lparr>rt_answer := Some (obj
      [''authorizationUrl''])\<rparr>"

definition DiscordController_callback :: route where
  "DiscordController_callback = (openRoute GET ''connectors/discord/callback'')"

definition DiscordController_disconnect :: route where
  "DiscordController_disconnect = (guardedRoute POST ''connectors/discord/:id/disconnect'')\<lparr>rt_answer := Some (obj
      [''id'', ''status''])\<rparr>"

definition DiscordController :: "route list" where
  "DiscordController = [DiscordController_connect, DiscordController_callback, DiscordController_disconnect]"

definition SlackController_connect :: route where
  "SlackController_connect = (guardedRoute POST ''connectors/slack/connect'')\<lparr>rt_answer := Some (obj
      [''authorizationUrl''])\<rparr>"

definition SlackController_callback :: route where
  "SlackController_callback = (openRoute GET ''connectors/slack/callback'')"

definition SlackController_events :: route where
  "SlackController_events = (openRoute POST ''connectors/slack/events'')"

definition SlackController_disconnect :: route where
  "SlackController_disconnect = (guardedRoute POST ''connectors/slack/:id/disconnect'')\<lparr>rt_answer := Some (obj
      [''id'', ''status''])\<rparr>"

definition SlackController :: "route list" where
  "SlackController = [SlackController_connect, SlackController_callback, SlackController_events,
      SlackController_disconnect]"

definition TelegramController_connect :: route where
  "TelegramController_connect = (guardedRoute POST ''connectors/telegram/connect'')\<lparr>rt_bodyKeys := [''botToken''],
     rt_answer := Some (obj [''id'', ''status'', ''providerKey'', ''externalAccountId'', ''webhookRegistered''])\<rparr>"

definition TelegramController_webhook :: route where
  "TelegramController_webhook = (openRoute POST ''connectors/telegram/webhook/:linkedAccountId'')"

definition TelegramController_disconnect :: route where
  "TelegramController_disconnect = (guardedRoute POST ''connectors/telegram/:id/disconnect'')\<lparr>rt_answer := Some
      (obj [''id'', ''status''])\<rparr>"

definition TelegramController :: "route list" where
  "TelegramController = [TelegramController_connect, TelegramController_webhook, TelegramController_disconnect]"

definition EmailController_connect :: route where
  "EmailController_connect = (guardedRoute POST ''connectors/email/connect'')\<lparr>rt_bodyKeys := [''imapHost'',
      ''imapPort'', ''imapSecure'', ''smtpHost'', ''smtpPort'', ''smtpSecure'', ''username'', ''password''],
     rt_answer := Some (obj [''id'', ''status'', ''providerKey'', ''externalAccountId''])\<rparr>"

definition EmailController_disconnect :: route where
  "EmailController_disconnect = (guardedRoute POST ''connectors/email/:id/disconnect'')\<lparr>rt_answer := Some (obj
      [''id'', ''status''])\<rparr>"

definition EmailController :: "route list" where
  "EmailController = [EmailController_connect, EmailController_disconnect]"

definition RulesController_list :: route where
  "RulesController_list = (guardedRoute GET ''rules'')\<lparr>rt_answer := Some (paged ruleAnswer)\<rparr>"

definition RulesController_get :: route where
  "RulesController_get = (guardedRoute GET ''rules/:id'')\<lparr>rt_answer := Some (ruleAnswer)\<rparr>"

definition RulesController_create :: route where
  "RulesController_create = (guardedRoute POST ''rules'')\<lparr>rt_bodyKeys := [''name'', ''isEnabled'', ''priority'',
      ''trigger'', ''conditions'', ''actions''],
     rt_answer := Some (ruleAnswer)\<rparr>"

definition RulesController_update :: route where
  "RulesController_update = (guardedRoute PATCH ''rules/:id'')\<lparr>rt_needsIfMatch := True,
     rt_bodyKeys := [''name'', ''isEnabled'', ''priority'', ''trigger'', ''conditions'', ''actions''],
     rt_answer := Some (ruleAnswer)\<rparr>"

definition RulesController_remove :: route where
  "RulesController_remove = (guardedRoute DELETE ''rules/:id'')\<lparr>rt_answer := Some (obj [''id'',
      ''deleted''])\<rparr>"

definition RulesController_dryRun :: route where
  "RulesController_dryRun = (guardedRoute POST ''rules/:id/dry-run'')\<lparr>rt_bodyKeys := [''bodyText'',
      ''senderDisplayName'', ''senderIsVip''],
     rt_answer := Some (dryRunAnswer)\<rparr>"

definition RulesController_executions :: route where
  "RulesController_executions = (guardedRoute GET ''rules/:id/executions'')\<lparr>rt_answer := Some (paged
      executionAnswer)\<rparr>"

definition RulesController :: "route list" where
  "RulesController = [RulesController_list, RulesController_get, RulesController_create, RulesController_update,
      RulesController_remove, RulesController_dryRun, RulesController_executions]"

definition NotificationPreferencesController_get :: route where
  "NotificationPreferencesController_get = (guardedRoute GET ''notification-preferences'')\<lparr>rt_answer := Some
      (preferenceAnswer)\<rparr>"

definition NotificationPreferencesController_update :: route where
  "NotificationPreferencesController_update = (guardedRoute PATCH ''notification-preferences'')\<lparr>rt_needsIfMatch :=
      True,
     rt_bodyKeys := [''silentHoursStart'', ''silentHoursEnd'', ''vipOverrideEnabled'', ''keywordAlerts''],
     rt_answer := Some (preferenceAnswer)\<rparr>"

definition NotificationPreferencesController :: "route list" where
  "NotificationPreferencesController = [NotificationPreferencesController_get, NotificationPreferencesController_update]"

definition SearchController_searchMessages :: route where
  "SearchController_searchMessages = (guardedRoute GET ''search/messages'')"

definition SearchController_searchContacts :: route where
  "SearchController_searchContacts = (guardedRoute GET ''search/contacts'')"

definition SearchController_searchAll :: route where
  "SearchController_searchAll = (guardedRoute GET ''search'')\<lparr>rt_answer := Some (Fields [(''messages'',
      paged foundMessageAnswer), (''contacts'', paged contactRowAnswer)])\<rparr>"

definition SearchController :: "route list" where
  "SearchController = [SearchController_searchMessages, SearchController_searchContacts, SearchController_searchAll]"

definition AiController_getSettings :: route where
  "AiController_getSettings = (guardedRoute GET ''ai/settings'')"

definition AiController_updateSettings :: route where
  "AiController_updateSettings = (guardedRoute PATCH ''ai/settings'')\<lparr>rt_bodyKeys := [''aiEnabled'']\<rparr>"

definition AiController_getBalance :: route where
  "AiController_getBalance = (guardedRoute GET ''ai/credits/balance'')\<lparr>rt_answer := Some (obj [''balance''])\<rparr>"

definition AiController_getLedger :: route where
  "AiController_getLedger = (guardedRoute GET ''ai/credits/ledger'')"

definition AiController_summarize :: route where
  "AiController_summarize = (guardedRoute POST ''ai/summaries'')\<lparr>rt_bodyKeys := [''messageId'', ''conversationId''],
     rt_answer := Some (obj [''status'', ''summary'', ''modelUsed''])\<rparr>"

definition AiController_suggestedReplies :: route where
  "AiController_suggestedReplies = (guardedRoute POST ''ai/suggested-replies'')\<lparr>rt_bodyKeys := [''text''],
     rt_answer := Some (obj [''status'', ''replies'', ''modelUsed''])\<rparr>"

definition AiController_detectCommitments :: route where
  "AiController_detectCommitments = (guardedRoute POST ''ai/detect-commitments'')\<lparr>rt_bodyKeys := [''text'']\<rparr>"

definition AiController_rewrite :: route where
  "AiController_rewrite = (guardedRoute POST ''ai/rewrite'')\<lparr>rt_bodyKeys := [''text'', ''style'']\<rparr>"

definition AiController_suggestRule :: route where
  "AiController_suggestRule = (guardedRoute POST ''ai/rule-suggestions'')\<lparr>rt_bodyKeys := [''naturalLanguagePrompt''],
     rt_answer := Some (suggestionResult)\<rparr>"

definition AiController :: "route list" where
  "AiController = [AiController_getSettings, AiController_updateSettings, AiController_getBalance,
      AiController_getLedger, AiController_summarize, AiController_suggestedReplies, AiController_detectCommitments,
      AiController_rewrite, AiController_suggestRule]"

definition PushController_subscribe :: route where
  "PushController_subscribe = (guardedRoute POST ''push-subscriptions'')\<lparr>rt_bodyKeys := [''endpoint'', ''keys''],
     rt_answer := Some (obj [''status''])\<rparr>"

definition PushController_unsubscribe :: route where
  "PushController_unsubscribe = (guardedRoute DELETE ''push-subscriptions'')\<lparr>rt_bodyKeys := [''endpoint'']\<rparr>"

definition PushController :: "route list" where
  "PushController = [PushController_subscribe, PushController_unsubscribe]"

definition MetricsController_get :: route where
  "MetricsController_get = (openRoute GET ''metrics'')"

definition MetricsController :: "route list" where
  "MetricsController = [MetricsController_get]"

definition HealthController_check :: route where
  "HealthController_check = (openRoute GET ''health'')"

definition HealthController :: "route list" where
  "HealthController = [HealthController_check]"

definition MockConnectorController_send :: route where
  "MockConnectorController_send = (openRoute POST ''dev/mock-connector/send'')\<lparr>rt_bodyKeys :=
      [''senderExternalId'', ''senderDisplayName'', ''bodyText'', ''conversationExternalId''],
     rt_answer := Some (obj [''status'', ''eventId'', ''correlationId'', ''payload''])\<rparr>"

definition MockConnectorController :: "route list" where
  "MockConnectorController = [MockConnectorController_send]"

definition DevIdentityMatchingController_run :: route where
  "DevIdentityMatchingController_run = (openRoute POST ''dev/identity-matching/run'')"

definition DevIdentityMatchingController :: "route list" where
  "DevIdentityMatchingController = [DevIdentityMatchingController_run]"

definition DevPasswordResetFaultInjectorController_arm :: route where
  "DevPasswordResetFaultInjectorController_arm = (openRoute POST ''dev/password-reset/arm-tx-failure'')"

definition DevPasswordResetFaultInjectorController :: "route list" where
  "DevPasswordResetFaultInjectorController = [DevPasswordResetFaultInjectorController_arm]"

definition DevTransactionalEmailController_list :: route where
  "DevTransactionalEmailController_list = (openRoute GET ''dev/transactional-email/sent'')"

definition DevTransactionalEmailController_clear :: route where
  "DevTransactionalEmailController_clear = (openRoute DELETE ''dev/transactional-email/sent'')"

definition DevTransactionalEmailController :: "route list" where
  "DevTransactionalEmailController = [DevTransactionalEmailController_list, DevTransactionalEmailController_clear]"

definition apiRoutes :: "route list" where
  "apiRoutes = concat [AuthController, UsersController, WorkspacesController, WorkspaceMembershipController,
      ConversationsController, IdentityController, ContactsController, NotificationsController,
      ScheduledMessagesController, ConnectorsController, DiscordController, SlackController, TelegramController,
      EmailController, RulesController, NotificationPreferencesController, SearchController, AiController,
      PushController, MetricsController, HealthController, MockConnectorController, DevIdentityMatchingController,
      DevPasswordResetFaultInjectorController, DevTransactionalEmailController]"

section \<open>Mounting and choice\<close>

text \<open>The version prefix, which infrastructure and development paths go without.\<close>

definition unversioned :: "string \<Rightarrow> bool" where
  "unversioned p \<longleftrightarrow> p = ''health'' \<or> startsWith p ''health/'' \<or> startsWith p ''dev/'' \<or> p
      = ''metrics''"

definition mountPath :: "string \<Rightarrow> string" where
  "mountPath p = (if unversioned p then p else ''v1/'' @ p)"

definition matchSegments :: "string list \<Rightarrow> string list \<Rightarrow> bool" where
  "matchSegments ps ss \<longleftrightarrow> length ps = length ss \<and>
     list_all2 (\<lambda>p s. if startsWith p '':'' then s \<noteq> [] else p = s) ps ss"

text \<open>The path of a URL after its origin, without the query, as segments; the handler is the
  first whose method and path fit.\<close>

definition urlSegments :: "string \<Rightarrow> string list" where
  "urlSegments url = tl (splitOn (CHR ''/'') (takeWhile (\<lambda>c. c \<noteq> CHR ''?'') url))"

definition routeSegments :: "route \<Rightarrow> string list" where
  "routeSegments r = splitOn (CHR ''/'') (mountPath (rt_path r))"

definition chooseRoute :: "http_method \<Rightarrow> string list \<Rightarrow> route option" where
  "chooseRoute m ss = List.find (\<lambda>r. rt_method r = m \<and> matchSegments (routeSegments r) ss) apiRoutes"

end
