(* ===== verification/Client_Requests.thy ===== *)
theory Client_Requests
  imports Api_Routes Web_Inbox
begin

text \<open>
  The requests of the web client (\<open>apps/web/lib/api.ts\<close>): for every function the method,
  the URL after the origin of the API, the headers, the body and the credentials mode of its
  fetch, and the members its declared answer has; then what it takes for a request to be
  served by the routes of the API.
\<close>

section \<open>Requests\<close>

text \<open>How the answer is read: as JSON always, only when the status is a failure, or not at all.\<close>

datatype answer_reader = ReadsJson | ReadsFailure | ReadsNothing

record api_request =
  rq_method :: http_method
  rq_url :: string
  rq_bearer :: "string option"
  rq_ifMatch :: "string option"
  rq_body :: "(string \<times> jsval) list option"
  rq_include :: bool
  rq_retried :: bool
  rq_reads :: answer_reader
  rq_declares :: shape

definition request :: "http_method \<Rightarrow> string \<Rightarrow> api_request" where
  "request m url = \<lparr>rq_method = m, rq_url = url, rq_bearer = None, rq_ifMatch = None, rq_body = None,
     rq_include = False, rq_retried = False, rq_reads = ReadsJson, rq_declares = Value\<rparr>"

definition withToken :: "string \<Rightarrow> api_request \<Rightarrow> api_request" where
  "withToken accessToken q = q\<lparr>rq_bearer := Some accessToken\<rparr>"

text \<open>Through \<open>apiFetch\<close>, which refreshes and retries once after a 401.\<close>

definition viaApiFetch :: "string \<Rightarrow> api_request \<Rightarrow> api_request" where
  "viaApiFetch accessToken q = (withToken accessToken q)\<lparr>rq_retried := True\<rparr>"

definition atPath :: "string list \<Rightarrow> string" where
  "atPath segs = concat (map (\<lambda>s. ''/'' @ s) segs)"

text \<open>\<open>JSON.stringify\<close> leaves undefined members out.\<close>

definition defined :: "(string \<times> jsval) list \<Rightarrow> (string \<times> jsval) list" where
  "defined kvs = filter (\<lambda>kv. snd kv \<noteq> JUndef) kvs"

section \<open>Query strings\<close>

definition utf8 :: "char \<Rightarrow> nat list" where
  "utf8 c = (if code c < 128 then [code c] else [192 + code c div 64, 128 + code c mod 64])"

definition hexUpper :: "nat \<Rightarrow> char" where
  "hexUpper n = char_of (if n < 10 then 48 + n else 55 + n)"

definition percent :: "char \<Rightarrow> string" where
  "percent c = concat (map (\<lambda>b. [CHR ''%'', hexUpper (b div 16), hexUpper (b mod 16)]) (utf8 c))"

definition encodeURIComponent :: "string \<Rightarrow> string" where
  "encodeURIComponent s = concat (map (\<lambda>c.
     if isWordChar c \<or> c \<in> set ''-.!~*()'' \<or> code c = 39 then [c] else percent c) s)"

definition formEncode :: "string \<Rightarrow> string" where
  "formEncode s = concat (map (\<lambda>c.
     if isWordChar c \<or> c \<in> set ''*-.'' then [c] else if code c = 32 then ''+'' else percent c) s)"

definition queryText :: "(string \<times> string) list \<Rightarrow> string" where
  "queryText ps = (if ps = [] then [] else ''?'' @ joinWith ''&'' (map (\<lambda>p. fst p @ ''='' @ formEncode (snd p))
      ps))"

definition optionalParam :: "string \<Rightarrow> string option \<Rightarrow> (string \<times> string) list" where
  "optionalParam k v = (case v of None \<Rightarrow> [] | Some x \<Rightarrow> if x = [] then [] else [(k, x)])"

definition conversationParams :: "conversation_query \<Rightarrow> (string \<times> string) list" where
  "conversationParams f = (''archived'', if cvq_archived f then ''true'' else ''false'') #
     optionalParam ''category'' (cvq_category f) @ (if cvq_vip f then [(''vip'', ''true'')] else []) @
     (if cvq_unread f then [(''unread'', ''true'')] else []) @ optionalParam ''cursor'' (cvq_cursor f)"

section \<open>Declared answers\<close>

definition PublicUser_shape :: shape where
  "PublicUser_shape = obj [''id'', ''email'', ''displayName'']"

definition AuthResponse_shape :: shape where
  "AuthResponse_shape = Fields [(''user'', PublicUser_shape), (''accessToken'', Value)]"

definition MeResponse_shape :: shape where
  "MeResponse_shape = Fields [(''user'', PublicUser_shape), (''currentWorkspaceId'', Value),
     (''workspaces'', Items (obj [''workspaceId'', ''workspaceName'', ''organizationId'', ''role'']))]"

definition WorkspaceSessionResult_shape :: shape where
  "WorkspaceSessionResult_shape = obj [''workspaceId'', ''accessToken'']"

definition WorkspaceMemberSummary_shape :: shape where
  "WorkspaceMemberSummary_shape = obj [''id'', ''userId'', ''email'', ''displayName'', ''role'', ''joinedAt'']"

definition ConversationSummary_shape :: shape where
  "ConversationSummary_shape = Fields [(''id'', Value), (''title'', Value), (''providerKey'', Value),
         (''lastMessageAt'', Value), (''priorityScore'', Value),
     (''isArchived'', Value), (''category'', Value), (''unread'', Value),
     (''lastMessage'', Fields [(''id'', Value), (''bodyText'', Value), (''direction'', Value), (''receivedAt'', Value),
        (''sender'', obj [''id'', ''displayName'', ''isVip''])])]"

definition CursorPage_shape :: "shape \<Rightarrow> shape" where
  "CursorPage_shape a = Fields [(''data'', Items a), (''pagination'', obj [''nextCursor'', ''hasMore''])]"

definition MergeSuggestion_shape :: shape where
  "MergeSuggestion_shape = Fields [(''id'', Value), (''confidenceScore'', Value), (''matchingSignals'', Value),
     (''contactA'', obj [''id'', ''displayName'']), (''contactB'', obj [''id'', ''displayName'']), (''createdAt'',
         Value), (''expiresAt'', Value)]"

definition ContactIdentity_shape :: shape where
  "ContactIdentity_shape = obj [''id'', ''providerKey'', ''handle'', ''matchType'']"

definition Contact_shape :: shape where
  "Contact_shape = Fields [(''id'', Value), (''displayName'', Value), (''isVip'', Value), (''identities'',
         Items ContactIdentity_shape)]"

definition ConversationMessage_shape :: shape where
  "ConversationMessage_shape = Fields [(''id'', Value), (''direction'', Value), (''bodyText'', Value), (''receivedAt'',
         Value),
     (''sender'', obj [''id'', ''displayName'', ''isVip''])]"

definition NotificationItem_shape :: shape where
  "NotificationItem_shape = obj [''id'', ''type'', ''title'', ''body'', ''createdAt'']"

definition ScheduledMessage_shape :: shape where
  "ScheduledMessage_shape = obj [''id'', ''conversationId'', ''bodyText'', ''sendAt'', ''status'', ''sentMessageId'',
         ''lastError'', ''createdAt'']"

definition ConnectTelegramResult_shape :: shape where
  "ConnectTelegramResult_shape = obj [''id'', ''status'', ''providerKey'', ''externalAccountId'', ''webhookRegistered'']"

definition ConnectEmailResult_shape :: shape where
  "ConnectEmailResult_shape = obj [''id'', ''status'', ''providerKey'', ''externalAccountId'']"

definition ConnectorSummary_shape :: shape where
  "ConnectorSummary_shape = obj [''id'', ''provider'', ''displayLabel'', ''externalAccountId'', ''status'',
         ''lastSyncedAt'', ''lastError'', ''createdAt'']"

definition RuleSummary_shape :: shape where
  "RuleSummary_shape = obj [''id'', ''name'', ''isEnabled'', ''priority'', ''triggerType'', ''trigger'',
         ''conditions'', ''actions'', ''version'',
     ''createdAt'', ''updatedAt'']"

definition RuleExecutionLogItem_shape :: shape where
  "RuleExecutionLogItem_shape = obj [''id'', ''matchedAt'', ''status'', ''errorDetail'', ''actionsExecuted'']"

definition NotificationPreferences_shape :: shape where
  "NotificationPreferences_shape = obj [''silentHoursStart'', ''silentHoursEnd'', ''vipOverrideEnabled'',
         ''keywordAlerts'']"

definition MessageSearchResult_shape :: shape where
  "MessageSearchResult_shape = obj [''id'', ''conversationId'', ''bodyText'', ''receivedAt'', ''senderDisplayName'',
         ''conversationTitle'']"

definition ContactSearchResult_shape :: shape where
  "ContactSearchResult_shape = obj [''id'', ''displayName'', ''isVip'']"

definition AiCreditBalance_shape :: shape where
  "AiCreditBalance_shape = obj [''balance'']"

definition RuleSuggestionResponse_shape :: shape where
  "RuleSuggestionResponse_shape = obj [''matched'']"

section \<open>Requests\<close>

definition register_request :: "string \<Rightarrow> string \<Rightarrow> jsval \<Rightarrow> api_request" where
  "register_request email password displayName =
     (request POST (atPath [''v1'', ''auth'', ''register'']))
       \<lparr>rq_include := True, rq_body := Some (defined [(''email'', JStr email), (''password'', JStr password),
         (''displayName'', displayName)]), rq_declares := AuthResponse_shape\<rparr>"

definition login_request :: "string \<Rightarrow> string \<Rightarrow> api_request" where
  "login_request email password =
     (request POST (atPath [''v1'', ''auth'', ''login'']))
       \<lparr>rq_include := True, rq_body := Some (defined [(''email'', JStr email), (''password'', JStr password)]),
         rq_declares := AuthResponse_shape\<rparr>"

definition tryRefresh_request :: "api_request" where
  "tryRefresh_request =
     (request POST (atPath [''v1'', ''auth'', ''refresh'']))
       \<lparr>rq_include := True, rq_declares := obj [''accessToken'']\<rparr>"

definition logout_request :: "api_request" where
  "logout_request =
     (request POST (atPath [''v1'', ''auth'', ''logout'']))
       \<lparr>rq_include := True, rq_reads := ReadsNothing\<rparr>"

definition forgotPassword_request :: "string \<Rightarrow> api_request" where
  "forgotPassword_request email =
     (request POST (atPath [''v1'', ''auth'', ''forgot-password'']))
       \<lparr>rq_body := Some (defined [(''email'', JStr email)]), rq_declares := obj [''message'']\<rparr>"

definition resetPassword_request :: "string \<Rightarrow> string \<Rightarrow> api_request" where
  "resetPassword_request token newPassword =
     (request POST (atPath [''v1'', ''auth'', ''reset-password'']))
       \<lparr>rq_body := Some (defined [(''token'', JStr token), (''newPassword'', JStr newPassword)]),
         rq_declares := obj [''status'']\<rparr>"

definition fetchMe_request :: "string \<Rightarrow> api_request" where
  "fetchMe_request accessToken =
     viaApiFetch accessToken ((request GET (atPath [''v1'', ''users'', ''me'']))
       \<lparr>rq_declares := MeResponse_shape\<rparr>)"

definition createWorkspace_request :: "string \<Rightarrow> jsval \<Rightarrow> api_request" where
  "createWorkspace_request accessToken name =
     viaApiFetch accessToken ((request POST (atPath [''v1'', ''workspace'']))
       \<lparr>rq_body := Some (defined [(''name'', name)]), rq_declares := WorkspaceSessionResult_shape\<rparr>)"

definition switchWorkspace_request :: "string \<Rightarrow> string \<Rightarrow> api_request" where
  "switchWorkspace_request accessToken workspaceId =
     withToken accessToken ((request POST (atPath [''v1'', ''auth'', ''switch-workspace'']))
       \<lparr>rq_include := True, rq_body := Some (defined [(''workspaceId'', JStr workspaceId)]),
         rq_declares := WorkspaceSessionResult_shape\<rparr>)"

definition fetchWorkspaceMembers_request :: "string \<Rightarrow> api_request" where
  "fetchWorkspaceMembers_request accessToken =
     viaApiFetch accessToken ((request GET (atPath [''v1'', ''workspace'', ''members'']))
       \<lparr>rq_declares := Fields [(''members'', Items WorkspaceMemberSummary_shape)]\<rparr>)"

definition inviteWorkspaceMember_request :: "string \<Rightarrow> jsval \<Rightarrow> string \<Rightarrow> api_request"
      where
  "inviteWorkspaceMember_request accessToken email role =
     viaApiFetch accessToken ((request POST (atPath [''v1'', ''workspace'', ''invites'']))
       \<lparr>rq_body := Some (defined [(''email'', email), (''role'', JStr role)]), rq_declares := obj [''code'',
         ''expiresAt'']\<rparr>)"

definition acceptWorkspaceInvite_request :: "string \<Rightarrow> string \<Rightarrow> api_request" where
  "acceptWorkspaceInvite_request accessToken inviteCode =
     withToken accessToken ((request POST (atPath [''v1'', ''workspace'', ''invites'', ''accept'']))
       \<lparr>rq_include := True, rq_body := Some (defined [(''code'', JStr inviteCode)]),
         rq_declares := obj [''workspaceId'', ''accessToken'', ''role'']\<rparr>)"

definition changeWorkspaceMemberRole_request :: "string \<Rightarrow> string \<Rightarrow> string \<Rightarrow>
      api_request" where
  "changeWorkspaceMemberRole_request accessToken memberId role =
     viaApiFetch accessToken ((request POST (atPath [''v1'', ''workspace'', ''members'', memberId, ''role'']))
       \<lparr>rq_body := Some (defined [(''role'', JStr role)]), rq_declares := obj [''id'', ''role'']\<rparr>)"

definition removeWorkspaceMember_request :: "string \<Rightarrow> string \<Rightarrow> api_request" where
  "removeWorkspaceMember_request accessToken memberId =
     viaApiFetch accessToken ((request DELETE (atPath [''v1'', ''workspace'', ''members'', memberId]))
       \<lparr>rq_reads := ReadsFailure\<rparr>)"

definition leaveWorkspace_request :: "string \<Rightarrow> api_request" where
  "leaveWorkspace_request accessToken =
     viaApiFetch accessToken ((request POST (atPath [''v1'', ''workspace'', ''leave'']))
       \<lparr>rq_reads := ReadsFailure\<rparr>)"

definition transferWorkspaceOwnership_request :: "string \<Rightarrow> string \<Rightarrow> api_request" where
  "transferWorkspaceOwnership_request accessToken userId =
     viaApiFetch accessToken ((request POST (atPath [''v1'', ''workspace'', ''transfer-ownership'']))
       \<lparr>rq_body := Some (defined [(''userId'', JStr userId)]), rq_reads := ReadsFailure\<rparr>)"

definition fetchConversations_request :: "string \<Rightarrow> conversation_query \<Rightarrow> api_request" where
  "fetchConversations_request accessToken filters =
     viaApiFetch accessToken ((request GET (atPath [''v1'', ''conversations''] @ queryText (conversationParams filters)))
       \<lparr>rq_declares := CursorPage_shape ConversationSummary_shape\<rparr>)"

definition fetchNeedsYouCount_request :: "string \<Rightarrow> api_request" where
  "fetchNeedsYouCount_request accessToken =
     viaApiFetch accessToken ((request GET (atPath [''v1'', ''conversations'', ''summary'']))
       \<lparr>rq_declares := obj [''needsYouCount'']\<rparr>)"

definition updateConversation_request :: "string \<Rightarrow> string \<Rightarrow> jsval \<Rightarrow> jsval
      \<Rightarrow> api_request" where
  "updateConversation_request accessToken conversationId isArchived category =
     viaApiFetch accessToken ((request PATCH (atPath [''v1'', ''conversations'', conversationId]))
       \<lparr>rq_body := Some (defined [(''isArchived'', isArchived), (''category'', category)]),
         rq_declares := obj [''id'', ''isArchived'', ''category'']\<rparr>)"

definition markConversationRead_request :: "string \<Rightarrow> string \<Rightarrow> api_request" where
  "markConversationRead_request accessToken conversationId =
     viaApiFetch accessToken ((request POST (atPath [''v1'', ''conversations'', conversationId, ''read''])))"

definition markConversationUnread_request :: "string \<Rightarrow> string \<Rightarrow> api_request" where
  "markConversationUnread_request accessToken conversationId =
     viaApiFetch accessToken ((request POST (atPath [''v1'', ''conversations'', conversationId, ''unread''])))"

definition fetchMergeSuggestions_request :: "string \<Rightarrow> api_request" where
  "fetchMergeSuggestions_request accessToken =
     viaApiFetch accessToken ((request GET (atPath [''v1'', ''identity'', ''merge-suggestions'']))
       \<lparr>rq_declares := Fields [(''data'', Items MergeSuggestion_shape)]\<rparr>)"

definition approveMergeSuggestion_request :: "string \<Rightarrow> string \<Rightarrow> api_request" where
  "approveMergeSuggestion_request accessToken suggestionId =
     viaApiFetch accessToken ((request POST (atPath [''v1'', ''identity'', ''merge-suggestions'', suggestionId,
         ''approve''])))"

definition rejectMergeSuggestion_request :: "string \<Rightarrow> string \<Rightarrow> api_request" where
  "rejectMergeSuggestion_request accessToken suggestionId =
     viaApiFetch accessToken ((request POST (atPath [''v1'', ''identity'', ''merge-suggestions'', suggestionId,
         ''reject''])))"

definition fetchContacts_request :: "string \<Rightarrow> api_request" where
  "fetchContacts_request accessToken =
     viaApiFetch accessToken ((request GET (atPath [''v1'', ''contacts'']))
       \<lparr>rq_declares := Fields [(''data'', Items Contact_shape)]\<rparr>)"

definition setContactVip_request :: "string \<Rightarrow> string \<Rightarrow> bool \<Rightarrow> api_request" where
  "setContactVip_request accessToken contactId isVip =
     viaApiFetch accessToken ((request PATCH (atPath [''v1'', ''contacts'', contactId]))
       \<lparr>rq_body := Some (defined [(''isVip'', JBool isVip)]), rq_declares := Contact_shape\<rparr>)"

definition splitContact_request :: "string \<Rightarrow> string \<Rightarrow> (string list) \<Rightarrow> jsval
      \<Rightarrow> api_request" where
  "splitContact_request accessToken contactId contactIdentityIds reason =
     viaApiFetch accessToken ((request POST (atPath [''v1'', ''contacts'', contactId, ''split'']))
       \<lparr>rq_body := Some (defined [(''contactIdentityIds'', JArr (map JStr contactIdentityIds)), (''reason'',
         reason)]), rq_declares := obj [''newContactId'']\<rparr>)"

definition fetchMessages_request :: "string \<Rightarrow> string \<Rightarrow> string option \<Rightarrow> api_request"
      where
  "fetchMessages_request accessToken conversationId cursor =
     viaApiFetch accessToken ((request GET (atPath [''v1'', ''conversations'', conversationId,
      ''messages''] @ queryText (optionalParam ''cursor'' cursor)))
       \<lparr>rq_declares := CursorPage_shape ConversationMessage_shape\<rparr>)"

definition fetchNotifications_request :: "string \<Rightarrow> api_request" where
  "fetchNotifications_request accessToken =
     viaApiFetch accessToken ((request GET (atPath [''v1'', ''notifications'']))
       \<lparr>rq_declares := Fields [(''data'', Items NotificationItem_shape)]\<rparr>)"

definition sendMessage_request :: "string \<Rightarrow> string \<Rightarrow> string \<Rightarrow> api_request" where
  "sendMessage_request accessToken conversationId body =
     viaApiFetch accessToken ((request POST (atPath [''v1'', ''conversations'', conversationId, ''messages'']))
       \<lparr>rq_body := Some (defined [(''body'', JStr body)]), rq_declares := ConversationMessage_shape\<rparr>)"

definition scheduleMessage_request :: "string \<Rightarrow> string \<Rightarrow> string \<Rightarrow> string
      \<Rightarrow> api_request" where
  "scheduleMessage_request accessToken conversationId body sendAt =
     viaApiFetch accessToken ((request POST (atPath [''v1'', ''conversations'', conversationId, ''messages'']))
       \<lparr>rq_body := Some (defined [(''body'', JStr body), (''sendAt'', JStr sendAt)]),
         rq_declares := ScheduledMessage_shape\<rparr>)"

definition fetchScheduledMessages_request :: "string \<Rightarrow> api_request" where
  "fetchScheduledMessages_request accessToken =
     viaApiFetch accessToken ((request GET (atPath [''v1'', ''scheduled-messages'']))
       \<lparr>rq_declares := Fields [(''data'', Items ScheduledMessage_shape)]\<rparr>)"

definition cancelScheduledMessage_request :: "string \<Rightarrow> string \<Rightarrow> api_request" where
  "cancelScheduledMessage_request accessToken i =
     viaApiFetch accessToken ((request POST (atPath [''v1'', ''scheduled-messages'', i, ''cancel'']))
       \<lparr>rq_declares := obj [''id'', ''status'']\<rparr>)"

definition connectDiscord_request :: "string \<Rightarrow> api_request" where
  "connectDiscord_request accessToken =
     viaApiFetch accessToken ((request POST (atPath [''v1'', ''connectors'', ''discord'', ''connect'']))
       \<lparr>rq_declares := obj [''authorizationUrl'']\<rparr>)"

definition connectSlack_request :: "string \<Rightarrow> api_request" where
  "connectSlack_request accessToken =
     viaApiFetch accessToken ((request POST (atPath [''v1'', ''connectors'', ''slack'', ''connect'']))
       \<lparr>rq_declares := obj [''authorizationUrl'']\<rparr>)"

definition connectTelegram_request :: "string \<Rightarrow> string \<Rightarrow> api_request" where
  "connectTelegram_request accessToken botToken =
     viaApiFetch accessToken ((request POST (atPath [''v1'', ''connectors'', ''telegram'', ''connect'']))
       \<lparr>rq_body := Some (defined [(''botToken'', JStr botToken)]),
         rq_declares := ConnectTelegramResult_shape\<rparr>)"

definition connectEmail_request :: "string \<Rightarrow> (string \<times> jsval) list \<Rightarrow> api_request" where
  "connectEmail_request accessToken input =
     viaApiFetch accessToken ((request POST (atPath [''v1'', ''connectors'', ''email'', ''connect'']))
       \<lparr>rq_body := Some (defined input), rq_declares := ConnectEmailResult_shape\<rparr>)"

definition fetchConnectors_request :: "string \<Rightarrow> api_request" where
  "fetchConnectors_request accessToken =
     viaApiFetch accessToken ((request GET (atPath [''v1'', ''connectors'']))
       \<lparr>rq_declares := Fields [(''data'', Items ConnectorSummary_shape)]\<rparr>)"

definition disconnectConnector_request :: "string \<Rightarrow> string \<Rightarrow> string \<Rightarrow> api_request" where
  "disconnectConnector_request accessToken provider i =
     viaApiFetch accessToken ((request POST (atPath [''v1'', ''connectors'', provider, i, ''disconnect'']))
       \<lparr>rq_declares := obj [''id'', ''status'']\<rparr>)"

definition fetchRules_request :: "string \<Rightarrow> api_request" where
  "fetchRules_request accessToken =
     viaApiFetch accessToken ((request GET (atPath [''v1'', ''rules'']))
       \<lparr>rq_declares := Fields [(''data'', Items RuleSummary_shape)]\<rparr>)"

definition createRule_request :: "string \<Rightarrow> (string \<times> jsval) list \<Rightarrow> api_request" where
  "createRule_request accessToken input =
     viaApiFetch accessToken ((request POST (atPath [''v1'', ''rules'']))
       \<lparr>rq_body := Some (defined input), rq_declares := RuleSummary_shape\<rparr>)"

definition updateRule_request :: "string \<Rightarrow> string \<Rightarrow> (string \<times> jsval) list \<Rightarrow>
      nat \<Rightarrow> api_request" where
  "updateRule_request accessToken ruleId input expectedVersion =
     viaApiFetch accessToken ((request PATCH (atPath [''v1'', ''rules'', ruleId]))
       \<lparr>rq_ifMatch := Some (natDigits expectedVersion), rq_body := Some (defined input),
         rq_declares := RuleSummary_shape\<rparr>)"

definition deleteRule_request :: "string \<Rightarrow> string \<Rightarrow> api_request" where
  "deleteRule_request accessToken ruleId =
     viaApiFetch accessToken ((request DELETE (atPath [''v1'', ''rules'', ruleId])))"

definition dryRunRule_request :: "string \<Rightarrow> string \<Rightarrow> string \<Rightarrow> string \<Rightarrow>
      bool \<Rightarrow> api_request" where
  "dryRunRule_request accessToken ruleId bodyText senderDisplayName senderIsVip =
     viaApiFetch accessToken ((request POST (atPath [''v1'', ''rules'', ruleId, ''dry-run'']))
       \<lparr>rq_body := Some (defined [(''bodyText'', JStr bodyText), (''senderDisplayName'',
         JStr senderDisplayName), (''senderIsVip'', JBool senderIsVip)]), rq_declares := obj [''matched'',
         ''actionsExecuted'']\<rparr>)"

definition fetchRuleExecutions_request :: "string \<Rightarrow> string \<Rightarrow> api_request" where
  "fetchRuleExecutions_request accessToken ruleId =
     viaApiFetch accessToken ((request GET (atPath [''v1'', ''rules'', ruleId, ''executions'']))
       \<lparr>rq_declares := Fields [(''data'', Items RuleExecutionLogItem_shape)]\<rparr>)"

definition fetchNotificationPreferences_request :: "string \<Rightarrow> api_request" where
  "fetchNotificationPreferences_request accessToken =
     viaApiFetch accessToken ((request GET (atPath [''v1'', ''notification-preferences'']))
       \<lparr>rq_declares := NotificationPreferences_shape\<rparr>)"

definition updateNotificationPreferences_request :: "string \<Rightarrow> (string \<times> jsval) list \<Rightarrow>
      string \<Rightarrow> api_request" where
  "updateNotificationPreferences_request accessToken input ifMatch =
     viaApiFetch accessToken ((request PATCH (atPath [''v1'', ''notification-preferences'']))
       \<lparr>rq_ifMatch := Some (ifMatch), rq_body := Some (defined input),
         rq_declares := NotificationPreferences_shape\<rparr>)"

definition search_request :: "string \<Rightarrow> string \<Rightarrow> api_request" where
  "search_request accessToken query =
     viaApiFetch accessToken ((request GET (atPath [''v1'', ''search''] @ ''?q='' @ encodeURIComponent query))
       \<lparr>rq_declares := Fields [(''messages'', Fields [(''data'', Items MessageSearchResult_shape)]),
         (''contacts'', Fields [(''data'', Items ContactSearchResult_shape)])]\<rparr>)"

definition fetchAiCreditBalance_request :: "string \<Rightarrow> api_request" where
  "fetchAiCreditBalance_request accessToken =
     viaApiFetch accessToken ((request GET (atPath [''v1'', ''ai'', ''credits'', ''balance'']))
       \<lparr>rq_declares := AiCreditBalance_shape\<rparr>)"

definition summarizeConversation_request :: "string \<Rightarrow> string \<Rightarrow> api_request" where
  "summarizeConversation_request accessToken conversationId =
     viaApiFetch accessToken ((request POST (atPath [''v1'', ''ai'', ''summaries'']))
       \<lparr>rq_body := Some (defined [(''conversationId'', JStr conversationId)]),
         rq_declares := obj [''summary'']\<rparr>)"

definition suggestReplies_request :: "string \<Rightarrow> string \<Rightarrow> api_request" where
  "suggestReplies_request accessToken text =
     viaApiFetch accessToken ((request POST (atPath [''v1'', ''ai'', ''suggested-replies'']))
       \<lparr>rq_body := Some (defined [(''text'', JStr text)]), rq_declares := obj [''replies'']\<rparr>)"

definition suggestRule_request :: "string \<Rightarrow> string \<Rightarrow> api_request" where
  "suggestRule_request accessToken naturalLanguagePrompt =
     viaApiFetch accessToken ((request POST (atPath [''v1'', ''ai'', ''rule-suggestions'']))
       \<lparr>rq_body := Some (defined [(''naturalLanguagePrompt'', JStr naturalLanguagePrompt)]),
         rq_declares := RuleSuggestionResponse_shape\<rparr>)"

definition subscribeToPush_request :: "string \<Rightarrow> string \<Rightarrow> string \<Rightarrow> string
      \<Rightarrow> api_request" where
  "subscribeToPush_request accessToken endpoint p256dh auth =
     viaApiFetch accessToken ((request POST (atPath [''v1'', ''push-subscriptions'']))
       \<lparr>rq_body := Some (defined [(''endpoint'', JStr endpoint), (''keys'', JObj [(''p256dh'', JStr p256dh),
         (''auth'', JStr auth)])])\<rparr>)"

definition triggerMockMessage_request :: "string \<Rightarrow> string \<Rightarrow> string \<Rightarrow> string
      \<Rightarrow> api_request" where
  "triggerMockMessage_request accessToken senderDisplayName senderExternalId bodyText =
     viaApiFetch accessToken ((request POST (atPath [''dev'', ''mock-connector'', ''send'']))
       \<lparr>rq_body := Some (defined [(''senderDisplayName'', JStr senderDisplayName), (''senderExternalId'',
         JStr senderExternalId), (''bodyText'', JStr bodyText)]), rq_reads := ReadsFailure\<rparr>)"

section \<open>The requests there are\<close>

text \<open>The functions of the client, each with its request and the handler it means. The bodies
  the screens pass on whole have these members; an id in a path has the form of a UUID,
      36 characters without a slash.\<close>

definition connectEmailKeys :: "string list" where
  "connectEmailKeys = [''imapHost'', ''imapPort'', ''imapSecure'', ''smtpHost'', ''smtpPort'', ''smtpSecure'',
      ''username'', ''password'']"

definition ruleKeys :: "string list" where
  "ruleKeys = [''name'', ''isEnabled'', ''priority'', ''trigger'', ''conditions'', ''actions'']"

definition preferenceKeys :: "string list" where
  "preferenceKeys = [''silentHoursStart'', ''silentHoursEnd'', ''vipOverrideEnabled'', ''keywordAlerts'']"

definition pathPart :: "string \<Rightarrow> bool" where
  "pathPart x \<longleftrightarrow> length x = 36 \<and> list_all (\<lambda>c. isWordChar c \<or> c = CHR ''-'') x"

inductive client_call :: "string \<Rightarrow> api_request \<Rightarrow> route \<Rightarrow> bool" where
  call_register: "client_call ''register'' (register_request email password displayName) AuthController_register"
  | call_login: "client_call ''login'' (login_request email password) AuthController_login"
  | call_tryRefresh: "client_call ''tryRefresh'' tryRefresh_request AuthController_refresh"
  | call_logout: "client_call ''logout'' logout_request AuthController_logout"
  | call_forgotPassword: "client_call ''forgotPassword'' (forgotPassword_request email) AuthController_forgotPassword"
  | call_resetPassword: "client_call ''resetPassword'' (resetPassword_request token newPassword)
     AuthController_resetPassword"
  | call_fetchMe: "client_call ''fetchMe'' (fetchMe_request accessToken) UsersController_me"
  | call_createWorkspace: "client_call ''createWorkspace'' (createWorkspace_request accessToken name)
     WorkspacesController_createWorkspace"
  | call_switchWorkspace: "client_call ''switchWorkspace'' (switchWorkspace_request accessToken workspaceId)
     AuthController_switchWorkspace"
  | call_fetchWorkspaceMembers: "client_call ''fetchWorkspaceMembers'' (fetchWorkspaceMembers_request accessToken)
     WorkspaceMembershipController_listMembers"
  | call_inviteWorkspaceMember: "client_call ''inviteWorkspaceMember'' (inviteWorkspaceMember_request accessToken email
     role) WorkspaceMembershipController_invite"
  | call_acceptWorkspaceInvite: "client_call ''acceptWorkspaceInvite'' (acceptWorkspaceInvite_request accessToken
     inviteCode) WorkspaceMembershipController_acceptInvite"
  | call_changeWorkspaceMemberRole: "pathPart memberId \<Longrightarrow> client_call ''changeWorkspaceMemberRole''
     (changeWorkspaceMemberRole_request accessToken memberId role) WorkspaceMembershipController_changeMemberRole"
  | call_removeWorkspaceMember: "pathPart memberId \<Longrightarrow> client_call ''removeWorkspaceMember''
     (removeWorkspaceMember_request accessToken memberId) WorkspaceMembershipController_removeMember"
  | call_leaveWorkspace: "client_call ''leaveWorkspace'' (leaveWorkspace_request accessToken)
     WorkspaceMembershipController_leave"
  | call_transferWorkspaceOwnership: "client_call ''transferWorkspaceOwnership'' (transferWorkspaceOwnership_request
     accessToken userId) WorkspaceMembershipController_transferOwnership"
  | call_fetchConversations: "client_call ''fetchConversations'' (fetchConversations_request accessToken filters)
     ConversationsController_list"
  | call_fetchNeedsYouCount: "client_call ''fetchNeedsYouCount'' (fetchNeedsYouCount_request accessToken)
     ConversationsController_summary"
  | call_updateConversation: "pathPart conversationId \<Longrightarrow> client_call ''updateConversation''
     (updateConversation_request accessToken conversationId isArchived category) ConversationsController_update"
  | call_markConversationRead: "pathPart conversationId \<Longrightarrow> client_call ''markConversationRead''
     (markConversationRead_request accessToken conversationId) ConversationsController_markRead"
  | call_markConversationUnread: "pathPart conversationId \<Longrightarrow> client_call ''markConversationUnread''
     (markConversationUnread_request accessToken conversationId) ConversationsController_markUnread"
  | call_fetchMergeSuggestions: "client_call ''fetchMergeSuggestions'' (fetchMergeSuggestions_request accessToken)
     IdentityController_listSuggestions"
  | call_approveMergeSuggestion: "pathPart suggestionId \<Longrightarrow> client_call ''approveMergeSuggestion''
     (approveMergeSuggestion_request accessToken suggestionId) IdentityController_approve"
  | call_rejectMergeSuggestion: "pathPart suggestionId \<Longrightarrow> client_call ''rejectMergeSuggestion''
     (rejectMergeSuggestion_request accessToken suggestionId) IdentityController_reject"
  | call_fetchContacts: "client_call ''fetchContacts'' (fetchContacts_request accessToken) ContactsController_list"
  | call_setContactVip: "pathPart contactId \<Longrightarrow> client_call ''setContactVip'' (setContactVip_request
     accessToken contactId isVip) ContactsController_update"
  | call_splitContact: "pathPart contactId \<Longrightarrow> client_call ''splitContact'' (splitContact_request accessToken
     contactId contactIdentityIds reason) ContactsController_split"
  | call_fetchMessages: "pathPart conversationId \<Longrightarrow> client_call ''fetchMessages'' (fetchMessages_request
     accessToken conversationId cursor) ConversationsController_messages"
  | call_fetchNotifications: "client_call ''fetchNotifications'' (fetchNotifications_request accessToken)
     NotificationsController_list"
  | call_sendMessage: "pathPart conversationId \<Longrightarrow> client_call ''sendMessage'' (sendMessage_request
     accessToken conversationId body) ConversationsController_sendMessage"
  | call_scheduleMessage: "pathPart conversationId \<Longrightarrow> client_call ''scheduleMessage''
     (scheduleMessage_request accessToken conversationId body sendAt) ConversationsController_sendMessage"
  | call_fetchScheduledMessages: "client_call ''fetchScheduledMessages'' (fetchScheduledMessages_request accessToken)
     ScheduledMessagesController_list"
  | call_cancelScheduledMessage: "pathPart i \<Longrightarrow> client_call ''cancelScheduledMessage''
     (cancelScheduledMessage_request accessToken i) ScheduledMessagesController_cancel"
  | call_connectDiscord: "client_call ''connectDiscord'' (connectDiscord_request accessToken) DiscordController_connect"
  | call_connectSlack: "client_call ''connectSlack'' (connectSlack_request accessToken) SlackController_connect"
  | call_connectTelegram: "client_call ''connectTelegram'' (connectTelegram_request accessToken botToken)
     TelegramController_connect"
  | call_connectEmail: "list_all (\<lambda>kv. fst kv \<in> set connectEmailKeys) input \<Longrightarrow> client_call
     ''connectEmail'' (connectEmail_request accessToken input) EmailController_connect"
  | call_fetchConnectors: "client_call ''fetchConnectors'' (fetchConnectors_request accessToken) ConnectorsController_list"
  | call_disconnectConnector_discord: "pathPart i \<Longrightarrow> client_call ''disconnectConnector''
     (disconnectConnector_request accessToken ''discord'' i) DiscordController_disconnect"
  | call_disconnectConnector_slack: "pathPart i \<Longrightarrow> client_call ''disconnectConnector''
     (disconnectConnector_request accessToken ''slack'' i) SlackController_disconnect"
  | call_disconnectConnector_telegram: "pathPart i \<Longrightarrow> client_call ''disconnectConnector''
     (disconnectConnector_request accessToken ''telegram'' i) TelegramController_disconnect"
  | call_disconnectConnector_email: "pathPart i \<Longrightarrow> client_call ''disconnectConnector''
     (disconnectConnector_request accessToken ''email'' i) EmailController_disconnect"
  | call_fetchRules: "client_call ''fetchRules'' (fetchRules_request accessToken) RulesController_list"
  | call_createRule: "list_all (\<lambda>kv. fst kv \<in> set ruleKeys) input \<Longrightarrow> client_call ''createRule''
     (createRule_request accessToken input) RulesController_create"
  | call_updateRule: "pathPart ruleId \<Longrightarrow> list_all (\<lambda>kv. fst kv \<in> set ruleKeys) input
     \<Longrightarrow> client_call ''updateRule'' (updateRule_request accessToken ruleId input expectedVersion)
     RulesController_update"
  | call_deleteRule: "pathPart ruleId \<Longrightarrow> client_call ''deleteRule'' (deleteRule_request accessToken ruleId)
     RulesController_remove"
  | call_dryRunRule: "pathPart ruleId \<Longrightarrow> client_call ''dryRunRule'' (dryRunRule_request accessToken ruleId
     bodyText senderDisplayName senderIsVip) RulesController_dryRun"
  | call_fetchRuleExecutions: "pathPart ruleId \<Longrightarrow> client_call ''fetchRuleExecutions''
     (fetchRuleExecutions_request accessToken ruleId) RulesController_executions"
  | call_fetchNotificationPreferences: "client_call ''fetchNotificationPreferences'' (fetchNotificationPreferences_request
     accessToken) NotificationPreferencesController_get"
  | call_updateNotificationPreferences: "list_all (\<lambda>kv. fst kv \<in> set preferenceKeys) input \<Longrightarrow>
     client_call ''updateNotificationPreferences'' (updateNotificationPreferences_request accessToken input ifMatch)
     NotificationPreferencesController_update"
  | call_search: "client_call ''search'' (search_request accessToken query) SearchController_searchAll"
  | call_fetchAiCreditBalance: "client_call ''fetchAiCreditBalance'' (fetchAiCreditBalance_request accessToken)
     AiController_getBalance"
  | call_summarizeConversation: "client_call ''summarizeConversation'' (summarizeConversation_request accessToken
     conversationId) AiController_summarize"
  | call_suggestReplies: "client_call ''suggestReplies'' (suggestReplies_request accessToken text)
     AiController_suggestedReplies"
  | call_suggestRule: "client_call ''suggestRule'' (suggestRule_request accessToken naturalLanguagePrompt)
     AiController_suggestRule"
  | call_subscribeToPush: "client_call ''subscribeToPush'' (subscribeToPush_request accessToken endpoint p256dh auth)
     PushController_subscribe"
  | call_triggerMockMessage: "client_call ''triggerMockMessage'' (triggerMockMessage_request accessToken senderDisplayName
     senderExternalId bodyText) MockConnectorController_send"

section \<open>Being served\<close>

text \<open>The handler the server chooses exists, the request carries what it requires, sends no
  body member it does not read, and is not read as JSON when the answer has no content.\<close>

definition servedBy :: "route \<Rightarrow> api_request \<Rightarrow> bool" where
  "servedBy r q \<longleftrightarrow> (rt_guarded r \<longrightarrow> rq_bearer q \<noteq> None) \<and> (rt_readsCookie r
      \<longrightarrow> rq_include q) \<and>
     (rt_needsIfMatch r \<longrightarrow> rq_ifMatch q \<noteq> None) \<and>
     list_all (\<lambda>kv. fst kv \<in> set (rt_bodyKeys r)) (case rq_body q of None \<Rightarrow> [] | Some kvs
      \<Rightarrow> kvs) \<and>
     (rt_status r = 204 \<longrightarrow> rq_reads q \<noteq> ReadsJson)"

definition handlerOf :: "api_request \<Rightarrow> route option" where
  "handlerOf q = chooseRoute (rq_method q) (urlSegments (rq_url q))"

text \<open>A cookie set in an answer is kept by the browser only when the request includes
  credentials, or goes to the page's own origin.\<close>

definition keepsCookie :: "bool \<Rightarrow> api_request \<Rightarrow> bool" where
  "keepsCookie sameOrigin q \<longleftrightarrow> rq_include q \<or> sameOrigin"

text \<open>The declared members the handler's answer does not have; a reply with a time to send it at
  has the answer of a scheduled one.\<close>

definition answerTo :: "route \<Rightarrow> api_request \<Rightarrow> shape option" where
  "answerTo r q = (if r = ConversationsController_sendMessage \<and> ''sendAt'' \<in> fst ` set (case rq_body q of None
      \<Rightarrow> [] | Some kvs \<Rightarrow> kvs)
     then Some scheduledReplyAnswer else rt_answer r)"

definition undelivered :: "route \<Rightarrow> api_request \<Rightarrow> string list" where
  "undelivered r q = (case answerTo r q of None \<Rightarrow> (if rq_declares q = Value then [] else [''answer'']) | Some
      a \<Rightarrow> missing a (rq_declares q))"

end
