(* ===== verification/Client_Properties.thy ===== *)
theory Client_Properties
  imports Client_Requests
begin

text \<open>
  That the requests of the web client fit the routes of the API: each is served by the handler
  it means, and which answers and cookies do not arrive.
\<close>

section \<open>Choosing among the routes\<close>

definition candidates :: "http_method \<Rightarrow> nat \<Rightarrow> route list" where
  "candidates m n = filter (\<lambda>r. rt_method r = m \<and> length (routeSegments r) = n) apiRoutes"

lemma chooseRoute_candidates:
  "chooseRoute m ss = List.find (\<lambda>r. matchSegments (routeSegments r) ss) (candidates m (length ss))"
proof -
  have "List.find (\<lambda>r. rt_method r = m \<and> matchSegments (routeSegments r) ss) rs =
      List.find (\<lambda>r. matchSegments (routeSegments r) ss) (filter (\<lambda>r. rt_method r = m \<and> length
      (routeSegments r) = length ss) rs)" for rs
    by (induction rs) (auto simp: matchSegments_def)
  then show ?thesis by (simp add: chooseRoute_def candidates_def)
qed

lemma candidates_DELETE_2:
  "candidates DELETE (Suc (Suc 0)) = [WorkspacesController_deleteOwnWorkspace, PushController_unsubscribe]"
  by code_simp

lemma candidates_DELETE_3:
  "candidates DELETE (Suc (Suc (Suc 0))) = [RulesController_remove, DevTransactionalEmailController_clear]"
  by code_simp

lemma candidates_DELETE_4:
  "candidates DELETE (Suc (Suc (Suc (Suc 0)))) = [WorkspaceMembershipController_removeMember]"
  by code_simp

lemma candidates_GET_1:
  "candidates GET (Suc 0) = [MetricsController_get, HealthController_check]"
  by code_simp

lemma candidates_GET_2:
  "candidates GET (Suc (Suc 0)) = [ConversationsController_list, ContactsController_list, NotificationsController_list,
     ScheduledMessagesController_list, ConnectorsController_list, RulesController_list,
     NotificationPreferencesController_get, SearchController_searchAll]"
  by code_simp

lemma candidates_GET_3:
  "candidates GET (Suc (Suc (Suc 0))) = [AuthController_listSessions, UsersController_me,
     WorkspaceMembershipController_listMembers, ConversationsController_summary, IdentityController_listSuggestions,
     RulesController_get, SearchController_searchMessages, SearchController_searchContacts, AiController_getSettings,
     DevTransactionalEmailController_list]"
  by code_simp

lemma candidates_GET_4:
  "candidates GET (Suc (Suc (Suc (Suc 0)))) = [ConversationsController_messages, DiscordController_callback,
     SlackController_callback, RulesController_executions, AiController_getBalance, AiController_getLedger]"
  by code_simp

lemma candidates_PATCH_2:
  "candidates PATCH (Suc (Suc 0)) = [NotificationPreferencesController_update]"
  by code_simp

lemma candidates_PATCH_3:
  "candidates PATCH (Suc (Suc (Suc 0))) = [ConversationsController_update, ContactsController_update,
     RulesController_update, AiController_updateSettings]"
  by code_simp

lemma candidates_POST_2:
  "candidates POST (Suc (Suc 0)) = [WorkspacesController_createWorkspace, RulesController_create,
     PushController_subscribe]"
  by code_simp

lemma candidates_POST_3:
  "candidates POST (Suc (Suc (Suc 0))) = [AuthController_register, AuthController_login, AuthController_refresh,
     AuthController_switchWorkspace, AuthController_logout, AuthController_logoutAll, AuthController_forgotPassword,
     AuthController_resetPassword, WorkspaceMembershipController_invite, WorkspaceMembershipController_leave,
     WorkspaceMembershipController_transferOwnership, AiController_summarize, AiController_suggestedReplies,
     AiController_detectCommitments, AiController_rewrite, AiController_suggestRule, MockConnectorController_send,
     DevIdentityMatchingController_run, DevPasswordResetFaultInjectorController_arm]"
  by code_simp

lemma candidates_POST_4:
  "candidates POST (Suc (Suc (Suc (Suc 0)))) = [WorkspaceMembershipController_acceptInvite,
     ConversationsController_markRead, ConversationsController_markUnread, ConversationsController_sendMessage,
     ContactsController_split, ScheduledMessagesController_cancel, DiscordController_connect, SlackController_connect,
     SlackController_events, TelegramController_connect, EmailController_connect, RulesController_dryRun]"
  by code_simp

lemma candidates_POST_5:
  "candidates POST (Suc (Suc (Suc (Suc (Suc 0))))) = [WorkspaceMembershipController_changeMemberRole,
     IdentityController_approve, IdentityController_reject, DiscordController_disconnect, SlackController_disconnect,
     TelegramController_webhook, TelegramController_disconnect, EmailController_disconnect]"
  by code_simp

lemmas candidates_table = candidates_DELETE_2 candidates_DELETE_3 candidates_DELETE_4 candidates_GET_1 candidates_GET_2
  candidates_GET_3 candidates_GET_4 candidates_PATCH_2 candidates_PATCH_3 candidates_POST_2 candidates_POST_3
  candidates_POST_4 candidates_POST_5

lemma segments_AuthController:
  "routeSegments AuthController_register = [''v1'', ''auth'', ''register'']"
  "routeSegments AuthController_login = [''v1'', ''auth'', ''login'']"
  "routeSegments AuthController_refresh = [''v1'', ''auth'', ''refresh'']"
  "routeSegments AuthController_switchWorkspace = [''v1'', ''auth'', ''switch-workspace'']"
  "routeSegments AuthController_logout = [''v1'', ''auth'', ''logout'']"
  "routeSegments AuthController_logoutAll = [''v1'', ''auth'', ''logout-all'']"
  "routeSegments AuthController_listSessions = [''v1'', ''auth'', ''sessions'']"
  "routeSegments AuthController_forgotPassword = [''v1'', ''auth'', ''forgot-password'']"
  "routeSegments AuthController_resetPassword = [''v1'', ''auth'', ''reset-password'']"
  by code_simp+

lemma segments_UsersController:
  "routeSegments UsersController_me = [''v1'', ''users'', ''me'']"
  by code_simp+

lemma segments_WorkspacesController:
  "routeSegments WorkspacesController_deleteOwnWorkspace = [''v1'', ''workspace'']"
  "routeSegments WorkspacesController_createWorkspace = [''v1'', ''workspace'']"
  by code_simp+

lemma segments_WorkspaceMembershipController:
  "routeSegments WorkspaceMembershipController_listMembers = [''v1'', ''workspace'', ''members'']"
  "routeSegments WorkspaceMembershipController_invite = [''v1'', ''workspace'', ''invites'']"
  "routeSegments WorkspaceMembershipController_acceptInvite = [''v1'', ''workspace'', ''invites'', ''accept'']"
  "routeSegments WorkspaceMembershipController_changeMemberRole = [''v1'', ''workspace'', ''members'', '':id'', ''role'']"
  "routeSegments WorkspaceMembershipController_removeMember = [''v1'', ''workspace'', ''members'', '':id'']"
  "routeSegments WorkspaceMembershipController_leave = [''v1'', ''workspace'', ''leave'']"
  "routeSegments WorkspaceMembershipController_transferOwnership = [''v1'', ''workspace'', ''transfer-ownership'']"
  by code_simp+

lemma segments_ConversationsController:
  "routeSegments ConversationsController_list = [''v1'', ''conversations'']"
  "routeSegments ConversationsController_summary = [''v1'', ''conversations'', ''summary'']"
  "routeSegments ConversationsController_update = [''v1'', ''conversations'', '':id'']"
  "routeSegments ConversationsController_markRead = [''v1'', ''conversations'', '':id'', ''read'']"
  "routeSegments ConversationsController_markUnread = [''v1'', ''conversations'', '':id'', ''unread'']"
  "routeSegments ConversationsController_messages = [''v1'', ''conversations'', '':id'', ''messages'']"
  "routeSegments ConversationsController_sendMessage = [''v1'', ''conversations'', '':id'', ''messages'']"
  by code_simp+

lemma segments_IdentityController:
  "routeSegments IdentityController_listSuggestions = [''v1'', ''identity'', ''merge-suggestions'']"
  "routeSegments IdentityController_approve = [''v1'', ''identity'', ''merge-suggestions'', '':id'', ''approve'']"
  "routeSegments IdentityController_reject = [''v1'', ''identity'', ''merge-suggestions'', '':id'', ''reject'']"
  by code_simp+

lemma segments_ContactsController:
  "routeSegments ContactsController_list = [''v1'', ''contacts'']"
  "routeSegments ContactsController_update = [''v1'', ''contacts'', '':id'']"
  "routeSegments ContactsController_split = [''v1'', ''contacts'', '':id'', ''split'']"
  by code_simp+

lemma segments_NotificationsController:
  "routeSegments NotificationsController_list = [''v1'', ''notifications'']"
  by code_simp+

lemma segments_ScheduledMessagesController:
  "routeSegments ScheduledMessagesController_list = [''v1'', ''scheduled-messages'']"
  "routeSegments ScheduledMessagesController_cancel = [''v1'', ''scheduled-messages'', '':id'', ''cancel'']"
  by code_simp+

lemma segments_ConnectorsController:
  "routeSegments ConnectorsController_list = [''v1'', ''connectors'']"
  by code_simp+

lemma segments_DiscordController:
  "routeSegments DiscordController_connect = [''v1'', ''connectors'', ''discord'', ''connect'']"
  "routeSegments DiscordController_callback = [''v1'', ''connectors'', ''discord'', ''callback'']"
  "routeSegments DiscordController_disconnect = [''v1'', ''connectors'', ''discord'', '':id'', ''disconnect'']"
  by code_simp+

lemma segments_SlackController:
  "routeSegments SlackController_connect = [''v1'', ''connectors'', ''slack'', ''connect'']"
  "routeSegments SlackController_callback = [''v1'', ''connectors'', ''slack'', ''callback'']"
  "routeSegments SlackController_events = [''v1'', ''connectors'', ''slack'', ''events'']"
  "routeSegments SlackController_disconnect = [''v1'', ''connectors'', ''slack'', '':id'', ''disconnect'']"
  by code_simp+

lemma segments_TelegramController:
  "routeSegments TelegramController_connect = [''v1'', ''connectors'', ''telegram'', ''connect'']"
  "routeSegments TelegramController_webhook = [''v1'', ''connectors'', ''telegram'', ''webhook'', '':linkedAccountId'']"
  "routeSegments TelegramController_disconnect = [''v1'', ''connectors'', ''telegram'', '':id'', ''disconnect'']"
  by code_simp+

lemma segments_EmailController:
  "routeSegments EmailController_connect = [''v1'', ''connectors'', ''email'', ''connect'']"
  "routeSegments EmailController_disconnect = [''v1'', ''connectors'', ''email'', '':id'', ''disconnect'']"
  by code_simp+

lemma segments_RulesController:
  "routeSegments RulesController_list = [''v1'', ''rules'']"
  "routeSegments RulesController_get = [''v1'', ''rules'', '':id'']"
  "routeSegments RulesController_create = [''v1'', ''rules'']"
  "routeSegments RulesController_update = [''v1'', ''rules'', '':id'']"
  "routeSegments RulesController_remove = [''v1'', ''rules'', '':id'']"
  "routeSegments RulesController_dryRun = [''v1'', ''rules'', '':id'', ''dry-run'']"
  "routeSegments RulesController_executions = [''v1'', ''rules'', '':id'', ''executions'']"
  by code_simp+

lemma segments_NotificationPreferencesController:
  "routeSegments NotificationPreferencesController_get = [''v1'', ''notification-preferences'']"
  "routeSegments NotificationPreferencesController_update = [''v1'', ''notification-preferences'']"
  by code_simp+

lemma segments_SearchController:
  "routeSegments SearchController_searchMessages = [''v1'', ''search'', ''messages'']"
  "routeSegments SearchController_searchContacts = [''v1'', ''search'', ''contacts'']"
  "routeSegments SearchController_searchAll = [''v1'', ''search'']"
  by code_simp+

lemma segments_AiController:
  "routeSegments AiController_getSettings = [''v1'', ''ai'', ''settings'']"
  "routeSegments AiController_updateSettings = [''v1'', ''ai'', ''settings'']"
  "routeSegments AiController_getBalance = [''v1'', ''ai'', ''credits'', ''balance'']"
  "routeSegments AiController_getLedger = [''v1'', ''ai'', ''credits'', ''ledger'']"
  "routeSegments AiController_summarize = [''v1'', ''ai'', ''summaries'']"
  "routeSegments AiController_suggestedReplies = [''v1'', ''ai'', ''suggested-replies'']"
  "routeSegments AiController_detectCommitments = [''v1'', ''ai'', ''detect-commitments'']"
  "routeSegments AiController_rewrite = [''v1'', ''ai'', ''rewrite'']"
  "routeSegments AiController_suggestRule = [''v1'', ''ai'', ''rule-suggestions'']"
  by code_simp+

lemma segments_PushController:
  "routeSegments PushController_subscribe = [''v1'', ''push-subscriptions'']"
  "routeSegments PushController_unsubscribe = [''v1'', ''push-subscriptions'']"
  by code_simp+

lemma segments_MetricsController:
  "routeSegments MetricsController_get = [''metrics'']"
  by code_simp+

lemma segments_HealthController:
  "routeSegments HealthController_check = [''health'']"
  by code_simp+

lemma segments_MockConnectorController:
  "routeSegments MockConnectorController_send = [''dev'', ''mock-connector'', ''send'']"
  by code_simp+

lemma segments_DevIdentityMatchingController:
  "routeSegments DevIdentityMatchingController_run = [''dev'', ''identity-matching'', ''run'']"
  by code_simp+

lemma segments_DevPasswordResetFaultInjectorController:
  "routeSegments DevPasswordResetFaultInjectorController_arm = [''dev'', ''password-reset'', ''arm-tx-failure'']"
  by code_simp+

lemma segments_DevTransactionalEmailController:
  "routeSegments DevTransactionalEmailController_list = [''dev'', ''transactional-email'', ''sent'']"
  "routeSegments DevTransactionalEmailController_clear = [''dev'', ''transactional-email'', ''sent'']"
  by code_simp+

lemmas segments_table = segments_AuthController segments_UsersController segments_WorkspacesController
  segments_WorkspaceMembershipController segments_ConversationsController segments_IdentityController
  segments_ContactsController segments_NotificationsController segments_ScheduledMessagesController
  segments_ConnectorsController segments_DiscordController segments_SlackController segments_TelegramController
  segments_EmailController segments_RulesController segments_NotificationPreferencesController segments_SearchController
  segments_AiController segments_PushController segments_MetricsController segments_HealthController
  segments_MockConnectorController segments_DevIdentityMatchingController
  segments_DevPasswordResetFaultInjectorController segments_DevTransactionalEmailController

section \<open>The path of a request\<close>

definition plainSegment :: "string \<Rightarrow> bool" where
  "plainSegment s \<longleftrightarrow> CHR ''/'' \<notin> set s \<and> CHR ''?'' \<notin> set s"

lemma pathPart_segment:
  assumes "pathPart x"
  shows "plainSegment x" "x \<noteq> []" "''webhook'' \<noteq> x"
proof -
  have "\<not> isWordChar (CHR ''/'')" "\<not> isWordChar (CHR ''?'')" by code_simp+
  then show "plainSegment x" "x \<noteq> []" "''webhook'' \<noteq> x" using assms by (auto simp: pathPart_def
      plainSegment_def list_all_iff)
qed

lemma splitOn_atPath: "list_all plainSegment ss \<Longrightarrow> splitOn (CHR ''/'') (atPath ss) = [] # ss"
proof (induction ss)
  case (Cons s ss)
  show ?case
  proof (cases ss)
    case Nil
    then show ?thesis using Cons.prems by (simp add: atPath_def plainSegment_def splitOn_single)
  next
    case (Cons x xs)
    have "splitOn (CHR ''/'') (atPath ss) = [] # splitOn (CHR ''/'') (tl (atPath ss))" by (simp add: atPath_def Cons)
    then have "splitOn (CHR ''/'') (tl (atPath ss)) = ss" using Cons.IH Cons.prems by simp
    moreover have "atPath (s # ss) = CHR ''/'' # s @ CHR ''/'' # tl (atPath ss)" by (simp add: atPath_def Cons)
    ultimately show ?thesis using Cons.prems by (simp add: plainSegment_def splitOn_append)
  qed
qed (simp add: atPath_def)

lemma urlSegments_atPath:
  assumes "list_all plainSegment ss" "rest = [] \<or> hd rest = CHR ''?''"
  shows "urlSegments (atPath ss @ rest) = ss"
proof -
  have "\<forall>c\<in>set (atPath ss). c \<noteq> CHR ''?''" using assms(1) by (auto simp: atPath_def list_all_iff
      plainSegment_def)
  then have "takeWhile (\<lambda>c. c \<noteq> CHR ''?'') (atPath ss @ rest) = atPath ss"
    using assms(2) by (cases rest) (simp_all add: takeWhile_append2)
  then show ?thesis using splitOn_atPath [OF assms(1)] by (simp add: urlSegments_def)
qed

lemma urlSegments_plain: "list_all plainSegment ss \<Longrightarrow> urlSegments (atPath ss) = ss"
  using urlSegments_atPath [of ss "[]"] by simp

lemma urlSegments_query: "list_all plainSegment ss \<Longrightarrow> urlSegments (atPath ss @ queryText ps) = ss"
  by (rule urlSegments_atPath) (simp_all add: queryText_def)

lemma urlSegments_search: "list_all plainSegment ss \<Longrightarrow> urlSegments (atPath ss @ CHR ''?'' # q) = ss"
  by (rule urlSegments_atPath) simp_all

lemmas reaching = handlerOf_def viaApiFetch_def withToken_def request_def urlSegments_plain urlSegments_query
  urlSegments_search
  plainSegment_def pathPart_segment [unfolded plainSegment_def] chooseRoute_candidates candidates_table segments_table
  matchSegments_def

lemma handlers_session:
  "handlerOf (register_request email password displayName) = Some AuthController_register"
  "handlerOf (login_request email password) = Some AuthController_login"
  "handlerOf tryRefresh_request = Some AuthController_refresh"
  "handlerOf logout_request = Some AuthController_logout"
  "handlerOf (forgotPassword_request email) = Some AuthController_forgotPassword"
  "handlerOf (resetPassword_request token newPassword) = Some AuthController_resetPassword"
  "handlerOf (fetchMe_request accessToken) = Some UsersController_me"
  "handlerOf (switchWorkspace_request accessToken workspaceId) = Some AuthController_switchWorkspace"
  by (simp_all add: reaching register_request_def login_request_def tryRefresh_request_def logout_request_def
  forgotPassword_request_def resetPassword_request_def fetchMe_request_def switchWorkspace_request_def)

lemma handlers_team:
  "handlerOf (createWorkspace_request accessToken name) = Some WorkspacesController_createWorkspace"
  "handlerOf (fetchWorkspaceMembers_request accessToken) = Some WorkspaceMembershipController_listMembers"
  "handlerOf (inviteWorkspaceMember_request accessToken email role) = Some WorkspaceMembershipController_invite"
  "handlerOf (acceptWorkspaceInvite_request accessToken inviteCode) = Some WorkspaceMembershipController_acceptInvite"
  "pathPart memberId \<Longrightarrow> handlerOf (changeWorkspaceMemberRole_request accessToken memberId role) = Some
     WorkspaceMembershipController_changeMemberRole"
  "pathPart memberId \<Longrightarrow> handlerOf (removeWorkspaceMember_request accessToken memberId) = Some
     WorkspaceMembershipController_removeMember"
  "handlerOf (leaveWorkspace_request accessToken) = Some WorkspaceMembershipController_leave"
  "handlerOf (transferWorkspaceOwnership_request accessToken userId) = Some WorkspaceMembershipController_transferOwnership"
  by (simp_all add: reaching createWorkspace_request_def fetchWorkspaceMembers_request_def
  inviteWorkspaceMember_request_def acceptWorkspaceInvite_request_def changeWorkspaceMemberRole_request_def
  removeWorkspaceMember_request_def leaveWorkspace_request_def transferWorkspaceOwnership_request_def)

lemma handlers_inbox:
  "handlerOf (fetchConversations_request accessToken filters) = Some ConversationsController_list"
  "handlerOf (fetchNeedsYouCount_request accessToken) = Some ConversationsController_summary"
  "pathPart conversationId \<Longrightarrow> handlerOf (updateConversation_request accessToken conversationId isArchived
     category) = Some ConversationsController_update"
  "pathPart conversationId \<Longrightarrow> handlerOf (markConversationRead_request accessToken conversationId) = Some
     ConversationsController_markRead"
  "pathPart conversationId \<Longrightarrow> handlerOf (markConversationUnread_request accessToken conversationId) = Some
     ConversationsController_markUnread"
  "pathPart conversationId \<Longrightarrow> handlerOf (fetchMessages_request accessToken conversationId cursor) = Some
     ConversationsController_messages"
  "handlerOf (fetchNotifications_request accessToken) = Some NotificationsController_list"
  by (simp_all add: reaching fetchConversations_request_def fetchNeedsYouCount_request_def
  updateConversation_request_def markConversationRead_request_def markConversationUnread_request_def
  fetchMessages_request_def fetchNotifications_request_def)

lemma handlers_replies:
  "pathPart conversationId \<Longrightarrow> handlerOf (sendMessage_request accessToken conversationId body) = Some
     ConversationsController_sendMessage"
  "pathPart conversationId \<Longrightarrow> handlerOf (scheduleMessage_request accessToken conversationId body sendAt) =
     Some ConversationsController_sendMessage"
  "handlerOf (fetchScheduledMessages_request accessToken) = Some ScheduledMessagesController_list"
  "pathPart i \<Longrightarrow> handlerOf (cancelScheduledMessage_request accessToken i) = Some
     ScheduledMessagesController_cancel"
  "handlerOf (triggerMockMessage_request accessToken senderDisplayName senderExternalId bodyText) = Some
     MockConnectorController_send"
  "handlerOf (subscribeToPush_request accessToken endpoint p256dh auth) = Some PushController_subscribe"
  "handlerOf (search_request accessToken query) = Some SearchController_searchAll"
  by (simp_all add: reaching sendMessage_request_def scheduleMessage_request_def fetchScheduledMessages_request_def
  cancelScheduledMessage_request_def triggerMockMessage_request_def subscribeToPush_request_def search_request_def)

lemma handlers_people:
  "handlerOf (fetchMergeSuggestions_request accessToken) = Some IdentityController_listSuggestions"
  "pathPart suggestionId \<Longrightarrow> handlerOf (approveMergeSuggestion_request accessToken suggestionId) = Some
     IdentityController_approve"
  "pathPart suggestionId \<Longrightarrow> handlerOf (rejectMergeSuggestion_request accessToken suggestionId) = Some
     IdentityController_reject"
  "handlerOf (fetchContacts_request accessToken) = Some ContactsController_list"
  "pathPart contactId \<Longrightarrow> handlerOf (setContactVip_request accessToken contactId isVip) = Some
     ContactsController_update"
  "pathPart contactId \<Longrightarrow> handlerOf (splitContact_request accessToken contactId contactIdentityIds reason) =
     Some ContactsController_split"
  by (simp_all add: reaching fetchMergeSuggestions_request_def approveMergeSuggestion_request_def
  rejectMergeSuggestion_request_def fetchContacts_request_def setContactVip_request_def splitContact_request_def)

lemma handlers_connectors:
  "handlerOf (connectDiscord_request accessToken) = Some DiscordController_connect"
  "handlerOf (connectSlack_request accessToken) = Some SlackController_connect"
  "handlerOf (connectTelegram_request accessToken botToken) = Some TelegramController_connect"
  "handlerOf (connectEmail_request accessToken input) = Some EmailController_connect"
  "handlerOf (fetchConnectors_request accessToken) = Some ConnectorsController_list"
  "pathPart i \<Longrightarrow> handlerOf (disconnectConnector_request accessToken ''discord'' i) = Some
     DiscordController_disconnect"
  "pathPart i \<Longrightarrow> handlerOf (disconnectConnector_request accessToken ''slack'' i) = Some
     SlackController_disconnect"
  "pathPart i \<Longrightarrow> handlerOf (disconnectConnector_request accessToken ''telegram'' i) = Some
     TelegramController_disconnect"
  "pathPart i \<Longrightarrow> handlerOf (disconnectConnector_request accessToken ''email'' i) = Some
     EmailController_disconnect"
  by (simp_all add: reaching connectDiscord_request_def connectSlack_request_def connectTelegram_request_def
  connectEmail_request_def fetchConnectors_request_def disconnectConnector_request_def)

lemma handlers_rules:
  "handlerOf (fetchRules_request accessToken) = Some RulesController_list"
  "handlerOf (createRule_request accessToken input) = Some RulesController_create"
  "pathPart ruleId \<Longrightarrow> handlerOf (updateRule_request accessToken ruleId input expectedVersion) = Some
     RulesController_update"
  "pathPart ruleId \<Longrightarrow> handlerOf (deleteRule_request accessToken ruleId) = Some RulesController_remove"
  "pathPart ruleId \<Longrightarrow> handlerOf (dryRunRule_request accessToken ruleId bodyText senderDisplayName
     senderIsVip) = Some RulesController_dryRun"
  "pathPart ruleId \<Longrightarrow> handlerOf (fetchRuleExecutions_request accessToken ruleId) = Some
     RulesController_executions"
  "handlerOf (fetchNotificationPreferences_request accessToken) = Some NotificationPreferencesController_get"
  "handlerOf (updateNotificationPreferences_request accessToken input ifMatch) = Some
     NotificationPreferencesController_update"
  by (simp_all add: reaching fetchRules_request_def createRule_request_def updateRule_request_def
  deleteRule_request_def dryRunRule_request_def fetchRuleExecutions_request_def
  fetchNotificationPreferences_request_def updateNotificationPreferences_request_def)

lemma handlers_ai:
  "handlerOf (fetchAiCreditBalance_request accessToken) = Some AiController_getBalance"
  "handlerOf (summarizeConversation_request accessToken conversationId) = Some AiController_summarize"
  "handlerOf (suggestReplies_request accessToken text) = Some AiController_suggestedReplies"
  "handlerOf (suggestRule_request accessToken naturalLanguagePrompt) = Some AiController_suggestRule"
  by (simp_all add: reaching fetchAiCreditBalance_request_def summarizeConversation_request_def
  suggestReplies_request_def suggestRule_request_def)

lemmas handlers = handlers_session handlers_team handlers_inbox handlers_replies handlers_people handlers_connectors
  handlers_rules handlers_ai

lemmas request_defs = register_request_def login_request_def tryRefresh_request_def logout_request_def
  forgotPassword_request_def resetPassword_request_def fetchMe_request_def createWorkspace_request_def
  switchWorkspace_request_def fetchWorkspaceMembers_request_def inviteWorkspaceMember_request_def
  acceptWorkspaceInvite_request_def changeWorkspaceMemberRole_request_def removeWorkspaceMember_request_def
  leaveWorkspace_request_def transferWorkspaceOwnership_request_def fetchConversations_request_def
  fetchNeedsYouCount_request_def updateConversation_request_def markConversationRead_request_def
  markConversationUnread_request_def fetchMergeSuggestions_request_def approveMergeSuggestion_request_def
  rejectMergeSuggestion_request_def fetchContacts_request_def setContactVip_request_def splitContact_request_def
  fetchMessages_request_def fetchNotifications_request_def sendMessage_request_def scheduleMessage_request_def
  fetchScheduledMessages_request_def cancelScheduledMessage_request_def connectDiscord_request_def
  connectSlack_request_def connectTelegram_request_def connectEmail_request_def fetchConnectors_request_def
  disconnectConnector_request_def fetchRules_request_def createRule_request_def updateRule_request_def
  deleteRule_request_def dryRunRule_request_def fetchRuleExecutions_request_def
  fetchNotificationPreferences_request_def updateNotificationPreferences_request_def search_request_def
  fetchAiCreditBalance_request_def summarizeConversation_request_def suggestReplies_request_def
  suggestRule_request_def subscribeToPush_request_def triggerMockMessage_request_def

lemmas route_defs = AiController_getBalance_def AiController_suggestRule_def AiController_suggestedReplies_def
  AiController_summarize_def AuthController_forgotPassword_def AuthController_login_def AuthController_logout_def
  AuthController_refresh_def AuthController_register_def AuthController_resetPassword_def
  AuthController_switchWorkspace_def ConnectorsController_list_def ContactsController_list_def
  ContactsController_split_def ContactsController_update_def ConversationsController_list_def
  ConversationsController_markRead_def ConversationsController_markUnread_def ConversationsController_messages_def
  ConversationsController_sendMessage_def ConversationsController_summary_def ConversationsController_update_def
  DiscordController_connect_def DiscordController_disconnect_def EmailController_connect_def
  EmailController_disconnect_def IdentityController_approve_def IdentityController_listSuggestions_def
  IdentityController_reject_def MockConnectorController_send_def NotificationPreferencesController_get_def
  NotificationPreferencesController_update_def NotificationsController_list_def PushController_subscribe_def
  RulesController_create_def RulesController_dryRun_def RulesController_executions_def RulesController_list_def
  RulesController_remove_def RulesController_update_def ScheduledMessagesController_cancel_def
  ScheduledMessagesController_list_def SearchController_searchAll_def SlackController_connect_def
  SlackController_disconnect_def TelegramController_connect_def TelegramController_disconnect_def
  UsersController_me_def WorkspaceMembershipController_acceptInvite_def
  WorkspaceMembershipController_changeMemberRole_def WorkspaceMembershipController_invite_def
  WorkspaceMembershipController_leave_def WorkspaceMembershipController_listMembers_def
  WorkspaceMembershipController_removeMember_def WorkspaceMembershipController_transferOwnership_def
  WorkspacesController_createWorkspace_def

lemmas shape_defs = userAnswer_def sessionAnswer_def meAnswer_def memberAnswer_def senderAnswer_def
  conversationAnswer_def messageAnswer_def sentAnswer_def scheduledReplyAnswer_def suggestionAnswer_def
  contactAnswer_def notificationAnswer_def scheduledAnswer_def connectorAnswer_def ruleAnswer_def executionAnswer_def
  dryRunAnswer_def preferenceAnswer_def foundMessageAnswer_def contactRowAnswer_def suggestionResult_def paged_def
  obj_def PublicUser_shape_def AuthResponse_shape_def MeResponse_shape_def WorkspaceSessionResult_shape_def
  WorkspaceMemberSummary_shape_def ConversationSummary_shape_def CursorPage_shape_def MergeSuggestion_shape_def
  ContactIdentity_shape_def Contact_shape_def ConversationMessage_shape_def NotificationItem_shape_def
  ScheduledMessage_shape_def ConnectTelegramResult_shape_def ConnectEmailResult_shape_def ConnectorSummary_shape_def
  RuleSummary_shape_def RuleExecutionLogItem_shape_def NotificationPreferences_shape_def MessageSearchResult_shape_def
  ContactSearchResult_shape_def AiCreditBalance_shape_def RuleSuggestionResponse_shape_def

section \<open>The contract\<close>

text \<open>What a function of the client expects and does not get.\<close>

definition undelivers :: "string \<Rightarrow> string list" where
  "undelivers n = (if n = ''setContactVip'' then [''identities''] else if n = ''sendMessage'' then [''sender'']
     else if n = ''scheduleMessage'' then [''conversationId'', ''sentMessageId'', ''lastError'', ''createdAt''] else [])"

definition callFits :: "string \<Rightarrow> api_request \<Rightarrow> route \<Rightarrow> bool" where
  "callFits n q r \<longleftrightarrow> handlerOf q = Some r \<and> servedBy r q \<and>
     (rt_setsCookie r \<and> \<not> keepsCookie False q \<longleftrightarrow> n = ''createWorkspace'') \<and> undelivered
      r q = undelivers n"

lemma list_all_defined: "list_all P kvs \<Longrightarrow> list_all P (defined kvs)"
  by (auto simp: defined_def list_all_iff)

lemmas fitting = servedBy_def undelivered_def answerTo_def undelivers_def keepsCookie_def viaApiFetch_def
  withToken_def request_def guardedRoute_def openRoute_def shape_defs

lemma fits_session:
  "callFits ''register'' (register_request email password displayName) AuthController_register"
  "callFits ''login'' (login_request email password) AuthController_login"
  "callFits ''tryRefresh'' tryRefresh_request AuthController_refresh"
  "callFits ''logout'' logout_request AuthController_logout"
  "callFits ''forgotPassword'' (forgotPassword_request email) AuthController_forgotPassword"
  "callFits ''resetPassword'' (resetPassword_request token newPassword) AuthController_resetPassword"
  "callFits ''fetchMe'' (fetchMe_request accessToken) UsersController_me"
  "callFits ''switchWorkspace'' (switchWorkspace_request accessToken workspaceId) AuthController_switchWorkspace"
  by (simp_all only: callFits_def handlers_session)
    (simp_all add: fitting defined_def register_request_def login_request_def tryRefresh_request_def
  logout_request_def forgotPassword_request_def resetPassword_request_def fetchMe_request_def
  switchWorkspace_request_def AuthController_forgotPassword_def AuthController_login_def AuthController_logout_def
  AuthController_refresh_def AuthController_register_def AuthController_resetPassword_def
  AuthController_switchWorkspace_def ConversationsController_sendMessage_def UsersController_me_def)

lemma fits_team:
  "callFits ''createWorkspace'' (createWorkspace_request accessToken name) WorkspacesController_createWorkspace"
  "callFits ''fetchWorkspaceMembers'' (fetchWorkspaceMembers_request accessToken) WorkspaceMembershipController_listMembers"
  "callFits ''inviteWorkspaceMember'' (inviteWorkspaceMember_request accessToken email role)
     WorkspaceMembershipController_invite"
  "callFits ''acceptWorkspaceInvite'' (acceptWorkspaceInvite_request accessToken inviteCode)
     WorkspaceMembershipController_acceptInvite"
  "pathPart memberId \<Longrightarrow> callFits ''changeWorkspaceMemberRole'' (changeWorkspaceMemberRole_request accessToken
     memberId role) WorkspaceMembershipController_changeMemberRole"
  "pathPart memberId \<Longrightarrow> callFits ''removeWorkspaceMember'' (removeWorkspaceMember_request accessToken
     memberId) WorkspaceMembershipController_removeMember"
  "callFits ''leaveWorkspace'' (leaveWorkspace_request accessToken) WorkspaceMembershipController_leave"
  "callFits ''transferWorkspaceOwnership'' (transferWorkspaceOwnership_request accessToken userId)
     WorkspaceMembershipController_transferOwnership"
  by (simp_all only: callFits_def handlers_team)
    (simp_all add: fitting defined_def createWorkspace_request_def fetchWorkspaceMembers_request_def
  inviteWorkspaceMember_request_def acceptWorkspaceInvite_request_def changeWorkspaceMemberRole_request_def
  removeWorkspaceMember_request_def leaveWorkspace_request_def transferWorkspaceOwnership_request_def
  ConversationsController_sendMessage_def WorkspaceMembershipController_acceptInvite_def
  WorkspaceMembershipController_changeMemberRole_def WorkspaceMembershipController_invite_def
  WorkspaceMembershipController_leave_def WorkspaceMembershipController_listMembers_def
  WorkspaceMembershipController_removeMember_def WorkspaceMembershipController_transferOwnership_def
  WorkspacesController_createWorkspace_def)

lemma fits_inbox:
  "callFits ''fetchConversations'' (fetchConversations_request accessToken filters) ConversationsController_list"
  "callFits ''fetchNeedsYouCount'' (fetchNeedsYouCount_request accessToken) ConversationsController_summary"
  "pathPart conversationId \<Longrightarrow> callFits ''updateConversation'' (updateConversation_request accessToken
     conversationId isArchived category) ConversationsController_update"
  "pathPart conversationId \<Longrightarrow> callFits ''markConversationRead'' (markConversationRead_request accessToken
     conversationId) ConversationsController_markRead"
  "pathPart conversationId \<Longrightarrow> callFits ''markConversationUnread'' (markConversationUnread_request accessToken
     conversationId) ConversationsController_markUnread"
  "pathPart conversationId \<Longrightarrow> callFits ''fetchMessages'' (fetchMessages_request accessToken conversationId
     cursor) ConversationsController_messages"
  "callFits ''fetchNotifications'' (fetchNotifications_request accessToken) NotificationsController_list"
  by (simp_all only: callFits_def handlers_inbox)
    (simp_all add: fitting defined_def fetchConversations_request_def fetchNeedsYouCount_request_def
  updateConversation_request_def markConversationRead_request_def markConversationUnread_request_def
  fetchMessages_request_def fetchNotifications_request_def ConversationsController_list_def
  ConversationsController_markRead_def ConversationsController_markUnread_def ConversationsController_messages_def
  ConversationsController_sendMessage_def ConversationsController_summary_def ConversationsController_update_def
  NotificationsController_list_def)

lemma fits_replies:
  "pathPart conversationId \<Longrightarrow> callFits ''sendMessage'' (sendMessage_request accessToken conversationId body)
     ConversationsController_sendMessage"
  "pathPart conversationId \<Longrightarrow> callFits ''scheduleMessage'' (scheduleMessage_request accessToken
     conversationId body sendAt) ConversationsController_sendMessage"
  "callFits ''fetchScheduledMessages'' (fetchScheduledMessages_request accessToken) ScheduledMessagesController_list"
  "pathPart i \<Longrightarrow> callFits ''cancelScheduledMessage'' (cancelScheduledMessage_request accessToken i)
     ScheduledMessagesController_cancel"
  "callFits ''triggerMockMessage'' (triggerMockMessage_request accessToken senderDisplayName senderExternalId bodyText)
     MockConnectorController_send"
  "callFits ''subscribeToPush'' (subscribeToPush_request accessToken endpoint p256dh auth) PushController_subscribe"
  "callFits ''search'' (search_request accessToken query) SearchController_searchAll"
  by (simp_all only: callFits_def handlers_replies)
    (simp_all add: fitting defined_def sendMessage_request_def scheduleMessage_request_def
  fetchScheduledMessages_request_def cancelScheduledMessage_request_def triggerMockMessage_request_def
  subscribeToPush_request_def search_request_def ConversationsController_sendMessage_def
  MockConnectorController_send_def PushController_subscribe_def ScheduledMessagesController_cancel_def
  ScheduledMessagesController_list_def SearchController_searchAll_def)

lemma fits_people:
  "callFits ''fetchMergeSuggestions'' (fetchMergeSuggestions_request accessToken) IdentityController_listSuggestions"
  "pathPart suggestionId \<Longrightarrow> callFits ''approveMergeSuggestion'' (approveMergeSuggestion_request accessToken
     suggestionId) IdentityController_approve"
  "pathPart suggestionId \<Longrightarrow> callFits ''rejectMergeSuggestion'' (rejectMergeSuggestion_request accessToken
     suggestionId) IdentityController_reject"
  "callFits ''fetchContacts'' (fetchContacts_request accessToken) ContactsController_list"
  "pathPart contactId \<Longrightarrow> callFits ''setContactVip'' (setContactVip_request accessToken contactId isVip)
     ContactsController_update"
  "pathPart contactId \<Longrightarrow> callFits ''splitContact'' (splitContact_request accessToken contactId
     contactIdentityIds reason) ContactsController_split"
  by (simp_all only: callFits_def handlers_people)
    (simp_all add: fitting defined_def fetchMergeSuggestions_request_def approveMergeSuggestion_request_def
  rejectMergeSuggestion_request_def fetchContacts_request_def setContactVip_request_def splitContact_request_def
  ContactsController_list_def ContactsController_split_def ContactsController_update_def
  ConversationsController_sendMessage_def IdentityController_approve_def IdentityController_listSuggestions_def
  IdentityController_reject_def)

lemma fits_connectors:
  "callFits ''connectDiscord'' (connectDiscord_request accessToken) DiscordController_connect"
  "callFits ''connectSlack'' (connectSlack_request accessToken) SlackController_connect"
  "callFits ''connectTelegram'' (connectTelegram_request accessToken botToken) TelegramController_connect"
  "list_all (\<lambda>kv. fst kv \<in> set connectEmailKeys) input \<Longrightarrow> callFits ''connectEmail''
     (connectEmail_request accessToken input) EmailController_connect"
  "callFits ''fetchConnectors'' (fetchConnectors_request accessToken) ConnectorsController_list"
  "pathPart i \<Longrightarrow> callFits ''disconnectConnector'' (disconnectConnector_request accessToken ''discord'' i)
     DiscordController_disconnect"
  "pathPart i \<Longrightarrow> callFits ''disconnectConnector'' (disconnectConnector_request accessToken ''slack'' i)
     SlackController_disconnect"
  "pathPart i \<Longrightarrow> callFits ''disconnectConnector'' (disconnectConnector_request accessToken ''telegram'' i)
     TelegramController_disconnect"
  "pathPart i \<Longrightarrow> callFits ''disconnectConnector'' (disconnectConnector_request accessToken ''email'' i)
     EmailController_disconnect"
  by (simp_all only: callFits_def handlers_connectors)
    (simp_all add: fitting list_all_defined connectEmailKeys_def connectDiscord_request_def connectSlack_request_def
  connectTelegram_request_def connectEmail_request_def fetchConnectors_request_def disconnectConnector_request_def
  ConnectorsController_list_def ConversationsController_sendMessage_def DiscordController_connect_def
  DiscordController_disconnect_def EmailController_connect_def EmailController_disconnect_def
  SlackController_connect_def SlackController_disconnect_def TelegramController_connect_def
  TelegramController_disconnect_def)

lemma fits_rules:
  "callFits ''fetchRules'' (fetchRules_request accessToken) RulesController_list"
  "list_all (\<lambda>kv. fst kv \<in> set ruleKeys) input \<Longrightarrow> callFits ''createRule'' (createRule_request
     accessToken input) RulesController_create"
  "pathPart ruleId \<Longrightarrow> list_all (\<lambda>kv. fst kv \<in> set ruleKeys) input \<Longrightarrow> callFits
     ''updateRule'' (updateRule_request accessToken ruleId input expectedVersion) RulesController_update"
  "pathPart ruleId \<Longrightarrow> callFits ''deleteRule'' (deleteRule_request accessToken ruleId) RulesController_remove"
  "pathPart ruleId \<Longrightarrow> callFits ''dryRunRule'' (dryRunRule_request accessToken ruleId bodyText
     senderDisplayName senderIsVip) RulesController_dryRun"
  "pathPart ruleId \<Longrightarrow> callFits ''fetchRuleExecutions'' (fetchRuleExecutions_request accessToken ruleId)
     RulesController_executions"
  "callFits ''fetchNotificationPreferences'' (fetchNotificationPreferences_request accessToken)
     NotificationPreferencesController_get"
  "list_all (\<lambda>kv. fst kv \<in> set preferenceKeys) input \<Longrightarrow> callFits
     ''updateNotificationPreferences'' (updateNotificationPreferences_request accessToken input ifMatch)
     NotificationPreferencesController_update"
  by (simp_all only: callFits_def handlers_rules)
    (simp_all add: fitting list_all_defined preferenceKeys_def ruleKeys_def fetchRules_request_def
  createRule_request_def updateRule_request_def deleteRule_request_def dryRunRule_request_def
  fetchRuleExecutions_request_def fetchNotificationPreferences_request_def updateNotificationPreferences_request_def
  ConversationsController_sendMessage_def NotificationPreferencesController_get_def
  NotificationPreferencesController_update_def RulesController_create_def RulesController_dryRun_def
  RulesController_executions_def RulesController_list_def RulesController_remove_def RulesController_update_def)

lemma fits_ai:
  "callFits ''fetchAiCreditBalance'' (fetchAiCreditBalance_request accessToken) AiController_getBalance"
  "callFits ''summarizeConversation'' (summarizeConversation_request accessToken conversationId) AiController_summarize"
  "callFits ''suggestReplies'' (suggestReplies_request accessToken text) AiController_suggestedReplies"
  "callFits ''suggestRule'' (suggestRule_request accessToken naturalLanguagePrompt) AiController_suggestRule"
  by (simp_all only: callFits_def handlers_ai)
    (simp_all add: fitting defined_def fetchAiCreditBalance_request_def summarizeConversation_request_def
  suggestReplies_request_def suggestRule_request_def AiController_getBalance_def AiController_suggestRule_def
  AiController_suggestedReplies_def AiController_summarize_def ConversationsController_sendMessage_def)

lemmas calls_fit = fits_session fits_team fits_inbox fits_replies fits_people fits_connectors fits_rules fits_ai



end
