(* ===== verification/Web_Shell.thy ===== *)
theory Web_Shell
  imports Workspaces Client_Requests
begin

text \<open>
  The page of the web client (\<open>apps/web/app/page.tsx\<close>) with the sign-in form, the workspace
  switcher, the shell and the team screen, in a browser that keeps the refresh cookie, run
  against the session and membership endpoints. A handler runs to its end before the next one
  starts, so the flags that disable a control while its request is under way are left out;
  an error is kept as the one the server threw.
\<close>

section \<open>Who am I\<close>

record workspace_entry =
  wse_workspaceId :: uuid
  wse_workspaceName :: string
  wse_organizationId :: uuid
  wse_role :: role

record MeResponse =
  me_user :: PublicUser
  me_currentWorkspaceId :: uuid
  me_workspaces :: "workspace_entry list"

definition workspaceEntry :: "world \<Rightarrow> WorkspaceMember \<Rightarrow> workspace_entry" where
  "workspaceEntry s m = \<lparr>wse_workspaceId = mem_workspaceId m,
     wse_workspaceName = (case findFirst (\<lambda>w. ws_id w = mem_workspaceId m) (workspaces s) of Some w \<Rightarrow> ws_name w | None \<Rightarrow> []),
     wse_organizationId = orgOfWorkspace s (mem_workspaceId m), wse_role = mem_role m\<rparr>"

definition me :: "jwt_claims \<Rightarrow> (world, exn, MeResponse) oper" where
  "me claims s = (case findFirst (\<lambda>u. usr_deletedAt u = None \<and> usr_id u = jwt_sub claims) (users s) of
      None \<Rightarrow> (Inl (HttpError 404 ''USER_NOT_FOUND''), s)
    | Some u \<Rightarrow> (Inr \<lparr>me_user = toPublicUser u, me_currentWorkspaceId = jwt_workspaceId claims,
        me_workspaces = map (workspaceEntry s) (sort_key mem_joinedAt
          (filter (\<lambda>m. mem_deletedAt m = None \<and> mem_userId m = jwt_sub claims) (members s)))\<rparr>, s))"

definition meRoute :: "env \<Rightarrow> instant \<Rightarrow> string option \<Rightarrow> (world, exn, MeResponse) oper" where
  "meRoute E now auth = guarded E now auth None me"

section \<open>The page and the browser\<close>

datatype AppView = InboxView | PeopleView | ConnectorsView | RulesView | TeamView

record page =
  pg_accessToken :: "string option"
  pg_user :: "PublicUser option"
  pg_workspaces :: "workspace_entry list"
  pg_currentWorkspaceId :: "uuid option"
  pg_booting :: bool
  pg_view :: AppView

record browser =
  br_page :: page
  br_cookie :: "string option"

definition openPage :: page where
  "openPage = \<lparr>pg_accessToken = None, pg_user = None, pg_workspaces = [], pg_currentWorkspaceId = None,
     pg_booting = True, pg_view = InboxView\<rparr>"

definition setPage :: "(page \<Rightarrow> page) \<Rightarrow> browser \<Rightarrow> browser" where
  "setPage f b = b\<lparr>br_page := f (br_page b)\<rparr>"

definition handleLoggedOut :: "page \<Rightarrow> page" where
  "handleLoggedOut p = p\<lparr>pg_accessToken := None, pg_user := None, pg_workspaces := [], pg_currentWorkspaceId := None,
     pg_view := InboxView\<rparr>"

definition currentRole :: "page \<Rightarrow> role" where
  "currentRole p = (case findFirst (\<lambda>w. Some (wse_workspaceId w) = pg_currentWorkspaceId p) (pg_workspaces p) of
      Some w \<Rightarrow> wse_role w | None \<Rightarrow> Member)"

definition showTeam :: "page \<Rightarrow> bool" where
  "showTeam p \<longleftrightarrow> currentRole p \<in> {Owner, Admin} \<or> 1 < length (pg_workspaces p)"

text \<open>The effect of an answer on the cookie, for a request that keeps cookies or not.\<close>

definition takeCookie :: "bool \<Rightarrow> cookie_effect \<Rightarrow> browser \<Rightarrow> browser" where
  "takeCookie kept e b = (if \<not> kept then b else (case e of
      KeepCookie \<Rightarrow> b | SetCookie t \<Rightarrow> b\<lparr>br_cookie := Some t\<rparr> | ClearCookie \<Rightarrow> b\<lparr>br_cookie := None\<rparr>))"

definition bearer :: "string \<Rightarrow> string option" where
  "bearer token = Some (''Bearer '' @ token)"

section \<open>Refreshing\<close>

text \<open>The refresh by the cookie alone, and the shared one, which tells the page its outcome.\<close>

definition refreshByCookie ::
  "env \<Rightarrow> authConfig \<Rightarrow> instant \<Rightarrow> RequestContext \<Rightarrow> browser \<Rightarrow> world \<Rightarrow> string option \<times> browser \<times> world" where
  "refreshByCookie E C now ctx b s = (case refreshEndpoint E C now (br_cookie b) ctx s of
      (Inl e, s1) \<Rightarrow> (None, b, s1)
    | (Inr (token, c), s1) \<Rightarrow> (Some token, takeCookie (rq_include tryRefresh_request) c b, s1))"

definition sharedRefresh ::
  "env \<Rightarrow> authConfig \<Rightarrow> instant \<Rightarrow> RequestContext \<Rightarrow> browser \<Rightarrow> world \<Rightarrow> string option \<times> browser \<times> world" where
  "sharedRefresh E C now ctx b s = (case refreshByCookie E C now ctx b s of
      (None, b1, s1) \<Rightarrow> (None, setPage handleLoggedOut b1, s1)
    | (Some token, b1, s1) \<Rightarrow>
        if token = [] then (None, setPage handleLoggedOut b1, s1)
        else (Some token, setPage (\<lambda>p. p\<lparr>pg_accessToken := Some token\<rparr>) b1, s1))"

text \<open>\<open>apiFetch\<close>: after a 401 one refresh and one more try with the new token.\<close>

definition viaFetch ::
  "env \<Rightarrow> authConfig \<Rightarrow> instant \<Rightarrow> RequestContext \<Rightarrow> (string option \<Rightarrow> (world, exn, 'a) oper) \<Rightarrow> string
    \<Rightarrow> browser \<Rightarrow> world \<Rightarrow> (exn + 'a) \<times> browser \<times> world" where
  "viaFetch E C now ctx route token b s = (case route (bearer token) s of
      (Inl e, s1) \<Rightarrow>
        if (case e of HttpError n c \<Rightarrow> n = 401 | _ \<Rightarrow> False)
        then (case sharedRefresh E C now ctx b s1 of
            (None, b1, s2) \<Rightarrow> (Inl e, b1, s2)
          | (Some t, b1, s2) \<Rightarrow> (case route (bearer t) s2 of (r, s3) \<Rightarrow> (r, b1, s3)))
        else (Inl e, b, s1)
    | (Inr x, s1) \<Rightarrow> (Inr x, b, s1))"

section \<open>The handlers of the page\<close>

definition applyAuth ::
  "env \<Rightarrow> authConfig \<Rightarrow> instant \<Rightarrow> RequestContext \<Rightarrow> string \<Rightarrow> browser \<Rightarrow> world \<Rightarrow> browser \<times> world" where
  "applyAuth E C now ctx token b s = (case viaFetch E C now ctx (meRoute E now) token b s of
      (Inl e, b1, s1) \<Rightarrow> (b1, s1)
    | (Inr m, b1, s1) \<Rightarrow> (setPage (\<lambda>p. p\<lparr>pg_accessToken := Some token, pg_user := Some (me_user m),
        pg_workspaces := me_workspaces m, pg_currentWorkspaceId := Some (me_currentWorkspaceId m), pg_view := InboxView\<rparr>) b1, s1))"

definition boot :: "env \<Rightarrow> authConfig \<Rightarrow> instant \<Rightarrow> RequestContext \<Rightarrow> browser \<Rightarrow> world \<Rightarrow> browser \<times> world" where
  "boot E C now ctx b s = (case refreshByCookie E C now ctx b s of
      (None, b1, s1) \<Rightarrow> (setPage (\<lambda>p. p\<lparr>pg_booting := False\<rparr>) b1, s1)
    | (Some token, b1, s1) \<Rightarrow> (case applyAuth E C now ctx token b1 s1 of
        (b2, s2) \<Rightarrow> (setPage (\<lambda>p. p\<lparr>pg_booting := False\<rparr>) b2, s2)))"

text \<open>The sign-in form: the error it shows, if any.\<close>

definition handleSubmitLogin ::
  "env \<Rightarrow> authConfig \<Rightarrow> instant \<Rightarrow> RequestContext \<Rightarrow> string \<Rightarrow> string \<Rightarrow> browser \<Rightarrow> world \<Rightarrow> exn option \<times> browser \<times> world" where
  "handleSubmitLogin E C now ctx email password b s = (case login E C now email password ctx s of
      (Inl e, s1) \<Rightarrow> (Some e, b, s1)
    | (Inr r, s1) \<Rightarrow> (None, applyAuth E C now ctx (ar_accessToken r)
        (takeCookie (rq_include (login_request email password)) (SetCookie (ar_refreshToken r)) b) s1))"

definition handleLogout :: "env \<Rightarrow> instant \<Rightarrow> RequestContext \<Rightarrow> browser \<Rightarrow> world \<Rightarrow> browser \<times> world" where
  "handleLogout E now ctx b s = (case logoutEndpoint E now (br_cookie b) ctx s of
      (c, s1) \<Rightarrow> (setPage handleLoggedOut (takeCookie (rq_include logout_request) c b), s1))"

section \<open>The workspace switcher\<close>

definition handleSwitch ::
  "env \<Rightarrow> authConfig \<Rightarrow> instant \<Rightarrow> RequestContext \<Rightarrow> uuid \<Rightarrow> browser \<Rightarrow> world \<Rightarrow> exn option \<times> browser \<times> world" where
  "handleSwitch E C now ctx target b s = (case pg_accessToken (br_page b) of
      None \<Rightarrow> (None, b, s)
    | Some token \<Rightarrow>
        if pg_currentWorkspaceId (br_page b) = Some target then (None, b, s)
        else (case switchEndpoint E C now (bearer token) (br_cookie b) target ctx s of
            (Inl e, s1) \<Rightarrow> (Some e, b, s1)
          | (Inr (w, t, c), s1) \<Rightarrow> (None, applyAuth E C now ctx t
              (takeCookie (rq_include (switchWorkspace_request token (uuidText target))) c b) s1)))"

text \<open>The new session's refresh token comes as a cookie like the others.\<close>

definition handleCreateWorkspace ::
  "env \<Rightarrow> authConfig \<Rightarrow> instant \<Rightarrow> RequestContext \<Rightarrow> string \<Rightarrow> browser \<Rightarrow> world \<Rightarrow> exn option \<times> browser \<times> world" where
  "handleCreateWorkspace E C now ctx newWorkspaceName b s = (case pg_accessToken (br_page b) of
      None \<Rightarrow> (None, b, s)
    | Some token \<Rightarrow>
        if trim newWorkspaceName = [] then (None, b, s)
        else (case viaFetch E C now ctx (\<lambda>auth. createWorkspaceRoute E C now auth (Some (trim newWorkspaceName)) ctx) token b s of
            (Inl e, b1, s1) \<Rightarrow> (Some e, b1, s1)
          | (Inr (issued, w), b1, s1) \<Rightarrow> (None, applyAuth E C now ctx (is_accessToken issued)
              (takeCookie (rq_include (createWorkspace_request token (JStr (trim newWorkspaceName))))
                (SetCookie (is_refreshToken issued)) b1) s1)))"

section \<open>The team screen\<close>

record team =
  tm_members :: "(WorkspaceMember \<times> User option) list"
  tm_loadError :: "exn option"
  tm_inviteResult :: "string option"
  tm_inviteError :: "exn option"
  tm_acceptError :: "exn option"
  tm_actionError :: "exn option"
  tm_confirmLeave :: bool
  tm_transferTargetId :: "uuid option"

text \<open>A handler of the screen, on its state, the browser and the server.\<close>

type_synonym team_state = "team \<times> browser \<times> world"

definition canManage :: "page \<Rightarrow> bool" where
  "canManage p \<longleftrightarrow> currentRole p \<in> {Owner, Admin}"

definition loadMembers :: "env \<Rightarrow> authConfig \<Rightarrow> instant \<Rightarrow> RequestContext \<Rightarrow> string \<Rightarrow> team_state \<Rightarrow> team_state" where
  "loadMembers E C now ctx token st = (case st of (tm, b, s) \<Rightarrow>
     (case viaFetch E C now ctx (listMembersRoute E now) token b s of
        (Inl e, b1, s1) \<Rightarrow> (tm\<lparr>tm_loadError := Some e\<rparr>, b1, s1)
      | (Inr ms, b1, s1) \<Rightarrow> (tm\<lparr>tm_members := ms, tm_loadError := None\<rparr>, b1, s1)))"

definition handleInvite ::
  "env \<Rightarrow> authConfig \<Rightarrow> instant \<Rightarrow> RequestContext \<Rightarrow> string \<Rightarrow> string \<Rightarrow> role \<Rightarrow> team_state \<Rightarrow> team_state" where
  "handleInvite E C now ctx token inviteEmail inviteRole st = (case st of (tm, b, s) \<Rightarrow>
     (case viaFetch E C now ctx (\<lambda>auth. inviteRoute E now auth
        (if trim inviteEmail = [] then None else Some (trim inviteEmail)) inviteRole) token b s of
        (Inl e, b1, s1) \<Rightarrow> (tm\<lparr>tm_inviteError := Some e\<rparr>, b1, s1)
      | (Inr (inviteCode, expiresAt), b1, s1) \<Rightarrow> (tm\<lparr>tm_inviteResult := Some inviteCode, tm_inviteError := None\<rparr>, b1, s1)))"

definition closeInviteDialog :: "team \<Rightarrow> team" where
  "closeInviteDialog tm = tm\<lparr>tm_inviteResult := None, tm_inviteError := None\<rparr>"

text \<open>Accepting an invitation moves the session to its workspace.\<close>

definition handleAcceptInvite ::
  "env \<Rightarrow> authConfig \<Rightarrow> instant \<Rightarrow> RequestContext \<Rightarrow> string \<Rightarrow> string \<Rightarrow> team_state \<Rightarrow> team_state" where
  "handleAcceptInvite E C now ctx token acceptCode st = (case st of (tm, b, s) \<Rightarrow>
     if trim acceptCode = [] then (tm, b, s)
     else (case acceptInviteRoute E C now (bearer token) (trim acceptCode) ctx s of
         (Inl e, s1) \<Rightarrow> (tm\<lparr>tm_acceptError := Some e\<rparr>, b, s1)
       | (Inr (issued, w, r), s1) \<Rightarrow> (tm\<lparr>tm_acceptError := None\<rparr>, applyAuth E C now ctx (is_accessToken issued)
           (takeCookie (rq_include (acceptWorkspaceInvite_request token (trim acceptCode))) (SetCookie (is_refreshToken issued)) b) s1)))"

text \<open>An action on a member, and the list read again after it.\<close>

definition memberAction ::
  "env \<Rightarrow> authConfig \<Rightarrow> instant \<Rightarrow> RequestContext \<Rightarrow> string \<Rightarrow> (string option \<Rightarrow> (world, exn, 'a) oper) \<Rightarrow> team_state \<Rightarrow> team_state" where
  "memberAction E C now ctx token route st = (case st of (tm, b, s) \<Rightarrow>
     (case viaFetch E C now ctx route token b s of
        (Inl e, b1, s1) \<Rightarrow> (tm\<lparr>tm_actionError := Some e\<rparr>, b1, s1)
      | (Inr _, b1, s1) \<Rightarrow> loadMembers E C now ctx token (tm\<lparr>tm_actionError := None\<rparr>, b1, s1)))"

definition handleRoleChange ::
  "env \<Rightarrow> authConfig \<Rightarrow> instant \<Rightarrow> RequestContext \<Rightarrow> string \<Rightarrow> uuid \<Rightarrow> role \<Rightarrow> team_state \<Rightarrow> team_state" where
  "handleRoleChange E C now ctx token memberId newRole =
     memberAction E C now ctx token (\<lambda>auth. changeMemberRoleRoute E now auth memberId newRole)"

definition handleRemove ::
  "env \<Rightarrow> authConfig \<Rightarrow> instant \<Rightarrow> RequestContext \<Rightarrow> string \<Rightarrow> uuid \<Rightarrow> team_state \<Rightarrow> team_state" where
  "handleRemove E C now ctx token memberId =
     memberAction E C now ctx token (\<lambda>auth. removeMemberRoute E now auth memberId)"

text \<open>Leaving ends in a logout, since no workspace is left to show.\<close>

definition handleLeave :: "env \<Rightarrow> authConfig \<Rightarrow> instant \<Rightarrow> RequestContext \<Rightarrow> string \<Rightarrow> team_state \<Rightarrow> team_state" where
  "handleLeave E C now ctx token st = (case st of (tm, b, s) \<Rightarrow>
     (case viaFetch E C now ctx (leaveRoute E now) token b s of
        (Inl e, b1, s1) \<Rightarrow> (tm\<lparr>tm_actionError := Some e, tm_confirmLeave := False\<rparr>, b1, s1)
      | (Inr _, b1, s1) \<Rightarrow> (case handleLogout E now ctx b1 s1 of
          (b2, s2) \<Rightarrow> (tm\<lparr>tm_actionError := None, tm_confirmLeave := False\<rparr>, b2, s2))))"

text \<open>After a transfer the session is switched to the workspace it shows, for the new role; a
  failure of that is passed over.\<close>

definition handleTransfer ::
  "env \<Rightarrow> authConfig \<Rightarrow> instant \<Rightarrow> RequestContext \<Rightarrow> string \<Rightarrow> uuid \<Rightarrow> team_state \<Rightarrow> team_state" where
  "handleTransfer E C now ctx token currentWorkspaceId st = (case st of (tm, b, s) \<Rightarrow>
     (case tm_transferTargetId tm of
        None \<Rightarrow> (tm, b, s)
      | Some target \<Rightarrow> (case viaFetch E C now ctx (\<lambda>auth. transferOwnershipRoute E now auth target) token b s of
          (Inl e, b1, s1) \<Rightarrow> (tm\<lparr>tm_actionError := Some e\<rparr>, b1, s1)
        | (Inr _, b1, s1) \<Rightarrow>
            (case loadMembers E C now ctx token (tm\<lparr>tm_actionError := None, tm_transferTargetId := None\<rparr>, b1, s1) of
               (tm2, b2, s2) \<Rightarrow> (case switchEndpoint E C now (bearer token) (br_cookie b2) currentWorkspaceId ctx s2 of
                   (Inl e, s3) \<Rightarrow> (tm2, b2, s3)
                 | (Inr (w, t, c), s3) \<Rightarrow> (tm2, applyAuth E C now ctx t
                     (takeCookie (rq_include (switchWorkspace_request token (uuidText currentWorkspaceId))) c b2) s3))))))"

definition transferCandidates :: "uuid \<Rightarrow> team \<Rightarrow> (WorkspaceMember \<times> User option) list" where
  "transferCandidates userId tm = filter (\<lambda>(m, u). mem_userId m \<noteq> userId \<and> mem_role m \<noteq> Owner) (tm_members tm)"

end
