(* ===== verification/Shell_Properties.thy ===== *)
theory Shell_Properties
  imports Web_Shell
begin

text \<open>
  What the page shows and what its token stands for, after a workspace is created from it.
\<close>

text \<open>A refresh with the token of a live session signs a token for that session's workspace.\<close>

lemma refresh_succeeds:
  assumes "findFirst (\<lambda>r. ses_refreshTokenHash r = hashRefreshToken E tok) (sessions s) = Some r0"
    and "ses_revokedAt r0 = None" "now \<le> ses_expiresAt r0" "liveMembership s (ses_workspaceId r0) (ses_userId r0) = Some m"
  obtains r s1 where "refresh E C now tok ctx s = (Inr r, s1)"
    "rf_accessToken r = signAccessToken E C now (claimsFor s (ses_userId r0) m)"
proof (cases rule: rotate_cases [of E C now tok ctx None None s])
  case (rotated r1 r' s' a)
  then have "r1 = r0" using assms(1) by simp
  note sp = rotateSession_spec [OF rotated(5)]
  note cong = liveMembership_cong [of "auditLog E a s'" s] orgOfWorkspace_cong [of "auditLog E a s'" s]
  have "refresh E C now tok ctx s = (Inr \<lparr>rf_accessToken = signAccessToken E C now (claimsFor s (ses_userId r0) m),
      rf_refreshToken = ro_refreshToken r', rf_workspaceId = mem_workspaceId m\<rparr>, auditLog E a s')"
    using rotated(6) sp assms(4) \<open>r1 = r0\<close> by (simp add: refresh_def cong claimsFor_def)
  then show ?thesis by (rule that) simp
qed (use assms in \<open>auto simp: rotate_def Let_def split: prod.splits\<close>)

text \<open>What creating a workspace adds: a session, a membership and the workspace.\<close>

lemma createWorkspace_adds:
  "\<exists>issued s1 new m w. createWorkspace E C now u org name ctx s = (Inr (issued, drawNth E 0 s), s1) \<and>
     sessions s1 = sessions s @ [new] \<and> members s1 = members s @ [m] \<and> workspaces s1 = workspaces s @ [w] \<and>
     users s1 = users s \<and> m = newMember (drawNth E 1 s) now (drawNth E 0 s) u Owner None \<and>
     is_accessToken issued = signAccessToken E C now
       \<lparr>jwt_sub = u, jwt_workspaceId = drawNth E 0 s, jwt_orgId = org, jwt_role = Owner\<rparr>"
  by (simp add: createWorkspace_def createWorkspaceTx_def transactionO_def issue_def Let_def drawn_def randomUsed_def auditLog_def)

text \<open>The token of a page is signed for a workspace; the next refresh keeps the page as it is but
  for its token.\<close>

lemma sharedRefresh_succeeds:
  assumes "br_cookie b = Some ck" "ck \<noteq> []" "\<forall>c e. signJwt E c e \<noteq> []"
    and "findFirst (\<lambda>r. ses_refreshTokenHash r = hashRefreshToken E ck) (sessions s) = Some r0"
    and "ses_revokedAt r0 = None" "now \<le> ses_expiresAt r0" "liveMembership s (ses_workspaceId r0) (ses_userId r0) = Some m"
  shows "\<exists>b1 s1. sharedRefresh E C now ctx b s = (Some (signAccessToken E C now (claimsFor s (ses_userId r0) m)), b1, s1) \<and>
    br_page b1 = (br_page b)\<lparr>pg_accessToken := Some (signAccessToken E C now (claimsFor s (ses_userId r0) m))\<rparr>"
proof -
  obtain r s1 where "refresh E C now ck ctx s = (Inr r, s1)"
    "rf_accessToken r = signAccessToken E C now (claimsFor s (ses_userId r0) m)"
    by (rule refresh_succeeds [OF assms(4-7)])
  then show ?thesis
    using assms(1-3) by (simp add: sharedRefresh_def refreshByCookie_def refreshEndpoint_def nonEmpty_def tryRefresh_request_def
        request_def takeCookie_def setPage_def signAccessToken_def)
qed

text \<open>A token that verifies opens the page of its workspace.\<close>

lemma applyAuth_shows:
  assumes "verifyJwt E token now = Some c" "token \<noteq> []" "trim token = token"
    and "liveMembership s (jwt_workspaceId c) (jwt_sub c) = Some m"
    and "findFirst (\<lambda>u. usr_deletedAt u = None \<and> usr_id u = jwt_sub c) (users s) = Some u"
  shows "\<exists>b1. applyAuth E C now ctx token b s = (b1, s) \<and> br_cookie b1 = br_cookie b \<and>
    pg_currentWorkspaceId (br_page b1) = Some (jwt_workspaceId c) \<and> pg_accessToken (br_page b1) = Some token"
proof -
  have "extractBearerToken (bearer token) = Some token"
    using assms(3) by (simp add: extractBearerToken_def bearer_def)
  then have "jwtAuthGuard E now (bearer token) s = Inr (c\<lparr>jwt_role := mem_role m\<rparr>)"
    using assms by (simp add: jwtAuthGuard_def nonEmpty_def)
  then show ?thesis
    using assms(5) by (simp add: applyAuth_def viaFetch_def meRoute_def guarded_def rolesGuard_def me_def setPage_def)
qed

text \<open>A page whose token is accepted, in a browser whose cookie belongs to a live session of the
  same user and workspace, until a later time.\<close>

definition settled :: "env \<Rightarrow> instant \<Rightarrow> instant \<Rightarrow> browser \<Rightarrow> world \<Rightarrow> jwt_claims \<Rightarrow> bool" where
  "settled E now later b s c \<longleftrightarrow> (case (pg_accessToken (br_page b), br_cookie b) of
      (Some tok, Some ck) \<Rightarrow> jwtAuthGuard E now (bearer tok) s = Inr c \<and> ck \<noteq> [] \<and>
        findFirst (\<lambda>u. usr_deletedAt u = None \<and> usr_id u = jwt_sub c) (users s) \<noteq> None \<and>
        (case findFirst (\<lambda>r. ses_refreshTokenHash r = hashRefreshToken E ck) (sessions s) of
           None \<Rightarrow> False
         | Some r \<Rightarrow> ses_workspaceId r = jwt_workspaceId c \<and> ses_userId r = jwt_sub c \<and> ses_revokedAt r = None \<and>
             later \<le> ses_expiresAt r)
    | _ \<Rightarrow> False)"

text \<open>The claims of the token for a workspace about to be created.\<close>

definition ownerClaims :: "env \<Rightarrow> world \<Rightarrow> jwt_claims \<Rightarrow> jwt_claims" where
  "ownerClaims E s c = \<lparr>jwt_sub = jwt_sub c, jwt_workspaceId = drawNth E 0 s, jwt_orgId = jwt_orgId c, jwt_role = Owner\<rparr>"

text \<open>C36: creating a workspace leaves the page and its session apart. The page shows the new
  workspace, but the cookie of its session was not kept, so the next refresh goes by the old
  session: the page then still shows the new workspace while every request it sends carries a
  token for the old one.\<close>

theorem created_workspace_drifts:
  assumes "settled E now later b s c" "trim name \<noteq> []" "\<forall>m\<in>set (members s). mem_workspaceId m \<noteq> drawNth E 0 s"
    and "\<forall>cl e. signJwt E cl e \<noteq> [] \<and> trim (signJwt E cl e) = signJwt E cl e"
    and "verifyJwt E (signAccessToken E C now (ownerClaims E s c)) now = Some (ownerClaims E s c)"
  shows "\<exists>b1 s1 t b2 s2 cl e. handleCreateWorkspace E C now ctx name b s = (None, b1, s1) \<and>
    pg_currentWorkspaceId (br_page b1) = Some (drawNth E 0 s) \<and>
    sharedRefresh E C later ctx b1 s1 = (Some t, b2, s2) \<and>
    pg_currentWorkspaceId (br_page b2) = Some (drawNth E 0 s) \<and> pg_accessToken (br_page b2) = Some t \<and>
    t = signJwt E cl e \<and> jwt_workspaceId cl = jwt_workspaceId c \<and> jwt_workspaceId cl \<noteq> drawNth E 0 s"
proof -
  let ?w = "drawNth E 0 s" and ?t0 = "signAccessToken E C now (ownerClaims E s c)"
  obtain tok ck r0 u where p: "pg_accessToken (br_page b) = Some tok" "jwtAuthGuard E now (bearer tok) s = Inr c"
    "br_cookie b = Some ck" "ck \<noteq> []" "findFirst (\<lambda>u. usr_deletedAt u = None \<and> usr_id u = jwt_sub c) (users s) = Some u"
    and r0: "findFirst (\<lambda>r. ses_refreshTokenHash r = hashRefreshToken E ck) (sessions s) = Some r0"
      "ses_workspaceId r0 = jwt_workspaceId c" "ses_userId r0 = jwt_sub c" "ses_revokedAt r0 = None" "later \<le> ses_expiresAt r0"
    using assms(1) by (auto simp: settled_def split: option.splits)
  obtain m where m: "liveMembership s (jwt_workspaceId c) (jwt_sub c) = Some m" "jwt_role c = mem_role m"
    using p(2) by (auto simp: jwtAuthGuard_def Let_def split: if_splits option.splits)
  then have w: "jwt_workspaceId c \<noteq> ?w" using liveMembership_SomeD [OF m(1)] assms(3) by auto
  obtain issued s1 new m1 wk where cw: "createWorkspace E C now (jwt_sub c) (jwt_orgId c) (Some (trim name)) ctx s = (Inr (issued, ?w), s1)"
    "sessions s1 = sessions s @ [new]" "members s1 = members s @ [m1]" "users s1 = users s"
    "m1 = newMember (drawNth E 1 s) now ?w (jwt_sub c) Owner None" "is_accessToken issued = ?t0"
    using createWorkspace_adds [of E C now "jwt_sub c" "jwt_orgId c" "Some (trim name)" ctx s] unfolding ownerClaims_def by metis
  have "viaFetch E C now ctx (\<lambda>auth. createWorkspaceRoute E C now auth (Some (trim name)) ctx) tok b s = (Inr (issued, ?w), b, s1)"
    using p(2) cw(1) by (simp add: viaFetch_def createWorkspaceRoute_def guarded_def rolesGuard_def)
  then have h: "handleCreateWorkspace E C now ctx name b s = (None, applyAuth E C now ctx ?t0 b s1)"
    using p(1) assms(2) cw(6) by (simp add: handleCreateWorkspace_def createWorkspace_request_def viaApiFetch_def withToken_def
        request_def takeCookie_def)
  have "liveMembership s1 ?w (jwt_sub c) = Some m1"
    using assms(3) cw(3,5) by (simp add: liveMembership_def findFirst_append newMember_def split: option.split)
      (auto dest: findFirst_SomeD)
  then obtain b1 where b1: "applyAuth E C now ctx ?t0 b s1 = (b1, s1)" "br_cookie b1 = Some ck"
    "pg_currentWorkspaceId (br_page b1) = Some ?w"
    using applyAuth_shows [of E ?t0 now "ownerClaims E s c" s1 m1 u C ctx b] assms(4,5) cw(4) p(3,5)
    by (auto simp: ownerClaims_def signAccessToken_def)
  have "liveMembership s1 (ses_workspaceId r0) (ses_userId r0) = Some m"
    using m(1) r0(2,3) cw(3) by (simp add: liveMembership_def findFirst_append)
  moreover have "findFirst (\<lambda>r. ses_refreshTokenHash r = hashRefreshToken E ck) (sessions s1) = Some r0"
    using r0(1) cw(2) by (simp add: findFirst_append)
  ultimately obtain b2 s2 where "sharedRefresh E C later ctx b1 s1 = (Some (signAccessToken E C later (claimsFor s1 (ses_userId r0) m)), b2, s2)"
    "br_page b2 = (br_page b1)\<lparr>pg_accessToken := Some (signAccessToken E C later (claimsFor s1 (ses_userId r0) m))\<rparr>"
    using sharedRefresh_succeeds [of b1 ck E s1 r0 later m C ctx] b1(2) p(4) assms(4) r0(4,5) by blast
  moreover have "jwt_workspaceId (claimsFor s1 (ses_userId r0) m) = jwt_workspaceId c"
    using liveMembership_SomeD [OF m(1)] by (simp add: claimsFor_def)
  ultimately show ?thesis
    using h b1 w by (intro exI [of _ b1] exI [of _ s1] exI [of _ "signAccessToken E C later (claimsFor s1 (ses_userId r0) m)"]
        exI [of _ b2] exI [of _ s2] exI [of _ "claimsFor s1 (ses_userId r0) m"] exI [of _ "later + accessTokenTtlSeconds C * 1000"])
      (simp add: signAccessToken_def)
qed

text \<open>Tokens that are the number of their workspace, and the first session of the sample state.\<close>

definition tokenEnv :: env where
  "tokenEnv = sampleEnv\<lparr>signJwt := \<lambda>c t. natDigits (jwt_workspaceId c),
     verifyJwt := \<lambda>t now. Some \<lparr>jwt_sub = 1, jwt_workspaceId = digitsVal 0 t, jwt_orgId = 21, jwt_role = Owner\<rparr>\<rparr>"

definition sampleBrowser :: browser where
  "sampleBrowser = \<lparr>br_page = openPage\<lparr>pg_accessToken := Some ''11'', pg_currentWorkspaceId := Some 11\<rparr>, br_cookie = Some ''ta''\<rparr>"

theorem created_workspace_drifts_witness:
  "\<exists>b1 s1 t b2 s2. handleCreateWorkspace tokenEnv defaultAuthConfig 5 sampleCtx ''Team'' sampleBrowser sampleState = (None, b1, s1) \<and>
     sharedRefresh tokenEnv defaultAuthConfig 6 sampleCtx b1 s1 = (Some t, b2, s2) \<and>
     pg_currentWorkspaceId (br_page b2) = Some (drawNth tokenEnv 0 sampleState) \<and> pg_accessToken (br_page b2) = Some ''11''"
proof -
  let ?c = "\<lparr>jwt_sub = 1, jwt_workspaceId = 11, jwt_orgId = 21, jwt_role = Owner\<rparr>"
  have tok: "signJwt tokenEnv cl e = natDigits (jwt_workspaceId cl)" for cl e by (simp add: tokenEnv_def)
  have verify: "verifyJwt tokenEnv t n = Some \<lparr>jwt_sub = 1, jwt_workspaceId = digitsVal 0 t, jwt_orgId = 21, jwt_role = Owner\<rparr>" for t n
    by (simp add: tokenEnv_def)
  have "trim x = x" if "list_all isDigit x" for x using that by (auto simp: list_all_iff isDigit_not_space intro!: trim_none)
  then have "natDigits n \<noteq> [] \<and> trim (natDigits n) = natDigits n" for n using natDigits_digits by blast
  then have "\<forall>cl e. signJwt tokenEnv cl e \<noteq> [] \<and> trim (signJwt tokenEnv cl e) = signJwt tokenEnv cl e" unfolding tok by blast
  moreover have "extractBearerToken (bearer ''11'') = Some ''11''" "digitsVal 0 ''11'' = 11" by code_simp+
  then have "settled tokenEnv 5 6 sampleBrowser sampleState ?c"
    by (simp add: settled_def sampleBrowser_def openPage_def jwtAuthGuard_def verify nonEmpty_def liveMembership_def sample_defs)
      (simp add: tokenEnv_def sampleEnv_def hashRefreshToken_def)
  moreover have "trim ''Team'' \<noteq> []" by code_simp
  moreover have "\<forall>m\<in>set (members sampleState). mem_workspaceId m \<noteq> drawNth tokenEnv 0 sampleState"
    by (simp add: drawNth_def tokenEnv_def sample_defs)
  moreover have "verifyJwt tokenEnv (signAccessToken tokenEnv defaultAuthConfig 5 (ownerClaims tokenEnv sampleState ?c)) 5 =
      Some (ownerClaims tokenEnv sampleState ?c)"
    by (simp only: signAccessToken_def tok verify ownerClaims_def digitsVal_natDigits) simp
  ultimately obtain b1 s1 t b2 s2 cl e where "handleCreateWorkspace tokenEnv defaultAuthConfig 5 sampleCtx ''Team'' sampleBrowser sampleState = (None, b1, s1)"
    "sharedRefresh tokenEnv defaultAuthConfig 6 sampleCtx b1 s1 = (Some t, b2, s2)"
    "pg_currentWorkspaceId (br_page b2) = Some (drawNth tokenEnv 0 sampleState)" "pg_accessToken (br_page b2) = Some t"
    "t = signJwt tokenEnv cl e" "jwt_workspaceId cl = 11"
    using created_workspace_drifts [of tokenEnv 5 6 sampleBrowser sampleState ?c "''Team''" defaultAuthConfig sampleCtx] by (simp only: jwt_claims.simps) blast
  moreover have "natDigits 11 = ''11''" by code_simp
  ultimately show ?thesis unfolding tok by metis
qed

end
