(* ===== verification/Certification.thy ===== *)
theory Certification
  imports Connector_Properties Connector_Platform
begin

text \<open>
  The certification suite every connector is held to (\<open>certification/certify.ts\<close>), the
  mock connector's fixtures and its run of the suite, and the development endpoint that
  makes a message of the mock connector (\<open>mock-connector.controller.ts\<close>). Raw provider
  payloads and errors are type parameters, as each connector has its own; the details of a
  failed check leave out the text of the fixture that failed it.
\<close>

section \<open>Candidates, options, reports\<close>

text \<open>What the suite calls of a connector beside the parts the platform calls; the hook to
  simulate a failure is optional.\<close>

record ('p, 'c, 'raw, 'err) candidate =
  cd_connector :: "'p Connector"
  cd_initialSync :: "jsval \<Rightarrow> 'c SyncCheckpoint option \<Rightarrow> ('p, conn_exn, 'c SyncResult) oper"
  cd_reconcile :: "jsval \<Rightarrow> 'c SyncCheckpoint option \<Rightarrow> ('p, conn_exn, 'c SyncResult) oper"
  cd_mapMessage :: "'raw \<Rightarrow> NormalizedMessage"
  cd_mapError :: "'err \<Rightarrow> ConnectorError"
  cd_simulateFailure :: "(ConnectorErrorCode option \<Rightarrow> 'p \<Rightarrow> 'p) option"

record 'err CertificationErrorFixture =
  cef_raw :: 'err
  cef_expectedCode :: ConnectorErrorCode
  cef_secretInMessage :: "string option"

record ('raw, 'err) CertificationOptions =
  cop_messageFixtures :: "'raw list"
  cop_errorFixtures :: "'err CertificationErrorFixture list"
  cop_validCredential :: jsval
  cop_invalidCredential :: jsval
  cop_context :: jsval

record CertificationCheckResult =
  ccr_name :: string
  ccr_passed :: bool
  ccr_skipped :: bool
  ccr_detail :: "string option"

record CertificationReport =
  crp_providerKey :: string
  crp_results :: "CertificationCheckResult list"
  crp_passed :: bool

section \<open>Recording a check\<close>

datatype check_exn = SkipCertificationCheck string | CheckFailed string

definition recordCheck :: "string \<Rightarrow> ('p, check_exn, unit) oper
    \<Rightarrow> CertificationCheckResult list \<times> 'p \<Rightarrow> CertificationCheckResult list \<times> 'p" where
  "recordCheck name fn st = (case fn (snd st) of
      (Inr _, p) \<Rightarrow> (fst st @ [\<lparr>ccr_name = name, ccr_passed = True, ccr_skipped = False, ccr_detail = None\<rparr>], p)
    | (Inl (SkipCertificationCheck reason), p) \<Rightarrow>
        (fst st @ [\<lparr>ccr_name = name, ccr_passed = True, ccr_skipped = True, ccr_detail = Some reason\<rparr>], p)
    | (Inl (CheckFailed m), p) \<Rightarrow>
        (fst st @ [\<lparr>ccr_name = name, ccr_passed = False, ccr_skipped = False, ccr_detail = Some m\<rparr>], p))"

text \<open>An error of the connector inside a check fails the check with its message.\<close>

definition checked :: "('p, conn_exn, 'a) oper \<Rightarrow> ('p, check_exn, 'a) oper" where
  "checked m p = (case m p of (Inl e, p') \<Rightarrow> (Inl (CheckFailed (connMessage e)), p') | (Inr a, p') \<Rightarrow> (Inr a, p'))"

definition require :: "bool \<Rightarrow> string \<Rightarrow> ('p, check_exn, unit) oper" where
  "require b m = (if b then ok () else throw (CheckFailed m))"

section \<open>The checks\<close>

definition checkManifest :: "CapabilityManifest \<Rightarrow> ('p, check_exn, unit) oper" where
  "checkManifest m = (case defineCapabilityManifest m of Inl e \<Rightarrow> throw (CheckFailed (exnMessage e)) | Inr _ \<Rightarrow> ok ())"

definition checkHybrid :: "CapabilityManifest \<Rightarrow> ('p, check_exn, unit) oper" where
  "checkHybrid m = require (\<not> (requiresReconciliation m \<and> mf_reconciliationIntervalMinutes m \<in> {None, Some 0}))
     ''ingestionMode requires reconciliation but reconciliationIntervalMinutes is not set.''"

definition checkGraph :: "('p, check_exn, unit) oper" where
  "checkGraph = (let integrity = checkLifecycleGraphIntegrity in
     if \<not> gi_reachable integrity then throw (CheckFailed ''Unreachable states'')
     else require (gi_noDeadEnds integrity) ''Non-terminal dead-end states'')"

fun walk :: "instant \<Rightarrow> LifecycleState list \<Rightarrow> (ConnectorLifecycle, exn, unit) oper" where
  "walk now [] = ok ()"
| "walk now (t # ts) = bindO (transition now t) (\<lambda>_. walk now ts)"

definition happyPath :: "LifecycleState list" where
  "happyPath = [Authenticating, SyncingInitial, Active, Degraded, Active, Disconnecting, Disconnected]"

definition checkHappyPath :: "instant \<Rightarrow> ('p, check_exn, unit) oper" where
  "checkHappyPath now = (case walk now happyPath (createLifecycle Registered) of
      (Inl e, lc) \<Rightarrow> throw (CheckFailed (exnMessage e))
    | (Inr _, lc) \<Rightarrow> require (lc_state lc = Disconnected) ''Expected final state disconnected'')"

definition checkIllegal :: "instant \<Rightarrow> ('p, check_exn, unit) oper" where
  "checkIllegal now = (case transition now Active (createLifecycle Registered) of
      (Inl e, lc) \<Rightarrow> ok ()
    | (Inr _, lc) \<Rightarrow> throw (CheckFailed ''Expected registered -> active to be rejected as illegal, but it succeeded.''))"

definition checkValidCredential :: "'p Connector \<Rightarrow> jsval \<Rightarrow> ('p, check_exn, unit) oper" where
  "checkValidCredential c credential = bindO (checked (authenticate c credential)) (\<lambda>accountExternalId.
     require (accountExternalId \<noteq> []) ''authenticate() succeeded but returned no accountExternalId.'')"

definition checkInvalidCredential :: "'p Connector \<Rightarrow> jsval \<Rightarrow> ('p, check_exn, unit) oper" where
  "checkInvalidCredential c credential = bindO (checked (cn_validateCredential c credential)) (\<lambda>directResult.
     if cvr_valid directResult
     then throw (CheckFailed ''validateCredential() accepted a credential that was supposed to be invalid.'')
     else (\<lambda>p. case authenticate c credential p of
         (Inl _, p') \<Rightarrow> (Inr (), p')
       | (Inr _, p') \<Rightarrow> (Inl (CheckFailed ''authenticate() succeeded with an invalid credential instead of rejecting it.''), p')))"

definition checkFixtures :: "('raw, 'err) CertificationOptions \<Rightarrow> ('p, check_exn, unit) oper" where
  "checkFixtures opts =
     (if cop_messageFixtures opts = []
      then throw (CheckFailed ''No message fixtures supplied - a connector must ship its own test fixtures.'')
      else require (cop_errorFixtures opts \<noteq> []) ''No error fixtures supplied - a connector must ship its own test fixtures.'')"

fun checkEach :: "('x \<Rightarrow> ('p, check_exn, unit) oper) \<Rightarrow> 'x list \<Rightarrow> ('p, check_exn, unit) oper" where
  "checkEach f [] = ok ()"
| "checkEach f (x # xs) = bindO (f x) (\<lambda>_. checkEach f xs)"

text \<open>A mapper of the model is a function, so the comparison of its two results, which the
  suite makes on every fixture, never differs.\<close>

definition checkDeterministic :: "('raw \<Rightarrow> NormalizedMessage) \<Rightarrow> 'raw list \<Rightarrow> ('p, check_exn, unit) oper" where
  "checkDeterministic mapMessage = checkEach (\<lambda>fixture. let first = mapMessage fixture; second = mapMessage fixture in
     require (first = second) ''mapMessage() produced different output for the same fixture'')"

text \<open>The empty values of the required fields; a direction and an instant are never empty.\<close>

definition missingFields :: "NormalizedMessage \<Rightarrow> string list" where
  "missingFields m = map fst (filter (\<lambda>kv. snd kv = []) [(''externalId'', nm_externalId m),
     (''conversationExternalId'', nm_conversationExternalId m), (''bodyText'', nm_bodyText m)])"

definition checkRequired :: "('raw \<Rightarrow> NormalizedMessage) \<Rightarrow> 'raw list \<Rightarrow> ('p, check_exn, unit) oper" where
  "checkRequired mapMessage = checkEach (\<lambda>fixture. let missing = missingFields (mapMessage fixture) in
     require (missing = []) (''mapMessage() left required field(s) empty: '' @ joinWith '', '' missing))"

text \<open>The resumption check on a backfill with messages is \<open>checkResume\<close>; one without has
  nothing to resume.\<close>

definition checkInitialSync :: "('c SyncCheckpoint option \<Rightarrow> ('p, conn_exn, 'c SyncResult) oper) \<Rightarrow> ('p, check_exn, unit) oper" where
  "checkInitialSync sync = bindO (checked (sync None)) (\<lambda>firstBatch.
     if sr_messages firstBatch = []
     then throw (SkipCertificationCheck ''initialSync() completed immediately with zero messages - no backfill to resume, nothing to verify'')
     else bindO (checked (sync (Some (sr_checkpoint firstBatch)))) (\<lambda>resumed.
       require (\<not> list_ex (\<lambda>i. i \<in> set (idsOf (sr_messages firstBatch))) (idsOf (sr_messages resumed)))
         ''Resuming from checkpoint re-processed message(s) already covered by the prior batch - checkpointing is not durable/resumable.''))"

definition checkCompletes :: "('c SyncCheckpoint option \<Rightarrow> ('p, conn_exn, 'c SyncResult) oper) \<Rightarrow> ('p, check_exn, unit) oper" where
  "checkCompletes sync = bindO (checked (checkBounded sync MAX_ITERATIONS None [])) (\<lambda>_. ok ())"

definition checkReconcile :: "('c SyncCheckpoint option \<Rightarrow> ('p, conn_exn, 'c SyncResult) oper) \<Rightarrow> ('p, check_exn, unit) oper" where
  "checkReconcile reconcile = bindO (checked (reconcile None)) (\<lambda>reconciled.
     if sr_messages reconciled = []
     then throw (SkipCertificationCheck ''reconcile() completed with zero messages - nothing was missing to backfill'')
     else ok ())"

definition checkErrorCodes :: "('err \<Rightarrow> ConnectorError) \<Rightarrow> 'err CertificationErrorFixture list \<Rightarrow> ('p, check_exn, unit) oper" where
  "checkErrorCodes mapError = checkEach (\<lambda>fixture. require (ce_code (mapError (cef_raw fixture)) = cef_expectedCode fixture)
     (''mapError() produced code '' @ codeName (ce_code (mapError (cef_raw fixture))) @ '', expected ''
       @ codeName (cef_expectedCode fixture)))"

definition checkRedaction :: "('err \<Rightarrow> ConnectorError) \<Rightarrow> 'err CertificationErrorFixture list \<Rightarrow> ('p, check_exn, unit) oper" where
  "checkRedaction mapError = checkEach (\<lambda>fixture. case cef_secretInMessage fixture of
      None \<Rightarrow> ok ()
    | Some secret \<Rightarrow> if secret = [] then ok ()
        else (let m = ce_message (mapError (cef_raw fixture)) in
          require (\<not> strIncludes m secret) (''mapError() leaked a credential into the error message: '' @ m)))"

definition certificationProbe :: OutboundMessage where
  "certificationProbe = \<lparr>om_conversationExternalId = ''cert-conversation'', om_bodyText = ''certification probe''\<rparr>"

definition checkBackpressure :: "('p, 'c, 'raw, 'err) candidate \<Rightarrow> jsval \<Rightarrow> ('p, check_exn, unit) oper" where
  "checkBackpressure cd context = (case (cn_send (cd_connector cd), cd_simulateFailure cd) of
      (Some send, Some simulate) \<Rightarrow> (\<lambda>p. bindO (checked (send certificationProbe context)) (\<lambda>result.
        require (snd_queued result)
          ''send() under a simulated rate limit did not report queued=true - a rate-limited send must back off, never drop.'')
        (simulate (Some RATE_LIMITED) p))
    | _ \<Rightarrow> throw (SkipCertificationCheck ''connector exposes no send()/simulateFailure() hook to drive this check''))"

section \<open>The suite\<close>

definition certificationChecks :: "instant \<Rightarrow> ('p, 'c, 'raw, 'err) candidate \<Rightarrow> ('raw, 'err) CertificationOptions
    \<Rightarrow> (string \<times> ('p, check_exn, unit) oper) list" where
  "certificationChecks now cd opts = (let c = cd_connector cd; sync = cd_initialSync cd (cop_context opts) in
   [(''Capability Manifest is complete and internally consistent (Section 5)'', checkManifest (cn_manifest c)),
    (''Hybrid requirement: webhook-capable connectors declare a reconciliation interval (Section 4.3)'', checkHybrid (cn_manifest c)),
    (''Lifecycle state machine has no unreachable or dead-end states (Section 2)'', checkGraph),
    (''Lifecycle state machine completes a full happy-path run (Section 2)'', checkHappyPath now),
    (''Lifecycle state machine rejects illegal transitions (Section 2)'', checkIllegal now),
    (''Credential validation: a valid credential is accepted (Section 3.2)'', checkValidCredential c (cop_validCredential opts)),
    (''Credential validation: an invalid credential is rejected before persistence (Section 3.2)'',
      checkInvalidCredential c (cop_invalidCredential opts)),
    (''Initial sync fixtures were supplied (Section 16 item 13)'', checkFixtures opts),
    (''Normalization mapper is a deterministic pure function (Section 11)'',
      checkDeterministic (cd_mapMessage cd) (cop_messageFixtures opts)),
    (''Normalization mapper populates every required field (Section 11)'',
      checkRequired (cd_mapMessage cd) (cop_messageFixtures opts)),
    (''Initial sync resumes from an arbitrary durable checkpoint without re-processing it (Section 8.1/9)'', checkInitialSync sync),
    (''Initial sync eventually completes within a bounded number of calls (Section 8.1)'', checkCompletes sync),
    (''Reconciliation pass is a distinct sync path (Section 4.3/8.3)'', checkReconcile (cd_reconcile cd (cop_context opts))),
    (''Error mapping covers the standardized taxonomy (Section 15)'', checkErrorCodes (cd_mapError cd) (cop_errorFixtures opts)),
    (''Error mapping redacts credentials from every error message (Section 15)'',
      checkRedaction (cd_mapError cd) (cop_errorFixtures opts)),
    (''Rate limiting produces backpressure, never a silent drop (Section 14)'', checkBackpressure cd (cop_context opts))])"

definition certifyConnector :: "instant \<Rightarrow> ('p, 'c, 'raw, 'err) candidate \<Rightarrow> ('raw, 'err) CertificationOptions
    \<Rightarrow> 'p \<Rightarrow> CertificationReport \<times> 'p" where
  "certifyConnector now cd opts p =
     (let (results, p') = fold (\<lambda>(name, fn). recordCheck name fn) (certificationChecks now cd opts) ([], p)
      in (\<lparr>crp_providerKey = mf_providerKey (cn_manifest (cd_connector cd)), crp_results = results,
           crp_passed = list_all ccr_passed results\<rparr>, p'))"

section \<open>The mock connector's run\<close>

definition MOCK_MESSAGE_FIXTURES :: "MockRawMessage list" where
  "MOCK_MESSAGE_FIXTURES =
    [\<lparr>mrm_id = ''fixture-msg-1'', mrm_conversationId = ''fixture-conversation-1'',
      mrm_conversationTitle = Some ''Fixture Conversation'', mrm_direction = Inbound,
      mrm_text = ''Hello from a fixed fixture payload.'', mrm_receivedAt = 1767225600000,
      mrm_senderId = Some ''fixture-sender-1'', mrm_senderHandle = Some ''@fixture-sender-1'',
      mrm_senderName = Some ''Fixture Sender''\<rparr>,
     \<lparr>mrm_id = ''fixture-msg-2'', mrm_conversationId = ''fixture-conversation-1'', mrm_conversationTitle = None,
      mrm_direction = Outbound, mrm_text = ''A reply, sent from our side.'', mrm_receivedAt = 1767225900000,
      mrm_senderId = None, mrm_senderHandle = None, mrm_senderName = None\<rparr>]"

definition errorFixture :: "string \<Rightarrow> string \<Rightarrow> ConnectorErrorCode \<Rightarrow> string option \<Rightarrow> MockRawError CertificationErrorFixture" where
  "errorFixture c m expected secret = \<lparr>cef_raw = \<lparr>mre_code = Some c, mre_message = Some m\<rparr>,
     cef_expectedCode = expected, cef_secretInMessage = secret\<rparr>"

definition MOCK_ERROR_FIXTURES :: "MockRawError CertificationErrorFixture list" where
  "MOCK_ERROR_FIXTURES =
    [errorFixture ''auth_expired'' ''Bot token expired.'' AUTH_EXPIRED None,
     errorFixture ''rate_limited'' ''Too many requests.'' RATE_LIMITED None,
     errorFixture ''provider_down'' ''Upstream returned 503.'' PROVIDER_UNAVAILABLE None,
     errorFixture ''not_found'' ''Conversation no longer exists.'' RESOURCE_NOT_FOUND None,
     errorFixture ''forbidden'' ''Bot is not an admin in this channel.'' PERMISSION_DENIED None,
     errorFixture ''rejected'' ''Message contains a banned word.'' PAYLOAD_REJECTED None,
     errorFixture ''something_new'' ''An error type not yet mapped.'' UNKNOWN None,
     errorFixture ''auth_expired'' ''Failed using token: mock-valid-super-secret-123'' AUTH_EXPIRED
       (Some ''mock-valid-super-secret-123'')]"

definition mockCandidate :: "(MockState \<times> 'q, nat, MockRawMessage, MockRawError) candidate" where
  "mockCandidate = \<lparr>cd_connector = mockConnector, cd_initialSync = (\<lambda>context cp. onMock (mockInitialSync cp)),
     cd_reconcile = (\<lambda>context cp. onMock (mockReconcile cp)), cd_mapMessage = mockMapMessage, cd_mapError = mockMapError,
     cd_simulateFailure = Some (\<lambda>c p. (simulateFailure c (fst p), snd p))\<rparr>"

definition mockCertificationOptions :: "(MockRawMessage, MockRawError) CertificationOptions" where
  "mockCertificationOptions = \<lparr>cop_messageFixtures = MOCK_MESSAGE_FIXTURES, cop_errorFixtures = MOCK_ERROR_FIXTURES,
     cop_validCredential = JStr ''mock-valid-certification-credential'',
     cop_invalidCredential = JStr ''not-a-valid-credential'', cop_context = JUndef\<rparr>"

text \<open>The script clears a simulated failure first.\<close>

definition certifyMock :: "instant \<Rightarrow> MockState \<times> 'q \<Rightarrow> CertificationReport \<times> (MockState \<times> 'q)" where
  "certifyMock now p = certifyConnector now mockCandidate mockCertificationOptions (simulateFailure None (fst p), snd p)"

section \<open>What the suite finds\<close>

lemma checked_Inr: "m p = (Inr a, p') \<Longrightarrow> checked m p = (Inr a, p')"
  by (simp add: checked_def)

lemma checked_Inl: "m p = (Inl e, p') \<Longrightarrow> checked m p = (Inl (CheckFailed (connMessage e)), p')"
  by (simp add: checked_def)

lemma checkEach_pass: "(\<And>x. x \<in> set xs \<Longrightarrow> f x p = (Inr (), p)) \<Longrightarrow> checkEach f xs p = (Inr (), p)"
  by (induction xs) (simp_all add: ok_def)

lemma checkEach_fail:
  assumes "x \<in> set xs" "\<And>x. f x p = (if good x then (Inr (), p) else (Inl (bad x), p))" "\<not> good x"
  shows "\<exists>e. checkEach f xs p = (Inl e, p)"
  using assms(1) by (induction xs) (use assms(2,3) in auto)

lemmas check_simps = require_def ok_def throw_def Let_def

text \<open>Whatever connector is certified, the three checks of the lifecycle pass, since they
  depend on the transition table alone.\<close>

lemma lifecycle_checks:
  "checkGraph p = (Inr (), p)" "checkHappyPath now p = (Inr (), p)" "checkIllegal now p = (Inr (), p)"
proof -
  show "checkGraph p = (Inr (), p)"
    by (simp add: checkGraph_def checkLifecycleGraphIntegrity_def LIFECYCLE_STATES_def check_simps)
  show "checkHappyPath now p = (Inr (), p)"
    by (simp add: checkHappyPath_def happyPath_def transition_def createLifecycle_def check_simps)
  show "checkIllegal now p = (Inr (), p)"
    by (simp add: checkIllegal_def transition_def createLifecycle_def check_simps)
qed

text \<open>A connector under the contract of a resumable backfill passes both checks of it.\<close>

context resumable_sync
begin

lemma certified_complete:
  assumes "idle p" "batches \<noteq> []" "length batches \<le> MAX_ITERATIONS" "distinct (idsOf (concat batches))"
  shows "\<exists>p'. idle p' \<and> checkCompletes sync p = (Inr (), p')"
  using bounded [OF assms] by (auto simp: checkCompletes_def checked_def ok_def)

lemma certified_resume:
  assumes "idle p" "distinct (idsOf (concat batches))" "1 < length batches" "batches ! 0 \<noteq> []"
  shows "\<exists>p'. idle p' \<and> checkInitialSync sync p = (Inr (), p')"
proof -
  obtain r p' where r: "sync None p = (Inr r, p')" "idle p'" "sr_messages r = batches ! 0"
    "stands (Some (sr_checkpoint r)) 1"
    using step [OF start _ assms(1)] assms(3) by (cases "batches = []") auto
  obtain r2 p2 where r2: "sync (Some (sr_checkpoint r)) p' = (Inr r2, p2)" "idle p2" "sr_messages r2 = batches ! 1"
    using step [OF r(4) _ r(2)] assms(3) by auto
  obtain b c bs where b: "batches = b # c # bs" using assms(3) by (cases batches; cases "tl batches") auto
  have "\<not> list_ex (\<lambda>i. i \<in> set (idsOf b)) (idsOf c)"
    using assms(2) unfolding b list_ex_iff idsOf_def by auto
  then show ?thesis using r r2 b assms(4) by (auto simp: checkInitialSync_def checked_def check_simps)
qed

end

text \<open>The mock's backfill as the suite calls it, whatever stands beside the mock.\<close>

interpretation mockCertified: resumable_sync "\<lambda>cp. onMock (mockInitialSync cp)" "\<lambda>p. mk_failureMode (fst p) = None"
  "syntheticBatches ''initial'' 12 3" "atBatch 12"
proof
  fix cp :: "nat SyncCheckpoint option" and k and p :: "MockState \<times> 'q"
  assume a: "atBatch 12 cp k" "k < length (syntheticBatches ''initial'' 12 3)" "mk_failureMode (fst p) = None"
  show "\<exists>r p'. onMock (mockInitialSync cp) p = (Inr r, p') \<and> mk_failureMode (fst p') = None
    \<and> sr_messages r = syntheticBatches ''initial'' 12 3 ! k \<and> atBatch 12 (Some (sr_checkpoint r)) (Suc k)
    \<and> (sr_complete r \<longleftrightarrow> Suc k = length (syntheticBatches ''initial'' 12 3))"
    using mockInitial.step [OF a] by (auto simp: onMock_def)
qed (rule mockInitial.start)

text \<open>A sync of the mock leaves its state alone, and so do the checks of it.\<close>

lemma mock_sync_state:
  "snd (onMock (mockInitialSync cp) p) = p" "snd (onMock (mockReconcile cp) p) = p"
  by (simp_all add: onMock_def mockInitialSync_def mockReconcile_def throwIfSimulatingFailure_def ok_def split: option.split)

lemma state_bindO: "snd (m p) = p \<Longrightarrow> (\<And>a. snd (f a p) = p) \<Longrightarrow> snd (bindO m f p) = p"
  by (cases "m p"; cases "fst (m p)") auto

lemma state_checked: "snd (m p) = p \<Longrightarrow> snd (checked m p) = p"
  by (auto simp: checked_def split: prod.split sum.split)

lemma bounded_state:
  assumes "\<And>cp. snd (sync cp p) = p"
  shows "snd (checkBounded sync n cp seen p) = p"
  by (induction n arbitrary: cp seen) (auto simp: throw_def ok_def assms simp del: bindO.simps intro!: state_bindO split: option.split)

lemma sync_check_states:
  assumes "\<And>cp. snd (sync cp p) = p"
  shows "snd (checkInitialSync sync p) = p" "snd (checkCompletes sync p) = p" "snd (checkReconcile sync p) = p"
  unfolding checkInitialSync_def checkCompletes_def checkReconcile_def
  by (auto simp: assms check_simps simp del: bindO.simps intro!: state_bindO state_checked bounded_state)

lemma synthetic_distinct: "distinct (idsOf (concat (syntheticBatches ''initial'' 12 3)))"
  by code_simp

lemma synthetic_shape: "length (syntheticBatches ''initial'' 12 3) = 3" "syntheticBatches ''initial'' 12 3 ! 0 \<noteq> []"
  by (simp_all add: syntheticBatches_def)

lemma mock_backfill_checks:
  assumes "mk_failureMode (fst p) = None"
  shows "checkInitialSync (\<lambda>cp. onMock (mockInitialSync cp)) p = (Inr (), p)"
    "checkCompletes (\<lambda>cp. onMock (mockInitialSync cp)) p = (Inr (), p)"
    "checkReconcile (\<lambda>cp. onMock (mockReconcile cp)) p = (Inr (), p)"
proof -
  note keep = sync_check_states [of "\<lambda>cp. onMock (mockInitialSync cp)" p, OF mock_sync_state(1)]
  show "checkInitialSync (\<lambda>cp. onMock (mockInitialSync cp)) p = (Inr (), p)"
    using mockCertified.certified_resume [of p] keep(1) assms synthetic_distinct synthetic_shape by fastforce
  show "checkCompletes (\<lambda>cp. onMock (mockInitialSync cp)) p = (Inr (), p)"
    using mockCertified.certified_complete [of p] keep(2) assms synthetic_distinct synthetic_shape
    by (fastforce simp: MAX_ITERATIONS_def)
  show "checkReconcile (\<lambda>cp. onMock (mockReconcile cp)) p = (Inr (), p)"
    using assms by (simp add: checkReconcile_def checked_def onMock_def mockReconcile_def throwIfSimulatingFailure_def
        runSyntheticSync_def processedOf_def MOCK_RECONCILE_TOTAL_def DEFAULT_BATCH_SIZE_def check_simps)
qed

lemma failing_sync:
  assumes "\<And>cp. \<exists>e. sync cp p = (Inl e, p)"
  shows "\<exists>m. checkInitialSync sync p = (Inl (CheckFailed m), p)" "\<exists>m. checkCompletes sync p = (Inl (CheckFailed m), p)"
    "\<exists>m. checkReconcile sync p = (Inl (CheckFailed m), p)"
proof -
  obtain e where e: "sync None p = (Inl e, p)" using assms by blast
  then have "checkBounded sync MAX_ITERATIONS None [] p = (Inl e, p)" by (simp add: MAX_ITERATIONS_def eval_nat_numeral)
  then show "\<exists>m. checkInitialSync sync p = (Inl (CheckFailed m), p)" "\<exists>m. checkCompletes sync p = (Inl (CheckFailed m), p)"
    "\<exists>m. checkReconcile sync p = (Inl (CheckFailed m), p)"
    using e by (simp_all add: checkInitialSync_def checkCompletes_def checkReconcile_def checked_def)
qed

lemma failing_mock:
  assumes "mk_failureMode (fst p) = Some c"
  shows "\<exists>e. onMock (mockInitialSync cp) p = (Inl e, p)" "\<exists>e. onMock (mockReconcile cp) p = (Inl e, p)"
  using assms by (simp_all add: onMock_def mockInitialSync_def mockReconcile_def throwIfSimulatingFailure_def)

lemma mock_error_checks:
  "checkErrorCodes mockMapError MOCK_ERROR_FIXTURES p = (Inr (), p)"
  "checkRedaction mockMapError MOCK_ERROR_FIXTURES p = (Inr (), p)"
proof -
  have "list_all (\<lambda>f. ce_code (mockMapError (cef_raw f)) = cef_expectedCode f) MOCK_ERROR_FIXTURES" by code_simp
  then show "checkErrorCodes mockMapError MOCK_ERROR_FIXTURES p = (Inr (), p)"
    unfolding checkErrorCodes_def by (intro checkEach_pass) (auto simp: list_all_iff check_simps)
  have "list_all (\<lambda>f. case cef_secretInMessage f of None \<Rightarrow> True
      | Some x \<Rightarrow> \<not> strIncludes (ce_message (mockMapError (cef_raw f))) x) MOCK_ERROR_FIXTURES" by code_simp
  then show "checkRedaction mockMapError MOCK_ERROR_FIXTURES p = (Inr (), p)"
    unfolding checkRedaction_def by (intro checkEach_pass) (auto simp: list_all_iff check_simps split: option.split)
qed

lemma mock_message_checks:
  "checkDeterministic mapper xs p = (Inr (), p)" "checkRequired mockMapMessage MOCK_MESSAGE_FIXTURES p = (Inr (), p)"
  "checkFixtures mockCertificationOptions p = (Inr (), p)"
  by (simp_all add: checkDeterministic_def checkRequired_def checkFixtures_def mockCertificationOptions_def
      MOCK_MESSAGE_FIXTURES_def MOCK_ERROR_FIXTURES_def missingFields_def mockMapMessage_def check_simps checkEach_pass)

lemma mock_credential_checks:
  "checkValidCredential mockConnector (JStr ''mock-valid-certification-credential'') p = (Inr (), p)"
  "checkInvalidCredential mockConnector (JStr ''not-a-valid-credential'') p = (Inr (), p)"
  by (simp_all add: checkValidCredential_def checkInvalidCredential_def authenticate_def mockConnector_def mockValidate_def
      mockAccount_def onMock_def checked_def check_simps)

lemma mock_manifest_checks:
  "checkManifest (cn_manifest mockConnector) p = (Inr (), p)" "checkHybrid (cn_manifest mockConnector) p = (Inr (), p)"
  by (simp_all add: checkManifest_def checkHybrid_def mockConnector_def defineCapabilityManifest_def requiresReconciliation_def
      check_simps)

definition afterProbe :: "MockState \<times> 'q \<Rightarrow> MockState \<times> 'q" where
  "afterProbe p = ((fst p)\<lparr>mk_failureMode := None, mk_nextUuid := Suc (mk_nextUuid (fst p))\<rparr>, snd p)"

lemma mock_backpressure: "checkBackpressure mockCandidate context p = (Inr (), afterProbe p)"
  by (simp add: checkBackpressure_def mockCandidate_def mockConnector_def mockSend_def simulateFailure_def onMock_def
      checked_def afterProbe_def check_simps)

text \<open>One run, check by check; only the three syncing checks look at a simulated failure.\<close>

lemma mock_sync_verdicts:
  fixes p :: "MockState \<times> 'q"
  defines "sync \<equiv> \<lambda>cp. onMock (mockInitialSync cp)" and "pass \<equiv> mk_failureMode (fst p) = None"
  shows "\<exists>d. recordCheck name (checkInitialSync sync) (rs, p)
      = (rs @ [\<lparr>ccr_name = name, ccr_passed = pass, ccr_skipped = False, ccr_detail = d\<rparr>], p)"
    "\<exists>d. recordCheck name (checkCompletes sync) (rs, p)
      = (rs @ [\<lparr>ccr_name = name, ccr_passed = pass, ccr_skipped = False, ccr_detail = d\<rparr>], p)"
    "\<exists>d. recordCheck name (checkReconcile (\<lambda>cp. onMock (mockReconcile cp))) (rs, p)
      = (rs @ [\<lparr>ccr_name = name, ccr_passed = pass, ccr_skipped = False, ccr_detail = d\<rparr>], p)"
proof -
  show "\<exists>d. recordCheck name (checkInitialSync sync) (rs, p)
      = (rs @ [\<lparr>ccr_name = name, ccr_passed = pass, ccr_skipped = False, ccr_detail = d\<rparr>], p)"
    unfolding sync_def pass_def
    using mock_backfill_checks(1) [of p] failing_sync(1) [of "\<lambda>cp. onMock (mockInitialSync cp)" p] failing_mock(1) [of p]
    by (cases "mk_failureMode (fst p)") (fastforce simp: recordCheck_def)+
  show "\<exists>d. recordCheck name (checkCompletes sync) (rs, p)
      = (rs @ [\<lparr>ccr_name = name, ccr_passed = pass, ccr_skipped = False, ccr_detail = d\<rparr>], p)"
    unfolding sync_def pass_def
    using mock_backfill_checks(2) [of p] failing_sync(2) [of "\<lambda>cp. onMock (mockInitialSync cp)" p] failing_mock(1) [of p]
    by (cases "mk_failureMode (fst p)") (fastforce simp: recordCheck_def)+
  show "\<exists>d. recordCheck name (checkReconcile (\<lambda>cp. onMock (mockReconcile cp))) (rs, p)
      = (rs @ [\<lparr>ccr_name = name, ccr_passed = pass, ccr_skipped = False, ccr_detail = d\<rparr>], p)"
    unfolding pass_def
    using mock_backfill_checks(3) [of p] failing_sync(3) [of "\<lambda>cp. onMock (mockReconcile cp)" p] failing_mock(2) [of p]
    by (cases "mk_failureMode (fst p)") (fastforce simp: recordCheck_def)+
qed

lemma recordCheck_pass: "fn p = (Inr (), p') \<Longrightarrow> recordCheck name fn (rs, p)
    = (rs @ [\<lparr>ccr_name = name, ccr_passed = True, ccr_skipped = False, ccr_detail = None\<rparr>], p')"
  by (simp add: recordCheck_def)

lemma mock_run:
  "\<exists>rs. certifyConnector now mockCandidate mockCertificationOptions p
      = (\<lparr>crp_providerKey = ''mock'', crp_results = rs, crp_passed = list_all ccr_passed rs\<rparr>, afterProbe p) \<and>
    map ccr_passed rs = replicate 10 True @ replicate 3 (mk_failureMode (fst p) = None) @ replicate 3 True \<and>
    list_all (\<lambda>r. \<not> ccr_skipped r) rs"
proof -
  obtain d1 where d1: "\<And>name rs. recordCheck name (checkInitialSync (\<lambda>cp. onMock (mockInitialSync cp))) (rs, p)
      = (rs @ [\<lparr>ccr_name = name, ccr_passed = (mk_failureMode (fst p) = None), ccr_skipped = False, ccr_detail = d1 name rs\<rparr>], p)"
    using mock_sync_verdicts(1) [of _ _ p] by metis
  obtain d2 where d2: "\<And>name rs. recordCheck name (checkCompletes (\<lambda>cp. onMock (mockInitialSync cp))) (rs, p)
      = (rs @ [\<lparr>ccr_name = name, ccr_passed = (mk_failureMode (fst p) = None), ccr_skipped = False, ccr_detail = d2 name rs\<rparr>], p)"
    using mock_sync_verdicts(2) [of _ _ p] by metis
  obtain d3 where d3: "\<And>name rs. recordCheck name (checkReconcile (\<lambda>cp. onMock (mockReconcile cp))) (rs, p)
      = (rs @ [\<lparr>ccr_name = name, ccr_passed = (mk_failureMode (fst p) = None), ccr_skipped = False, ccr_detail = d3 name rs\<rparr>], p)"
    using mock_sync_verdicts(3) [of _ _ p] by metis
  have candidate: "cd_connector mockCandidate = mockConnector" "cd_mapMessage mockCandidate = mockMapMessage"
    "cd_mapError mockCandidate = mockMapError"
    "cd_initialSync mockCandidate c = (\<lambda>cp. onMock (mockInitialSync cp))"
    "cd_reconcile mockCandidate c = (\<lambda>cp. onMock (mockReconcile cp))" for c
    by (simp_all add: mockCandidate_def)
  have options: "cop_messageFixtures mockCertificationOptions = MOCK_MESSAGE_FIXTURES"
    "cop_errorFixtures mockCertificationOptions = MOCK_ERROR_FIXTURES"
    "cop_validCredential mockCertificationOptions = JStr ''mock-valid-certification-credential''"
    "cop_invalidCredential mockCertificationOptions = JStr ''not-a-valid-credential''"
    by (simp_all add: mockCertificationOptions_def)
  have key: "mf_providerKey (cn_manifest mockConnector) = ''mock''"
    by (simp add: mockConnector_def MOCK_PROVIDER_KEY_def)
  show ?thesis
    unfolding certifyConnector_def certificationChecks_def Let_def candidate options key
    by (simp add: recordCheck_pass lifecycle_checks mock_manifest_checks mock_credential_checks mock_message_checks
        mock_error_checks mock_backpressure d1 d2 d3 eval_nat_numeral)
qed

text \<open>The mock connector's run of the certification suite has sixteen verdicts, none of
  them skipped: the three checks of syncing pass exactly when the connector simulates no
  failure, all others pass always, and the run itself clears a simulated failure, so the
  run that follows is certified.
\<close>
theorem mock_certification:
  "map ccr_passed (crp_results (fst (certifyConnector now mockCandidate mockCertificationOptions p)))
     = replicate 10 True @ replicate 3 (mk_failureMode (fst p) = None) @ replicate 3 True \<and>
   list_all (\<lambda>r. \<not> ccr_skipped r) (crp_results (fst (certifyConnector now mockCandidate mockCertificationOptions p))) \<and>
   crp_passed (fst (certifyConnector now' mockCandidate mockCertificationOptions
     (snd (certifyConnector now mockCandidate mockCertificationOptions p))))"
proof -
  obtain rs where rs: "certifyConnector now mockCandidate mockCertificationOptions p
      = (\<lparr>crp_providerKey = ''mock'', crp_results = rs, crp_passed = list_all ccr_passed rs\<rparr>, afterProbe p)"
    "map ccr_passed rs = replicate 10 True @ replicate 3 (mk_failureMode (fst p) = None) @ replicate 3 True"
    "list_all (\<lambda>r. \<not> ccr_skipped r) rs"
    using mock_run by blast
  obtain rs' where rs': "certifyConnector now' mockCandidate mockCertificationOptions (afterProbe p)
      = (\<lparr>crp_providerKey = ''mock'', crp_results = rs', crp_passed = list_all ccr_passed rs'\<rparr>, afterProbe (afterProbe p))"
    "map ccr_passed rs' = replicate 10 True @ replicate 3 (mk_failureMode (fst (afterProbe p)) = None) @ replicate 3 True"
    using mock_run [of now' "afterProbe p"] by blast
  have "set (map ccr_passed rs') = {True}" unfolding rs'(2) by (simp add: afterProbe_def)
  then have "list_all ccr_passed rs'" by (auto simp: list_all_iff)
  then show ?thesis using rs rs'(1) by simp
qed

section \<open>The development endpoint of the mock connector\<close>

text \<open>The body of \<open>POST dev/mock-connector/send\<close>. Nothing validates it and the handler spreads
  it over the resolved workspace, so a \<open>workspaceId\<close> in it counts although its type names none.\<close>

record SendMockMessageDto =
  smd_workspaceId :: "uuid option"
  smd_senderExternalId :: "string option"
  smd_senderDisplayName :: "string option"
  smd_bodyText :: "string option"
  smd_conversationExternalId :: "string option"

definition generateMockMessage :: "env \<Rightarrow> instant \<Rightarrow> uuid \<Rightarrow> SendMockMessageDto \<Rightarrow> world \<Rightarrow> InboundMessagePayload \<times> world" where
  "generateMockMessage E now workspaceId options s =
     (let senderExternalId = case_option ''mock-user-1'' id (smd_senderExternalId options);
          conversationExternalId = case_option (''mock-conversation-'' @ senderExternalId) id (smd_conversationExternalId options);
          raw = \<lparr>mrm_id = uuidText (draw E s), mrm_conversationId = conversationExternalId,
            mrm_conversationTitle = Some (case_option ''Mock Conversation'' id (smd_senderDisplayName options)),
            mrm_direction = Inbound,
            mrm_text = case_option ''This is a synthetic message from the Mock Connector.'' id (smd_bodyText options),
            mrm_receivedAt = now, mrm_senderId = Some senderExternalId, mrm_senderHandle = Some (CHR ''@'' # senderExternalId),
            mrm_senderName = Some (case_option ''Mock User'' id (smd_senderDisplayName options))\<rparr>;
          normalized = mockMapMessage raw
      in (\<lparr>pl_workspaceId = case_option workspaceId id (smd_workspaceId options), pl_providerKey = MOCK_PROVIDER_KEY,
            pl_conversationExternalId = nm_conversationExternalId normalized,
            pl_conversationTitle = nm_conversationTitle normalized,
            pl_senderExternalId = case_option senderExternalId id (nm_senderExternalId normalized),
            pl_senderHandle = nm_senderHandle normalized, pl_senderDisplayName = nm_senderDisplayName normalized,
            pl_messageExternalId = nm_externalId normalized, pl_bodyText = nm_bodyText normalized,
            pl_receivedAt = nm_receivedAt normalized, pl_direction = nm_direction normalized, pl_linkedAccountId = None\<rparr>,
          drawn 1 s))"

definition resolveWorkspaceId :: "env \<Rightarrow> instant \<Rightarrow> string option \<Rightarrow> exn + uuid" where
  "resolveWorkspaceId E now authorization = (let token = extractBearerToken authorization in
     if \<not> nonEmpty token then Inr DEV_WORKSPACE_ID
     else (case verifyJwt E (the token) now of
         None \<Rightarrow> Inl (HttpError 401 ''UNAUTHENTICATED'') | Some claims \<Rightarrow> Inr (jwt_workspaceId claims)))"

text \<open>The event names the resolved workspace, its payload the one of \<open>generateMockMessage\<close>; the
  answer is the event's id and the payload.\<close>

definition sendMockMessage :: "env \<Rightarrow> bool \<Rightarrow> instant \<Rightarrow> SendMockMessageDto \<Rightarrow> string option
    \<Rightarrow> (world, exn, string \<times> InboundMessagePayload) oper" where
  "sendMockMessage E production now dto authorization s =
     (if production then (Inl (HttpError 404 ''NOT_FOUND''), s)
      else (case resolveWorkspaceId E now authorization of
          Inl e \<Rightarrow> (Inl e, s)
        | Inr workspaceId \<Rightarrow> (case generateMockMessage E now workspaceId dto s of
            (payload, s1) \<Rightarrow> (let eventId = uuidText (draw E s1) in
              (Inr (eventId, payload), publish now eventId workspaceId (MessageReceived payload) (drawn 2 s1))))))"

text \<open>The endpoint does nothing in production, and elsewhere queues one message; a body
  that names a workspace sends it there, whatever workspace the token is for.
\<close>
theorem mock_message_workspace:
  "sendMockMessage E True now dto authorization s = (Inl (HttpError 404 ''NOT_FOUND''), s) \<and>
   (case sendMockMessage E False now (dto\<lparr>smd_workspaceId := Some w\<rparr>) authorization s of
      (Inr (eventId, payload), s') \<Rightarrow> pl_workspaceId payload = w \<and> pl_providerKey payload = ''mock'' \<and>
        (list_ex (\<lambda>j. qj_queue j = EVENTS_QUEUE_NAME \<and> qj_id j = eventId) (queueJobs s) \<or>
         map qj_data (queueJobs s') = map qj_data (queueJobs s) @ [MessageReceived payload])
    | (Inl e, s') \<Rightarrow> e = HttpError 401 ''UNAUTHENTICATED'' \<and> s' = s)"
  by (auto simp: sendMockMessage_def resolveWorkspaceId_def generateMockMessage_def publish_def drawn_def
      MOCK_PROVIDER_KEY_def Let_def split: option.splits)

end
