(* ===== verification/Web_Screens.thy ===== *)
theory Web_Screens
  imports Web_Shell Identity Connector_Platform
begin

text \<open>
  The people and the connector screens of the web client (\<open>People.tsx\<close>,
  \<open>ConnectorManagement.tsx\<close>) over the endpoints they call. As on the other screens of the shell
  a handler runs to its end before the next one starts, so the flags of a request under way
  are left out, and an error is kept as the one the server threw.
\<close>

section \<open>People\<close>

record people =
  pe_contacts :: "ContactView list"
  pe_contactsError :: "exn option"
  pe_selectedId :: "uuid option"
  pe_mergeSuggestions :: "MergeSuggestionView list"
  pe_suggestionsError :: "exn option"
  pe_actionError :: "exn option"
  pe_splitSelection :: "uuid list"

definition openPeople :: people where
  "openPeople = \<lparr>pe_contacts = [], pe_contactsError = None, pe_selectedId = None, pe_mergeSuggestions = [],
     pe_suggestionsError = None, pe_actionError = None, pe_splitSelection = []\<rparr>"

type_synonym people_state = "people \<times> browser \<times> world"

text \<open>Both lists ask without parameters, so they show the first page of the server's list.\<close>

definition contactsRoute :: "env \<Rightarrow> instant \<Rightarrow> string option \<Rightarrow> (world, exn, ContactView list) oper" where
  "contactsRoute E now auth = guarded E now auth None
     (\<lambda>c s. (Inr (pg_data (listContacts (jwt_workspaceId c) None None None s None)), s))"

definition suggestionsRoute :: "env \<Rightarrow> instant \<Rightarrow> string option \<Rightarrow> (world, exn, MergeSuggestionView list) oper" where
  "suggestionsRoute E now auth = guarded E now auth None (\<lambda>c s. (Inr (pg_data (listSuggestions c None s None)), s))"

definition loadContacts :: "env \<Rightarrow> authConfig \<Rightarrow> instant \<Rightarrow> RequestContext \<Rightarrow> string \<Rightarrow> people_state \<Rightarrow> people_state" where
  "loadContacts E C now ctx token st = (case st of (pe, b, s) \<Rightarrow>
     (case viaFetch E C now ctx (contactsRoute E now) token b s of
        (Inl e, b1, s1) \<Rightarrow> (pe\<lparr>pe_contactsError := Some e\<rparr>, b1, s1)
      | (Inr cs, b1, s1) \<Rightarrow> (pe\<lparr>pe_contacts := cs, pe_contactsError := None\<rparr>, b1, s1)))"

definition loadSuggestions :: "env \<Rightarrow> authConfig \<Rightarrow> instant \<Rightarrow> RequestContext \<Rightarrow> string \<Rightarrow> people_state \<Rightarrow> people_state" where
  "loadSuggestions E C now ctx token st = (case st of (pe, b, s) \<Rightarrow>
     (case viaFetch E C now ctx (suggestionsRoute E now) token b s of
        (Inl e, b1, s1) \<Rightarrow> (pe\<lparr>pe_suggestionsError := Some e\<rparr>, b1, s1)
      | (Inr gs, b1, s1) \<Rightarrow> (pe\<lparr>pe_mergeSuggestions := gs, pe_suggestionsError := None\<rparr>, b1, s1)))"

text \<open>The two loads of the first rendering; of two requests in flight the first answered comes first.\<close>

definition mountPeople :: "env \<Rightarrow> authConfig \<Rightarrow> instant \<Rightarrow> RequestContext \<Rightarrow> string \<Rightarrow> people_state \<Rightarrow> people_state" where
  "mountPeople E C now ctx token st = loadSuggestions E C now ctx token (loadContacts E C now ctx token st)"

definition selectedContact :: "people \<Rightarrow> ContactView option" where
  "selectedContact pe = findFirst (\<lambda>c. Some (cov_id c) = pe_selectedId pe) (pe_contacts pe)"

definition handleToggleVip ::
  "env \<Rightarrow> authConfig \<Rightarrow> instant \<Rightarrow> RequestContext \<Rightarrow> string \<Rightarrow> ContactView \<Rightarrow> people_state \<Rightarrow> people_state" where
  "handleToggleVip E C now ctx token contact st = (case st of (pe, b, s) \<Rightarrow>
     (case viaFetch E C now ctx (\<lambda>auth. guarded E now auth None
          (updateContact E (cov_id contact) (Some (\<not> cov_isVip contact)))) token b s of
        (Inl e, b1, s1) \<Rightarrow> (pe\<lparr>pe_actionError := Some e\<rparr>, b1, s1)
      | (Inr _, b1, s1) \<Rightarrow> loadContacts E C now ctx token (pe\<lparr>pe_actionError := None\<rparr>, b1, s1)))"

definition toggleSplitSelection :: "uuid \<Rightarrow> people \<Rightarrow> people" where
  "toggleSplitSelection identityId pe = pe\<lparr>pe_splitSelection :=
     (if identityId \<in> set (pe_splitSelection pe) then removeAll identityId (pe_splitSelection pe)
      else pe_splitSelection pe @ [identityId])\<rparr>"

definition splitReason :: string where
  "splitReason = ''Manual split from People screen''"

definition handleSplit :: "env \<Rightarrow> authConfig \<Rightarrow> instant \<Rightarrow> RequestContext \<Rightarrow> string \<Rightarrow> people_state \<Rightarrow> people_state" where
  "handleSplit E C now ctx token st = (case st of (pe, b, s) \<Rightarrow>
     (case selectedContact pe of
        None \<Rightarrow> st
      | Some shown \<Rightarrow>
          if pe_splitSelection pe = [] then st
          else (case viaFetch E C now ctx (\<lambda>auth. guarded E now auth None
              (splitRoute E now (cov_id shown) (Some (pe_splitSelection pe)) (Some splitReason))) token b s of
            (Inl e, b1, s1) \<Rightarrow> (pe\<lparr>pe_actionError := Some e\<rparr>, b1, s1)
          | (Inr _, b1, s1) \<Rightarrow> loadContacts E C now ctx token
              (pe\<lparr>pe_actionError := None, pe_splitSelection := [], pe_selectedId := None\<rparr>, b1, s1))))"

definition handleApproveSuggestion ::
  "env \<Rightarrow> bool \<Rightarrow> authConfig \<Rightarrow> instant \<Rightarrow> RequestContext \<Rightarrow> string \<Rightarrow> uuid \<Rightarrow> people_state \<Rightarrow> people_state" where
  "handleApproveSuggestion E commits C now ctx token i st = (case st of (pe, b, s) \<Rightarrow>
     (case viaFetch E C now ctx (\<lambda>auth. guarded E now auth None (approveRoute E commits now i)) token b s of
        (Inl e, b1, s1) \<Rightarrow> (pe\<lparr>pe_actionError := Some e\<rparr>, b1, s1)
      | (Inr _, b1, s1) \<Rightarrow> loadContacts E C now ctx token
          (loadSuggestions E C now ctx token (pe\<lparr>pe_actionError := None\<rparr>, b1, s1))))"

definition handleRejectSuggestion ::
  "env \<Rightarrow> authConfig \<Rightarrow> instant \<Rightarrow> RequestContext \<Rightarrow> string \<Rightarrow> uuid \<Rightarrow> people_state \<Rightarrow> people_state" where
  "handleRejectSuggestion E C now ctx token i st = (case st of (pe, b, s) \<Rightarrow>
     (case viaFetch E C now ctx (\<lambda>auth. guarded E now auth None (rejectRoute E now i)) token b s of
        (Inl e, b1, s1) \<Rightarrow> (pe\<lparr>pe_actionError := Some e\<rparr>, b1, s1)
      | (Inr _, b1, s1) \<Rightarrow> loadSuggestions E C now ctx token (pe\<lparr>pe_actionError := None\<rparr>, b1, s1)))"

text \<open>Opening a contact forgets the identities ticked for the one before; going back does not.\<close>

definition openContact :: "uuid \<Rightarrow> people \<Rightarrow> people" where
  "openContact i pe = pe\<lparr>pe_selectedId := Some i, pe_splitSelection := []\<rparr>"

definition backToPeople :: "people \<Rightarrow> people" where
  "backToPeople pe = pe\<lparr>pe_selectedId := None\<rparr>"

text \<open>What is offered: the duplicates, the hint of an empty list, the boxes and the split button.\<close>

definition showsSuggestions :: "people \<Rightarrow> bool" where
  "showsSuggestions pe \<longleftrightarrow> pe_suggestionsError pe = None \<and> pe_mergeSuggestions pe \<noteq> []"

definition showsNoPeople :: "people \<Rightarrow> bool" where
  "showsNoPeople pe \<longleftrightarrow> pe_contactsError pe = None \<and> pe_contacts pe = []"

definition boxEnabled :: "ContactView \<Rightarrow> bool" where
  "boxEnabled c \<longleftrightarrow> 1 < length (cov_identities c)"

definition splitEnabled :: "people \<Rightarrow> bool" where
  "splitEnabled pe \<longleftrightarrow> (case selectedContact pe of None \<Rightarrow> False | Some c \<Rightarrow> 1 < length (cov_identities c))
     \<and> pe_splitSelection pe \<noteq> []"

section \<open>Connectors\<close>

text \<open>The same request layer for routes that reach a provider.\<close>

definition guardedP :: "env \<Rightarrow> instant \<Rightarrow> string option \<Rightarrow> (jwt_claims \<Rightarrow> ('p platform, exn, 'a) oper) \<Rightarrow> ('p platform, exn, 'a) oper" where
  "guardedP E now auth handler st = (case jwtAuthGuard E now auth (fst st) of
      Inl e \<Rightarrow> (Inl e, st) | Inr claims \<Rightarrow> handler claims st)"

definition viaPlatform ::
  "env \<Rightarrow> authConfig \<Rightarrow> instant \<Rightarrow> RequestContext \<Rightarrow> (string option \<Rightarrow> ('p platform, exn, 'a) oper) \<Rightarrow> string
    \<Rightarrow> browser \<Rightarrow> 'p platform \<Rightarrow> (exn + 'a) \<times> browser \<times> 'p platform" where
  "viaPlatform E C now ctx route token b st = (case route (bearer token) st of
      (Inl e, st1) \<Rightarrow>
        if (case e of HttpError n c \<Rightarrow> n = 401 | _ \<Rightarrow> False)
        then (case sharedRefresh E C now ctx b (fst st1) of
            (None, b1, s2) \<Rightarrow> (Inl e, b1, (s2, snd st1))
          | (Some t, b1, s2) \<Rightarrow> (case route (bearer t) (s2, snd st1) of (r, st3) \<Rightarrow> (r, b1, st3)))
        else (Inl e, b, st1)
    | (Inr x, st1) \<Rightarrow> (Inr x, b, st1))"

datatype connect_status = ConnectedAs ConnectedAccount | ConnectFailed exn

record connector_screen =
  cs_connectors :: "ConnectorView list"
  cs_loadError :: "exn option"
  cs_confirmDisconnectId :: "uuid option"
  cs_botToken :: string
  cs_telegramStatus :: "connect_status option"
  cs_discordStatus :: "connect_status option"
  cs_slackStatus :: "connect_status option"
  cs_imapHost :: string
  cs_smtpHost :: string
  cs_emailUsername :: string
  cs_emailPassword :: string
  cs_emailStatus :: "connect_status option"
  cs_location :: "string option"

type_synonym 'p connectors_state = "connector_screen \<times> browser \<times> 'p platform"

definition connectorsRoute :: "env \<Rightarrow> instant \<Rightarrow> string option \<Rightarrow> ('p platform, exn, ConnectorView list) oper" where
  "connectorsRoute E now auth = guardedP E now auth (\<lambda>c w. (Inr (listConnectors (jwt_workspaceId c) (fst w)), w))"

definition loadConnectors :: "env \<Rightarrow> authConfig \<Rightarrow> instant \<Rightarrow> RequestContext \<Rightarrow> string \<Rightarrow> 'p connectors_state \<Rightarrow> 'p connectors_state" where
  "loadConnectors E C now ctx token st = (case st of (cs, b, w) \<Rightarrow>
     (case viaPlatform E C now ctx (connectorsRoute E now) token b w of
        (Inl e, b1, w1) \<Rightarrow> (cs\<lparr>cs_loadError := Some e\<rparr>, b1, w1)
      | (Inr xs, b1, w1) \<Rightarrow> (cs\<lparr>cs_connectors := xs, cs_loadError := None\<rparr>, b1, w1)))"

text \<open>The path of a disconnect is made of the account's provider; there is no handler for a
  provider other than the four.\<close>

definition disconnectRoute ::
  "env \<Rightarrow> 'p api_clients \<Rightarrow> 'p gateway_client \<Rightarrow> instant \<Rightarrow> string \<Rightarrow> uuid \<Rightarrow> jwt_claims
    \<Rightarrow> ('p platform, exn, uuid \<times> LifecycleState) oper" where
  "disconnectRoute E A G now provider i =
     (if provider = ''telegram'' then disconnectTelegram E (api_telegram A) now i
      else if provider = ''discord'' then disconnectDiscord E G now i
      else if provider = ''slack'' then disconnectSlack E now i
      else if provider = ''email'' then disconnectEmail E now i
      else (\<lambda>c w. (Inl (HttpError 404 ''NOT_FOUND''), w)))"

definition handleDisconnect ::
  "env \<Rightarrow> 'p api_clients \<Rightarrow> 'p gateway_client \<Rightarrow> authConfig \<Rightarrow> instant \<Rightarrow> RequestContext \<Rightarrow> string \<Rightarrow> ConnectorView
    \<Rightarrow> 'p connectors_state \<Rightarrow> 'p connectors_state" where
  "handleDisconnect E A G C now ctx token connector st = (case st of (cs, b, w) \<Rightarrow>
     (case viaPlatform E C now ctx (\<lambda>auth. guardedP E now auth
          (disconnectRoute E A G now (cv_provider connector) (cv_id connector))) token b w of
        (Inl e, b1, w1) \<Rightarrow> (cs\<lparr>cs_loadError := Some e\<rparr>, b1, w1)
      | (Inr _, b1, w1) \<Rightarrow> loadConnectors E C now ctx token (cs\<lparr>cs_confirmDisconnectId := None\<rparr>, b1, w1)))"

definition handleConnectTelegram ::
  "env \<Rightarrow> 'p TelegramApiClient \<Rightarrow> string option \<Rightarrow> authConfig \<Rightarrow> instant \<Rightarrow> RequestContext \<Rightarrow> string
    \<Rightarrow> 'p connectors_state \<Rightarrow> 'p connectors_state" where
  "handleConnectTelegram E api base C now ctx token st = (case st of (cs, b, w) \<Rightarrow>
     if trim (cs_botToken cs) = [] then st
     else (case viaPlatform E C now ctx (\<lambda>auth. guardedP E now auth
          (connectTelegram E api base now (Some (trim (cs_botToken cs))))) token b w of
        (Inl e, b1, w1) \<Rightarrow> (cs\<lparr>cs_telegramStatus := Some (ConnectFailed e)\<rparr>, b1, w1)
      | (Inr r, b1, w1) \<Rightarrow> loadConnectors E C now ctx token
          (cs\<lparr>cs_telegramStatus := Some (ConnectedAs r), cs_botToken := []\<rparr>, b1, w1)))"

text \<open>The two OAuth flows leave the page for the provider's.\<close>

definition handleConnectDiscord ::
  "env \<Rightarrow> discordConfig \<Rightarrow> authConfig \<Rightarrow> instant \<Rightarrow> RequestContext \<Rightarrow> string \<Rightarrow> 'p connectors_state \<Rightarrow> 'p connectors_state" where
  "handleConnectDiscord E D C now ctx token st = (case st of (cs, b, w) \<Rightarrow>
     (case viaPlatform E C now ctx (\<lambda>auth. guardedP E now auth (\<lambda>c. onWorld (connectDiscord E D now c))) token b w of
        (Inl e, b1, w1) \<Rightarrow> (cs\<lparr>cs_discordStatus := Some (ConnectFailed e)\<rparr>, b1, w1)
      | (Inr authorizationUrl, b1, w1) \<Rightarrow> (cs\<lparr>cs_location := Some authorizationUrl\<rparr>, b1, w1)))"

definition handleConnectSlack ::
  "env \<Rightarrow> slackConfig \<Rightarrow> authConfig \<Rightarrow> instant \<Rightarrow> RequestContext \<Rightarrow> string \<Rightarrow> 'p connectors_state \<Rightarrow> 'p connectors_state" where
  "handleConnectSlack E S C now ctx token st = (case st of (cs, b, w) \<Rightarrow>
     (case viaPlatform E C now ctx (\<lambda>auth. guardedP E now auth (\<lambda>c. onWorld (connectSlack E S now c))) token b w of
        (Inl e, b1, w1) \<Rightarrow> (cs\<lparr>cs_slackStatus := Some (ConnectFailed e)\<rparr>, b1, w1)
      | (Inr authorizationUrl, b1, w1) \<Rightarrow> (cs\<lparr>cs_location := Some authorizationUrl\<rparr>, b1, w1)))"

text \<open>The form fixes ports and encryption, and sends the password as typed.\<close>

definition emailDto :: "connector_screen \<Rightarrow> ConnectEmailDto" where
  "emailDto cs = \<lparr>ced_imapHost = Some (trim (cs_imapHost cs)), ced_imapPort = Some (Fin 993), ced_imapSecure = Some True,
     ced_smtpHost = Some (trim (cs_smtpHost cs)), ced_smtpPort = Some (Fin 465), ced_smtpSecure = Some True,
     ced_username = Some (trim (cs_emailUsername cs)), ced_password = Some (cs_emailPassword cs)\<rparr>"

definition handleConnectEmail ::
  "env \<Rightarrow> json \<Rightarrow> 'p EmailApiClient \<Rightarrow> authConfig \<Rightarrow> instant \<Rightarrow> RequestContext \<Rightarrow> string
    \<Rightarrow> 'p connectors_state \<Rightarrow> 'p connectors_state" where
  "handleConnectEmail E J api C now ctx token st = (case st of (cs, b, w) \<Rightarrow>
     if trim (cs_imapHost cs) = [] \<or> trim (cs_smtpHost cs) = [] \<or> trim (cs_emailUsername cs) = [] \<or> trim (cs_emailPassword cs) = []
     then st
     else (case viaPlatform E C now ctx (\<lambda>auth. guardedP E now auth (connectEmail E J api now (emailDto cs))) token b w of
        (Inl e, b1, w1) \<Rightarrow> (cs\<lparr>cs_emailStatus := Some (ConnectFailed e)\<rparr>, b1, w1)
      | (Inr r, b1, w1) \<Rightarrow> loadConnectors E C now ctx token
          (cs\<lparr>cs_emailStatus := Some (ConnectedAs r), cs_emailPassword := []\<rparr>, b1, w1)))"

definition confirmingConnector :: "connector_screen \<Rightarrow> ConnectorView option" where
  "confirmingConnector cs = findFirst (\<lambda>c. Some (cv_id c) = cs_confirmDisconnectId cs) (cs_connectors cs)"

definition askDisconnect :: "uuid option \<Rightarrow> connector_screen \<Rightarrow> connector_screen" where
  "askDisconnect i cs = cs\<lparr>cs_confirmDisconnectId := i\<rparr>"

definition PROVIDER_LABELS :: "string \<rightharpoonup> string" where
  "PROVIDER_LABELS = map_of [(''telegram'', ''Telegram''), (''discord'', ''Discord''), (''slack'', ''Slack''), (''email'', ''Email'')]"

fun healthFor :: "LifecycleState \<Rightarrow> string" where
  "healthFor Active = ''Healthy''"
| "healthFor Degraded = ''Degraded''"
| "healthFor ReauthRequired = ''Needs reauthorization''"
| "healthFor ErrorState = ''Error''"
| "healthFor Registered = ''Connecting...''"
| "healthFor Authenticating = ''Connecting...''"
| "healthFor SyncingInitial = ''Connecting...''"
| "healthFor Disconnecting = ''Disconnected''"
| "healthFor Disconnected = ''Disconnected''"

section \<open>What a screen shows after an action\<close>

text \<open>A refresh of the token writes sessions and the audit log, none of the rows shown here.\<close>

definition sameRows :: "world \<Rightarrow> world \<Rightarrow> bool" where
  "sameRows s s' \<longleftrightarrow> contacts s' = contacts s \<and> contactIdentities s' = contactIdentities s \<and>
     mergeSuggestions s' = mergeSuggestions s \<and> linkedAccounts s' = linkedAccounts s \<and> providers s' = providers s"

lemma sameRows_refl [simp]: "sameRows s s"
  by (simp add: sameRows_def)

lemma sameRows_trans: "sameRows s s1 \<Longrightarrow> sameRows s1 s2 \<Longrightarrow> sameRows s s2"
  by (simp add: sameRows_def)

lemma sameRows_auditLog: "sameRows s (auditLog E a s') \<longleftrightarrow> sameRows s s'"
  by (simp add: sameRows_def auditLog_def drawn_def)

lemma sameRows_refresh: "sameRows s (snd (refreshEndpoint E C now cookie ctx s))"
  by (auto simp: refreshEndpoint_def refresh_def rotate_def rotateSession_def revokeWhere_def sameRows_auditLog Let_def
      split: option.split prod.split) (auto simp: sameRows_def drawn_def randomUsed_def)

lemma sameRows_shared: "sharedRefresh E C now ctx b s = (t, b1, s1) \<Longrightarrow> sameRows s s1"
  using sameRows_refresh [of s E C now "br_cookie b" ctx]
  by (auto simp: sharedRefresh_def refreshByCookie_def split: prod.splits sum.splits if_splits)

text \<open>An answer came from the server's rows as they stood, maybe after a refresh.\<close>

lemma viaFetch_answer:
  assumes "viaFetch E C now ctx route token b s = (Inr x, b1, s1)"
    and "\<And>auth c s'. route auth s = (Inl (HttpError 401 c), s') \<Longrightarrow> s' = s"
  shows "\<exists>auth s0. sameRows s s0 \<and> route auth s0 = (Inr x, s1)"
proof -
  obtain r s' where Pair: "route (bearer token) s = (r, s')" by (cases "route (bearer token) s")
  show ?thesis
  proof (cases r)
    case (Inl e)
    then obtain t b2 s2 c where e: "e = HttpError 401 c" "sharedRefresh E C now ctx b s' = (Some t, b2, s2)"
      "route (bearer t) s2 = (Inr x, s1)"
      using assms(1) Pair by (auto simp: viaFetch_def split: exn.splits if_splits prod.splits option.splits)
    then have "s' = s" using assms(2) Pair Inl by blast
    then show ?thesis using e(2,3) sameRows_shared by blast
  qed (use assms Pair in \<open>auto simp: viaFetch_def intro: sameRows_refl\<close>)
qed

lemma viaPlatform_answer:
  assumes "viaPlatform E C now ctx route token b w = (Inr x, b1, w1)"
    and "\<And>auth c w'. route auth w = (Inl (HttpError 401 c), w') \<Longrightarrow> w' = w"
  shows "\<exists>auth w0. sameRows (fst w) (fst w0) \<and> route auth w0 = (Inr x, w1)"
proof -
  obtain r w' where Pair: "route (bearer token) w = (r, w')" by (cases "route (bearer token) w")
  show ?thesis
  proof (cases r)
    case (Inl e)
    then obtain t b2 s2 c where e: "e = HttpError 401 c" "sharedRefresh E C now ctx b (fst w') = (Some t, b2, s2)"
      "route (bearer t) (s2, snd w') = (Inr x, w1)"
      using assms(1) Pair by (auto simp: viaPlatform_def split: exn.splits if_splits prod.splits option.splits)
    then have "w' = w" using assms(2) Pair Inl by blast
    then show ?thesis using e(2,3) sameRows_shared by fastforce
  next
    case (Inr y)
    then have "route (bearer token) w = (Inr x, w1)" using assms(1) Pair by (simp add: viaPlatform_def)
    then show ?thesis using sameRows_refl by blast
  qed
qed

lemma guarded_cases:
  assumes "guarded E now auth required handler s = (r, s')"
  obtains e where "r = Inl e" "s' = s" | claims where "handler claims s = (r, s')"
  using assms by (auto simp: guarded_def split: sum.splits)

lemma guardedP_cases:
  assumes "guardedP E now auth handler w = (r, w')"
  obtains e where "r = Inl e" "w' = w" | claims where "handler claims w = (r, w')"
  using assms by (auto simp: guardedP_def split: sum.splits)

lemma screen_reads:
  "contactsRoute E now auth s = (r, s') \<Longrightarrow> s' = s \<and>
     (\<forall>x. r = Inr x \<longrightarrow> (\<exists>ws. x = pg_data (listContacts ws None None None s None)))"
  "suggestionsRoute E now auth s = (rg, s') \<Longrightarrow> s' = s \<and> (\<forall>x. rg = Inr x \<longrightarrow> (\<exists>c. x = pg_data (listSuggestions c None s None)))"
  "connectorsRoute E now auth w = (r', w') \<Longrightarrow> w' = w \<and> (\<forall>x. r' = Inr x \<longrightarrow> (\<exists>ws. x = listConnectors ws (fst w)))"
  by (auto simp: contactsRoute_def suggestionsRoute_def connectorsRoute_def guarded_def guardedP_def split: sum.splits)

text \<open>A load without an error shows the server's first page of the rows as they stand.\<close>

lemma loadContacts_shows:
  assumes "pe_contactsError (fst (loadContacts E C now ctx token (pe, b, s))) = None"
  shows "\<exists>ws s0. sameRows s s0 \<and>
    fst (loadContacts E C now ctx token (pe, b, s))
      = pe\<lparr>pe_contacts := pg_data (listContacts ws None None None s0 None), pe_contactsError := None\<rparr>"
proof -
  obtain cs b1 s1 where v: "viaFetch E C now ctx (contactsRoute E now) token b s = (Inr cs, b1, s1)"
    using assms by (auto simp: loadContacts_def split: prod.splits sum.splits)
  then show ?thesis
    using viaFetch_answer [OF v] screen_reads(1) [of E now] by (fastforce simp: loadContacts_def)
qed

lemma loadSuggestions_shows:
  assumes "pe_suggestionsError (fst (loadSuggestions E C now ctx token (pe, b, s))) = None"
  shows "\<exists>c s0. sameRows s s0 \<and>
    fst (loadSuggestions E C now ctx token (pe, b, s))
      = pe\<lparr>pe_mergeSuggestions := pg_data (listSuggestions c None s0 None), pe_suggestionsError := None\<rparr>"
proof -
  obtain gs b1 s1 where v: "viaFetch E C now ctx (suggestionsRoute E now) token b s = (Inr gs, b1, s1)"
    using assms by (auto simp: loadSuggestions_def split: prod.splits sum.splits)
  then show ?thesis
    using viaFetch_answer [OF v] screen_reads(2) [of E now] by (fastforce simp: loadSuggestions_def)
qed

lemma loadConnectors_shows:
  assumes "cs_loadError (fst (loadConnectors E C now ctx token (cs, b, w))) = None"
  shows "\<exists>ws s0. sameRows (fst w) s0 \<and>
    fst (loadConnectors E C now ctx token (cs, b, w)) = cs\<lparr>cs_connectors := listConnectors ws s0, cs_loadError := None\<rparr>"
proof -
  obtain xs b1 w1 where v: "viaPlatform E C now ctx (connectorsRoute E now) token b w = (Inr xs, b1, w1)"
    using assms by (auto simp: loadConnectors_def split: prod.splits sum.splits)
  obtain auth w0 where w0: "sameRows (fst w) (fst w0)" "connectorsRoute E now auth w0 = (Inr xs, w1)"
    using viaPlatform_answer [OF v] screen_reads(3) by blast
  then obtain ws where "xs = listConnectors ws (fst w0)" using screen_reads(3) by blast
  then show ?thesis using v w0(1) by (auto simp: loadConnectors_def)
qed

text \<open>A disconnect that succeeds leaves no live row of the account.\<close>

lemma disconnectAccount_gone:
  assumes "disconnectAccount E action revokeFirst now i claims w = (Inr x, w')"
  shows "\<forall>a\<in>set (linkedAccounts (fst w')). la_id a = i \<longrightarrow> la_deletedAt a \<noteq> None"
  using assms
  by (auto simp: disconnectAccount_def pureO_def worldO_def onWorld_def updateAccount_def updateMany_def op_simps auditLog_def drawn_def
      split: option.splits sum.splits prod.splits dest!: findFirst_SomeD)

lemma disconnectRoute_gone:
  assumes "disconnectRoute E A G now provider i claims w = (Inr x, w')"
  shows "\<forall>a\<in>set (linkedAccounts (fst w')). la_id a = i \<longrightarrow> la_deletedAt a \<noteq> None"
  using assms unfolding disconnectRoute_def disconnectTelegram_def disconnectDiscord_def disconnectSlack_def disconnectEmail_def
  by (auto split: if_splits dest: disconnectAccount_gone)

lemma set_orderDesc: "set (orderDesc k rows) = set rows"
proof -
  have "set (insertDesc k r xs) = insert r (set xs)" for r xs by (induction xs) auto
  then show ?thesis by (induction rows) (simp_all add: orderDesc_def)
qed

lemma listConnectors_live: "cv_id v = i \<Longrightarrow> v \<in> set (listConnectors ws s) \<Longrightarrow>
    \<exists>a\<in>set (linkedAccounts s). la_id a = i \<and> la_deletedAt a = None"
  by (auto simp: listConnectors_def set_orderDesc)

text \<open>A disconnect the screen reports no error of takes the account off the screen, even when the
  token was refreshed under way.\<close>

theorem disconnected_account_disappears:
  assumes "cs_loadError (fst (handleDisconnect E A G C now ctx token connector st)) = None"
  shows "cv_id connector \<notin> cv_id ` set (cs_connectors (fst (handleDisconnect E A G C now ctx token connector st)))"
proof -
  obtain cs b w where st: "st = (cs, b, w)" by (cases st)
  let ?route = "\<lambda>auth. guardedP E now auth (disconnectRoute E A G now (cv_provider connector) (cv_id connector))"
  let ?cs = "cs\<lparr>cs_confirmDisconnectId := None\<rparr>"
  obtain x b1 w1 where v: "viaPlatform E C now ctx ?route token b w = (Inr x, b1, w1)"
    using assms by (auto simp: handleDisconnect_def st split: prod.splits sum.splits)
  then have h: "handleDisconnect E A G C now ctx token connector st = loadConnectors E C now ctx token (?cs, b1, w1)"
    by (simp add: handleDisconnect_def st)
  obtain auth w0 where "?route auth w0 = (Inr x, w1)"
    using v by (auto simp: viaPlatform_def split: prod.splits sum.splits if_splits option.splits)
  then have gone: "\<forall>a\<in>set (linkedAccounts (fst w1)). la_id a = cv_id connector \<longrightarrow> la_deletedAt a \<noteq> None"
    by (auto elim!: guardedP_cases dest: disconnectRoute_gone)
  obtain ws s0 where "sameRows (fst w1) s0" "cs_connectors (fst (loadConnectors E C now ctx token (?cs, b1, w1))) = listConnectors ws s0"
    using loadConnectors_shows [of E C now ctx token ?cs b1 w1] assms unfolding h by auto
  then show ?thesis using gone listConnectors_live unfolding h sameRows_def by fastforce
qed

text \<open>The mailbox form sends nothing the endpoint would call incomplete.\<close>

lemma email_form_complete:
  assumes "handleConnectEmail E J api C now ctx token (cs, b, w) \<noteq> (cs, b, w)"
  shows "completeDto (emailDto cs)"
proof -
  have "trim (cs_imapHost cs) \<noteq> []" "trim (cs_smtpHost cs) \<noteq> []" "trim (cs_emailUsername cs) \<noteq> []" "trim (cs_emailPassword cs) \<noteq> []"
    using assms by (auto simp: handleConnectEmail_def)
  then show ?thesis by (auto simp: completeDto_def emailDto_def nonEmpty_def trim_def trimStart_def trimEnd_def)
qed

text \<open>What an approved merge leaves: no live row of the absorbed contact, and no open suggestion of
  that id.\<close>

lemma approveRoute_effect:
  assumes "approveRoute E commits now i claims s = (Inr x, s')"
  shows "\<exists>g. findFirst (\<lambda>g. ims_id g = i) (mergeSuggestions s) = Some g \<and>
    (\<forall>c\<in>set (contacts s'). con_id c = ims_candidateContactIdB g \<longrightarrow> con_deletedAt c \<noteq> None) \<and>
    (\<forall>g'\<in>set (mergeSuggestions s'). ims_id g' = i \<longrightarrow> ims_status g' = Approved)"
proof -
  obtain g s1 where g: "findFirst (\<lambda>g. ims_id g = i) (mergeSuggestions s) = Some g"
    "approveTx E commits now g (jwt_sub claims) s = (Inr (), s1)" "sameRows s1 s'"
    using assms by (auto simp: approveRoute_def approveMergeSuggestion_def suggestionOf_def sameRows_auditLog
        split: sum.splits option.splits prod.splits if_splits)
  moreover have "ims_id g = i" using findFirst_SomeD [OF g(1)] by simp
  ultimately show ?thesis
    by (auto simp: approveTx_def Let_def sameRows_def softDeleteContact_def setContact_def setSuggestion_def logMerge_def drawn_def
        moveMessages_def moveIdentities_def set_updateMany split: option.splits if_splits)
qed

lemma approveRoute_refused:
  assumes "guarded E now auth None (approveRoute E commits now i) s = (Inl (HttpError 401 c), s')"
  shows "s' = s"
  using assms
  by (auto simp: guarded_def approveRoute_def requireOwnSuggestion_def approveMergeSuggestion_def suggestionOf_def approveTx_def Let_def
      split: sum.splits option.splits prod.splits if_splits)

lemma buildPage_rows: "set (pg_data (buildPage rows n f)) \<subseteq> set rows"
  by (auto simp: buildPage_def Let_def dest: in_set_takeD)

lemma listContacts_live: "v \<in> set (pg_data (listContacts ws None None None s None)) \<Longrightarrow>
    \<exists>c\<in>set (contacts s). con_id c = cov_id v \<and> con_deletedAt c = None"
  unfolding listContacts_def contactPage_def mapPage_def Let_def
  by (auto simp: contactView_def dest!: set_mp [OF buildPage_rows] in_set_takeD)

lemma listSuggestions_pending: "v \<in> set (pg_data (listSuggestions c None s None)) \<Longrightarrow>
    \<exists>g\<in>set (mergeSuggestions s). ims_id g = msv_id v \<and> ims_status g = Pending"
  unfolding listSuggestions_def mapPage_def Let_def
  by (auto simp: suggestionView_def dest!: set_mp [OF buildPage_rows] in_set_takeD)

lemma viaFetch_rows:
  assumes "\<And>auth s. snd (route auth s) = s" "viaFetch E C now ctx route token b s = (r, b1, s1)"
  shows "sameRows s s1"
proof -
  obtain q where q: "route (bearer token) s = (q, s)" using assms(1) by (metis prod.collapse)
  show ?thesis
  proof (cases "\<exists>t b2 s2. sharedRefresh E C now ctx b s = (Some t, b2, s2) \<and> (r, b1, s1) = (fst (route (bearer t) s2), b2, s2)")
    case True
    then show ?thesis using sameRows_shared by blast
  next
    case False
    then have "s1 = s \<or> (\<exists>b2. sharedRefresh E C now ctx b s = (None, b2, s1))"
      using assms(2) q assms(1)
      by (auto simp: viaFetch_def split: sum.splits if_splits option.splits prod.splits) (metis fst_conv snd_conv)+
    then show ?thesis using sameRows_shared by auto
  qed
qed

lemma loadSuggestions_rows:
  assumes "loadSuggestions E C now ctx token (pe, b, s) = (pe1, b1, s1)"
  shows "sameRows s s1"
proof -
  have keep: "snd (suggestionsRoute E now auth s) = s" for auth s
    using screen_reads(2) [of E now auth s "fst (suggestionsRoute E now auth s)" "snd (suggestionsRoute E now auth s)"] by simp
  obtain r b2 s2 where v: "viaFetch E C now ctx (suggestionsRoute E now) token b s = (r, b2, s2)"
    using prod_cases3 by blast
  have "s2 = s1" using assms v by (auto simp: loadSuggestions_def split: sum.splits)
  then show ?thesis using viaFetch_rows [OF keep v] by simp
qed

text \<open>An approval the screen reports no error of takes the suggestion and the absorbed contact off
  the screen.\<close>

theorem approved_merge_leaves_screen:
  defines "shown E commits C now ctx token i st \<equiv> fst (handleApproveSuggestion E commits C now ctx token i st)"
  assumes "pe_actionError (shown E commits C now ctx token i (pe, b, s)) = None"
    and "pe_contactsError (shown E commits C now ctx token i (pe, b, s)) = None"
    and "pe_suggestionsError (shown E commits C now ctx token i (pe, b, s)) = None"
  shows "\<exists>g. findFirst (\<lambda>g. ims_id g = i) (mergeSuggestions s) = Some g \<and>
    ims_candidateContactIdB g \<notin> cov_id ` set (pe_contacts (shown E commits C now ctx token i (pe, b, s))) \<and>
    i \<notin> msv_id ` set (pe_mergeSuggestions (shown E commits C now ctx token i (pe, b, s)))"
proof -
  let ?route = "\<lambda>auth. guarded E now auth None (approveRoute E commits now i)"
  let ?pe = "pe\<lparr>pe_actionError := None\<rparr>"
  obtain x b1 s1 where v: "viaFetch E C now ctx ?route token b s = (Inr x, b1, s1)"
    using assms(2) by (auto simp: shown_def handleApproveSuggestion_def split: prod.splits sum.splits)
  obtain pe2 b2 s2 where l: "loadSuggestions E C now ctx token (?pe, b1, s1) = (pe2, b2, s2)"
    by (cases "loadSuggestions E C now ctx token (?pe, b1, s1)")
  have h: "shown E commits C now ctx token i (pe, b, s) = fst (loadContacts E C now ctx token (pe2, b2, s2))"
    using v l by (simp add: shown_def handleApproveSuggestion_def)
  obtain auth s0 claims where s0: "sameRows s s0" "approveRoute E commits now i claims s0 = (Inr x, s1)"
    using viaFetch_answer [OF v] approveRoute_refused by (auto elim!: guarded_cases)
  obtain g where g: "findFirst (\<lambda>g. ims_id g = i) (mergeSuggestions s) = Some g"
    "\<forall>c\<in>set (contacts s1). con_id c = ims_candidateContactIdB g \<longrightarrow> con_deletedAt c \<noteq> None"
    "\<forall>g'\<in>set (mergeSuggestions s1). ims_id g' = i \<longrightarrow> ims_status g' = Approved"
    using approveRoute_effect [OF s0(2)] s0(1) by (auto simp: sameRows_def)
  obtain c1 s3 where sug: "sameRows s1 s3" "pe_mergeSuggestions pe2 = pg_data (listSuggestions c1 None s3 None)"
  proof -
    have "pe_suggestionsError pe2 = None" using assms(4) unfolding h by (auto simp: loadContacts_def split: prod.splits sum.splits)
    then show ?thesis using loadSuggestions_shows [of E C now ctx token ?pe b1 s1] that unfolding l by auto
  qed
  obtain ws s4 where con: "sameRows s2 s4" "fst (loadContacts E C now ctx token (pe2, b2, s2))
      = pe2\<lparr>pe_contacts := pg_data (listContacts ws None None None s4 None), pe_contactsError := None\<rparr>"
    using loadContacts_shows [of E C now ctx token pe2 b2 s2] assms(3) unfolding h by blast
  have "sameRows s1 s4" using loadSuggestions_rows [OF l] con(1) by (rule sameRows_trans)
  then have "ims_candidateContactIdB g \<notin> cov_id ` set (pg_data (listContacts ws None None None s4 None))"
    using g(2) by (auto simp: sameRows_def dest!: listContacts_live)
  moreover have "i \<notin> msv_id ` set (pe_mergeSuggestions pe2)"
    using g(3) sug by (auto simp: sameRows_def dest!: listSuggestions_pending)
  ultimately show ?thesis using g(1) con(2) unfolding h by simp
qed

end
