(* ===== verification/Cursor_Codec.thy ===== *)
theory Cursor_Codec
  imports Pagination
begin

text \<open>
  The text of a cursor (\<open>encodeCursor\<close>, \<open>decodeCursor\<close> of \<open>cursor-pagination.ts\<close>): the payload's
  JSON, a list of code points, as UTF-8 bytes in the URL-safe base64 alphabet without padding.
  \<open>JSON.stringify\<close> and \<open>JSON.parse\<close> are the arguments \<open>stringify\<close> and \<open>parse\<close>; code points and
  bytes are natural numbers.
\<close>

section \<open>UTF-8\<close>

definition surrogate :: "nat \<Rightarrow> bool" where
  "surrogate c \<longleftrightarrow> 55296 \<le> c \<and> c \<le> 57343"

definition scalarValue :: "nat \<Rightarrow> bool" where
  "scalarValue c \<longleftrightarrow> c < 1114112 \<and> \<not> surrogate c"

text \<open>A lone surrogate has no encoding and becomes the replacement character.\<close>

definition utf8Char :: "nat \<Rightarrow> nat list" where
  "utf8Char c =
     (if c < 128 then [c]
      else if c < 2048 then [192 + c div 64, 128 + c mod 64]
      else if surrogate c then [239, 191, 189]
      else if c < 65536 then [224 + c div 4096, 128 + c div 64 mod 64, 128 + c mod 64]
      else [240 + c div 262144, 128 + c div 4096 mod 64, 128 + c div 64 mod 64, 128 + c mod 64])"

definition utf8Bytes :: "nat list \<Rightarrow> nat list" where
  "utf8Bytes cs = concat (map utf8Char cs)"

text \<open>Decoding never fails: what is no encoding becomes a replacement character, and the byte that
  broke a sequence starts the next one.\<close>

function utf8Text :: "nat list \<Rightarrow> nat list" and utf8Tail :: "nat \<Rightarrow> nat \<Rightarrow> nat \<Rightarrow> nat \<Rightarrow> nat list \<Rightarrow> nat list" where
  "utf8Text [] = []"
| "utf8Text (b # bs) =
     (if b < 128 then b # utf8Text bs
      else if 194 \<le> b \<and> b \<le> 223 then utf8Tail 1 (b - 192) 128 191 bs
      else if 224 \<le> b \<and> b \<le> 239 then utf8Tail 2 (b - 224) (if b = 224 then 160 else 128) (if b = 237 then 159 else 191) bs
      else if 240 \<le> b \<and> b \<le> 244 then utf8Tail 3 (b - 240) (if b = 240 then 144 else 128) (if b = 244 then 143 else 191) bs
      else 65533 # utf8Text bs)"
| "utf8Tail n acc low high [] = [65533]"
| "utf8Tail n acc low high (b # bs) =
     (if low \<le> b \<and> b \<le> high
      then (if n \<le> 1 then (acc * 64 + (b - 128)) # utf8Text bs else utf8Tail (n - 1) (acc * 64 + (b - 128)) 128 191 bs)
      else 65533 # utf8Text (b # bs))"
  by pat_completeness auto

termination
  by (relation "measure (\<lambda>x. case x of Inl bs \<Rightarrow> 2 * length bs | Inr (n, acc, low, high, bs) \<Rightarrow> 2 * length bs + 1)") auto

text \<open>A sequence of each width is read back whole.\<close>

lemma utf8_two: "2 \<le> a \<Longrightarrow> a < 32 \<Longrightarrow> d < 64 \<Longrightarrow> utf8Text ((192 + a) # (128 + d) # bs) = (a * 64 + d) # utf8Text bs"
  by simp

lemma utf8_three:
  assumes "a < 16" "b < 64" "d < 64" "a = 0 \<longrightarrow> 32 \<le> b" "a = 13 \<longrightarrow> b < 32"
  shows "utf8Text ((224 + a) # (128 + b) # (128 + d) # bs) = ((a * 64 + b) * 64 + d) # utf8Text bs"
proof -
  have "utf8Text ((224 + a) # (128 + b) # (128 + d) # bs)
      = utf8Tail 2 a (if a = 0 then 160 else 128) (if a = 13 then 159 else 191) ((128 + b) # (128 + d) # bs)"
    using assms(1) by simp
  also have "\<dots> = utf8Tail 1 (a * 64 + b) 128 191 ((128 + d) # bs)" using assms(2,4,5) by auto
  finally show ?thesis using assms(3) by simp
qed

lemma utf8_four:
  assumes "a < 5" "b < 64" "d < 64" "e < 64" "a = 0 \<longrightarrow> 16 \<le> b" "a = 4 \<longrightarrow> b < 16"
  shows "utf8Text ((240 + a) # (128 + b) # (128 + d) # (128 + e) # bs) = (((a * 64 + b) * 64 + d) * 64 + e) # utf8Text bs"
proof -
  have "utf8Text ((240 + a) # (128 + b) # (128 + d) # (128 + e) # bs)
      = utf8Tail 3 a (if a = 0 then 144 else 128) (if a = 4 then 143 else 191) ((128 + b) # (128 + d) # (128 + e) # bs)"
    using assms(1) by simp
  also have "\<dots> = utf8Tail 2 (a * 64 + b) 128 191 ((128 + d) # (128 + e) # bs)" using assms(2,5,6) by auto
  also have "\<dots> = utf8Tail 1 ((a * 64 + b) * 64 + d) 128 191 ((128 + e) # bs)" using assms(3) by simp
  finally show ?thesis using assms(4) by simp
qed

text \<open>The base-64 digits of a number.\<close>

lemma digits64: "c div 64 * 64 + c mod 64 = (c::nat)" "c div 4096 = c div 64 div 64" "c div 262144 = c div 64 div 64 div 64"
  by (simp_all add: div_mult2_eq [symmetric])

lemma utf8_char_text:
  assumes "scalarValue c"
  shows "utf8Text (utf8Char c @ bs) = c # utf8Text bs"
proof -
  define d where "d = c div 64"
  define a where "a = d div 64"
  have c: "d * 64 + c mod 64 = c" and d: "a * 64 + d mod 64 = d" and a: "a div 64 * 64 + a mod 64 = a"
    and div: "c div 4096 = a" "c div 262144 = a div 64"
    using digits64 by (auto simp: d_def a_def)
  have small: "c mod 64 < 64" "d mod 64 < 64" "a mod 64 < 64" by simp_all
  consider "c < 128" | "128 \<le> c" "c < 2048" | "2048 \<le> c" "c < 65536" "\<not> surrogate c" | "65536 \<le> c" "c < 1114112"
    using assms by (fastforce simp: scalarValue_def)
  then show ?thesis
  proof cases
    case 2
    then have "2 \<le> d" "d < 32" using c small by linarith+
    then show ?thesis using 2 utf8_two [of d "c mod 64" bs] c by (simp add: utf8Char_def d_def [symmetric])
  next
    case 3
    have "a < 16" using 3(2) c d by linarith
    moreover have "32 \<le> d mod 64" if "a = 0" using that 3(1) c d small(1) by linarith
    moreover have "d mod 64 < 32" if "a = 13" using that 3(2,3) c d small unfolding surrogate_def by linarith
    ultimately have "a < 16" "a = 0 \<longrightarrow> 32 \<le> d mod 64" "a = 13 \<longrightarrow> d mod 64 < 32" by blast+
    then show ?thesis using 3 utf8_three [of a "d mod 64" "c mod 64" bs] c d
      by (simp add: utf8Char_def div d_def [symmetric])
  next
    case 4
    have "a div 64 < 5" using 4(2) c d a by linarith
    moreover have "16 \<le> a mod 64" if "a div 64 = 0" using that 4(1) c d a small by linarith
    moreover have "a mod 64 < 16" if "a div 64 = 4" using that 4(2) c d a by linarith
    moreover have "\<not> surrogate c" using 4 by (simp add: surrogate_def)
    ultimately show ?thesis using 4 utf8_four [of "a div 64" "a mod 64" "d mod 64" "c mod 64" bs] c d a
      by (simp add: utf8Char_def div d_def [symmetric])
  qed (simp add: utf8Char_def)
qed

lemma utf8_roundtrip: "(\<forall>c\<in>set cs. scalarValue c) \<Longrightarrow> utf8Text (utf8Bytes cs) = cs"
  by (induction cs) (simp_all add: utf8Bytes_def utf8_char_text)

lemma utf8_bytes: "c < 1114112 \<Longrightarrow> b \<in> set (utf8Char c) \<Longrightarrow> b < 256"
  by (auto simp: utf8Char_def split: if_splits)

section \<open>base64url\<close>

definition base64Alphabet :: string where
  "base64Alphabet = ''ABCDEFGHIJKLMNOPQRSTUVWXYZabcdefghijklmnopqrstuvwxyz0123456789-_''"

fun sextets :: "nat list \<Rightarrow> nat list" where
  "sextets (a # b # c # bs) = a div 4 # (a mod 4 * 16 + b div 16) # (b mod 16 * 4 + c div 64) # c mod 64 # sextets bs"
| "sextets [a, b] = [a div 4, a mod 4 * 16 + b div 16, b mod 16 * 4]"
| "sextets [a] = [a div 4, a mod 4 * 16]"
| "sextets [] = []"

definition base64url :: "nat list \<Rightarrow> string" where
  "base64url bs = map (\<lambda>n. base64Alphabet ! n) (sextets bs)"

text \<open>Decoding takes the standard alphabet's last two letters too, skips every other character, and
  drops bits that fill no byte.\<close>

definition sextetOf :: "char \<Rightarrow> nat option" where
  "sextetOf c = (if c = CHR ''+'' then Some 62 else if c = CHR ''/'' then Some 63
     else map_of (zip base64Alphabet [0..<64]) c)"

fun octets :: "nat list \<Rightarrow> nat list" where
  "octets (p # q # r # t # ns) = (p * 4 + q div 16) # (q mod 16 * 16 + r div 4) # (r mod 4 * 64 + t) # octets ns"
| "octets [p, q, r] = [p * 4 + q div 16, q mod 16 * 16 + r div 4]"
| "octets [p, q] = [p * 4 + q div 16]"
| "octets ns = []"

definition base64Bytes :: "string \<Rightarrow> nat list" where
  "base64Bytes t = octets (List.map_filter sextetOf t)"

lemma sextets_range: "(\<forall>b\<in>set bs. b < 256) \<Longrightarrow> \<forall>n\<in>set (sextets bs). n < 64"
proof (induction bs rule: sextets.induct)
  case (1 a b c bs)
  have "a div 4 < 64" "a mod 4 * 16 + b div 16 < 64" "b mod 16 * 4 + c div 64 < 64" using 1(2) by auto
  then show ?case using 1 by auto
qed auto

lemma octets_sextets: "(\<forall>b\<in>set bs. b < 256) \<Longrightarrow> octets (sextets bs) = bs"
proof (induction bs rule: sextets.induct)
  case (1 a b c bs)
  have "(a mod 4 * 16 + b div 16) div 16 = a mod 4" "(a mod 4 * 16 + b div 16) mod 16 = b div 16"
    "(b mod 16 * 4 + c div 64) div 4 = b mod 16" "(b mod 16 * 4 + c div 64) mod 4 = c div 64"
    using 1(2) by auto
  then show ?case using 1 by simp
next
  case (2 a b)
  then show ?case by auto
qed auto

lemma sextetOf_letter: "n < 64 \<Longrightarrow> sextetOf (base64Alphabet ! n) = Some n"
proof -
  have "list_all (\<lambda>n. sextetOf (base64Alphabet ! n) = Some n) [0..<64]" by code_simp
  then show "n < 64 \<Longrightarrow> sextetOf (base64Alphabet ! n) = Some n" by (simp add: list_all_iff)
qed

lemma base64_roundtrip:
  assumes "\<forall>b\<in>set bs. b < 256"
  shows "base64Bytes (base64url bs) = bs"
proof -
  have "List.map_filter sextetOf (map (\<lambda>n. base64Alphabet ! n) ns) = ns" if "\<forall>n\<in>set ns. n < 64" for ns
    using that by (induction ns) (simp_all add: List.map_filter_simps sextetOf_letter)
  then show ?thesis
    using assms by (simp add: base64Bytes_def base64url_def sextets_range octets_sextets)
qed

section \<open>Cursors\<close>

definition encodeCursor :: "('v \<Rightarrow> nat list) \<Rightarrow> 'v \<Rightarrow> string" where
  "encodeCursor stringify payload = base64url (utf8Bytes (stringify payload))"

text \<open>A cursor that cannot be read is no cursor; \<open>parse\<close> fails where \<open>JSON.parse\<close> throws.\<close>

definition decodeCursor :: "(nat list \<Rightarrow> 'v option) \<Rightarrow> string option \<Rightarrow> 'v option" where
  "decodeCursor parse cursor = (case cursor of
      None \<Rightarrow> None
    | Some t \<Rightarrow> if t = [] then None else parse (utf8Text (base64Bytes t)))"

text \<open>A payload comes back from its cursor, and the cursor is made of letters a URL takes as they are.\<close>

theorem cursor_roundtrip:
  assumes "parse (stringify v) = Some v" "stringify v \<noteq> []" "\<forall>c\<in>set (stringify v). scalarValue c"
  shows "decodeCursor parse (Some (encodeCursor stringify v)) = Some v \<and>
    set (encodeCursor stringify v) \<subseteq> set base64Alphabet"
proof -
  have bytes: "\<forall>b\<in>set (utf8Bytes (stringify v)). b < 256"
    using assms(3) by (auto simp: utf8Bytes_def scalarValue_def intro: utf8_bytes)
  then have same: "utf8Text (base64Bytes (encodeCursor stringify v)) = stringify v"
    using assms(3) by (simp add: encodeCursor_def base64_roundtrip utf8_roundtrip)
  then have "encodeCursor stringify v \<noteq> []"
    using assms(2) by (auto simp: base64Bytes_def List.map_filter_simps)
  moreover have "set (encodeCursor stringify v) \<subseteq> set base64Alphabet"
  proof -
    have "length base64Alphabet = 64" by (simp add: base64Alphabet_def)
    then show ?thesis using sextets_range [OF bytes] by (auto simp: encodeCursor_def base64url_def)
  qed
  ultimately show ?thesis using same assms(1) by (simp add: decodeCursor_def)
qed

lemma cursor_examples:
  "encodeCursor (map of_char) ''{}'' = ''e30''" "base64url [251, 255] = ''-_8''" "base64Bytes ''+/8='' = [251, 255]"
  "utf8Text [226, 130, 172, 226, 40] = [8364, 65533, 40]"
  by (simp_all add: encodeCursor_def utf8Bytes_def utf8Char_def base64url_def base64Alphabet_def base64Bytes_def sextetOf_def
      List.map_filter_simps upt_rec)

end
